(* ===== verification/Prelude.thy ===== *)
theory Prelude
  imports Main "HOL-Library.Sublist"
begin

text \<open>
  What every other theory of the development shares:
  \<^item> the exceptions of the Python program as values (\<open>py_exc\<close>), computations that may raise
    (\<open>'a result\<close>) and computations that may raise and change a world (\<open>('w, 'a) io\<close>);
  \<^item> the insertion-ordered dictionary of Python as an association list with distinct keys,
    behind the interface \<open>dict_ops\<close>.
  Exceptions carry the class and, where the program reads it, the status code; message texts
  are not modelled.  Strings are lists of ASCII characters.
\<close>

named_theorems result_simps "rewrite rules for raising computations"
named_theorems io_laws "laws of sequencing, for rewriting computations before they run"
named_theorems dict_simps "rewrite rules for insertion-ordered dictionaries"

section \<open>Exceptions and raising computations\<close>

text \<open>The exceptions of the Couchbase SDK that the program tells apart.\<close>

datatype couchbase_error =
    BucketAlreadyExistsException
  | BucketDoesNotExistException
  | CollectionAlreadyExistsException
  | DocumentNotFoundException
  | QueryIndexAlreadyExistsException
  | ScopeAlreadyExistsException
  | OtherCouchbaseException

datatype py_exc =
    ValueError
  | TypeError
  | KeyError
  | IndexError
  | AttributeError
  | AssertionError
  | NotImplementedError
  | FileNotFoundError
  | ModuleNotFoundError
  | UnboundLocalError
  | ZeroDivisionError
  | RuntimeError
  | RecursionError
  | TimeoutError
  | InvalidStateError
  | OSError
  | CalledProcessError
  | PlainException
  | BadParameter
  | BadZipFile
  | HTTPError
  | RequestException
  | Skipped
  | UsageError
  | ClickException
  | StopIteration
  | CouchbaseError couchbase_error
  | ClientError
  | ClientConnectorError
  | CblTestError
  | CblTimeoutError
  | CblTestServerBadResponseError "int option"
  | CblSyncGatewayBadResponseError "int option"
  | CblEdgeServerBadResponseError "int option"

type_synonym 'a result = "py_exc + 'a"

definition rbind :: "'a result \<Rightarrow> ('a \<Rightarrow> 'b result) \<Rightarrow> 'b result" where
  "rbind m f = (case m of Inl e \<Rightarrow> Inl e | Inr x \<Rightarrow> f x)"

definition py_assert :: "bool \<Rightarrow> unit result" where
  "py_assert b = (if b then Inr () else Inl AssertionError)"

lemma rbind_Inl [simp, result_simps]: "rbind (Inl e) f = Inl e"
  by (simp add: rbind_def)

lemma rbind_Inr [simp, result_simps]: "rbind (Inr x) f = f x"
  by (simp add: rbind_def)

lemma rbind_eq_Inr_iff [result_simps]:
  "rbind m f = Inr y \<longleftrightarrow> (\<exists>x. m = Inr x \<and> f x = Inr y)"
  by (cases m) auto

lemma rbind_eq_Inl_iff [result_simps]:
  "rbind m f = Inl e \<longleftrightarrow> m = Inl e \<or> (\<exists>x. m = Inr x \<and> f x = Inl e)"
  by (cases m) auto

text \<open>The steps of a sequence that succeeds.\<close>

lemma rbind_InrE:
  assumes "rbind m f = Inr y"
  obtains x where "m = Inr x" "f x = Inr y"
  using assms by (auto simp: rbind_eq_Inr_iff)

lemma rbind_assoc: "rbind (rbind m f) g = rbind m (\<lambda>x. rbind (f x) g)"
  by (cases m) auto

lemma py_assert_True [simp, result_simps]: "py_assert True = Inr ()"
  by (simp add: py_assert_def)

lemma py_assert_False [simp, result_simps]: "py_assert False = Inl AssertionError"
  by (simp add: py_assert_def)

lemma py_assert_Inr_iff [simp]: "py_assert b = Inr u \<longleftrightarrow> b"
  by (simp add: py_assert_def)

lemma py_assert_Inl_iff [simp]: "py_assert b = Inl e \<longleftrightarrow> \<not> b \<and> e = AssertionError"
  by (auto simp: py_assert_def)

text \<open>A list comprehension whose element expression may raise: the first exception wins.\<close>

fun mapM :: "('a \<Rightarrow> 'b result) \<Rightarrow> 'a list \<Rightarrow> 'b list result" where
  "mapM f [] = Inr []"
| "mapM f (x # xs) = rbind (f x) (\<lambda>y. rbind (mapM f xs) (\<lambda>ys. Inr (y # ys)))"

lemma mapM_Inr_iff: "mapM f xs = Inr ys \<longleftrightarrow> list_all2 (\<lambda>x y. f x = Inr y) xs ys"
  by (induction xs arbitrary: ys) (auto simp: result_simps list_all2_Cons1)

lemma mapM_total: "(\<And>x. x \<in> set xs \<Longrightarrow> f x = Inr (g x)) \<Longrightarrow> mapM f xs = Inr (map g xs)"
  by (induction xs) auto

lemma mapM_mem: "mapM f xs = Inr ys \<Longrightarrow> y \<in> set ys \<Longrightarrow> \<exists>x \<in> set xs. f x = Inr y"
  by (induction xs arbitrary: ys) (auto simp: rbind_eq_Inr_iff)

lemma mapM_length: "mapM f xs = Inr ys \<Longrightarrow> length ys = length xs"
  by (auto simp: mapM_Inr_iff dest: list_all2_lengthD)

lemma mapM_Inl_ex: "mapM f xs = Inl e \<Longrightarrow> \<exists>x \<in> set xs. f x = Inl e"
  by (induction xs) (auto simp: result_simps)

lemma mapM_fails: "x \<in> set xs \<Longrightarrow> f x = Inl e \<Longrightarrow> \<exists>e'. mapM f xs = Inl e'"
  by (induction xs) (auto simp: rbind_def split: sum.splits)

text \<open>\<open>xs[i]\<close> for any integer \<open>i\<close>: negative indices count from the end.\<close>

definition py_nth :: "'a list \<Rightarrow> int \<Rightarrow> 'a result" where
  "py_nth xs i =
     (if 0 \<le> i \<and> i < int (length xs) then Inr (xs ! nat i)
      else if - int (length xs) \<le> i \<and> i < 0 then Inr (xs ! nat (int (length xs) + i))
      else Inl IndexError)"

lemma py_nth_nat [simp]: "n < length xs \<Longrightarrow> py_nth xs (int n) = Inr (xs ! n)"
  by (simp add: py_nth_def)

lemma py_nth_mem: "py_nth xs i = Inr x \<Longrightarrow> x \<in> set xs"
  by (auto simp: py_nth_def split: if_splits)

lemma py_nth_Inl: "py_nth xs i = Inl e \<Longrightarrow> e = IndexError"
  by (auto simp: py_nth_def split: if_splits)

section \<open>Raising computations over a world\<close>

text \<open>
  Code that sends requests, reads the clock or mutates an object is a function of the world
  before the call.  An exception keeps the changes made so far.
\<close>

type_synonym ('w, 'a) io = "'w \<Rightarrow> 'a result \<times> 'w"

definition io_return :: "'a \<Rightarrow> ('w, 'a) io" where
  "io_return x = (\<lambda>w. (Inr x, w))"

definition io_raise :: "py_exc \<Rightarrow> ('w, 'a) io" where
  "io_raise e = (\<lambda>w. (Inl e, w))"

definition io_lift :: "'a result \<Rightarrow> ('w, 'a) io" where
  "io_lift r = (\<lambda>w. (r, w))"

definition io_bind :: "('w, 'a) io \<Rightarrow> ('a \<Rightarrow> ('w, 'b) io) \<Rightarrow> ('w, 'b) io" where
  "io_bind m f = (\<lambda>w. case m w of (Inl e, w') \<Rightarrow> (Inl e, w') | (Inr x, w') \<Rightarrow> f x w')"

definition io_try :: "('w, 'a) io \<Rightarrow> (py_exc \<Rightarrow> ('w, 'a) io) \<Rightarrow> ('w, 'a) io" where
  "io_try m h = (\<lambda>w. case m w of (Inl e, w') \<Rightarrow> h e w' | (Inr x, w') \<Rightarrow> (Inr x, w'))"

lemma io_return_run [simp]: "io_return x w = (Inr x, w)"
  by (simp add: io_return_def)

lemma io_raise_run [simp]: "io_raise e w = (Inl e, w)"
  by (simp add: io_raise_def)

lemma io_lift_run [simp]: "io_lift r w = (r, w)"
  by (simp add: io_lift_def)

lemma io_bind_Inr: "m w = (Inr x, w') \<Longrightarrow> io_bind m f w = f x w'"
  by (simp add: io_bind_def)

lemma io_bind_Inl: "m w = (Inl e, w') \<Longrightarrow> io_bind m f w = (Inl e, w')"
  by (simp add: io_bind_def)

lemma io_try_Inr: "m w = (Inr x, w') \<Longrightarrow> io_try m h w = (Inr x, w')"
  by (simp add: io_try_def)

lemma io_try_Inl: "m w = (Inl e, w') \<Longrightarrow> io_try m h w = h e w'"
  by (simp add: io_try_def)

lemmas io_step = io_bind_Inr io_bind_Inl io_try_Inr io_try_Inl

lemma io_bind_InrE:
  assumes "io_bind m f w = (Inr y, w')"
  obtains x v where "m w = (Inr x, v)" "f x v = (Inr y, w')"
  using assms by (auto simp: io_bind_def split: prod.splits sum.splits)

lemma io_bind_assoc: "io_bind (io_bind m f) g = io_bind m (\<lambda>x. io_bind (f x) g)"
  by (auto simp: io_bind_def fun_eq_iff split: prod.splits sum.splits)

lemma io_bind_return [io_laws]: "io_bind m io_return = m" "io_bind m (\<lambda>_. io_return ()) = m"
  by (auto simp: io_bind_def fun_eq_iff split: prod.splits sum.splits)

lemma io_return_bind [io_laws]: "io_bind (io_return x) f = f x"
  by (simp add: io_bind_def io_return_def)

lemma io_bind_Pair [io_laws]: "io_bind (Pair (Inr x)) f = f x" "io_bind (Pair (Inl e)) f = Pair (Inl e)"
  by (auto simp: io_bind_def fun_eq_iff)

lemma io_lift_Inr [io_laws]: "io_lift (Inr x) = io_return x"
  by (simp add: io_lift_def io_return_def)

section \<open>Insertion-ordered dictionaries\<close>

type_synonym ('k, 'v) pydict = "('k \<times> 'v) list"

text \<open>
  \<open>d[k] = v\<close> overwrites in place or appends; \<open>d.get(k)\<close> is \<open>map_of d k\<close>; \<open>k in d\<close> is
  \<open>d_has d k\<close>; \<open>del d[k]\<close> (for a key that is there) is \<open>d_del\<close>; \<open>d.update(e)\<close> assigns the
  entries of \<open>e\<close> in order.
\<close>

fun d_set :: "('k, 'v) pydict \<Rightarrow> 'k \<Rightarrow> 'v \<Rightarrow> ('k, 'v) pydict" where
  "d_set [] k v = [(k, v)]"
| "d_set ((k', v') # d) k v = (if k' = k then (k', v) # d else (k', v') # d_set d k v)"

definition d_has :: "('k, 'v) pydict \<Rightarrow> 'k \<Rightarrow> bool" where
  "d_has d k = (map_of d k \<noteq> None)"

definition d_del :: "('k, 'v) pydict \<Rightarrow> 'k \<Rightarrow> ('k, 'v) pydict" where
  "d_del d k = filter (\<lambda>kv. fst kv \<noteq> k) d"

definition d_update :: "('k, 'v) pydict \<Rightarrow> ('k, 'v) pydict \<Rightarrow> ('k, 'v) pydict" where
  "d_update d e = foldl (\<lambda>acc kv. d_set acc (fst kv) (snd kv)) d e"

definition d_keys :: "('k, 'v) pydict \<Rightarrow> 'k list" where
  "d_keys d = map fst d"

definition d_wf :: "('k, 'v) pydict \<Rightarrow> bool" where
  "d_wf d = distinct (map fst d)"

text \<open>\<open>d[k]\<close>, which raises \<open>KeyError\<close> for a missing key.\<close>

definition d_item :: "('k, 'v) pydict \<Rightarrow> 'k \<Rightarrow> 'v result" where
  "d_item d k = (case map_of d k of None \<Rightarrow> Inl KeyError | Some v \<Rightarrow> Inr v)"

lemma d_set_keys: "map fst (d_set d k v) = (if k \<in> set (map fst d) then map fst d else map fst d @ [k])"
  by (induction d) (force simp: image_iff)+

lemma map_of_d_set [simp, dict_simps]: "map_of (d_set d k v) = (map_of d)(k \<mapsto> v)"
  by (induction d) auto

lemma d_wf_Nil [simp]: "d_wf []"
  by (simp add: d_wf_def)

lemma d_wf_set [simp, intro]: "d_wf d \<Longrightarrow> d_wf (d_set d k v)"
  by (auto simp: d_wf_def d_set_keys)

lemma d_wf_del [simp, intro]: "d_wf d \<Longrightarrow> d_wf (d_del d k)"
  by (induction d) (auto simp: d_wf_def d_del_def)

lemma map_of_d_del [simp, dict_simps]: "map_of (d_del d k) = (map_of d)(k := None)"
  by (induction d) (auto simp: d_del_def)

lemma d_has_set [simp, dict_simps]: "d_has (d_set d k v) k' = (k' = k \<or> d_has d k')"
  by (auto simp: d_has_def)

lemma d_has_del [simp, dict_simps]: "d_has (d_del d k) k' = (k' \<noteq> k \<and> d_has d k')"
  by (auto simp: d_has_def)

lemma d_has_iff_keys: "d_has d k \<longleftrightarrow> k \<in> set (d_keys d)"
  by (auto simp: d_has_def d_keys_def map_of_eq_None_iff)

lemma d_set_new: "\<not> d_has d k \<Longrightarrow> d_set d k v = d @ [(k, v)]"
  by (induction d) (auto simp: d_has_def split: if_splits)

lemma d_update_Nil [simp]: "d_update d [] = d"
  by (simp add: d_update_def)

lemma d_update_Cons [simp]: "d_update d (kv # e) = d_update (d_set d (fst kv) (snd kv)) e"
  by (simp add: d_update_def)

lemma d_wf_update: "d_wf d \<Longrightarrow> d_wf (d_update d e)"
  by (induction e arbitrary: d) auto

lemma map_of_d_update: "d_wf e \<Longrightarrow> map_of (d_update d e) = map_of d ++ map_of e"
proof (induction e arbitrary: d)
  case Nil
  then show ?case by simp
next
  case (Cons kv e)
  then have wf: "d_wf e" and new: "map_of e (fst kv) = None"
    by (auto simp: d_wf_def map_of_eq_None_iff)
  from Cons.IH [OF wf] have
    "map_of (d_update d (kv # e)) = (map_of d)(fst kv \<mapsto> snd kv) ++ map_of e"
    by (simp only: d_update_Cons map_of_d_set)
  also have "\<dots> = map_of d ++ map_of (kv # e)"
    using new by (auto simp: map_add_def fun_eq_iff split: option.splits)
  finally show ?case .
qed

lemma d_item_Inr_iff: "d_item d k = Inr v \<longleftrightarrow> map_of d k = Some v"
  by (auto simp: d_item_def split: option.splits)

lemma d_item_Inl_iff: "d_item d k = Inl e \<longleftrightarrow> map_of d k = None \<and> e = KeyError"
  by (auto simp: d_item_def split: option.splits)

text \<open>
  The interface the dictionary's clients (registries, request bodies, response tables) rely on:
  what a lookup returns after an assignment, and that assignments keep the invariant.
\<close>

locale dict_ops =
  fixes get :: "'d \<Rightarrow> 'k \<Rightarrow> 'v option"
    and put :: "'d \<Rightarrow> 'k \<Rightarrow> 'v \<Rightarrow> 'd"
    and inv :: "'d \<Rightarrow> bool"
  assumes get_put: "inv d \<Longrightarrow> get (put d k v) = (get d)(k \<mapsto> v)"
    and inv_put: "inv d \<Longrightarrow> inv (put d k v)"
begin

text \<open>A loop that assigns the same value to every key of a list (\<open>for k in ks: d[k] = v\<close>).\<close>

definition put_all :: "'d \<Rightarrow> 'k list \<Rightarrow> 'v \<Rightarrow> 'd" where
  "put_all d ks v = foldl (\<lambda>acc k. put acc k v) d ks"

lemma put_all_Nil [simp]: "put_all d [] v = d"
  by (simp add: put_all_def)

lemma put_all_Cons [simp]: "put_all d (k # ks) v = put_all (put d k v) ks v"
  by (simp add: put_all_def)

lemma inv_put_all: "inv d \<Longrightarrow> inv (put_all d ks v)"
  by (induction ks arbitrary: d) (auto simp: inv_put)

lemma get_put_all:
  "inv d \<Longrightarrow> get (put_all d ks v) k = (if k \<in> set ks then Some v else get d k)"
  by (induction ks arbitrary: d) (auto simp: inv_put get_put)

text \<open>The last of two assignments to a key wins.\<close>

lemma get_put_put: "inv d \<Longrightarrow> get (put (put d k v) k w) k = Some w"
  by (simp add: get_put inv_put)

lemma get_put_other: "inv d \<Longrightarrow> k \<noteq> k' \<Longrightarrow> get (put d k v) k' = get d k'"
  by (simp add: get_put)

end

interpretation pd: dict_ops "map_of :: ('k, 'v) pydict \<Rightarrow> 'k \<Rightarrow> 'v option" d_set d_wf
  by unfold_locales auto

end
