(* ===== verification/PyStrings.thy ===== *)
theory PyStrings
  imports Prelude
begin

text \<open>
  The methods of Python's \<open>str\<close> the program calls, on lists of ASCII characters: \<open>upper\<close>,
  \<open>lower\<close>, \<open>split\<close>, \<open>strip\<close>, \<open>in\<close>, \<open>find\<close>, \<open>replace\<close>, \<open>startswith\<close>, \<open>endswith\<close> and
  \<open>int(...)\<close>.  For characters outside ASCII the case mappings of Python differ.
\<close>

named_theorems string_simps "rewrite rules for string methods"

section \<open>Case mappings\<close>

definition upper_char :: "char \<Rightarrow> char" where
  "upper_char c = (if 97 \<le> (of_char c :: nat) \<and> (of_char c :: nat) \<le> 122
     then char_of ((of_char c :: nat) - 32) else c)"

definition lower_char :: "char \<Rightarrow> char" where
  "lower_char c = (if 65 \<le> (of_char c :: nat) \<and> (of_char c :: nat) \<le> 90
     then char_of ((of_char c :: nat) + 32) else c)"

definition py_upper :: "string \<Rightarrow> string" where
  "py_upper = map upper_char"

definition py_lower :: "string \<Rightarrow> string" where
  "py_lower = map lower_char"

lemma upper_char_idem [simp]: "upper_char (upper_char c) = upper_char c"
  by (auto simp: upper_char_def)

lemma py_upper_idem [simp, string_simps]: "py_upper (py_upper s) = py_upper s"
  by (simp add: py_upper_def)

lemma length_py_upper [simp, string_simps]: "length (py_upper s) = length s"
  by (simp add: py_upper_def)

section \<open>Splitting and joining\<close>

fun split_on :: "char \<Rightarrow> string \<Rightarrow> string list" where
  "split_on c [] = [[]]"
| "split_on c (x # xs) =
     (if x = c then [] # split_on c xs
      else (case split_on c xs of [] \<Rightarrow> [[x]] | w # ws \<Rightarrow> (x # w) # ws))"

fun join_with :: "char \<Rightarrow> string list \<Rightarrow> string" where
  "join_with c [] = []"
| "join_with c [w] = w"
| "join_with c (w # ws) = w @ c # join_with c ws"

lemma split_on_nonempty [simp]: "split_on c s \<noteq> []"
  by (induction s) (auto split: list.splits)

lemma join_split [string_simps]: "join_with c (split_on c s) = s"
proof (induction s)
  case Nil
  then show ?case by simp
next
  case (Cons x xs)
  obtain w ws where w: "split_on c xs = w # ws"
    by (cases "split_on c xs") auto
  with Cons show ?case by (cases ws) auto
qed

lemma split_on_free: "w \<in> set (split_on c s) \<Longrightarrow> c \<notin> set w"
  by (induction s arbitrary: w) (auto split: if_splits list.splits)

lemma split_on_no_sep: "c \<notin> set s \<Longrightarrow> split_on c s = [s]"
  by (induction s) auto

lemma split_on_append: "c \<notin> set w \<Longrightarrow> split_on c (w @ c # s) = w # split_on c s"
  by (induction w) auto

lemma split_join: "ws \<noteq> [] \<Longrightarrow> (\<And>w. w \<in> set ws \<Longrightarrow> c \<notin> set w) \<Longrightarrow> split_on c (join_with c ws) = ws"
  by (induction c ws rule: join_with.induct) (auto simp: split_on_no_sep split_on_append)

lemma length_split_on: "length (split_on c s) = Suc (count_list s c)"
  by (induction s) (auto split: list.splits)

lemma split_on_single_iff: "length (split_on c s) = 1 \<longleftrightarrow> c \<notin> set s"
  by (simp add: length_split_on count_list_0_iff)

text \<open>The part after the last separator, \<open>s.split(c)[-1]\<close>.\<close>

definition last_part :: "char \<Rightarrow> string \<Rightarrow> string" where
  "last_part c s = last (split_on c s)"

lemma last_part_free: "c \<notin> set (last_part c s)"
  unfolding last_part_def by (rule split_on_free [where s = s]) simp

lemma last_part_idem [simp]: "last_part c (last_part c s) = last_part c s"
  by (simp add: last_part_def [of c "last_part c s"] split_on_no_sep last_part_free)

lemma last_part_no_sep: "c \<notin> set s \<Longrightarrow> last_part c s = s"
  by (simp add: last_part_def split_on_no_sep)

lemma last_part_append: "c \<notin> set s \<Longrightarrow> last_part c (p @ c # s) = s"
  by (induction p)
    (auto simp: last_part_def split_on_no_sep length_split_on split: list.splits
      dest: arg_cong [where f = length])

text \<open>\<open>s.split(c, 1)\<close> for a string that contains \<open>c\<close>: what is before and after the first one.\<close>

definition split_first :: "char \<Rightarrow> string \<Rightarrow> string \<times> string" where
  "split_first c s = (takeWhile (\<lambda>x. x \<noteq> c) s, drop (Suc (length (takeWhile (\<lambda>x. x \<noteq> c) s))) s)"

lemma split_first_join: "c \<in> set s \<Longrightarrow> fst (split_first c s) @ c # snd (split_first c s) = s"
proof (induction s)
  case Nil
  then show ?case by simp
next
  case (Cons x xs)
  then show ?case by (cases "x = c") (auto simp: split_first_def)
qed

lemma split_first_append: "c \<notin> set v \<Longrightarrow> split_first c (v @ c # b) = (v, b)"
  by (induction v) (auto simp: split_first_def)

section \<open>Searching and replacing\<close>

fun contains_sub :: "string \<Rightarrow> string \<Rightarrow> bool" where
  "contains_sub n [] = (n = [])"
| "contains_sub n (x # xs) = (prefix n (x # xs) \<or> contains_sub n xs)"

lemma contains_sub_sublist [string_simps]: "contains_sub n s \<longleftrightarrow> sublist n s"
  by (induction s) (auto simp: sublist_Cons_right)

text \<open>\<open>s.find(c)\<close>: the index of the first occurrence, or -1.\<close>

definition py_find :: "string \<Rightarrow> char \<Rightarrow> int" where
  "py_find s c = (if c \<in> set s then int (length (takeWhile (\<lambda>x. x \<noteq> c) s)) else - 1)"

definition replace_char :: "char \<Rightarrow> char \<Rightarrow> string \<Rightarrow> string" where
  "replace_char a b s = map (\<lambda>x. if x = a then b else x) s"

text \<open>\<open>s.replace(old, new)\<close> for a non-empty \<open>old\<close>: leftmost, non-overlapping occurrences.\<close>

fun replace_sub :: "string \<Rightarrow> string \<Rightarrow> string \<Rightarrow> string" where
  "replace_sub old new [] = []"
| "replace_sub old new (x # xs) =
     (if old \<noteq> [] \<and> prefix old (x # xs)
      then new @ replace_sub old new (drop (length old - 1) xs)
      else x # replace_sub old new xs)"

lemma replace_sub_absent: "\<not> sublist old s \<Longrightarrow> replace_sub old new s = s"
  by (induction s) (auto simp: sublist_Cons_right)

lemma replace_sub_no_op: "old = [] \<Longrightarrow> replace_sub old new s = s"
  by (induction s) auto

definition py_removeprefix :: "string \<Rightarrow> string \<Rightarrow> string" where
  "py_removeprefix p s = (if prefix p s then drop (length p) s else s)"

definition is_space :: "char \<Rightarrow> bool" where
  "is_space c = (let n = (of_char c :: nat) in n = 32 \<or> (9 \<le> n \<and> n \<le> 13) \<or> (28 \<le> n \<and> n \<le> 31))"

definition py_strip :: "string \<Rightarrow> string" where
  "py_strip s = rev (dropWhile is_space (rev (dropWhile is_space s)))"

text \<open>\<open>s.split()\<close> without a separator: the maximal runs of non-space characters.\<close>

fun split_ws :: "string \<Rightarrow> string list" where
  "split_ws [] = []"
| "split_ws (x # xs) =
     (if is_space x then split_ws xs
      else (case xs of
              [] \<Rightarrow> [[x]]
            | y # ys \<Rightarrow> if is_space y then [x] # split_ws xs
                      else (case split_ws xs of [] \<Rightarrow> [[x]] | w # ws \<Rightarrow> (x # w) # ws)))"

section \<open>Reading integers\<close>

definition digit_val :: "char \<Rightarrow> int option" where
  "digit_val c = (let n = (of_char c :: nat) in if 48 \<le> n \<and> n \<le> 57 then Some (int (n - 48)) else None)"

text \<open>
  \<open>int(s)\<close>: surrounding whitespace is dropped, then an optional sign, then digits that single
  underscores may separate; \<open>None\<close> where Python raises \<open>ValueError\<close>.
\<close>

fun digits_val :: "int \<Rightarrow> string \<Rightarrow> int option" where
  "digits_val acc [] = Some acc"
| "digits_val acc (c # cs) =
     (case digit_val c of
        Some n \<Rightarrow> digits_val (10 * acc + n) cs
      | None \<Rightarrow>
         (if c = CHR ''_''
          then (case cs of
                  [] \<Rightarrow> None
                | d # ds \<Rightarrow> (case digit_val d of None \<Rightarrow> None | Some m \<Rightarrow> digits_val (10 * acc + m) ds))
          else None))"

definition unsigned_val :: "string \<Rightarrow> int option" where
  "unsigned_val s =
     (case s of [] \<Rightarrow> None
      | c # cs \<Rightarrow> (case digit_val c of None \<Rightarrow> None | Some n \<Rightarrow> digits_val n cs))"

definition py_int :: "string \<Rightarrow> int option" where
  "py_int s0 =
     (case py_strip s0 of
        [] \<Rightarrow> None
      | c # cs \<Rightarrow>
          if c = CHR ''-'' then map_option uminus (unsigned_val cs)
          else if c = CHR ''+'' then unsigned_val cs
          else unsigned_val (c # cs))"

lemma py_int_examples:
  "py_int ''42'' = Some 42" "py_int '' -7 '' = Some (- 7)" "py_int ''1_0'' = Some 10"
  "py_int ''b1'' = None" "py_int '''' = None"
  by code_simp+

section \<open>The path of a URL\<close>

text \<open>
  \<open>urlparse(url).path\<close>, step by step as \<open>urllib.parse\<close> computes it: leading control characters
  and blanks and all tabs and line ends are dropped; a scheme is what stands before the first
  colon when it starts with a letter and has only scheme characters; after \<open>//\<close> the network
  location reaches to the first of \<open>/ ? #\<close>, and unbalanced brackets in it raise \<open>ValueError\<close>;
  fragment, query and (for the schemes that have them) parameters are cut off.  The syntax of a
  bracketed IP literal is not checked.
\<close>

definition is_alpha :: "char \<Rightarrow> bool" where
  "is_alpha c = (let n = (of_char c :: nat) in (65 \<le> n \<and> n \<le> 90) \<or> (97 \<le> n \<and> n \<le> 122))"

definition is_digit :: "char \<Rightarrow> bool" where
  "is_digit c = (let n = (of_char c :: nat) in 48 \<le> n \<and> n \<le> 57)"

definition is_scheme_char :: "char \<Rightarrow> bool" where
  "is_scheme_char c = (is_alpha c \<or> is_digit c \<or> c \<in> set ''+-.'')"

definition url_clean :: "string \<Rightarrow> string" where
  "url_clean s = filter (\<lambda>c. (of_char c :: nat) \<notin> {9, 10, 13})
     (dropWhile (\<lambda>c. (of_char c :: nat) \<le> 32) s)"

definition before :: "char \<Rightarrow> string \<Rightarrow> string" where
  "before c s = takeWhile (\<lambda>x. x \<noteq> c) s"

definition url_scheme :: "string \<Rightarrow> string \<times> string" where
  "url_scheme s =
     (let sch = before (CHR '':'') s in
      if CHR '':'' \<in> set s \<and> sch \<noteq> [] \<and> is_alpha (hd s) \<and> list_all is_scheme_char sch
      then (py_lower sch, drop (Suc (length sch)) s) else ([], s))"

definition url_netloc :: "string \<Rightarrow> string \<times> string" where
  "url_netloc s =
     (if prefix ''//'' s
      then (takeWhile (\<lambda>c. c \<notin> set ''/?#'') (drop 2 s), dropWhile (\<lambda>c. c \<notin> set ''/?#'') (drop 2 s))
      else ([], s))"

definition uses_params :: "string list" where
  "uses_params = ['''', ''ftp'', ''hdl'', ''prospero'', ''http'', ''https'', ''shttp'', ''rtsp'', ''rtsps'',
     ''sip'', ''sips'', ''mms'', ''sftp'', ''tel'']"

definition cut_params :: "string \<Rightarrow> string" where
  "cut_params s =
     (let name = last_part (CHR ''/'') s
      in take (length s - length name) s @ before (CHR '';'') name)"

definition url_path :: "string \<Rightarrow> string result" where
  "url_path url =
     (let (scheme, rest) = url_scheme (url_clean url);
          (netloc, rest) = url_netloc rest
      in if (CHR ''['' \<in> set netloc) \<noteq> (CHR '']'' \<in> set netloc) then Inl ValueError
         else let path = before (CHR ''?'') (before (CHR ''#'') rest)
              in Inr (if scheme \<in> set uses_params then cut_params path else path))"

text \<open>\<open>urlparse(url).path.split("/")[-1]\<close>.\<close>

definition url_basename :: "string \<Rightarrow> string result" where
  "url_basename url = rbind (url_path url) (\<lambda>p. Inr (last_part (CHR ''/'') p))"

lemma url_path_examples:
  "url_path ''https://h.com:80/a/b.zip;v=1?x#y'' = Inr ''/a/b.zip''"
  "url_path ''b1'' = Inr ''b1''" "url_path ''//[::1/x'' = Inl ValueError"
  "url_basename ''https://h/a/names.cblite2.zip'' = Inr ''names.cblite2.zip''"
  by code_simp+

text \<open>A name without any character that means something in a URL is its own base name.\<close>

definition plain_name :: "string \<Rightarrow> bool" where
  "plain_name s = list_all (\<lambda>c. 32 < (of_char c :: nat) \<and> c \<notin> set ''/:?#;'') s"

lemma before_absent: "c \<notin> set s \<Longrightarrow> before c s = s"
  by (auto simp: before_def takeWhile_eq_all_conv)

lemma url_clean_plain: "plain_name s \<Longrightarrow> url_clean s = s"
proof -
  assume "plain_name s"
  then have ok: "\<And>c. c \<in> set s \<Longrightarrow> 32 < (of_char c :: nat)"
    by (auto simp: plain_name_def list_all_iff)
  have "dropWhile (\<lambda>c. (of_char c :: nat) \<le> 32) s = s"
    using ok by (cases s) (auto simp: not_le)
  moreover have "of_char c \<notin> {9, 10, 13 :: nat}" if "c \<in> set s" for c
    using ok [OF that] by auto
  ultimately show ?thesis
    by (simp add: url_clean_def filter_id_conv)
qed

lemma url_basename_plain: "plain_name s \<Longrightarrow> url_basename s = Inr s"
proof -
  assume p: "plain_name s"
  then have free: "CHR ''/'' \<notin> set s" "CHR '':'' \<notin> set s" "CHR ''?'' \<notin> set s" "CHR ''#'' \<notin> set s"
      "CHR '';'' \<notin> set s"
    by (auto simp: plain_name_def list_all_iff)
  have "\<not> prefix ''//'' s" using free(1) by (auto dest: set_mono_prefix)
  with p free show ?thesis
    by (simp add: url_basename_def url_path_def url_clean_plain url_scheme_def url_netloc_def
        before_absent cut_params_def last_part_no_sep)
qed

section \<open>Base 64\<close>

text \<open>\<open>base64.b64encode\<close> on a list of bytes.\<close>

definition b64_char :: "nat \<Rightarrow> char" where
  "b64_char n = ''ABCDEFGHIJKLMNOPQRSTUVWXYZabcdefghijklmnopqrstuvwxyz0123456789+/'' ! (n mod 64)"

fun b64encode :: "nat list \<Rightarrow> string" where
  "b64encode [] = []"
| "b64encode [a] = [b64_char (a div 4), b64_char (a mod 4 * 16), CHR ''='', CHR ''='']"
| "b64encode [a, b] =
     [b64_char (a div 4), b64_char (a mod 4 * 16 + b div 16), b64_char (b mod 16 * 4), CHR ''='']"
| "b64encode (a # b # c # r) =
     b64_char (a div 4) # b64_char (a mod 4 * 16 + b div 16) # b64_char (b mod 16 * 4 + c div 64)
       # b64_char c # b64encode r"

lemma length_b64encode: "length (b64encode bs) = 4 * ((length bs + 2) div 3)"
proof (induction bs rule: b64encode.induct)
  case (4 a b c r)
  have "(Suc (Suc (Suc (length r))) + 2) div 3 = Suc ((length r + 2) div 3)" by simp
  with 4 show ?case by simp
qed auto

lemma b64encode_example: "b64encode [77, 97, 110, 77] = ''TWFuTQ==''"
  by code_simp

section \<open>Printing integers\<close>

text \<open>\<open>str(n)\<close> of an integer.\<close>

fun nat_str :: "nat \<Rightarrow> string" where
  "nat_str n = (if n < 10 then [char_of (48 + n)] else nat_str (n div 10) @ [char_of (48 + n mod 10)])"

declare nat_str.simps [simp del]

definition int_str :: "int \<Rightarrow> string" where
  "int_str i = (if i < 0 then CHR ''-'' # nat_str (nat (- i)) else nat_str (nat i))"

lemma digit_val_char: "n < 10 \<Longrightarrow> digit_val (char_of (48 + n)) = Some (int n)"
  by (simp add: digit_val_def)

lemma digits_val_append_digit:
  "digits_val acc s = Some v \<Longrightarrow> n < 10 \<Longrightarrow>
     digits_val acc (s @ [char_of (48 + n)]) = Some (10 * v + int n)"
proof (induction acc s rule: digits_val.induct)
  case (1 acc)
  then show ?case by (simp add: digit_val_char)
next
  case (2 acc c cs)
  then show ?case
    by (auto split: option.splits list.splits if_splits simp: digit_val_char)
qed

lemma nat_str_nonempty [simp]: "nat_str n \<noteq> []"
  by (subst nat_str.simps) simp

lemma unsigned_val_append_digit:
  "unsigned_val s = Some v \<Longrightarrow> n < 10 \<Longrightarrow> unsigned_val (s @ [char_of (48 + n)]) = Some (10 * v + int n)"
  by (auto simp: unsigned_val_def digits_val_append_digit split: list.splits option.splits)

lemma unsigned_val_nat_str: "unsigned_val (nat_str n) = Some (int n)"
proof (induction n rule: nat_str.induct)
  case (1 n)
  show ?case
  proof (cases "n < 10")
    case True
    then show ?thesis by (subst nat_str.simps) (simp add: unsigned_val_def digit_val_char)
  next
    case False
    then have "unsigned_val (nat_str (n div 10) @ [char_of (48 + n mod 10)]) =
        Some (10 * int (n div 10) + int (n mod 10))"
      by (intro unsigned_val_append_digit 1) auto
    moreover have "10 * int (n div 10) + int (n mod 10) = int n"
      by presburger
    ultimately show ?thesis using False by (subst nat_str.simps) simp
  qed
qed

lemma nat_str_digits: "c \<in> set (nat_str n) \<Longrightarrow> is_digit c"
proof (induction n rule: nat_str.induct)
  case (1 n)
  show ?case
  proof (cases "n < 10")
    case True
    then have "c = char_of (48 + n)" using "1.prems" by (subst (asm) nat_str.simps) simp
    with True show ?thesis by (simp add: is_digit_def)
  next
    case False
    then have "c \<in> set (nat_str (n div 10)) \<or> c = char_of (48 + n mod 10)"
      using "1.prems" by (subst (asm) nat_str.simps) auto
    with "1.IH" False show ?thesis by (auto simp: is_digit_def)
  qed
qed

text \<open>\<open>s.splitlines()\<close> of an ASCII string.\<close>

definition line_break :: "char \<Rightarrow> bool" where
  "line_break c = (let n = (of_char c :: nat) in (10 \<le> n \<and> n \<le> 13) \<or> (28 \<le> n \<and> n \<le> 30))"

fun splitlines :: "string \<Rightarrow> string list" where
  "splitlines [] = []"
| "splitlines (x # xs) =
     (if line_break x
      then [] # (case xs of
                   y # ys \<Rightarrow> if (of_char x :: nat) = 13 \<and> (of_char y :: nat) = 10 then splitlines ys else splitlines xs
                 | [] \<Rightarrow> [])
      else (case splitlines xs of
              [] \<Rightarrow> [[x]]
            | w # ws \<Rightarrow> (x # w) # ws))"

section \<open>File paths\<close>

text \<open>\<open>directory / name\<close>: an absolute name wins, an empty one is the directory.\<close>

definition path_join :: "string \<Rightarrow> string \<Rightarrow> string" where
  "path_join d f = (if prefix ''/'' f then f else if f = [] then d else d @ ''/'' @ f)"

end
