(* ===== verification/Attempts.thy ===== *)
theory Attempts
  imports Prelude
begin

text \<open>
  The shape of the program's bounded retry loops: a number of attempts, each of which either
  finishes the loop with a result (a value or an exception) or lets it go on, and a result for
  the loop that runs out of attempts.  \<open>_try_n_times\<close>, \<open>wait_for_sgcollect_to_complete\<close>,
  \<open>wait_for_isgr_status\<close>, \<open>wait_for_all_doc_events\<close>, \<open>wait_for_any_doc_event\<close> and
  \<open>_delete_database\<close> are loops of this shape; each is modelled on its own, as it is written, and
  shown to be an instance of the interface here.
\<close>

text \<open>
  A loop that no counter bounds is given fuel: the result \<open>None\<close> says that the fuel ran out, so a
  proof that it is not \<open>None\<close> is a proof that the loop ends.
\<close>

type_synonym ('w, 'a) fio = "'w \<Rightarrow> 'a result option \<times> 'w"

definition fio_bind :: "('w, 'a) fio \<Rightarrow> ('a \<Rightarrow> ('w, 'b) fio) \<Rightarrow> ('w, 'b) fio" where
  "fio_bind m f = (\<lambda>w. case m w of
     (None, w') \<Rightarrow> (None, w')
   | (Some (Inl e), w') \<Rightarrow> (Some (Inl e), w')
   | (Some (Inr x), w') \<Rightarrow> f x w')"

definition fio_of :: "('w, 'a) io \<Rightarrow> ('w, 'a) fio" where
  "fio_of m = (\<lambda>w. let (r, w') = m w in (Some r, w'))"

text \<open>The world after \<open>k\<close> attempts that all let the loop go on.\<close>

primrec after :: "('w \<Rightarrow> 'r option \<times> 'w) \<Rightarrow> nat \<Rightarrow> 'w \<Rightarrow> 'w" where
  "after step 0 w = w"
| "after step (Suc k) w = snd (step (after step k w))"

lemma after_shift: "after step k (snd (step w)) = after step (Suc k) w"
  by (induction k) auto

text \<open>The first of a sequence of attempts that has an outcome.\<close>

lemma map_filter_first:
  assumes "k < n" "\<And>j. j < k \<Longrightarrow> f j = None" "f k = Some r"
  shows "\<exists>rs. List.map_filter f [0..<n] = r # rs"
proof -
  have "[0..<n] = [0..<k] @ k # [Suc k..<n]"
    using assms(1) upt_add_eq_append [of 0 k "n - k"] upt_conv_Cons [of k n] by simp
  moreover have "List.map_filter f [0..<k] = []"
    using assms(2) by (simp add: List.map_filter_def filter_empty_conv)
  ultimately show ?thesis using assms(3) by (simp add: List.map_filter_def)
qed

locale attempt_loop =
  fixes loop :: "nat \<Rightarrow> 'w \<Rightarrow> 'r \<times> 'w"
    and step :: "'w \<Rightarrow> 'r option \<times> 'w"
    and exhausted :: "'w \<Rightarrow> 'r \<times> 'w"
  assumes loop_0: "loop 0 w = exhausted w"
    and loop_finish: "step w = (Some r, w') \<Longrightarrow> loop (Suc n) w = (r, w')"
    and loop_again: "step w = (None, w') \<Longrightarrow> loop (Suc n) w = loop n w'"
begin

text \<open>The first attempt that finishes gives the result, whatever would have come after it.\<close>

lemma finishes_at:
  assumes "k < n"
    and "\<And>j. j < k \<Longrightarrow> fst (step (after step j w)) = None"
    and "fst (step (after step k w)) = Some r"
  shows "loop n w = (r, after step (Suc k) w)"
  using assms
proof (induction k arbitrary: n w)
  case 0
  then obtain m where "n = Suc m" by (cases n) auto
  with 0 show ?case by (simp add: loop_finish prod_eq_iff)
next
  case (Suc k)
  then obtain m where n: "n = Suc m" by (cases n) auto
  from Suc.prems(2) [of 0] have none: "fst (step w) = None" by simp
  have "loop m (snd (step w)) = (r, after step (Suc k) (snd (step w)))"
  proof (rule Suc.IH)
    show "k < m" using Suc.prems(1) n by simp
    show "fst (step (after step j (snd (step w)))) = None" if "j < k" for j
      using Suc.prems(2) [of "Suc j"] that by (simp add: after_shift)
    show "fst (step (after step k (snd (step w)))) = Some r"
      using Suc.prems(3) by (simp add: after_shift)
  qed
  then show ?case
    using none n loop_again [of w "snd (step w)" m]
    by (simp add: prod_eq_iff after_shift)
qed

text \<open>If no attempt finishes, all of them are made and the loop gives up.\<close>

lemma gives_up:
  assumes "\<And>j. j < n \<Longrightarrow> fst (step (after step j w)) = None"
  shows "loop n w = exhausted (after step n w)"
  using assms
proof (induction n arbitrary: w)
  case 0
  then show ?case by (simp add: loop_0)
next
  case (Suc n)
  from Suc.prems [of 0] have none: "fst (step w) = None" by simp
  have "loop n (snd (step w)) = exhausted (after step n (snd (step w)))"
    by (rule Suc.IH) (use Suc.prems in \<open>simp add: after_shift flip: after.simps(2)\<close>)
  then show ?case
    using none loop_again [of w "snd (step w)" n]
    by (simp add: prod_eq_iff after_shift del: after.simps(2))
qed

text \<open>There is no third way to end.\<close>

lemma loop_cases:
  obtains (finish) k r where "k < n"
      and "\<And>j. j < k \<Longrightarrow> fst (step (after step j w)) = None"
      and "fst (step (after step k w)) = Some r"
      and "loop n w = (r, after step (Suc k) w)"
    | (give_up) "\<And>j. j < n \<Longrightarrow> fst (step (after step j w)) = None"
      and "loop n w = exhausted (after step n w)"
proof (cases "\<exists>k < n. fst (step (after step k w)) \<noteq> None")
  case True
  define k where "k = (LEAST k. k < n \<and> fst (step (after step k w)) \<noteq> None)"
  from True have k: "k < n \<and> fst (step (after step k w)) \<noteq> None"
    unfolding k_def by (rule LeastI_ex)
  then obtain r where r: "fst (step (after step k w)) = Some r" by auto
  have before: "fst (step (after step j w)) = None" if "j < k" for j
    using that k not_less_Least [of j "\<lambda>k. k < n \<and> fst (step (after step k w)) \<noteq> None"]
    unfolding k_def by auto
  show ?thesis
    using finish [OF conjunct1 [OF k] before r] finishes_at [OF conjunct1 [OF k] before r] by blast
next
  case False
  then have none: "\<And>j. j < n \<Longrightarrow> fst (step (after step j w)) = None" by auto
  show ?thesis using give_up [OF none] gives_up [OF none] by blast
qed

text \<open>Both ways together: the outcome of the first attempt that has one, else that of giving up.\<close>

lemma first_outcome:
  "fst (loop n w) =
     hd (List.map_filter (\<lambda>k. fst (step (after step k w))) [0..<n] @ [fst (exhausted (after step n w))])"
proof (cases rule: loop_cases [of n w])
  case (finish k r)
  then have "\<exists>rs. List.map_filter (\<lambda>k. fst (step (after step k w))) [0..<n] = r # rs"
    by (intro map_filter_first)
  then show ?thesis using finish(4) by auto
next
  case give_up
  then have "List.map_filter (\<lambda>k. fst (step (after step k w))) [0..<n] = []"
    by (simp add: List.map_filter_def filter_empty_conv)
  then show ?thesis using give_up(2) by simp
qed

text \<open>An invariant of the world that every attempt keeps holds after the loop.\<close>

lemma loop_invariant:
  assumes "\<And>w r w'. I w \<Longrightarrow> step w = (r, w') \<Longrightarrow> I w'"
    and "\<And>w r w'. I w \<Longrightarrow> exhausted w = (r, w') \<Longrightarrow> I w'"
    and "I w"
  shows "I (snd (loop n w))"
proof -
  have reach: "I (after step k w)" for k
  proof (induction k)
    case 0
    then show ?case using assms(3) by simp
  next
    case (Suc k)
    then show ?case using assms(1) by (cases "step (after step k w)") auto
  qed
  show ?thesis
  proof (cases rule: loop_cases [of n w])
    case (finish k r)
    then show ?thesis using reach [of "Suc k"] by simp
  next
    case give_up
    then show ?thesis using assms(2) [OF reach] by (cases "exhausted (after step n w)") auto
  qed
qed

end

end
