(* ===== verification/Json.thy ===== *)
theory Json
  imports Complex_Main PyStrings
begin

text \<open>
  JSON values as Python holds them, and \<open>client/src/cbltest/jsonhelper.py\<close>: the typed readers of
  a dictionary and \<open>json_equivalent\<close>.  A finite float is the rational number it denotes
  (\<open>nan\<close> and the infinities are outside the model); log lines are dropped.
\<close>

named_theorems json_simps "rewrite rules for JSON readers"

section \<open>Values\<close>

datatype json =
    JNull
  | JBool bool
  | JInt int
  | JFloat rat
  | JStr string
  | JList "json list"
  | JObj "(string \<times> json) list"

type_synonym jdict = "(string, json) pydict"

text \<open>
  \<open>isinstance(v, t)\<close> for the types the program asks about.  In Python \<open>bool\<close> is a subclass of
  \<open>int\<close>; a parametrised type such as \<open>list[dict]\<close> is checked by its origin \<open>list\<close> only.
\<close>

datatype pytype = T_str | T_int | T_bool | T_list | T_dict

fun isinstance :: "json \<Rightarrow> pytype \<Rightarrow> bool" where
  "isinstance (JStr s) T_str = True"
| "isinstance (JInt i) T_int = True"
| "isinstance (JBool b) T_int = True"
| "isinstance (JBool b) T_bool = True"
| "isinstance (JList l) T_list = True"
| "isinstance (JObj d) T_dict = True"
| "isinstance v t = False"

lemma isinstance_str_iff [json_simps]: "isinstance v T_str \<longleftrightarrow> (\<exists>s. v = JStr s)"
  by (cases v) auto

lemma isinstance_bool_iff [json_simps]: "isinstance v T_bool \<longleftrightarrow> (\<exists>b. v = JBool b)"
  by (cases v) auto

lemma isinstance_int_iff [json_simps]: "isinstance v T_int \<longleftrightarrow> (\<exists>i. v = JInt i) \<or> (\<exists>b. v = JBool b)"
  by (cases v) auto

lemma isinstance_list_iff [json_simps]: "isinstance v T_list \<longleftrightarrow> (\<exists>l. v = JList l)"
  by (cases v) auto

lemma isinstance_dict_iff [json_simps]: "isinstance v T_dict \<longleftrightarrow> (\<exists>d. v = JObj d)"
  by (cases v) auto

text \<open>No dictionary inside the value has a key twice, as in every value Python builds.\<close>

fun json_wf :: "json \<Rightarrow> bool"
  and fields_wf :: "(string \<times> json) list \<Rightarrow> bool"
  and items_wf :: "json list \<Rightarrow> bool" where
  "json_wf (JObj d) = (distinct (map fst d) \<and> fields_wf d)"
| "json_wf (JList l) = items_wf l"
| "json_wf JNull = True"
| "json_wf (JBool b) = True"
| "json_wf (JInt i) = True"
| "json_wf (JFloat r) = True"
| "json_wf (JStr s) = True"
| "fields_wf [] = True"
| "fields_wf (kv # d) = (json_wf (snd kv) \<and> fields_wf d)"
| "items_wf [] = True"
| "items_wf (v # l) = (json_wf v \<and> items_wf l)"

lemma fields_wf_iff: "fields_wf d \<longleftrightarrow> (\<forall>kv \<in> set d. json_wf (snd kv))"
  by (induction d) auto

lemma items_wf_iff: "items_wf l \<longleftrightarrow> (\<forall>v \<in> set l. json_wf v)"
  by (induction l) auto

text \<open>
  \<open>==\<close> of a scalar with any value: numbers of all three numeric types compare by value
  (\<open>True == 1 == 1.0\<close>), and a scalar is never equal to a list or a dictionary.
\<close>

fun num_of :: "json \<Rightarrow> rat option" where
  "num_of (JBool b) = Some (if b then 1 else 0)"
| "num_of (JInt i) = Some (of_int i)"
| "num_of (JFloat r) = Some r"
| "num_of v = None"

definition scalar_eq :: "json \<Rightarrow> json \<Rightarrow> bool" where
  "scalar_eq l r =
     (case num_of l of
        Some a \<Rightarrow> (case num_of r of Some b \<Rightarrow> a = b | None \<Rightarrow> False)
      | None \<Rightarrow> (case l of
                  JNull \<Rightarrow> r = JNull
                | JStr s \<Rightarrow> (case r of JStr t \<Rightarrow> s = t | _ \<Rightarrow> False)
                | _ \<Rightarrow> False))"

definition is_scalar :: "json \<Rightarrow> bool" where
  "is_scalar v = (case v of JList l \<Rightarrow> False | JObj d \<Rightarrow> False | _ \<Rightarrow> True)"

lemma scalar_eq_refl: "is_scalar v \<Longrightarrow> scalar_eq v v"
  by (cases v) (auto simp: scalar_eq_def is_scalar_def)

lemma scalar_eq_sym: "scalar_eq l r \<Longrightarrow> scalar_eq r l"
  by (cases l; cases r) (auto simp: scalar_eq_def split: if_splits)

lemma scalar_eq_trans: "scalar_eq l m \<Longrightarrow> scalar_eq m r \<Longrightarrow> scalar_eq l r"
  by (cases l; cases m; cases r) (auto simp: scalar_eq_def split: if_splits)

lemma scalar_eq_scalar: "scalar_eq l r \<Longrightarrow> is_scalar l \<and> is_scalar r"
  by (cases l; cases r) (auto simp: scalar_eq_def is_scalar_def)

section \<open>Typed readers of a dictionary\<close>

definition get_string_list :: "jdict \<Rightarrow> string \<Rightarrow> json list option result" where
  "get_string_list d key =
     (case map_of d key of
        None \<Rightarrow> Inr None
      | Some v \<Rightarrow>
          (case v of
             JList l \<Rightarrow> if list_all (\<lambda>x. isinstance x T_str) l then Inr (Some l) else Inl ValueError
           | _ \<Rightarrow> Inl ValueError))"

definition assert_contains_string_list :: "jdict \<Rightarrow> string \<Rightarrow> json list result" where
  "assert_contains_string_list d key =
     rbind (get_string_list d key)
       (\<lambda>ret_val. case ret_val of None \<Rightarrow> Inl ValueError | Some l \<Rightarrow> Inr l)"

definition assert_string_entry :: "jdict \<Rightarrow> string \<Rightarrow> string result" where
  "assert_string_entry d key =
     (case map_of d key of
        None \<Rightarrow> Inl ValueError
      | Some v \<Rightarrow> (case v of JStr s \<Rightarrow> Inr s | _ \<Rightarrow> Inl ValueError))"

text \<open>The value of an accepted \<open>bool\<close> stays a \<open>bool\<close>: the reader returns what it found.\<close>

definition get_int_or_default :: "jdict \<Rightarrow> string \<Rightarrow> json \<Rightarrow> json result" where
  "get_int_or_default d key dflt =
     (case map_of d key of
        None \<Rightarrow> Inr dflt
      | Some v \<Rightarrow> if isinstance v T_int then Inr v else Inl ValueError)"

definition get_str_or_default :: "jdict \<Rightarrow> string \<Rightarrow> string \<Rightarrow> string result" where
  "get_str_or_default d key dflt =
     (case map_of d key of
        None \<Rightarrow> Inr dflt
      | Some v \<Rightarrow> (case v of JStr s \<Rightarrow> Inr s | _ \<Rightarrow> Inl ValueError))"

definition get_bool_or_default :: "jdict \<Rightarrow> string \<Rightarrow> bool \<Rightarrow> bool result" where
  "get_bool_or_default d key dflt =
     (case map_of d key of
        None \<Rightarrow> Inr dflt
      | Some v \<Rightarrow> (case v of JBool b \<Rightarrow> Inr b | _ \<Rightarrow> Inl ValueError))"

text \<open>A missing key and a JSON \<open>null\<close> both read as \<open>None\<close>.\<close>

definition get_typed :: "jdict \<Rightarrow> string \<Rightarrow> pytype \<Rightarrow> json option result" where
  "get_typed d key t =
     (case map_of d key of
        None \<Rightarrow> Inr None
      | Some v \<Rightarrow>
          if v = JNull then Inr None
          else if isinstance v t then Inr (Some v) else Inl ValueError)"

definition get_typed_nonnull :: "jdict \<Rightarrow> string \<Rightarrow> pytype \<Rightarrow> json \<Rightarrow> json result" where
  "get_typed_nonnull d key t dflt =
     rbind (get_typed d key t)
       (\<lambda>found. case found of Some v \<Rightarrow> Inr v | None \<Rightarrow> Inr dflt)"

definition get_typed_required :: "jdict \<Rightarrow> string \<Rightarrow> pytype \<Rightarrow> json result" where
  "get_typed_required d key t =
     (case map_of d key of
        None \<Rightarrow> Inl ValueError
      | Some v \<Rightarrow> if isinstance v t then Inr v else Inl ValueError)"

text \<open>Every reader raises \<open>ValueError\<close> or nothing.\<close>

lemma reader_errors [json_simps]:
  "get_string_list d key = Inl e \<Longrightarrow> e = ValueError"
  "assert_contains_string_list d key = Inl e \<Longrightarrow> e = ValueError"
  "assert_string_entry d key = Inl e \<Longrightarrow> e = ValueError"
  "get_int_or_default d key i = Inl e \<Longrightarrow> e = ValueError"
  "get_str_or_default d key s = Inl e \<Longrightarrow> e = ValueError"
  "get_bool_or_default d key b = Inl e \<Longrightarrow> e = ValueError"
  "get_typed d key t = Inl e \<Longrightarrow> e = ValueError"
  "get_typed_nonnull d key t v = Inl e \<Longrightarrow> e = ValueError"
  "get_typed_required d key t = Inl e \<Longrightarrow> e = ValueError"
  by (auto simp: get_string_list_def assert_contains_string_list_def assert_string_entry_def
      get_int_or_default_def get_str_or_default_def get_bool_or_default_def get_typed_def
      get_typed_nonnull_def get_typed_required_def result_simps
      split: option.splits json.splits if_splits)

lemma assert_string_entry_Inr_iff [json_simps]:
  "assert_string_entry d key = Inr s \<longleftrightarrow> map_of d key = Some (JStr s)"
  by (auto simp: assert_string_entry_def split: option.splits json.splits)

lemma get_typed_required_Inr_iff [json_simps]:
  "get_typed_required d key t = Inr v \<longleftrightarrow> map_of d key = Some v \<and> isinstance v t"
  by (auto simp: get_typed_required_def split: option.splits if_splits)

lemma get_typed_Some_iff [json_simps]:
  "get_typed d key t = Inr (Some v) \<longleftrightarrow> map_of d key = Some v \<and> v \<noteq> JNull \<and> isinstance v t"
  by (auto simp: get_typed_def split: option.splits if_splits)

lemma get_typed_None_iff [json_simps]:
  "get_typed d key t = Inr None \<longleftrightarrow> map_of d key = None \<or> map_of d key = Some JNull"
  by (auto simp: get_typed_def split: option.splits if_splits)

section \<open>Equivalence of JSON values\<close>

text \<open>
  \<open>json_equivalent\<close> walks the left value.  A key of a left dictionary must be in the right one
  with an equivalent value; keys that only the right one has are not looked at.
\<close>

fun json_equivalent :: "json \<Rightarrow> json \<Rightarrow> bool"
  and fields_equivalent :: "(string \<times> json) list \<Rightarrow> jdict \<Rightarrow> bool"
  and items_equivalent :: "json list \<Rightarrow> json list \<Rightarrow> bool" where
  "json_equivalent (JObj ld) right =
     (case right of JObj rd \<Rightarrow> fields_equivalent ld rd | _ \<Rightarrow> False)"
| "json_equivalent (JList ll) right =
     (case right of JList rl \<Rightarrow> length ll = length rl \<and> items_equivalent ll rl | _ \<Rightarrow> False)"
| "json_equivalent JNull right = scalar_eq JNull right"
| "json_equivalent (JBool b) right = scalar_eq (JBool b) right"
| "json_equivalent (JInt i) right = scalar_eq (JInt i) right"
| "json_equivalent (JFloat r) right = scalar_eq (JFloat r) right"
| "json_equivalent (JStr s) right = scalar_eq (JStr s) right"
| "fields_equivalent [] rd = True"
| "fields_equivalent (kv # ld) rd =
     (case map_of rd (fst kv) of
        None \<Rightarrow> False
      | Some w \<Rightarrow> json_equivalent (snd kv) w \<and> fields_equivalent ld rd)"
| "items_equivalent [] rl = True"
| "items_equivalent (v # ll) rl =
     (case rl of [] \<Rightarrow> True | w # rl' \<Rightarrow> json_equivalent v w \<and> items_equivalent ll rl')"

lemma fields_equivalent_iff:
  "fields_equivalent ld rd \<longleftrightarrow>
     (\<forall>kv \<in> set ld. \<exists>w. map_of rd (fst kv) = Some w \<and> json_equivalent (snd kv) w)"
  by (induction ld) (auto split: option.splits)

lemma items_equivalent_iff:
  "length ll = length rl \<Longrightarrow> items_equivalent ll rl \<longleftrightarrow> list_all2 json_equivalent ll rl"
  by (induction ll rl rule: list_induct2) auto

lemma json_equivalent_scalar: "is_scalar l \<Longrightarrow> json_equivalent l r = scalar_eq l r"
  by (cases l) (auto simp: is_scalar_def)

lemma json_equivalent_refl: "json_wf v \<Longrightarrow> json_equivalent v v"
  and fields_equivalent_refl:
    "distinct (map fst d) \<Longrightarrow> fields_wf d \<Longrightarrow> \<forall>kv \<in> set d. json_equivalent (snd kv) (snd kv)"
  and items_equivalent_refl: "items_wf l \<Longrightarrow> items_equivalent l l"
proof (induction v and d and l rule: json_wf_fields_wf_items_wf.induct)
  case (1 d)
  then show ?case by (fastforce simp: fields_equivalent_iff)
qed (auto simp: scalar_eq_def)

lemma json_equivalent_trans:
  "json_equivalent l m \<Longrightarrow> json_equivalent m r \<Longrightarrow> json_equivalent l r"
proof (induction l arbitrary: m r)
  case (JList ll)
  then obtain ml rl where m: "m = JList ml" and r: "r = JList rl"
    by (auto split: json.splits)
  with JList.prems have "list_all2 json_equivalent ll ml" "list_all2 json_equivalent ml rl"
    by (auto simp: items_equivalent_iff)
  then have "list_all2 json_equivalent ll rl"
    using JList.IH by (auto simp: list_all2_conv_all_nth)
  then show ?case using r list_all2_lengthD by (fastforce simp: items_equivalent_iff)
next
  case (JObj ld)
  then obtain md rd where m: "m = JObj md" and r: "r = JObj rd"
    by (auto split: json.splits)
  have "\<exists>w. map_of rd (fst kv) = Some w \<and> json_equivalent (snd kv) w" if kv: "kv \<in> set ld" for kv
  proof -
    from kv JObj.prems(1) m obtain v where v: "map_of md (fst kv) = Some v" "json_equivalent (snd kv) v"
      by (auto simp: fields_equivalent_iff)
    from map_of_SomeD [OF v(1)] JObj.prems(2) m r obtain w
      where w: "map_of rd (fst kv) = Some w" "json_equivalent v w"
      by (fastforce simp: fields_equivalent_iff)
    have "json_equivalent (snd kv) w"
      by (rule JObj.IH [OF kv _ v(2) w(2)]) (cases kv, simp)
    with w(1) show ?thesis by blast
  qed
  then show ?case using r by (auto simp: fields_equivalent_iff)
qed (auto simp: scalar_eq_scalar json_equivalent_scalar dest: scalar_eq_trans scalar_eq_scalar)

text \<open>
  What the walk decides, said without the walk: every position of the left value (a path of keys
  and indices) is a position of the right one, and the two values there have the same shape.
\<close>

datatype seg = Key string | Idx nat

fun at_path :: "json \<Rightarrow> seg list \<Rightarrow> json option" where
  "at_path v [] = Some v"
| "at_path (JObj d) (Key k # p) = (case map_of d k of None \<Rightarrow> None | Some v \<Rightarrow> at_path v p)"
| "at_path (JList l) (Idx i # p) = (if i < length l then at_path (l ! i) p else None)"
| "at_path v (s # p) = None"

definition shape_match :: "json \<Rightarrow> json \<Rightarrow> bool" where
  "shape_match v w =
     (case v of
        JObj d \<Rightarrow> (case w of JObj e \<Rightarrow> True | _ \<Rightarrow> False)
      | JList l \<Rightarrow> (case w of JList m \<Rightarrow> length l = length m | _ \<Rightarrow> False)
      | _ \<Rightarrow> scalar_eq v w)"

lemma json_equivalent_shape: "json_equivalent l r \<Longrightarrow> shape_match l r"
  by (cases l) (auto simp: shape_match_def split: json.splits)

lemma json_equivalent_at_path:
  "json_equivalent l r \<Longrightarrow> at_path l p = Some v \<Longrightarrow>
     \<exists>w. at_path r p = Some w \<and> json_equivalent v w"
proof (induction l p arbitrary: r rule: at_path.induct)
  case (2 d k p)
  then obtain u where u: "map_of d k = Some u" "at_path u p = Some v"
    by (auto split: option.splits)
  from "2.prems"(1) obtain rd where r: "r = JObj rd" by (auto split: json.splits)
  from map_of_SomeD [OF u(1)] "2.prems"(1) r obtain w
    where w: "map_of rd k = Some w" "json_equivalent u w"
    by (fastforce simp: fields_equivalent_iff)
  from "2.IH" [OF u(1) w(2) u(2)] r w(1) show ?case by auto
next
  case (3 l i p)
  then have i: "i < length l" and at: "at_path (l ! i) p = Some v"
    by (auto split: if_splits)
  from "3.prems"(1) obtain rl where r: "r = JList rl" and all: "list_all2 json_equivalent l rl"
    by (auto simp: items_equivalent_iff split: json.splits)
  from all i have eq: "json_equivalent (l ! i) (rl ! i)" and "i < length rl"
    by (auto simp: list_all2_conv_all_nth)
  with "3.IH" [OF i eq at] r show ?case by auto
qed auto

lemma json_equivalent_of_paths:
  assumes "json_wf l"
    and "\<And>p v. at_path l p = Some v \<Longrightarrow> \<exists>w. at_path r p = Some w \<and> shape_match v w"
  shows "json_equivalent l r"
  using assms
proof (induction l arbitrary: r)
  case (JList ll)
  from JList.prems(2) [of "[]"] obtain rl where r: "r = JList rl" and len: "length ll = length rl"
    by (auto simp: shape_match_def split: json.splits)
  have "json_equivalent (ll ! i) (rl ! i)" if i: "i < length ll" for i
  proof (rule JList.IH)
    show "ll ! i \<in> set ll" using i by simp
    show "json_wf (ll ! i)" using JList.prems(1) i by (auto simp: items_wf_iff)
    show "\<exists>w. at_path (rl ! i) p = Some w \<and> shape_match v w" if "at_path (ll ! i) p = Some v" for p v
      using JList.prems(2) [of "Idx i # p" v] that i len r by auto
  qed
  then show ?case using r len by (auto simp: items_equivalent_iff list_all2_conv_all_nth)
next
  case (JObj ld)
  from JObj.prems(2) [of "[]"] obtain rd where r: "r = JObj rd"
    by (auto simp: shape_match_def split: json.splits)
  have "\<exists>w. map_of rd (fst kv) = Some w \<and> json_equivalent (snd kv) w" if kv: "kv \<in> set ld" for kv
  proof -
    from JObj.prems(1) kv have m: "map_of ld (fst kv) = Some (snd kv)" by (cases kv) auto
    from JObj.prems(2) [of "[Key (fst kv)]"] m r obtain w where w: "map_of rd (fst kv) = Some w"
      by (auto split: option.splits)
    have "json_equivalent (snd kv) w"
    proof (rule JObj.IH [OF kv])
      show "snd kv \<in> Basic_BNFs.snds kv" by (cases kv) auto
      show "json_wf (snd kv)" using JObj.prems(1) kv by (auto simp: fields_wf_iff)
      show "\<exists>u. at_path w p = Some u \<and> shape_match v u" if "at_path (snd kv) p = Some v" for p v
        using JObj.prems(2) [of "Key (fst kv) # p" v] that m w r by auto
    qed
    with w show ?thesis by blast
  qed
  then show ?case using r by (auto simp: fields_equivalent_iff)
qed (auto dest: meta_spec [where x = "[]"] simp: shape_match_def)

section \<open>Python's own equality\<close>

text \<open>
  \<open>==\<close> on any two values: dictionaries are equal when they have as many keys and every key of
  the left one has an equal value in the right one, in any order.
\<close>

fun py_eq :: "json \<Rightarrow> json \<Rightarrow> bool"
  and fields_eq :: "(string \<times> json) list \<Rightarrow> jdict \<Rightarrow> bool"
  and items_eq :: "json list \<Rightarrow> json list \<Rightarrow> bool" where
  "py_eq (JObj ld) right =
     (case right of JObj rd \<Rightarrow> length ld = length rd \<and> fields_eq ld rd | _ \<Rightarrow> False)"
| "py_eq (JList ll) right = (case right of JList rl \<Rightarrow> items_eq ll rl | _ \<Rightarrow> False)"
| "py_eq JNull right = scalar_eq JNull right"
| "py_eq (JBool b) right = scalar_eq (JBool b) right"
| "py_eq (JInt i) right = scalar_eq (JInt i) right"
| "py_eq (JFloat r) right = scalar_eq (JFloat r) right"
| "py_eq (JStr s) right = scalar_eq (JStr s) right"
| "fields_eq [] rd = True"
| "fields_eq (kv # ld) rd =
     (case map_of rd (fst kv) of None \<Rightarrow> False | Some w \<Rightarrow> py_eq (snd kv) w \<and> fields_eq ld rd)"
| "items_eq [] rl = (rl = [])"
| "items_eq (v # ll) rl = (case rl of [] \<Rightarrow> False | w # rl' \<Rightarrow> py_eq v w \<and> items_eq ll rl')"

lemma fields_eq_iff:
  "fields_eq ld rd \<longleftrightarrow> (\<forall>kv \<in> set ld. \<exists>w. map_of rd (fst kv) = Some w \<and> py_eq (snd kv) w)"
  by (induction ld) (auto split: option.splits)

lemma items_eq_iff: "items_eq ll rl \<longleftrightarrow> list_all2 py_eq ll rl"
  by (induction ll arbitrary: rl) (auto simp: list_all2_Cons1 split: list.splits)

lemma py_eq_scalar: "is_scalar l \<Longrightarrow> py_eq l r = scalar_eq l r"
  by (cases l) (auto simp: is_scalar_def)

lemma py_eq_imp_equivalent: "py_eq l r \<Longrightarrow> json_equivalent l r"
proof (induction l arbitrary: r)
  case (JList ll)
  then obtain rl where r: "r = JList rl" and all: "list_all2 py_eq ll rl"
    by (auto simp: items_eq_iff split: json.splits)
  then have "list_all2 json_equivalent ll rl"
    using JList.IH by (auto simp: list_all2_conv_all_nth)
  then show ?case using r list_all2_lengthD by (fastforce simp: items_equivalent_iff)
next
  case (JObj ld)
  then obtain rd where r: "r = JObj rd" and all: "fields_eq ld rd"
    by (auto split: json.splits)
  have "\<exists>w. map_of rd (fst kv) = Some w \<and> json_equivalent (snd kv) w" if kv: "kv \<in> set ld" for kv
  proof -
    from all kv obtain w where w: "map_of rd (fst kv) = Some w" "py_eq (snd kv) w"
      by (auto simp: fields_eq_iff)
    have "json_equivalent (snd kv) w"
      by (rule JObj.IH [OF kv _ w(2)]) (cases kv, simp)
    with w(1) show ?thesis by blast
  qed
  then show ?case using r by (auto simp: fields_equivalent_iff)
qed auto

text \<open>Equal key counts and a one-way inclusion of keys make the key sets equal.\<close>

lemma same_keys:
  assumes "distinct (map fst ld)" "distinct (map fst rd)" "length ld = length rd"
    and "set (map fst ld) \<subseteq> set (map fst rd)"
  shows "set (map fst ld) = set (map fst rd)"
proof (rule card_seteq)
  show "card (set (map fst rd)) \<le> card (set (map fst ld))"
    using assms distinct_card [OF assms(1)] distinct_card [OF assms(2)] by simp
qed (use assms in simp_all)

lemma scalar_eq_py_eq_sym: "scalar_eq l r \<Longrightarrow> py_eq r l"
  using scalar_eq_scalar [of l r] scalar_eq_sym [of l r] by (simp add: py_eq_scalar)

lemma py_eq_sym: "py_eq l r \<Longrightarrow> json_wf l \<Longrightarrow> json_wf r \<Longrightarrow> py_eq r l"
proof (induction l arbitrary: r)
  case (JList ll)
  then obtain rl where r: "r = JList rl" and all: "list_all2 py_eq ll rl"
    by (auto simp: items_eq_iff split: json.splits)
  have "list_all2 py_eq rl ll"
    using all JList.IH JList.prems(2,3) r
    by (auto simp: list_all2_conv_all_nth items_wf_iff)
  then show ?case using r by (simp add: items_eq_iff)
next
  case (JObj ld)
  then obtain rd where r: "r = JObj rd" and len: "length ld = length rd" and all: "fields_eq ld rd"
    by (auto split: json.splits)
  have sub: "set (map fst ld) \<subseteq> set (map fst rd)"
    using all by (auto simp: fields_eq_iff dest!: map_of_SomeD) (metis fst_conv image_eqI map_of_SomeD)
  have keys: "set (map fst ld) = set (map fst rd)"
    by (rule same_keys) (use JObj.prems r len sub in auto)
  have "\<exists>w. map_of ld (fst kv) = Some w \<and> py_eq (snd kv) w" if kv: "kv \<in> set rd" for kv
  proof -
    from kv keys have "fst kv \<in> set (map fst ld)" by auto
    then obtain v where v: "(fst kv, v) \<in> set ld" by auto
    with all obtain w where w: "map_of rd (fst kv) = Some w" "py_eq v w"
      by (force simp: fields_eq_iff)
    have "w = snd kv" using w(1) kv JObj.prems(3) r by (cases kv) auto
    moreover have "json_wf v" "json_wf (snd kv)"
      using JObj.prems(2,3) r v kv by (force simp: fields_wf_iff)+
    ultimately have "py_eq (snd kv) v" using JObj.IH [OF v, of v "snd kv"] w(2) by auto
    moreover have "map_of ld (fst kv) = Some v" using v JObj.prems(2) by auto
    ultimately show ?thesis by blast
  qed
  then show ?case using r len by (auto simp: fields_eq_iff)
qed (auto intro: scalar_eq_py_eq_sym)

lemma equivalent_both_imp_py_eq:
  "json_equivalent l r \<Longrightarrow> json_equivalent r l \<Longrightarrow> json_wf l \<Longrightarrow> json_wf r \<Longrightarrow> py_eq l r"
proof (induction l arbitrary: r)
  case (JList ll)
  then obtain rl where r: "r = JList rl" and all: "list_all2 json_equivalent ll rl"
    by (auto simp: items_equivalent_iff split: json.splits)
  have conv: "list_all2 json_equivalent rl ll"
    using JList.prems(2) r by (auto simp: items_equivalent_iff)
  have "list_all2 py_eq ll rl"
    using all conv JList.IH JList.prems(3,4) r
    by (auto simp: list_all2_conv_all_nth items_wf_iff)
  then show ?case using r by (simp add: items_eq_iff)
next
  case (JObj ld)
  then obtain rd where r: "r = JObj rd" by (auto split: json.splits)
  have lr: "fields_equivalent ld rd" and rl: "fields_equivalent rd ld" using JObj.prems r by auto
  have sub: "fst ` set ld \<subseteq> fst ` set rd" "fst ` set rd \<subseteq> fst ` set ld"
    using lr rl by (auto simp: fields_equivalent_iff) (metis fst_conv image_eqI map_of_SomeD)+
  have len: "length ld = length rd"
    using sub JObj.prems(3,4) r
    by (metis distinct_card json_wf.simps(1) length_map list.set_map subset_antisym)
  have "\<exists>w. map_of rd (fst kv) = Some w \<and> py_eq (snd kv) w" if kv: "kv \<in> set ld" for kv
  proof -
    from lr kv obtain w where w: "map_of rd (fst kv) = Some w" "json_equivalent (snd kv) w"
      by (auto simp: fields_equivalent_iff)
    from map_of_SomeD [OF w(1)] rl obtain v
      where v: "map_of ld (fst kv) = Some v" "json_equivalent w v"
      by (force simp: fields_equivalent_iff)
    have "v = snd kv" using v(1) kv JObj.prems(3) by (cases kv) auto
    moreover have "json_wf (snd kv)" "json_wf w"
      using JObj.prems(3,4) r kv map_of_SomeD [OF w(1)] by (force simp: fields_wf_iff)+
    ultimately have "py_eq (snd kv) w"
      using JObj.IH [OF kv, of "snd kv" w] w(2) v(2) by (cases kv) auto
    with w(1) show ?thesis by blast
  qed
  then show ?case using r len by (auto simp: fields_eq_iff)
qed (auto simp: json_equivalent_scalar is_scalar_def py_eq_scalar dest: scalar_eq_scalar)

lemma py_eq_iff_equivalent_both:
  "json_wf l \<Longrightarrow> json_wf r \<Longrightarrow> py_eq l r \<longleftrightarrow> json_equivalent l r \<and> json_equivalent r l"
  using py_eq_imp_equivalent py_eq_sym equivalent_both_imp_py_eq by blast

section \<open>Membership and indexing with a string\<close>

text \<open>
  \<open>k in v\<close> and \<open>v[k]\<close> for a string \<open>k\<close> and any JSON value \<open>v\<close>: membership asks a dictionary
  for a key, a list for an equal element and a string for a substring; only a dictionary can be
  indexed with a string.
\<close>

definition py_in :: "string \<Rightarrow> json \<Rightarrow> bool result" where
  "py_in k v =
     (case v of
        JObj d \<Rightarrow> Inr (d_has d k)
      | JList l \<Rightarrow> Inr (list_ex (\<lambda>x. py_eq (JStr k) x) l)
      | JStr s \<Rightarrow> Inr (contains_sub k s)
      | _ \<Rightarrow> Inl TypeError)"

definition py_item :: "json \<Rightarrow> string \<Rightarrow> json result" where
  "py_item v k = (case v of JObj d \<Rightarrow> d_item d k | _ \<Rightarrow> Inl TypeError)"

text \<open>\<open>d.get(k)\<close>, with JSON \<open>null\<close> and a missing key both read as \<open>None\<close>.\<close>

definition get_or_null :: "jdict \<Rightarrow> string \<Rightarrow> json" where
  "get_or_null d k = (case map_of d k of None \<Rightarrow> JNull | Some v \<Rightarrow> v)"

text \<open>\<open>if x is not None: d[k] = x\<close> on a dictionary under construction that has no key \<open>k\<close>.\<close>

definition opt_field :: "string \<Rightarrow> json option \<Rightarrow> jdict" where
  "opt_field k x = (case x of None \<Rightarrow> [] | Some v \<Rightarrow> [(k, v)])"

definition JStrs :: "string list \<Rightarrow> json" where
  "JStrs ss = JList (map JStr ss)"

lemma opt_field_simps [simp, json_simps]:
  "opt_field k None = []" "opt_field k (Some v) = [(k, v)]"
  by (simp_all add: opt_field_def)

lemma get_or_null_simps [json_simps]:
  "map_of d k = None \<Longrightarrow> get_or_null d k = JNull"
  "map_of d k = Some v \<Longrightarrow> get_or_null d k = v"
  by (simp_all add: get_or_null_def)

lemma py_in_JObj [simp, json_simps]: "py_in k (JObj d) = Inr (d_has d k)"
  by (simp add: py_in_def)

lemma py_item_JObj [simp, json_simps]: "py_item (JObj d) k = d_item d k"
  by (simp add: py_item_def)

text \<open>A predicate for \<open>if v\<close>, Python's truth value.\<close>

definition truthy :: "json \<Rightarrow> bool" where
  "truthy v = (case v of
      JNull \<Rightarrow> False | JBool b \<Rightarrow> b | JInt i \<Rightarrow> i \<noteq> 0 | JFloat r \<Rightarrow> r \<noteq> 0
    | JStr s \<Rightarrow> s \<noteq> [] | JList l \<Rightarrow> l \<noteq> [] | JObj d \<Rightarrow> d \<noteq> [])"

definition JOptStr :: "string option \<Rightarrow> json" where
  "JOptStr x = (case x of None \<Rightarrow> JNull | Some s \<Rightarrow> JStr s)"

definition JStrDict :: "(string, string) pydict \<Rightarrow> json" where
  "JStrDict d = JObj (map (\<lambda>kv. (fst kv, JStr (snd kv))) d)"

section \<open>Properties\<close>

text \<open>
  C14. \<open>json_equivalent\<close> decides containment of structure: it holds exactly when every position
  of the left value (a path of keys and list indices) exists in the right value, with a value of
  the same shape there (a dictionary for a dictionary, a list of the same length for a list, an
  equal scalar for a scalar).  Keys that only the right value has are ignored.
\<close>

theorem json_equivalent_positions:
  assumes "json_wf l"
  shows "json_equivalent l r \<longleftrightarrow>
    (\<forall>p v. at_path l p = Some v \<longrightarrow> (\<exists>w. at_path r p = Some w \<and> shape_match v w))"
  using assms json_equivalent_at_path json_equivalent_of_paths json_equivalent_shape by meson

theorem json_equivalent_positions_witness:
  "\<exists>w. at_path (JObj [(''b'', JNull), (''a'', JList [JFloat 1, JObj [(''x'', JNull)]])]) [Key ''a'', Idx 0]
     = Some w \<and> shape_match (JInt 1) w"
proof -
  let ?l = "JObj [(''a'', JList [JInt 1, JObj []])]"
  let ?r = "JObj [(''b'', JNull), (''a'', JList [JFloat 1, JObj [(''x'', JNull)]])]"
  have wf: "json_wf ?l" by simp
  have eq: "json_equivalent ?l ?r" by (simp add: scalar_eq_def)
  have at: "at_path ?l [Key ''a'', Idx 0] = Some (JInt 1)" by simp
  from json_equivalent_positions [OF wf, of ?r] eq at show ?thesis by blast
qed

text \<open>
  \<open>json_equivalent\<close> is a preorder on JSON values whose keys are distinct, and two values are
  equal for Python's \<open>==\<close> exactly when each is equivalent to the other: the function checks one
  direction of equality only.
\<close>

theorem json_equivalent_preorder:
  assumes "json_wf l" "json_wf m"
  shows "json_equivalent l l
    \<and> (json_equivalent l m \<and> json_equivalent m r \<longrightarrow> json_equivalent l r)
    \<and> (py_eq l m \<longleftrightarrow> json_equivalent l m \<and> json_equivalent m l)"
  using assms json_equivalent_refl json_equivalent_trans py_eq_iff_equivalent_both by blast

theorem json_equivalent_preorder_witness:
  "json_equivalent (JObj [(''a'', JInt 1)]) (JObj [(''a'', JInt 1), (''b'', JInt 2)])
     \<and> \<not> py_eq (JObj [(''a'', JInt 1)]) (JObj [(''a'', JInt 1), (''b'', JInt 2)])"
proof -
  let ?l = "JObj [(''a'', JInt 1)]" let ?m = "JObj [(''a'', JInt 1), (''b'', JInt 2)]"
  have wf: "json_wf ?l" "json_wf ?m" by simp_all
  have "json_equivalent ?l ?m" "\<not> json_equivalent ?m ?l" by (simp_all add: scalar_eq_def)
  with json_equivalent_preorder [OF wf, of JNull] show ?thesis by blast
qed

end
