(* ===== verification/ReplTypes.thy ===== *)
theory ReplTypes
  imports Json
begin

text \<open>
  The value types that requests and responses carry: \<open>api/error_types.py\<close>,
  \<open>api/replicator_types.py\<close>, \<open>api/multipeer_replicator_types.py\<close>, \<open>api/database_types.py\<close> and
  \<open>api/x509_certificate.py\<close> (its data only).  Enumerations are datatypes with the members of the
  source, flag sets are the integers of the source, a class is a record and its constructor an
  operation that may raise.
\<close>

named_theorems type_simps "rewrite rules for the value types"

unbundle bit_operations_syntax

section \<open>Errors that a server reports\<close>

definition ErrorDomain_equal :: "string \<Rightarrow> string \<Rightarrow> bool" where
  "ErrorDomain_equal val expected = (py_upper val = expected)"

text \<open>The three fields are whatever the body holds: the constructor checks no type.\<close>

record error_body =
  eb_domain :: json
  eb_code :: json
  eb_message :: json

definition ErrorResponseBody_create :: "json \<Rightarrow> error_body option result" where
  "ErrorResponseBody_create body =
     (if body = JNull then Inr None
      else rbind (py_in ''domain'' body) (\<lambda>has_domain.
        if \<not> has_domain then Inr None
        else rbind (py_in ''code'' body) (\<lambda>has_code.
          if \<not> has_code then Inr None
          else rbind (py_in ''message'' body) (\<lambda>has_message.
            if \<not> has_message then Inr None
            else rbind (py_item body ''domain'') (\<lambda>domain.
              rbind (py_item body ''code'') (\<lambda>code.
                rbind (py_item body ''message'') (\<lambda>message.
                  Inr (Some \<lparr> eb_domain = domain, eb_code = code, eb_message = message \<rparr>))))))))"

text \<open>On an object the constructor never raises, and reads the three keys exactly when all are there.\<close>

lemma ErrorResponseBody_create_JObj:
  "ErrorResponseBody_create (JObj d) =
     Inr (case map_of d ''domain'' of
            None \<Rightarrow> None
          | Some m \<Rightarrow> (case map_of d ''code'' of
              None \<Rightarrow> None
            | Some c \<Rightarrow> (case map_of d ''message'' of
                None \<Rightarrow> None
              | Some t \<Rightarrow> Some \<lparr> eb_domain = m, eb_code = c, eb_message = t \<rparr>)))"
  by (auto simp: ErrorResponseBody_create_def d_has_def d_item_def split: option.splits)

lemma ErrorResponseBody_create_None [simp]: "ErrorResponseBody_create JNull = Inr None"
  by (simp add: ErrorResponseBody_create_def)

lemma ErrorResponseBody_create_errors:
  "ErrorResponseBody_create v = Inl e \<Longrightarrow> e = TypeError \<and> (\<forall>d. v \<noteq> JObj d)"
  by (cases v) (auto simp: ErrorResponseBody_create_def py_in_def py_item_def d_item_def d_has_def
      result_simps split: if_splits option.splits)

section \<open>Filters, conflict resolvers and collections of a replication\<close>

record repl_filter =
  rf_name :: string
  rf_params :: "jdict option"

definition ReplicatorFilter_to_json :: "repl_filter \<Rightarrow> json" where
  "ReplicatorFilter_to_json f =
     JObj ((''name'', JStr (rf_name f)) # opt_field ''params'' (map_option JObj (rf_params f)))"

record repl_conflict_resolver =
  rcr_name :: string
  rcr_params :: "jdict option"

definition ReplicatorConflictResolver_to_json :: "repl_conflict_resolver \<Rightarrow> json" where
  "ReplicatorConflictResolver_to_json r =
     JObj ((''name'', JStr (rcr_name r)) # opt_field ''params'' (map_option JObj (rcr_params r)))"

record repl_collection =
  rc_names :: "string list"
  rc_channels :: "string list option"
  rc_document_ids :: "string list option"
  rc_push_filter :: "repl_filter option"
  rc_pull_filter :: "repl_filter option"
  rc_conflict_resolver :: "repl_conflict_resolver option"

definition ReplicatorCollectionEntry_create ::
    "string list option \<Rightarrow> string list option \<Rightarrow> string list option \<Rightarrow> repl_filter option
      \<Rightarrow> repl_filter option \<Rightarrow> repl_conflict_resolver option \<Rightarrow> repl_collection result" where
  "ReplicatorCollectionEntry_create names channels document_ids push pull resolver =
     (let entry = (\<lambda>ns. \<lparr> rc_names = ns, rc_channels = channels, rc_document_ids = document_ids,
        rc_push_filter = push, rc_pull_filter = pull, rc_conflict_resolver = resolver \<rparr>)
      in case names of
           None \<Rightarrow> Inr (entry [''_default._default''])
         | Some ns \<Rightarrow> if ns = [] then Inl TypeError else Inr (entry ns))"

definition ReplicatorCollectionEntry_to_json :: "repl_collection \<Rightarrow> json" where
  "ReplicatorCollectionEntry_to_json c =
     JObj ((''names'', JStrs (rc_names c))
       # opt_field ''channels'' (map_option JStrs (rc_channels c))
       @ opt_field ''documentIDs'' (map_option JStrs (rc_document_ids c))
       @ opt_field ''pushFilter'' (map_option ReplicatorFilter_to_json (rc_push_filter c))
       @ opt_field ''pullFilter'' (map_option ReplicatorFilter_to_json (rc_pull_filter c))
       @ opt_field ''conflictResolver''
           (map_option ReplicatorConflictResolver_to_json (rc_conflict_resolver c)))"

text \<open>An entry always names at least one collection.\<close>

lemma collection_entry_names:
  "ReplicatorCollectionEntry_create ns ch ds pu pl cr = Inr c \<Longrightarrow> rc_names c \<noteq> []"
  by (auto simp: ReplicatorCollectionEntry_create_def Let_def split: option.splits if_splits)

section \<open>Directions, authenticators and activity\<close>

datatype replicator_type = PUSH | PULL | PUSH_AND_PULL

fun ReplicatorType_str :: "replicator_type \<Rightarrow> string" where
  "ReplicatorType_str PUSH = ''push''"
| "ReplicatorType_str PULL = ''pull''"
| "ReplicatorType_str PUSH_AND_PULL = ''pushAndPull''"

datatype repl_authenticator =
    BasicAuthenticator string string
  | SessionAuthenticator string string

definition default_cookie_name :: string where
  "default_cookie_name = ''SyncGatewaySession''"

fun ReplicatorAuthenticator_type :: "repl_authenticator \<Rightarrow> string" where
  "ReplicatorAuthenticator_type (BasicAuthenticator u p) = ''BASIC''"
| "ReplicatorAuthenticator_type (SessionAuthenticator s c) = ''SESSION''"

fun ReplicatorBasicAuthenticator_to_json :: "string \<Rightarrow> string \<Rightarrow> json" where
  "ReplicatorBasicAuthenticator_to_json u p =
     JObj [(''type'', JStr (ReplicatorAuthenticator_type (BasicAuthenticator u p))),
           (''username'', JStr u), (''password'', JStr p)]"

fun ReplicatorSessionAuthenticator_to_json :: "string \<Rightarrow> string \<Rightarrow> json" where
  "ReplicatorSessionAuthenticator_to_json s c =
     JObj [(''type'', JStr (ReplicatorAuthenticator_type (SessionAuthenticator s c))),
           (''sessionID'', JStr s), (''cookieName'', JStr c)]"

fun ReplicatorAuthenticator_to_json :: "repl_authenticator \<Rightarrow> json" where
  "ReplicatorAuthenticator_to_json (BasicAuthenticator u p) = ReplicatorBasicAuthenticator_to_json u p"
| "ReplicatorAuthenticator_to_json (SessionAuthenticator s c) =
     ReplicatorSessionAuthenticator_to_json s c"

datatype activity_level = STOPPED | OFFLINE | CONNECTING | IDLE | BUSY

fun ReplicatorActivityLevel_str :: "activity_level \<Rightarrow> string" where
  "ReplicatorActivityLevel_str STOPPED = ''STOPPED''"
| "ReplicatorActivityLevel_str OFFLINE = ''OFFLINE''"
| "ReplicatorActivityLevel_str CONNECTING = ''CONNECTING''"
| "ReplicatorActivityLevel_str IDLE = ''IDLE''"
| "ReplicatorActivityLevel_str BUSY = ''BUSY''"

text \<open>\<open>ReplicatorActivityLevel[s]\<close>: the member of that name, \<open>KeyError\<close> when there is none.\<close>

definition ReplicatorActivityLevel_of :: "string \<Rightarrow> activity_level result" where
  "ReplicatorActivityLevel_of s =
     d_item [(''STOPPED'', STOPPED), (''OFFLINE'', OFFLINE), (''CONNECTING'', CONNECTING),
             (''IDLE'', IDLE), (''BUSY'', BUSY)] s"

lemma activity_level_roundtrip: "ReplicatorActivityLevel_of (ReplicatorActivityLevel_str a) = Inr a"
  by (cases a) (simp_all add: ReplicatorActivityLevel_of_def d_item_def)

lemma activity_level_of_Inr: "ReplicatorActivityLevel_of s = Inr a \<longleftrightarrow> ReplicatorActivityLevel_str a = s"
  by (cases a) (auto simp: ReplicatorActivityLevel_of_def d_item_def split: if_splits)

definition ReplicatorProgress_create :: "json \<Rightarrow> bool result" where
  "ReplicatorProgress_create body =
     (case body of
        JObj d \<Rightarrow> (case get_or_null d ''completed'' of JBool b \<Rightarrow> Inr b | _ \<Rightarrow> Inl AssertionError)
      | _ \<Rightarrow> Inl AssertionError)"

section \<open>Document flags\<close>

text \<open>
  A flag set is the integer that \<open>enum.Flag\<close> keeps: \<open>auto()\<close> after \<open>NONE = 0\<close> gives 1 and 2.
\<close>

definition flags_NONE :: int where "flags_NONE = 0"
definition flags_DELETED :: int where "flags_DELETED = 1"
definition flags_ACCESS_REMOVED :: int where "flags_ACCESS_REMOVED = 2"

definition ReplicatorDocumentFlags_parse :: "json \<Rightarrow> int result" where
  "ReplicatorDocumentFlags_parse input =
     (case input of
        JStr s \<Rightarrow>
          (let upper = py_upper s in
           if upper = ''NONE'' then Inr flags_NONE
           else if upper = ''DELETED'' then Inr flags_DELETED
           else if upper = ''ACCESSREMOVED'' then Inr flags_ACCESS_REMOVED
           else Inl ValueError)
      | _ \<Rightarrow> Inl AssertionError)"

fun flags_parse_from :: "int \<Rightarrow> json list \<Rightarrow> int result" where
  "flags_parse_from ret_val [] = Inr ret_val"
| "flags_parse_from ret_val (i # is) =
     rbind (ReplicatorDocumentFlags_parse i) (\<lambda>f. flags_parse_from (ret_val OR f) is)"

definition ReplicatorDocumentFlags_parse_all :: "json list \<Rightarrow> int result" where
  "ReplicatorDocumentFlags_parse_all input = flags_parse_from flags_NONE input"

definition ReplicatorDocumentFlags_str :: "int \<Rightarrow> string" where
  "ReplicatorDocumentFlags_str self =
     (if self = flags_NONE then ''NONE''
      else join_with (CHR ''|'')
        ((if self AND flags_DELETED \<noteq> 0 then [''DELETED''] else [])
         @ (if self AND flags_ACCESS_REMOVED \<noteq> 0 then [''ACCESSREMOVED''] else [])))"

text \<open>
  Parsing a list of words is a fold of a total operation over a partial parser.  The interface
  asks of the operation only that order and repetition do not matter; then they do not matter
  for the list either.
\<close>

locale flag_fold =
  fixes parse_one :: "'a \<Rightarrow> 'f result"
    and merge :: "'f \<Rightarrow> 'f \<Rightarrow> 'f"
    and fold_from :: "'f \<Rightarrow> 'a list \<Rightarrow> 'f result"
  assumes merge_assoc: "merge (merge a b) c = merge a (merge b c)"
    and merge_comm: "merge a b = merge b a"
    and merge_idem: "merge a a = a"
    and fold_Nil: "fold_from a [] = Inr a"
    and fold_Cons: "fold_from a (x # xs) = rbind (parse_one x) (\<lambda>f. fold_from (merge a f) xs)"
begin

text \<open>The fold succeeds exactly when every word parses.\<close>

lemma fold_Inr_ex: "(\<exists>f. fold_from a xs = Inr f) \<longleftrightarrow> (\<forall>x \<in> set xs. \<exists>f. parse_one x = Inr f)"
  by (induction xs arbitrary: a) (auto simp: fold_Nil fold_Cons result_simps)

text \<open>The order on flag sets that the merge induces; the fold is the least upper bound.\<close>

definition below :: "'f \<Rightarrow> 'f \<Rightarrow> bool" where
  "below a b \<longleftrightarrow> merge a b = b"

lemma below_antisym: "below a b \<Longrightarrow> below b a \<Longrightarrow> a = b"
  by (metis below_def merge_comm)

lemma below_trans: "below a b \<Longrightarrow> below b c \<Longrightarrow> below a c"
  by (metis below_def merge_assoc)

lemma below_merge_iff: "below (merge a b) c \<longleftrightarrow> below a c \<and> below b c"
  by (metis below_def merge_assoc merge_comm merge_idem)

lemma fold_least:
  "fold_from a xs = Inr f \<Longrightarrow>
     below f c \<longleftrightarrow> below a c \<and> (\<forall>x \<in> set xs. \<forall>g. parse_one x = Inr g \<longrightarrow> below g c)"
proof (induction xs arbitrary: a)
  case Nil
  then show ?case by (simp add: fold_Nil)
next
  case (Cons x xs)
  then obtain g where g: "parse_one x = Inr g" "fold_from (merge a g) xs = Inr f"
    by (auto simp: fold_Cons result_simps)
  from Cons.IH [OF g(2)] g(1) show ?case by (auto simp: below_merge_iff)
qed

lemma below_refl: "below a a"
  by (simp add: below_def merge_idem)

text \<open>Only the set of the words counts.\<close>

lemma fold_set_cong:
  assumes "fold_from a xs = Inr f" and "set ys = set xs"
  shows "fold_from a ys = Inr f"
proof -
  from assms obtain g where g: "fold_from a ys = Inr g"
    by (metis fold_Inr_ex)
  have "below f g" using fold_least [OF assms(1), of g] fold_least [OF g, of g] assms(2) below_refl by simp
  moreover have "below g f"
    using fold_least [OF assms(1), of f] fold_least [OF g, of f] assms(2) below_refl by simp
  ultimately show ?thesis using g below_antisym by blast
qed

end

interpretation doc_flags: flag_fold ReplicatorDocumentFlags_parse "(OR)" flags_parse_from
  by unfold_locales (simp_all add: or.assoc, simp add: or.commute)

lemma flags_parse_cases:
  "ReplicatorDocumentFlags_parse i = Inr f \<Longrightarrow> f = 0 \<or> f = 1 \<or> f = 2"
  by (auto simp: ReplicatorDocumentFlags_parse_def flags_NONE_def flags_DELETED_def
      flags_ACCESS_REMOVED_def Let_def split: json.splits if_splits)

lemma flags_or_range: "a \<in> {0, 1, 2, 3 :: int} \<Longrightarrow> b \<in> {0, 1, 2} \<Longrightarrow> a OR b \<in> {0, 1, 2, 3}"
  by auto

lemma flags_parse_from_range:
  "flags_parse_from a xs = Inr f \<Longrightarrow> a \<in> {0, 1, 2, 3} \<Longrightarrow> f \<in> {0, 1, 2, 3}"
proof (induction xs arbitrary: a)
  case Nil
  then show ?case by simp
next
  case (Cons x xs)
  then obtain g where g: "ReplicatorDocumentFlags_parse x = Inr g" "flags_parse_from (a OR g) xs = Inr f"
    by (auto simp: result_simps)
  from flags_parse_cases [OF g(1)] have "a OR g \<in> {0, 1, 2, 3}"
    using Cons.prems(2) by (intro flags_or_range) auto
  with Cons.IH g(2) show ?case by blast
qed

text \<open>
  \<open>parse_all\<close> accepts any spelling and any order of the words, gives one of the four flag sets,
  and reads back what \<open>str\<close> printed.
\<close>

lemma flags_str_words:
  "f \<in> {0, 1, 2, 3} \<Longrightarrow>
     split_on (CHR ''|'') (ReplicatorDocumentFlags_str f) =
       (if f = 0 then [''NONE''] else (if f AND 1 \<noteq> 0 then [''DELETED''] else [])
          @ (if f AND 2 \<noteq> 0 then [''ACCESSREMOVED''] else []))"
  by (auto simp: ReplicatorDocumentFlags_str_def flags_NONE_def flags_DELETED_def flags_ACCESS_REMOVED_def)

lemma flags_parse_words [type_simps]:
  "ReplicatorDocumentFlags_parse (JStr ''NONE'') = Inr 0"
  "ReplicatorDocumentFlags_parse (JStr ''DELETED'') = Inr 1"
  "ReplicatorDocumentFlags_parse (JStr ''ACCESSREMOVED'') = Inr 2"
  by code_simp+

lemma flags_roundtrip:
  "f \<in> {0, 1, 2, 3} \<Longrightarrow>
     ReplicatorDocumentFlags_parse_all (map JStr (split_on (CHR ''|'') (ReplicatorDocumentFlags_str f))) = Inr f"
  by (auto simp: flags_str_words ReplicatorDocumentFlags_parse_all_def flags_NONE_def type_simps)

section \<open>Replicated documents and the events to wait for\<close>

record doc_entry =
  de_collection :: string
  de_document_id :: string
  de_is_push :: bool
  de_flags :: int
  de_error :: "error_body option"

definition de_direction :: "doc_entry \<Rightarrow> replicator_type" where
  "de_direction e = (if de_is_push e then PUSH else PULL)"

definition ReplicatorDocumentEntry_create :: "json \<Rightarrow> doc_entry result" where
  "ReplicatorDocumentEntry_create body =
     (case body of
        JObj d \<Rightarrow>
          rbind (get_typed_required d ''collection'' T_str) (\<lambda>collection.
          rbind (get_typed_required d ''documentID'' T_str) (\<lambda>document_id.
          rbind (get_typed_required d ''isPush'' T_bool) (\<lambda>is_push.
          rbind (get_typed_required d ''flags'' T_list) (\<lambda>flags.
          rbind (ReplicatorDocumentFlags_parse_all (case flags of JList l \<Rightarrow> l | _ \<Rightarrow> [])) (\<lambda>f.
          rbind (ErrorResponseBody_create (get_or_null d ''error'')) (\<lambda>err.
            Inr \<lparr> de_collection = (case collection of JStr s \<Rightarrow> s | _ \<Rightarrow> []),
                  de_document_id = (case document_id of JStr s \<Rightarrow> s | _ \<Rightarrow> []),
                  de_is_push = (case is_push of JBool b \<Rightarrow> b | _ \<Rightarrow> False),
                  de_flags = f, de_error = err \<rparr>))))))
      | _ \<Rightarrow> Inl AssertionError)"

text \<open>\<open>None\<close> in \<open>wf_flags\<close> waits for any flags; \<open>JNull\<close> in the error fields stands for no error.\<close>

record wait_entry =
  wf_collection :: string
  wf_id :: string
  wf_direction :: replicator_type
  wf_flags :: "int option"
  wf_err_domain :: json
  wf_err_code :: json

definition WaitForDocumentEventEntry_hash_key :: "wait_entry \<Rightarrow> string" where
  "WaitForDocumentEventEntry_hash_key e = wf_collection e @ wf_id e"

definition WaitForDocumentEventEntry_eq :: "wait_entry \<Rightarrow> wait_entry \<Rightarrow> bool" where
  "WaitForDocumentEventEntry_eq self other \<longleftrightarrow>
     (wf_collection self = wf_collection other \<and> wf_id self = wf_id other)
     \<and> py_eq (wf_err_domain self) (wf_err_domain other)
     \<and> py_eq (wf_err_code self) (wf_err_code other)
     \<and> (wf_direction self = wf_direction other \<or> wf_direction self = PUSH_AND_PULL
         \<or> wf_direction other = PUSH_AND_PULL)
     \<and> (wf_flags self = wf_flags other \<or> wf_flags self = None \<or> wf_flags other = None)"

definition wait_entry_wf :: "wait_entry \<Rightarrow> bool" where
  "wait_entry_wf e \<longleftrightarrow> json_wf (wf_err_domain e) \<and> json_wf (wf_err_code e)"

lemma wait_entry_eq_hash:
  "WaitForDocumentEventEntry_eq a b \<Longrightarrow>
     WaitForDocumentEventEntry_hash_key a = WaitForDocumentEventEntry_hash_key b"
  by (simp add: WaitForDocumentEventEntry_eq_def WaitForDocumentEventEntry_hash_key_def)

lemma py_eq_refl: "json_wf v \<Longrightarrow> py_eq v v"
  by (simp add: py_eq_iff_equivalent_both json_equivalent_refl)

lemma wait_entry_eq_refl: "wait_entry_wf e \<Longrightarrow> WaitForDocumentEventEntry_eq e e"
  by (simp add: WaitForDocumentEventEntry_eq_def wait_entry_wf_def py_eq_refl)

lemma wait_entry_eq_sym:
  "WaitForDocumentEventEntry_eq a b \<Longrightarrow> wait_entry_wf a \<Longrightarrow> wait_entry_wf b \<Longrightarrow>
     WaitForDocumentEventEntry_eq b a"
  unfolding WaitForDocumentEventEntry_eq_def wait_entry_wf_def by (metis py_eq_sym)

record repl_status =
  rs_progress :: bool
  rs_activity :: activity_level
  rs_error :: "error_body option"

section \<open>Multipeer transports and authenticators\<close>

definition transport_WIFI :: int where "transport_WIFI = 1"
definition transport_BLUETOOTH :: int where "transport_BLUETOOTH = 2"
definition transport_ALL :: int where "transport_ALL = transport_WIFI OR transport_BLUETOOTH"

definition MultipeerTransportType_from_string :: "string \<Rightarrow> int result" where
  "MultipeerTransportType_from_string value =
     (let value = py_upper value in
      if value = ''WIFI'' then Inr transport_WIFI
      else if value = ''BLUETOOTH'' then Inr transport_BLUETOOTH
      else Inl ValueError)"

definition MultipeerTransportType_to_json :: "int \<Rightarrow> string list" where
  "MultipeerTransportType_to_json self =
     map fst (filter (\<lambda>(name, m). m \<noteq> 0 \<and> m AND (m - 1) = 0 \<and> self AND m = m)
       [(''WIFI'', transport_WIFI), (''BLUETOOTH'', transport_BLUETOOTH), (''ALL'', transport_ALL)])"

lemma transport_names:
  "set (MultipeerTransportType_to_json t) =
     {name. \<exists>m. MultipeerTransportType_from_string name = Inr m \<and> py_upper name = name \<and> t AND m = m}"
proof -
  have up: "py_upper ''WIFI'' = ''WIFI''" "py_upper ''BLUETOOTH'' = ''BLUETOOTH''" by code_simp+
  show ?thesis
    using up by (auto simp: MultipeerTransportType_to_json_def MultipeerTransportType_from_string_def
        transport_WIFI_def transport_BLUETOOTH_def transport_ALL_def Let_def split: if_splits)
qed

text \<open>A key pair is known by the two encodings the program asks of the crypto library.\<close>

record cert_key_pair =
  ck_pfx_bytes :: "nat list"
  ck_pem :: string
  ck_password :: string

definition MultipeerReplicatorCAAuthenticator_to_json :: "cert_key_pair \<Rightarrow> json" where
  "MultipeerReplicatorCAAuthenticator_to_json ca =
     JObj [(''type'', JStr ''CA-CERT''), (''params'', JObj [(''certificate'', JStr (ck_pem ca))])]"

section \<open>Documents and maintenance of a database\<close>

record document_ref =
  dr_collection :: string
  dr_id :: string

definition DocumentEntry_to_json :: "document_ref \<Rightarrow> json" where
  "DocumentEntry_to_json e = JObj [(''collection'', JStr (dr_collection e)), (''id'', JStr (dr_id e))]"

datatype maintenance_type = COMPACT | INTEGRITY_CHECK | OPTIMIZE | FULL_OPTIMIZE

fun MaintenanceType_str :: "maintenance_type \<Rightarrow> string" where
  "MaintenanceType_str COMPACT = ''compact''"
| "MaintenanceType_str INTEGRITY_CHECK = ''integrityCheck''"
| "MaintenanceType_str OPTIMIZE = ''optimize''"
| "MaintenanceType_str FULL_OPTIMIZE = ''fullOptimize''"

definition EncryptedValue_to_json :: "string \<Rightarrow> json" where
  "EncryptedValue_to_json v = JObj [(''@type'', JStr ''encryptable''), (''value'', JStr v)]"

section \<open>Properties\<close>

text \<open>
  Parsing a list of flag words depends on the set of the words only, never on their order or
  repetition; the result is one of the four flag sets, and printing a result and parsing its
  words again gives the result back.
\<close>

theorem document_flags_normal_form:
  assumes "ReplicatorDocumentFlags_parse_all xs = Inr f" and "set ys = set xs"
  shows "ReplicatorDocumentFlags_parse_all ys = Inr f \<and> f \<in> {0, 1, 2, 3}
    \<and> ReplicatorDocumentFlags_parse_all (map JStr (split_on (CHR ''|'') (ReplicatorDocumentFlags_str f))) = Inr f"
proof -
  from assms(1) have "flags_parse_from flags_NONE xs = Inr f"
    by (simp add: ReplicatorDocumentFlags_parse_all_def)
  then have "f \<in> {0, 1, 2, 3}" "flags_parse_from flags_NONE ys = Inr f"
    using flags_parse_from_range [of flags_NONE xs f] doc_flags.fold_set_cong [OF _ assms(2)]
    by (simp_all add: flags_NONE_def)
  then show ?thesis
    using flags_roundtrip by (simp add: ReplicatorDocumentFlags_parse_all_def)
qed

theorem document_flags_normal_form_witness:
  "ReplicatorDocumentFlags_parse_all [JStr ''Deleted'', JStr ''accessRemoved'', JStr ''Deleted''] = Inr 3"
proof -
  have p: "ReplicatorDocumentFlags_parse_all [JStr ''accessRemoved'', JStr ''Deleted''] = Inr 3"
    by code_simp
  have s: "set [JStr ''Deleted'', JStr ''accessRemoved'', JStr ''Deleted''] =
      set [JStr ''accessRemoved'', JStr ''Deleted'']"
    by auto
  from document_flags_normal_form [OF p s] show ?thesis by blast
qed

text \<open>
  Event entries can live in a hash set: entries that compare equal have the same hash key, and
  the comparison, wildcards included, is symmetric.
\<close>

theorem wait_entry_hash_consistent:
  assumes "WaitForDocumentEventEntry_eq a b" "wait_entry_wf a" "wait_entry_wf b"
  shows "WaitForDocumentEventEntry_hash_key a = WaitForDocumentEventEntry_hash_key b
    \<and> WaitForDocumentEventEntry_eq b a"
  using assms wait_entry_eq_hash wait_entry_eq_sym by blast

theorem wait_entry_hash_consistent_witness:
  "WaitForDocumentEventEntry_eq
     \<lparr> wf_collection = ''c'', wf_id = ''d'', wf_direction = PULL, wf_flags = Some 1,
       wf_err_domain = JNull, wf_err_code = JNull \<rparr>
     \<lparr> wf_collection = ''c'', wf_id = ''d'', wf_direction = PUSH_AND_PULL, wf_flags = None,
       wf_err_domain = JNull, wf_err_code = JNull \<rparr>"
  by (rule wait_entry_hash_consistent [THEN conjunct2])
    (simp_all add: WaitForDocumentEventEntry_eq_def wait_entry_wf_def scalar_eq_def)

text \<open>
  The comparison is not transitive: an entry with wildcards equals both of two entries that
  differ, so which element a set lookup finds depends on what was stored first.
\<close>

theorem wait_entry_eq_not_transitive:
  "\<exists>a b c. WaitForDocumentEventEntry_eq a b \<and> WaitForDocumentEventEntry_eq b c
     \<and> \<not> WaitForDocumentEventEntry_eq a c"
proof -
  let ?e = "\<lambda>dir. \<lparr> wf_collection = ''c'', wf_id = ''d'', wf_direction = dir, wf_flags = None,
       wf_err_domain = JNull, wf_err_code = JNull \<rparr>"
  have "WaitForDocumentEventEntry_eq (?e PUSH) (?e PUSH_AND_PULL)"
    "WaitForDocumentEventEntry_eq (?e PUSH_AND_PULL) (?e PULL)"
    "\<not> WaitForDocumentEventEntry_eq (?e PUSH) (?e PULL)"
    by (simp_all add: WaitForDocumentEventEntry_eq_def scalar_eq_def)
  then show ?thesis by blast
qed

end
