(* ===== verification/RequestBodies.thy ===== *)
theory RequestBodies
  imports ReplTypes
begin

text \<open>
  The bodies of the requests to a test server: \<open>DatabaseUpdateEntry\<close> of \<open>request_types.py\<close> and
  the body classes of \<open>v1/requests.py\<close> and \<open>v2/requests.py\<close>.  A body is what the class keeps, its
  methods are operations on it and \<open>to_json\<close> gives the value that is sent.  Version 1 rewrites
  blob URLs into names inside the dictionary of the update entry itself, so there \<open>to_json\<close> also
  returns the body it leaves behind.
\<close>

named_theorems body_simps "rewrite rules for request bodies"

section \<open>Updates of a database\<close>

datatype update_type = UPDATE | DELETE | PURGE

fun DatabaseUpdateType_str :: "update_type \<Rightarrow> string" where
  "DatabaseUpdateType_str UPDATE = ''UPDATE''"
| "DatabaseUpdateType_str DELETE = ''DELETE''"
| "DatabaseUpdateType_str PURGE = ''PURGE''"

record update_entry =
  ue_type :: update_type
  ue_collection :: string
  ue_document_id :: string
  ue_updated :: "jdict list option"
  ue_removed :: "string list option"
  ue_blobs :: "(string, string) pydict option"

definition assert_not_null :: "'a option \<Rightarrow> 'a result" where
  "assert_not_null x = (case x of None \<Rightarrow> Inl TypeError | Some v \<Rightarrow> Inr v)"

definition DatabaseUpdateEntry_create ::
    "update_type option \<Rightarrow> string option \<Rightarrow> string option \<Rightarrow> jdict list option \<Rightarrow> string list option
      \<Rightarrow> (string, string) pydict option \<Rightarrow> update_entry result" where
  "DatabaseUpdateEntry_create type collection document_id updated removed blobs =
     rbind (assert_not_null type) (\<lambda>t.
     rbind (assert_not_null collection) (\<lambda>c.
     rbind (assert_not_null document_id) (\<lambda>i.
       Inr \<lparr> ue_type = t, ue_collection = c, ue_document_id = i, ue_updated = updated,
             ue_removed = removed, ue_blobs = blobs \<rparr>)))"

definition DatabaseUpdateEntry_is_valid :: "update_entry \<Rightarrow> bool" where
  "DatabaseUpdateEntry_is_valid e =
     (if ue_type e \<noteq> UPDATE then True
      else case ue_updated e of
             Some u \<Rightarrow> length u > 0
           | None \<Rightarrow> (case ue_blobs e of
                        Some b \<Rightarrow> length b > 0
                      | None \<Rightarrow> (case ue_removed e of Some r \<Rightarrow> length r > 0 | None \<Rightarrow> False)))"

definition nonempty_field :: "string \<Rightarrow> 'a list option \<Rightarrow> ('a list \<Rightarrow> json) \<Rightarrow> jdict" where
  "nonempty_field k x f = (case x of Some l \<Rightarrow> if length l > 0 then [(k, f l)] else [] | None \<Rightarrow> [])"

definition DatabaseUpdateEntry_to_json :: "update_entry \<Rightarrow> jdict option" where
  "DatabaseUpdateEntry_to_json e =
     (if \<not> DatabaseUpdateEntry_is_valid e then None
      else let raw = [(''type'', JStr (DatabaseUpdateType_str (ue_type e))),
                      (''collection'', JStr (ue_collection e)), (''documentID'', JStr (ue_document_id e))]
           in if ue_type e \<noteq> UPDATE then Some raw
              else Some (raw
                @ nonempty_field ''updatedProperties'' (ue_updated e) (\<lambda>u. JList (map JObj u))
                @ nonempty_field ''removedProperties'' (ue_removed e) JStrs
                @ nonempty_field ''updatedBlobs'' (ue_blobs e) JStrDict))"

lemma nonempty_field_keys [body_simps]:
  "map_of (nonempty_field k x f) k' =
     (if k' = k then (case x of Some l \<Rightarrow> if l \<noteq> [] then Some (f l) else None | None \<Rightarrow> None) else None)"
  by (auto simp: nonempty_field_def split: option.splits)

text \<open>An entry serialises exactly when it is valid.\<close>

lemma update_json_valid: "(\<exists>raw. DatabaseUpdateEntry_to_json e = Some raw) \<longleftrightarrow> DatabaseUpdateEntry_is_valid e"
  by (auto simp: DatabaseUpdateEntry_to_json_def Let_def)

lemma update_json_keys:
  assumes "DatabaseUpdateEntry_to_json e = Some raw" "ue_type e = UPDATE"
  shows "map_of raw ''updatedProperties'' = (case ue_updated e of
           Some u \<Rightarrow> if u \<noteq> [] then Some (JList (map JObj u)) else None | None \<Rightarrow> None)"
    and "map_of raw ''removedProperties'' = (case ue_removed e of
           Some r \<Rightarrow> if r \<noteq> [] then Some (JStrs r) else None | None \<Rightarrow> None)"
    and "map_of raw ''updatedBlobs'' = (case ue_blobs e of
           Some b \<Rightarrow> if b \<noteq> [] then Some (JStrDict b) else None | None \<Rightarrow> None)"
  using assms
  by (auto simp: DatabaseUpdateEntry_to_json_def Let_def map_add_def body_simps split: if_splits option.splits)

lemma update_json_not_update:
  "ue_type e \<noteq> UPDATE \<Longrightarrow> DatabaseUpdateEntry_to_json e =
     Some [(''type'', JStr (DatabaseUpdateType_str (ue_type e))),
           (''collection'', JStr (ue_collection e)), (''documentID'', JStr (ue_document_id e))]"
  by (simp add: DatabaseUpdateEntry_to_json_def DatabaseUpdateEntry_is_valid_def Let_def)

section \<open>Blob URLs in version 1\<close>

text \<open>
  The loop over the keys of \<open>updatedBlobs\<close>, which assigns to the dictionary of the entry while it
  goes: what is renamed before a \<open>ValueError\<close> stays renamed.
\<close>

fun rename_blobs :: "(string, string) pydict \<Rightarrow> unit result \<times> (string, string) pydict" where
  "rename_blobs [] = (Inr (), [])"
| "rename_blobs ((keypath, blob_url) # d) =
     (case url_basename blob_url of
        Inl e \<Rightarrow> (Inl e, (keypath, blob_url) # d)
      | Inr blob_name \<Rightarrow> (let (r, d') = rename_blobs d in (r, (keypath, blob_name) # d')))"

text \<open>What one entry contributes: its object with the names in place, and the entry it becomes.\<close>

definition v1_hack_names :: "update_entry \<Rightarrow> jdict \<Rightarrow> json result \<times> update_entry" where
  "v1_hack_names e raw =
     (if d_has raw ''updatedBlobs''
      then case ue_blobs e of
             None \<Rightarrow> (Inr (JObj raw), e)
           | Some b \<Rightarrow> (let (r, b') = rename_blobs b; e' = e\<lparr>ue_blobs := Some b'\<rparr>
                         in (case r of
                               Inl x \<Rightarrow> Inl x
                             | Inr _ \<Rightarrow> Inr (JObj (d_set raw ''updatedBlobs'' (JStrDict b'))), e'))
      else (Inr (JObj raw), e))"

fun v1_update_entries :: "update_entry list \<Rightarrow> json list result \<times> update_entry list" where
  "v1_update_entries [] = (Inr [], [])"
| "v1_update_entries (e # es) =
     (case DatabaseUpdateEntry_to_json e of
        None \<Rightarrow> (let (r, es') = v1_update_entries es in (r, e # es'))
      | Some raw \<Rightarrow>
          (case v1_hack_names e raw of
             (Inl x, e') \<Rightarrow> (Inl x, e' # es)
           | (Inr j, e') \<Rightarrow> (let (r, es') = v1_update_entries es
                           in (rbind r (\<lambda>js. Inr (j # js)), e' # es'))))"

text \<open>Here \<open>"updatedBlobs" in change_json\<close> raises when the entry serialised to \<open>None\<close>.\<close>

fun v1_verify_entries :: "update_entry list \<Rightarrow> json list result \<times> update_entry list" where
  "v1_verify_entries [] = (Inr [], [])"
| "v1_verify_entries (e # es) =
     (case DatabaseUpdateEntry_to_json e of
        None \<Rightarrow> (Inl TypeError, e # es)
      | Some raw \<Rightarrow>
          (case v1_hack_names e raw of
             (Inl x, e') \<Rightarrow> (Inl x, e' # es)
           | (Inr j, e') \<Rightarrow> (let (r, es') = v1_verify_entries es
                           in (rbind r (\<lambda>js. Inr (j # js)), e' # es'))))"

definition v1_PostUpdateDatabase_to_json ::
    "string option \<Rightarrow> update_entry list option \<Rightarrow> json result \<times> update_entry list option" where
  "v1_PostUpdateDatabase_to_json database updates =
     (let (r, updates') = (case updates of
            None \<Rightarrow> (Inr [], None)
          | Some es \<Rightarrow> (let (r, es') = v1_update_entries es in (r, Some es')))
      in (rbind r (\<lambda>js. Inr (JObj [(''database'', JOptStr database), (''updates'', JList js)])), updates'))"

definition v1_PostVerifyDocuments_to_json ::
    "string \<Rightarrow> string \<Rightarrow> update_entry list option \<Rightarrow> json result \<times> update_entry list option" where
  "v1_PostVerifyDocuments_to_json database snapshot changes =
     (let (r, changes') = (case changes of
            None \<Rightarrow> (Inr [], None)
          | Some es \<Rightarrow> (let (r, es') = v1_verify_entries es in (r, Some es')))
      in (rbind r (\<lambda>js. Inr (JObj [(''snapshot'', JStr snapshot), (''database'', JStr database),
                               (''changes'', JList js)])), changes'))"

section \<open>The same bodies in version 2\<close>

fun v2_update_entries :: "update_entry list \<Rightarrow> json list" where
  "v2_update_entries [] = []"
| "v2_update_entries (e # es) =
     (case DatabaseUpdateEntry_to_json e of
        None \<Rightarrow> v2_update_entries es
      | Some raw \<Rightarrow> JObj raw # v2_update_entries es)"

definition v2_PostUpdateDatabase_to_json :: "string option \<Rightarrow> update_entry list option \<Rightarrow> json" where
  "v2_PostUpdateDatabase_to_json database updates =
     JObj [(''database'', JOptStr database),
           (''updates'', JList (case updates of None \<Rightarrow> [] | Some es \<Rightarrow> v2_update_entries es))]"

definition v2_PostVerifyDocuments_to_json :: "string \<Rightarrow> string \<Rightarrow> update_entry list option \<Rightarrow> json" where
  "v2_PostVerifyDocuments_to_json database snapshot changes =
     JObj [(''snapshot'', JStr snapshot), (''database'', JStr database),
           (''changes'', JList (case changes of
              None \<Rightarrow> []
            | Some es \<Rightarrow> map (\<lambda>e. case DatabaseUpdateEntry_to_json e of
                                 None \<Rightarrow> JNull | Some raw \<Rightarrow> JObj raw) es))]"

section \<open>Renaming blobs\<close>

lemma rename_blobs_keys: "map fst (snd (rename_blobs d)) = map fst d"
  by (induction d rule: rename_blobs.induct) (auto simp: Let_def split: sum.splits prod.splits)

lemma rename_blobs_nonempty: "snd (rename_blobs d) = [] \<longleftrightarrow> d = []"
  using rename_blobs_keys [of d] by (metis map_is_Nil_conv)

lemma rename_blobs_values:
  assumes "rename_blobs d = (Inr u, d')"
  shows "list_all2 (\<lambda>kv kv'. fst kv' = fst kv \<and> url_basename (snd kv) = Inr (snd kv')) d d'"
  using assms
proof (induction d arbitrary: d' rule: rename_blobs.induct)
  case 1
  then show ?case by simp
next
  case (2 k url d)
  from "2.prems" obtain n where n: "url_basename url = Inr n" by (cases "url_basename url") auto
  obtain r d1 where rb: "rename_blobs d = (r, d1)" by (cases "rename_blobs d")
  with "2.prems" n have d': "r = Inr u" "d' = (k, n) # d1" by auto
  with "2.IH" [OF n] rb n show ?case by simp
qed

lemma rename_blobs_plain: "list_all (\<lambda>kv. plain_name (snd kv)) d \<Longrightarrow> rename_blobs d = (Inr (), d)"
  by (induction d rule: rename_blobs.induct) (auto simp: url_basename_plain)

lemma JStrDict_inj: "JStrDict d = JStrDict d' \<longleftrightarrow> d = d'"
  by (auto simp: JStrDict_def inj_on_def dest!: map_injective [rotated])

text \<open>
  What renaming one entry leaves behind serialises, without any renaming, to the object that was
  sent: version 1 is version 2 on the entries with the names in place.
\<close>

definition fill_blobs :: "update_entry \<Rightarrow> (string, string) pydict \<Rightarrow> update_entry" where
  "fill_blobs e b = e\<lparr>ue_blobs := Some b\<rparr>"

lemma fill_blobs_valid:
  "ue_blobs e = Some b \<Longrightarrow> length b' = length b \<Longrightarrow>
     DatabaseUpdateEntry_is_valid (fill_blobs e b') = DatabaseUpdateEntry_is_valid e"
  by (auto simp: DatabaseUpdateEntry_is_valid_def fill_blobs_def split: option.splits)

lemma d_set_append: "map_of d k = None \<Longrightarrow> d_set (d @ e) k v = d @ d_set e k v"
  by (induction d) (auto split: if_splits)

lemma fill_blobs_json:
  assumes raw: "DatabaseUpdateEntry_to_json e = Some raw" and has: "d_has raw ''updatedBlobs''"
    and b: "ue_blobs e = Some b" and len: "length b' = length b"
  shows "DatabaseUpdateEntry_to_json (fill_blobs e b') = Some (d_set raw ''updatedBlobs'' (JStrDict b'))"
proof -
  have up: "ue_type e = UPDATE"
  proof (rule ccontr)
    assume "ue_type e \<noteq> UPDATE"
    with raw has show False by (auto simp: update_json_not_update d_has_def)
  qed
  from raw have valid: "DatabaseUpdateEntry_is_valid e" using update_json_valid by blast
  have "b \<noteq> []"
    using has update_json_keys(3) [OF raw up] b by (auto simp: d_has_def)
  then show ?thesis
    using raw valid fill_blobs_valid [OF b len] up b len
    by (auto simp: DatabaseUpdateEntry_to_json_def Let_def fill_blobs_def d_set_append
        nonempty_field_def split: option.splits)
qed

lemma v1_hack_names_v2:
  assumes raw: "DatabaseUpdateEntry_to_json e = Some raw"
    and hack: "v1_hack_names e raw = (Inr j, e')"
  shows "\<exists>raw'. DatabaseUpdateEntry_to_json e' = Some raw' \<and> j = JObj raw'"
proof (cases "d_has raw ''updatedBlobs'' \<and> ue_blobs e \<noteq> None")
  case True
  then obtain b where b: "ue_blobs e = Some b" by auto
  obtain r b' where rb: "rename_blobs b = (r, b')" by (cases "rename_blobs b")
  have "length b' = length b" using rename_blobs_keys [of b] rb by (metis length_map snd_conv)
  from fill_blobs_json [OF raw _ b this] True hack b rb show ?thesis
    by (auto simp: v1_hack_names_def fill_blobs_def split: sum.splits)
next
  case False
  with raw hack show ?thesis by (auto simp: v1_hack_names_def split: if_splits option.splits)
qed

lemma v1_update_entries_v2:
  "v1_update_entries es = (Inr js, es') \<Longrightarrow> js = v2_update_entries es'"
proof (induction es arbitrary: js es')
  case Nil
  then show ?case by simp
next
  case (Cons e es)
  obtain r es1 where rest: "v1_update_entries es = (r, es1)" by (cases "v1_update_entries es")
  show ?case
  proof (cases "DatabaseUpdateEntry_to_json e")
    case None
    with Cons rest show ?thesis by auto
  next
    case (Some raw)
    obtain q e' where h: "v1_hack_names e raw = (q, e')" by (cases "v1_hack_names e raw")
    with Cons.prems Some obtain j where j: "q = Inr j" by (cases q) auto
    from v1_hack_names_v2 [OF Some] h j obtain raw'
      where raw': "DatabaseUpdateEntry_to_json e' = Some raw'" "j = JObj raw'" by blast
    from Cons.prems Some h j rest obtain js1 where "r = Inr js1" "js = j # js1" "es' = e' # es1"
      by (auto simp: result_simps)
    with Cons.IH [of js1 es1] rest raw' show ?thesis by simp
  qed
qed

lemma v1_verify_entries_update:
  "v1_verify_entries es = (Inr js, es') \<Longrightarrow>
     v1_update_entries es = (Inr js, es') \<and> list_all DatabaseUpdateEntry_is_valid es"
proof (induction es arbitrary: js es')
  case Nil
  then show ?case by simp
next
  case (Cons e es)
  obtain r es1 where rest: "v1_verify_entries es = (r, es1)" by (cases "v1_verify_entries es")
  from Cons.prems obtain raw where raw: "DatabaseUpdateEntry_to_json e = Some raw"
    by (cases "DatabaseUpdateEntry_to_json e") auto
  then have valid: "DatabaseUpdateEntry_is_valid e" using update_json_valid by blast
  obtain q e' where h: "v1_hack_names e raw = (q, e')" by (cases "v1_hack_names e raw")
  with Cons.prems raw obtain j where j: "q = Inr j" by (cases q) auto
  from Cons.prems raw h j rest obtain js1 where "r = Inr js1" "js = j # js1" "es' = e' # es1"
    by (auto simp: result_simps)
  with Cons.IH [of js1 es1] rest raw h j valid show ?case by simp
qed

definition names_plain :: "update_entry \<Rightarrow> bool" where
  "names_plain e = (case ue_blobs e of None \<Rightarrow> True | Some b \<Rightarrow> list_all (\<lambda>kv. plain_name (snd kv)) b)"

lemma v1_hack_names_plain:
  assumes "names_plain e" "DatabaseUpdateEntry_to_json e = Some raw"
  shows "v1_hack_names e raw = (Inr (JObj raw), e)"
proof (cases "d_has raw ''updatedBlobs'' \<and> ue_blobs e \<noteq> None")
  case True
  then obtain b where b: "ue_blobs e = Some b" by auto
  with assms(1) have rb: "rename_blobs b = (Inr (), b)"
    by (simp add: names_plain_def rename_blobs_plain)
  have same: "fill_blobs e b = e" using b by (simp add: fill_blobs_def)
  from fill_blobs_json [OF assms(2) _ b, of b] True same assms(2)
  have "d_set raw ''updatedBlobs'' (JStrDict b) = raw" by simp
  with True b rb same show ?thesis by (simp add: v1_hack_names_def fill_blobs_def)
qed (auto simp: v1_hack_names_def split: option.splits)

lemma v1_update_entries_plain:
  "list_all names_plain es \<Longrightarrow> v1_update_entries es = (Inr (v2_update_entries es), es)"
  by (induction es) (auto simp: v1_hack_names_plain split: option.splits)

section \<open>Bodies with state\<close>

text \<open>The databases of a reset: \<open>add_dataset\<close> and \<open>add_empty\<close> assign one entry per name.\<close>

record reset_body =
  rb_test_name :: "string option"
  rb_databases :: jdict

definition PostResetRequestBody_create :: "string option \<Rightarrow> reset_body" where
  "PostResetRequestBody_create name = \<lparr> rb_test_name = name, rb_databases = [] \<rparr>"

fun v1_add_datasets :: "string \<Rightarrow> string list \<Rightarrow> jdict \<Rightarrow> unit result \<times> jdict" where
  "v1_add_datasets url [] dbs = (Inr (), dbs)"
| "v1_add_datasets url (db_name # names) dbs =
     (case url_basename url of
        Inl e \<Rightarrow> (Inl e, dbs)
      | Inr file \<Rightarrow>
          v1_add_datasets url names
            (d_set dbs db_name (JObj [(''dataset'', JStr (replace_sub ''.cblite2.zip'' [] file))])))"

definition v1_PostReset_add_dataset :: "reset_body \<Rightarrow> string \<Rightarrow> string list \<Rightarrow> unit result \<times> reset_body" where
  "v1_PostReset_add_dataset body url names =
     (let (r, dbs) = v1_add_datasets url names (rb_databases body)
      in (r, body\<lparr>rb_databases := dbs\<rparr>))"

definition v2_PostReset_add_dataset :: "reset_body \<Rightarrow> string \<Rightarrow> string list \<Rightarrow> reset_body" where
  "v2_PostReset_add_dataset body url names =
     body\<lparr>rb_databases := foldl (\<lambda>dbs n. d_set dbs n (JObj [(''dataset'', JStr url)])) (rb_databases body) names\<rparr>"

definition PostReset_add_empty :: "reset_body \<Rightarrow> string list \<Rightarrow> string list option \<Rightarrow> reset_body" where
  "PostReset_add_empty body names collections =
     (let entry = (case collections of None \<Rightarrow> JObj [] | Some cs \<Rightarrow> JObj [(''collections'', JStrs cs)])
      in body\<lparr>rb_databases := foldl (\<lambda>dbs n. d_set dbs n entry) (rb_databases body) names\<rparr>)"

definition PostReset_to_json :: "reset_body \<Rightarrow> json" where
  "PostReset_to_json body =
     JObj ((''databases'', JObj (rb_databases body))
       # (case rb_test_name body of
            Some n \<Rightarrow> if n \<noteq> [] then [(''test'', JStr n)] else []
          | None \<Rightarrow> []))"

definition reset_wf :: "reset_body \<Rightarrow> bool" where
  "reset_wf body = d_wf (rb_databases body)"

lemma v1_add_datasets_Inr:
  "url_basename url = Inr file \<Longrightarrow>
     v1_add_datasets url names dbs =
       (Inr (), pd.put_all dbs names (JObj [(''dataset'', JStr (replace_sub ''.cblite2.zip'' [] file))]))"
  by (induction names arbitrary: dbs) auto

lemma reset_wf_ops [intro]:
  "reset_wf (PostResetRequestBody_create name)"
  "reset_wf b \<Longrightarrow> reset_wf (snd (v1_PostReset_add_dataset b url names))"
  "reset_wf b \<Longrightarrow> reset_wf (v2_PostReset_add_dataset b url names)"
  "reset_wf b \<Longrightarrow> reset_wf (PostReset_add_empty b names cs)"
proof -
  have v1: "d_wf dbs \<Longrightarrow> d_wf (snd (v1_add_datasets url names dbs))" for dbs
    by (induction url names dbs rule: v1_add_datasets.induct) (auto split: sum.splits)
  show "reset_wf (PostResetRequestBody_create name)"
    by (simp add: reset_wf_def PostResetRequestBody_create_def)
  show "reset_wf (snd (v1_PostReset_add_dataset b url names))" if "reset_wf b"
    using that v1 [of "rb_databases b"]
    by (cases "v1_add_datasets url names (rb_databases b)")
      (simp add: reset_wf_def v1_PostReset_add_dataset_def)
  show "reset_wf (v2_PostReset_add_dataset b url names)" if "reset_wf b"
    using that pd.inv_put_all
    by (auto simp: reset_wf_def v2_PostReset_add_dataset_def simp flip: pd.put_all_def)
  show "reset_wf (PostReset_add_empty b names cs)" if "reset_wf b"
    using that pd.inv_put_all
    by (auto simp: reset_wf_def PostReset_add_empty_def Let_def simp flip: pd.put_all_def)
qed

section \<open>Bodies without state of their own\<close>

definition PostGetAllDocuments_create ::
    "string option \<Rightarrow> string list option \<Rightarrow> (string \<times> string list) result" where
  "PostGetAllDocuments_create database collections =
     rbind (assert_not_null database) (\<lambda>db.
       Inr (db, case collections of Some cs \<Rightarrow> cs | None \<Rightarrow> []))"

definition PostGetAllDocuments_to_json :: "string \<Rightarrow> string list \<Rightarrow> json" where
  "PostGetAllDocuments_to_json database collections =
     JObj [(''database'', JStr database), (''collections'', JStrs collections)]"

definition PostSnapshotDocuments_to_json :: "string \<Rightarrow> document_ref list \<Rightarrow> json" where
  "PostSnapshotDocuments_to_json database entries =
     JObj [(''database'', JStr database), (''documents'', JList (map DocumentEntry_to_json entries))]"

record start_replicator_body =
  sr_database :: string
  sr_endpoint :: string
  sr_type :: replicator_type
  sr_continuous :: bool
  sr_authenticator :: "repl_authenticator option"
  sr_reset :: bool
  sr_collections :: "repl_collection list"
  sr_enable_document_listener :: bool
  sr_enable_auto_purge :: bool
  sr_pinned_server_cert :: "string option"
  sr_headers :: "(string, string) pydict option"

definition PostStartReplicator_to_json :: "start_replicator_body \<Rightarrow> json" where
  "PostStartReplicator_to_json b =
     JObj [(''config'', JObj (
              [(''database'', JStr (sr_database b)),
               (''endpoint'', JStr (sr_endpoint b)),
               (''replicatorType'', JStr (ReplicatorType_str (sr_type b))),
               (''continuous'', JBool (sr_continuous b)),
               (''enableDocumentListener'', JBool (sr_enable_document_listener b)),
               (''enableAutoPurge'', JBool (sr_enable_auto_purge b)),
               (''pinnedServerCert'', JOptStr (sr_pinned_server_cert b)),
               (''headers'', case sr_headers b of None \<Rightarrow> JNull | Some h \<Rightarrow> JStrDict h),
               (''collections'', JList (map ReplicatorCollectionEntry_to_json (sr_collections b)))]
              @ opt_field ''authenticator''
                  (map_option ReplicatorAuthenticator_to_json (sr_authenticator b)))),
           (''reset'', JBool (sr_reset b))]"

definition PostGetReplicatorStatus_to_json :: "json \<Rightarrow> json" where
  "PostGetReplicatorStatus_to_json i = JObj [(''id'', i)]"

definition PostPerformMaintenance_to_json :: "string \<Rightarrow> string \<Rightarrow> json" where
  "PostPerformMaintenance_to_json db op_type =
     JObj [(''database'', JStr db), (''maintenanceType'', JStr op_type)]"

definition logging_field :: "string option \<Rightarrow> string option \<Rightarrow> jdict" where
  "logging_field url tag =
     (case (url, tag) of
        (Some u, Some t) \<Rightarrow> [(''logging'', JObj [(''url'', JStr u), (''tag'', JStr t)])]
      | _ \<Rightarrow> [])"

definition v1_PostNewSession_to_json ::
    "string \<Rightarrow> string \<Rightarrow> string option \<Rightarrow> string option \<Rightarrow> json" where
  "v1_PostNewSession_to_json i dataset_version url tag =
     JObj ([(''id'', JStr i), (''dataset_version'', JStr dataset_version)] @ logging_field url tag)"

definition v2_PostNewSession_to_json :: "string \<Rightarrow> string option \<Rightarrow> string option \<Rightarrow> json" where
  "v2_PostNewSession_to_json i url tag = JObj ((''id'', JStr i) # logging_field url tag)"

definition PostRunQuery_to_json :: "string \<Rightarrow> string \<Rightarrow> json" where
  "PostRunQuery_to_json db query = JObj [(''database'', JStr db), (''query'', JStr query)]"

definition PostGetDocument_to_json :: "string \<Rightarrow> document_ref \<Rightarrow> json" where
  "PostGetDocument_to_json db document =
     JObj [(''database'', JStr db), (''document'', DocumentEntry_to_json document)]"

definition PostLog_to_json :: "string \<Rightarrow> json" where
  "PostLog_to_json message = JObj [(''message'', JStr message)]"

definition identity_json :: "cert_key_pair \<Rightarrow> json" where
  "identity_json ident =
     JObj [(''encoding'', JStr ''PKCS12''), (''data'', JStr (b64encode (ck_pfx_bytes ident))),
           (''password'', JStr (ck_password ident))]"

record start_listener_body =
  sl_database :: string
  sl_collections :: "string list"
  sl_port :: "json option"
  sl_disable_tls :: bool
  sl_identity :: "cert_key_pair option"

definition PostStartListener_to_json :: "start_listener_body \<Rightarrow> json" where
  "PostStartListener_to_json b =
     JObj ([(''database'', JStr (sl_database b)), (''collections'', JStrs (sl_collections b))]
       @ opt_field ''port'' (sl_port b)
       @ (if sl_disable_tls b then [(''disableTLS'', JBool (sl_disable_tls b))] else [])
       @ opt_field ''identity'' (map_option identity_json (sl_identity b)))"

definition PostStopListener_to_json :: "json \<Rightarrow> json" where
  "PostStopListener_to_json i = JObj [(''id'', i)]"

text \<open>\<open>sm_transports\<close> is the list of names that \<open>MultipeerReplicator.start\<close> passes.\<close>

record start_multipeer_body =
  sm_peer_group_id :: string
  sm_database :: string
  sm_collections :: "repl_collection list"
  sm_identity :: cert_key_pair
  sm_authenticator :: "cert_key_pair option"
  sm_transports :: "string list"

definition PostStartMultipeerReplicator_to_json :: "start_multipeer_body \<Rightarrow> json" where
  "PostStartMultipeerReplicator_to_json b =
     JObj ([(''peerGroupID'', JStr (sm_peer_group_id b)),
            (''database'', JStr (sm_database b)),
            (''collections'', JList (map ReplicatorCollectionEntry_to_json (sm_collections b))),
            (''identity'', identity_json (sm_identity b)),
            (''transports'', JStrs (sm_transports b))]
       @ opt_field ''authenticator''
           (map_option MultipeerReplicatorCAAuthenticator_to_json (sm_authenticator b)))"

definition PostStopMultipeerReplicator_to_json :: "json \<Rightarrow> json" where
  "PostStopMultipeerReplicator_to_json i = JObj [(''id'', i)]"

definition PostGetMultipeerReplicatorStatus_to_json :: "json \<Rightarrow> json" where
  "PostGetMultipeerReplicatorStatus_to_json i = JObj [(''id'', i)]"

section \<open>Any body\<close>

text \<open>The instances of the body classes; the name of a constructor is the name of its class.\<close>

datatype request_body =
    V1_PostResetRequestBody reset_body
  | V2_PostResetRequestBody reset_body
  | PostGetAllDocumentsRequestBody string "string list"
  | V1_PostUpdateDatabaseRequestBody "string option" "update_entry list option"
  | V2_PostUpdateDatabaseRequestBody "string option" "update_entry list option"
  | PostSnapshotDocumentsRequestBody string "document_ref list"
  | V1_PostVerifyDocumentsRequestBody string string "update_entry list option"
  | V2_PostVerifyDocumentsRequestBody string string "update_entry list option"
  | PostStartReplicatorRequestBody start_replicator_body
  | PostGetReplicatorStatusRequestBody json
  | PostPerformMaintenanceRequestBody string string
  | V1_PostNewSessionRequestBody string string "string option" "string option"
  | V2_PostNewSessionRequestBody string "string option" "string option"
  | PostRunQueryRequestBody string string
  | PostGetDocumentRequestBody string document_ref
  | PostLogRequestBody string
  | PostStartListenerRequestBody start_listener_body
  | PostStopListenerRequestBody json
  | PostStartMultipeerReplicatorRequestBody start_multipeer_body
  | PostStopMultipeerReplicatorRequestBody json
  | PostGetMultipeerReplicatorStatusRequestBody json

fun body_to_json :: "request_body \<Rightarrow> json result \<times> request_body" where
  "body_to_json (V1_PostResetRequestBody b) = (Inr (PostReset_to_json b), V1_PostResetRequestBody b)"
| "body_to_json (V2_PostResetRequestBody b) = (Inr (PostReset_to_json b), V2_PostResetRequestBody b)"
| "body_to_json (PostGetAllDocumentsRequestBody db cs) =
     (Inr (PostGetAllDocuments_to_json db cs), PostGetAllDocumentsRequestBody db cs)"
| "body_to_json (V1_PostUpdateDatabaseRequestBody db us) =
     (let (r, us') = v1_PostUpdateDatabase_to_json db us in (r, V1_PostUpdateDatabaseRequestBody db us'))"
| "body_to_json (V2_PostUpdateDatabaseRequestBody db us) =
     (Inr (v2_PostUpdateDatabase_to_json db us), V2_PostUpdateDatabaseRequestBody db us)"
| "body_to_json (PostSnapshotDocumentsRequestBody db es) =
     (Inr (PostSnapshotDocuments_to_json db es), PostSnapshotDocumentsRequestBody db es)"
| "body_to_json (V1_PostVerifyDocumentsRequestBody db s cs) =
     (let (r, cs') = v1_PostVerifyDocuments_to_json db s cs in (r, V1_PostVerifyDocumentsRequestBody db s cs'))"
| "body_to_json (V2_PostVerifyDocumentsRequestBody db s cs) =
     (Inr (v2_PostVerifyDocuments_to_json db s cs), V2_PostVerifyDocumentsRequestBody db s cs)"
| "body_to_json (PostStartReplicatorRequestBody b) =
     (Inr (PostStartReplicator_to_json b), PostStartReplicatorRequestBody b)"
| "body_to_json (PostGetReplicatorStatusRequestBody i) =
     (Inr (PostGetReplicatorStatus_to_json i), PostGetReplicatorStatusRequestBody i)"
| "body_to_json (PostPerformMaintenanceRequestBody db t) =
     (Inr (PostPerformMaintenance_to_json db t), PostPerformMaintenanceRequestBody db t)"
| "body_to_json (V1_PostNewSessionRequestBody i v u t) =
     (Inr (v1_PostNewSession_to_json i v u t), V1_PostNewSessionRequestBody i v u t)"
| "body_to_json (V2_PostNewSessionRequestBody i u t) =
     (Inr (v2_PostNewSession_to_json i u t), V2_PostNewSessionRequestBody i u t)"
| "body_to_json (PostRunQueryRequestBody db q) = (Inr (PostRunQuery_to_json db q), PostRunQueryRequestBody db q)"
| "body_to_json (PostGetDocumentRequestBody db d) =
     (Inr (PostGetDocument_to_json db d), PostGetDocumentRequestBody db d)"
| "body_to_json (PostLogRequestBody m) = (Inr (PostLog_to_json m), PostLogRequestBody m)"
| "body_to_json (PostStartListenerRequestBody b) =
     (Inr (PostStartListener_to_json b), PostStartListenerRequestBody b)"
| "body_to_json (PostStopListenerRequestBody i) = (Inr (PostStopListener_to_json i), PostStopListenerRequestBody i)"
| "body_to_json (PostStartMultipeerReplicatorRequestBody b) =
     (Inr (PostStartMultipeerReplicator_to_json b), PostStartMultipeerReplicatorRequestBody b)"
| "body_to_json (PostStopMultipeerReplicatorRequestBody i) =
     (Inr (PostStopMultipeerReplicator_to_json i), PostStopMultipeerReplicatorRequestBody i)"
| "body_to_json (PostGetMultipeerReplicatorStatusRequestBody i) =
     (Inr (PostGetMultipeerReplicatorStatus_to_json i), PostGetMultipeerReplicatorStatusRequestBody i)"

text \<open>Every body is sent as an object.\<close>

lemma body_json_object: "fst (body_to_json b) = Inr j \<Longrightarrow> \<exists>d. j = JObj d"
  by (cases b)
    (auto simp: PostReset_to_json_def PostGetAllDocuments_to_json_def v1_PostUpdateDatabase_to_json_def
      v2_PostUpdateDatabase_to_json_def PostSnapshotDocuments_to_json_def v1_PostVerifyDocuments_to_json_def
      v2_PostVerifyDocuments_to_json_def PostStartReplicator_to_json_def PostGetReplicatorStatus_to_json_def
      PostPerformMaintenance_to_json_def v1_PostNewSession_to_json_def v2_PostNewSession_to_json_def
      PostRunQuery_to_json_def PostGetDocument_to_json_def PostLog_to_json_def PostStartListener_to_json_def
      PostStopListener_to_json_def PostStartMultipeerReplicator_to_json_def
      PostStopMultipeerReplicator_to_json_def PostGetMultipeerReplicatorStatus_to_json_def
      result_simps split: prod.splits option.splits)

text \<open>What the call of the constructors leaves: the plain bodies are untouched by serialisation.\<close>

definition body_update_entries :: "request_body \<Rightarrow> update_entry list" where
  "body_update_entries b =
     (case b of
        V1_PostUpdateDatabaseRequestBody db (Some us) \<Rightarrow> us
      | V1_PostVerifyDocumentsRequestBody db s (Some cs) \<Rightarrow> cs
      | _ \<Rightarrow> [])"

lemma body_to_json_pure: "body_update_entries b = [] \<Longrightarrow> snd (body_to_json b) = b"
  by (cases b)
    (auto simp: body_update_entries_def v1_PostUpdateDatabase_to_json_def v1_PostVerifyDocuments_to_json_def
      split: option.splits)

section \<open>What the renaming of version 1 keeps\<close>

text \<open>An entry is kept but for the values of its blobs, which become the base names of the URLs.\<close>

definition renamed_entry :: "update_entry \<Rightarrow> update_entry \<Rightarrow> bool" where
  "renamed_entry e e' \<longleftrightarrow> e' = e \<or>
     (\<exists>b b'. ue_blobs e = Some b \<and> e' = fill_blobs e b'
        \<and> list_all2 (\<lambda>kv kv'. fst kv' = fst kv \<and> url_basename (snd kv) = Inr (snd kv')) b b')"

lemma v1_hack_names_renamed:
  assumes "v1_hack_names e raw = (Inr j, e')"
  shows "renamed_entry e e'"
proof (cases "d_has raw ''updatedBlobs'' \<and> ue_blobs e \<noteq> None")
  case True
  then obtain b where b: "ue_blobs e = Some b" by auto
  obtain r b' where rb: "rename_blobs b = (r, b')" by (cases "rename_blobs b")
  with True b assms obtain u where "r = Inr u" "e' = fill_blobs e b'"
    by (auto simp: v1_hack_names_def fill_blobs_def split: sum.splits)
  with rb b rename_blobs_values [of b u b'] show ?thesis by (auto simp: renamed_entry_def)
next
  case False
  with assms show ?thesis by (auto simp: v1_hack_names_def renamed_entry_def split: if_splits option.splits)
qed

lemma v1_update_entries_renamed:
  "v1_update_entries es = (Inr js, es') \<Longrightarrow> list_all2 renamed_entry es es'"
proof (induction es arbitrary: js es')
  case Nil
  then show ?case by simp
next
  case (Cons e es)
  obtain r es1 where rest: "v1_update_entries es = (r, es1)" by (cases "v1_update_entries es")
  show ?case
  proof (cases "DatabaseUpdateEntry_to_json e")
    case None
    with Cons rest show ?thesis by (auto simp: renamed_entry_def)
  next
    case (Some raw)
    obtain q e' where h: "v1_hack_names e raw = (q, e')" by (cases "v1_hack_names e raw")
    with Cons.prems Some obtain j where j: "q = Inr j" by (cases q) auto
    from Cons.prems Some h j rest obtain js1 where "r = Inr js1" "es' = e' # es1"
      by (auto simp: result_simps)
    with Cons.IH [of js1 es1] rest v1_hack_names_renamed [of e raw j e'] h j show ?thesis by simp
  qed
qed

section \<open>Properties\<close>



text \<open>
  No update without content is sent: an entry of type UPDATE that serialises has at least one
  of \<open>updatedProperties\<close>, \<open>removedProperties\<close> and \<open>updatedBlobs\<close>, and each of them that is there is
  not empty.
\<close>

theorem update_json_has_change:
  assumes "DatabaseUpdateEntry_to_json e = Some raw" "ue_type e = UPDATE"
  shows "(d_has raw ''updatedProperties'' \<or> d_has raw ''removedProperties'' \<or> d_has raw ''updatedBlobs'')
    \<and> map_of raw ''updatedProperties'' \<noteq> Some (JList []) \<and> map_of raw ''removedProperties'' \<noteq> Some (JList [])
    \<and> map_of raw ''updatedBlobs'' \<noteq> Some (JObj [])"
proof -
  from assms(1) have "DatabaseUpdateEntry_is_valid e" using update_json_valid by blast
  with assms show ?thesis
    by (auto simp: d_has_def update_json_keys DatabaseUpdateEntry_is_valid_def JStrs_def JStrDict_def
        split: option.splits if_splits)
qed

theorem update_json_has_change_witness:
  "\<exists>raw. DatabaseUpdateEntry_to_json
       \<lparr> ue_type = UPDATE, ue_collection = ''c'', ue_document_id = ''d'', ue_updated = Some [[(''a'', JInt 1)]],
         ue_removed = Some [], ue_blobs = None \<rparr> = Some raw
     \<and> map_of raw ''removedProperties'' \<noteq> Some (JList [])"
proof -
  let ?e = "\<lparr> ue_type = UPDATE, ue_collection = ''c'', ue_document_id = ''d'',
    ue_updated = Some [[(''a'', JInt 1)]], ue_removed = Some [], ue_blobs = None \<rparr>"
  obtain raw where raw: "DatabaseUpdateEntry_to_json ?e = Some raw"
    using update_json_valid [of ?e] by (auto simp: DatabaseUpdateEntry_is_valid_def)
  have "ue_type ?e = UPDATE" by simp
  from update_json_has_change [OF raw this] raw show ?thesis by blast
qed

text \<open>
  An entry without changes is treated three ways: the version 1 verify request raises, the
  version 2 verify request sends a JSON null for it, and the version 1 update request leaves it
  out.
\<close>

theorem empty_change_disagreement:
  assumes "\<not> list_all DatabaseUpdateEntry_is_valid es"
  shows "(\<exists>x. fst (v1_PostVerifyDocuments_to_json database snapshot (Some es)) = Inl x)
    \<and> (\<exists>cs. JNull \<in> set cs \<and> map_of (case v2_PostVerifyDocuments_to_json database snapshot (Some es) of
           JObj d \<Rightarrow> d | _ \<Rightarrow> []) ''changes'' = Some (JList cs))
    \<and> v1_update_entries (filter (\<lambda>e. \<not> DatabaseUpdateEntry_is_valid e) es)
        = (Inr [], filter (\<lambda>e. \<not> DatabaseUpdateEntry_is_valid e) es)"
proof -
  have none: "DatabaseUpdateEntry_to_json e = None" if "\<not> DatabaseUpdateEntry_is_valid e" for e
    using that update_json_valid [of e] by (cases "DatabaseUpdateEntry_to_json e") auto
  have "\<exists>x. fst (v1_verify_entries es) = Inl x"
    using v1_verify_entries_update [of es] assms
    by (cases "v1_verify_entries es"; cases "fst (v1_verify_entries es)") auto
  then have v1: "\<exists>x. fst (v1_PostVerifyDocuments_to_json database snapshot (Some es)) = Inl x"
    by (auto simp: v1_PostVerifyDocuments_to_json_def split: prod.splits)
  from assms obtain e where "e \<in> set es" "\<not> DatabaseUpdateEntry_is_valid e" by (auto simp: list_all_iff)
  then have "JNull \<in> set (map (\<lambda>e. case DatabaseUpdateEntry_to_json e of None \<Rightarrow> JNull | Some raw \<Rightarrow> JObj raw) es)"
    using none by force
  then have v2: "\<exists>cs. JNull \<in> set cs \<and> map_of (case v2_PostVerifyDocuments_to_json database snapshot (Some es) of
           JObj d \<Rightarrow> d | _ \<Rightarrow> []) ''changes'' = Some (JList cs)"
    by (auto simp: v2_PostVerifyDocuments_to_json_def)
  have "v1_update_entries (filter (\<lambda>e. \<not> DatabaseUpdateEntry_is_valid e) es)
        = (Inr [], filter (\<lambda>e. \<not> DatabaseUpdateEntry_is_valid e) es)"
    by (induction es) (auto simp: none)
  with v1 v2 show ?thesis by blast
qed

theorem empty_change_disagreement_witness:
  "\<exists>x. fst (v1_PostVerifyDocuments_to_json ''db'' ''s''
     (Some [\<lparr> ue_type = UPDATE, ue_collection = ''c'', ue_document_id = ''d'', ue_updated = Some [],
       ue_removed = Some [''k''], ue_blobs = None \<rparr>])) = Inl x"
  by (rule empty_change_disagreement [THEN conjunct1]) (simp add: DatabaseUpdateEntry_is_valid_def)

end
