(* ===== verification/Responses.thy ===== *)
theory Responses
  imports ReplTypes
begin

text \<open>
  What a test server answers: \<open>responses.py\<close>, \<open>response_types.py\<close> and \<open>v1/responses.py\<close>.  A
  response keeps the status, the server's id, the error it reads from the body, the body and the
  fields of its class.  Bodies are JSON objects, as the constructors' types say.  Fields that a
  constructor does not set because it returns early are \<open>None\<close>.
\<close>

named_theorems response_simps "rewrite rules for responses"

section \<open>Server variants\<close>

datatype server_variant = ANDROID | C_VARIANT | DOTNET | IOS | JVM | JS

fun variant_bit :: "server_variant \<Rightarrow> int" where
  "variant_bit ANDROID = 1"
| "variant_bit C_VARIANT = 2"
| "variant_bit DOTNET = 4"
| "variant_bit IOS = 8"
| "variant_bit JVM = 16"
| "variant_bit JS = 32"

fun variant_name :: "server_variant \<Rightarrow> string" where
  "variant_name ANDROID = ''ANDROID''"
| "variant_name C_VARIANT = ''C''"
| "variant_name DOTNET = ''DOTNET''"
| "variant_name IOS = ''IOS''"
| "variant_name JVM = ''JVM''"
| "variant_name JS = ''JS''"

definition ServerVariant_str :: "int \<Rightarrow> string" where
  "ServerVariant_str self =
     join_with (CHR ''|'')
       (map variant_name (filter (\<lambda>v. self AND variant_bit v = variant_bit v)
          [ANDROID, C_VARIANT, DOTNET, IOS, JVM, JS]))"

definition GetRootResponse_variant :: "string \<Rightarrow> server_variant result" where
  "GetRootResponse_variant cbl =
     (if cbl = ''couchbase-lite-android'' then Inr ANDROID
      else if cbl = ''couchbase-lite-c'' then Inr C_VARIANT
      else if cbl = ''couchbase-lite-net'' then Inr DOTNET
      else if cbl = ''couchbase-lite-ios'' then Inr IOS
      else if cbl = ''couchbase-lite-java'' then Inr JVM
      else if cbl = ''couchbase-lite-swift'' then Inr IOS
      else if cbl = ''couchbase-lite-js'' then Inr JS
      else Inl ValueError)"

section \<open>Iterating over a JSON value\<close>

text \<open>\<open>for x in v\<close>: a list gives its elements, an object its keys, a string its characters.\<close>

definition py_iter :: "json \<Rightarrow> json list result" where
  "py_iter v =
     (case v of
        JList l \<Rightarrow> Inr l
      | JObj d \<Rightarrow> Inr (map (\<lambda>kv. JStr (fst kv)) d)
      | JStr s \<Rightarrow> Inr (map (\<lambda>c. JStr [c]) s)
      | _ \<Rightarrow> Inl TypeError)"

text \<open>
  \<open>dict(e)\<close>: a copy of an object, or the pairs of a list (whose keys are taken to be strings: a
  pair with any other key gives a dictionary that is not a JSON object and is a \<open>TypeError\<close> here).
\<close>

definition pair_of :: "json \<Rightarrow> (string \<times> json) result" where
  "pair_of v =
     rbind (py_iter v) (\<lambda>l. case l of
       [k, x] \<Rightarrow> (case k of JStr s \<Rightarrow> Inr (s, x) | _ \<Rightarrow> Inl TypeError)
     | _ \<Rightarrow> Inl ValueError)"

definition py_dict :: "json \<Rightarrow> jdict result" where
  "py_dict v =
     (case v of
        JObj d \<Rightarrow> Inr d
      | _ \<Rightarrow> rbind (py_iter v) (\<lambda>l. rbind (mapM pair_of l) (\<lambda>ps. Inr (d_update [] ps))))"

lemma py_dict_JObj [simp, response_simps]: "py_dict (JObj d) = Inr d"
  by (simp add: py_dict_def)

section \<open>Entries of response bodies\<close>

record all_docs_entry =
  ad_id :: string
  ad_rev :: string

definition PostGetAllDocumentsEntry_create :: "json \<Rightarrow> all_docs_entry result" where
  "PostGetAllDocumentsEntry_create body =
     (case body of
        JObj d \<Rightarrow> rbind (assert_string_entry d ''id'') (\<lambda>i.
                  rbind (assert_string_entry d ''rev'') (\<lambda>r. Inr \<lparr> ad_id = i, ad_rev = r \<rparr>))
      | _ \<Rightarrow> Inl AssertionError)"

record value_or_missing =
  vm_value :: json
  vm_exists :: bool

definition ValueOrMissing_create :: "json \<Rightarrow> bool \<Rightarrow> value_or_missing" where
  "ValueOrMissing_create value exists =
     \<lparr> vm_value = value, vm_exists = (if value = JNull then exists else True) \<rparr>"

record status_body =
  sb_activity :: activity_level
  sb_progress :: bool
  sb_replicator_error :: "error_body option"
  sb_documents :: "doc_entry list"

text \<open>
  The body may be any value when it comes from a multipeer status entry.  \<open>None\<close> is the object
  without fields that the early return leaves; reading a field of it raises \<open>AttributeError\<close>.
\<close>

definition ReplicatorStatusBody_create :: "json \<Rightarrow> status_body option result" where
  "ReplicatorStatusBody_create body =
     rbind (py_in ''activity'' body) (\<lambda>has_activity.
       if \<not> has_activity then Inr None
       else case body of
         JObj d \<Rightarrow>
           (case get_or_null d ''activity'' of
              JStr s \<Rightarrow>
                rbind (ReplicatorActivityLevel_of (py_upper s)) (\<lambda>activity.
                rbind (ReplicatorProgress_create (get_or_null d ''progress'')) (\<lambda>progress.
                rbind (ErrorResponseBody_create (get_or_null d ''error'')) (\<lambda>err.
                rbind (get_typed d ''documents'' T_list) (\<lambda>docs.
                rbind (case docs of
                         Some (JList l) \<Rightarrow> mapM ReplicatorDocumentEntry_create l
                       | _ \<Rightarrow> Inr []) (\<lambda>documents.
                  Inr (Some \<lparr> sb_activity = activity, sb_progress = progress,
                              sb_replicator_error = err, sb_documents = documents \<rparr>))))))
            | _ \<Rightarrow> Inl AttributeError)
       | _ \<Rightarrow> Inl AttributeError)"

record multipeer_status_entry =
  me_peer_id :: string
  me_status :: "status_body option"
  me_transport :: int

definition MultipeerReplicatorStatusEntry_create :: "json \<Rightarrow> multipeer_status_entry result" where
  "MultipeerReplicatorStatusEntry_create body =
     (case body of
        JObj d \<Rightarrow>
          rbind (assert_string_entry d ''peerID'') (\<lambda>peer_id.
          rbind (ReplicatorStatusBody_create
                   (case map_of d ''status'' of None \<Rightarrow> JObj [] | Some v \<Rightarrow> v)) (\<lambda>status.
          rbind (get_str_or_default d ''transport'' ''WIFI'') (\<lambda>transport_str.
          rbind (MultipeerTransportType_from_string transport_str) (\<lambda>transport.
            Inr \<lparr> me_peer_id = peer_id, me_status = status, me_transport = transport \<rparr>))))
      | _ \<Rightarrow> Inl AssertionError)"

section \<open>The fields of each response class\<close>

record root_fields =
  rt_lib_version :: string
  rt_api_version :: json
  rt_cbl :: string
  rt_device :: json
  rt_additional_info :: "json option"

record verify_fields =
  vf_result :: bool
  vf_description :: "json option"
  vf_expected :: value_or_missing
  vf_actual :: value_or_missing
  vf_document :: "json option"

datatype response_fields =
    NoFields
  | RootFields root_fields
  | AllDocumentsFields "(string, all_docs_entry list) pydict"
  | SnapshotFields json
  | VerifyFields "verify_fields option"
  | StartReplicatorFields json
  | ReplicatorStatusFields "status_body option"
  | RunQueryFields "jdict list option"
  | GetDocumentFields jdict
  | StartListenerFields json json
  | StartMultipeerFields json
  | MultipeerStatusFields "multipeer_status_entry list"

record server_response =
  sv_status_code :: json
  sv_uuid :: json
  sv_error :: "error_body option"
  sv_payload :: jdict
  sv_http_name :: string
  sv_http_method :: string
  sv_fields :: response_fields

definition TestServerResponse_create ::
    "json \<Rightarrow> json \<Rightarrow> jdict \<Rightarrow> string \<Rightarrow> string \<Rightarrow> response_fields \<Rightarrow> server_response result" where
  "TestServerResponse_create status uuid body http_name http_method fs =
     rbind (ErrorResponseBody_create (JObj body)) (\<lambda>err.
       Inr \<lparr> sv_status_code = status, sv_uuid = uuid, sv_error = err, sv_payload = body,
             sv_http_name = http_name, sv_http_method = http_method, sv_fields = fs \<rparr>)"

text \<open>\<open>GetRootResponse\<close>, which reads its keys before the base class is initialised.\<close>

definition GetRootResponse_create :: "json \<Rightarrow> json \<Rightarrow> jdict \<Rightarrow> server_response result" where
  "GetRootResponse_create status uuid body =
     rbind (get_typed_required body ''version'' T_str) (\<lambda>version.
     rbind (get_typed_required body ''apiVersion'' T_int) (\<lambda>api.
     rbind (get_typed_required body ''cbl'' T_str) (\<lambda>cbl.
     rbind (get_typed_required body ''device'' T_dict) (\<lambda>device.
     rbind (get_typed body ''additionalInfo'' T_str) (\<lambda>info.
       TestServerResponse_create status uuid body [] ''get'' (RootFields
         \<lparr> rt_lib_version = (case version of JStr s \<Rightarrow> s | _ \<Rightarrow> []), rt_api_version = api,
           rt_cbl = (case cbl of JStr s \<Rightarrow> s | _ \<Rightarrow> []), rt_device = device,
           rt_additional_info = info \<rparr>))))))"

text \<open>Keys that start with \<open>ts_\<close> are the metadata of the websocket transport.\<close>

fun all_documents_fields :: "jdict \<Rightarrow> (string, all_docs_entry list) pydict result" where
  "all_documents_fields [] = Inr []"
| "all_documents_fields ((k, v) # body) =
     (if prefix ''ts_'' k then all_documents_fields body
      else rbind (py_iter v) (\<lambda>l.
           rbind (mapM PostGetAllDocumentsEntry_create l) (\<lambda>entries.
           rbind (all_documents_fields body) (\<lambda>rest. Inr ((k, entries) # rest)))))"

definition PostGetAllDocumentsResponse_create :: "jdict \<Rightarrow> response_fields result" where
  "PostGetAllDocumentsResponse_create body =
     rbind (all_documents_fields body) (\<lambda>p. Inr (AllDocumentsFields p))"

definition PostSnapshotDocumentsResponse_create :: "jdict \<Rightarrow> response_fields result" where
  "PostSnapshotDocumentsResponse_create body = Inr (SnapshotFields (get_or_null body ''id''))"

definition value_or_missing_at :: "jdict \<Rightarrow> string \<Rightarrow> value_or_missing" where
  "value_or_missing_at body k =
     (case map_of body k of
        None \<Rightarrow> ValueOrMissing_create JNull False
      | Some v \<Rightarrow> ValueOrMissing_create v True)"

definition PostVerifyDocumentsResponse_create :: "jdict \<Rightarrow> response_fields result" where
  "PostVerifyDocumentsResponse_create body =
     (if \<not> d_has body ''result'' then Inr (VerifyFields None)
      else
        rbind (get_typed_required body ''result'' T_bool) (\<lambda>result.
        rbind (get_typed body ''description'' T_str) (\<lambda>description.
        rbind (get_typed body ''document'' T_dict) (\<lambda>document.
          Inr (VerifyFields (Some
            \<lparr> vf_result = (case result of JBool b \<Rightarrow> b | _ \<Rightarrow> False),
              vf_description = description,
              vf_expected = value_or_missing_at body ''expected'',
              vf_actual = value_or_missing_at body ''actual'',
              vf_document = document \<rparr>))))))"

definition PostStartReplicatorResponse_create :: "jdict \<Rightarrow> response_fields result" where
  "PostStartReplicatorResponse_create body = Inr (StartReplicatorFields (get_or_null body ''id''))"

definition PostGetReplicatorStatusResponse_create :: "jdict \<Rightarrow> response_fields result" where
  "PostGetReplicatorStatusResponse_create body =
     rbind (ReplicatorStatusBody_create (JObj body)) (\<lambda>s. Inr (ReplicatorStatusFields s))"

definition PostRunQueryResponse_create :: "jdict \<Rightarrow> response_fields result" where
  "PostRunQueryResponse_create body =
     (if \<not> d_has body ''results'' then Inr (RunQueryFields None)
      else rbind (get_typed_required body ''results'' T_list) (\<lambda>results.
           rbind (mapM py_dict (case results of JList l \<Rightarrow> l | _ \<Rightarrow> [])) (\<lambda>rows.
             Inr (RunQueryFields (Some rows)))))"

definition PostGetDocumentResponse_create :: "jdict \<Rightarrow> response_fields result" where
  "PostGetDocumentResponse_create body = Inr (GetDocumentFields body)"

definition PostStartListenerResponse_create :: "jdict \<Rightarrow> response_fields result" where
  "PostStartListenerResponse_create body =
     Inr (StartListenerFields (get_or_null body ''id'') (get_or_null body ''port''))"

definition PostStartMultipeerReplicatorResponse_create :: "jdict \<Rightarrow> response_fields result" where
  "PostStartMultipeerReplicatorResponse_create body = Inr (StartMultipeerFields (get_or_null body ''id''))"

definition PostGetMultipeerReplicatorStatusResponse_create :: "jdict \<Rightarrow> response_fields result" where
  "PostGetMultipeerReplicatorStatusResponse_create body =
     (case map_of body ''replicators'' of
        None \<Rightarrow> Inr (MultipeerStatusFields [])
      | Some v \<Rightarrow> rbind (py_iter v) (\<lambda>l.
                  rbind (mapM MultipeerReplicatorStatusEntry_create l) (\<lambda>es.
                    Inr (MultipeerStatusFields es))))"

section \<open>Which response is built for which class\<close>

datatype response_class =
    PostResetResponse
  | PostGetAllDocumentsResponse
  | PostUpdateDatabaseResponse
  | PostSnapshotDocumentsResponse
  | PostVerifyDocumentsResponse
  | PostStartReplicatorResponse
  | PostGetReplicatorStatusResponse
  | PostPerformMaintenanceResponse
  | PostNewSessionResponse
  | PostRunQueryResponse
  | PostGetDocumentResponse
  | PostLogResponse
  | PostStartListenerResponse
  | PostStopListenerResponse
  | PostStartMultipeerReplicatorResponse
  | PostStopMultipeerReplicatorResponse
  | PostGetMultipeerReplicatorStatusResponse

fun response_name :: "response_class \<Rightarrow> string" where
  "response_name PostResetResponse = ''reset''"
| "response_name PostGetAllDocumentsResponse = ''getAllDocuments''"
| "response_name PostUpdateDatabaseResponse = ''updateDatabase''"
| "response_name PostSnapshotDocumentsResponse = ''snapshotDocuments''"
| "response_name PostVerifyDocumentsResponse = ''verifyDocuments''"
| "response_name PostStartReplicatorResponse = ''startReplicator''"
| "response_name PostGetReplicatorStatusResponse = ''getReplicatorStatus''"
| "response_name PostPerformMaintenanceResponse = ''performMaintenance''"
| "response_name PostNewSessionResponse = ''newSession''"
| "response_name PostRunQueryResponse = ''runQuery''"
| "response_name PostGetDocumentResponse = ''getDocument''"
| "response_name PostLogResponse = ''log''"
| "response_name PostStartListenerResponse = ''startListener''"
| "response_name PostStopListenerResponse = ''stopListener''"
| "response_name PostStartMultipeerReplicatorResponse = ''startMultipeerReplicator''"
| "response_name PostStopMultipeerReplicatorResponse = ''stopMultipeerReplicator''"
| "response_name PostGetMultipeerReplicatorStatusResponse = ''getMultipeerReplicatorStatus''"

fun response_fields_of :: "response_class \<Rightarrow> jdict \<Rightarrow> response_fields result" where
  "response_fields_of PostGetAllDocumentsResponse body = PostGetAllDocumentsResponse_create body"
| "response_fields_of PostSnapshotDocumentsResponse body = PostSnapshotDocumentsResponse_create body"
| "response_fields_of PostVerifyDocumentsResponse body = PostVerifyDocumentsResponse_create body"
| "response_fields_of PostStartReplicatorResponse body = PostStartReplicatorResponse_create body"
| "response_fields_of PostGetReplicatorStatusResponse body = PostGetReplicatorStatusResponse_create body"
| "response_fields_of PostRunQueryResponse body = PostRunQueryResponse_create body"
| "response_fields_of PostGetDocumentResponse body = PostGetDocumentResponse_create body"
| "response_fields_of PostStartListenerResponse body = PostStartListenerResponse_create body"
| "response_fields_of PostStartMultipeerReplicatorResponse body =
     PostStartMultipeerReplicatorResponse_create body"
| "response_fields_of PostGetMultipeerReplicatorStatusResponse body =
     PostGetMultipeerReplicatorStatusResponse_create body"
| "response_fields_of c body = Inr NoFields"

definition response_create :: "response_class \<Rightarrow> json \<Rightarrow> json \<Rightarrow> jdict \<Rightarrow> server_response result" where
  "response_create c status uuid body =
     rbind (response_fields_of c body) (\<lambda>fs.
       TestServerResponse_create status uuid body (response_name c) ''post'' fs)"

section \<open>What the responses keep\<close>

lemma TestServerResponse_create_Inr:
  "TestServerResponse_create status uuid body n m fs = Inr r \<longleftrightarrow>
     r = \<lparr> sv_status_code = status, sv_uuid = uuid,
           sv_error = (case ErrorResponseBody_create (JObj body) of Inr e \<Rightarrow> e | Inl x \<Rightarrow> None),
           sv_payload = body, sv_http_name = n, sv_http_method = m, sv_fields = fs \<rparr>"
  by (auto simp: TestServerResponse_create_def ErrorResponseBody_create_JObj)

lemma response_create_Inr:
  "response_create c status uuid body = Inr r \<Longrightarrow>
     sv_status_code r = status \<and> sv_uuid r = uuid \<and> sv_payload r = body
       \<and> response_fields_of c body = Inr (sv_fields r)"
  by (auto simp: response_create_def result_simps TestServerResponse_create_Inr)

text \<open>The metadata of the websocket transport does not change what getAllDocuments reads.\<close>

lemma all_documents_fields_metadata:
  "all_documents_fields (filter (\<lambda>kv. \<not> prefix ''ts_'' (fst kv)) body) = all_documents_fields body"
  by (induction body rule: all_documents_fields.induct) auto

lemma all_documents_fields_keys:
  "all_documents_fields body = Inr p \<Longrightarrow> map fst p = filter (\<lambda>k. \<not> prefix ''ts_'' k) (map fst body)"
  by (induction body arbitrary: p rule: all_documents_fields.induct) (auto simp: result_simps)

lemma all_documents_fields_entry:
  assumes "all_documents_fields body = Inr p" "(k, v) \<in> set body" "\<not> prefix ''ts_'' k"
  shows "\<exists>l es. py_iter v = Inr l \<and> mapM PostGetAllDocumentsEntry_create l = Inr es \<and> (k, es) \<in> set p"
  using assms
proof (induction body arbitrary: p rule: all_documents_fields.induct)
  case 1
  then show ?case by simp
next
  case (2 k' v' body)
  show ?case
  proof (cases "prefix ''ts_'' k'")
    case True
    with 2 show ?thesis by auto
  next
    case False
    with "2.prems"(1) obtain l es rest where step: "py_iter v' = Inr l"
        "mapM PostGetAllDocumentsEntry_create l = Inr es" "all_documents_fields body = Inr rest"
        "p = (k', es) # rest"
      by (auto simp: result_simps)
    with 2 False show ?thesis by auto
  qed
qed

text \<open>
  An error body (\<open>domain\<close>, \<open>code\<close>, \<open>message\<close> at top level, as the HTTP transport delivers it) is not
  a getAllDocuments body: the constructor raises before the error can be reported.
\<close>

lemma all_documents_error_body:
  assumes "map_of body ''code'' = Some (JInt c)"
  shows "\<exists>x. response_create PostGetAllDocumentsResponse status uuid body = Inl x"
proof (cases "all_documents_fields body")
  case (Inl x)
  then show ?thesis by (simp add: response_create_def PostGetAllDocumentsResponse_create_def)
next
  case (Inr p)
  have "(''code'', JInt c) \<in> set body" using assms by (rule map_of_SomeD)
  from all_documents_fields_entry [OF Inr this] show ?thesis by (simp add: py_iter_def)
qed

text \<open>Every other class takes an error body and reads the error from it.\<close>

lemma error_body_kept:
  assumes "c \<noteq> PostGetAllDocumentsResponse"
    and "set (map fst body) = {''domain'', ''code'', ''message''}"
  shows "\<exists>r. response_create c status uuid body = Inr r \<and> sv_error r \<noteq> None"
proof -
  have none: "map_of body k = None" if "k \<notin> {''domain'', ''code'', ''message''}" for k
    using that assms(2) by (simp add: map_of_eq_None_iff)
  have some: "map_of body k \<noteq> None" if "k \<in> {''domain'', ''code'', ''message''}" for k
    using that assms(2) map_of_eq_None_iff [of body k] by auto
  have "\<exists>fs. response_fields_of c body = Inr fs"
    using assms(1) none
    by (cases c) (auto simp: PostSnapshotDocumentsResponse_create_def PostVerifyDocumentsResponse_create_def
        PostStartReplicatorResponse_create_def PostGetReplicatorStatusResponse_create_def
        ReplicatorStatusBody_create_def PostRunQueryResponse_create_def PostGetDocumentResponse_create_def
        PostStartListenerResponse_create_def PostStartMultipeerReplicatorResponse_create_def
        PostGetMultipeerReplicatorStatusResponse_create_def d_has_def)
  then show ?thesis
    using some [of "''domain''"] some [of "''code''"] some [of "''message''"]
    by (auto simp: response_create_def TestServerResponse_create_Inr ErrorResponseBody_create_JObj)
qed

end
