(* ===== verification/Registry.thy ===== *)
theory Registry
  imports RequestBodies Responses
begin

text \<open>
  The registries of request, body and response classes (\<open>requests.py\<close>, \<open>responses.py\<close>), the
  declarations that fill them when \<open>v1/requests.py\<close>, \<open>v2/requests.py\<close> and \<open>v1/responses.py\<close> are
  imported, and \<open>RequestFactory\<close>, which looks classes up by request type and API version.  A
  class is a value of an enumeration; a declaration is the row of a table: the decorator's
  arguments and the arguments its constructor passes on.
\<close>

section \<open>Names\<close>

datatype request_type =
    ROOT | RESET | ALL_DOC_IDS | UPDATE_DB | START_REPLICATOR | REPLICATOR_STATUS | SNAPSHOT_DOCS
  | VERIFY_DOCS | PERFORM_MAINTENANCE | RUN_QUERY | GET_DOCUMENT | NEW_SESSION | LOG
  | START_LISTENER | STOP_LISTENER | START_MULTIPEER_REPLICATOR | STOP_MULTIPEER_REPLICATOR
  | MULTIPEER_REPLICATOR_STATUS

datatype request_class =
    GetRootRequest
  | V1_PostResetRequest | V2_PostResetRequest
  | PostGetAllDocumentsRequest
  | V1_PostUpdateDatabaseRequest | V2_PostUpdateDatabaseRequest
  | PostSnapshotDocumentsRequest
  | V1_PostVerifyDocumentsRequest | V2_PostVerifyDocumentsRequest
  | PostStartReplicatorRequest
  | PostGetReplicatorStatusRequest
  | PostPerformMaintenanceRequest
  | V1_PostNewSessionRequest | V2_PostNewSessionRequest
  | PostRunQueryRequest
  | PostGetDocumentRequest
  | PostLogRequest
  | PostStartListenerRequest
  | PostStopListenerRequest
  | PostStartMultipeerReplicatorRequest
  | PostStopMultipeerReplicatorRequest
  | PostGetMultipeerReplicatorStatusRequest

datatype body_class =
    V1_ResetBody | V2_ResetBody | AllDocumentsBody | V1_UpdateDatabaseBody | V2_UpdateDatabaseBody
  | SnapshotBody | V1_VerifyBody | V2_VerifyBody | StartReplicatorBody | ReplicatorStatusBody
  | MaintenanceBody | V1_NewSessionBody | V2_NewSessionBody | RunQueryBody | GetDocumentBody
  | LogBody | StartListenerBody | StopListenerBody | StartMultipeerBody | StopMultipeerBody
  | MultipeerStatusBody

fun class_of_body :: "request_body \<Rightarrow> body_class" where
  "class_of_body (V1_PostResetRequestBody b) = V1_ResetBody"
| "class_of_body (V2_PostResetRequestBody b) = V2_ResetBody"
| "class_of_body (PostGetAllDocumentsRequestBody db cs) = AllDocumentsBody"
| "class_of_body (V1_PostUpdateDatabaseRequestBody db us) = V1_UpdateDatabaseBody"
| "class_of_body (V2_PostUpdateDatabaseRequestBody db us) = V2_UpdateDatabaseBody"
| "class_of_body (PostSnapshotDocumentsRequestBody db es) = SnapshotBody"
| "class_of_body (V1_PostVerifyDocumentsRequestBody db s cs) = V1_VerifyBody"
| "class_of_body (V2_PostVerifyDocumentsRequestBody db s cs) = V2_VerifyBody"
| "class_of_body (PostStartReplicatorRequestBody b) = StartReplicatorBody"
| "class_of_body (PostGetReplicatorStatusRequestBody i) = ReplicatorStatusBody"
| "class_of_body (PostPerformMaintenanceRequestBody db t) = MaintenanceBody"
| "class_of_body (V1_PostNewSessionRequestBody i v u t) = V1_NewSessionBody"
| "class_of_body (V2_PostNewSessionRequestBody i u t) = V2_NewSessionBody"
| "class_of_body (PostRunQueryRequestBody db q) = RunQueryBody"
| "class_of_body (PostGetDocumentRequestBody db d) = GetDocumentBody"
| "class_of_body (PostLogRequestBody m) = LogBody"
| "class_of_body (PostStartListenerRequestBody b) = StartListenerBody"
| "class_of_body (PostStopListenerRequestBody i) = StopListenerBody"
| "class_of_body (PostStartMultipeerReplicatorRequestBody b) = StartMultipeerBody"
| "class_of_body (PostStopMultipeerReplicatorRequestBody i) = StopMultipeerBody"
| "class_of_body (PostGetMultipeerReplicatorStatusRequestBody i) = MultipeerStatusBody"

section \<open>The registries\<close>

type_synonym request_registry = "(request_type \<times> int, request_class) pydict"
type_synonym body_registry = "(request_type \<times> int, body_class) pydict"
type_synonym response_registry = "(request_class \<times> int, response_class) pydict"

text \<open>The decorators; a single version is the list of it.\<close>

definition register_request ::
    "request_type \<Rightarrow> int list \<Rightarrow> request_class \<Rightarrow> request_registry \<Rightarrow> request_registry" where
  "register_request t versions cls reg = foldl (\<lambda>acc v. d_set acc (t, v) cls) reg versions"

definition register_body ::
    "request_type \<Rightarrow> int list \<Rightarrow> body_class \<Rightarrow> body_registry \<Rightarrow> body_registry" where
  "register_body t versions cls reg = foldl (\<lambda>acc v. d_set acc (t, v) cls) reg versions"

definition register_response ::
    "request_class \<Rightarrow> int list \<Rightarrow> response_class \<Rightarrow> response_registry \<Rightarrow> response_registry" where
  "register_response r versions cls reg = foldl (\<lambda>acc v. d_set acc (r, v) cls) reg versions"

record request_decl =
  rd_type :: request_type
  rd_versions :: "int list"
  rd_class :: request_class
  rd_http_name :: string
  rd_payload_type :: body_class

definition decl :: "request_type \<Rightarrow> int list \<Rightarrow> request_class \<Rightarrow> string \<Rightarrow> body_class \<Rightarrow> request_decl" where
  "decl t vs c n p = \<lparr> rd_type = t, rd_versions = vs, rd_class = c, rd_http_name = n, rd_payload_type = p \<rparr>"

section \<open>Declarations of version 1\<close>

definition v1_body_decls :: "(request_type \<times> int list \<times> body_class) list" where
  "v1_body_decls =
     [(RESET, [1], V1_ResetBody), (ALL_DOC_IDS, [1, 2], AllDocumentsBody),
      (UPDATE_DB, [1], V1_UpdateDatabaseBody), (SNAPSHOT_DOCS, [1, 2], SnapshotBody),
      (VERIFY_DOCS, [1], V1_VerifyBody), (START_REPLICATOR, [1, 2], StartReplicatorBody),
      (REPLICATOR_STATUS, [1, 2], ReplicatorStatusBody), (PERFORM_MAINTENANCE, [1, 2], MaintenanceBody),
      (NEW_SESSION, [1], V1_NewSessionBody), (RUN_QUERY, [1, 2], RunQueryBody),
      (GET_DOCUMENT, [1, 2], GetDocumentBody), (LOG, [1, 2], LogBody),
      (START_LISTENER, [1, 2], StartListenerBody), (STOP_LISTENER, [1, 2], StopListenerBody),
      (START_MULTIPEER_REPLICATOR, [1, 2], StartMultipeerBody),
      (STOP_MULTIPEER_REPLICATOR, [1, 2], StopMultipeerBody),
      (MULTIPEER_REPLICATOR_STATUS, [1, 2], MultipeerStatusBody)]"

definition v1_document_requests :: "request_decl list" where
  "v1_document_requests =
     [decl RESET [1] V1_PostResetRequest ''reset'' V1_ResetBody,
      decl ALL_DOC_IDS [1, 2] PostGetAllDocumentsRequest ''getAllDocuments'' AllDocumentsBody,
      decl UPDATE_DB [1] V1_PostUpdateDatabaseRequest ''updateDatabase'' V1_UpdateDatabaseBody,
      decl SNAPSHOT_DOCS [1, 2] PostSnapshotDocumentsRequest ''snapshotDocuments'' SnapshotBody,
      decl VERIFY_DOCS [1, 2] V1_PostVerifyDocumentsRequest ''verifyDocuments'' V1_VerifyBody,
      decl START_REPLICATOR [1, 2] PostStartReplicatorRequest ''startReplicator'' StartReplicatorBody,
      decl REPLICATOR_STATUS [1, 2] PostGetReplicatorStatusRequest ''getReplicatorStatus'' ReplicatorStatusBody,
      decl PERFORM_MAINTENANCE [1, 2] PostPerformMaintenanceRequest ''performMaintenance'' MaintenanceBody]"

definition v1_session_requests :: "request_decl list" where
  "v1_session_requests =
     [decl NEW_SESSION [1] V1_PostNewSessionRequest ''newSession'' V1_NewSessionBody,
      decl RUN_QUERY [1, 2] PostRunQueryRequest ''runQuery'' RunQueryBody,
      decl GET_DOCUMENT [1, 2] PostGetDocumentRequest ''getDocument'' GetDocumentBody,
      decl LOG [1, 2] PostLogRequest ''log'' LogBody,
      decl START_LISTENER [1, 2] PostStartListenerRequest ''startListener'' StartListenerBody,
      decl STOP_LISTENER [1, 2] PostStopListenerRequest ''stopListener'' StopListenerBody,
      decl START_MULTIPEER_REPLICATOR [1, 2] PostStartMultipeerReplicatorRequest
        ''startMultipeerReplicator'' StartMultipeerBody,
      decl STOP_MULTIPEER_REPLICATOR [1, 2] PostStopMultipeerReplicatorRequest
        ''stopMultipeerReplicator'' StopMultipeerBody,
      decl MULTIPEER_REPLICATOR_STATUS [1, 2] PostGetMultipeerReplicatorStatusRequest
        ''getMultipeerReplicatorStatus'' MultipeerStatusBody]"

section \<open>Declarations of version 2\<close>

definition v2_body_decls :: "(request_type \<times> int list \<times> body_class) list" where
  "v2_body_decls =
     [(RESET, [2], V2_ResetBody), (NEW_SESSION, [2], V2_NewSessionBody),
      (UPDATE_DB, [2], V2_UpdateDatabaseBody), (VERIFY_DOCS, [2], V2_VerifyBody)]"

definition v2_requests :: "request_decl list" where
  "v2_requests =
     [decl RESET [2] V2_PostResetRequest ''reset'' V2_ResetBody,
      decl NEW_SESSION [2] V2_PostNewSessionRequest ''newSession'' V2_NewSessionBody,
      decl UPDATE_DB [2] V2_PostUpdateDatabaseRequest ''updateDatabase'' V2_UpdateDatabaseBody,
      decl VERIFY_DOCS [2] V2_PostVerifyDocumentsRequest ''verifyDocuments'' V2_VerifyBody]"

section \<open>Declarations of the responses\<close>

definition v1_response_decls :: "(request_class \<times> int list \<times> response_class) list" where
  "v1_response_decls =
     [(V2_PostResetRequest, [1, 2], PostResetResponse),
      (V1_PostResetRequest, [1, 2], PostResetResponse),
      (PostGetAllDocumentsRequest, [1, 2], PostGetAllDocumentsResponse),
      (V2_PostUpdateDatabaseRequest, [1, 2], PostUpdateDatabaseResponse),
      (V1_PostUpdateDatabaseRequest, [1, 2], PostUpdateDatabaseResponse),
      (PostSnapshotDocumentsRequest, [1, 2], PostSnapshotDocumentsResponse),
      (V2_PostVerifyDocumentsRequest, [1, 2], PostVerifyDocumentsResponse),
      (V1_PostVerifyDocumentsRequest, [1, 2], PostVerifyDocumentsResponse),
      (PostStartReplicatorRequest, [1, 2], PostStartReplicatorResponse),
      (PostGetReplicatorStatusRequest, [1, 2], PostGetReplicatorStatusResponse),
      (PostPerformMaintenanceRequest, [1, 2], PostPerformMaintenanceResponse),
      (V2_PostNewSessionRequest, [1, 2], PostNewSessionResponse),
      (V1_PostNewSessionRequest, [1, 2], PostNewSessionResponse),
      (PostRunQueryRequest, [1, 2], PostRunQueryResponse),
      (PostGetDocumentRequest, [1, 2], PostGetDocumentResponse),
      (PostLogRequest, [1, 2], PostLogResponse),
      (PostStartListenerRequest, [1, 2], PostStartListenerResponse),
      (PostStopListenerRequest, [1, 2], PostStopListenerResponse),
      (PostStartMultipeerReplicatorRequest, [1, 2], PostStartMultipeerReplicatorResponse),
      (PostStopMultipeerReplicatorRequest, [1, 2], PostStopMultipeerReplicatorResponse),
      (PostGetMultipeerReplicatorStatusRequest, [1, 2], PostGetMultipeerReplicatorStatusResponse)]"

section \<open>Importing the modules\<close>

text \<open>
  Importing a module runs its declarations once.  Modules of versions above 2 do not exist.
  \<open>v1/responses.py\<close> imports the request modules of both versions first.
\<close>

datatype py_module = M_requests int | M_responses int

record registries =
  reg_requests :: request_registry
  reg_bodies :: body_registry
  reg_responses :: response_registry
  reg_loaded :: "py_module list"

definition no_registries :: registries where
  "no_registries = \<lparr> reg_requests = [], reg_bodies = [], reg_responses = [], reg_loaded = [] \<rparr>"

definition run_request_module ::
    "request_decl list \<Rightarrow> (request_type \<times> int list \<times> body_class) list \<Rightarrow> registries \<Rightarrow> registries" where
  "run_request_module ds bs reg =
     reg\<lparr> reg_requests := foldl (\<lambda>r d. register_request (rd_type d) (rd_versions d) (rd_class d) r)
            (reg_requests reg) ds,
          reg_bodies := foldl (\<lambda>r (t, vs, c). register_body t vs c r) (reg_bodies reg) bs \<rparr>"

definition run_response_module :: "registries \<Rightarrow> registries" where
  "run_response_module reg =
     reg\<lparr> reg_responses := foldl (\<lambda>r (q, vs, c). register_response q vs c r) (reg_responses reg)
            v1_response_decls \<rparr>"

definition import_once :: "py_module \<Rightarrow> (registries \<Rightarrow> registries) \<Rightarrow> registries \<Rightarrow> registries" where
  "import_once m run reg =
     (if m \<in> set (reg_loaded reg) then reg
      else run (reg\<lparr>reg_loaded := m # reg_loaded reg\<rparr>))"

definition import_v1_requests :: "registries \<Rightarrow> registries" where
  "import_v1_requests =
     import_once (M_requests 1) (run_request_module (v1_document_requests @ v1_session_requests) v1_body_decls)"

definition import_v2_requests :: "registries \<Rightarrow> registries" where
  "import_v2_requests = import_once (M_requests 2) (run_request_module v2_requests v2_body_decls)"

definition import_module :: "py_module \<Rightarrow> (registries, unit) io" where
  "import_module m reg =
     (if m = M_requests 1 then (Inr (), import_v1_requests reg)
      else if m = M_requests 2 then (Inr (), import_v2_requests reg)
      else if m = M_responses 1 then
        (Inr (), import_once m (\<lambda>r. run_response_module (import_v2_requests (import_v1_requests r))) reg)
      else if m = M_responses 2 then (Inr (), import_once m (\<lambda>r. r) reg)
      else (Inl ModuleNotFoundError, reg))"

fun import_modules :: "py_module list \<Rightarrow> (registries, unit) io" where
  "import_modules [] = io_return ()"
| "import_modules (m # ms) = io_bind (import_module m) (\<lambda>_. import_modules ms)"

section \<open>The request factory\<close>

text \<open>The factory's own state is its version (0 until set) and its UUID.\<close>

record factory =
  rf_version :: int
  rf_uuid :: string
  rf_registries :: registries

definition RequestFactory_version :: "factory \<Rightarrow> int result" where
  "RequestFactory_version f = (if rf_version f > 0 then Inr (rf_version f) else Inl AssertionError)"

definition version_modules :: "int \<Rightarrow> py_module list" where
  "version_modules v = concat (map (\<lambda>i. [M_requests i, M_responses i]) [1..v])"

text \<open>Every registered request class must have a response class for the version it is registered for.\<close>

definition responses_complete :: "registries \<Rightarrow> bool" where
  "responses_complete reg =
     list_all (\<lambda>((t, v), c). d_has (reg_responses reg) (c, v)) (reg_requests reg)"

definition RequestFactory_set_version :: "int \<Rightarrow> (factory, unit) io" where
  "RequestFactory_set_version value f =
     (if rf_version f \<noteq> 0 then (Inl AssertionError, f)
      else let f = f\<lparr>rf_version := value\<rparr>;
               (r, reg) = import_modules (version_modules value) (rf_registries f);
               f = f\<lparr>rf_registries := reg\<rparr>
           in case r of
                Inl e \<Rightarrow> (Inl e, f)
              | Inr _ \<Rightarrow> if responses_complete reg then (Inr (), f) else (Inl ValueError, f))"

text \<open>
  \<open>**kwargs\<close> as the callers pass them: one constructor per set of keywords in use.
\<close>

datatype body_kwargs =
    KW_none
  | KW_name "string option"
  | KW_database_collections "string option" "string list option"
  | KW_database_updates "string option" "update_entry list option"
  | KW_database_entries string "document_ref list option"
  | KW_database_snapshot_changes string string "update_entry list option"
  | KW_start_replicator start_replicator_body
  | KW_id json
  | KW_db_op_type string string
  | KW_session string string "string option" "string option"
  | KW_database_query string string
  | KW_database_document string document_ref
  | KW_msg string
  | KW_start_listener start_listener_body
  | KW_start_multipeer start_multipeer_body

text \<open>\<open>body_class(**kwargs)\<close>; keywords that the constructor does not take raise \<open>TypeError\<close>.\<close>

definition construct_body :: "body_class \<Rightarrow> body_kwargs \<Rightarrow> request_body result" where
  "construct_body c kw =
     (case c of
        V1_ResetBody \<Rightarrow> (case kw of
            KW_name n \<Rightarrow> Inr (V1_PostResetRequestBody (PostResetRequestBody_create n))
          | KW_none \<Rightarrow> Inr (V1_PostResetRequestBody (PostResetRequestBody_create None))
          | _ \<Rightarrow> Inl TypeError)
      | V2_ResetBody \<Rightarrow> (case kw of
            KW_name n \<Rightarrow> Inr (V2_PostResetRequestBody (PostResetRequestBody_create n))
          | KW_none \<Rightarrow> Inr (V2_PostResetRequestBody (PostResetRequestBody_create None))
          | _ \<Rightarrow> Inl TypeError)
      | AllDocumentsBody \<Rightarrow> (case kw of
            KW_database_collections db cs \<Rightarrow> rbind (PostGetAllDocuments_create db cs) (\<lambda>(d, c). Inr (PostGetAllDocumentsRequestBody d c))
          | _ \<Rightarrow> Inl TypeError)
      | V1_UpdateDatabaseBody \<Rightarrow> (case kw of
            KW_database_updates db us \<Rightarrow> Inr (V1_PostUpdateDatabaseRequestBody db us)
          | _ \<Rightarrow> Inl TypeError)
      | V2_UpdateDatabaseBody \<Rightarrow> (case kw of
            KW_database_updates db us \<Rightarrow> Inr (V2_PostUpdateDatabaseRequestBody db us)
          | _ \<Rightarrow> Inl TypeError)
      | SnapshotBody \<Rightarrow> (case kw of
            KW_database_entries db es \<Rightarrow> Inr (PostSnapshotDocumentsRequestBody db (case es of Some l \<Rightarrow> l | None \<Rightarrow> []))
          | _ \<Rightarrow> Inl TypeError)
      | V1_VerifyBody \<Rightarrow> (case kw of
            KW_database_snapshot_changes db s cs \<Rightarrow> Inr (V1_PostVerifyDocumentsRequestBody db s cs)
          | _ \<Rightarrow> Inl TypeError)
      | V2_VerifyBody \<Rightarrow> (case kw of
            KW_database_snapshot_changes db s cs \<Rightarrow> Inr (V2_PostVerifyDocumentsRequestBody db s cs)
          | _ \<Rightarrow> Inl TypeError)
      | StartReplicatorBody \<Rightarrow> (case kw of
            KW_start_replicator b \<Rightarrow> Inr (PostStartReplicatorRequestBody b)
          | _ \<Rightarrow> Inl TypeError)
      | ReplicatorStatusBody \<Rightarrow> (case kw of
            KW_id i \<Rightarrow> Inr (PostGetReplicatorStatusRequestBody i)
          | _ \<Rightarrow> Inl TypeError)
      | MaintenanceBody \<Rightarrow> (case kw of
            KW_db_op_type db t \<Rightarrow> Inr (PostPerformMaintenanceRequestBody db t)
          | _ \<Rightarrow> Inl TypeError)
      | V1_NewSessionBody \<Rightarrow> (case kw of
            KW_session i v u t \<Rightarrow> Inr (V1_PostNewSessionRequestBody i v u t)
          | _ \<Rightarrow> Inl TypeError)
      | V2_NewSessionBody \<Rightarrow> (case kw of
            KW_session i v u t \<Rightarrow> Inr (V2_PostNewSessionRequestBody i u t)
          | _ \<Rightarrow> Inl TypeError)
      | RunQueryBody \<Rightarrow> (case kw of
            KW_database_query db q \<Rightarrow> Inr (PostRunQueryRequestBody db q)
          | _ \<Rightarrow> Inl TypeError)
      | GetDocumentBody \<Rightarrow> (case kw of
            KW_database_document db d \<Rightarrow> Inr (PostGetDocumentRequestBody db d)
          | _ \<Rightarrow> Inl TypeError)
      | LogBody \<Rightarrow> (case kw of
            KW_msg m \<Rightarrow> Inr (PostLogRequestBody m)
          | _ \<Rightarrow> Inl TypeError)
      | StartListenerBody \<Rightarrow> (case kw of
            KW_start_listener b \<Rightarrow> Inr (PostStartListenerRequestBody b)
          | _ \<Rightarrow> Inl TypeError)
      | StopListenerBody \<Rightarrow> (case kw of
            KW_id i \<Rightarrow> Inr (PostStopListenerRequestBody i)
          | _ \<Rightarrow> Inl TypeError)
      | StartMultipeerBody \<Rightarrow> (case kw of
            KW_start_multipeer b \<Rightarrow> Inr (PostStartMultipeerReplicatorRequestBody b)
          | _ \<Rightarrow> Inl TypeError)
      | StopMultipeerBody \<Rightarrow> (case kw of
            KW_id i \<Rightarrow> Inr (PostStopMultipeerReplicatorRequestBody i)
          | _ \<Rightarrow> Inl TypeError)
      | MultipeerStatusBody \<Rightarrow> (case kw of
            KW_id i \<Rightarrow> Inr (PostGetMultipeerReplicatorStatusRequestBody i)
          | _ \<Rightarrow> Inl TypeError))"

section \<open>Creating requests\<close>

record server_request =
  sq_class :: request_class
  sq_version :: int
  sq_uuid :: string
  sq_payload :: "request_body option"
  sq_http_name :: string
  sq_method :: string

definition available_api_version :: "int \<Rightarrow> int result" where
  "available_api_version v = (if v < 3 then Inr v else Inl NotImplementedError)"

definition TestServerRequest_create ::
    "request_class \<Rightarrow> int \<Rightarrow> string \<Rightarrow> string \<Rightarrow> body_class option \<Rightarrow> string \<Rightarrow> request_body option
      \<Rightarrow> server_request result" where
  "TestServerRequest_create cls version uuid http_name payload_type method payload =
     rbind (case (payload, payload_type) of
              (Some p, Some t) \<Rightarrow> py_assert (class_of_body p = t)
            | _ \<Rightarrow> Inr ()) (\<lambda>_.
     rbind (available_api_version version) (\<lambda>v.
       Inr \<lparr> sq_class = cls, sq_version = v, sq_uuid = uuid, sq_payload = payload,
             sq_http_name = http_name, sq_method = method \<rparr>))"

definition GetRootRequest_create :: "string \<Rightarrow> server_request result" where
  "GetRootRequest_create uuid = TestServerRequest_create GetRootRequest 0 uuid [] None ''get'' None"

text \<open>The constructor of a declared request class.\<close>

definition decl_of :: "request_class \<Rightarrow> request_decl option" where
  "decl_of c = find (\<lambda>d. rd_class d = c) (v1_document_requests @ v1_session_requests @ v2_requests)"

definition construct_request ::
    "request_class \<Rightarrow> int \<Rightarrow> string \<Rightarrow> request_body option \<Rightarrow> server_request result" where
  "construct_request c version uuid payload =
     (case decl_of c of
        None \<Rightarrow> Inl TypeError
      | Some d \<Rightarrow> TestServerRequest_create c version uuid (rd_http_name d) (Some (rd_payload_type d)) ''post'' payload)"

definition RequestFactory_create_body ::
    "request_type \<Rightarrow> body_kwargs \<Rightarrow> factory \<Rightarrow> request_body option result" where
  "RequestFactory_create_body t kw f =
     (if t = ROOT then Inr None
      else case map_of (reg_bodies (rf_registries f)) (t, rf_version f) of
             None \<Rightarrow> Inl ValueError
           | Some c \<Rightarrow> rbind (construct_body c kw) (\<lambda>b. Inr (Some b)))"

definition RequestFactory_create_request ::
    "request_type \<Rightarrow> body_kwargs \<Rightarrow> factory \<Rightarrow> server_request result" where
  "RequestFactory_create_request t kw f =
     (if t = ROOT then GetRootRequest_create (rf_uuid f)
      else case map_of (reg_requests (rf_registries f)) (t, rf_version f) of
             None \<Rightarrow> Inl ValueError
           | Some c \<Rightarrow>
               rbind (RequestFactory_create_body t kw f) (\<lambda>payload.
                 construct_request c (rf_version f) (rf_uuid f) payload))"

section \<open>The registries fit together\<close>

lemma construct_body_class: "construct_body c kw = Inr b \<Longrightarrow> class_of_body b = c"
  by (cases c; cases kw) (auto simp: construct_body_def result_simps)

definition versioned_types :: "request_type list" where
  "versioned_types =
     [RESET, ALL_DOC_IDS, UPDATE_DB, START_REPLICATOR, REPLICATOR_STATUS, SNAPSHOT_DOCS, VERIFY_DOCS,
      PERFORM_MAINTENANCE, RUN_QUERY, GET_DOCUMENT, NEW_SESSION, LOG, START_LISTENER, STOP_LISTENER,
      START_MULTIPEER_REPLICATOR, STOP_MULTIPEER_REPLICATOR, MULTIPEER_REPLICATOR_STATUS]"

lemma versioned_types: "t \<noteq> ROOT \<Longrightarrow> t \<in> set versioned_types"
  by (cases t) (simp_all add: versioned_types_def)

text \<open>
  Registering a list of declarations is one dictionary update with a row for each of their
  versions; the lookups in the filled registries are lookups in those tables.
\<close>

definition decl_rows :: "('a \<times> int list \<times> 'c) list \<Rightarrow> ('a \<times> int, 'c) pydict" where
  "decl_rows ds = concat (map (\<lambda>(t, vs, c). map (\<lambda>v. ((t, v), c)) vs) ds)"

lemma foldl_versions: "foldl (\<lambda>acc v. d_set acc (t, v) c) r vs = d_update r (map (\<lambda>v. ((t, v), c)) vs)"
  by (induction vs arbitrary: r) simp_all

lemma d_update_append: "d_update d (e @ e') = d_update (d_update d e) e'"
  by (simp add: d_update_def)

lemma registered_rows:
  "foldl (\<lambda>r d. register_request (rd_type d) (rd_versions d) (rd_class d) r) q ds
     = d_update q (decl_rows (map (\<lambda>d. (rd_type d, rd_versions d, rd_class d)) ds))"
  "foldl (\<lambda>r (t, vs, c). register_body t vs c r) b bs = d_update b (decl_rows bs)"
  "foldl (\<lambda>r (t, vs, c). register_response t vs c r) p ps = d_update p (decl_rows ps)"
  by (induction ds arbitrary: q; induction bs arbitrary: b; induction ps arbitrary: p;
      simp add: decl_rows_def d_update_append register_request_def register_body_def register_response_def
        foldl_versions split_beta)+

abbreviation request_rows :: "request_decl list \<Rightarrow> (request_type \<times> int, request_class) pydict" where
  "request_rows ds \<equiv> decl_rows (map (\<lambda>d. (rd_type d, rd_versions d, rd_class d)) ds)"

definition loaded_registries :: "int \<Rightarrow> registries" where
  "loaded_registries v = snd (import_modules (version_modules v) no_registries)"

lemma import_1: "import_modules (version_modules 1) no_registries = (Inr (), loaded_registries 1)"
  by (simp add: version_modules_def loaded_registries_def io_bind_def io_return_def import_module_def)

lemma import_2: "import_modules (version_modules 2) no_registries = (Inr (), loaded_registries 2)"
  by (simp add: version_modules_def loaded_registries_def io_bind_def io_return_def import_module_def upto_rec1)

lemma loaded_12:
  assumes "v = 1 \<or> v = 2"
  shows "reg_requests (loaded_registries v) =
      d_update (d_update [] (request_rows (v1_document_requests @ v1_session_requests))) (request_rows v2_requests)"
    "reg_bodies (loaded_registries v) = d_update (d_update [] (decl_rows v1_body_decls)) (decl_rows v2_body_decls)"
    "reg_responses (loaded_registries v) = d_update [] (decl_rows v1_response_decls)"
  using assms
  by (auto simp: loaded_registries_def version_modules_def io_bind_def io_return_def import_module_def upto_rec1
      import_v1_requests_def import_v2_requests_def import_once_def run_request_module_def
      run_response_module_def no_registries_def registered_rows)

lemmas decl_tables = v1_document_requests_def v1_session_requests_def v2_requests_def v1_body_decls_def
  v2_body_decls_def v1_response_decls_def decl_def decl_rows_def

lemma rows_wf:
  "d_wf (request_rows (v1_document_requests @ v1_session_requests))" "d_wf (request_rows v2_requests)"
  "d_wf (decl_rows v1_body_decls)" "d_wf (decl_rows v2_body_decls)" "d_wf (decl_rows v1_response_decls)"
  by (simp_all add: d_wf_def decl_tables)

lemma loaded_lookup:
  assumes "v = 1 \<or> v = 2"
  shows "map_of (reg_requests (loaded_registries v)) =
      map_of (request_rows (v1_document_requests @ v1_session_requests)) ++ map_of (request_rows v2_requests)"
    "map_of (reg_bodies (loaded_registries v)) = map_of (decl_rows v1_body_decls) ++ map_of (decl_rows v2_body_decls)"
    "map_of (reg_responses (loaded_registries v)) = map_of (decl_rows v1_response_decls)"
  by (simp_all add: loaded_12 [OF assms] map_of_d_update rows_wf del: map_append)

text \<open>
  A type is served when the class registered for it takes the body registered for it and has a
  response of the same endpoint; only getAllDocuments has the response class of its name.
\<close>

definition served :: "registries \<Rightarrow> int \<Rightarrow> request_type \<Rightarrow> bool" where
  "served reg v t =
     (case map_of (reg_requests reg) (t, v) of
        None \<Rightarrow> False
      | Some c \<Rightarrow> (case decl_of c of
          None \<Rightarrow> False
        | Some d \<Rightarrow> map_of (reg_bodies reg) (t, v) = Some (rd_payload_type d)
            \<and> c \<noteq> GetRootRequest
            \<and> (case map_of (reg_responses reg) (c, v) of
                 None \<Rightarrow> False
               | Some r \<Rightarrow> response_name r = rd_http_name d
                   \<and> (r = PostGetAllDocumentsResponse) = (t = ALL_DOC_IDS))))"

lemma served_12:
  assumes "v = 1 \<or> v = 2" "t \<noteq> ROOT"
  shows "served (loaded_registries v) v t"
  unfolding served_def loaded_lookup [OF assms(1)]
  using assms by (cases t) (auto simp: decl_tables decl_of_def map_add_def)

lemma complete_12:
  assumes "v = 1 \<or> v = 2"
  shows "responses_complete (loaded_registries v)"
proof -
  have "list_all (\<lambda>((t, u), c). map_of (decl_rows v1_response_decls) (c, u) \<noteq> None)
     (request_rows (v1_document_requests @ v1_session_requests) @ request_rows v2_requests)"
    by (simp add: decl_tables)
  moreover have "set (reg_requests (loaded_registries v)) \<subseteq>
     set (request_rows (v1_document_requests @ v1_session_requests) @ request_rows v2_requests)"
  proof
    fix x assume "x \<in> set (reg_requests (loaded_registries v))"
    moreover have "d_wf (reg_requests (loaded_registries v))" by (simp add: loaded_12 [OF assms] d_wf_update)
    ultimately have "map_of (reg_requests (loaded_registries v)) (fst x) = Some (snd x)"
      by (simp add: d_wf_def)
    then show "x \<in> set (request_rows (v1_document_requests @ v1_session_requests) @ request_rows v2_requests)"
      unfolding loaded_lookup [OF assms] map_add_def
      by (cases x) (auto split: option.splits dest!: map_of_SomeD simp del: map_append)
  qed
  ultimately show ?thesis
    unfolding responses_complete_def d_has_def loaded_lookup [OF assms] list_all_iff by blast
qed

definition fresh_factory :: "string \<Rightarrow> factory" where
  "fresh_factory uuid = \<lparr> rf_version = 0, rf_uuid = uuid, rf_registries = no_registries \<rparr>"

definition ready_factory :: "int \<Rightarrow> string \<Rightarrow> factory" where
  "ready_factory v uuid = \<lparr> rf_version = v, rf_uuid = uuid, rf_registries = loaded_registries v \<rparr>"

lemma set_version_ready:
  assumes "v = 1 \<or> v = 2"
  shows "RequestFactory_set_version v (fresh_factory uuid) = (Inr (), ready_factory v uuid)"
  using assms import_1 import_2 complete_12
  by (auto simp: RequestFactory_set_version_def fresh_factory_def ready_factory_def)

lemma creates_request:
  assumes v: "v = 1 \<or> v = 2" and t: "t \<noteq> ROOT"
    and "map_of (reg_bodies (loaded_registries v)) (t, v) = Some b" "construct_body b kw = Inr p"
  shows "\<exists>q. RequestFactory_create_request t kw (ready_factory v uuid) = Inr q"
  using assms served_12 [OF v t] construct_body_class [of b kw p]
  by (auto simp: served_def RequestFactory_create_request_def RequestFactory_create_body_def ready_factory_def
      construct_request_def TestServerRequest_create_def available_api_version_def split: option.splits)

lemma create_request_ready:
  assumes v: "v = 1 \<or> v = 2" and t: "t \<noteq> ROOT"
  shows "\<exists>c d r. map_of (reg_requests (loaded_registries v)) (t, v) = Some c \<and> decl_of c = Some d
     \<and> map_of (reg_responses (loaded_registries v)) (c, v) = Some r \<and> response_name r = rd_http_name d
     \<and> RequestFactory_create_request t kw (ready_factory v uuid) =
         rbind (construct_body (rd_payload_type d) kw) (\<lambda>b.
           Inr \<lparr> sq_class = c, sq_version = v, sq_uuid = uuid, sq_payload = Some b,
                 sq_http_name = rd_http_name d, sq_method = ''post'' \<rparr>)"
proof -
  from served_12 [OF assms] obtain c d r where reg: "map_of (reg_requests (loaded_registries v)) (t, v) = Some c"
      "decl_of c = Some d" "map_of (reg_bodies (loaded_registries v)) (t, v) = Some (rd_payload_type d)"
      "map_of (reg_responses (loaded_registries v)) (c, v) = Some r" "response_name r = rd_http_name d"
    by (auto simp: served_def split: option.splits)
  have "RequestFactory_create_request t kw (ready_factory v uuid) =
         rbind (construct_body (rd_payload_type d) kw) (\<lambda>b.
           Inr \<lparr> sq_class = c, sq_version = v, sq_uuid = uuid, sq_payload = Some b,
                 sq_http_name = rd_http_name d, sq_method = ''post'' \<rparr>)"
    using v t reg construct_body_class [of "rd_payload_type d" kw]
    by (cases "construct_body (rd_payload_type d) kw")
      (auto simp: RequestFactory_create_request_def RequestFactory_create_body_def ready_factory_def
        construct_request_def TestServerRequest_create_def available_api_version_def)
  with reg show ?thesis by blast
qed

text \<open>Versions from 3 on: the modules of the first two load, the next one does not exist.\<close>

lemma version_modules_from_3:
  assumes "v \<ge> 3"
  shows "\<exists>ms. version_modules v = version_modules 2 @ M_requests 3 # ms"
proof -
  have "[1..v] = [1..2] @ [3..v]" using assms upto_split1 [of 1 3 v] upto_split2 [of 1 2 v] by simp
  moreover have "[3..v] = 3 # [4..v]" using assms by (simp add: upto_rec1)
  ultimately show ?thesis by (simp add: version_modules_def)
qed

lemma import_modules_append:
  "import_modules (ms @ ns) = io_bind (import_modules ms) (\<lambda>_. import_modules ns)"
  by (induction ms) (simp_all add: io_bind_assoc, simp add: io_bind_def io_return_def fun_eq_iff)

lemma import_from_3:
  assumes "v \<ge> 3"
  shows "import_modules (version_modules v) no_registries = (Inl ModuleNotFoundError, loaded_registries 2)"
proof -
  obtain ms where "version_modules v = version_modules 2 @ M_requests 3 # ms"
    using version_modules_from_3 [OF assms] by blast
  then show ?thesis
    by (simp add: import_modules_append io_bind_def import_2 import_module_def)
qed

section \<open>Properties\<close>

text \<open>
  C3. After a factory is set to protocol version 1 or 2, every request type except the version
  independent root request is fully served: a request class and a response class are registered
  for it, both for the same endpoint, and creating the request succeeds exactly when the body
  class that the request expects accepts the arguments, giving a POST request of that version.
\<close>

theorem every_request_served:
  assumes "v = 1 \<or> v = 2" and "t \<noteq> ROOT"
  shows "\<exists>f c d r. RequestFactory_set_version v (fresh_factory uuid) = (Inr (), f)
    \<and> map_of (reg_requests (rf_registries f)) (t, v) = Some c \<and> decl_of c = Some d
    \<and> map_of (reg_responses (rf_registries f)) (c, v) = Some r \<and> response_name r = rd_http_name d
    \<and> RequestFactory_create_request t kw f =
        rbind (construct_body (rd_payload_type d) kw) (\<lambda>b.
          Inr \<lparr> sq_class = c, sq_version = v, sq_uuid = uuid, sq_payload = Some b,
                sq_http_name = rd_http_name d, sq_method = ''post'' \<rparr>)"
  using set_version_ready [OF assms(1), of uuid] create_request_ready [OF assms, of kw uuid]
  by (auto simp: ready_factory_def)

theorem every_request_served_witness:
  "\<exists>f q. RequestFactory_set_version 2 (fresh_factory ''u'') = (Inr (), f)
     \<and> RequestFactory_create_request GET_DOCUMENT
         (KW_database_document ''db'' \<lparr> dr_collection = ''_default._default'', dr_id = ''d'' \<rparr>) f = Inr q
     \<and> sq_version q = 2"
proof -
  let ?kw = "KW_database_document ''db'' \<lparr> dr_collection = ''_default._default'', dr_id = ''d'' \<rparr>"
  have hyp: "(2::int) = 1 \<or> (2::int) = 2" "GET_DOCUMENT \<noteq> ROOT" by simp_all
  obtain f c d r where f: "RequestFactory_set_version 2 (fresh_factory ''u'') = (Inr (), f)"
      and "map_of (reg_requests (rf_registries f)) (GET_DOCUMENT, 2) = Some c" "decl_of c = Some d"
      and q: "RequestFactory_create_request GET_DOCUMENT ?kw f =
        rbind (construct_body (rd_payload_type d) ?kw) (\<lambda>b.
          Inr \<lparr> sq_class = c, sq_version = 2, sq_uuid = ''u'', sq_payload = Some b,
                sq_http_name = rd_http_name d, sq_method = ''post'' \<rparr>)"
    using every_request_served [OF hyp, of "''u''" ?kw] by metis
  have "\<exists>q. RequestFactory_create_request GET_DOCUMENT ?kw (ready_factory 2 ''u'') = Inr q"
    by (rule creates_request [OF hyp, where b = GetDocumentBody])
      (simp_all add: loaded_lookup decl_tables construct_body_def)
  moreover have "f = ready_factory 2 ''u''" using f set_version_ready [of 2 "''u''"] by simp
  ultimately show ?thesis using f q by (auto simp: result_simps)
qed

text \<open>
  A protocol version that the client does not have (3 or more) is refused with
  \<open>ModuleNotFoundError\<close>, but the factory keeps the refused version: no later call can set another
  one, and creating any request but the root request fails.
\<close>

theorem unknown_version_sticks:
  assumes "v \<ge> 3"
  shows "\<exists>f. RequestFactory_set_version v (fresh_factory uuid) = (Inl ModuleNotFoundError, f)
    \<and> RequestFactory_version f = Inr v \<and> RequestFactory_set_version v' f = (Inl AssertionError, f)
    \<and> (t = ROOT \<or> (\<exists>e. RequestFactory_create_request t kw f = Inl e))"
proof -
  let ?f = "(fresh_factory uuid)\<lparr>rf_version := v, rf_registries := loaded_registries 2\<rparr>"
  have set: "RequestFactory_set_version v (fresh_factory uuid) = (Inl ModuleNotFoundError, ?f)"
    using import_from_3 [OF assms] by (simp add: RequestFactory_set_version_def fresh_factory_def)
  have "map_of (reg_requests (loaded_registries 2)) (t, v) = None"
    using assms by (simp add: loaded_lookup decl_tables)
  then have "t = ROOT \<or> (\<exists>e. RequestFactory_create_request t kw ?f = Inl e)"
    by (simp add: RequestFactory_create_request_def)
  with set assms show ?thesis
    by (auto simp: RequestFactory_version_def RequestFactory_set_version_def fresh_factory_def)
qed

theorem unknown_version_sticks_witness:
  "\<exists>f. RequestFactory_set_version 3 (fresh_factory ''u'') = (Inl ModuleNotFoundError, f)
    \<and> RequestFactory_set_version 2 f = (Inl AssertionError, f)"
proof -
  have "(3::int) \<ge> 3" by simp
  from unknown_version_sticks [OF this, of "''u''" 2 ROOT KW_none] show ?thesis by blast
qed

end
