(* ===== verification/HttpLog.thy ===== *)
theory HttpLog
  imports PyStrings
begin

text \<open>
  \<open>client/src/cbltest/httplog.py\<close>: the names of the files in which the requests are recorded.  The
  files are opened for exclusive creation, so two writers must never share a name.
\<close>

text \<open>\<open>f"{n:0kd}"\<close> for a natural number.\<close>

definition zero_pad :: "nat \<Rightarrow> nat \<Rightarrow> string" where
  "zero_pad k n = replicate (k - length (nat_str n)) (CHR ''0'') @ nat_str n"

definition HttpLogWriter_folder_name :: "nat \<Rightarrow> string" where
  "HttpLogWriter_folder_name num = zero_pad 8 (num div 100 * 100)"

definition HttpLogWriter_fname_prefix :: "nat \<Rightarrow> string \<Rightarrow> string" where
  "HttpLogWriter_fname_prefix num test_name =
     zero_pad 2 (num mod 100) @ ''_'' @ py_removeprefix ''test_'' test_name"

text \<open>The path below \<open>http_log\<close>: a folder and a file name.\<close>

definition HttpLogWriter_get_path :: "nat \<Rightarrow> string \<Rightarrow> string \<Rightarrow> string \<times> string" where
  "HttpLogWriter_get_path num test_name kind =
     (HttpLogWriter_folder_name num, HttpLogWriter_fname_prefix num test_name @ ''_'' @ kind @ ''.txt'')"

text \<open>Numbers below one hundred have two digits and are read back from them.\<close>

lemma digits_val_zeros: "digits_val 0 (replicate k (CHR ''0'') @ s) = digits_val 0 s"
  by (induction k) (auto simp: digit_val_def)

lemma digits_val_nat_str: "digits_val 0 (nat_str n) = Some (int n)"
proof -
  from unsigned_val_nat_str [of n] obtain c cs m where c: "nat_str n = c # cs" "digit_val c = Some m"
      "digits_val m cs = Some (int n)"
    by (auto simp: unsigned_val_def split: list.splits option.splits)
  then show ?thesis by simp
qed

lemma zero_pad_inj: "zero_pad k n = zero_pad k m \<Longrightarrow> n = m"
proof -
  assume eq: "zero_pad k n = zero_pad k m"
  have "Some (int n) = Some (int m)"
    by (metis eq digits_val_nat_str digits_val_zeros zero_pad_def)
  then show ?thesis by simp
qed

lemma nat_str_length_two: "n < 100 \<Longrightarrow> length (nat_str n) \<le> 2"
proof (cases "n < 10")
  case True
  then show ?thesis by (subst nat_str.simps) simp
next
  case False
  assume "n < 100"
  then have "length (nat_str (n div 10)) = 1" by (subst nat_str.simps) auto
  with False show ?thesis by (subst nat_str.simps) simp
qed

lemma zero_pad_two: "n < 100 \<Longrightarrow> length (zero_pad 2 n) = 2"
  using nat_str_length_two [of n] by (simp add: zero_pad_def)

section \<open>Properties\<close>

text \<open>
  No two numbered requests share a log file: the paths of two writers with different numbers
  differ, whatever the tests and the kinds of the two files.
\<close>

theorem log_paths_distinct:
  assumes "n \<noteq> m"
  shows "HttpLogWriter_get_path n t s \<noteq> HttpLogWriter_get_path m u r"
proof
  assume same: "HttpLogWriter_get_path n t s = HttpLogWriter_get_path m u r"
  then have folder: "n div 100 * 100 = m div 100 * 100"
    by (auto simp: HttpLogWriter_get_path_def HttpLogWriter_folder_name_def dest: zero_pad_inj)
  have two: "length (zero_pad 2 (n mod 100)) = length (zero_pad 2 (m mod 100))"
    by (simp add: zero_pad_two)
  from same have "zero_pad 2 (n mod 100) = zero_pad 2 (m mod 100)"
    using append_eq_append_conv [OF disjI1 [OF two]]
    by (auto simp: HttpLogWriter_get_path_def HttpLogWriter_fname_prefix_def)
  then have "n mod 100 = m mod 100" by (rule zero_pad_inj)
  with folder assms show False by (metis div_mult_mod_eq)
qed

theorem log_paths_distinct_witness:
  "HttpLogWriter_get_path 107 ''test_sync'' ''begin'' \<noteq> HttpLogWriter_get_path 7 ''test_sync'' ''begin''"
  by (rule log_paths_distinct) simp

end
