(* ===== verification/Router.thy ===== *)
theory Router
  imports Json
begin

text \<open>
  \<open>client/src/cbltest/websocket_router.py\<close>: the router that hands the replies of browser test
  servers to the requests that wait for them.  Registration, incoming messages, cancellation of a
  waiting task and \<open>stop\<close> run to completion one after the other on the event loop, so the router is
  a state machine whose steps are these operations.  Sockets, the lookup of a local address and
  the opening of the browser page are not modelled; a connection is a number.
\<close>

named_theorems router_simps "rewrite rules for the router"

section \<open>State\<close>

text \<open>A future remembers the id it was registered for, which the code keeps in its closure only.\<close>

datatype fut_state = Waiting | Done jdict | Failed py_exc | Cancelled

record fut =
  fu_ts_id :: int
  fu_state :: fut_state

record router =
  wr_pending :: "(int, nat) pydict"
  wr_futures :: "fut list"
  wr_server_urls :: "string list"
  wr_connections :: "(string, nat) pydict"
  wr_connected :: nat
  wr_stopping :: bool

definition WebSocketRouter_create :: "string list \<Rightarrow> router" where
  "WebSocketRouter_create urls =
     \<lparr> wr_pending = [], wr_futures = [], wr_server_urls = urls, wr_connections = [],
       wr_connected = 0, wr_stopping = False \<rparr>"

definition fut_of :: "router \<Rightarrow> nat \<Rightarrow> fut_state" where
  "fut_of r i = fu_state (wr_futures r ! i)"

definition set_fut :: "nat \<Rightarrow> fut_state \<Rightarrow> router \<Rightarrow> router" where
  "set_fut i s r = r\<lparr>wr_futures := (wr_futures r)[i := (wr_futures r ! i)\<lparr>fu_state := s\<rparr>]\<rparr>"

section \<open>Operations\<close>

definition WebSocketRouter_register :: "int \<Rightarrow> router \<Rightarrow> nat \<times> router" where
  "WebSocketRouter_register ts_id r =
     (let f = length (wr_futures r)
      in (f, r\<lparr> wr_futures := wr_futures r @ [\<lparr> fu_ts_id = ts_id, fu_state = Waiting \<rparr>],
               wr_pending := d_set (wr_pending r) ts_id f \<rparr>))"

definition WebSocketRouter_is_known_ws_url :: "router \<Rightarrow> string \<Rightarrow> bool" where
  "WebSocketRouter_is_known_ws_url r url = d_has (wr_connections r) url"

definition WebSocketRouter_get_websocket_for_write :: "router \<Rightarrow> string \<Rightarrow> nat result" where
  "WebSocketRouter_get_websocket_for_write r url =
     (if \<not> WebSocketRouter_is_known_ws_url r url then Inl IndexError
      else d_item (wr_connections r) url)"

text \<open>
  Looking up a JSON value among integer keys: \<open>1\<close>, \<open>1.0\<close> and \<open>true\<close> are the same key, a list or
  an object cannot be hashed.
\<close>

definition int_key :: "json \<Rightarrow> int option result" where
  "int_key v =
     (case v of
        JInt i \<Rightarrow> Inr (Some i)
      | JBool b \<Rightarrow> Inr (Some (if b then 1 else 0))
      | JFloat x \<Rightarrow> Inr (if of_int (floor x) = x then Some (floor x) else None)
      | JList l \<Rightarrow> Inl TypeError
      | JObj d \<Rightarrow> Inl TypeError
      | _ \<Rightarrow> Inr None)"

text \<open>How the handler goes on after a message: with the next one, or not.\<close>

datatype handled = Continue | Closed | Stopped | Raised py_exc

definition resolve_future :: "nat \<Rightarrow> fut_state \<Rightarrow> router \<Rightarrow> handled \<times> router" where
  "resolve_future i s r =
     (if fut_of r i = Waiting then (Continue, set_fut i s r) else (Raised InvalidStateError, r))"

definition handle_device :: "nat \<Rightarrow> jdict \<Rightarrow> router \<Rightarrow> handled \<times> router" where
  "handle_device ws data r =
     (case get_or_null data ''device'' of
        JNull \<Rightarrow> (Continue, r)
      | JStr device \<Rightarrow>
          (case py_int (drop 2 device) of
             None \<Rightarrow> (Closed, r)
           | Some url_index \<Rightarrow>
               (case py_nth (wr_server_urls r) url_index of
                  Inl e \<Rightarrow> (Closed, r)
                | Inr url \<Rightarrow> (Continue, r\<lparr> wr_connections := d_set (wr_connections r) url ws,
                                        wr_connected := Suc (wr_connected r) \<rparr>)))
      | _ \<Rightarrow> (Raised TypeError, r))"

text \<open>One text message on connection \<open>ws\<close>.\<close>

definition WebSocketRouter_handle_text :: "nat \<Rightarrow> json \<Rightarrow> router \<Rightarrow> handled \<times> router" where
  "WebSocketRouter_handle_text ws msg r =
     (if wr_stopping r then (Stopped, r)
      else case msg of
        JObj data \<Rightarrow>
          (let ts_id = get_or_null data ''ts_id''
           in if ts_id = JNull then handle_device ws data r
              else case int_key ts_id of
                Inl e \<Rightarrow> (Raised e, r)
              | Inr None \<Rightarrow> handle_device ws data r
              | Inr (Some k) \<Rightarrow>
                  (case map_of (wr_pending r) k of
                     None \<Rightarrow> handle_device ws data r
                   | Some i \<Rightarrow> resolve_future i (Done data) (r\<lparr>wr_pending := d_del (wr_pending r) k\<rparr>)))
      | _ \<Rightarrow> (Raised AttributeError, r))"

text \<open>\<open>stop\<close>: what is still pending and not done gets an exception.\<close>

fun fail_pending :: "(int, nat) pydict \<Rightarrow> router \<Rightarrow> router" where
  "fail_pending [] r = r"
| "fail_pending ((k, i) # p) r =
     fail_pending p (if fut_of r i = Waiting then set_fut i (Failed RuntimeError) r else r)"

definition WebSocketRouter_stop :: "router \<Rightarrow> router" where
  "WebSocketRouter_stop r =
     (let r = fail_pending (wr_pending r) (r\<lparr>wr_stopping := True\<rparr>)
      in r\<lparr>wr_pending := []\<rparr>)"

text \<open>The part of \<open>start\<close> that touches the router: with no servers nothing happens.\<close>

definition WebSocketRouter_start :: "router \<Rightarrow> router" where
  "WebSocketRouter_start r = (if wr_server_urls r = [] then r else r\<lparr>wr_stopping := False\<rparr>)"

section \<open>Steps\<close>

datatype router_event =
    Ev_register int
  | Ev_text nat json
  | Ev_cancel nat
  | Ev_stop
  | Ev_start

inductive router_step :: "router \<Rightarrow> router_event \<Rightarrow> router \<Rightarrow> bool" where
  step_register: "WebSocketRouter_register ts_id r = (f, r') \<Longrightarrow> router_step r (Ev_register ts_id) r'"
| step_text: "WebSocketRouter_handle_text ws msg r = (h, r') \<Longrightarrow> router_step r (Ev_text ws msg) r'"
| step_cancel: "i < length (wr_futures r) \<Longrightarrow> fut_of r i = Waiting \<Longrightarrow>
     router_step r (Ev_cancel i) (set_fut i Cancelled r)"
| step_stop: "router_step r Ev_stop (WebSocketRouter_stop r)"
| step_start: "router_step r Ev_start (WebSocketRouter_start r)"

inductive_cases router_stepE: "router_step r e r'"

inductive_simps router_step_text: "router_step r (Ev_text ws msg) r'"
inductive_simps router_step_register: "router_step r (Ev_register t) r'"

inductive router_reachable :: "string list \<Rightarrow> router \<Rightarrow> bool" for urls where
  reach_init: "router_reachable urls (WebSocketRouter_create urls)"
| reach_step: "router_reachable urls r \<Longrightarrow> router_step r e r' \<Longrightarrow> router_reachable urls r'"

section \<open>The invariant\<close>

definition router_inv :: "router \<Rightarrow> bool" where
  "router_inv r \<longleftrightarrow>
     d_wf (wr_pending r)
     \<and> (\<forall>k i. map_of (wr_pending r) k = Some i \<longrightarrow>
           i < length (wr_futures r) \<and> fu_ts_id (wr_futures r ! i) = k
           \<and> (fut_of r i = Waiting \<or> fut_of r i = Cancelled))
     \<and> (\<forall>i < length (wr_futures r). \<forall>d. fut_of r i = Done d \<longrightarrow>
           int_key (get_or_null d ''ts_id'') = Inr (Some (fu_ts_id (wr_futures r ! i))))
     \<and> set (d_keys (wr_connections r)) \<subseteq> set (wr_server_urls r)"

lemma router_invI:
  assumes "d_wf (wr_pending r)"
    and "\<And>k i. map_of (wr_pending r) k = Some i \<Longrightarrow> i < length (wr_futures r)
           \<and> fu_ts_id (wr_futures r ! i) = k \<and> (fut_of r i = Waiting \<or> fut_of r i = Cancelled)"
    and "\<And>i d. i < length (wr_futures r) \<Longrightarrow> fut_of r i = Done d \<Longrightarrow>
           int_key (get_or_null d ''ts_id'') = Inr (Some (fu_ts_id (wr_futures r ! i)))"
    and "set (d_keys (wr_connections r)) \<subseteq> set (wr_server_urls r)"
  shows "router_inv r"
  using assms unfolding router_inv_def by blast

lemma router_invD:
  assumes "router_inv r"
  shows "d_wf (wr_pending r)"
    and "\<And>k i. map_of (wr_pending r) k = Some i \<Longrightarrow> i < length (wr_futures r)
           \<and> fu_ts_id (wr_futures r ! i) = k \<and> (fut_of r i = Waiting \<or> fut_of r i = Cancelled)"
    and "\<And>i d. i < length (wr_futures r) \<Longrightarrow> fut_of r i = Done d \<Longrightarrow>
           int_key (get_or_null d ''ts_id'') = Inr (Some (fu_ts_id (wr_futures r ! i)))"
    and "set (d_keys (wr_connections r)) \<subseteq> set (wr_server_urls r)"
  using assms unfolding router_inv_def by blast+

lemma set_fut_simps [simp, router_simps]:
  "wr_pending (set_fut i s r) = wr_pending r"
  "wr_server_urls (set_fut i s r) = wr_server_urls r"
  "wr_connections (set_fut i s r) = wr_connections r"
  "length (wr_futures (set_fut i s r)) = length (wr_futures r)"
  by (simp_all add: set_fut_def)

lemma fut_of_set_fut [router_simps]:
  "i < length (wr_futures r) \<Longrightarrow> fut_of (set_fut i s r) j = (if j = i then s else fut_of r j)"
  by (simp add: fut_of_def set_fut_def nth_list_update)

lemma fut_id_set_fut [simp, router_simps]:
  "fu_ts_id (wr_futures (set_fut i s r) ! j) = fu_ts_id (wr_futures r ! j)"
  by (cases "i < length (wr_futures r)")
    (simp_all add: set_fut_def nth_list_update list_update_beyond)

lemma fut_of_more [simp, router_simps]:
  "fut_of (r\<lparr>wr_pending := p\<rparr>) = fut_of r"
  "fut_of (r\<lparr>wr_stopping := b\<rparr>) = fut_of r"
  "fut_of (r\<lparr>wr_connections := c, wr_connected := n\<rparr>) = fut_of r"
  by (simp_all add: fut_of_def fun_eq_iff)

text \<open>Each operation keeps the invariant.\<close>

lemma inv_create: "router_inv (WebSocketRouter_create urls)"
  by (simp add: router_inv_def WebSocketRouter_create_def d_keys_def)

lemma inv_register:
  assumes "router_inv r"
  shows "router_inv (snd (WebSocketRouter_register t r))"
proof (rule router_invI)
  let ?r = "snd (WebSocketRouter_register t r)"
  show "d_wf (wr_pending ?r)"
    using router_invD(1) [OF assms] by (auto simp: WebSocketRouter_register_def Let_def)
  show "set (d_keys (wr_connections ?r)) \<subseteq> set (wr_server_urls ?r)"
    using router_invD(4) [OF assms] by (simp add: WebSocketRouter_register_def Let_def)
  show "i < length (wr_futures ?r) \<and> fu_ts_id (wr_futures ?r ! i) = k
      \<and> (fut_of ?r i = Waiting \<or> fut_of ?r i = Cancelled)" if "map_of (wr_pending ?r) k = Some i" for k i
    using that router_invD(2) [OF assms, of k i]
    by (auto simp: WebSocketRouter_register_def Let_def fut_of_def nth_append split: if_splits)
  show "int_key (get_or_null d ''ts_id'') = Inr (Some (fu_ts_id (wr_futures ?r ! i)))"
    if "i < length (wr_futures ?r)" "fut_of ?r i = Done d" for i d
    using that router_invD(3) [OF assms, of i d]
    by (auto simp: WebSocketRouter_register_def Let_def fut_of_def nth_append split: if_splits)
qed

lemma inv_cancel:
  assumes "router_inv r" "i < length (wr_futures r)"
  shows "router_inv (set_fut i Cancelled r)"
  using router_invD [OF assms(1)] assms(2)
  by (intro router_invI) (auto simp: fut_of_set_fut split: if_splits)

lemma inv_resolve:
  assumes inv: "router_inv r" and p: "map_of (wr_pending r) k = Some i"
    and key: "int_key (get_or_null d ''ts_id'') = Inr (Some k)"
  shows "router_inv (snd (resolve_future i (Done d) (r\<lparr>wr_pending := d_del (wr_pending r) k\<rparr>)))"
proof -
  let ?q = "r\<lparr>wr_pending := d_del (wr_pending r) k\<rparr>"
  from router_invD(2) [OF inv p] have i: "i < length (wr_futures r)" "fu_ts_id (wr_futures r ! i) = k"
    by auto
  have uniq: "j \<noteq> i" if "map_of (wr_pending r) k' = Some j" "k' \<noteq> k" for k' j
    using router_invD(2) [OF inv that(1)] i that(2) by auto
  have q: "router_inv ?q"
    using router_invD [OF inv] by (intro router_invI) (auto split: if_splits)
  show ?thesis
  proof (cases "fut_of r i = Waiting")
    case True
    have "router_inv (set_fut i (Done d) ?q)"
      using router_invD [OF inv] i key uniq
      by (intro router_invI) (auto simp: fut_of_set_fut split: if_splits)
    with True show ?thesis by (simp add: resolve_future_def)
  next
    case False
    with q show ?thesis by (simp add: resolve_future_def)
  qed
qed

lemma inv_connect:
  assumes "router_inv r" "url \<in> set (wr_server_urls r)"
  shows "router_inv (r\<lparr> wr_connections := d_set (wr_connections r) url ws, wr_connected := n \<rparr>)"
proof (rule router_invI)
  show "set (d_keys (wr_connections (r\<lparr> wr_connections := d_set (wr_connections r) url ws, wr_connected := n \<rparr>)))
      \<subseteq> set (wr_server_urls (r\<lparr> wr_connections := d_set (wr_connections r) url ws, wr_connected := n \<rparr>))"
    using router_invD(4) [OF assms(1)] assms(2) by (auto simp: d_keys_def d_set_keys)
qed (use router_invD(1,3) [OF assms(1)] router_invD(2) [OF assms(1)] in \<open>simp_all\<close>)

lemma inv_device:
  assumes "router_inv r"
  shows "router_inv (snd (handle_device ws data r))"
  using inv_connect [OF assms] assms
  by (auto simp: handle_device_def split: json.splits option.splits sum.splits dest: py_nth_mem)

lemma inv_text:
  assumes "router_inv r"
  shows "router_inv (snd (WebSocketRouter_handle_text ws msg r))"
  using assms inv_device [OF assms] inv_resolve [OF assms]
  by (auto simp: WebSocketRouter_handle_text_def Let_def split: json.splits option.splits sum.splits)

text \<open>\<open>stop\<close> touches only the futures that wait in the pending table.\<close>

lemma fail_pending_simps [router_simps]:
  "wr_pending (fail_pending p r) = wr_pending r"
  "wr_server_urls (fail_pending p r) = wr_server_urls r"
  "wr_connections (fail_pending p r) = wr_connections r"
  "length (wr_futures (fail_pending p r)) = length (wr_futures r)"
  "fu_ts_id (wr_futures (fail_pending p r) ! j) = fu_ts_id (wr_futures r ! j)"
  by (induction p r rule: fail_pending.induct) auto

lemma fut_of_fail_pending [router_simps]:
  "\<forall>i \<in> snd ` set p. i < length (wr_futures r) \<Longrightarrow>
     fut_of (fail_pending p r) j =
       (if j \<in> snd ` set p \<and> fut_of r j = Waiting then Failed RuntimeError else fut_of r j)"
  by (induction p r rule: fail_pending.induct) (auto simp: fut_of_set_fut)

lemma pending_range:
  assumes "router_inv r"
  shows "\<forall>i \<in> snd ` set (wr_pending r). i < length (wr_futures r)"
proof
  fix i assume "i \<in> snd ` set (wr_pending r)"
  then obtain k where "(k, i) \<in> set (wr_pending r)" by auto
  then have "map_of (wr_pending r) k = Some i"
    using router_invD(1) [OF assms] by (simp add: d_wf_def)
  from router_invD(2) [OF assms this] show "i < length (wr_futures r)" by blast
qed

lemma stop_simps [router_simps]:
  "wr_pending (WebSocketRouter_stop r) = []"
  "wr_server_urls (WebSocketRouter_stop r) = wr_server_urls r"
  "wr_connections (WebSocketRouter_stop r) = wr_connections r"
  "length (wr_futures (WebSocketRouter_stop r)) = length (wr_futures r)"
  "fu_ts_id (wr_futures (WebSocketRouter_stop r) ! j) = fu_ts_id (wr_futures r ! j)"
  by (simp_all add: WebSocketRouter_stop_def Let_def fail_pending_simps)

lemma fut_of_stop:
  assumes "router_inv r"
  shows "fut_of (WebSocketRouter_stop r) j =
     (if j \<in> snd ` set (wr_pending r) \<and> fut_of r j = Waiting then Failed RuntimeError else fut_of r j)"
  using fut_of_fail_pending [of "wr_pending r" "r\<lparr>wr_stopping := True\<rparr>" j] pending_range [OF assms]
  by (simp add: WebSocketRouter_stop_def Let_def)

lemma inv_stop:
  assumes "router_inv r"
  shows "router_inv (WebSocketRouter_stop r)"
  using router_invD [OF assms] fut_of_stop [OF assms]
  by (intro router_invI) (auto simp: stop_simps split: if_splits)

lemma inv_start: "router_inv r \<Longrightarrow> router_inv (WebSocketRouter_start r)"
  by (auto simp: router_inv_def WebSocketRouter_start_def fut_of_def)

lemma inv_step: "router_step r e r' \<Longrightarrow> router_inv r \<Longrightarrow> router_inv r'"
proof (induction rule: router_step.induct)
  case (step_register t r f r')
  then show ?case using inv_register [of r t] by simp
next
  case (step_text ws msg r h r')
  then show ?case using inv_text [of r ws msg] by simp
qed (auto intro: inv_cancel inv_stop inv_start)

lemma reachable_inv: "router_reachable urls r \<Longrightarrow> router_inv r"
  by (induction rule: router_reachable.induct) (auto intro: inv_create inv_step)

section \<open>Futures settle once\<close>

text \<open>A future that no longer waits never changes again, and no future disappears.\<close>

lemma resolve_settled:
  "i < length (wr_futures r) \<Longrightarrow> fut_of r i \<noteq> Waiting \<Longrightarrow> j < length (wr_futures r) \<Longrightarrow>
     fut_of (snd (resolve_future j s r)) i = fut_of r i"
  by (auto simp: resolve_future_def fut_of_set_fut)

lemma device_futures [simp]: "wr_futures (snd (handle_device ws data r)) = wr_futures r"
  by (auto simp: handle_device_def split: json.splits option.splits sum.splits)

lemma text_settled:
  assumes "router_inv r" "i < length (wr_futures r)" "fut_of r i \<noteq> Waiting"
  shows "fut_of (snd (WebSocketRouter_handle_text ws msg r)) i = fut_of r i"
proof -
  have dev: "fut_of (snd (handle_device ws data r)) i = fut_of r i" for data
    by (simp add: fut_of_def)
  have res: "fut_of (snd (resolve_future j s (r\<lparr>wr_pending := d_del (wr_pending r) k\<rparr>))) i = fut_of r i"
    if "map_of (wr_pending r) k = Some j" for j k s
    using resolve_settled [of i "r\<lparr>wr_pending := d_del (wr_pending r) k\<rparr>" j s]
      router_invD(2) [OF assms(1) that] assms(2,3) by simp
  show ?thesis
    using dev res
    by (auto simp: WebSocketRouter_handle_text_def Let_def split: json.splits option.splits sum.splits)
qed

lemma text_length [simp]:
  "length (wr_futures (snd (WebSocketRouter_handle_text ws msg r))) = length (wr_futures r)"
  by (auto simp: WebSocketRouter_handle_text_def Let_def resolve_future_def
      split: json.splits option.splits sum.splits)

lemma step_settled:
  assumes "router_step r e r'" "router_inv r" "i < length (wr_futures r)" "fut_of r i \<noteq> Waiting"
  shows "i < length (wr_futures r') \<and> fut_of r' i = fut_of r i"
  using assms
proof (induction rule: router_step.induct)
  case (step_register t r f r')
  then show ?case
    by (auto simp: WebSocketRouter_register_def Let_def fut_of_def nth_append)
next
  case (step_text ws msg r h r')
  then show ?case using text_settled [of r i ws msg] text_length [of ws msg r] by simp
next
  case (step_cancel j r)
  then show ?case by (auto simp: fut_of_set_fut)
next
  case (step_stop r)
  then show ?case by (simp add: fut_of_stop stop_simps)
next
  case (step_start r)
  then show ?case by (simp add: WebSocketRouter_start_def fut_of_def)
qed

section \<open>Nothing waits forever\<close>

text \<open>
  As long as no id is registered while it is pending, every waiting future is in the table, so
  the reply with its id settles it and \<open>stop\<close> leaves none waiting.
\<close>

definition tracked :: "router \<Rightarrow> bool" where
  "tracked r \<longleftrightarrow> (\<forall>i < length (wr_futures r). fut_of r i = Waiting \<longrightarrow>
     map_of (wr_pending r) (fu_ts_id (wr_futures r ! i)) = Some i)"

definition fresh_event :: "router \<Rightarrow> router_event \<Rightarrow> bool" where
  "fresh_event r e = (case e of Ev_register t \<Rightarrow> \<not> d_has (wr_pending r) t | _ \<Rightarrow> True)"

lemma tracked_create: "tracked (WebSocketRouter_create urls)"
  by (simp add: tracked_def WebSocketRouter_create_def)

lemma tracked_register:
  assumes "tracked r" "\<not> d_has (wr_pending r) t"
  shows "tracked (snd (WebSocketRouter_register t r))"
  using assms
  by (auto simp: tracked_def WebSocketRouter_register_def Let_def fut_of_def nth_append d_has_def)

lemma tracked_resolve:
  assumes "router_inv r" "tracked r" "map_of (wr_pending r) k = Some i"
  shows "tracked (snd (resolve_future i (Done d) (r\<lparr>wr_pending := d_del (wr_pending r) k\<rparr>)))"
proof -
  let ?q = "r\<lparr>wr_pending := d_del (wr_pending r) k\<rparr>"
  from router_invD(2) [OF assms(1,3)] have i: "i < length (wr_futures r)" by blast
  have other: "map_of (wr_pending ?q) (fu_ts_id (wr_futures r ! j)) = Some j"
    if "j < length (wr_futures r)" "fut_of r j = Waiting" "j \<noteq> i" for j
  proof -
    from assms(2) that have m: "map_of (wr_pending r) (fu_ts_id (wr_futures r ! j)) = Some j"
      by (simp add: tracked_def)
    with assms(3) that(3) have "fu_ts_id (wr_futures r ! j) \<noteq> k" by auto
    with m show ?thesis by simp
  qed
  show ?thesis
  proof (cases "fut_of r i = Waiting")
    case True
    then have "snd (resolve_future i (Done d) ?q) = set_fut i (Done d) ?q" by (simp add: resolve_future_def)
    then show ?thesis using i other unfolding tracked_def
      by (simp add: fut_of_set_fut del: map_of_d_del)
  next
    case False
    then have "snd (resolve_future i (Done d) ?q) = ?q" by (simp add: resolve_future_def)
    moreover have "tracked ?q"
      unfolding tracked_def
    proof (intro allI impI)
      fix j assume j: "j < length (wr_futures ?q)" "fut_of ?q j = Waiting"
      with False have "j \<noteq> i" by auto
      with j other [of j] show "map_of (wr_pending ?q) (fu_ts_id (wr_futures ?q ! j)) = Some j"
        by (simp del: map_of_d_del)
    qed
    ultimately show ?thesis by simp
  qed
qed

lemma device_pending [simp]: "wr_pending (snd (handle_device ws data r)) = wr_pending r"
  by (auto simp: handle_device_def split: json.splits option.splits sum.splits)

lemma tracked_device: "tracked r \<Longrightarrow> tracked (snd (handle_device ws data r))"
  by (simp add: tracked_def fut_of_def)

lemma tracked_text:
  "router_inv r \<Longrightarrow> tracked r \<Longrightarrow> tracked (snd (WebSocketRouter_handle_text ws msg r))"
  using tracked_device [of r ws] tracked_resolve [of r]
  by (auto simp: WebSocketRouter_handle_text_def Let_def split: json.splits option.splits sum.splits)

lemma tracked_stop:
  assumes "router_inv r" "tracked r"
  shows "\<forall>i < length (wr_futures r). fut_of (WebSocketRouter_stop r) i \<noteq> Waiting"
proof (intro allI impI)
  fix i assume i: "i < length (wr_futures r)"
  show "fut_of (WebSocketRouter_stop r) i \<noteq> Waiting"
  proof (cases "fut_of r i = Waiting")
    case True
    with assms(2) i have "i \<in> snd ` set (wr_pending r)"
      by (force simp: tracked_def dest: map_of_SomeD)
    with True show ?thesis by (simp add: fut_of_stop [OF assms(1)])
  qed (simp add: fut_of_stop [OF assms(1)])
qed

lemma tracked_step: "router_step r e r' \<Longrightarrow> router_inv r \<Longrightarrow> tracked r \<Longrightarrow> fresh_event r e \<Longrightarrow> tracked r'"
proof (induction rule: router_step.induct)
  case (step_register t r f r')
  then show ?case using tracked_register [of r t] by (simp add: fresh_event_def)
next
  case (step_text ws msg r h r')
  then show ?case using tracked_text [of r ws msg] by simp
next
  case (step_cancel i r)
  then show ?case by (auto simp: tracked_def fut_of_set_fut)
next
  case (step_stop r)
  then show ?case using tracked_stop [of r] by (simp add: tracked_def stop_simps)
next
  case (step_start r)
  then show ?case by (simp add: tracked_def WebSocketRouter_start_def fut_of_def)
qed

text \<open>The runs in which no pending id is registered again, and what the reply to a waiting request does.\<close>

inductive router_run :: "string list \<Rightarrow> router \<Rightarrow> bool" for urls where
  run_init: "router_run urls (WebSocketRouter_create urls)"
| run_step: "router_run urls r \<Longrightarrow> router_step r e r' \<Longrightarrow> fresh_event r e \<Longrightarrow> router_run urls r'"

lemma run_reachable: "router_run urls r \<Longrightarrow> router_reachable urls r"
  by (induction rule: router_run.induct) (auto intro: router_reachable.intros)

lemma run_tracked: "router_run urls r \<Longrightarrow> tracked r"
  by (induction rule: router_run.induct)
    (auto intro: tracked_create tracked_step dest: run_reachable reachable_inv)

lemma text_delivers:
  assumes "router_inv r" "tracked r" "\<not> wr_stopping r" "i < length (wr_futures r)" "fut_of r i = Waiting"
    and "int_key (get_or_null d ''ts_id'') = Inr (Some (fu_ts_id (wr_futures r ! i)))"
  shows "\<exists>r'. WebSocketRouter_handle_text ws (JObj d) r = (Continue, r') \<and> fut_of r' i = Done d
    \<and> (\<forall>j. j \<noteq> i \<longrightarrow> fut_of r' j = fut_of r j)"
proof -
  let ?k = "fu_ts_id (wr_futures r ! i)"
  from assms(2,4,5) have p: "map_of (wr_pending r) ?k = Some i" by (simp add: tracked_def)
  from assms(6) have nn: "get_or_null d ''ts_id'' \<noteq> JNull" by (auto simp: int_key_def)
  let ?q = "r\<lparr>wr_pending := d_del (wr_pending r) ?k\<rparr>"
  have "WebSocketRouter_handle_text ws (JObj d) r = (Continue, set_fut i (Done d) ?q)"
    using assms(3,5,6) p nn by (simp add: WebSocketRouter_handle_text_def Let_def resolve_future_def)
  moreover have "fut_of (set_fut i (Done d) ?q) j = (if j = i then Done d else fut_of r j)" for j
    using assms(4) by (simp add: fut_of_set_fut)
  ultimately show ?thesis by auto
qed

lemma reach_register: "router_reachable urls r \<Longrightarrow> router_reachable urls (snd (WebSocketRouter_register t r))"
  by (rule reach_step [OF _ step_register]) (assumption, rule prod.collapse [symmetric])

lemma run_register:
  "router_run urls r \<Longrightarrow> \<not> d_has (wr_pending r) t \<Longrightarrow> router_run urls (snd (WebSocketRouter_register t r))"
  by (rule run_step [OF _ step_register [of t r _ _, OF prod.collapse [symmetric]]])
    (simp_all add: fresh_event_def)

section \<open>Properties\<close>

text \<open>
  C7. Replies go to the request they answer: in every reachable state of the router, a future that
  completed holds a message whose \<open>ts_id\<close> is the id the future was registered with.
\<close>

theorem completed_future_has_own_id:
  assumes "router_reachable urls r" "i < length (wr_futures r)" "fut_of r i = Done d"
  shows "int_key (get_or_null d ''ts_id'') = Inr (Some (fu_ts_id (wr_futures r ! i)))"
  using router_invD(3) [OF reachable_inv [OF assms(1)]] assms(2,3) by blast

theorem completed_future_has_own_id_witness:
  "\<exists>r. router_reachable [''ws://a''] r \<and> fut_of r 0 = Done [(''ts_id'', JInt 7), (''x'', JNull)]
     \<and> int_key (get_or_null [(''ts_id'', JInt 7), (''x'', JNull)] ''ts_id'') = Inr (Some (fu_ts_id (wr_futures r ! 0)))"
proof -
  let ?d = "[(''ts_id'', JInt 7), (''x'', JNull)]"
  let ?r1 = "snd (WebSocketRouter_register 7 (WebSocketRouter_create [''ws://a'']))"
  let ?r2 = "snd (WebSocketRouter_handle_text 0 (JObj ?d) ?r1)"
  have r1: "router_reachable [''ws://a''] ?r1"
    by (rule reach_register [OF reach_init])
  have r2: "router_reachable [''ws://a''] ?r2"
    by (rule reach_step [OF r1 step_text]) (rule prod.collapse [symmetric])
  have fut: "0 < length (wr_futures ?r2)" "fut_of ?r2 0 = Done ?d"
    by (simp_all add: WebSocketRouter_register_def WebSocketRouter_create_def WebSocketRouter_handle_text_def
        get_or_null_def int_key_def resolve_future_def fut_of_def set_fut_def Let_def)
  show ?thesis using completed_future_has_own_id [OF r2 fut] r2 fut(2) by blast
qed

text \<open>
  Futures settle once: whatever the router does next in a reachable state, no future disappears
  and a future that is completed, failed or cancelled stays as it is.
\<close>

theorem futures_settle_once:
  assumes "router_reachable urls r" "router_step r e r'" "i < length (wr_futures r)" "fut_of r i \<noteq> Waiting"
  shows "i < length (wr_futures r') \<and> fut_of r' i = fut_of r i"
  using step_settled [OF assms(2) reachable_inv [OF assms(1)] assms(3,4)] .

theorem futures_settle_once_witness:
  "\<exists>r. router_reachable [''ws://a''] r \<and> fut_of r 0 = Cancelled \<and> fut_of (WebSocketRouter_stop r) 0 = Cancelled"
proof -
  let ?r1 = "snd (WebSocketRouter_register 7 (WebSocketRouter_create [''ws://a'']))"
  let ?r2 = "set_fut 0 Cancelled ?r1"
  have r1: "router_reachable [''ws://a''] ?r1"
    by (rule reach_register [OF reach_init])
  have w: "0 < length (wr_futures ?r1)" "fut_of ?r1 0 = Waiting"
    by (simp_all add: WebSocketRouter_register_def WebSocketRouter_create_def fut_of_def Let_def)
  have r2: "router_reachable [''ws://a''] ?r2" by (rule reach_step [OF r1 step_cancel [OF w]])
  have c: "0 < length (wr_futures ?r2)" "fut_of ?r2 0 = Cancelled" "fut_of ?r2 0 \<noteq> Waiting"
    using w by (simp_all add: fut_of_set_fut)
  from futures_settle_once [OF r2 step_stop c(1,3)] c(2) r2 show ?thesis by metis
qed

text \<open>
  C8. Stopping the router leaves nobody waiting: in every run in which no id that is still pending
  is registered again, \<open>stop\<close> settles every future ever handed out and empties the table.
\<close>

theorem stop_settles_all:
  assumes "router_run urls r"
  shows "wr_pending (WebSocketRouter_stop r) = []
    \<and> (\<forall>i < length (wr_futures r). fut_of (WebSocketRouter_stop r) i \<noteq> Waiting)"
  using tracked_stop [OF reachable_inv [OF run_reachable [OF assms]] run_tracked [OF assms]]
  by (simp add: stop_simps)

theorem stop_settles_all_witness:
  "\<exists>r. router_run [''ws://a''] r \<and> fut_of r 1 = Waiting \<and> length (wr_futures r) = 2
     \<and> fut_of (WebSocketRouter_stop r) 1 \<noteq> Waiting"
proof -
  let ?r1 = "snd (WebSocketRouter_register 7 (WebSocketRouter_create [''ws://a'']))"
  let ?r2 = "snd (WebSocketRouter_register 8 ?r1)"
  have r1: "router_run [''ws://a''] ?r1"
    by (rule run_register [OF run_init]) (simp add: WebSocketRouter_create_def d_has_def)
  have r2: "router_run [''ws://a''] ?r2"
    by (rule run_register [OF r1])
      (simp add: WebSocketRouter_register_def WebSocketRouter_create_def d_has_def Let_def)
  have "length (wr_futures ?r2) = 2" "fut_of ?r2 1 = Waiting"
    by (simp_all add: WebSocketRouter_register_def WebSocketRouter_create_def fut_of_def Let_def)
  with stop_settles_all [OF r2] r2 show ?thesis by (metis one_less_numeral_iff semiring_norm(76))
qed

end
