(* ===== verification/Transport.thy ===== *)
theory Transport
  imports Registry Router HttpLog
begin

text \<open>
  \<open>requests_transport.py\<close> and \<open>RequestFactory.send_request\<close>: a request is sent over HTTP or over a
  websocket, its reply becomes a response object and a bad status an exception.  The HTTP session
  and the exchange over a socket are parameters: functions of the request and of the world.
  Random ids and the name of the running test are arguments.  The serialised text of a payload is
  represented by its JSON value.
\<close>

named_theorems transport_simps "rewrite rules for the transports"

section \<open>Payloads\<close>

text \<open>\<open>request.payload.serialize()\<close>, which may change the payload (see \<open>body_to_json\<close>).\<close>

definition payload_json :: "server_request \<Rightarrow> json option result \<times> server_request" where
  "payload_json q =
     (case sq_payload q of
        None \<Rightarrow> (Inr None, q)
      | Some b \<Rightarrow> (let (r, b') = body_to_json b
                  in (rbind r (\<lambda>j. Inr (Some j)), q\<lparr>sq_payload := Some b'\<rparr>)))"

section \<open>HTTP\<close>

record http_request =
  hq_method :: string
  hq_base_url :: string
  hq_name :: string
  hq_headers :: "(string, string) pydict"
  hq_data :: "json option"

record http_reply =
  hp_status :: int
  hp_headers :: "(string, string) pydict"
  hp_content_length :: "int option"
  hp_json :: "jdict result"

text \<open>Header names are compared without regard to case; \<open>resp.ok\<close> is a status below 400.\<close>

definition header_get :: "(string, string) pydict \<Rightarrow> string \<Rightarrow> string option" where
  "header_get hs k = map_of (map (\<lambda>kv. (py_lower (fst kv), snd kv)) hs) (py_lower k)"

definition hp_ok :: "http_reply \<Rightarrow> bool" where
  "hp_ok p = (hp_status p < 400)"

definition http_headers :: "server_request \<Rightarrow> string \<Rightarrow> string option \<Rightarrow> (string, string) pydict" where
  "http_headers q req_id test_name =
     [(''Accept'', ''application/json'')]
     @ (if sq_version q > 0
        then [(''CBLTest-API-Version'', int_str (sq_version q)), (''CBLTest-Client-ID'', sq_uuid q),
              (''CBLTest-Request-ID'', req_id)] else [])
     @ (case test_name of Some t \<Rightarrow> [(''CBLTest-Test-Name'', t)] | None \<Rightarrow> [])
     @ (if sq_payload q \<noteq> None then [(''Content-Type'', ''application/json'')] else [])"

text \<open>The version a response is read as: the server's, or the request's when it set none.\<close>

definition resolve_version :: "int \<Rightarrow> int \<Rightarrow> int" where
  "resolve_version resp_version req_version =
     (if resp_version \<noteq> req_version \<and> resp_version = 0 then req_version else resp_version)"

definition http_content :: "http_reply \<Rightarrow> jdict result" where
  "http_content p =
     (if hp_content_length p = Some 0 then Inr []
      else case header_get (hp_headers p) ''Content-Type'' of
             None \<Rightarrow> Inl KeyError
           | Some ct \<Rightarrow> if contains_sub ''application/json'' ct then hp_json p else Inr [])"

definition http_create_response ::
    "response_registry \<Rightarrow> request_class \<Rightarrow> http_reply \<Rightarrow> int \<Rightarrow> string \<Rightarrow> server_response result" where
  "http_create_response reg cls p version uuid =
     (case map_of reg (cls, version) of
        None \<Rightarrow> Inl ValueError
      | Some c \<Rightarrow> rbind (http_content p) (\<lambda>content.
                   response_create c (JInt (hp_status p)) (JStr uuid) content))"

text \<open>\<open>GetRootRequest._create_response\<close> for an HTTP reply and for a websocket payload.\<close>

definition ws_status :: "jdict \<Rightarrow> json result" where
  "ws_status payload =
     (case get_or_null payload ''ts_error'' of
        JNull \<Rightarrow> Inr (JInt 200)
      | JObj err \<Rightarrow> Inr (case map_of err ''code'' of None \<Rightarrow> JInt 500 | Some c \<Rightarrow> c)
      | _ \<Rightarrow> Inl AttributeError)"

definition GetRootRequest_create_response ::
    "json \<Rightarrow> http_reply option \<Rightarrow> jdict option \<Rightarrow> server_response result" where
  "GetRootRequest_create_response uuid http ws_payload =
     (case http of
        Some p \<Rightarrow> rbind (hp_json p) (\<lambda>body. GetRootResponse_create (JInt (hp_status p)) uuid body)
      | None \<Rightarrow> (case ws_payload of
          None \<Rightarrow> Inl ValueError
        | Some d \<Rightarrow> rbind (ws_status d) (\<lambda>status. GetRootResponse_create status uuid d)))"

text \<open>What \<open>send\<close> makes of the reply.\<close>

definition http_receive :: "response_registry \<Rightarrow> server_request \<Rightarrow> http_reply \<Rightarrow> server_response result" where
  "http_receive reg q p =
     (case header_get (hp_headers p) ''CBLTest-Server-ID'' of
        None \<Rightarrow> Inl CblTestError
      | Some uuid \<Rightarrow>
          rbind (case header_get (hp_headers p) ''CBLTest-API-Version'' of
                   None \<Rightarrow> Inr 0
                 | Some h \<Rightarrow> (case py_int h of None \<Rightarrow> Inl ValueError | Some v \<Rightarrow> Inr v)) (\<lambda>v.
          rbind (if sq_class q = GetRootRequest
                 then GetRootRequest_create_response (JStr uuid) (Some p) None
                 else http_create_response reg (sq_class q) p (resolve_version v (sq_version q)) uuid)
            (\<lambda>ret_val. if hp_ok p then Inr ret_val
                       else Inl (CblTestServerBadResponseError (Some (hp_status p))))))"

definition http_send ::
    "(http_request \<Rightarrow> ('w, http_reply) io) \<Rightarrow> response_registry \<Rightarrow> string option \<Rightarrow> string \<Rightarrow> string
      \<Rightarrow> server_request \<Rightarrow> 'w \<Rightarrow> server_response result \<times> server_request \<times> 'w" where
  "http_send session reg test_name req_id url q w =
     (let (data, q') = payload_json q
      in case data of
           Inl e \<Rightarrow> (Inl e, q', w)
         | Inr d \<Rightarrow>
             (case session \<lparr> hq_method = sq_method q, hq_base_url = url, hq_name = sq_http_name q,
                             hq_headers = http_headers q req_id test_name, hq_data = d \<rparr> w of
                (Inl e, w') \<Rightarrow> (Inl e, q', w')
              | (Inr p, w') \<Rightarrow> (http_receive reg q p, q', w')))"

section \<open>Websockets\<close>

definition ws_message :: "server_request \<Rightarrow> nat \<Rightarrow> string option \<Rightarrow> string \<Rightarrow> jdict \<Rightarrow> jdict" where
  "ws_message q message_no test_name req_id data0 =
     (let d1 = d_set (d_set data0 ''ts_id'' (JInt (int message_no))) ''ts_command'' (JStr (CHR ''/'' # sq_http_name q));
          d2 = (if sq_version q > 0
                then d_set (d_set (d_set d1 ''ts_clientID'' (JStr (sq_uuid q)))
                       ''ts_apiVersion'' (JInt (sq_version q))) ''ts_requestID'' (JStr req_id)
                else d1)
      in case test_name of Some t \<Rightarrow> d_set d2 ''ts_testName'' (JStr t) | None \<Rightarrow> d2)"

definition ws_create_response ::
    "response_registry \<Rightarrow> request_class \<Rightarrow> jdict \<Rightarrow> json \<Rightarrow> json \<Rightarrow> server_response result" where
  "ws_create_response reg cls payload version uuid =
     rbind (int_key version) (\<lambda>k.
       case (case k of None \<Rightarrow> None | Some v \<Rightarrow> map_of reg (cls, v)) of
         None \<Rightarrow> Inl ValueError
       | Some c \<Rightarrow> rbind (ws_status payload) (\<lambda>status. response_create c status uuid payload))"

definition status_int :: "json \<Rightarrow> int option" where
  "status_int s = (case s of JInt i \<Rightarrow> Some i | _ \<Rightarrow> None)"

definition ws_receive :: "response_registry \<Rightarrow> server_request \<Rightarrow> jdict \<Rightarrow> server_response result" where
  "ws_receive reg q resp =
     (let resp_version = (case map_of resp ''ts_apiVersion'' of None \<Rightarrow> JInt 0 | Some v \<Rightarrow> v);
          uuid = get_or_null resp ''ts_serverID''
      in if uuid = JNull then Inl CblTestError
         else let version = (if \<not> py_eq resp_version (JInt (sq_version q)) \<and> py_eq resp_version (JInt 0)
                             then JInt (sq_version q) else resp_version)
              in rbind (if sq_class q = GetRootRequest
                        then GetRootRequest_create_response uuid None (Some resp)
                        else ws_create_response reg (sq_class q) resp version uuid)
                   (\<lambda>ret_val.
                      if py_eq (sv_status_code ret_val) (JInt 200) then Inr ret_val
                      else Inl (CblTestServerBadResponseError (status_int (sv_status_code ret_val)))))"

text \<open>
  \<open>exchange conn data fut\<close> writes the message to the connection and awaits the future; the router is
  part of the world that changes meanwhile.
\<close>

definition ws_send ::
    "(nat \<Rightarrow> jdict \<Rightarrow> nat \<Rightarrow> (router \<times> 'w, jdict) io) \<Rightarrow> response_registry \<Rightarrow> string option \<Rightarrow> string
      \<Rightarrow> string \<Rightarrow> nat \<Rightarrow> server_request \<Rightarrow> router \<times> 'w
      \<Rightarrow> server_response result \<times> server_request \<times> router \<times> 'w" where
  "ws_send exchange reg test_name req_id url message_no q w =
     (let (data, q') = payload_json q
      in case data of
           Inl e \<Rightarrow> (Inl e, q', w)
         | Inr d \<Rightarrow>
             (let msg = ws_message q message_no test_name req_id
                          (case d of Some (JObj fs) \<Rightarrow> fs | _ \<Rightarrow> []);
                  (fut, rt) = WebSocketRouter_register (int message_no) (fst w)
              in case WebSocketRouter_get_websocket_for_write rt url of
                   Inl e \<Rightarrow> (Inl e, q', rt, snd w)
                 | Inr conn \<Rightarrow>
                     (case exchange conn msg fut (rt, snd w) of
                        (Inl e, w') \<Rightarrow> (Inl e, q', w')
                      | (Inr resp, w') \<Rightarrow> (ws_receive reg q resp, q', w'))))"

section \<open>Choosing the transport and sending\<close>

datatype transport_type = HTTP | WS

text \<open>\<open>RequestFactory.__init__\<close>: anything but \<open>http\<close> (in any case) is a websocket server.\<close>

definition server_info_of :: "string \<times> string option \<Rightarrow> string \<times> transport_type" where
  "server_info_of ts =
     (let transport = py_lower (case snd ts of None \<Rightarrow> ''http'' | Some t \<Rightarrow> t)
      in (fst ts, if transport = ''http'' then HTTP else WS))"

definition ws_urls_of :: "(string \<times> string option) list \<Rightarrow> string list" where
  "ws_urls_of servers = map fst (filter (\<lambda>i. snd i = WS) (map server_info_of servers))"

datatype transport = HttpTransport string | WebSocketTransport string

definition RequestTransportFactory_get_transport ::
    "transport_type \<Rightarrow> string \<Rightarrow> bool \<Rightarrow> bool \<Rightarrow> transport result" where
  "RequestTransportFactory_get_transport t url has_session has_router =
     (case t of
        HTTP \<Rightarrow> if has_session then Inr (HttpTransport url) else Inl ValueError
      | WS \<Rightarrow> if has_router then Inr (WebSocketTransport url) else Inl ValueError)"

datatype log_kind = Log_begin | Log_error | Log_end

text \<open>The next number of a log writer, the files written, the router and the rest of the world.\<close>

record 'w client_world =
  cw_next_num :: nat
  cw_log :: "(nat \<times> log_kind) list"
  cw_router :: router
  cw_net :: 'w

definition write_log :: "nat \<Rightarrow> log_kind \<Rightarrow> 'w client_world \<Rightarrow> 'w client_world" where
  "write_log n k w = w\<lparr>cw_log := cw_log w @ [(n, k)]\<rparr>"

definition transport_send ::
    "(http_request \<Rightarrow> ('w, http_reply) io) \<Rightarrow> (nat \<Rightarrow> jdict \<Rightarrow> nat \<Rightarrow> (router \<times> 'w, jdict) io)
      \<Rightarrow> response_registry \<Rightarrow> string option \<Rightarrow> string \<Rightarrow> transport \<Rightarrow> nat \<Rightarrow> server_request
      \<Rightarrow> 'w client_world \<Rightarrow> server_response result \<times> server_request \<times> 'w client_world" where
  "transport_send session exchange reg test_name req_id t num q w =
     (case t of
        HttpTransport url \<Rightarrow>
          (let (r, q', n) = http_send session reg test_name req_id url q (cw_net w)
           in (r, q', w\<lparr>cw_net := n\<rparr>))
      | WebSocketTransport url \<Rightarrow>
          (let (r, q', rt, n) = ws_send exchange reg test_name req_id url num q (cw_router w, cw_net w)
           in (r, q', w\<lparr>cw_router := rt, cw_net := n\<rparr>)))"

definition RequestFactory_send_request ::
    "(http_request \<Rightarrow> ('w, http_reply) io) \<Rightarrow> (nat \<Rightarrow> jdict \<Rightarrow> nat \<Rightarrow> (router \<times> 'w, jdict) io)
      \<Rightarrow> response_registry \<Rightarrow> string option \<Rightarrow> string \<Rightarrow> (string \<times> transport_type) list \<Rightarrow> int
      \<Rightarrow> server_request \<Rightarrow> 'w client_world
      \<Rightarrow> server_response result \<times> server_request \<times> 'w client_world" where
  "RequestFactory_send_request session exchange reg test_name req_id infos index q w0 =
     (let num = cw_next_num w0; w = w0\<lparr>cw_next_num := Suc num\<rparr>
      in case py_nth infos index of
           Inl e \<Rightarrow> (Inl e, q, w)
         | Inr (url, t) \<Rightarrow>
             (let (data, q1) = payload_json q
              in case data of
                   Inl e \<Rightarrow> (Inl e, q1, w)
                 | Inr d \<Rightarrow>
                     (let w = write_log num Log_begin w
                      in case RequestTransportFactory_get_transport t url True True of
                           Inl e \<Rightarrow> (Inl e, q1, write_log num Log_error w)
                         | Inr tr \<Rightarrow>
                             (case transport_send session exchange reg test_name req_id tr num q1 w of
                                (Inl e, q2, w') \<Rightarrow> (Inl e, q2, write_log num Log_error w')
                              | (Inr resp, q2, w') \<Rightarrow> (Inr resp, q2, write_log num Log_end w')))))"

section \<open>What a sender can rely on\<close>

lemma resolve_version_simps [transport_simps]:
  "resolve_version 0 v = v" "v' \<noteq> 0 \<Longrightarrow> resolve_version v' v = v'"
  by (simp_all add: resolve_version_def)

lemma GetRootResponse_create_Inr:
  "GetRootResponse_create s u b = Inr r \<Longrightarrow> sv_status_code r = s \<and> sv_uuid r = u \<and> sv_payload r = b"
  by (auto simp: GetRootResponse_create_def result_simps TestServerResponse_create_Inr)

text \<open>A response that is returned comes from a server that named itself, and has an accepted status.\<close>

lemma http_receive_Inr:
  assumes "http_receive reg q p = Inr r"
  shows "hp_ok p \<and> sv_status_code r = JInt (hp_status p)
    \<and> header_get (hp_headers p) ''CBLTest-Server-ID'' \<noteq> None"
  using assms
  by (auto simp: http_receive_def http_create_response_def GetRootRequest_create_response_def result_simps
      dest: response_create_Inr GetRootResponse_create_Inr split: option.splits if_splits)

lemma ws_receive_Inr:
  assumes "ws_receive reg q d = Inr r"
  shows "py_eq (sv_status_code r) (JInt 200) \<and> get_or_null d ''ts_serverID'' \<noteq> JNull"
  using assms by (auto simp: ws_receive_def Let_def result_simps split: if_splits)

text \<open>Error replies over HTTP.\<close>

definition error_reply :: "http_reply \<Rightarrow> jdict \<Rightarrow> bool" where
  "error_reply p body \<longleftrightarrow> \<not> hp_ok p \<and> hp_json p = Inr body
     \<and> set (map fst body) = {''domain'', ''code'', ''message''}
     \<and> hp_content_length p \<noteq> Some 0
     \<and> header_get (hp_headers p) ''Content-Type'' = Some ''application/json''
     \<and> header_get (hp_headers p) ''CBLTest-Server-ID'' \<noteq> None
     \<and> header_get (hp_headers p) ''CBLTest-API-Version'' = None"

lemma error_reply_content: "error_reply p body \<Longrightarrow> http_content p = Inr body"
  by (simp add: error_reply_def http_content_def string_simps)

lemma http_error_reported:
  assumes "error_reply p body" "sq_class q \<noteq> GetRootRequest"
    and "map_of reg (sq_class q, sq_version q) = Some c" "c \<noteq> PostGetAllDocumentsResponse"
  shows "http_receive reg q p = Inl (CblTestServerBadResponseError (Some (hp_status p)))"
proof -
  from assms(1) obtain uuid where u: "header_get (hp_headers p) ''CBLTest-Server-ID'' = Some uuid"
    by (auto simp: error_reply_def)
  from assms(1) have keys: "set (map fst body) = {''domain'', ''code'', ''message''}"
    by (simp add: error_reply_def)
  from error_body_kept [OF assms(4) keys] obtain r
    where "response_create c (JInt (hp_status p)) (JStr uuid) body = Inr r" by blast
  then show ?thesis
    using assms u error_reply_content [OF assms(1)]
    by (simp add: http_receive_def http_create_response_def transport_simps error_reply_def)
qed

lemma entry_errors:
  "PostGetAllDocumentsEntry_create v = Inl e \<Longrightarrow> e = ValueError \<or> e = AssertionError"
  by (auto simp: PostGetAllDocumentsEntry_create_def result_simps dest: reader_errors split: json.splits)

lemma all_documents_errors:
  "all_documents_fields body = Inl e \<Longrightarrow> e = TypeError \<or> e = ValueError \<or> e = AssertionError"
proof (induction body rule: all_documents_fields.induct)
  case (2 k v body)
  then show ?case
    by (auto simp: result_simps py_iter_def split: if_splits json.splits dest!: mapM_Inl_ex entry_errors)
qed simp

lemma http_all_documents_error_hidden:
  assumes rep: "error_reply p body" and code: "map_of body ''code'' = Some (JInt n)"
    and "sq_class q \<noteq> GetRootRequest"
    and "map_of reg (sq_class q, sq_version q) = Some PostGetAllDocumentsResponse"
  shows "\<exists>e \<in> {TypeError, ValueError, AssertionError}. http_receive reg q p = Inl e"
proof -
  from rep obtain uuid where u: "header_get (hp_headers p) ''CBLTest-Server-ID'' = Some uuid"
    by (auto simp: error_reply_def)
  from all_documents_error_body [OF code, of "JInt (hp_status p)" "JStr uuid"] obtain e
    where e: "response_create PostGetAllDocumentsResponse (JInt (hp_status p)) (JStr uuid) body = Inl e"
    by blast
  then have "all_documents_fields body = Inl e"
    by (auto simp: response_create_def PostGetAllDocumentsResponse_create_def result_simps
        TestServerResponse_create_def ErrorResponseBody_create_JObj)
  then have "e \<in> {TypeError, ValueError, AssertionError}" using all_documents_errors by blast
  moreover have "http_receive reg q p = Inl e"
    using assms u e error_reply_content [OF rep]
    by (simp add: http_receive_def http_create_response_def transport_simps error_reply_def)
  ultimately show ?thesis by blast
qed

text \<open>Over a websocket the error travels in \<open>ts_error\<close>, which no response class reads.\<close>

lemma all_documents_fields_ts:
  "\<forall>k \<in> fst ` set d. prefix ''ts_'' k \<Longrightarrow> all_documents_fields d = Inr []"
  by (induction d rule: all_documents_fields.induct) auto

lemma response_of_metadata:
  assumes "\<forall>k \<in> fst ` set d. prefix ''ts_'' k"
  shows "\<exists>r. response_create c status uuid d = Inr r \<and> sv_error r = None \<and> sv_status_code r = status"
proof -
  have none: "map_of d k = None" if "\<not> prefix ''ts_'' k" for k
    using assms that by (auto simp: map_of_eq_None_iff)
  have "\<exists>fs. response_fields_of c d = Inr fs"
    using none
    by (cases c) (auto simp: PostGetAllDocumentsResponse_create_def all_documents_fields_ts [OF assms]
        PostSnapshotDocumentsResponse_create_def PostVerifyDocumentsResponse_create_def
        PostStartReplicatorResponse_create_def PostGetReplicatorStatusResponse_create_def
        ReplicatorStatusBody_create_def PostRunQueryResponse_create_def PostGetDocumentResponse_create_def
        PostStartListenerResponse_create_def PostStartMultipeerReplicatorResponse_create_def
        PostGetMultipeerReplicatorStatusResponse_create_def d_has_def)
  then show ?thesis
    using none [of "''domain''"]
    by (auto simp: response_create_def TestServerResponse_create_Inr ErrorResponseBody_create_JObj)
qed

lemma ws_error_reported:
  assumes ts: "\<forall>k \<in> fst ` set d. prefix ''ts_'' k"
    and err: "map_of d ''ts_error'' = Some (JObj e)" "map_of e ''code'' = Some (JInt n)" "n \<noteq> 200"
    and srv: "map_of d ''ts_serverID'' = Some (JStr u)" "map_of d ''ts_apiVersion'' = Some (JInt (sq_version q))"
    and cls: "sq_class q \<noteq> GetRootRequest" "map_of reg (sq_class q, sq_version q) = Some c"
  shows "ws_receive reg q d = Inl (CblTestServerBadResponseError (Some n))"
proof -
  from response_of_metadata [OF ts, of c "JInt n" "JStr u"] obtain r
    where r: "response_create c (JInt n) (JStr u) d = Inr r" "sv_status_code r = JInt n" by blast
  have st: "ws_status d = Inr (JInt n)" using err by (simp add: ws_status_def json_simps)
  show ?thesis
    using r st err(3) srv cls
    by (simp add: ws_receive_def Let_def json_simps ws_create_response_def int_key_def status_int_def
        scalar_eq_def)
qed

section \<open>What is sent\<close>

text \<open>The payload is serialised for the log before it is serialised for the wire.\<close>

definition payload_plain :: "server_request \<Rightarrow> bool" where
  "payload_plain q = (case sq_payload q of
     None \<Rightarrow> True | Some b \<Rightarrow> list_all names_plain (body_update_entries b))"

lemma update_json_twice:
  assumes "v1_PostUpdateDatabase_to_json db us = (Inr j, us')"
    and "\<forall>es. us' = Some es \<longrightarrow> list_all names_plain es"
  shows "v1_PostUpdateDatabase_to_json db us' = (Inr j, us')"
proof (cases us)
  case None
  with assms show ?thesis by (simp add: v1_PostUpdateDatabase_to_json_def)
next
  case (Some es)
  obtain r es' where es: "v1_update_entries es = (r, es')" by (cases "v1_update_entries es")
  with assms(1) Some obtain js where js: "r = Inr js" "us' = Some es'"
      "j = JObj [(''database'', JOptStr db), (''updates'', JList js)]"
    by (auto simp: v1_PostUpdateDatabase_to_json_def result_simps)
  with es v1_update_entries_v2 [of es js es'] assms(2) v1_update_entries_plain [of es']
  show ?thesis by (simp add: v1_PostUpdateDatabase_to_json_def)
qed

lemma v1_verify_entries_plain:
  "list_all names_plain es \<Longrightarrow> list_all DatabaseUpdateEntry_is_valid es \<Longrightarrow>
     v1_verify_entries es = (Inr (v2_update_entries es), es)"
proof (induction es)
  case (Cons e es)
  then obtain raw where "DatabaseUpdateEntry_to_json e = Some raw"
    using update_json_valid [of e] by auto
  with Cons show ?case by (simp add: v1_hack_names_plain)
qed simp

lemma v1_hack_names_valid:
  assumes "DatabaseUpdateEntry_to_json e = Some raw" "v1_hack_names e raw = (Inr j, e')"
  shows "DatabaseUpdateEntry_is_valid e'"
  using v1_hack_names_v2 [OF assms] update_json_valid by blast

lemma v1_verify_entries_valid:
  "v1_verify_entries es = (Inr js, es') \<Longrightarrow> list_all DatabaseUpdateEntry_is_valid es'"
proof (induction es arbitrary: js es')
  case (Cons e es)
  obtain r es1 where rest: "v1_verify_entries es = (r, es1)" by (cases "v1_verify_entries es")
  from Cons.prems obtain raw where raw: "DatabaseUpdateEntry_to_json e = Some raw"
    by (cases "DatabaseUpdateEntry_to_json e") auto
  obtain q e' where h: "v1_hack_names e raw = (q, e')" by (cases "v1_hack_names e raw")
  with Cons.prems raw obtain j where j: "q = Inr j" by (cases q) auto
  from Cons.prems raw h j rest obtain js1 where "r = Inr js1" "es' = e' # es1"
    by (auto simp: result_simps)
  with Cons.IH [of js1 es1] rest v1_hack_names_valid [OF raw] h j show ?case by simp
qed simp

lemma verify_json_twice:
  assumes "v1_PostVerifyDocuments_to_json db s cs = (Inr j, cs')"
    and "\<forall>es. cs' = Some es \<longrightarrow> list_all names_plain es"
  shows "v1_PostVerifyDocuments_to_json db s cs' = (Inr j, cs')"
proof (cases cs)
  case None
  with assms show ?thesis by (simp add: v1_PostVerifyDocuments_to_json_def)
next
  case (Some es)
  obtain r es' where es: "v1_verify_entries es = (r, es')" by (cases "v1_verify_entries es")
  with assms(1) Some obtain js where js: "r = Inr js" "cs' = Some es'"
      "j = JObj [(''snapshot'', JStr s), (''database'', JStr db), (''changes'', JList js)]"
    by (auto simp: v1_PostVerifyDocuments_to_json_def result_simps)
  from es js v1_verify_entries_update [of es js es'] v1_update_entries_v2 [of es js es']
  have "js = v2_update_entries es'" by simp
  with es js v1_verify_entries_valid [of es js es'] assms(2) v1_verify_entries_plain [of es']
  show ?thesis by (simp add: v1_PostVerifyDocuments_to_json_def)
qed

lemma body_json_twice:
  assumes "body_to_json b = (Inr j, b')" "list_all names_plain (body_update_entries b')"
  shows "body_to_json b' = (Inr j, b')"
proof (cases b)
  case (V1_PostUpdateDatabaseRequestBody db us)
  obtain r us' where u: "v1_PostUpdateDatabase_to_json db us = (r, us')"
    by (cases "v1_PostUpdateDatabase_to_json db us")
  with V1_PostUpdateDatabaseRequestBody assms update_json_twice [of db us j us'] show ?thesis
    by (auto simp: body_update_entries_def split: option.splits)
next
  case (V1_PostVerifyDocumentsRequestBody db s cs)
  obtain r cs' where u: "v1_PostVerifyDocuments_to_json db s cs = (r, cs')"
    by (cases "v1_PostVerifyDocuments_to_json db s cs")
  with V1_PostVerifyDocumentsRequestBody assms verify_json_twice [of db s cs j cs'] show ?thesis
    by (auto simp: body_update_entries_def split: option.splits)
qed (use assms in auto)

lemma payload_json_twice:
  assumes "payload_json q = (Inr d, q1)" "payload_plain q1"
  shows "payload_json q1 = (Inr d, q1)"
proof (cases "sq_payload q")
  case None
  with assms show ?thesis by (auto simp: payload_json_def)
next
  case (Some b)
  obtain r b' where b: "body_to_json b = (r, b')" by (cases "body_to_json b")
  with Some assms obtain j where j: "r = Inr j" "d = Some j" "q1 = q\<lparr>sq_payload := Some b'\<rparr>"
    by (auto simp: payload_json_def result_simps)
  with b assms(2) body_json_twice [of b j b'] show ?thesis
    by (simp add: payload_json_def payload_plain_def)
qed

text \<open>The message of a request carries its number, and the server's answer to it comes back to it.\<close>

lemma ws_message_id:
  "map_of (ws_message q n t i d) ''ts_id'' = Some (JInt (int n))"
  by (auto simp: ws_message_def Let_def split: option.splits)

lemma registered_reply_delivered:
  assumes "router_inv rt" "tracked rt" "\<not> wr_stopping rt" "\<not> d_has (wr_pending rt) (int n)"
    and "WebSocketRouter_register (int n) rt = (f, rt1)"
    and "map_of reply ''ts_id'' = map_of (ws_message q n t i d) ''ts_id''"
  shows "\<exists>rt2. WebSocketRouter_handle_text ws (JObj reply) rt1 = (Continue, rt2) \<and> fut_of rt2 f = Done reply"
proof -
  have inv: "router_inv rt1" and tr: "tracked rt1"
    using inv_register [OF assms(1), of "int n"] tracked_register [OF assms(2,4)] assms(5) by simp_all
  have f: "f < length (wr_futures rt1)" "fut_of rt1 f = Waiting" "fu_ts_id (wr_futures rt1 ! f) = int n"
      "\<not> wr_stopping rt1"
    using assms(3,5) by (auto simp: WebSocketRouter_register_def Let_def fut_of_def)
  have "int_key (get_or_null reply ''ts_id'') = Inr (Some (fu_ts_id (wr_futures rt1 ! f)))"
    using assms(6) f(3) by (simp add: ws_message_id json_simps int_key_def)
  from text_delivers [OF inv tr f(4) f(1,2) this] show ?thesis by blast
qed

text \<open>The log of a request: a begin, then one end or one error, and the end exactly on success.\<close>

lemma transport_send_log:
  "transport_send s x reg t i tr n q w = (r, q', w') \<Longrightarrow> cw_log w' = cw_log w \<and> cw_next_num w' = cw_next_num w"
  by (auto simp: transport_send_def split: transport.splits prod.splits)

lemma send_request_log:
  assumes "RequestFactory_send_request s x reg t i infos ix q w = (r, q', w')"
  shows "cw_next_num w' = Suc (cw_next_num w)
    \<and> (case r of
         Inr resp \<Rightarrow> cw_log w' = cw_log w @ [(cw_next_num w, Log_begin), (cw_next_num w, Log_end)]
       | Inl e \<Rightarrow> cw_log w' = cw_log w
           \<or> cw_log w' = cw_log w @ [(cw_next_num w, Log_begin), (cw_next_num w, Log_error)])"
  using assms
  by (auto simp: RequestFactory_send_request_def Let_def write_log_def dest!: transport_send_log
      split: sum.splits prod.splits)

lemma created_request:
  assumes v: "v = 1 \<or> v = 2" and t: "t \<noteq> ROOT"
    and q: "RequestFactory_create_request t kw (ready_factory v uuid) = Inr q"
  obtains c where "sq_class q \<noteq> GetRootRequest" "sq_version q = v"
    "map_of (reg_responses (loaded_registries v)) (sq_class q, sq_version q) = Some c"
    "c = PostGetAllDocumentsResponse \<longleftrightarrow> t = ALL_DOC_IDS"
proof -
  from create_request_ready [OF v t, of kw uuid] obtain c d r
    where mk: "map_of (reg_requests (loaded_registries v)) (t, v) = Some c \<and> decl_of c = Some d
      \<and> map_of (reg_responses (loaded_registries v)) (c, v) = Some r \<and> response_name r = rd_http_name d
      \<and> RequestFactory_create_request t kw (ready_factory v uuid) =
          rbind (construct_body (rd_payload_type d) kw) (\<lambda>b.
            Inr \<lparr> sq_class = c, sq_version = v, sq_uuid = uuid, sq_payload = Some b,
                  sq_http_name = rd_http_name d, sq_method = ''post'' \<rparr>)"
    by (elim exE) (rule that)
  then have m: "map_of (reg_requests (loaded_registries v)) (t, v) = Some c"
      "map_of (reg_responses (loaded_registries v)) (c, v) = Some r"
    by simp_all
  from q mk have q': "sq_class q = c" "sq_version q = v" by (auto simp: result_simps)
  have "c \<noteq> GetRootRequest" "r = PostGetAllDocumentsResponse \<longleftrightarrow> t = ALL_DOC_IDS"
    using m served_12 [OF v t] by (auto simp: served_def split: option.splits)
  then show ?thesis using that [of r] m q' by simp
qed

section \<open>Properties\<close>



text \<open>
  The HTTP log shows what is sent: after the body of a request was serialised for the log, with
  the blob names in place, the transport puts the same JSON on the wire, although serialising may
  change the request.
\<close>

theorem wire_body_is_logged_body:
  assumes "payload_json q = (Inr d, q1)" "payload_plain q1"
  shows "http_send session reg test_name req_id url q1 w =
    (case session \<lparr> hq_method = sq_method q, hq_base_url = url, hq_name = sq_http_name q,
                    hq_headers = http_headers q req_id test_name, hq_data = d \<rparr> w of
       (Inl e, w') \<Rightarrow> (Inl e, q1, w')
     | (Inr p, w') \<Rightarrow> (http_receive reg q p, q1, w'))"
proof -
  obtain b where "q1 = q\<lparr>sq_payload := b\<rparr> \<and> (b = None \<longleftrightarrow> sq_payload q = None)"
    using assms(1) by (auto simp: payload_json_def split: option.splits prod.splits)
  then have same: "sq_class q1 = sq_class q" "sq_version q1 = sq_version q" "sq_method q1 = sq_method q"
    "sq_http_name q1 = sq_http_name q" "http_headers q1 req_id test_name = http_headers q req_id test_name"
    by (auto simp: http_headers_def)
  have "http_receive reg q1 = http_receive reg q"
    unfolding http_receive_def fun_eq_iff same by simp
  with same show ?thesis
    by (simp add: http_send_def payload_json_twice [OF assms] split: prod.split sum.split)
qed

theorem wire_body_is_logged_body_witness:
  "\<exists>q d q1. payload_json q = (Inr d, q1) \<and> q1 \<noteq> q
     \<and> http_send (\<lambda>rq w. (Inl ClientError, w @ [hq_data rq])) [] None ''r'' ''http://h'' q1 [] = (Inl ClientError, q1, [d])"
proof -
  let ?e = "\<lambda>b. \<lparr> ue_type = UPDATE, ue_collection = ''c'', ue_document_id = ''d'', ue_updated = None,
    ue_removed = None, ue_blobs = Some [(''image'', b)] \<rparr>"
  let ?q = "\<lambda>b. \<lparr> sq_class = V1_PostUpdateDatabaseRequest, sq_version = 1, sq_uuid = ''u'',
    sq_payload = Some (V1_PostUpdateDatabaseRequestBody (Some ''db'') (Some [?e b])),
    sq_http_name = ''updateDatabase'', sq_method = ''post'' \<rparr>"
  let ?d = "Some (JObj [(''database'', JStr ''db''),
         (''updates'', JList [JObj [(''type'', JStr ''UPDATE''), (''collection'', JStr ''c''),
            (''documentID'', JStr ''d''), (''updatedBlobs'', JObj [(''image'', JStr ''s1.jpg'')])]])])"
  have p: "payload_json (?q ''https://h/blobs/s1.jpg'') = (Inr ?d, ?q ''s1.jpg'')" by code_simp
  have n: "payload_plain (?q ''s1.jpg'')" by code_simp
  show ?thesis
    using wire_body_is_logged_body [OF p n, of "\<lambda>rq w. (Inl ClientError, w @ [hq_data rq])" "[]" None "''r''" "''http://h''" "[]"] p
    by (intro exI [of _ "?q ''https://h/blobs/s1.jpg''"] exI [of _ ?d] exI [of _ "?q ''s1.jpg''"]) simp
qed





text \<open>
  Every request takes a fresh log number and leaves a complete trace: a begin and an end when
  \<open>send_request\<close> returns a response; when it raises, either nothing (the request never got as far
  as the log) or a begin and an error.  Nothing written before is changed.
\<close>

theorem send_request_trace:
  assumes "RequestFactory_send_request session exchange reg test_name req_id infos index q w = (r, q', w')"
  shows "cw_next_num w' = Suc (cw_next_num w)
    \<and> cw_log w' \<in> (\<lambda>l. cw_log w @ map (Pair (cw_next_num w)) l) `
        (case r of Inr resp \<Rightarrow> {[Log_begin, Log_end]} | Inl e \<Rightarrow> {[], [Log_begin, Log_error]})"
  using send_request_log [OF assms] by (auto split: sum.splits)

theorem send_request_trace_witness:
  "\<exists>w'. cw_log (w' :: unit client_world) = [(4, Log_end), (5, Log_begin), (5, Log_error)] \<and> cw_next_num w' = 6"
proof -
  let ?q = "\<lparr> sq_class = GetRootRequest, sq_version = 0, sq_uuid = ''u'', sq_payload = None,
    sq_http_name = [], sq_method = ''get'' \<rparr>"
  let ?w = "\<lparr> cw_next_num = 5, cw_log = [(4, Log_end)], cw_router = WebSocketRouter_create [], cw_net = () \<rparr>"
  let ?run = "RequestFactory_send_request (\<lambda>rq w. (Inl ClientError, w)) (\<lambda>c m f w. (Inl ClientError, w)) [] None ''r''
    [(''http://h'', HTTP)] 0 ?q ?w"
  obtain r q' w' where run: "?run = (r, q', w')" by (cases ?run) auto
  have "r = Inl ClientError" "cw_log w' \<noteq> [(4, Log_end)]"
    using run by (auto simp: RequestFactory_send_request_def py_nth_def payload_json_def write_log_def
        RequestTransportFactory_get_transport_def transport_send_def http_send_def)
  with send_request_trace [OF run] show ?thesis by auto
qed

end
