(* ===== verification/Replicator.thy ===== *)
theory Replicator
  imports Attempts Transport
begin

text \<open>
  \<open>api/replicator.py\<close>, \<open>api/multipeer_replicator.py\<close> and \<open>api/listener.py\<close>: the objects a test
  drives.  \<open>send\<close> is \<open>RequestFactory.send_request\<close> for the object's server, \<open>now\<close> and \<open>sleep\<close>
  read and spend time; all three act on the rest of the world.  The state of an object is a record
  and an operation is a computation over the object and the world.
\<close>

type_synonym 'w sender = "int \<Rightarrow> server_request \<Rightarrow> 'w \<Rightarrow> server_response result \<times> server_request \<times> 'w"

definition send_io :: "'w sender \<Rightarrow> int \<Rightarrow> server_request \<Rightarrow> ('o \<times> 'w, server_response) io" where
  "send_io send ix q = (\<lambda>(ob, w). let (r, q', w') = send ix q w in (r, ob, w'))"

text \<open>The object part of the state.\<close>

definition get_obj :: "('o \<times> 'w, 'o) io" where
  "get_obj = (\<lambda>(ob, w). (Inr ob, ob, w))"

definition put_obj :: "('o \<Rightarrow> 'o) \<Rightarrow> ('o \<times> 'w, unit) io" where
  "put_obj f = (\<lambda>(ob, w). (Inr (), f ob, w))"

section \<open>The replicator\<close>

record replicator =
  rp_database :: string
  rp_index :: int
  rp_endpoint :: string
  rp_id :: json
  rp_updates :: "doc_entry list"
  rp_type :: replicator_type
  rp_continuous :: bool
  rp_authenticator :: "repl_authenticator option"
  rp_reset :: bool
  rp_collections :: "repl_collection list"
  rp_listener :: bool
  rp_auto_purge :: bool
  rp_pinned_cert :: "string option"
  rp_headers :: "(string, string) pydict option"

definition Replicator_create ::
    "string \<Rightarrow> int \<Rightarrow> string \<Rightarrow> replicator_type \<Rightarrow> bool \<Rightarrow> repl_authenticator option \<Rightarrow> bool
      \<Rightarrow> repl_collection list option \<Rightarrow> bool \<Rightarrow> bool \<Rightarrow> string option \<Rightarrow> (string, string) pydict option
      \<Rightarrow> replicator" where
  "Replicator_create db ix endpoint type cont auth reset collections listener purge cert headers =
     \<lparr> rp_database = db, rp_index = ix, rp_endpoint = endpoint, rp_id = JStr [], rp_updates = [],
       rp_type = type, rp_continuous = cont, rp_authenticator = auth, rp_reset = reset,
       rp_collections = (case collections of Some cs \<Rightarrow> cs | None \<Rightarrow> []), rp_listener = listener,
       rp_auto_purge = purge, rp_pinned_cert = cert, rp_headers = headers \<rparr>"

definition Replicator_is_started :: "replicator \<Rightarrow> bool" where
  "Replicator_is_started r = (rp_id r \<noteq> JStr [])"

definition Replicator_add_default_collection :: "replicator \<Rightarrow> replicator" where
  "Replicator_add_default_collection r =
     (case ReplicatorCollectionEntry_create None None None None None None of
        Inr c \<Rightarrow> r\<lparr>rp_collections := rp_collections r @ [c]\<rparr> | Inl e \<Rightarrow> r)"

definition Replicator_clear_document_updates :: "replicator \<Rightarrow> replicator" where
  "Replicator_clear_document_updates r = r\<lparr>rp_updates := []\<rparr>"

definition start_kwargs :: "replicator \<Rightarrow> body_kwargs" where
  "start_kwargs r = KW_start_replicator
     \<lparr> sr_database = rp_database r, sr_endpoint = rp_endpoint r, sr_type = rp_type r,
       sr_continuous = rp_continuous r, sr_authenticator = rp_authenticator r, sr_reset = rp_reset r,
       sr_collections = rp_collections r, sr_enable_document_listener = rp_listener r,
       sr_enable_auto_purge = rp_auto_purge r, sr_pinned_server_cert = rp_pinned_cert r,
       sr_headers = rp_headers r \<rparr>"

text \<open>A response that carries an error leaves the replicator as it was, and is not raised.\<close>

definition Replicator_start :: "factory \<Rightarrow> 'w sender \<Rightarrow> (replicator \<times> 'w, unit) io" where
  "Replicator_start f send =
     io_bind get_obj (\<lambda>r.
     io_bind (io_lift (RequestFactory_create_request START_REPLICATOR (start_kwargs r) f)) (\<lambda>req.
     io_bind (send_io send (rp_index r) req) (\<lambda>resp.
       if sv_error resp \<noteq> None then io_return ()
       else case sv_fields resp of
         StartReplicatorFields i \<Rightarrow> put_obj (\<lambda>r. r\<lparr>rp_id := i\<rparr>)
       | _ \<Rightarrow> io_raise AttributeError)))"

definition Replicator_get_status :: "factory \<Rightarrow> 'w sender \<Rightarrow> (replicator \<times> 'w, repl_status) io" where
  "Replicator_get_status f send =
     io_bind get_obj (\<lambda>r.
       if \<not> Replicator_is_started r then io_raise CblTestError
       else io_bind (io_lift (RequestFactory_create_request REPLICATOR_STATUS (KW_id (rp_id r)) f)) (\<lambda>req.
            io_bind (send_io send (rp_index r) req) (\<lambda>resp.
              case sv_fields resp of
                ReplicatorStatusFields (Some s) \<Rightarrow>
                  io_bind (put_obj (\<lambda>r. r\<lparr>rp_updates := rp_updates r @ sb_documents s\<rparr>)) (\<lambda>_.
                    io_return \<lparr> rs_progress = sb_progress s, rs_activity = sb_activity s,
                                rs_error = sb_replicator_error s \<rparr>)
              | _ \<Rightarrow> io_raise AttributeError)))"

section \<open>Waiting for an activity level\<close>

text \<open>
  The loop polls at least once, then again while the time since \<open>start\<close> is within the limit.
  Seconds are rationals; \<open>fuel\<close> counts the polls.
\<close>

definition wait_for_step ::
    "(replicator \<times> 'w, repl_status) io \<Rightarrow> ('w \<Rightarrow> rat) \<Rightarrow> (rat \<Rightarrow> 'w \<Rightarrow> 'w) \<Rightarrow> activity_level \<Rightarrow> rat \<Rightarrow> rat
      \<Rightarrow> rat \<Rightarrow> replicator \<times> 'w \<Rightarrow> repl_status result option option \<times> (replicator \<times> 'w)" where
  "wait_for_step get_status now sleep activity interval timeout start w =
     (if now (snd w) - start > timeout then (Some (Some (Inl CblTimeoutError)), w)
      else case get_status w of
             (Inl e, w') \<Rightarrow> (Some (Some (Inl e)), w')
           | (Inr next_status, w') \<Rightarrow>
               if rs_activity next_status = activity then (Some (Some (Inr next_status)), w')
               else (None, fst w', sleep interval (snd w')))"

primrec wait_for_loop ::
    "(replicator \<times> 'w, repl_status) io \<Rightarrow> ('w \<Rightarrow> rat) \<Rightarrow> (rat \<Rightarrow> 'w \<Rightarrow> 'w) \<Rightarrow> activity_level \<Rightarrow> rat \<Rightarrow> rat
      \<Rightarrow> rat \<Rightarrow> nat \<Rightarrow> (replicator \<times> 'w, repl_status) fio" where
  "wait_for_loop gs now sleep act interval timeout start 0 w = (None, w)"
| "wait_for_loop gs now sleep act interval timeout start (Suc fuel) w =
     (case wait_for_step gs now sleep act interval timeout start w of
        (Some r, w') \<Rightarrow> (r, w')
      | (None, w') \<Rightarrow> wait_for_loop gs now sleep act interval timeout start fuel w')"

definition Replicator_wait_for ::
    "factory \<Rightarrow> 'w sender \<Rightarrow> ('w \<Rightarrow> rat) \<Rightarrow> (rat \<Rightarrow> 'w \<Rightarrow> 'w) \<Rightarrow> nat \<Rightarrow> activity_level \<Rightarrow> rat \<Rightarrow> rat
      \<Rightarrow> (replicator \<times> 'w, repl_status) fio" where
  "Replicator_wait_for f send now sleep fuel activity interval timeout w =
     (if \<not> interval > 0 then (Some (Inl AssertionError), w)
      else if \<not> timeout \<ge> 1 then (Some (Inl AssertionError), w)
      else wait_for_loop (Replicator_get_status f send) now sleep activity interval timeout
             (now (snd w)) fuel w)"

interpretation wf: attempt_loop "wait_for_loop gs now sleep act interval timeout start"
    "wait_for_step gs now sleep act interval timeout start" "\<lambda>w. (None, w)"
  by unfold_locales simp_all

section \<open>Waiting for document events\<close>

text \<open>
  A set of events is the list of its elements in the order in which a lookup probes them.  No two
  of them are equal, as in any Python set.
\<close>

definition entry_of_update :: "doc_entry \<Rightarrow> wait_entry" where
  "entry_of_update event =
     \<lparr> wf_collection = de_collection event, wf_id = de_document_id event,
       wf_direction = de_direction event, wf_flags = Some (de_flags event),
       wf_err_domain = (case de_error event of Some e \<Rightarrow> eb_domain e | None \<Rightarrow> JNull),
       wf_err_code = (case de_error event of Some e \<Rightarrow> eb_code e | None \<Rightarrow> JNull) \<rparr>"

definition plain_entry_of_update :: "doc_entry \<Rightarrow> wait_entry" where
  "plain_entry_of_update event = (entry_of_update event)\<lparr>wf_err_domain := JNull, wf_err_code := JNull\<rparr>"

definition event_in :: "wait_entry \<Rightarrow> wait_entry list \<Rightarrow> bool" where
  "event_in entry events = list_ex (\<lambda>e. WaitForDocumentEventEntry_eq e entry) events"

fun event_remove :: "wait_entry \<Rightarrow> wait_entry list \<Rightarrow> wait_entry list" where
  "event_remove entry [] = []"
| "event_remove entry (e # es) =
     (if WaitForDocumentEventEntry_eq e entry then es else e # event_remove entry es)"

fun remove_seen :: "doc_entry list \<Rightarrow> wait_entry list \<Rightarrow> wait_entry list" where
  "remove_seen [] events = events"
| "remove_seen (u # us) events =
     (let entry = entry_of_update u
      in remove_seen us (if event_in entry events then event_remove entry events else events))"

fun find_seen :: "doc_entry list \<Rightarrow> wait_entry list \<Rightarrow> wait_entry option" where
  "find_seen [] events = None"
| "find_seen (u # us) events =
     (let entry = plain_entry_of_update u
      in if event_in entry events then Some entry else find_seen us events)"

text \<open>The state of the loops: the events still to come, the updates already looked at, and the rest.\<close>

type_synonym 'w wait_state = "wait_entry list \<times> nat \<times> replicator \<times> 'w"

text \<open>One turn of \<open>wait_for_doc_events\<close>.\<close>

definition doc_events_step ::
    "(replicator \<times> 'w, repl_status) io \<Rightarrow> (rat \<Rightarrow> 'w \<Rightarrow> 'w) \<Rightarrow> rat \<Rightarrow> 'w wait_state
      \<Rightarrow> bool result option option \<times> 'w wait_state" where
  "doc_events_step get_status sleep interval =
     (\<lambda>(events, processed, w).
        case get_status w of
          (Inl e, w') \<Rightarrow> (Some (Some (Inl e)), events, processed, w')
        | (Inr status, w') \<Rightarrow>
            if rs_error status \<noteq> None then (Some (Some (Inl AssertionError)), events, processed, w')
            else let updates = rp_updates (fst w');
                     events' = remove_seen (drop processed updates) events;
                     processed' = max processed (length updates)
                 in if events' = [] then (Some (Some (Inr True)), events', processed', w')
                    else if rs_activity status = STOPPED
                    then (Some (Some (Inr False)), events', processed', w')
                    else (None, events', processed', fst w', sleep interval (snd w')))"

primrec doc_events_loop ::
    "(replicator \<times> 'w, repl_status) io \<Rightarrow> (rat \<Rightarrow> 'w \<Rightarrow> 'w) \<Rightarrow> rat \<Rightarrow> nat \<Rightarrow> ('w wait_state, bool) fio" where
  "doc_events_loop gs sleep interval 0 s = (None, s)"
| "doc_events_loop gs sleep interval (Suc fuel) s =
     (case doc_events_step gs sleep interval s of
        (Some r, s') \<Rightarrow> (r, s')
      | (None, s') \<Rightarrow> doc_events_loop gs sleep interval fuel s')"

definition Replicator_wait_for_doc_events ::
    "factory \<Rightarrow> 'w sender \<Rightarrow> (rat \<Rightarrow> 'w \<Rightarrow> 'w) \<Rightarrow> nat \<Rightarrow> wait_entry list \<Rightarrow> rat
      \<Rightarrow> (replicator \<times> 'w, bool) fio" where
  "Replicator_wait_for_doc_events f send sleep fuel events interval w =
     (if \<not> interval > 0 \<or> rp_continuous (fst w) \<or> \<not> rp_listener (fst w)
      then (Some (Inl AssertionError), w)
      else let (r, ev, n, w') = doc_events_loop (Replicator_get_status f send) sleep interval fuel (events, 0, w)
           in (r, w'))"

interpretation de: attempt_loop "doc_events_loop gs sleep interval" "doc_events_step gs sleep interval"
    "\<lambda>s. (None, s)"
  by unfold_locales simp_all

text \<open>One iteration of \<open>wait_for_all_doc_events\<close> and of \<open>wait_for_any_doc_event\<close>.\<close>

definition all_events_step ::
    "(replicator \<times> 'w, repl_status) fio \<Rightarrow> (rat \<Rightarrow> 'w \<Rightarrow> 'w) \<Rightarrow> 'w wait_state
      \<Rightarrow> repl_status result option option \<times> 'w wait_state" where
  "all_events_step wait_idle sleep =
     (\<lambda>(events, processed, w).
        case wait_idle w of
          (None, w') \<Rightarrow> (Some None, events, processed, w')
        | (Some (Inl e), w') \<Rightarrow> (Some (Some (Inl e)), events, processed, w')
        | (Some (Inr status), w') \<Rightarrow>
            if rs_error status \<noteq> None then (Some (Some (Inl AssertionError)), events, processed, w')
            else let updates = rp_updates (fst w');
                     events' = remove_seen (drop processed updates) events;
                     processed' = max processed (length updates)
                 in if events' = [] then (Some (Some (Inr status)), events', processed', w')
                    else (None, events', processed', fst w', sleep (1/2) (snd w')))"

primrec all_events_loop ::
    "(replicator \<times> 'w, repl_status) fio \<Rightarrow> (rat \<Rightarrow> 'w \<Rightarrow> 'w) \<Rightarrow> nat \<Rightarrow> ('w wait_state, repl_status) fio" where
  "all_events_loop wait_idle sleep 0 s = (Some (Inl CblTimeoutError), s)"
| "all_events_loop wait_idle sleep (Suc left) s =
     (case all_events_step wait_idle sleep s of
        (Some r, s') \<Rightarrow> (r, s')
      | (None, s') \<Rightarrow> all_events_loop wait_idle sleep left s')"

definition Replicator_wait_for_all_doc_events ::
    "factory \<Rightarrow> 'w sender \<Rightarrow> ('w \<Rightarrow> rat) \<Rightarrow> (rat \<Rightarrow> 'w \<Rightarrow> 'w) \<Rightarrow> nat \<Rightarrow> wait_entry list \<Rightarrow> int \<Rightarrow> rat \<Rightarrow> rat
      \<Rightarrow> (replicator \<times> 'w, repl_status) fio" where
  "Replicator_wait_for_all_doc_events f send now sleep fuel events max_retries ping idle_timeout w =
     (if \<not> rp_continuous (fst w) \<or> \<not> rp_listener (fst w) then (Some (Inl AssertionError), w)
      else let (r, ev, n, w') =
             all_events_loop (Replicator_wait_for f send now sleep fuel IDLE ping idle_timeout) sleep
               (nat max_retries) (events, 0, w)
           in (r, w'))"

interpretation ae: attempt_loop "all_events_loop wait_idle sleep" "all_events_step wait_idle sleep"
    "\<lambda>s. (Some (Inl CblTimeoutError), s)"
  by unfold_locales simp_all

definition any_event_step ::
    "(replicator \<times> 'w, repl_status) fio \<Rightarrow> (rat \<Rightarrow> 'w \<Rightarrow> 'w) \<Rightarrow> rat \<Rightarrow> 'w wait_state
      \<Rightarrow> wait_entry option result option option \<times> 'w wait_state" where
  "any_event_step wait_idle sleep ping =
     (\<lambda>(events, processed, w).
        case wait_idle w of
          (None, w') \<Rightarrow> (Some None, events, processed, w')
        | (Some (Inl e), w') \<Rightarrow> (Some (Some (Inl e)), events, processed, w')
        | (Some (Inr status), w') \<Rightarrow>
            if rs_error status \<noteq> None then (Some (Some (Inl AssertionError)), events, processed, w')
            else let updates = rp_updates (fst w')
                 in case find_seen (drop processed updates) events of
                      Some entry \<Rightarrow> (Some (Some (Inr (Some entry))), events, processed, w')
                    | None \<Rightarrow> (None, events, max processed (length updates), fst w', sleep ping (snd w')))"

primrec any_event_loop ::
    "(replicator \<times> 'w, repl_status) fio \<Rightarrow> (rat \<Rightarrow> 'w \<Rightarrow> 'w) \<Rightarrow> rat \<Rightarrow> nat
      \<Rightarrow> ('w wait_state, wait_entry option) fio" where
  "any_event_loop wait_idle sleep ping 0 s = (Some (Inr None), s)"
| "any_event_loop wait_idle sleep ping (Suc left) s =
     (case any_event_step wait_idle sleep ping s of
        (Some r, s') \<Rightarrow> (r, s')
      | (None, s') \<Rightarrow> any_event_loop wait_idle sleep ping left s')"

definition Replicator_wait_for_any_doc_event ::
    "factory \<Rightarrow> 'w sender \<Rightarrow> ('w \<Rightarrow> rat) \<Rightarrow> (rat \<Rightarrow> 'w \<Rightarrow> 'w) \<Rightarrow> nat \<Rightarrow> wait_entry list \<Rightarrow> int \<Rightarrow> rat \<Rightarrow> rat
      \<Rightarrow> (replicator \<times> 'w, wait_entry option) fio" where
  "Replicator_wait_for_any_doc_event f send now sleep fuel events max_retries ping idle_timeout w =
     (if \<not> rp_continuous (fst w) \<or> \<not> rp_listener (fst w) then (Some (Inl AssertionError), w)
      else let (r, ev, n, w') =
             any_event_loop (Replicator_wait_for f send now sleep fuel IDLE ping idle_timeout) sleep ping
               (nat max_retries) (events, 0, w)
           in (r, w'))"

interpretation ne: attempt_loop "any_event_loop wait_idle sleep ping" "any_event_step wait_idle sleep ping"
    "\<lambda>s. (Some (Inr None), s)"
  by unfold_locales simp_all

section \<open>Which events a list of updates accounts for\<close>

lemma py_eq_trans: "py_eq l m \<Longrightarrow> py_eq m r \<Longrightarrow> py_eq l r"
proof (induction l arbitrary: m r)
  case (JList ll)
  then obtain ml rl where m: "m = JList ml" and r: "r = JList rl" by (auto split: json.splits)
  with JList.prems have "list_all2 py_eq ll ml" "list_all2 py_eq ml rl"
    by (auto simp: items_eq_iff)
  then have "list_all2 py_eq ll rl" using JList.IH by (auto simp: list_all2_conv_all_nth)
  then show ?case using r by (simp add: items_eq_iff)
next
  case (JObj ld)
  then obtain md rd where m: "m = JObj md" and r: "r = JObj rd" by (auto split: json.splits)
  have "\<exists>w. map_of rd (fst kv) = Some w \<and> py_eq (snd kv) w" if kv: "kv \<in> set ld" for kv
  proof -
    from kv JObj.prems(1) m obtain v where v: "map_of md (fst kv) = Some v" "py_eq (snd kv) v"
      by (auto simp: fields_eq_iff)
    from map_of_SomeD [OF v(1)] JObj.prems(2) m r obtain w
      where w: "map_of rd (fst kv) = Some w" "py_eq v w"
      by (fastforce simp: fields_eq_iff)
    have "py_eq (snd kv) w" by (rule JObj.IH [OF kv _ v(2) w(2)]) (cases kv, simp)
    with w(1) show ?thesis by blast
  qed
  then show ?case using JObj.prems m r by (auto simp: fields_eq_iff)
qed (auto simp: scalar_eq_scalar py_eq_scalar dest: scalar_eq_trans scalar_eq_scalar)

definition matched :: "doc_entry list \<Rightarrow> wait_entry \<Rightarrow> bool" where
  "matched us e = list_ex (\<lambda>u. WaitForDocumentEventEntry_eq e (entry_of_update u)) us"

definition update_wf :: "doc_entry \<Rightarrow> bool" where
  "update_wf u = wait_entry_wf (entry_of_update u)"

text \<open>A set of events: well-formed and pairwise unequal.\<close>

fun event_set :: "wait_entry list \<Rightarrow> bool" where
  "event_set [] = True"
| "event_set (e # es) =
     (wait_entry_wf e \<and> list_all (\<lambda>x. \<not> WaitForDocumentEventEntry_eq e x) es \<and> event_set es)"

lemma matched_append: "matched (us @ vs) e = (matched us e \<or> matched vs e)"
  by (simp add: matched_def)

text \<open>
  Equality with wildcards is not transitive, but an update has a direction and flags of its own,
  so two events that it both matches are equal.
\<close>

lemma update_concrete:
  "wf_direction (entry_of_update u) \<noteq> PUSH_AND_PULL" "wf_flags (entry_of_update u) \<noteq> None"
  by (simp_all add: entry_of_update_def de_direction_def)

lemma match_unique:
  assumes "WaitForDocumentEventEntry_eq a (entry_of_update u)"
    and "WaitForDocumentEventEntry_eq b (entry_of_update u)"
    and "wait_entry_wf b" "update_wf u"
  shows "WaitForDocumentEventEntry_eq a b"
proof -
  from assms(2-4) have d: "py_eq (wf_err_domain (entry_of_update u)) (wf_err_domain b)"
      "py_eq (wf_err_code (entry_of_update u)) (wf_err_code b)"
    by (auto simp: WaitForDocumentEventEntry_eq_def wait_entry_wf_def update_wf_def intro: py_eq_sym)
  show ?thesis
    using assms(1,2) d update_concrete [of u] unfolding WaitForDocumentEventEntry_eq_def
    by (metis py_eq_trans)
qed

lemma event_set_wf: "event_set es \<Longrightarrow> e \<in> set es \<Longrightarrow> wait_entry_wf e"
  by (induction es) auto

lemma event_set_filter: "event_set es \<Longrightarrow> event_set (filter P es)"
  by (induction es) (auto simp: list_all_iff)

lemma event_remove_filter:
  assumes "event_set es" "update_wf u"
  shows "event_remove (entry_of_update u) es =
    filter (\<lambda>e. \<not> WaitForDocumentEventEntry_eq e (entry_of_update u)) es"
  using assms(1)
proof (induction es)
  case Nil
  then show ?case by simp
next
  case (Cons e es)
  show ?case
  proof (cases "WaitForDocumentEventEntry_eq e (entry_of_update u)")
    case True
    have "\<not> WaitForDocumentEventEntry_eq x (entry_of_update u)" if "x \<in> set es" for x
      using Cons.prems that match_unique [OF True _ _ assms(2), of x] event_set_wf [of es x]
      by (auto simp: list_all_iff)
    then have "filter (\<lambda>x. \<not> WaitForDocumentEventEntry_eq x (entry_of_update u)) es = es"
      by (simp add: filter_id_conv)
    with True show ?thesis by simp
  next
    case False
    with Cons show ?thesis by simp
  qed
qed

lemma event_remove_absent: "\<not> event_in entry es \<Longrightarrow> filter (\<lambda>e. \<not> WaitForDocumentEventEntry_eq e entry) es = es"
  by (auto simp: event_in_def list_ex_iff filter_id_conv)

text \<open>What remains of a set is what no update matched, whatever the order of the set.\<close>

lemma remove_seen_filter:
  "event_set es \<Longrightarrow> list_all update_wf us \<Longrightarrow> remove_seen us es = filter (\<lambda>e. \<not> matched us e) es"
proof (induction us arbitrary: es)
  case Nil
  then show ?case by (simp add: matched_def)
next
  case (Cons u us)
  let ?f = "filter (\<lambda>e. \<not> WaitForDocumentEventEntry_eq e (entry_of_update u)) es"
  have "(if event_in (entry_of_update u) es then event_remove (entry_of_update u) es else es) = ?f"
    using Cons.prems event_remove_filter [of es u] event_remove_absent [of "entry_of_update u" es] by simp
  moreover have "remove_seen us ?f = filter (\<lambda>e. \<not> matched us e) ?f"
    using Cons by (simp add: event_set_filter)
  ultimately show ?case
    by (auto simp: Let_def matched_def conj_commute intro: filter_cong)
qed

text \<open>The loops keep: what remains is what no update of the part looked at has matched.\<close>

definition wait_inv :: "wait_entry list \<Rightarrow> 'w wait_state \<Rightarrow> bool" where
  "wait_inv es0 = (\<lambda>(events, processed, rp, w).
     processed \<le> length (rp_updates rp)
     \<and> events = filter (\<lambda>e. \<not> matched (take processed (rp_updates rp)) e) es0)"

lemma wait_inv_step:
  assumes es0: "event_set es0" and wf: "list_all update_wf (rp_updates rp')"
    and inv: "wait_inv es0 (events, processed, rp, w)"
    and ext: "rp_updates rp' = rp_updates rp @ new"
  shows "remove_seen (drop processed (rp_updates rp')) events = filter (\<lambda>e. \<not> matched (rp_updates rp') e) es0"
proof -
  from inv have p: "processed \<le> length (rp_updates rp)"
      "events = filter (\<lambda>e. \<not> matched (take processed (rp_updates rp)) e) es0"
    by (auto simp: wait_inv_def)
  have tk: "take processed (rp_updates rp') = take processed (rp_updates rp)"
    using ext p(1) by simp
  have "list_all update_wf (drop processed (rp_updates rp'))"
    using wf by (metis append_take_drop_id list_all_append)
  then have "remove_seen (drop processed (rp_updates rp')) events =
      filter (\<lambda>e. \<not> matched (drop processed (rp_updates rp')) e) events"
    using p(2) es0 by (simp add: remove_seen_filter event_set_filter)
  also have "\<dots> = filter (\<lambda>e. \<not> matched (take processed (rp_updates rp') @ drop processed (rp_updates rp')) e) es0"
    using p(2) tk by (auto simp: matched_append intro: filter_cong)
  finally show ?thesis by simp
qed

text \<open>\<open>get_status\<close> only appends to the updates.\<close>

lemma get_status_extends:
  assumes "Replicator_get_status f send (rp, w) = (r, rp', w')"
  shows "\<exists>new. rp_updates rp' = rp_updates rp @ new"
  using assms
  by (auto simp: Replicator_get_status_def io_bind_def get_obj_def put_obj_def send_io_def
      split: sum.splits prod.splits if_splits response_fields.splits option.splits)

text \<open>
  Any way of polling the replicator that only appends to its updates: what the wait loops rely on.
\<close>

locale status_poll =
  fixes poll :: "replicator \<times> 'w \<Rightarrow> 'x \<times> (replicator \<times> 'w)"
  assumes extends: "poll (rp, w) = (x, rp', w') \<Longrightarrow> \<exists>new. rp_updates rp' = rp_updates rp @ new"
begin

lemma poll_prefix: "poll (rp, w) = (x, rp', w') \<Longrightarrow> prefix (rp_updates rp) (rp_updates rp')"
  using extends by (auto simp: prefix_def)

lemma seen_after:
  assumes "poll (rp, w) = (x, rp', w')" "event_set es0" "list_all update_wf (rp_updates rp')"
    and "wait_inv es0 (events, processed, rp, v)"
  shows "remove_seen (drop processed (rp_updates rp')) events = filter (\<lambda>e. \<not> matched (rp_updates rp') e) es0"
proof -
  from extends [OF assms(1)] obtain new where "rp_updates rp' = rp_updates rp @ new" by blast
  from wait_inv_step [OF assms(2,3,4) this] show ?thesis .
qed

lemma inv_after:
  assumes "poll (rp, w) = (x, rp', w')" "event_set es0" "list_all update_wf (rp_updates rp')"
    and "wait_inv es0 (events, processed, rp, v)"
  shows "wait_inv es0 (remove_seen (drop processed (rp_updates rp')) events,
    max processed (length (rp_updates rp')), rp', v')"
proof -
  from extends [OF assms(1)] assms(4) have "processed \<le> length (rp_updates rp')"
    by (auto simp: wait_inv_def)
  then show ?thesis using seen_after [OF assms] by (simp add: wait_inv_def max_def)
qed

end

interpretation gs: status_poll "Replicator_get_status f send"
  by unfold_locales (rule get_status_extends)

lemma wait_for_loop_extends:
  "wait_for_loop (Replicator_get_status f send) now sleep act i t s fuel (rp, w) = (r, rp', w') \<Longrightarrow>
     prefix (rp_updates rp) (rp_updates rp')"
proof (induction fuel arbitrary: rp w)
  case 0
  then show ?case by simp
next
  case (Suc fuel)
  obtain x rp1 w1 where g: "Replicator_get_status f send (rp, w) = (x, rp1, w1)"
    by (cases "Replicator_get_status f send (rp, w)") auto
  from gs.poll_prefix [OF g] have pre: "prefix (rp_updates rp) (rp_updates rp1)" .
  show ?case
    using Suc.prems g pre Suc.IH [of rp1 "sleep i w1"]
    by (auto simp: wait_for_step_def split: if_splits sum.splits intro: prefix_order.trans)
qed

lemma wait_for_extends:
  assumes "Replicator_wait_for f send now sleep fuel act i t (rp, w) = (r, rp', w')"
  shows "\<exists>new. rp_updates rp' = rp_updates rp @ new"
  using assms wait_for_loop_extends [of f send now sleep act i t "now w" fuel rp w r rp' w']
  by (auto simp: Replicator_wait_for_def prefix_def split: if_splits)

interpretation wi: status_poll "Replicator_wait_for f send now sleep fuel act i t"
  by unfold_locales (rule wait_for_extends)

section \<open>Waiting for events is right\<close>

lemma updates_wf_prefix: "prefix us vs \<Longrightarrow> list_all update_wf vs \<Longrightarrow> list_all update_wf us"
  by (auto simp: prefix_def)

lemma doc_events_loop_extends:
  "doc_events_loop (Replicator_get_status f send) sleep i fuel (ev, n, rp, w) = (r, ev', n', rp', w') \<Longrightarrow>
     prefix (rp_updates rp) (rp_updates rp')"
proof (induction fuel arbitrary: ev n rp w)
  case 0
  then show ?case by simp
next
  case (Suc fuel)
  obtain x rp1 w1 where g: "Replicator_get_status f send (rp, w) = (x, rp1, w1)"
    by (cases "Replicator_get_status f send (rp, w)") auto
  from gs.poll_prefix [OF g] have pre: "prefix (rp_updates rp) (rp_updates rp1)" .
  show ?case
    using Suc.prems g pre Suc.IH
    by (auto simp: doc_events_step_def Let_def split: if_splits sum.splits intro: prefix_order.trans)
qed

lemma doc_events_loop_sound:
  assumes es0: "event_set es0"
  shows "doc_events_loop (Replicator_get_status f send) sleep i fuel (ev, n, rp, w) = (Some (Inr b), ev', n', rp', w') \<Longrightarrow>
     wait_inv es0 (ev, n, rp, v) \<Longrightarrow> list_all update_wf (rp_updates rp') \<Longrightarrow>
     b \<longleftrightarrow> (\<forall>e \<in> set es0. matched (rp_updates rp') e)"
proof (induction fuel arbitrary: ev n rp w v)
  case 0
  then show ?case by simp
next
  case (Suc fuel)
  obtain x rp1 w1 where g: "Replicator_get_status f send (rp, w) = (x, rp1, w1)"
    by (cases "Replicator_get_status f send (rp, w)") auto
  from Suc.prems(1) g obtain st where st: "x = Inr st" "rs_error st = None"
    by (cases x) (auto simp: doc_events_step_def split: if_splits)
  let ?ev = "remove_seen (drop n (rp_updates rp1)) ev"
  show ?case
  proof (cases "?ev = [] \<or> rs_activity st = STOPPED")
    case True
    then have fin: "b = (?ev = [])" "rp' = rp1"
      using Suc.prems(1) g st by (auto simp: doc_events_step_def Let_def split: if_splits)
    have "list_all update_wf (rp_updates rp1)" using Suc.prems(3) fin by simp
    from gs.seen_after [OF g es0 this Suc.prems(2)]
    have "?ev = filter (\<lambda>e. \<not> matched (rp_updates rp1) e) es0" .
    with fin show ?thesis by (simp add: filter_empty_conv)
  next
    case False
    then have rest: "doc_events_loop (Replicator_get_status f send) sleep i fuel
        (?ev, max n (length (rp_updates rp1)), rp1, sleep i w1) = (Some (Inr b), ev', n', rp', w')"
      using Suc.prems(1) g st by (auto simp: doc_events_step_def Let_def)
    have "list_all update_wf (rp_updates rp1)"
      using updates_wf_prefix [OF doc_events_loop_extends [OF rest] Suc.prems(3)] .
    then show ?thesis
      by (rule Suc.IH [OF rest gs.inv_after [OF g es0 _ Suc.prems(2)] Suc.prems(3)])
  qed
qed

lemma wait_inv_start: "wait_inv es0 (es0, 0, rp, v)"
  by (simp add: wait_inv_def matched_def)

lemma all_events_loop_extends:
  "all_events_loop (Replicator_wait_for f send now sl fu IDLE p t) sleep k (ev, n, rp, w) = (r, ev', n', rp', w') \<Longrightarrow>
     prefix (rp_updates rp) (rp_updates rp')"
proof (induction k arbitrary: ev n rp w)
  case 0
  then show ?case by simp
next
  case (Suc k)
  obtain x rp1 w1 where g: "Replicator_wait_for f send now sl fu IDLE p t (rp, w) = (x, rp1, w1)"
    by (cases "Replicator_wait_for f send now sl fu IDLE p t (rp, w)") auto
  from wi.poll_prefix [OF g] have pre: "prefix (rp_updates rp) (rp_updates rp1)" .
  show ?case
    using Suc.prems g pre Suc.IH
    by (auto simp: all_events_step_def Let_def split: if_splits sum.splits option.splits
        intro: prefix_order.trans)
qed

text \<open>On success all events were seen; on running out of retries some event was not.\<close>

lemma all_events_loop_sound:
  assumes es0: "event_set es0" and k: "k > 0"
  shows "all_events_loop (Replicator_wait_for f send now sl fu IDLE p t) sleep k (ev, n, rp, w) = (Some (Inr st), ev', n', rp', w') \<Longrightarrow>
     wait_inv es0 (ev, n, rp, v) \<Longrightarrow> list_all update_wf (rp_updates rp') \<Longrightarrow>
     (\<forall>e \<in> set es0. matched (rp_updates rp') e) \<and> rs_error st = None"
  using k
proof (induction k arbitrary: ev n rp w v)
  case 0
  then show ?case by simp
next
  case (Suc k)
  obtain x rp1 w1 where g: "Replicator_wait_for f send now sl fu IDLE p t (rp, w) = (x, rp1, w1)"
    by (cases "Replicator_wait_for f send now sl fu IDLE p t (rp, w)") auto
  from Suc.prems(1) g obtain st1 where st: "x = Some (Inr st1)" "rs_error st1 = None"
    by (cases x) (auto simp: all_events_step_def split: if_splits sum.splits)
  let ?ev = "remove_seen (drop n (rp_updates rp1)) ev"
  show ?case
  proof (cases "?ev = []")
    case True
    then have fin: "st = st1" "rp' = rp1"
      using Suc.prems(1) g st by (auto simp: all_events_step_def Let_def)
    have "list_all update_wf (rp_updates rp1)" using Suc.prems(3) fin by simp
    from wi.seen_after [OF g es0 this Suc.prems(2)] True
    have "filter (\<lambda>e. \<not> matched (rp_updates rp1) e) es0 = []" by simp
    with fin st show ?thesis by (simp add: filter_empty_conv)
  next
    case False
    then have rest: "all_events_loop (Replicator_wait_for f send now sl fu IDLE p t) sleep k
        (?ev, max n (length (rp_updates rp1)), rp1, sleep (1/2) w1) = (Some (Inr st), ev', n', rp', w')"
      using Suc.prems(1) g st by (auto simp: all_events_step_def Let_def)
    then have "k > 0" by (cases k) auto
    have "list_all update_wf (rp_updates rp1)"
      using updates_wf_prefix [OF all_events_loop_extends [OF rest] Suc.prems(3)] .
    then show ?thesis
      by (rule Suc.IH [OF rest wi.inv_after [OF g es0 _ Suc.prems(2)] Suc.prems(3) \<open>k > 0\<close>])
  qed
qed

section \<open>Waiting for an activity ends\<close>

text \<open>Sleeping takes at least its time and nothing turns the clock back.\<close>

definition fair_clock :: "('w \<Rightarrow> rat) \<Rightarrow> (rat \<Rightarrow> 'w \<Rightarrow> 'w) \<Rightarrow> (replicator \<times> 'w, repl_status) io \<Rightarrow> bool" where
  "fair_clock now sleep poll \<longleftrightarrow>
     (\<forall>d w. now w + d \<le> now (sleep d w)) \<and> (\<forall>s. now (snd s) \<le> now (snd (snd (poll s))))"

lemma wait_for_step_time:
  assumes "fair_clock now sleep poll" "wait_for_step poll now sleep act i t s w = (None, w')"
  shows "now (snd w) + i \<le> now (snd w')"
proof -
  from assms(2) obtain st w1 where p: "poll w = (Inr st, w1)" "w' = (fst w1, sleep i (snd w1))"
    by (auto simp: wait_for_step_def split: if_splits prod.splits sum.splits)
  from assms(1) have clk: "now (snd w1) + i \<le> now (sleep i (snd w1))"
      "now (snd w) \<le> now (snd (snd (poll w)))"
    by (simp_all only: fair_clock_def)
  with p show ?thesis by simp
qed

lemma wait_for_after_time:
  assumes "fair_clock now sleep poll"
    and "\<And>j. j < k \<Longrightarrow> fst (wait_for_step poll now sleep act i t s (after (wait_for_step poll now sleep act i t s) j w)) = None"
  shows "now (snd w) + of_nat k * i \<le> now (snd (after (wait_for_step poll now sleep act i t s) k w))"
  using assms(2)
proof (induction k)
  case 0
  then show ?case by simp
next
  case (Suc k)
  let ?st = "wait_for_step poll now sleep act i t s"
  have "fst (?st (after ?st k w)) = None" using Suc.prems by simp
  then have "?st (after ?st k w) = (None, after ?st (Suc k) w)" by (simp add: prod_eq_iff)
  from wait_for_step_time [OF assms(1) this] Suc show ?case by (simp add: algebra_simps)
qed

lemma wait_for_loop_ends:
  assumes "fair_clock now sleep poll" and "of_nat n * i > t"
  shows "fst (wait_for_loop poll now sleep act i t (now (snd w)) (Suc n) w) \<noteq> None"
proof -
  let ?st = "wait_for_step poll now sleep act i t (now (snd w))"
  have final: "\<exists>r. fst (?st v) = Some r" if "now (snd v) - now (snd w) > t" for v
    using that by (simp add: wait_for_step_def)
  have some: "r \<noteq> None" if "fst (?st v) = Some r" for v r
    using that by (auto simp: wait_for_step_def split: if_splits prod.splits sum.splits)
  show ?thesis
  proof (cases rule: wf.loop_cases [of "Suc n" poll now sleep act i t "now (snd w)" w])
    case (finish k r)
    with some show ?thesis by (simp del: wait_for_loop.simps)
  next
    case give_up
    then have "now (snd w) + of_nat n * i \<le> now (snd (after ?st n w))"
      using wait_for_after_time [OF assms(1), of n act i t "now (snd w)" w] by simp
    with assms(2) have "now (snd (after ?st n w)) - now (snd w) > t" by simp
    from final [OF this] give_up(1) [of n] show ?thesis by simp
  qed
qed

section \<open>The listener\<close>

record listener =
  ln_database :: string
  ln_index :: int
  ln_collections :: "string list"
  ln_port :: json
  ln_original_port :: "int option"
  ln_disable_tls :: bool
  ln_identity :: "cert_key_pair option"
  ln_id :: json

definition port_json :: "int option \<Rightarrow> json" where
  "port_json p = (case p of None \<Rightarrow> JNull | Some n \<Rightarrow> JInt n)"

definition Listener_create ::
    "string \<Rightarrow> int \<Rightarrow> string list \<Rightarrow> int option \<Rightarrow> bool \<Rightarrow> cert_key_pair option \<Rightarrow> listener" where
  "Listener_create db ix collections port tls_off ident =
     \<lparr> ln_database = db, ln_index = ix, ln_collections = collections, ln_port = port_json port,
       ln_original_port = port, ln_disable_tls = tls_off, ln_identity = ident, ln_id = JStr [] \<rparr>"

definition Listener_port :: "listener \<Rightarrow> json result" where
  "Listener_port l = (if ln_port l = JNull then Inl AssertionError else Inr (ln_port l))"

text \<open>The port sent is the one the listener holds, which after a start is what the server answered.\<close>

definition Listener_start :: "factory \<Rightarrow> 'w sender \<Rightarrow> (listener \<times> 'w, unit) io" where
  "Listener_start f send =
     io_bind get_obj (\<lambda>l.
     io_bind (io_lift (RequestFactory_create_request START_LISTENER
       (KW_start_listener \<lparr> sl_database = ln_database l, sl_collections = ln_collections l,
          sl_port = (if ln_port l = JNull then None else Some (ln_port l)),
          sl_disable_tls = ln_disable_tls l, sl_identity = ln_identity l \<rparr>) f)) (\<lambda>req.
     io_bind (send_io send (ln_index l) req) (\<lambda>resp.
       if sv_error resp \<noteq> None then io_return ()
       else case sv_fields resp of
         StartListenerFields i port \<Rightarrow> put_obj (\<lambda>l. l\<lparr>ln_port := port, ln_id := i\<rparr>)
       | _ \<Rightarrow> io_raise AttributeError)))"

definition Listener_stop :: "factory \<Rightarrow> 'w sender \<Rightarrow> (listener \<times> 'w, unit) io" where
  "Listener_stop f send =
     io_bind get_obj (\<lambda>l.
     io_bind (io_lift (RequestFactory_create_request STOP_LISTENER (KW_id (ln_id l)) f)) (\<lambda>req.
     io_bind (send_io send (ln_index l) req) (\<lambda>resp.
       if sv_error resp \<noteq> None then io_return ()
       else put_obj (\<lambda>l. l\<lparr>ln_port := port_json (ln_original_port l), ln_id := JStr []\<rparr>))))"

section \<open>The multipeer replicator\<close>

record multipeer =
  mp_group_id :: string
  mp_database :: string
  mp_index :: int
  mp_collections :: "repl_collection list"
  mp_authenticator :: "cert_key_pair option"
  mp_identity :: cert_key_pair
  mp_transports :: int
  mp_id :: json

text \<open>\<open>leaf\<close> is the certificate that is generated when the caller gives none.\<close>

definition MultipeerReplicator_create ::
    "string \<Rightarrow> string \<Rightarrow> int \<Rightarrow> repl_collection list \<Rightarrow> cert_key_pair option \<Rightarrow> cert_key_pair option
      \<Rightarrow> cert_key_pair \<Rightarrow> int \<Rightarrow> multipeer result" where
  "MultipeerReplicator_create gid db ix collections auth ident leaf transports =
     rbind (py_assert (transports \<noteq> 0)) (\<lambda>_.
     rbind (py_assert (length collections > 0)) (\<lambda>_.
       Inr \<lparr> mp_group_id = gid, mp_database = db, mp_index = ix, mp_collections = collections,
             mp_authenticator = auth, mp_identity = (case ident of Some i \<Rightarrow> i | None \<Rightarrow> leaf),
             mp_transports = transports, mp_id = JStr [] \<rparr>))"

definition MultipeerReplicator_start :: "factory \<Rightarrow> 'w sender \<Rightarrow> (multipeer \<times> 'w, unit) io" where
  "MultipeerReplicator_start f send =
     io_bind get_obj (\<lambda>m.
     io_bind (io_lift (RequestFactory_create_request START_MULTIPEER_REPLICATOR
       (KW_start_multipeer \<lparr> sm_peer_group_id = mp_group_id m, sm_database = mp_database m,
          sm_collections = mp_collections m, sm_identity = mp_identity m,
          sm_authenticator = mp_authenticator m,
          sm_transports = MultipeerTransportType_to_json (mp_transports m) \<rparr>) f)) (\<lambda>req.
     io_bind (send_io send (mp_index m) req) (\<lambda>resp.
       if sv_error resp \<noteq> None then io_return ()
       else case sv_fields resp of
         StartMultipeerFields i \<Rightarrow> put_obj (\<lambda>m. m\<lparr>mp_id := i\<rparr>)
       | _ \<Rightarrow> io_raise AttributeError)))"

definition MultipeerReplicator_stop :: "factory \<Rightarrow> 'w sender \<Rightarrow> (multipeer \<times> 'w, unit) io" where
  "MultipeerReplicator_stop f send =
     io_bind get_obj (\<lambda>m.
       if \<not> truthy (mp_id m) then io_return ()
       else io_bind (io_lift (RequestFactory_create_request STOP_MULTIPEER_REPLICATOR (KW_id (mp_id m)) f)) (\<lambda>req.
            io_bind (send_io send (mp_index m) req) (\<lambda>resp.
              if sv_error resp \<noteq> None then io_return ()
              else put_obj (\<lambda>m. m\<lparr>mp_id := JStr []\<rparr>))))"

definition MultipeerReplicator_get_status ::
    "factory \<Rightarrow> 'w sender \<Rightarrow> (multipeer \<times> 'w, multipeer_status_entry list) io" where
  "MultipeerReplicator_get_status f send =
     io_bind get_obj (\<lambda>m.
       if \<not> truthy (mp_id m) then io_raise CblTestError
       else io_bind (io_lift (RequestFactory_create_request MULTIPEER_REPLICATOR_STATUS (KW_id (mp_id m)) f)) (\<lambda>req.
            io_bind (send_io send (mp_index m) req) (\<lambda>resp.
              case sv_fields resp of
                MultipeerStatusFields es \<Rightarrow> io_return es
              | _ \<Rightarrow> io_raise AttributeError)))"

text \<open>\<open>all(r.status.activity == IDLE for r in replicators)\<close>, which stops at the first that is not idle.\<close>

fun all_peers_idle :: "multipeer_status_entry list \<Rightarrow> bool result" where
  "all_peers_idle [] = Inr True"
| "all_peers_idle (e # es) =
     (case me_status e of
        None \<Rightarrow> Inl AttributeError
      | Some s \<Rightarrow> if sb_activity s = IDLE then all_peers_idle es else Inr False)"

definition idle_step ::
    "('s, multipeer_status_entry list) io \<Rightarrow> ('s \<Rightarrow> rat) \<Rightarrow> (rat \<Rightarrow> 's \<Rightarrow> 's) \<Rightarrow> rat \<Rightarrow> rat \<Rightarrow> rat
      \<Rightarrow> 's \<Rightarrow> multipeer_status_entry list result option option \<times> 's" where
  "idle_step get_status now sleep interval timeout start w =
     (if now w - start > timeout then (Some (Some (Inl CblTimeoutError)), w)
      else case get_status w of
             (Inl e, w') \<Rightarrow> (Some (Some (Inl e)), w')
           | (Inr es, w') \<Rightarrow>
               (case (if es = [] then Inr False else all_peers_idle es) of
                  Inl e \<Rightarrow> (Some (Some (Inl e)), w')
                | Inr True \<Rightarrow> (Some (Some (Inr es)), w')
                | Inr False \<Rightarrow> (None, sleep interval w')))"

primrec idle_loop ::
    "('s, multipeer_status_entry list) io \<Rightarrow> ('s \<Rightarrow> rat) \<Rightarrow> (rat \<Rightarrow> 's \<Rightarrow> 's) \<Rightarrow> rat \<Rightarrow> rat \<Rightarrow> rat
      \<Rightarrow> nat \<Rightarrow> ('s, multipeer_status_entry list) fio" where
  "idle_loop gs now sleep i t start 0 w = (None, w)"
| "idle_loop gs now sleep i t start (Suc fuel) w =
     (case idle_step gs now sleep i t start w of
        (Some r, w') \<Rightarrow> (r, w')
      | (None, w') \<Rightarrow> idle_loop gs now sleep i t start fuel w')"

definition MultipeerReplicator_wait_for_idle ::
    "factory \<Rightarrow> 'w sender \<Rightarrow> ('w \<Rightarrow> rat) \<Rightarrow> (rat \<Rightarrow> 'w \<Rightarrow> 'w) \<Rightarrow> nat \<Rightarrow> rat \<Rightarrow> rat
      \<Rightarrow> (multipeer \<times> 'w, multipeer_status_entry list) fio" where
  "MultipeerReplicator_wait_for_idle f send now sleep fuel interval timeout w =
     (if \<not> interval > 0 \<or> \<not> timeout \<ge> 1 then (Some (Inl AssertionError), w)
      else idle_loop (MultipeerReplicator_get_status f send) (\<lambda>s. now (snd s))
             (\<lambda>d s. (fst s, sleep d (snd s))) interval timeout (now (snd w)) fuel w)"

interpretation il: attempt_loop "idle_loop gs now sleep i t start" "idle_step gs now sleep i t start"
    "\<lambda>w. (None, w)"
  by unfold_locales simp_all

lemma all_peers_idle_iff:
  "all_peers_idle es = Inr True \<longleftrightarrow> (\<forall>e \<in> set es. \<exists>s. me_status e = Some s \<and> sb_activity s = IDLE)"
  by (induction es) (auto split: option.splits)

lemma idle_loop_result:
  "idle_loop gs now sleep i t start fuel w = (Some (Inr es), w') \<Longrightarrow>
     es \<noteq> [] \<and> (\<forall>e \<in> set es. \<exists>s. me_status e = Some s \<and> sb_activity s = IDLE)"
proof (induction fuel arbitrary: w)
  case (Suc fuel)
  obtain r w1 where st: "idle_step gs now sleep i t start w = (r, w1)"
    by (cases "idle_step gs now sleep i t start w")
  show ?case
  proof (cases r)
    case None
    with Suc st show ?thesis by simp
  next
    case (Some x)
    with Suc.prems st have "idle_step gs now sleep i t start w = (Some (Some (Inr es)), w1)" by simp
    then show ?thesis
      by (auto simp: idle_step_def all_peers_idle_iff split: if_splits prod.splits sum.splits bool.splits)
  qed
qed simp

section \<open>Events with errors\<close>

text \<open>What \<open>wait_for_any_doc_event\<close> looks up carries no error, so an event with one is never found.\<close>

lemma find_seen_error:
  "list_all (\<lambda>e. wf_err_domain e \<noteq> JNull \<or> wf_err_code e \<noteq> JNull) events \<Longrightarrow> find_seen us events = None"
proof (induction us)
  case (Cons u us)
  have null: "py_eq v JNull \<longleftrightarrow> v = JNull" for v by (cases v) (auto simp: scalar_eq_def)
  have "\<not> event_in (plain_entry_of_update u) events"
    using Cons.prems
    by (auto simp: event_in_def list_ex_iff list_all_iff WaitForDocumentEventEntry_eq_def
        plain_entry_of_update_def null)
  with Cons show ?case by (simp add: Let_def)
qed simp

lemma any_event_loop_error:
  "list_all (\<lambda>e. wf_err_domain e \<noteq> JNull \<or> wf_err_code e \<noteq> JNull) events \<Longrightarrow>
     fst (any_event_loop wait_idle sleep ping k (events, n, w)) \<noteq> Some (Inr (Some entry))"
proof (induction k arbitrary: n w)
  case (Suc k)
  then show ?case
    by (auto simp: any_event_step_def Let_def find_seen_error split: prod.splits option.splits sum.splits)
qed simp

section \<open>Concrete runs\<close>

text \<open>
  The world of the concrete runs: the replies a server is going to give, in order, and a clock in
  seconds that only sleeping advances.
\<close>

type_synonym script = "server_response list \<times> rat"

definition replay :: "script sender" where
  "replay ix q w = (case fst w of [] \<Rightarrow> (Inl ClientError, q, w) | r # rs \<Rightarrow> (Inr r, q, rs, snd w))"

definition nap :: "rat \<Rightarrow> script \<Rightarrow> script" where
  "nap d w = (fst w, snd w + d)"

definition reply_with :: "response_fields \<Rightarrow> server_response" where
  "reply_with fs = \<lparr> sv_status_code = JInt 200, sv_uuid = JStr ''s'', sv_error = None, sv_payload = [],
     sv_http_name = [], sv_http_method = ''post'', sv_fields = fs \<rparr>"

definition status_reply :: "activity_level \<Rightarrow> doc_entry list \<Rightarrow> server_response" where
  "status_reply a docs = reply_with (ReplicatorStatusFields
     (Some \<lparr> sb_activity = a, sb_progress = True, sb_replicator_error = None, sb_documents = docs \<rparr>))"

definition sample_update :: "string \<Rightarrow> bool \<Rightarrow> doc_entry" where
  "sample_update i push = \<lparr> de_collection = ''c'', de_document_id = i, de_is_push = push, de_flags = 0,
     de_error = None \<rparr>"

definition sample_event :: "string \<Rightarrow> replicator_type \<Rightarrow> wait_entry" where
  "sample_event i dir = \<lparr> wf_collection = ''c'', wf_id = i, wf_direction = dir, wf_flags = None,
     wf_err_domain = JNull, wf_err_code = JNull \<rparr>"

definition sample_replicator :: "bool \<Rightarrow> replicator" where
  "sample_replicator cont =
     (Replicator_create ''db'' 0 ''ws://h/db'' PUSH_AND_PULL cont None False None True False None None)
       \<lparr>rp_id := JStr ''r1''\<rparr>"

lemma replay_clock: "snd (snd (snd (replay ix q w))) = snd w"
  by (simp add: replay_def split: list.splits)

lemma fair_replay: "fair_clock snd nap (Replicator_get_status f replay)"
proof -
  have "snd (snd (snd (Replicator_get_status f replay s))) = snd (snd s)" for s
    using replay_clock
    by (auto simp: Replicator_get_status_def io_bind_def get_obj_def put_obj_def send_io_def replay_def
        split: prod.splits sum.splits list.splits response_fields.splits option.splits)
  then show ?thesis by (simp add: fair_clock_def nap_def)
qed

text \<open>The status request of the concrete runs.\<close>

lemma sample_status_request:
  "\<exists>q. RequestFactory_create_request REPLICATOR_STATUS (KW_id (JStr ''r1'')) (ready_factory 2 ''u'') = Inr q"
  by (rule creates_request [where b = ReplicatorStatusBody])
    (simp_all add: loaded_lookup decl_tables construct_body_def)

lemma sample_status:
  "Replicator_get_status (ready_factory 2 ''u'') replay
     ((sample_replicator c)\<lparr>rp_updates := us\<rparr>, status_reply a docs # rs, t) =
   (Inr \<lparr> rs_progress = True, rs_activity = a, rs_error = None \<rparr>,
    (sample_replicator c)\<lparr>rp_updates := us @ docs\<rparr>, rs, t)"
  using sample_status_request
  by (auto simp: Replicator_get_status_def io_bind_def get_obj_def put_obj_def send_io_def replay_def
      sample_replicator_def Replicator_create_def Replicator_is_started_def status_reply_def reply_with_def)

lemma sample_status_start:
  "Replicator_get_status (ready_factory 2 ''u'') replay (sample_replicator c, status_reply a docs # rs, t) =
   (Inr \<lparr> rs_progress = True, rs_activity = a, rs_error = None \<rparr>,
    (sample_replicator c)\<lparr>rp_updates := docs\<rparr>, rs, t)"
  using sample_status [where c = c and us = "[]"]
  by (simp add: sample_replicator_def Replicator_create_def)

lemma sample_replicator_simps:
  "rp_continuous (sample_replicator c) = c" "rp_listener (sample_replicator c)"
  by (simp_all add: sample_replicator_def Replicator_create_def)

lemmas sample_runs = sample_status sample_status_start sample_replicator_simps sample_event_def sample_update_def
  event_in_def WaitForDocumentEventEntry_eq_def entry_of_update_def de_direction_def scalar_eq_def nap_def

section \<open>Properties\<close>

text \<open>
  C2. \<open>wait_for_doc_events\<close> answers the question it was asked: when it returns, it returns True if
  every expected event was matched by a document update that the replicator has received by then,
  and False if some expected event was not.
\<close>

theorem wait_for_doc_events_correct:
  assumes "event_set events"
    and "Replicator_wait_for_doc_events f send sleep fuel events interval (rp, w) = (Some (Inr b), rp', w')"
    and "list_all update_wf (rp_updates rp')"
  shows "b \<longleftrightarrow> (\<forall>e \<in> set events. matched (rp_updates rp') e)"
proof -
  from assms(2) obtain ev n where
    "doc_events_loop (Replicator_get_status f send) sleep interval fuel (events, 0, rp, w) = (Some (Inr b), ev, n, rp', w')"
    by (auto simp: Replicator_wait_for_doc_events_def split: if_splits prod.splits)
  from doc_events_loop_sound [OF assms(1) this wait_inv_start assms(3)] show ?thesis .
qed

theorem wait_for_doc_events_correct_witness:
  "\<exists>us. matched us (sample_event ''d1'' PUSH) \<and> matched us (sample_event ''d2'' PUSH_AND_PULL) \<and> length us = 2"
proof -
  let ?ev = "[sample_event ''d1'' PUSH, sample_event ''d2'' PUSH_AND_PULL]"
  let ?us = "[sample_update ''d2'' False, sample_update ''d1'' True]"
  have set: "event_set ?ev" by code_simp
  have run: "Replicator_wait_for_doc_events (ready_factory 2 ''u'') replay nap (Suc (Suc 0)) ?ev 1
    (sample_replicator False, [status_reply BUSY [sample_update ''d2'' False], status_reply STOPPED [sample_update ''d1'' True]], 0)
    = (Some (Inr True), (sample_replicator False)\<lparr>rp_updates := ?us\<rparr>, [], 1)"
    by (simp add: Replicator_wait_for_doc_events_def doc_events_step_def sample_runs Let_def)
  have wf: "list_all update_wf (rp_updates ((sample_replicator False)\<lparr>rp_updates := ?us\<rparr>))" by code_simp
  from wait_for_doc_events_correct [OF set run wf] show ?thesis by (intro exI [of _ ?us]) simp
qed

text \<open>
  C9. \<open>wait_for_all_doc_events\<close> returns a status only when every expected event was matched by an
  update received by then, and the status it returns reports no replicator error.
\<close>

theorem wait_for_all_doc_events_sound:
  assumes "event_set events" "max_retries > 0"
    and "Replicator_wait_for_all_doc_events f send now sleep fuel events max_retries ping idle_timeout (rp, w)
           = (Some (Inr st), rp', w')"
    and "list_all update_wf (rp_updates rp')"
  shows "(\<forall>e \<in> set events. matched (rp_updates rp') e) \<and> rs_error st = None"
proof -
  from assms(3) obtain ev n where
    "all_events_loop (Replicator_wait_for f send now sleep fuel IDLE ping idle_timeout) sleep
       (nat max_retries) (events, 0, rp, w) = (Some (Inr st), ev, n, rp', w')"
    by (auto simp: Replicator_wait_for_all_doc_events_def split: if_splits prod.splits)
  from all_events_loop_sound [OF assms(1) _ this wait_inv_start assms(4)] assms(2) show ?thesis by simp
qed

theorem wait_for_all_doc_events_sound_witness:
  "\<exists>us. matched us (sample_event ''d1'' PUSH) \<and> matched us (sample_event ''d2'' PULL) \<and> length us = 2"
proof -
  let ?ev = "[sample_event ''d1'' PUSH, sample_event ''d2'' PULL]"
  let ?us = "[sample_update ''d2'' False, sample_update ''d1'' True]"
  have set: "event_set ?ev" by code_simp
  have pos: "(2::int) > 0" by simp

  have run: "Replicator_wait_for_all_doc_events (ready_factory 2 ''u'') replay snd nap (Suc 0) ?ev 2 1 5
    (sample_replicator True, [status_reply IDLE [sample_update ''d2'' False], status_reply IDLE [sample_update ''d1'' True]], 0)
    = (Some (Inr \<lparr> rs_progress = True, rs_activity = IDLE, rs_error = None \<rparr>),
       (sample_replicator True)\<lparr>rp_updates := ?us\<rparr>, [], 1/2)"
    by (simp add: Replicator_wait_for_all_doc_events_def numeral_2_eq_2 all_events_step_def Replicator_wait_for_def
        wait_for_step_def sample_runs Let_def)
  have wf: "list_all update_wf (rp_updates ((sample_replicator True)\<lparr>rp_updates := ?us\<rparr>))" by code_simp
  from wait_for_all_doc_events_sound [OF set pos run wf] show ?thesis by (intro exI [of _ ?us]) simp
qed

text \<open>
  \<open>wait_for_any_doc_event\<close> cannot find an event that expects an error: whatever the server
  reports, it never returns an entry when every expected event names an error domain or code.
\<close>

theorem wait_for_any_ignores_error_events:
  assumes "list_all (\<lambda>e. wf_err_domain e \<noteq> JNull \<or> wf_err_code e \<noteq> JNull) events"
  shows "fst (Replicator_wait_for_any_doc_event f send now sleep fuel events max_retries ping idle_timeout w)
     \<noteq> Some (Inr (Some entry))"
  using any_event_loop_error [OF assms, of "Replicator_wait_for f send now sleep fuel IDLE ping idle_timeout"
      sleep ping "nat max_retries" 0 w entry]
  by (auto simp: Replicator_wait_for_any_doc_event_def split: prod.splits)

theorem wait_for_any_ignores_error_events_witness:
  "fst (Replicator_wait_for_any_doc_event (ready_factory 2 ''u'') replay snd nap 3
     [(sample_event ''d1'' PUSH)\<lparr>wf_err_domain := JStr ''CBL'', wf_err_code := JInt 10409\<rparr>] 2 1 5
     (sample_replicator True,
      [status_reply IDLE [(sample_update ''d1'' True)\<lparr>de_error :=
         Some \<lparr> eb_domain = JStr ''CBL'', eb_code = JInt 10409, eb_message = JStr [] \<rparr>\<rparr>]], 0)) \<noteq> Some (Inr (Some (sample_event ''d1'' PUSH)))"
  by (rule wait_for_any_ignores_error_events) (simp add: sample_event_def)



text \<open>
  C19. \<open>wait_for_idle\<close> of a multipeer replicator returns only a peer list that is not empty and in
  which every peer has reported a status with activity IDLE.
\<close>

theorem multipeer_idle_sound:
  assumes "MultipeerReplicator_wait_for_idle f send now sleep fuel interval timeout w = (Some (Inr es), w')"
  shows "es \<noteq> [] \<and> (\<forall>e \<in> set es. \<exists>s. me_status e = Some s \<and> sb_activity s = IDLE)"
  using assms idle_loop_result by (fastforce simp: MultipeerReplicator_wait_for_idle_def split: if_splits)

theorem multipeer_idle_sound_witness:
  "\<exists>es :: multipeer_status_entry list. length es = 1 \<and> (\<forall>e \<in> set es. \<exists>s. me_status e = Some s \<and> sb_activity s = IDLE)"
proof -
  let ?st = "\<lambda>a. Some \<lparr> sb_activity = a, sb_progress = True, sb_replicator_error = None, sb_documents = [] \<rparr>"
  let ?m = "\<lparr> mp_group_id = ''g'', mp_database = ''db'', mp_index = 0, mp_collections = [], mp_authenticator = None,
    mp_identity = \<lparr> ck_pfx_bytes = [1], ck_pem = ''pem'', ck_password = ''pw'' \<rparr>, mp_transports = 1, mp_id = JStr ''m'' \<rparr>"
  let ?run = "MultipeerReplicator_wait_for_idle (ready_factory 1 ''u'') replay snd nap 4 1 5
    (?m, [reply_with (MultipeerStatusFields []),
          reply_with (MultipeerStatusFields [\<lparr> me_peer_id = ''p'', me_status = ?st IDLE, me_transport = 1 \<rparr>])], 0)"
  have "(case fst ?run of Some (Inr es) \<Rightarrow> length es = 1 | _ \<Rightarrow> False)" by code_simp
  then obtain es where es: "fst ?run = Some (Inr es)" "length es = 1" by (auto split: option.splits sum.splits)
  then have "?run = (Some (Inr es), snd ?run)" by (simp add: prod_eq_iff)
  from multipeer_idle_sound [OF this] es(2) show ?thesis by blast
qed

text \<open>
  Stopping a listener without an error resets it to what the constructor made, including the
  port it was asked for, so it can be started again; an error reply or a failed request leaves it
  as it was.
\<close>

theorem listener_stop_effect:
  assumes "Listener_stop f send (l, w) = (r, l', w')"
  shows "l' = l \<or> r = Inr () \<and> l' = Listener_create (ln_database l) (ln_index l) (ln_collections l)
    (ln_original_port l) (ln_disable_tls l) (ln_identity l)"
  using assms
  by (auto simp: Listener_stop_def Listener_create_def io_bind_def get_obj_def put_obj_def send_io_def
      split: sum.splits prod.splits if_splits)

theorem listener_stop_effect_witness:
  "\<exists>(l :: listener) w' l'. Listener_stop (ready_factory 1 ''u'') replay (l, [reply_with NoFields], 0) = (Inr (), l', w')
     \<and> l' \<noteq> l \<and> l' = Listener_create ''db'' 0 [''c''] None False None"
proof -
  let ?l = "(Listener_create ''db'' 0 [''c''] None False None)\<lparr>ln_port := JInt 59840, ln_id := JStr ''L''\<rparr>"
  let ?run = "Listener_stop (ready_factory 1 ''u'') replay (?l, [reply_with NoFields], 0)"
  obtain r l' w' where run: "?run = (r, l', w')" by (cases ?run)
  have "ln_id (fst (snd ?run)) = JStr []" by code_simp
  with run have ne: "l' \<noteq> ?l" by auto
  from listener_stop_effect [OF run] ne have "r = Inr ()" "l' = Listener_create ''db'' 0 [''c''] None False None"
    by (auto simp: Listener_create_def)
  with run ne show ?thesis by blast
qed

end
