(* ===== verification/Database.thy ===== *)
theory Database
  imports Replicator
begin

text \<open>
  \<open>api/database.py\<close>: the updaters that collect changes, the operations of \<open>Database\<close> and the
  result of getDocument.  An updater's list of entries is shared with the request body, so sending
  leaves it as serialisation leaves the body.
\<close>

definition BASE_BLOB_URL :: string where
  "BASE_BLOB_URL = ''https://media.githubusercontent.com/media/couchbaselabs/couchbase-lite-tests/refs/heads/main/dataset/server/blobs/''"

section \<open>Collecting updates\<close>

text \<open>What callers pass as new properties; only a list (or \<open>None\<close>) is accepted.\<close>

datatype props_arg = No_props | Props "jdict list" | Not_a_list

fun props_option :: "props_arg \<Rightarrow> jdict list option" where
  "props_option (Props l) = Some l"
| "props_option No_props = None"
| "props_option Not_a_list = None"

text \<open>The loop that turns names into URLs assigns to the dictionary the caller passed.\<close>

definition blob_urls :: "(string, string) pydict option \<Rightarrow> (string, string) pydict option" where
  "blob_urls blobs = map_option (map (\<lambda>kv. (fst kv, BASE_BLOB_URL @ snd kv))) blobs"

definition new_entry ::
    "update_type \<Rightarrow> string \<Rightarrow> string \<Rightarrow> jdict list option \<Rightarrow> string list option
      \<Rightarrow> (string, string) pydict option \<Rightarrow> update_entry" where
  "new_entry t c i props removed blobs =
     \<lparr> ue_type = t, ue_collection = c, ue_document_id = i, ue_updated = props, ue_removed = removed,
       ue_blobs = blobs \<rparr>"

record snapshot_updater =
  su_id :: string
  su_updates :: "update_entry list"

definition SnapshotUpdater_create :: "string \<Rightarrow> snapshot_updater" where
  "SnapshotUpdater_create i = \<lparr> su_id = i, su_updates = [] \<rparr>"

definition SnapshotUpdater_delete_document :: "string \<Rightarrow> string \<Rightarrow> snapshot_updater \<Rightarrow> snapshot_updater" where
  "SnapshotUpdater_delete_document c i s =
     s\<lparr>su_updates := su_updates s @ [new_entry DELETE c i None None None]\<rparr>"

definition SnapshotUpdater_purge_document :: "string \<Rightarrow> string \<Rightarrow> snapshot_updater \<Rightarrow> snapshot_updater" where
  "SnapshotUpdater_purge_document c i s =
     s\<lparr>su_updates := su_updates s @ [new_entry PURGE c i None None None]\<rparr>"

text \<open>Returns the updater and what becomes of the caller's dictionary.\<close>

definition SnapshotUpdater_upsert_document ::
    "string \<Rightarrow> string \<Rightarrow> props_arg \<Rightarrow> string list option \<Rightarrow> (string, string) pydict option \<Rightarrow> snapshot_updater
      \<Rightarrow> unit result \<times> snapshot_updater \<times> (string, string) pydict option" where
  "SnapshotUpdater_upsert_document c i props removed blobs s =
     (if props = Not_a_list then (Inl AssertionError, s, blobs)
      else let blobs' = blob_urls blobs
           in (Inr (),
               s\<lparr>su_updates := su_updates s @ [new_entry UPDATE c i (props_option props) removed blobs']\<rparr>,
               blobs'))"

record updater =
  du_db :: string
  du_index :: int
  du_updates :: "update_entry list"
  du_error :: bool

definition DatabaseUpdater_create :: "string \<Rightarrow> int \<Rightarrow> updater" where
  "DatabaseUpdater_create db ix = \<lparr> du_db = db, du_index = ix, du_updates = [], du_error = False \<rparr>"

definition DatabaseUpdater_enter :: "updater \<Rightarrow> updater" where
  "DatabaseUpdater_enter u = u\<lparr>du_updates := []\<rparr>"

definition DatabaseUpdater_delete_document :: "string \<Rightarrow> string \<Rightarrow> updater \<Rightarrow> updater" where
  "DatabaseUpdater_delete_document c i u =
     u\<lparr>du_updates := du_updates u @ [new_entry DELETE c i None None None]\<rparr>"

definition DatabaseUpdater_purge_document :: "string \<Rightarrow> string \<Rightarrow> updater \<Rightarrow> updater" where
  "DatabaseUpdater_purge_document c i u =
     u\<lparr>du_updates := du_updates u @ [new_entry PURGE c i None None None]\<rparr>"

text \<open>A wrong format is remembered and reported when the batch is sent.\<close>

definition DatabaseUpdater_upsert_document ::
    "string \<Rightarrow> string \<Rightarrow> props_arg \<Rightarrow> string list option \<Rightarrow> (string, string) pydict option \<Rightarrow> updater
      \<Rightarrow> updater \<times> (string, string) pydict option" where
  "DatabaseUpdater_upsert_document c i props removed blobs u =
     (if props = Not_a_list then (u\<lparr>du_error := True\<rparr>, blobs)
      else let blobs' = blob_urls blobs
           in (u\<lparr>du_updates := du_updates u @ [new_entry UPDATE c i (props_option props) removed blobs']\<rparr>,
               blobs'))"

definition payload_updates :: "server_request \<Rightarrow> update_entry list \<Rightarrow> update_entry list" where
  "payload_updates q dflt =
     (case sq_payload q of
        Some (V1_PostUpdateDatabaseRequestBody db (Some us)) \<Rightarrow> us
      | Some (V2_PostUpdateDatabaseRequestBody db (Some us)) \<Rightarrow> us
      | Some (V1_PostVerifyDocumentsRequestBody db s (Some cs)) \<Rightarrow> cs
      | Some (V2_PostVerifyDocumentsRequestBody db s (Some cs)) \<Rightarrow> cs
      | _ \<Rightarrow> dflt)"

text \<open>Leaving the \<open>async with\<close> block sends the batch; an error in the response is only logged.\<close>

definition DatabaseUpdater_exit :: "factory \<Rightarrow> 'w sender \<Rightarrow> (updater \<times> 'w, unit) io" where
  "DatabaseUpdater_exit f send =
     (\<lambda>(u, w).
        if du_error u then (Inl CblTestError, u, w)
        else case RequestFactory_create_request UPDATE_DB
                    (KW_database_updates (Some (du_db u)) (Some (du_updates u))) f of
               Inl e \<Rightarrow> (Inl e, u, w)
             | Inr req \<Rightarrow>
                 (case send (du_index u) req w of
                    (Inl e, q', w') \<Rightarrow> (Inl e, u\<lparr>du_updates := payload_updates q' (du_updates u)\<rparr>, w')
                  | (Inr resp, q', w') \<Rightarrow>
                      (Inr (), u\<lparr>du_updates := payload_updates q' (du_updates u)\<rparr>, w')))"

section \<open>The result of getDocument\<close>

record get_document_result =
  gd_id :: json
  gd_revs :: json
  gd_body :: jdict

definition GetDocumentResult_create :: "jdict \<Rightarrow> get_document_result result" where
  "GetDocumentResult_create raw =
     (case (map_of raw ''_id'', map_of raw ''_revs'') of
        (Some i, Some r) \<Rightarrow>
          Inr \<lparr> gd_id = i, gd_revs = r, gd_body = d_del (d_del raw ''_id'') ''_revs'' \<rparr>
      | _ \<Rightarrow> Inl AssertionError)"

text \<open>The first version of the history, for rev trees and version vectors.\<close>

definition current_version :: "string \<Rightarrow> string" where
  "current_version revs =
     (case filter (\<lambda>p. p \<noteq> []) (map py_strip (split_on (CHR '','') (replace_char (CHR '';'') (CHR '','') revs))) of
        [] \<Rightarrow> []
      | p # ps \<Rightarrow> p)"

text \<open>\<open>re.match(r"^\d+-", s)\<close>.\<close>

definition matches_rev_tree :: "string \<Rightarrow> bool" where
  "matches_rev_tree s =
     (let d = takeWhile is_digit s in d \<noteq> [] \<and> (case drop (length d) s of [] \<Rightarrow> False | c # cs \<Rightarrow> c = CHR ''-''))"

definition GetDocumentResult_revid :: "string \<Rightarrow> string option" where
  "GetDocumentResult_revid revs =
     (let current = current_version revs in if matches_rev_tree current then Some current else None)"

definition GetDocumentResult_cv :: "string \<Rightarrow> string option" where
  "GetDocumentResult_cv revs =
     (let current = current_version revs in if CHR ''@'' \<in> set current then Some current else None)"

section \<open>The database\<close>

record database =
  db_name :: string
  db_index :: int

text \<open>A request of the database: its operations have no state of their own.\<close>

definition db_request ::
    "factory \<Rightarrow> 'w sender \<Rightarrow> database \<Rightarrow> request_type \<Rightarrow> body_kwargs \<Rightarrow> ('w, server_response \<times> server_request) io" where
  "db_request f send db t kw =
     io_bind (io_lift (RequestFactory_create_request t kw f)) (\<lambda>req w.
       case send (db_index db) req w of
         (Inl e, q', w') \<Rightarrow> (Inl e, w')
       | (Inr resp, q', w') \<Rightarrow> (Inr (resp, q'), w'))"

definition Database_get_all_documents ::
    "factory \<Rightarrow> 'w sender \<Rightarrow> database \<Rightarrow> string list \<Rightarrow> ('w, (string, all_docs_entry list) pydict) io" where
  "Database_get_all_documents f send db collections =
     io_bind (db_request f send db ALL_DOC_IDS (KW_database_collections (Some (db_name db)) (Some collections)))
       (\<lambda>(resp, q). case sv_fields resp of
          AllDocumentsFields p \<Rightarrow> io_return p
        | _ \<Rightarrow> io_raise AttributeError)"

definition Database_get_document ::
    "factory \<Rightarrow> 'w sender \<Rightarrow> database \<Rightarrow> document_ref \<Rightarrow> ('w, get_document_result) io" where
  "Database_get_document f send db document =
     io_bind (db_request f send db GET_DOCUMENT (KW_database_document (db_name db) document))
       (\<lambda>(resp, q). case sv_fields resp of
          GetDocumentFields raw \<Rightarrow> io_lift (GetDocumentResult_create raw)
        | _ \<Rightarrow> io_raise AttributeError)"

definition Database_create_snapshot ::
    "factory \<Rightarrow> 'w sender \<Rightarrow> database \<Rightarrow> document_ref list \<Rightarrow> ('w, json) io" where
  "Database_create_snapshot f send db documents =
     io_bind (db_request f send db SNAPSHOT_DOCS (KW_database_entries (db_name db) (Some documents)))
       (\<lambda>(resp, q). case sv_fields resp of
          SnapshotFields i \<Rightarrow> io_return i
        | _ \<Rightarrow> io_raise AttributeError)"

text \<open>Also returns the updater as the serialisation leaves it.\<close>

definition Database_verify_documents ::
    "factory \<Rightarrow> 'w sender \<Rightarrow> database \<Rightarrow> snapshot_updater \<Rightarrow> ('w, verify_fields option \<times> snapshot_updater) io" where
  "Database_verify_documents f send db updater =
     io_bind (db_request f send db VERIFY_DOCS
       (KW_database_snapshot_changes (db_name db) (su_id updater) (Some (su_updates updater))))
       (\<lambda>(resp, q). case sv_fields resp of
          VerifyFields v \<Rightarrow> io_return (v, updater\<lparr>su_updates := payload_updates q (su_updates updater)\<rparr>)
        | _ \<Rightarrow> io_raise AttributeError)"

definition Database_perform_maintenance ::
    "factory \<Rightarrow> 'w sender \<Rightarrow> database \<Rightarrow> maintenance_type \<Rightarrow> ('w, unit) io" where
  "Database_perform_maintenance f send db t =
     io_bind (db_request f send db PERFORM_MAINTENANCE (KW_db_op_type (db_name db) (MaintenanceType_str t)))
       (\<lambda>_. io_return ())"

definition Database_run_query ::
    "factory \<Rightarrow> 'w sender \<Rightarrow> database \<Rightarrow> string \<Rightarrow> ('w, jdict list) io" where
  "Database_run_query f send db query =
     io_bind (db_request f send db RUN_QUERY (KW_database_query (db_name db) query))
       (\<lambda>(resp, q). case sv_fields resp of
          RunQueryFields (Some rows) \<Rightarrow> io_return rows
        | _ \<Rightarrow> io_raise AttributeError)"

section \<open>Facts\<close>

text \<open>The URL that an upsert makes of a plain blob name is turned back into the name by version 1.\<close>



lemma plain_name_free:
  "plain_name s \<Longrightarrow> c \<in> set s \<Longrightarrow> 32 < (of_char c :: nat) \<and> c \<notin> set ''/:?#;''"
  by (simp add: plain_name_def list_all_iff)

lemma url_clean_append_plain:
  assumes "plain_name s" "url_clean p = p" "p \<noteq> []" "32 < (of_char (hd p) :: nat)"
  shows "url_clean (p @ s) = p @ s"
proof -
  have s: "filter (\<lambda>c. (of_char c :: nat) \<notin> {9, 10, 13}) s = s"
    using plain_name_free [OF assms(1)] by (force simp: filter_id_conv)
  have "dropWhile (\<lambda>c. (of_char c :: nat) \<le> 32) (p @ s) = p @ s"
    using assms(3,4) by (cases p) auto
  moreover have "dropWhile (\<lambda>c. (of_char c :: nat) \<le> 32) p = p"
    using assms(3,4) by (cases p) auto
  ultimately show ?thesis using assms(2) s by (simp add: url_clean_def)
qed

definition blob_path :: string where
  "blob_path = ''/media/couchbaselabs/couchbase-lite-tests/refs/heads/main/dataset/server/blobs/''"

lemma blob_url_parts:
  assumes "plain_name s"
  shows "url_clean (BASE_BLOB_URL @ s) = BASE_BLOB_URL @ s"
    and "url_scheme (BASE_BLOB_URL @ s) = (''https'', ''//media.githubusercontent.com'' @ blob_path @ s)"
    and "url_netloc (''//media.githubusercontent.com'' @ blob_path @ s) =
      (''media.githubusercontent.com'', blob_path @ s)"
proof -
  have c: "url_clean BASE_BLOB_URL = BASE_BLOB_URL" "BASE_BLOB_URL \<noteq> []"
      "32 < (of_char (hd BASE_BLOB_URL) :: nat)"
    by code_simp+
  show "url_clean (BASE_BLOB_URL @ s) = BASE_BLOB_URL @ s"
    by (rule url_clean_append_plain [OF assms c])
  have "py_lower ''https'' = ''https''" "list_all is_scheme_char ''https''" "is_alpha (CHR ''h'')"
    by code_simp+
  then show "url_scheme (BASE_BLOB_URL @ s) = (''https'', ''//media.githubusercontent.com'' @ blob_path @ s)"
    by (simp add: url_scheme_def BASE_BLOB_URL_def blob_path_def before_def Let_def)
  show "url_netloc (''//media.githubusercontent.com'' @ blob_path @ s) =
      (''media.githubusercontent.com'', blob_path @ s)"
    by (simp add: url_netloc_def blob_path_def)
qed

lemma blob_url_basename:
  assumes "plain_name s"
  shows "url_basename (BASE_BLOB_URL @ s) = Inr s"
proof -
  have free: "CHR ''/'' \<notin> set s" "CHR ''?'' \<notin> set s" "CHR ''#'' \<notin> set s" "CHR '';'' \<notin> set s"
    using plain_name_free [OF assms] by auto
  have b: "before c (blob_path @ s) = blob_path @ s" if "c \<notin> set blob_path" "c \<notin> set s" for c
    using that by (intro before_absent) auto
  have np: "CHR ''?'' \<notin> set blob_path" "CHR ''#'' \<notin> set blob_path"
    by code_simp+
  have q: "blob_path = butlast blob_path @ [CHR ''/'']" by code_simp
  have e: "blob_path @ s = butlast blob_path @ CHR ''/'' # s"
    by (subst q) (simp only: append_assoc append_Cons append_Nil)
  have last: "last_part (CHR ''/'') (blob_path @ s) = s"
    unfolding e by (rule last_part_append [OF free(1)])
  have path: "url_path (BASE_BLOB_URL @ s) = Inr (blob_path @ s)"
    using blob_url_parts [OF assms] b np free last
    by (simp add: url_path_def cut_params_def before_absent uses_params_def)
  then show ?thesis using last by (simp add: url_basename_def)
qed

section \<open>Properties\<close>

lemma blob_urls_renamed:
  "list_all (\<lambda>kv. plain_name (snd kv)) b \<Longrightarrow>
     rename_blobs (map (\<lambda>kv. (fst kv, BASE_BLOB_URL @ snd kv)) b) = (Inr (), b)"
  by (induction b) (auto simp: blob_url_basename)

lemma upserted_entry_sent:
  assumes "list_all (\<lambda>kv. plain_name (snd kv)) b"
  shows "fst (v1_update_entries [new_entry UPDATE c i props removed (blob_urls (Some b))]) =
    Inr (v2_update_entries [new_entry UPDATE c i props removed (Some b)])"
proof -
  let ?u = "map (\<lambda>kv. (fst kv, BASE_BLOB_URL @ snd kv)) b"
  let ?e1 = "new_entry UPDATE c i props removed (Some ?u)" and ?e0 = "new_entry UPDATE c i props removed (Some b)"
  have e0: "fill_blobs ?e1 b = ?e0" by (simp add: fill_blobs_def new_entry_def)
  have bl: "ue_blobs ?e1 = Some ?u" "ue_type ?e1 = UPDATE" by (simp_all add: new_entry_def)
  have valid: "DatabaseUpdateEntry_is_valid ?e1 = DatabaseUpdateEntry_is_valid ?e0"
    using fill_blobs_valid [OF bl(1), of b] e0 by simp
  show ?thesis
  proof (cases "DatabaseUpdateEntry_to_json ?e1")
    case None
    with valid have "DatabaseUpdateEntry_to_json ?e0 = None"
      using update_json_valid [of ?e1] update_json_valid [of ?e0]
      by (cases "DatabaseUpdateEntry_to_json ?e0") auto
    with None show ?thesis by (simp add: blob_urls_def)
  next
    case (Some raw)
    have has: "d_has raw ''updatedBlobs'' \<longleftrightarrow> b \<noteq> []"
      using update_json_keys(3) [OF Some bl(2)] bl(1) by (auto simp: d_has_def)
    show ?thesis
    proof (cases "b = []")
      case True
      then have "?e1 = ?e0" by simp
      with Some has True show ?thesis by (simp add: blob_urls_def v1_hack_names_def)
    next
      case False
      with fill_blobs_json [OF Some _ bl(1), of b] has e0
      have "DatabaseUpdateEntry_to_json ?e0 = Some (d_set raw ''updatedBlobs'' (JStrDict b))" by simp
      with Some has False bl(1) blob_urls_renamed [OF assms] show ?thesis
        by (simp add: blob_urls_def v1_hack_names_def)
    qed
  qed
qed

text \<open>
  Blob names survive the round trip through URLs: upserting a document with plain blob names
  makes URLs of them, and the version 1 update request turns exactly these back, so what is sent
  is the version 2 request for the names the caller gave.
\<close>

theorem upserted_blob_names_sent:
  assumes "list_all (\<lambda>kv. plain_name (snd kv)) blobs" "props \<noteq> Not_a_list"
  shows "fst (v1_PostUpdateDatabase_to_json (Some db)
      (Some (du_updates (fst (DatabaseUpdater_upsert_document c i props removed (Some blobs) (DatabaseUpdater_create db ix))))))
    = Inr (v2_PostUpdateDatabase_to_json (Some db)
        (Some [new_entry UPDATE c i (props_option props) removed (Some blobs)]))"
  using upserted_entry_sent [OF assms(1), of c i "props_option props" removed] assms(2)
  by (cases "v1_update_entries [new_entry UPDATE c i (props_option props) removed (blob_urls (Some blobs))]")
    (simp add: DatabaseUpdater_upsert_document_def DatabaseUpdater_create_def Let_def
      v1_PostUpdateDatabase_to_json_def v2_PostUpdateDatabase_to_json_def)

theorem upserted_blob_names_sent_witness:
  "fst (v1_PostUpdateDatabase_to_json (Some ''db'')
      (Some (du_updates (fst (DatabaseUpdater_upsert_document ''c'' ''d'' No_props None (Some [(''image'', ''s10.jpg'')])
         (DatabaseUpdater_create ''db'' 0))))))
    = Inr (v2_PostUpdateDatabase_to_json (Some ''db'')
        (Some [new_entry UPDATE ''c'' ''d'' (props_option No_props) None (Some [(''image'', ''s10.jpg'')])]))"
  by (rule upserted_blob_names_sent) (code_simp, simp)

end
