(* ===== verification/SgwTypes.thy ===== *)
theory SgwTypes
  imports Json
begin

text \<open>
  The data of \<open>api/syncgateway.py\<close>: replication payloads, the responses of _all_docs and _changes,
  update entries, documents and versions.  Values that the source casts to \<open>str\<close> are taken to be
  strings or null; where the server sends another type the model raises \<open>TypeError\<close> at once.
\<close>

section \<open>Inter-Sync-Gateway replication\<close>

record isgr_payload =
  ip_replication_id :: string
  ip_remote :: string
  ip_direction :: string
  ip_continuous :: bool
  ip_remote_username :: "string option"
  ip_remote_password :: "string option"
  ip_collections_local :: "string list option"
  ip_collections_remote :: "string list option"

definition ISGRPayload_create ::
    "string \<Rightarrow> string \<Rightarrow> string \<Rightarrow> string \<Rightarrow> bool \<Rightarrow> string option \<Rightarrow> string option \<Rightarrow> string list option
      \<Rightarrow> string list option \<Rightarrow> isgr_payload result" where
  "ISGRPayload_create rid url db direction cont user pass local remote =
     (if direction \<notin> set [''push'', ''pull'', ''pushAndPull''] then Inl ValueError
      else Inr \<lparr> ip_replication_id = rid, ip_remote = url @ ''/'' @ db, ip_direction = direction,
                 ip_continuous = cont, ip_remote_username = user, ip_remote_password = pass,
                 ip_collections_local = local, ip_collections_remote = remote \<rparr>)"

definition ISGRPayload_to_json :: "isgr_payload \<Rightarrow> json" where
  "ISGRPayload_to_json p =
     JObj ([(''replication_id'', JStr (ip_replication_id p)), (''remote'', JStr (ip_remote p)),
            (''direction'', JStr (ip_direction p)), (''continuous'', JBool (ip_continuous p))]
       @ opt_field ''remote_username'' (map_option JStr (ip_remote_username p))
       @ opt_field ''remote_password'' (map_option JStr (ip_remote_password p))
       @ (if ip_collections_local p \<noteq> None \<or> ip_collections_remote p \<noteq> None
          then [(''collections_enabled'', JBool True)] else [])
       @ opt_field ''collections_local'' (map_option JStrs (ip_collections_local p))
       @ opt_field ''collections_remote'' (map_option JStrs (ip_collections_remote p)))"

section \<open>Responses\<close>

definition str_or_null :: "json \<Rightarrow> string option result" where
  "str_or_null v = (case v of JStr s \<Rightarrow> Inr (Some s) | JNull \<Rightarrow> Inr None | _ \<Rightarrow> Inl TypeError)"

definition opt_str_key :: "jdict \<Rightarrow> string \<Rightarrow> string option result" where
  "opt_str_key d k = (case map_of d k of None \<Rightarrow> Inr None | Some v \<Rightarrow> str_or_null v)"

definition str_item :: "jdict \<Rightarrow> string \<Rightarrow> string result" where
  "str_item d k = rbind (d_item d k) (\<lambda>v. case v of JStr s \<Rightarrow> Inr s | _ \<Rightarrow> Inl TypeError)"

definition obj_of :: "json \<Rightarrow> jdict result" where
  "obj_of v = (case v of JObj d \<Rightarrow> Inr d | _ \<Rightarrow> Inl TypeError)"

definition list_of :: "json \<Rightarrow> json list result" where
  "list_of v = (case v of JList l \<Rightarrow> Inr l | _ \<Rightarrow> Inl TypeError)"

record all_docs_row =
  ar_key :: json
  ar_id :: string
  ar_revid :: "string option"
  ar_cv :: "string option"
  ar_doc :: "json option"

definition AllDocumentsResponseRow_revision :: "all_docs_row \<Rightarrow> string option" where
  "AllDocumentsResponseRow_revision r = (if ar_revid r \<noteq> None then ar_revid r else ar_cv r)"

definition AllDocumentsResponseRow_create :: "json \<Rightarrow> all_docs_row result" where
  "AllDocumentsResponseRow_create v =
     rbind (obj_of v) (\<lambda>row.
     rbind (d_item row ''value'') (\<lambda>value.
     rbind (obj_of value) (\<lambda>rev.
     rbind (d_item row ''key'') (\<lambda>key.
     rbind (str_item row ''id'') (\<lambda>i.
     rbind (opt_str_key rev ''rev'') (\<lambda>revid.
     rbind (opt_str_key rev ''cv'') (\<lambda>cv.
       Inr \<lparr> ar_key = key, ar_id = i, ar_revid = revid, ar_cv = cv, ar_doc = map_of row ''doc'' \<rparr>)))))))"

record all_docs_response =
  al_len :: json
  al_rows :: "all_docs_row list"
  al_revmap :: "(string, string option) pydict"

definition AllDocumentsResponse_create :: "jdict \<Rightarrow> all_docs_response result" where
  "AllDocumentsResponse_create input =
     rbind (d_item input ''total_rows'') (\<lambda>n.
     rbind (d_item input ''rows'') (\<lambda>v.
     rbind (list_of v) (\<lambda>l.
     rbind (mapM AllDocumentsResponseRow_create l) (\<lambda>rows.
       Inr \<lparr> al_len = n, al_rows = rows,
             al_revmap = foldl (\<lambda>m r. d_set m (ar_id r) (ar_revid r)) [] rows \<rparr>))))"

record changes_entry =
  ce_seq :: json
  ce_id :: string
  ce_changes :: "json list"
  ce_deleted :: json

text \<open>\<open>c.get("rev") or c.get("cv")\<close>.\<close>

definition rev_or_cv :: "json \<Rightarrow> json result" where
  "rev_or_cv c = rbind (obj_of c) (\<lambda>d.
     Inr (if truthy (get_or_null d ''rev'') then get_or_null d ''rev'' else get_or_null d ''cv''))"

definition ChangesResponseEntry_create :: "json \<Rightarrow> changes_entry result" where
  "ChangesResponseEntry_create v =
     rbind (obj_of v) (\<lambda>entry.
     rbind (str_item entry ''id'') (\<lambda>i.
     rbind (list_of (case map_of entry ''changes'' of None \<Rightarrow> JList [] | Some l \<Rightarrow> l)) (\<lambda>cl.
     rbind (mapM rev_or_cv cl) (\<lambda>changes.
       Inr \<lparr> ce_seq = (case map_of entry ''seq'' of None \<Rightarrow> JInt 0 | Some s \<Rightarrow> s), ce_id = i,
             ce_changes = changes,
             ce_deleted = (case map_of entry ''deleted'' of None \<Rightarrow> JBool False | Some b \<Rightarrow> b) \<rparr>))))"

definition ChangesResponse_create :: "jdict \<Rightarrow> (changes_entry list \<times> json) result" where
  "ChangesResponse_create input =
     rbind (list_of (case map_of input ''results'' of None \<Rightarrow> JList [] | Some l \<Rightarrow> l)) (\<lambda>l.
     rbind (mapM ChangesResponseEntry_create l) (\<lambda>es.
       Inr (es, case map_of input ''last_seq'' of None \<Rightarrow> JStr ''0'' | Some s \<Rightarrow> s)))"

section \<open>Updates and documents\<close>

text \<open>An update entry is its body, which has the document id and maybe a revision in it.\<close>

definition DocumentUpdateEntry_create :: "string \<Rightarrow> string option \<Rightarrow> jdict \<Rightarrow> jdict" where
  "DocumentUpdateEntry_create i revid body =
     (let b = d_set body ''_id'' (JStr i)
      in case revid of
           Some r \<Rightarrow> if r \<noteq> [] then d_set b ''_rev'' (JStr r) else b
         | None \<Rightarrow> b)"

definition DocumentUpdateEntry_id :: "jdict \<Rightarrow> json" where
  "DocumentUpdateEntry_id b = get_or_null b ''_id''"

definition DocumentUpdateEntry_rev :: "jdict \<Rightarrow> json" where
  "DocumentUpdateEntry_rev b = get_or_null b ''_rev''"

definition DocumentUpdateEntry_swap_rev :: "json \<Rightarrow> jdict \<Rightarrow> jdict" where
  "DocumentUpdateEntry_swap_rev revid b = d_set b ''_rev'' revid"

record remote_document =
  rm_id :: json
  rm_rev :: json
  rm_cv :: json
  rm_body :: jdict

text \<open>\<open>del d[k]\<close> for a key that may be missing.\<close>

definition del_item :: "jdict \<Rightarrow> string \<Rightarrow> jdict result" where
  "del_item d k = (if d_has d k then Inr (d_del d k) else Inl KeyError)"

definition RemoteDocument_create :: "jdict \<Rightarrow> remote_document result" where
  "RemoteDocument_create body =
     (if d_has body ''error'' then Inl ValueError
      else rbind (d_item body ''_id'') (\<lambda>i.
        let rev = get_or_null body ''_rev''; cv = get_or_null body ''_cv''
        in rbind (del_item body ''_id'') (\<lambda>b1.
           rbind (del_item b1 ''_rev'') (\<lambda>b2.
           rbind (if cv \<noteq> JNull then del_item b2 ''_cv'' else Inr b2) (\<lambda>b3.
             Inr \<lparr> rm_id = i, rm_rev = rev, rm_cv = cv, rm_body = b3 \<rparr>)))))"

definition RemoteDocument_revision :: "remote_document \<Rightarrow> json result" where
  "RemoteDocument_revision r =
     (if rm_cv r \<noteq> JNull then Inr (rm_cv r)
      else if rm_rev r = JNull then Inl AssertionError else Inr (rm_rev r))"

definition RemoteDocument_to_json :: "remote_document \<Rightarrow> jdict" where
  "RemoteDocument_to_json r =
     d_set (d_set (d_set (rm_body r) ''_id'' (rm_id r)) ''_rev'' (rm_rev r)) ''_cv'' (rm_cv r)"

section \<open>Versions\<close>

definition is_version_char :: "char \<Rightarrow> bool" where
  "is_version_char c = (is_digit c \<or> c = CHR ''.'')"

text \<open>The suffixes of a string that start after an occurrence of \<open>c\<close>, from the left.\<close>

fun suffixes_after :: "char \<Rightarrow> string \<Rightarrow> string list" where
  "suffixes_after c [] = []"
| "suffixes_after c (x # xs) = (if x = c then xs # suffixes_after c xs else suffixes_after c xs)"

text \<open>
  \<open>re.search(r"(?:^|/)([\d\.]+)(?=\s*\(|$)", s)\<close>: the first maximal run of digits and dots, at
  the start or after a slash, that an opening parenthesis or the end follows.
\<close>

definition version_at :: "string \<Rightarrow> string option" where
  "version_at s =
     (let run = takeWhile is_version_char s; rest = drop (length run) s
      in if run \<noteq> [] \<and> (rest = [] \<or> rest = [char_of (10 :: nat)]
            \<or> (case dropWhile is_space rest of [] \<Rightarrow> False | c # cs \<Rightarrow> c = CHR ''(''))
         then Some run else None)"

fun first_some :: "('a \<Rightarrow> 'b option) \<Rightarrow> 'a list \<Rightarrow> 'b option" where
  "first_some f [] = None"
| "first_some f (x # xs) = (case f x of Some y \<Rightarrow> Some y | None \<Rightarrow> first_some f xs)"

text \<open>\<open>re.search(r"(?<=\()([^;)]+)", s)\<close>.\<close>

definition build_at :: "string \<Rightarrow> string option" where
  "build_at s = (let run = takeWhile (\<lambda>c. c \<noteq> CHR '';'' \<and> c \<noteq> CHR '')'') s in if run \<noteq> [] then Some run else None)"

definition SyncGatewayVersion_parse :: "string \<Rightarrow> string \<times> int" where
  "SyncGatewayVersion_parse input =
     (case first_some version_at (input # suffixes_after (CHR ''/'') input) of
        Some v \<Rightarrow> v | None \<Rightarrow> ''unknown'',
      case first_some build_at (suffixes_after (CHR ''('') input) of
        Some b \<Rightarrow> (case py_int b of Some n \<Rightarrow> n | None \<Rightarrow> 0)
      | None \<Rightarrow> 0)"

lemma version_examples:
  "SyncGatewayVersion_parse ''Couchbase Sync Gateway/4.0.0(350;def456)'' = (''4.0.0'', 350)"
  "SyncGatewayVersion_parse ''4.0.0(350;def456)'' = (''4.0.0'', 350)"
  "SyncGatewayVersion_parse ''4.0.0'' = (''4.0.0'', 0)"
  "SyncGatewayVersion_parse ''Couchbase Sync Gateway/() EE'' = (''unknown'', 0)"
  by code_simp+

lemma suffixes_after_free: "c \<notin> set p \<Longrightarrow> suffixes_after c (p @ s) = suffixes_after c s"
  by (induction p) auto

lemma takeWhile_all_stop: "list_all P v \<Longrightarrow> \<not> P c \<Longrightarrow> takeWhile P (v @ c # s) = v"
  by (induction v) auto

text \<open>A release string: product, version, build number and suffix.\<close>

lemma is_digit_not: "is_digit c \<Longrightarrow> c \<notin> set ''/(;)+-_ ''"
  by (auto simp: is_digit_def)

lemma digit_not_space: "is_digit c \<Longrightarrow> \<not> is_space c"
  by (auto simp: is_digit_def is_space_def Let_def)

lemma dropWhile_none: "(\<And>c. c \<in> set s \<Longrightarrow> \<not> P c) \<Longrightarrow> dropWhile P s = s"
  by (cases s) auto

lemma py_strip_clean:
  assumes "\<And>c. c \<in> set s \<Longrightarrow> \<not> is_space c"
  shows "py_strip s = s"
proof -
  have "dropWhile is_space s = s" "dropWhile is_space (rev s) = rev s"
    using assms by (auto intro!: dropWhile_none)
  then show ?thesis by (simp add: py_strip_def)
qed

lemma py_int_nat_str: "py_int (nat_str n) = Some (int n)"
proof -
  have ns: "\<not> is_space c" if "c \<in> set (nat_str n)" for c
    using nat_str_digits [OF that] by (rule digit_not_space)
  have strip: "py_strip (nat_str n) = nat_str n"
    using ns by (rule py_strip_clean)
  obtain c cs where c: "nat_str n = c # cs" by (cases "nat_str n") auto
  then have "c \<notin> set ''/(;)+-_ ''" using nat_str_digits [of c n] is_digit_not by simp
  then show ?thesis
    using strip c unsigned_val_nat_str [of n] by (simp add: py_int_def)
qed

section \<open>Properties\<close>

text \<open>
  A document of Sync Gateway is accepted exactly when it has an id and a revision and no
  error, and printing an accepted document gives back every key of the answer, with a null
  \<open>_cv\<close> when the answer had none.
\<close>

theorem remote_document_roundtrip:
  "(case RemoteDocument_create body of
      Inl e \<Rightarrow> \<not> (\<not> d_has body ''error'' \<and> d_has body ''_id'' \<and> d_has body ''_rev'')
    | Inr r \<Rightarrow> \<not> d_has body ''error'' \<and> d_has body ''_id'' \<and> d_has body ''_rev''
        \<and> map_of (RemoteDocument_to_json r) = (map_of body)(''_cv'' \<mapsto> get_or_null body ''_cv''))"
proof (cases "RemoteDocument_create body")
  case (Inl e)
  then show ?thesis
    by (auto simp: RemoteDocument_create_def del_item_def d_item_def d_has_def get_or_null_def Let_def
        split: option.splits if_splits)
next
  case (Inr r)
  then have "map_of (RemoteDocument_to_json r) = (map_of body)(''_cv'' \<mapsto> get_or_null body ''_cv'')"
    by (auto simp: RemoteDocument_create_def RemoteDocument_to_json_def del_item_def d_item_def d_has_def
        get_or_null_def Let_def fun_eq_iff split: option.splits if_splits)
  moreover have "\<not> d_has body ''error'' \<and> d_has body ''_id'' \<and> d_has body ''_rev''"
    using Inr by (auto simp: RemoteDocument_create_def del_item_def d_item_def d_has_def Let_def
        result_simps split: option.splits if_splits)
  ultimately show ?thesis using Inr by simp
qed

text \<open>
  The version of a release string \<open>product/version(build;...)\<close> is parsed into exactly that
  version and that build number.
\<close>

theorem version_of_release_string:
  assumes p: "CHR ''/'' \<notin> set p" "CHR ''('' \<notin> set p" "p \<noteq> []" "\<not> is_version_char (hd p)"
    and v: "v \<noteq> []" "list_all is_version_char v"
  shows "SyncGatewayVersion_parse (p @ ''/'' @ v @ ''('' @ nat_str n @ '';'' @ r) = (v, int n)"
proof -
  let ?s = "p @ ''/'' @ v @ ''('' @ nat_str n @ '';'' @ r"
  have vfree: "c \<notin> set v" if "\<not> is_version_char c" for c
    using that v(2) by (auto simp: list_all_iff)
  have par: "\<not> is_version_char (CHR ''('')" by code_simp
  have none: "version_at ?s = None"
    using p(3,4) by (cases p) (auto simp: version_at_def)
  have run: "takeWhile is_version_char (v @ CHR ''('' # nat_str n @ '';'' @ r) = v"
    by (rule takeWhile_all_stop [OF v(2) par])
  have sp: "\<not> is_space (CHR ''('')" by code_simp
  have "version_at (v @ CHR ''('' # nat_str n @ '';'' @ r) = Some v"
    using v(1) run sp by (simp add: version_at_def Let_def)
  then have ver: "first_some version_at (?s # suffixes_after (CHR ''/'') ?s) = Some v"
    using none p(1) by (simp add: suffixes_after_free)
  have digits: "list_all (\<lambda>c. c \<noteq> CHR '';'' \<and> c \<noteq> CHR '')'') (nat_str n)"
    using nat_str_digits [of _ n] is_digit_not by (fastforce simp: list_all_iff)
  have "takeWhile (\<lambda>c. c \<noteq> CHR '';'' \<and> c \<noteq> CHR '')'') (nat_str n @ CHR '';'' # r) = nat_str n"
    by (rule takeWhile_all_stop [OF digits]) simp
  then have "build_at (nat_str n @ CHR '';'' # r) = Some (nat_str n)" by (simp add: build_at_def)
  moreover have "suffixes_after (CHR ''('') ?s = suffixes_after (CHR ''('') (''('' @ nat_str n @ '';'' @ r)"
  proof -
    have "CHR ''('' \<notin> set (p @ ''/'' @ v)" using p(2) vfree [OF par] by simp
    from suffixes_after_free [OF this, of "''('' @ nat_str n @ '';'' @ r"] show ?thesis by simp
  qed
  ultimately have "first_some build_at (suffixes_after (CHR ''('') ?s) = Some (nat_str n)" by simp
  with ver show ?thesis by (simp add: SyncGatewayVersion_parse_def py_int_nat_str)
qed

theorem version_of_release_string_witness:
  "SyncGatewayVersion_parse (''Couchbase Sync Gateway'' @ ''/'' @ ''4.0.0'' @ ''('' @ nat_str 350 @ '';'' @ ''abc) EE'')
     = (''4.0.0'', 350)"
proof -
  have "CHR ''/'' \<notin> set ''Couchbase Sync Gateway''" "CHR ''('' \<notin> set ''Couchbase Sync Gateway''"
    "''Couchbase Sync Gateway'' \<noteq> []" "\<not> is_version_char (hd ''Couchbase Sync Gateway'')"
    "''4.0.0'' \<noteq> []" "list_all is_version_char ''4.0.0''"
    by code_simp+
  from version_of_release_string [OF this, of 350 "''abc) EE''"] show ?thesis by simp
qed

end
