(* ===== verification/SyncGateway.thy ===== *)
theory SyncGateway
  imports SgwTypes Transport Attempts
begin

text \<open>
  The Sync Gateway client (\<open>api/syncgateway.py\<close>): the request primitive of \<open>_SyncGatewayBase\<close> and the
  operations built on it.  The HTTP session is a parameter, a computation over the world; the
  operations take \<open>send\<close>, the client's own \<open>_send_request\<close>, and \<open>sleep\<close>.  Validation of a
  reply by a pydantic model is a parameter too.  Values that the code casts to a string or a
  dictionary must be one, else the operation raises \<open>TypeError\<close>.
\<close>

section \<open>The request primitive\<close>

text \<open>\<open>gr_session\<close> is \<open>None\<close> for the client's own session, else user, password and port of another one.\<close>

record sgw_request =
  gr_method :: string
  gr_path :: string
  gr_data :: "json option"
  gr_params :: "(string, string) pydict"
  gr_session :: "(string \<times> string \<times> int) option"

record sgw_reply =
  gp_status :: int
  gp_content_type :: string
  gp_json :: "json result"
  gp_text :: string

type_synonym 's sgw_send = "sgw_request \<Rightarrow> ('s, json) io"

definition request :: "string \<Rightarrow> string \<Rightarrow> json option \<Rightarrow> (string, string) pydict \<Rightarrow> sgw_request" where
  "request method path data params =
     \<lparr> gr_method = method, gr_path = path, gr_data = data, gr_params = params, gr_session = None \<rparr>"

text \<open>
  The end is logged before the status is looked at; a session that raises leaves the begin only.
\<close>

definition SyncGateway_send_request ::
    "(sgw_request \<Rightarrow> ('w, sgw_reply) io) \<Rightarrow> sgw_request \<Rightarrow> ('w client_world, json) io" where
  "SyncGateway_send_request session rq w0 =
     (let num = cw_next_num w0; w = write_log num Log_begin (w0\<lparr>cw_next_num := Suc num\<rparr>)
      in case session rq (cw_net w) of
           (Inl e, n) \<Rightarrow> (Inl e, w\<lparr>cw_net := n\<rparr>)
         | (Inr resp, n) \<Rightarrow>
             (let w = w\<lparr>cw_net := n\<rparr>
              in case (if prefix ''application/json'' (gp_content_type resp) then gp_json resp
                       else Inr (JStr (gp_text resp))) of
                   Inl e \<Rightarrow> (Inl e, w)
                 | Inr ret_val \<Rightarrow>
                     (if \<not> gp_status resp < 400
                      then Inl (CblSyncGatewayBadResponseError (Some (gp_status resp))) else Inr ret_val,
                      write_log num Log_end w)))"

text \<open>\<open>/{db}.{scope}.{collection}\<close>.\<close>

definition keyspace :: "string \<Rightarrow> string \<Rightarrow> string \<Rightarrow> string" where
  "keyspace db scope collection = ''/'' @ db @ ''.'' @ scope @ ''.'' @ collection"

definition assert_dict :: "json \<Rightarrow> jdict result" where
  "assert_dict v = (case v of JObj d \<Rightarrow> Inr d | _ \<Rightarrow> Inl AssertionError)"

definition send_dict :: "'s sgw_send \<Rightarrow> sgw_request \<Rightarrow> ('s, jdict) io" where
  "send_dict send rq = io_bind (send rq) (\<lambda>v. io_lift (assert_dict v))"

section \<open>Statistics and databases\<close>

definition SyncGateway_bytes_transferred :: "'s sgw_send \<Rightarrow> string \<Rightarrow> ('s, json \<times> json) io" where
  "SyncGateway_bytes_transferred send dataset =
     io_bind (send_dict send (request ''get'' ''/_expvar'' None [])) (\<lambda>expvars. io_lift (
       rbind (d_item expvars ''syncgateway'') (\<lambda>a.
       rbind (py_item a ''per_db'') (\<lambda>b.
       rbind (py_item b dataset) (\<lambda>c.
       rbind (py_item c ''database'') (\<lambda>db_stats.
       rbind (py_item db_stats ''doc_reads_bytes_blip'') (\<lambda>r.
       rbind (py_item db_stats ''doc_writes_bytes_blip'') (\<lambda>w.
         Inr (r, w)))))))))"

definition SyncGateway_get_delta_sync_stats :: "'s sgw_send \<Rightarrow> string \<Rightarrow> ('s, jdict) io" where
  "SyncGateway_get_delta_sync_stats send dataset =
     io_bind (send_dict send (request ''get'' ''/_expvar'' None [])) (\<lambda>expvars. io_lift (
       case rbind (d_item expvars ''syncgateway'') (\<lambda>a.
            rbind (py_item a ''per_db'') (\<lambda>b. py_item b dataset)) of
         Inl KeyError \<Rightarrow> Inr []
       | Inl e \<Rightarrow> Inl e
       | Inr (JObj db_section) \<Rightarrow>
           Inr (case get_or_null db_section ''delta_sync'' of JObj delta \<Rightarrow> delta | _ \<Rightarrow> [])
       | Inr v \<Rightarrow> Inl AttributeError))"

definition SyncGateway_put_database :: "'s sgw_send \<Rightarrow> string \<Rightarrow> json \<Rightarrow> ('s, unit) io" where
  "SyncGateway_put_database send db payload =
     io_bind (send (request ''put'' (''/'' @ db @ ''/'') (Some payload) [])) (\<lambda>_. io_return ())"

definition SyncGateway_get_database_status ::
    "'s sgw_send \<Rightarrow> (jdict \<Rightarrow> 'a result) \<Rightarrow> string \<Rightarrow> ('s, 'a option) io" where
  "SyncGateway_get_database_status send validate db =
     io_try
       (io_bind (send_dict send (request ''get'' (''/'' @ db @ ''/'') None [])) (\<lambda>d.
          io_lift (rbind (validate d) (\<lambda>s. Inr (Some s)))))
       (\<lambda>e. if e = CblSyncGatewayBadResponseError (Some 403) \<or> e = CblSyncGatewayBadResponseError (Some 404)
            then io_return None else io_raise e)"

text \<open>
  \<open>_delete_database\<close>: the argument is the number of retries that are left, 3 minus the code's
  \<open>retry_count\<close>.
\<close>

definition delete_step :: "'s sgw_send \<Rightarrow> (rat \<Rightarrow> 's \<Rightarrow> 's) \<Rightarrow> string \<Rightarrow> 's \<Rightarrow> unit result option \<times> 's" where
  "delete_step send sleep db w =
     (case send (request ''delete'' (''/'' @ db) None []) w of
        (Inr _, w') \<Rightarrow> (Some (Inr ()), w')
      | (Inl e, w') \<Rightarrow>
          if e = CblSyncGatewayBadResponseError (Some 500) then (None, sleep 2 w')
          else if e = CblSyncGatewayBadResponseError (Some 403) \<or> e = CblSyncGatewayBadResponseError (Some 404)
          then (Some (Inr ()), w')
          else (Some (Inl e), w'))"

definition delete_last :: "'s sgw_send \<Rightarrow> string \<Rightarrow> ('s, unit) io" where
  "delete_last send db w =
     (case send (request ''delete'' (''/'' @ db) None []) w of
        (Inr _, w') \<Rightarrow> (Inr (), w')
      | (Inl e, w') \<Rightarrow>
          if e = CblSyncGatewayBadResponseError (Some 403) \<or> e = CblSyncGatewayBadResponseError (Some 404)
          then (Inr (), w') else (Inl e, w'))"

primrec delete_loop :: "'s sgw_send \<Rightarrow> (rat \<Rightarrow> 's \<Rightarrow> 's) \<Rightarrow> string \<Rightarrow> nat \<Rightarrow> ('s, unit) io" where
  "delete_loop send sleep db 0 w = delete_last send db w"
| "delete_loop send sleep db (Suc left) w =
     (case delete_step send sleep db w of
        (Some r, w') \<Rightarrow> (r, w')
      | (None, w') \<Rightarrow> delete_loop send sleep db left w')"

definition SyncGateway_delete_database :: "'s sgw_send \<Rightarrow> (rat \<Rightarrow> 's \<Rightarrow> 's) \<Rightarrow> string \<Rightarrow> ('s, unit) io" where
  "SyncGateway_delete_database send sleep db = delete_loop send sleep db 3"

interpretation dl: attempt_loop "delete_loop send sleep db" "delete_step send sleep db" "delete_last send db"
  by unfold_locales simp_all

definition SyncGateway_get_all_database_names :: "'s sgw_send \<Rightarrow> ('s, json list) io" where
  "SyncGateway_get_all_database_names send =
     io_bind (send (request ''get'' ''/_all_dbs'' None [])) (\<lambda>v.
       case v of JList l \<Rightarrow> io_return l | _ \<Rightarrow> io_raise AssertionError)"

definition SyncGateway_get_all_databases_verbose ::
    "'s sgw_send \<Rightarrow> (json list \<Rightarrow> 'e list result) \<Rightarrow> ('e \<Rightarrow> string) \<Rightarrow> ('s, (string, 'e) pydict) io" where
  "SyncGateway_get_all_databases_verbose send validate db_name =
     io_bind (send (request ''get'' ''/_all_dbs?verbose=true'' None [])) (\<lambda>v.
       case v of
         JList l \<Rightarrow> io_lift (rbind (validate l) (\<lambda>es. Inr (foldl (\<lambda>d e. d_set d (db_name e) e) [] es)))
       | _ \<Rightarrow> io_raise AssertionError)"

section \<open>Loading a dataset\<close>

fun analyze_dataset_items :: "json list \<Rightarrow> unit result" where
  "analyze_dataset_items [] = Inr ()"
| "analyze_dataset_items (r # rs) =
     (case r of
        JObj info \<Rightarrow>
          (if d_has info ''error''
           then rbind (d_item info ''status'') (\<lambda>s. Inl (CblSyncGatewayBadResponseError (status_int s)))
           else analyze_dataset_items rs)
      | _ \<Rightarrow> Inl AssertionError)"

definition SyncGateway_analyze_dataset_response :: "json \<Rightarrow> unit result" where
  "SyncGateway_analyze_dataset_response response =
     (case response of JList l \<Rightarrow> analyze_dataset_items l | _ \<Rightarrow> Inl AssertionError)"

definition send_batch :: "'s sgw_send \<Rightarrow> string \<Rightarrow> string \<Rightarrow> string \<Rightarrow> jdict list \<Rightarrow> ('s, unit) io" where
  "send_batch send db scope collection collected =
     io_bind (send (request ''post'' (keyspace db scope collection @ ''/_bulk_docs'')
                (Some (JObj [(''docs'', JList (map JObj collected))])) []))
       (\<lambda>resp. io_lift (SyncGateway_analyze_dataset_response resp))"

text \<open>The loop over the lines of the file; a line is what \<open>json.loads\<close> makes of it.\<close>

fun load_lines ::
    "'s sgw_send \<Rightarrow> string \<Rightarrow> string \<Rightarrow> string \<Rightarrow> jdict list \<Rightarrow> json result list
      \<Rightarrow> ('s, string \<times> string \<times> jdict list) io" where
  "load_lines send db last_scope last_coll collected [] = io_return (last_scope, last_coll, collected)"
| "load_lines send db last_scope last_coll collected (line # rest) =
     io_bind (io_lift (
       rbind line (\<lambda>v. rbind (assert_dict v) (\<lambda>doc.
       rbind (str_item doc ''scope'') (\<lambda>scope.
       rbind (str_item doc ''collection'') (\<lambda>collection. Inr (doc, scope, collection)))))))
       (\<lambda>(doc, scope, collection).
         if (last_scope \<noteq> scope \<or> last_coll \<noteq> collection \<or> length collected > 500)
            \<and> last_scope \<noteq> [] \<and> last_coll \<noteq> [] \<and> collected \<noteq> []
         then io_bind (send_batch send db last_scope last_coll collected)
                (\<lambda>_. load_lines send db scope collection [doc] rest)
         else load_lines send db scope collection (collected @ [doc]) rest)"

definition SyncGateway_load_dataset :: "'s sgw_send \<Rightarrow> string \<Rightarrow> json result list \<Rightarrow> ('s, unit) io" where
  "SyncGateway_load_dataset send db lines =
     io_bind (load_lines send db [] [] [] lines) (\<lambda>(last_scope, last_coll, collected).
       if collected \<noteq> [] then send_batch send db last_scope last_coll collected else io_return ())"

section \<open>Documents\<close>

definition SyncGateway_get_all_documents ::
    "'s sgw_send \<Rightarrow> string \<Rightarrow> string \<Rightarrow> string \<Rightarrow> bool \<Rightarrow> ('s, all_docs_response) io" where
  "SyncGateway_get_all_documents send db scope collection include_docs =
     io_bind (send_dict send (request ''get'' (keyspace db scope collection @ ''/_all_docs'') None
       (if include_docs then [(''include_docs'', ''true'')] else [])))
       (\<lambda>d. io_lift (AllDocumentsResponse_create d))"

definition SyncGateway_get_changes ::
    "'s sgw_send \<Rightarrow> string \<Rightarrow> string \<Rightarrow> string \<Rightarrow> string \<Rightarrow> ('s, changes_entry list \<times> json) io" where
  "SyncGateway_get_changes send db scope collection version_type =
     io_bind (send_dict send (request ''get''
       (keyspace db scope collection @ ''/_changes?version_type='' @ version_type) None []))
       (\<lambda>d. io_lift (ChangesResponse_create d))"

text \<open>
  \<open>_rewrite_rev_ids\<close> assigns to the entries of the caller: the entries are part of the result, also
  when it raises half way.  The entry that a row names is the first with its id.
\<close>

fun swap_first :: "json \<Rightarrow> json \<Rightarrow> jdict list \<Rightarrow> jdict list option" where
  "swap_first next_id new_rev [] = None"
| "swap_first next_id new_rev (u # us) =
     (if py_eq (DocumentUpdateEntry_id u) next_id then Some (DocumentUpdateEntry_swap_rev new_rev u # us)
      else map_option ((#) u) (swap_first next_id new_rev us))"

fun rewrite_rows :: "json list \<Rightarrow> jdict list \<Rightarrow> unit result \<times> jdict list" where
  "rewrite_rows [] updates = (Inr (), updates)"
| "rewrite_rows (r # rs) updates =
     (case py_item r ''id'' of
        Inl e \<Rightarrow> (Inl e, updates)
      | Inr next_id \<Rightarrow>
          if \<not> list_ex (\<lambda>u. py_eq (DocumentUpdateEntry_id u) next_id) updates then (Inl AssertionError, updates)
          else case rbind (py_item r ''value'') (\<lambda>v. py_item v ''rev'') of
                 Inl e \<Rightarrow> (Inl e, updates)
               | Inr new_rev \<Rightarrow>
                   (case swap_first next_id new_rev updates of
                      None \<Rightarrow> (Inl AssertionError, updates)
                    | Some updates' \<Rightarrow> rewrite_rows rs updates'))"

definition all_docs_rows :: "json \<Rightarrow> json list result" where
  "all_docs_rows v =
     (case v of
        JObj d \<Rightarrow> rbind (d_item d ''rows'') (\<lambda>rows. case rows of JList l \<Rightarrow> Inr l | _ \<Rightarrow> Inl ValueError)
      | _ \<Rightarrow> Inl ValueError)"

definition SyncGateway_rewrite_rev_ids ::
    "'s sgw_send \<Rightarrow> string \<Rightarrow> string \<Rightarrow> string \<Rightarrow> jdict list \<Rightarrow> 's \<Rightarrow> (unit result \<times> jdict list) \<times> 's" where
  "SyncGateway_rewrite_rev_ids send db scope collection updates w =
     (case mapM (\<lambda>u. d_item u ''_id'') (filter (\<lambda>u. DocumentUpdateEntry_rev u \<noteq> JNull) updates) of
        Inl e \<Rightarrow> ((Inl e, updates), w)
      | Inr keys \<Rightarrow>
          (case io_bind (send (request ''post'' (keyspace db scope collection @ ''/_all_docs'')
                   (Some (JObj [(''keys'', JList keys)])) [])) (\<lambda>v. io_lift (all_docs_rows v)) w of
             (Inl e, w') \<Rightarrow> ((Inl e, updates), w')
           | (Inr rows, w') \<Rightarrow> (rewrite_rows rows updates, w')))"

definition send_updates ::
    "'s sgw_send \<Rightarrow> string \<Rightarrow> string \<Rightarrow> string \<Rightarrow> jdict list \<Rightarrow> ('s, unit) io" where
  "send_updates send db scope collection updates =
     io_bind (send (request ''post'' (keyspace db scope collection @ ''/_bulk_docs'')
                (Some (JObj [(''docs'', JList (map JObj updates))])) []))
       (\<lambda>_. io_return ())"

definition SyncGateway_update_documents ::
    "'s sgw_send \<Rightarrow> string \<Rightarrow> string \<Rightarrow> string \<Rightarrow> jdict list \<Rightarrow> 's \<Rightarrow> (unit result \<times> jdict list) \<times> 's" where
  "SyncGateway_update_documents send db scope collection updates w =
     (case SyncGateway_rewrite_rev_ids send db scope collection updates w of
        ((Inl e, updates'), w') \<Rightarrow> ((Inl e, updates'), w')
      | ((Inr _, updates'), w') \<Rightarrow>
          (let (r, w'') = send_updates send db scope collection updates' w' in ((r, updates'), w'')))"

definition SyncGateway_get_document ::
    "'s sgw_send \<Rightarrow> string \<Rightarrow> json \<Rightarrow> string \<Rightarrow> string \<Rightarrow> ('s, remote_document option) io" where
  "SyncGateway_get_document send db doc_id scope collection =
     io_bind (io_lift (case doc_id of JStr s \<Rightarrow> Inr s | _ \<Rightarrow> Inl TypeError)) (\<lambda>i.
     io_bind (send (request ''get'' (keyspace db scope collection @ ''/'' @ i) None [])) (\<lambda>response.
       case response of
         JObj d \<Rightarrow>
           if d_has d ''error''
           then io_lift (rbind (d_item d ''reason'') (\<lambda>reason.
                  if py_eq reason (JStr ''missing'') \<or> py_eq reason (JStr ''deleted'') then Inr None
                  else Inl (CblSyncGatewayBadResponseError (Some 500))))
           else io_lift (rbind (RemoteDocument_create d) (\<lambda>r. Inr (Some r)))
       | _ \<Rightarrow> io_raise ValueError))"

text \<open>What one update becomes: the current body with the fields of the update over it.\<close>

definition merge_update :: "jdict \<Rightarrow> jdict \<Rightarrow> jdict" where
  "merge_update current update =
     (let body = d_set (d_update current update) ''_id'' (DocumentUpdateEntry_id update)
      in if truthy (DocumentUpdateEntry_rev update) then d_set body ''_rev'' (DocumentUpdateEntry_rev update)
         else body)"

text \<open>\<open>DocumentUpdateEntry(update.id, update.rev, body)\<close> for an entry \<open>update\<close>.\<close>

definition rewrap_update :: "jdict \<Rightarrow> jdict \<Rightarrow> jdict" where
  "rewrap_update update body =
     (let b = d_set body ''_id'' (DocumentUpdateEntry_id update)
      in if truthy (DocumentUpdateEntry_rev update) then d_set b ''_rev'' (DocumentUpdateEntry_rev update) else b)"

definition upsert_one ::
    "'s sgw_send \<Rightarrow> string \<Rightarrow> string \<Rightarrow> string \<Rightarrow> jdict \<Rightarrow> ('s, jdict) io" where
  "upsert_one send db scope collection update w =
     (let (r, w') = SyncGateway_get_document send db (DocumentUpdateEntry_id update) scope collection w;
          body = (case r of Inr (Some current) \<Rightarrow> merge_update (rm_body current) update | _ \<Rightarrow> update)
      in if d_has update ''_id'' then (Inr (rewrap_update update body), w') else (Inl KeyError, w'))"

fun upsert_all ::
    "'s sgw_send \<Rightarrow> string \<Rightarrow> string \<Rightarrow> string \<Rightarrow> jdict list \<Rightarrow> ('s, jdict list) io" where
  "upsert_all send db scope collection [] = io_return []"
| "upsert_all send db scope collection (u # us) =
     io_bind (upsert_one send db scope collection u) (\<lambda>m.
     io_bind (upsert_all send db scope collection us) (\<lambda>ms. io_return (m # ms)))"

definition SyncGateway_upsert_documents ::
    "'s sgw_send \<Rightarrow> string \<Rightarrow> string \<Rightarrow> string \<Rightarrow> jdict list \<Rightarrow> ('s, unit) io" where
  "SyncGateway_upsert_documents send db scope collection updates =
     io_bind (upsert_all send db scope collection updates) (\<lambda>merged w.
       case SyncGateway_rewrite_rev_ids send db scope collection merged w of
         ((Inl e, _), w') \<Rightarrow> (Inl e, w')
       | ((Inr _, merged'), w') \<Rightarrow> send_updates send db scope collection merged' w')"

definition SyncGateway_replaced_revid ::
    "'s sgw_send \<Rightarrow> string \<Rightarrow> string \<Rightarrow> string \<Rightarrow> string \<Rightarrow> string \<Rightarrow> ('s, json) io" where
  "SyncGateway_replaced_revid send doc_id revid db scope collection =
     io_bind (send_dict send (request ''get'' (keyspace db scope collection @ ''/'' @ doc_id @ ''?show_cv=true'') None []))
       (\<lambda>d. io_lift (
         rbind (d_item d ''_cv'') (\<lambda>cv.
         rbind (if py_eq (JStr revid) cv then Inr ()
                else rbind (d_item d ''_rev'') (\<lambda>rev. py_assert (py_eq (JStr revid) rev))) (\<lambda>_.
           d_item d ''_rev''))))"

definition SyncGateway_delete_document ::
    "'s sgw_send \<Rightarrow> string \<Rightarrow> string \<Rightarrow> string \<Rightarrow> string \<Rightarrow> string \<Rightarrow> ('s, unit) io" where
  "SyncGateway_delete_document send doc_id revid db scope collection =
     io_bind (if CHR ''@'' \<in> set revid
              then io_bind (SyncGateway_replaced_revid send doc_id revid db scope collection)
                     (\<lambda>v. io_lift (case v of JStr s \<Rightarrow> Inr s | _ \<Rightarrow> Inl TypeError))
              else io_return revid) (\<lambda>new_rev_id.
     io_bind (send (request ''delete'' (keyspace db scope collection @ ''/'' @ doc_id) None [(''rev'', new_rev_id)]))
       (\<lambda>_. io_return ()))"

definition SyncGateway_purge_document ::
    "'s sgw_send \<Rightarrow> string \<Rightarrow> string \<Rightarrow> string \<Rightarrow> string \<Rightarrow> ('s, unit) io" where
  "SyncGateway_purge_document send doc_id db scope collection =
     io_bind (send (request ''post'' (keyspace db scope collection @ ''/_purge'')
                (Some (JObj [(doc_id, JList [JStr ''*''])])) []))
       (\<lambda>_. io_return ())"

text \<open>\<open>d[new] = d.pop(old)\<close> when there is one.\<close>

definition rename_key :: "string \<Rightarrow> string \<Rightarrow> jdict \<Rightarrow> jdict" where
  "rename_key old new d = (case map_of d old of None \<Rightarrow> d | Some v \<Rightarrow> d_set (d_del d old) new v)"

definition written_document :: "json \<Rightarrow> remote_document result" where
  "written_document response =
     (case response of
        JObj d \<Rightarrow>
          if d_has d ''error'' then Inl (CblSyncGatewayBadResponseError (Some 500))
          else RemoteDocument_create (rename_key ''cv'' ''_cv'' (rename_key ''rev'' ''_rev'' (rename_key ''id'' ''_id'' d)))
      | _ \<Rightarrow> Inl (CblSyncGatewayBadResponseError (Some 500)))"

definition SyncGateway_create_document ::
    "'s sgw_send \<Rightarrow> string \<Rightarrow> string \<Rightarrow> jdict \<Rightarrow> string \<Rightarrow> string \<Rightarrow> ('s, remote_document) io" where
  "SyncGateway_create_document send db doc_id document scope collection =
     io_bind (send (request ''put'' (keyspace db scope collection @ ''/'' @ doc_id)
                (Some (JObj (d_set document ''_id'' (JStr doc_id)))) []))
       (\<lambda>response. io_lift (written_document response))"

definition SyncGateway_update_document ::
    "'s sgw_send \<Rightarrow> string \<Rightarrow> string \<Rightarrow> jdict \<Rightarrow> string \<Rightarrow> string \<Rightarrow> string \<Rightarrow> ('s, remote_document) io" where
  "SyncGateway_update_document send db doc_id document revid scope collection =
     io_bind (send (request ''put'' (keyspace db scope collection @ ''/'' @ doc_id)
                (Some (JObj (d_set (d_set document ''_id'' (JStr doc_id)) ''_rev'' (JStr revid))))
                [(''new_edits'', ''true''), (''rev'', revid)]))
       (\<lambda>response. io_lift (written_document response))"

definition SyncGateway_get_database_config ::
    "'s sgw_send \<Rightarrow> (json \<Rightarrow> 'c result) \<Rightarrow> string \<Rightarrow> ('s, 'c) io" where
  "SyncGateway_get_database_config send validate db =
     io_bind (send (request ''GET'' (''/'' @ db @ ''/_config'') None [])) (\<lambda>v. io_lift (validate v))"

definition SyncGateway_get_document_revision_public ::
    "'s sgw_send \<Rightarrow> string \<Rightarrow> string \<Rightarrow> string \<Rightarrow> string \<Rightarrow> string \<Rightarrow> string \<Rightarrow> string \<Rightarrow> ('s, json) io" where
  "SyncGateway_get_document_revision_public send db doc_id revision user password scope collection =
     send \<lparr> gr_method = ''GET'',
            gr_path = (if scope \<noteq> ''_default'' \<or> collection \<noteq> ''_default''
                       then ''/'' @ db @ ''/'' @ scope @ ''.'' @ collection @ ''/'' @ doc_id
                       else ''/'' @ db @ ''/'' @ doc_id),
            gr_data = None, gr_params = [(''rev'', revision)], gr_session = Some (user, password, 4984) \<rparr>"

section \<open>Datasets are loaded in batches\<close>

text \<open>The keyspace that a line of a dataset names, and the lines that name one.\<close>

definition doc_keyspace :: "jdict \<Rightarrow> string \<times> string" where
  "doc_keyspace d =
     (let part = (\<lambda>k. case map_of d k of Some (JStr s) \<Rightarrow> s | _ \<Rightarrow> []) in (part ''scope'', part ''collection''))"

definition dataset_doc :: "jdict \<Rightarrow> bool" where
  "dataset_doc d = (fst (doc_keyspace d) \<noteq> [] \<and> snd (doc_keyspace d) \<noteq> [])"

text \<open>The batches, and sending them one after the other.\<close>

fun batches :: "jdict list \<Rightarrow> jdict list \<Rightarrow> jdict list list" where
  "batches acc [] = (if acc = [] then [] else [acc])"
| "batches acc (d # ds) =
     (if acc \<noteq> [] \<and> (doc_keyspace (hd acc) \<noteq> doc_keyspace d \<or> length acc > 500)
      then acc # batches [d] ds else batches (acc @ [d]) ds)"

fun send_batches :: "'s sgw_send \<Rightarrow> string \<Rightarrow> jdict list list \<Rightarrow> ('s, unit) io" where
  "send_batches send db [] = io_return ()"
| "send_batches send db (b # bs) =
     io_bind (send_batch send db (fst (doc_keyspace (hd b))) (snd (doc_keyspace (hd b))) b)
       (\<lambda>_. send_batches send db bs)"

lemma dataset_doc_items:
  assumes "dataset_doc d"
  shows "str_item d ''scope'' = Inr (fst (doc_keyspace d))" "str_item d ''collection'' = Inr (snd (doc_keyspace d))"
  using assms
  by (auto simp: dataset_doc_def doc_keyspace_def str_item_def d_item_def split: option.splits json.splits)

lemma load_lines_batches:
  assumes "\<And>d. d \<in> set ds \<Longrightarrow> dataset_doc d"
    and "acc = [] \<longrightarrow> (s, c) = ([], [])"
    and "acc \<noteq> [] \<longrightarrow> (s, c) = doc_keyspace (hd acc) \<and> dataset_doc (hd acc)"
  shows "io_bind (load_lines send db s c acc (map (\<lambda>d. Inr (JObj d)) ds)) (\<lambda>(s, c, rest).
      if rest \<noteq> [] then send_batch send db s c rest else io_return ())
    = send_batches send db (batches acc ds)"
  using assms
proof (induction ds arbitrary: acc s c)
  case Nil
  then show ?case by (cases "doc_keyspace (hd acc)") (auto simp: io_laws)
next
  case (Cons d ds)
  from Cons.prems(1) have d: "dataset_doc d" by simp
  obtain s' c' where k: "doc_keyspace d = (s', c')" by fastforce
  have line: "rbind (Inr (JObj d)) (\<lambda>v. rbind (assert_dict v) (\<lambda>doc.
       rbind (str_item doc ''scope'') (\<lambda>scope.
       rbind (str_item doc ''collection'') (\<lambda>collection. Inr (doc, scope, collection))))) = Inr (d, s', c')"
    using dataset_doc_items [OF d] k by (simp add: assert_dict_def)
  show ?case
  proof (cases "acc \<noteq> [] \<and> (doc_keyspace (hd acc) \<noteq> doc_keyspace d \<or> length acc > 500)")
    case True
    have "io_bind (load_lines send db s' c' [d] (map (\<lambda>d. Inr (JObj d)) ds)) (\<lambda>(s, c, rest).
        if rest \<noteq> [] then send_batch send db s c rest else io_return ())
      = send_batches send db (batches [d] ds)"
      by (rule Cons.IH) (use Cons.prems(1) d k in auto)
    moreover have "(s, c) = doc_keyspace (hd acc)" "s \<noteq> []" "c \<noteq> []"
      using True Cons.prems(3) by (auto simp: dataset_doc_def dest: sym)
    ultimately show ?thesis
      using True k line by (auto simp: io_bind_assoc io_laws dest: sym)
  next
    case False
    have "io_bind (load_lines send db s' c' (acc @ [d]) (map (\<lambda>d. Inr (JObj d)) ds)) (\<lambda>(s, c, rest).
        if rest \<noteq> [] then send_batch send db s c rest else io_return ())
      = send_batches send db (batches (acc @ [d]) ds)"
      by (rule Cons.IH) (use Cons.prems d k False in \<open>auto simp: hd_append\<close>)
    moreover have "\<not> ((s \<noteq> s' \<or> c \<noteq> c' \<or> length acc > 500) \<and> s \<noteq> [] \<and> c \<noteq> [] \<and> acc \<noteq> [])"
      using False Cons.prems k by (cases "acc = []") auto
    ultimately show ?thesis
      using False line by (auto simp: io_laws)
  qed
qed

lemma batches_flush:
  "acc \<noteq> [] \<and> (doc_keyspace (hd acc) \<noteq> doc_keyspace d \<or> length acc > 500)
     \<Longrightarrow> batches acc (d # ds) = acc # batches [d] ds"
  by (subst batches.simps) (rule if_P)

lemma batches_keep:
  "\<not> (acc \<noteq> [] \<and> (doc_keyspace (hd acc) \<noteq> doc_keyspace d \<or> length acc > 500))
     \<Longrightarrow> batches acc (d # ds) = batches (acc @ [d]) ds"
  by (subst batches.simps) (rule if_not_P)

lemma batches_concat: "concat (batches acc ds) = acc @ ds"
  by (induction acc ds rule: batches.induct) auto

definition one_keyspace :: "jdict list \<Rightarrow> bool" where
  "one_keyspace b = (\<forall>d \<in> set b. doc_keyspace d = doc_keyspace (hd b))"

lemma one_keyspace_snoc:
  "one_keyspace acc \<Longrightarrow> acc = [] \<or> doc_keyspace (hd acc) = doc_keyspace d \<Longrightarrow> one_keyspace (acc @ [d])"
  unfolding one_keyspace_def by (cases acc) auto

lemma batches_shape:
  assumes "one_keyspace acc" "length acc \<le> 501"
  shows "\<forall>b \<in> set (batches acc ds). b \<noteq> [] \<and> length b \<le> 501 \<and> one_keyspace b"
  using assms
proof (induction acc ds rule: batches.induct)
  case (2 acc d ds)
  show ?case
  proof (cases "acc \<noteq> [] \<and> (doc_keyspace (hd acc) \<noteq> doc_keyspace d \<or> length acc > 500)")
    case True
    have "\<forall>b \<in> set (batches [d] ds). b \<noteq> [] \<and> length b \<le> 501 \<and> one_keyspace b"
      by (rule 2(1) [OF True]) (simp_all add: one_keyspace_def)
    then show ?thesis unfolding batches_flush [OF True] using True 2(3,4) by simp
  next
    case False
    then have "length (acc @ [d]) \<le> 501" by (cases "acc = []") auto
    moreover have "one_keyspace (acc @ [d])" using False one_keyspace_snoc [OF 2(3)] by blast
    ultimately show ?thesis unfolding batches_keep [OF False] by (intro 2(2) [OF False])
  qed
qed simp

lemma hd_batches: "acc \<noteq> [] \<or> ds \<noteq> [] \<Longrightarrow> batches acc ds \<noteq> [] \<and> hd (hd (batches acc ds)) = hd (acc @ ds)"
  by (induction acc ds rule: batches.induct) auto

lemma batches_maximal:
  assumes "length acc \<le> 501"
  shows "successively (\<lambda>b b'. doc_keyspace (hd b) = doc_keyspace (hd b') \<longrightarrow> length b = 501) (batches acc ds)"
  using assms
proof (induction acc ds rule: batches.induct)
  case (2 acc d ds)
  show ?case
  proof (cases "acc \<noteq> [] \<and> (doc_keyspace (hd acc) \<noteq> doc_keyspace d \<or> length acc > 500)")
    case True
    have "successively (\<lambda>b b'. doc_keyspace (hd b) = doc_keyspace (hd b') \<longrightarrow> length b = 501) (batches [d] ds)"
      by (rule 2(1) [OF True]) simp
    moreover have "hd (hd (batches [d] ds)) = d" using hd_batches [of "[d]" ds] by simp
    ultimately show ?thesis
      unfolding batches_flush [OF True] successively_Cons using True 2(3) by auto
  next
    case False
    have "length (acc @ [d]) \<le> 501" using False by (cases "acc = []") auto
    then show ?thesis unfolding batches_keep [OF False] by (rule 2(2) [OF False])
  qed
qed simp

text \<open>
  C20. A dataset whose lines name a scope and a collection is sent as bulk inserts that together
  are the lines of the file, in order and without loss: every batch has between 1 and 501
  documents, all of the keyspace it is sent to, and a batch is followed by another of the same
  keyspace only when it is full.
\<close>

theorem dataset_loaded_in_batches:
  assumes "\<forall>d \<in> set docs. dataset_doc d"
  shows "\<exists>bs. SyncGateway_load_dataset send db (map (\<lambda>d. Inr (JObj d)) docs) = send_batches send db bs
    \<and> concat bs = docs
    \<and> (\<forall>b \<in> set bs. b \<noteq> [] \<and> length b \<le> 501 \<and> one_keyspace b)
    \<and> successively (\<lambda>b b'. doc_keyspace (hd b) = doc_keyspace (hd b') \<longrightarrow> length b = 501) bs"
proof (intro exI conjI)
  show "SyncGateway_load_dataset send db (map (\<lambda>d. Inr (JObj d)) docs) = send_batches send db (batches [] docs)"
    unfolding SyncGateway_load_dataset_def by (rule load_lines_batches) (use assms in auto)
  show "concat (batches [] docs) = docs" by (simp add: batches_concat)
  show "\<forall>b \<in> set (batches [] docs). b \<noteq> [] \<and> length b \<le> 501 \<and> one_keyspace b"
    by (rule batches_shape) (simp_all add: one_keyspace_def)
  show "successively (\<lambda>b b'. doc_keyspace (hd b) = doc_keyspace (hd b') \<longrightarrow> length b = 501) (batches [] docs)"
    by (rule batches_maximal) simp
qed

theorem dataset_loaded_in_batches_witness:
  "\<exists>bs. SyncGateway_load_dataset (\<lambda>rq w. (Inr (JList []), rq # w)) ''db''
      [Inr (JObj [(''scope'', JStr ''s''), (''collection'', JStr ''c'')]),
       Inr (JObj [(''scope'', JStr ''s''), (''collection'', JStr ''d'')])]
     = send_batches (\<lambda>rq w. (Inr (JList []), rq # w)) ''db'' bs \<and> length (concat bs) = 2"
proof -
  let ?docs = "[[(''scope'', JStr ''s''), (''collection'', JStr ''c'')],
    [(''scope'', JStr ''s''), (''collection'', JStr ''d'')]]"
  have "\<forall>d \<in> set ?docs. dataset_doc d" by (simp add: dataset_doc_def doc_keyspace_def)
  from dataset_loaded_in_batches [OF this, of "\<lambda>rq w. (Inr (JList []), rq # w)" "''db''"]
  obtain bs where "SyncGateway_load_dataset (\<lambda>rq w. (Inr (JList []), rq # w)) ''db'' (map (\<lambda>d. Inr (JObj d)) ?docs)
      = send_batches (\<lambda>rq w. (Inr (JList []), rq # w)) ''db'' bs" "concat bs = ?docs" by blast
  then show ?thesis by (intro exI [of _ bs]) simp
qed

section \<open>Deleting a database\<close>

text \<open>The answer to the request that follows \<open>k\<close> retries, and the answers that mean the database is gone.\<close>

definition delete_answer :: "'s sgw_send \<Rightarrow> (rat \<Rightarrow> 's \<Rightarrow> 's) \<Rightarrow> string \<Rightarrow> 's \<Rightarrow> nat \<Rightarrow> json result" where
  "delete_answer send sleep db w k =
     fst (send (request ''delete'' (''/'' @ db) None []) (after (delete_step send sleep db) k w))"

definition database_gone :: "json result \<Rightarrow> bool" where
  "database_gone r =
     (case r of Inr _ \<Rightarrow> True
      | Inl e \<Rightarrow> e = CblSyncGatewayBadResponseError (Some 403) \<or> e = CblSyncGatewayBadResponseError (Some 404))"

lemma delete_step_again:
  "fst (delete_step send sleep db (after (delete_step send sleep db) k w)) = None \<longleftrightarrow>
     delete_answer send sleep db w k = Inl (CblSyncGatewayBadResponseError (Some 500))"
  by (auto simp: delete_step_def delete_answer_def split: prod.splits sum.splits)

lemma delete_step_finish:
  assumes "fst (delete_step send sleep db (after (delete_step send sleep db) k w)) = Some r"
  shows "r = Inr () \<longleftrightarrow> database_gone (delete_answer send sleep db w k)"
  using assms
  by (auto simp: delete_step_def delete_answer_def database_gone_def split: prod.splits sum.splits if_splits)

lemma delete_last_result:
  "fst (delete_last send db (after (delete_step send sleep db) k w)) = Inr ()
     \<longleftrightarrow> database_gone (delete_answer send sleep db w k)"
  by (auto simp: delete_last_def delete_answer_def database_gone_def split: prod.splits sum.splits)

text \<open>
  Deleting a database makes at most four attempts: it succeeds exactly when one of the first
  four requests is answered with success, 403 or 404 and every request before it with 500.
\<close>

theorem delete_database_attempts:
  "fst (SyncGateway_delete_database send sleep db w) = Inr () \<longleftrightarrow>
    (\<exists>k \<le> 3. (\<forall>j < k. delete_answer send sleep db w j = Inl (CblSyncGatewayBadResponseError (Some 500)))
       \<and> database_gone (delete_answer send sleep db w k))"
  (is "_ = (\<exists>k \<le> 3. ?retried k \<and> ?gone k)")
proof -
  have "\<exists>k \<le> 3. ?retried k \<and> (fst (SyncGateway_delete_database send sleep db w) = Inr () \<longleftrightarrow> ?gone k)
       \<and> (k < 3 \<longrightarrow> delete_answer send sleep db w k \<noteq> Inl (CblSyncGatewayBadResponseError (Some 500)))"
  proof (cases rule: dl.loop_cases [of 3 send sleep db w])
    case (finish k r)
    then show ?thesis
      using delete_step_finish [OF finish(3)] delete_step_again [of send sleep db k w]
      by (intro exI [of _ k]) (simp add: delete_step_again SyncGateway_delete_database_def)
  next
    case give_up
    then show ?thesis
      by (intro exI [of _ 3]) (simp add: delete_step_again delete_last_result SyncGateway_delete_database_def)
  qed
  then obtain k where k: "k \<le> 3" "?retried k" "fst (SyncGateway_delete_database send sleep db w) = Inr () \<longleftrightarrow> ?gone k"
      "k < 3 \<longrightarrow> delete_answer send sleep db w k \<noteq> Inl (CblSyncGatewayBadResponseError (Some 500))"
    by blast
  have over: "\<not> ?gone j" if "?retried k'" "j < k'" for j k'
    using that by (simp add: database_gone_def)
  have "k' = k" if "k' \<le> 3" "?retried k'" "?gone k'" for k'
    using that k over by (metis le_neq_implies_less linorder_neqE_nat order.strict_trans2)
  with k show ?thesis by blast
qed

theorem delete_database_attempts_witness:
  "fst (SyncGateway_delete_database (\<lambda>rq n. (if n < 3 then Inl (CblSyncGatewayBadResponseError (Some 500)) else Inr JNull, Suc n))
     (\<lambda>t n. n) ''db'' (0 :: nat)) = Inr ()"
proof -
  let ?send = "\<lambda>rq n. (if n < 3 then Inl (CblSyncGatewayBadResponseError (Some 500)) else Inr JNull, Suc n)"
  have reach: "j \<le> 3 \<Longrightarrow> after (delete_step ?send (\<lambda>t n. n) ''db'') j 0 = j" for j
    by (induction j) (simp_all add: delete_step_def)
  show ?thesis
    unfolding delete_database_attempts delete_answer_def
    by (intro exI [of _ 3]) (simp add: reach database_gone_def)
qed

section \<open>Revisions are refreshed before an update\<close>

text \<open>The id and the revision that a row of \<open>_all_docs\<close> reports.\<close>

definition row_reports :: "json \<Rightarrow> string \<times> json \<Rightarrow> bool" where
  "row_reports r p =
     (py_item r ''id'' = Inr (JStr (fst p)) \<and> rbind (py_item r ''value'') (\<lambda>v. py_item v ''rev'') = Inr (snd p))"

text \<open>An update with the last revision reported for its id.\<close>

definition refreshed :: "(string \<times> json) list \<Rightarrow> jdict \<Rightarrow> jdict" where
  "refreshed ps u =
     (case DocumentUpdateEntry_id u of
        JStr i \<Rightarrow> (case map_of (rev ps) i of None \<Rightarrow> u | Some r \<Rightarrow> DocumentUpdateEntry_swap_rev r u)
      | _ \<Rightarrow> u)"

lemma id_swap_rev [simp]: "DocumentUpdateEntry_id (DocumentUpdateEntry_swap_rev r u) = DocumentUpdateEntry_id u"
  by (simp add: DocumentUpdateEntry_id_def DocumentUpdateEntry_swap_rev_def get_or_null_def)

lemma d_set_same: "d_set (d_set d k v) k v' = d_set d k v'"
  by (induction d) auto

lemma swap_swap [simp]:
  "DocumentUpdateEntry_swap_rev r (DocumentUpdateEntry_swap_rev r' u) = DocumentUpdateEntry_swap_rev r u"
  by (simp add: DocumentUpdateEntry_swap_rev_def d_set_same)

lemma scalar_eq_JStr [simp]: "scalar_eq (JStr a) (JStr b) \<longleftrightarrow> a = b"
  by (simp add: scalar_eq_def)

lemma py_eq_JStr: "py_eq (JStr a) (JStr b) \<longleftrightarrow> a = b"
  by (simp add: scalar_eq_def)

lemma swap_first_map:
  assumes "map DocumentUpdateEntry_id us = map JStr is" "distinct is" "i \<in> set is"
  shows "swap_first (JStr i) r us = Some (map (refreshed [(i, r)]) us)"
  using assms
proof (induction us arbitrary: "is")
  case (Cons u us)
  then obtain j js where "is": "is = j # js" and u: "DocumentUpdateEntry_id u = JStr j" by auto
  show ?case
  proof (cases "i = j")
    case True
    have tail: "refreshed [(i, r)] v = v" if "v \<in> set us" for v
    proof -
      from that Cons.prems(1) "is" have "DocumentUpdateEntry_id v \<in> JStr ` set js" 
        by (metis image_eqI image_set list.inject list.simps(9))
      with Cons.prems(2) "is" True show ?thesis by (auto simp: refreshed_def)
    qed
    have "refreshed [(i, r)] u = DocumentUpdateEntry_swap_rev r u" using True u by (simp add: refreshed_def)
    then show ?thesis using True u map_idI [OF tail] by simp
  next
    case False
    then show ?thesis using Cons "is" u by (simp add: refreshed_def)
  qed
qed simp

lemma refreshed_id [simp]: "DocumentUpdateEntry_id (refreshed ps u) = DocumentUpdateEntry_id u"
  by (simp add: refreshed_def split: json.splits option.splits)

lemma refreshed_Nil [simp]: "refreshed [] u = u"
  by (simp add: refreshed_def split: json.splits)

lemma refreshed_Cons: "refreshed ps (refreshed [p] u) = refreshed (p # ps) u"
  by (cases p) (auto simp: refreshed_def map_add_def split: json.splits option.splits)

lemma rewrite_rows_map:
  assumes "list_all2 row_reports rows ps"
    and "map DocumentUpdateEntry_id us = map JStr is" "distinct is" "fst ` set ps \<subseteq> set is"
  shows "rewrite_rows rows us = (Inr (), map (refreshed ps) us)"
  using assms
proof (induction rows ps arbitrary: us rule: list_all2_induct)
  case Nil
  then show ?case by (simp add: map_idI)
next
  case (Cons r rows p ps)
  obtain i v where p: "p = (i, v)" by fastforce
  have "i \<in> set is" using Cons.prems(3) p by simp
  then have "JStr i \<in> set (map DocumentUpdateEntry_id us)" using Cons.prems(1) by simp
  then have found: "list_ex (\<lambda>u. py_eq (DocumentUpdateEntry_id u) (JStr i)) us"
    by (auto simp: list_ex_iff) (metis py_eq_JStr)
  have "rewrite_rows rows (map (refreshed [p]) us) = (Inr (), map (refreshed ps) (map (refreshed [p]) us))"
    by (rule Cons.IH) (use Cons.prems p in \<open>simp_all add: comp_def\<close>)
  moreover have "swap_first (JStr i) v us = Some (map (refreshed [p]) us)"
    using swap_first_map [OF Cons.prems(1,2) \<open>i \<in> set is\<close>] p by simp
  ultimately show ?case
    using Cons.hyps(1) found p refreshed_Cons [of ps p] by (simp add: row_reports_def comp_def)
qed



section \<open>Upserts merge with what can be read\<close>

text \<open>
  What an upsert sends: the fields of the update over those of the document that was read, and
  the update alone when there is none or the read raised.
\<close>

definition overlays :: "remote_document option result \<Rightarrow> jdict \<Rightarrow> jdict \<Rightarrow> bool" where
  "overlays r u m =
     (map_of m ''_id'' = map_of u ''_id''
      \<and> (\<forall>k. k \<noteq> ''_id'' \<longrightarrow> k \<noteq> ''_rev'' \<longrightarrow> map_of m k =
           (case map_of u k of
              Some v \<Rightarrow> Some v
            | None \<Rightarrow> (case r of Inr (Some current) \<Rightarrow> map_of (rm_body current) k | _ \<Rightarrow> None)))
      \<and> (truthy (DocumentUpdateEntry_rev u) \<longrightarrow> map_of m ''_rev'' = Some (DocumentUpdateEntry_rev u)))"

lemma upsert_one_overlays:
  assumes "d_wf u" "d_has u ''_id''"
  shows "\<exists>m. upsert_one send db scope coll u w =
      (Inr m, snd (SyncGateway_get_document send db (DocumentUpdateEntry_id u) scope coll w))
    \<and> overlays (fst (SyncGateway_get_document send db (DocumentUpdateEntry_id u) scope coll w)) u m"
proof -
  obtain r w' where g: "SyncGateway_get_document send db (DocumentUpdateEntry_id u) scope coll w = (r, w')"
    by fastforce
  obtain i where i: "map_of u ''_id'' = Some i" using assms(2) by (auto simp: d_has_def)
  let ?body = "case r of Inr (Some current) \<Rightarrow> merge_update (rm_body current) u | _ \<Rightarrow> u"
  have "overlays r u (rewrap_update u ?body)"
    using i assms(1)
    by (auto simp: overlays_def rewrap_update_def merge_update_def map_of_d_update map_add_def Let_def
        DocumentUpdateEntry_id_def get_or_null_def split: sum.splits option.splits)
  then show ?thesis using assms(2) g by (simp add: upsert_one_def)
qed



end
