(* ===== verification/GatewayAdmin.thy ===== *)
theory GatewayAdmin
  imports SyncGateway
begin

text \<open>
  The rest of the Sync Gateway client (\<open>api/syncgateway.py\<close>): files served by Caddy and SGCollect,
  users, roles and their access, inter-Sync-Gateway replication, channel history, and control of
  the process through shell2http.  \<open>fetch\<close> and \<open>control\<close> are plain HTTP requests outside the
  client's session, \<open>loads\<close> reads JSON, \<open>sleep\<close> waits.
\<close>

section \<open>Files on the host\<close>

text \<open>Status and content of a GET; \<open>ClientError\<close> and its subclass are the only exceptions that are translated.\<close>

definition SyncGateway_caddy_http_request ::
    "(string \<Rightarrow> ('s, int \<times> string) io) \<Rightarrow> string \<Rightarrow> ('s, int \<times> string) io" where
  "SyncGateway_caddy_http_request fetch url =
     io_try
       (io_bind (fetch url) (\<lambda>(status, content).
          if status = 404 then io_raise FileNotFoundError
          else if status \<noteq> 200 then io_raise PlainException
          else io_return (status, content)))
       (\<lambda>e. if e = ClientError \<or> e = ClientConnectorError then io_raise PlainException else io_raise e)"

definition caddy_url :: "string \<Rightarrow> string \<Rightarrow> string" where
  "caddy_url hostname name = ''http://'' @ hostname @ '':20000/'' @ name"

definition SyncGateway_fetch_log_file ::
    "(string \<Rightarrow> ('s, int \<times> string) io) \<Rightarrow> string \<Rightarrow> string \<Rightarrow> ('s, string) io" where
  "SyncGateway_fetch_log_file fetch hostname log_type =
     io_bind (SyncGateway_caddy_http_request fetch (caddy_url hostname (''sg_'' @ log_type @ ''.log'')))
       (\<lambda>(_, content). io_return content)"

text \<open>\<open>write_file\<close> stores the content under the local path.\<close>

definition SyncGateway_download_file_via_caddy ::
    "(string \<Rightarrow> ('s, int \<times> string) io) \<Rightarrow> (string \<Rightarrow> string \<Rightarrow> ('s, unit) io) \<Rightarrow> string \<Rightarrow> string \<Rightarrow> string
      \<Rightarrow> ('s, unit) io" where
  "SyncGateway_download_file_via_caddy fetch write_file hostname remote_filename local_path =
     io_bind (SyncGateway_caddy_http_request fetch (caddy_url hostname remote_filename))
       (\<lambda>(_, content). write_file local_path content)"

text \<open>The names in a listing: entries with a name that are not directories.\<close>

fun listed_files :: "json list \<Rightarrow> json list" where
  "listed_files [] = []"
| "listed_files (entry # rest) =
     (case entry of
        JObj d \<Rightarrow>
          (case map_of d ''name'' of
             Some n \<Rightarrow> if \<not> truthy (get_or_null d ''is_dir'') then n # listed_files rest else listed_files rest
           | None \<Rightarrow> listed_files rest)
      | _ \<Rightarrow> listed_files rest)"

fun filter_names :: "(string \<Rightarrow> bool) \<Rightarrow> json list \<Rightarrow> string list result" where
  "filter_names matches [] = Inr []"
| "filter_names matches (n # ns) =
     (case n of
        JStr f \<Rightarrow> rbind (filter_names matches ns) (\<lambda>fs. Inr (if matches f then f # fs else fs))
      | _ \<Rightarrow> Inl TypeError)"

text \<open>\<open>matches\<close> is the search with the compiled pattern.\<close>

definition SyncGateway_list_files_via_caddy ::
    "(string \<Rightarrow> ('s, int \<times> string) io) \<Rightarrow> (string \<Rightarrow> json option) \<Rightarrow> string \<Rightarrow> (string \<Rightarrow> bool) \<Rightarrow> ('s, string list) io" where
  "SyncGateway_list_files_via_caddy fetch loads hostname matches =
     io_bind
       (io_try (SyncGateway_caddy_http_request fetch (caddy_url hostname []))
          (\<lambda>e. if e = FileNotFoundError then io_raise PlainException else io_raise e))
       (\<lambda>(_, content).
          case loads content of
            None \<Rightarrow> io_raise PlainException
          | Some v \<Rightarrow> io_lift (rbind (py_iter v) (\<lambda>l. filter_names matches (listed_files l))))"

section \<open>SGCollect\<close>

datatype redact_level = REDACT_NONE | PARTIAL | FULL

fun redact_str :: "redact_level \<Rightarrow> string" where
  "redact_str REDACT_NONE = ''none''"
| "redact_str PARTIAL = ''partial''"
| "redact_str FULL = ''full''"

definition SGCollectOptions_to_json ::
    "bool \<Rightarrow> redact_level option \<Rightarrow> string option \<Rightarrow> string option \<Rightarrow> json" where
  "SGCollectOptions_to_json upload level salt output_dir =
     JObj ([(''upload'', JBool upload)]
       @ opt_field ''redact_level'' (map_option (\<lambda>l. JStr (redact_str l)) level)
       @ opt_field ''redact_salt'' (map_option JStr salt)
       @ opt_field ''output_dir'' (map_option JStr output_dir))"

definition SyncGateway_start_sgcollect ::
    "'s sgw_send \<Rightarrow> bool \<Rightarrow> redact_level option \<Rightarrow> string option \<Rightarrow> string option \<Rightarrow> ('s, jdict) io" where
  "SyncGateway_start_sgcollect send upload level salt output_dir =
     send_dict send (request ''post'' ''/_sgcollect_info''
       (Some (SGCollectOptions_to_json upload level salt output_dir)) [])"

definition SyncGateway_get_sgcollect_status :: "'s sgw_send \<Rightarrow> ('s, jdict) io" where
  "SyncGateway_get_sgcollect_status send = send_dict send (request ''get'' ''/_sgcollect_info'' None [])"

definition collect_step ::
    "'s sgw_send \<Rightarrow> (rat \<Rightarrow> 's \<Rightarrow> 's) \<Rightarrow> rat \<Rightarrow> 's \<Rightarrow> unit result option \<times> 's" where
  "collect_step send sleep wait_time w =
     (case SyncGateway_get_sgcollect_status send w of
        (Inl e, w') \<Rightarrow> (Some (Inl e), w')
      | (Inr status_resp, w') \<Rightarrow>
          if py_eq (get_or_null status_resp ''status'') (JStr ''stopped'')
             \<or> py_eq (get_or_null status_resp ''status'') (JStr ''completed'')
          then (Some (Inr ()), w') else (None, sleep wait_time w'))"

primrec collect_loop :: "'s sgw_send \<Rightarrow> (rat \<Rightarrow> 's \<Rightarrow> 's) \<Rightarrow> rat \<Rightarrow> nat \<Rightarrow> ('s, unit) io" where
  "collect_loop send sleep wait_time 0 w = (Inl PlainException, w)"
| "collect_loop send sleep wait_time (Suc left) w =
     (case collect_step send sleep wait_time w of
        (Some r, w') \<Rightarrow> (r, w')
      | (None, w') \<Rightarrow> collect_loop send sleep wait_time left w')"

text \<open>With no attempts at all, building the message of the exception reads an unset variable.\<close>

definition SyncGateway_wait_for_sgcollect_to_complete ::
    "'s sgw_send \<Rightarrow> (rat \<Rightarrow> 's \<Rightarrow> 's) \<Rightarrow> int \<Rightarrow> rat \<Rightarrow> ('s, unit) io" where
  "SyncGateway_wait_for_sgcollect_to_complete send sleep max_attempts wait_time =
     (if max_attempts \<le> 0 then io_raise UnboundLocalError
      else collect_loop send sleep wait_time (nat max_attempts))"

interpretation cl: attempt_loop "collect_loop send sleep t" "collect_step send sleep t" "\<lambda>w. (Inl PlainException, w)"
  by unfold_locales simp_all

text \<open>\<open>sgcollectinfo-.*\.zip\<close>, searched anywhere in a name without line breaks.\<close>

fun matches_collect_zip :: "string \<Rightarrow> bool" where
  "matches_collect_zip [] = False"
| "matches_collect_zip (c # s) =
     ((prefix ''sgcollectinfo-'' (c # s) \<and> contains_sub ''.zip'' (drop 14 (c # s))) \<or> matches_collect_zip s)"

definition SyncGateway_run_sgcollect ::
    "(string \<Rightarrow> ('s, int \<times> string) io) \<Rightarrow> (string \<Rightarrow> json option) \<Rightarrow> (string \<Rightarrow> string \<Rightarrow> ('s, unit) io)
      \<Rightarrow> 's sgw_send \<Rightarrow> (rat \<Rightarrow> 's \<Rightarrow> 's) \<Rightarrow> string \<Rightarrow> string \<Rightarrow> redact_level option \<Rightarrow> ('s, string) io" where
  "SyncGateway_run_sgcollect fetch loads write_file send sleep hostname local_output_dir level =
     io_bind (SyncGateway_list_files_via_caddy fetch loads hostname matches_collect_zip) (\<lambda>before.
     io_bind (SyncGateway_start_sgcollect send False level None None) (\<lambda>_.
     io_bind (SyncGateway_wait_for_sgcollect_to_complete send sleep 100 5) (\<lambda>_.
     io_bind (SyncGateway_list_files_via_caddy fetch loads hostname matches_collect_zip) (\<lambda>after.
       case remdups (filter (\<lambda>f. f \<notin> set before) after) of
         [zip_name] \<Rightarrow>
           (let local_path = local_output_dir @ ''/'' @ replace_char (CHR ''.'') (CHR ''_'') hostname @ ''-'' @ zip_name
            in io_bind (SyncGateway_download_file_via_caddy fetch write_file hostname zip_name local_path)
                 (\<lambda>_. io_return local_path))
       | _ \<Rightarrow> io_raise CblTestError))))"

section \<open>Users and roles\<close>

text \<open>
  The access dictionary of Sync Gateway: scope, then collection, then the channels.  The inner
  dictionary of a scope is shared with the result, so an assignment to it changes the result.
\<close>

definition scope_dict :: "jdict \<Rightarrow> string \<Rightarrow> jdict" where
  "scope_dict acc scope = (case map_of acc scope of Some (JObj d) \<Rightarrow> d | _ \<Rightarrow> [])"

fun access_from :: "jdict \<Rightarrow> jdict \<Rightarrow> jdict result" where
  "access_from acc [] = Inr acc"
| "access_from acc ((c, channels) # rest) =
     (case channels of
        JList l \<Rightarrow>
          (if CHR ''.'' \<notin> set c then Inl ValueError
           else case split_on (CHR ''.'') c of
                  [scope, collection] \<Rightarrow>
                    access_from (d_set acc scope (JObj (d_set (scope_dict acc scope) collection
                      (JObj [(''admin_channels'', channels)])))) rest
                | _ \<Rightarrow> Inl ValueError)
      | _ \<Rightarrow> Inl ValueError)"

definition SyncGateway_create_collection_access_dict :: "jdict \<Rightarrow> jdict result" where
  "SyncGateway_create_collection_access_dict input = access_from [] input"

definition SyncGateway_add_user ::
    "'s sgw_send \<Rightarrow> string \<Rightarrow> string \<Rightarrow> json option \<Rightarrow> json option \<Rightarrow> string list option \<Rightarrow> ('s, unit) io" where
  "SyncGateway_add_user send db name password collection_access admin_roles =
     io_bind (send (request ''put'' (''/'' @ db @ ''/_user/'' @ name)
       (Some (JObj ([(''name'', JStr name)]
          @ opt_field ''password'' password
          @ opt_field ''collection_access'' collection_access
          @ opt_field ''admin_roles'' (map_option JStrs admin_roles)))) []))
       (\<lambda>_. io_return ())"

definition SyncGateway_delete_user :: "'s sgw_send \<Rightarrow> string \<Rightarrow> string \<Rightarrow> ('s, unit) io" where
  "SyncGateway_delete_user send db name =
     io_try (io_bind (send (request ''delete'' (''/'' @ db @ ''/_user/'' @ name) None [])) (\<lambda>_. io_return ()))
       (\<lambda>e. if e = CblSyncGatewayBadResponseError (Some 404) then io_return () else io_raise e)"

definition SyncGateway_add_role :: "'s sgw_send \<Rightarrow> string \<Rightarrow> string \<Rightarrow> json \<Rightarrow> ('s, unit) io" where
  "SyncGateway_add_role send db role collection_access =
     io_bind (send (request ''put'' (''/'' @ db @ ''/_role/'' @ role)
       (Some (JObj [(''collection_access'', collection_access)])) []))
       (\<lambda>_. io_return ())"

definition SyncGateway_reset_user ::
    "'s sgw_send \<Rightarrow> string \<Rightarrow> string \<Rightarrow> string \<Rightarrow> string list \<Rightarrow> ('s, unit) io" where
  "SyncGateway_reset_user send db username password channels =
     io_bind (SyncGateway_delete_user send db username) (\<lambda>_.
       SyncGateway_add_user send db username (Some (JStr password))
         (Some (JObj [(''_default'', JObj [(''_default'', JObj [(''admin_channels'', JStrs channels)])])])) None)"

section \<open>Inter-Sync-Gateway replication\<close>

definition SyncGateway_start_isgr :: "'s sgw_send \<Rightarrow> string \<Rightarrow> isgr_payload \<Rightarrow> ('s, string) io" where
  "SyncGateway_start_isgr send db payload =
     io_bind (send (request ''put'' (''/'' @ db @ ''/_replication/'' @ ip_replication_id payload)
       (Some (ISGRPayload_to_json payload)) []))
       (\<lambda>_. io_return (ip_replication_id payload))"

definition SyncGateway_get_isgr_status :: "'s sgw_send \<Rightarrow> string \<Rightarrow> string \<Rightarrow> ('s, jdict) io" where
  "SyncGateway_get_isgr_status send db replication_id =
     send_dict send (request ''get'' (''/'' @ db @ ''/_replicationStatus/'' @ replication_id) None [])"

text \<open>Only a bad response is caught, and it is dropped but for a missing continuous replication.\<close>

definition SyncGateway_stop_isgr :: "'s sgw_send \<Rightarrow> string \<Rightarrow> string \<Rightarrow> bool \<Rightarrow> ('s, unit) io" where
  "SyncGateway_stop_isgr send db replication_id cont =
     io_try
       (io_bind (send (request ''delete'' (''/'' @ db @ ''/_replication/'' @ replication_id) None [])) (\<lambda>_. io_return ()))
       (\<lambda>e. case e of
          CblSyncGatewayBadResponseError code \<Rightarrow>
            if code = Some 404 \<and> cont then io_raise e else io_return ()
        | _ \<Rightarrow> io_raise e)"

definition isgr_step ::
    "'s sgw_send \<Rightarrow> (rat \<Rightarrow> 's \<Rightarrow> 's) \<Rightarrow> string \<Rightarrow> string \<Rightarrow> string \<Rightarrow> int \<Rightarrow> 's \<Rightarrow> jdict result option \<times> 's" where
  "isgr_step send sleep db replication_id target poll_interval w =
     (case SyncGateway_get_isgr_status send db replication_id w of
        (Inl e, w') \<Rightarrow> (Some (Inl e), w')
      | (Inr status, w') \<Rightarrow>
          (let current = (case map_of status ''status'' of None \<Rightarrow> JStr [] | Some s \<Rightarrow> s)
           in if py_eq current (JStr target) then (Some (Inr status), w')
              else if py_eq current (JStr ''error'') then (Some (Inl PlainException), w')
              else (None, sleep (of_int poll_interval) w')))"

primrec isgr_loop ::
    "'s sgw_send \<Rightarrow> (rat \<Rightarrow> 's \<Rightarrow> 's) \<Rightarrow> string \<Rightarrow> string \<Rightarrow> string \<Rightarrow> int \<Rightarrow> nat \<Rightarrow> ('s, jdict) io" where
  "isgr_loop send sleep db rid target poll 0 w = (Inl TimeoutError, w)"
| "isgr_loop send sleep db rid target poll (Suc left) w =
     (case isgr_step send sleep db rid target poll w of
        (Some r, w') \<Rightarrow> (r, w')
      | (None, w') \<Rightarrow> isgr_loop send sleep db rid target poll left w')"

text \<open>\<open>range(timeout // poll_interval)\<close> is empty for a negative quotient.\<close>

definition SyncGateway_wait_for_isgr_status ::
    "'s sgw_send \<Rightarrow> (rat \<Rightarrow> 's \<Rightarrow> 's) \<Rightarrow> string \<Rightarrow> string \<Rightarrow> string \<Rightarrow> int \<Rightarrow> int \<Rightarrow> ('s, jdict) io" where
  "SyncGateway_wait_for_isgr_status send sleep db rid target timeout poll_interval =
     (if poll_interval = 0 then io_raise ZeroDivisionError
      else isgr_loop send sleep db rid target poll_interval (nat (timeout div poll_interval)))"

interpretation iw: attempt_loop "isgr_loop send sleep db rid target poll" "isgr_step send sleep db rid target poll"
    "\<lambda>w. (Inl TimeoutError, w)"
  by unfold_locales simp_all

section \<open>Histories\<close>

definition SyncGateway_get_user_access_history :: "'s sgw_send \<Rightarrow> string \<Rightarrow> string \<Rightarrow> ('s, json) io" where
  "SyncGateway_get_user_access_history send db name =
     io_bind (send_dict send (request ''get'' (''/'' @ db @ ''/_user/'' @ name @ ''/_access_history'') None []))
       (\<lambda>d. io_return (case map_of d ''channels'' of None \<Rightarrow> JObj [] | Some v \<Rightarrow> v))"

definition SyncGateway_compact_user_access_history ::
    "'s sgw_send \<Rightarrow> string \<Rightarrow> string \<Rightarrow> json \<Rightarrow> ('s, json) io" where
  "SyncGateway_compact_user_access_history send db name channels =
     io_bind (send_dict send (request ''post'' (''/'' @ db @ ''/_user/'' @ name @ ''/_access_history/compact'')
       (Some (JObj [(''channels'', channels)])) []))
       (\<lambda>d. io_return (case map_of d ''compacted_channels'' of None \<Rightarrow> JObj [] | Some v \<Rightarrow> v))"

definition SyncGateway_get_document_channel_history ::
    "'s sgw_send \<Rightarrow> string \<Rightarrow> string \<Rightarrow> string \<Rightarrow> string \<Rightarrow> ('s, jdict) io" where
  "SyncGateway_get_document_channel_history send db doc_id scope collection =
     send_dict send (request ''get'' (keyspace db scope collection @ ''/_channel_history/'' @ doc_id) None [])"

definition SyncGateway_compact_document_channel_history ::
    "'s sgw_send \<Rightarrow> string \<Rightarrow> string \<Rightarrow> int \<Rightarrow> string \<Rightarrow> string \<Rightarrow> ('s, json) io" where
  "SyncGateway_compact_document_channel_history send db doc_id seq scope collection =
     io_bind (send_dict send (request ''post''
       (keyspace db scope collection @ ''/_channel_history/'' @ doc_id @ ''/compact'')
       (Some (JObj [(''seq'', JInt seq)])) []))
       (\<lambda>d. io_return (case map_of d ''compacted_channels'' of None \<Rightarrow> JList [] | Some v \<Rightarrow> v))"

section \<open>The process and its certificates\<close>

text \<open>\<open>control url body\<close> is a request to shell2http; the code looks at its status only.\<close>

definition shell_request ::
    "(string \<Rightarrow> string option \<Rightarrow> ('s, int) io) \<Rightarrow> string \<Rightarrow> string \<Rightarrow> string option \<Rightarrow> ('s, unit) io" where
  "shell_request control hostname path body =
     io_bind (control (''http://'' @ hostname @ '':20001/'' @ path) body)
       (\<lambda>status. if status \<noteq> 200 then io_raise PlainException else io_return ())"

definition SyncGateway_upload_certificate ::
    "(string \<Rightarrow> string option \<Rightarrow> ('s, int) io) \<Rightarrow> string \<Rightarrow> string \<Rightarrow> string \<Rightarrow> ('s, string) io" where
  "SyncGateway_upload_certificate control hostname cert_content cert_name =
     io_bind (shell_request control hostname ''upload-cert'' (Some (cert_name @ char_of (10 :: nat) # cert_content)))
       (\<lambda>_. io_return (''/home/ec2-user/cert/'' @ cert_name))"

text \<open>One poll of \<open>_wait_for_rest_api\<close>; \<open>retry_assert\<close> repeats a poll while it raises \<open>AssertionError\<close>.\<close>

definition wait_for_rest_api_poll :: "'s sgw_send \<Rightarrow> ('s, unit) io" where
  "wait_for_rest_api_poll send =
     io_try (io_bind (send (request ''get'' ''/_ping'' None [])) (\<lambda>_. io_return ()))
       (\<lambda>e. case e of
          CblSyncGatewayBadResponseError code \<Rightarrow> io_raise AssertionError
        | ClientConnectorError \<Rightarrow> io_raise AssertionError
        | _ \<Rightarrow> io_raise e)"

definition SyncGateway_restart_with_config ::
    "(string \<Rightarrow> string option \<Rightarrow> ('s, int) io) \<Rightarrow> (('s, unit) io \<Rightarrow> ('s, unit) io) \<Rightarrow> 's sgw_send \<Rightarrow> string \<Rightarrow> string
      \<Rightarrow> ('s, unit) io" where
  "SyncGateway_restart_with_config control retry_assert send hostname config_name =
     io_bind (shell_request control hostname ''restart-sgw'' (Some config_name))
       (\<lambda>_. retry_assert (wait_for_rest_api_poll send))"

definition SyncGateway_stop :: "(string \<Rightarrow> string option \<Rightarrow> ('s, int) io) \<Rightarrow> string \<Rightarrow> ('s, unit) io" where
  "SyncGateway_stop control hostname = shell_request control hostname ''stop-sgw'' None"

text \<open>\<open>probe\<close> is the GET of the public port; a refused connection or a timeout means it is not running.\<close>

definition SyncGateway_start ::
    "('s, int) io \<Rightarrow> (string \<Rightarrow> string option \<Rightarrow> ('s, int) io) \<Rightarrow> (('s, unit) io \<Rightarrow> ('s, unit) io) \<Rightarrow> 's sgw_send
      \<Rightarrow> string \<Rightarrow> string \<Rightarrow> ('s, unit) io" where
  "SyncGateway_start probe control retry_assert send hostname config_name =
     io_bind
       (io_try (io_bind probe (\<lambda>status. io_return (status = 200)))
          (\<lambda>e. if e = ClientConnectorError \<or> e = TimeoutError then io_return False else io_raise e))
       (\<lambda>running.
          if running then io_return ()
          else io_bind (shell_request control hostname (''start-sgw?config='' @ config_name) None)
                 (\<lambda>_. retry_assert (wait_for_rest_api_poll send)))"

text \<open>The polls of the other waits, over the databases that Sync Gateway lists.\<close>

definition wait_for_no_databases_poll ::
    "('s, (string, 'e) pydict) io \<Rightarrow> ('e \<Rightarrow> string) \<Rightarrow> string \<Rightarrow> ('s, unit) io" where
  "wait_for_no_databases_poll all_dbs bucket_of bucket_name =
     io_bind all_dbs (\<lambda>dbs. io_lift (py_assert (list_all (\<lambda>e. bucket_of (snd e) \<noteq> bucket_name) dbs)))"

definition wait_for_db_online_poll ::
    "('s, (string, 'e) pydict) io \<Rightarrow> ('e \<Rightarrow> bool) \<Rightarrow> string \<Rightarrow> ('s, unit) io" where
  "wait_for_db_online_poll all_dbs is_online db =
     io_bind all_dbs (\<lambda>dbs. io_lift (
       case map_of dbs db of None \<Rightarrow> Inl AssertionError | Some entry \<Rightarrow> py_assert (is_online entry)))"

definition wait_for_db_gone_poll :: "'s sgw_send \<Rightarrow> string \<Rightarrow> ('s, unit) io" where
  "wait_for_db_gone_poll send db =
     io_bind (SyncGateway_get_all_database_names send)
       (\<lambda>dbs. io_lift (py_assert (\<not> list_ex (\<lambda>n. py_eq (JStr db) n) dbs)))"

definition wait_for_import_count_poll :: "'s sgw_send \<Rightarrow> string \<Rightarrow> int \<Rightarrow> ('s, int) io" where
  "wait_for_import_count_poll send db min_count =
     (let get = (\<lambda>v k. case v of
            JObj d \<Rightarrow> Inr (case map_of d k of None \<Rightarrow> JObj [] | Some x \<Rightarrow> x) | _ \<Rightarrow> Inl AttributeError)
      in io_bind (send_dict send (request ''get'' ''/_expvar'' None [])) (\<lambda>expvars. io_lift (
           rbind (get (JObj expvars) ''syncgateway'') (\<lambda>a. rbind (get a ''per_db'') (\<lambda>b. rbind (get b db) (\<lambda>c.
           rbind (get c ''shared_bucket_import'') (\<lambda>d.
             case d of
               JObj ob \<Rightarrow>
                 (case (case map_of ob ''import_count'' of None \<Rightarrow> JInt 0 | Some x \<Rightarrow> x) of
                    JInt n \<Rightarrow> rbind (py_assert (n \<ge> min_count)) (\<lambda>_. Inr n)
                  | _ \<Rightarrow> Inl TypeError)
             | _ \<Rightarrow> Inl AttributeError)))))))"

section \<open>The access dictionary\<close>

text \<open>An entry that the code accepts, and what a collection is granted in the result.\<close>

definition access_entry :: "string \<times> json \<Rightarrow> bool" where
  "access_entry e = (count_list (fst e) (CHR ''.'') = 1 \<and> (case snd e of JList l \<Rightarrow> True | _ \<Rightarrow> False))"

definition granted :: "jdict \<Rightarrow> string \<Rightarrow> string \<Rightarrow> json option" where
  "granted acc scope collection = map_of (scope_dict acc scope) collection"

lemma split_on_pair:
  assumes "count_list s c = 1"
  obtains a b where "split_on c s = [a, b]" "s = a @ c # b" "c \<notin> set a" "c \<notin> set b"
proof -
  have "length (split_on c s) = 2" using assms by (simp add: length_split_on)
  then obtain a b where ab: "split_on c s = [a, b]" by (auto simp: length_Suc_conv numeral_2_eq_2)
  have "s = a @ c # b" using join_split [of c s] ab by simp
  moreover have "c \<notin> set a" "c \<notin> set b" using split_on_free [of _ c s] ab by simp_all
  ultimately show ?thesis using that ab by blast
qed

lemma dotted_eq_iff:
  "c \<notin> set a \<Longrightarrow> c \<notin> set a' \<Longrightarrow> a @ c # b = a' @ c # b' \<longleftrightarrow> a = a' \<and> b = b'"
proof (induction a arbitrary: a')
  case Nil
  then show ?case by (cases a') auto
next
  case (Cons x a)
  then show ?case by (cases a') auto
qed

lemma granted_set:
  "granted (d_set acc a (JObj (d_set (scope_dict acc a) b v))) s c = (if s = a \<and> c = b then Some v else granted acc s c)"
  by (simp add: granted_def scope_dict_def)

lemma access_from_accepts:
  assumes "list_all access_entry input" "d_wf input"
  shows "\<exists>acc'. access_from acc input = Inr acc' \<and>
    (\<forall>s c. CHR ''.'' \<notin> set s \<longrightarrow> granted acc' s c =
       (case map_of input (s @ CHR ''.'' # c) of
          Some channels \<Rightarrow> Some (JObj [(''admin_channels'', channels)]) | None \<Rightarrow> granted acc s c))"
  using assms
proof (induction input arbitrary: acc)
  case (Cons e rest)
  obtain k l where e: "e = (k, JList l)" and "count_list k (CHR ''.'') = 1"
    using Cons.prems(1) by (cases e) (auto simp: access_entry_def split: json.splits)
  then obtain a b where k: "split_on (CHR ''.'') k = [a, b]" "k = a @ CHR ''.'' # b" "CHR ''.'' \<notin> set a" "CHR ''.'' \<notin> set b"
    using split_on_pair by metis
  let ?acc = "d_set acc a (JObj (d_set (scope_dict acc a) b (JObj [(''admin_channels'', JList l)])))"
  from Cons obtain acc' where rest: "access_from ?acc rest = Inr acc'"
    "\<And>s c. CHR ''.'' \<notin> set s \<Longrightarrow> granted acc' s c =
       (case map_of rest (s @ CHR ''.'' # c) of
          Some channels \<Rightarrow> Some (JObj [(''admin_channels'', channels)]) | None \<Rightarrow> granted ?acc s c)"
    by (fastforce simp: d_wf_def)
  have new: "map_of rest k = None" using Cons.prems(2) e by (auto simp: d_wf_def map_of_eq_None_iff)
  have "access_from acc (e # rest) = Inr acc'" using rest(1) e k by simp
  moreover have "granted acc' s c = (case map_of (e # rest) (s @ CHR ''.'' # c) of
          Some channels \<Rightarrow> Some (JObj [(''admin_channels'', channels)]) | None \<Rightarrow> granted acc s c)"
    if s: "CHR ''.'' \<notin> set s" for s c
    using rest(2) [OF s, of c] new e k(2) dotted_eq_iff [OF k(3) s, of b c]
    by (auto simp: granted_set split: option.splits)
  ultimately show ?case by blast
qed simp

lemma access_from_rejects:
  "\<not> list_all access_entry input \<Longrightarrow> access_from acc input = Inl ValueError"
proof (induction input arbitrary: acc)
  case (Cons e rest)
  obtain k ch where e: "e = (k, ch)" by fastforce
  show ?case
  proof (cases "access_entry e")
    case True
    then obtain l where l: "ch = JList l" and c: "count_list k (CHR ''.'') = 1"
      using e by (auto simp: access_entry_def split: json.splits)
    obtain a b where k: "split_on (CHR ''.'') k = [a, b]" "k = a @ CHR ''.'' # b"
      using split_on_pair [OF c] by metis
    show ?thesis using Cons True l k e by simp
  next
    case False
    have "length (split_on (CHR ''.'') k) = Suc (count_list k (CHR ''.''))" by (rule length_split_on)
    then show ?thesis
      using False e by (auto simp: access_entry_def count_list_0_iff split: json.splits list.splits)
  qed
qed simp

text \<open>
  The access dictionary grants every collection of the input exactly the channels listed for
  it and grants nothing else; an input with a key that is not \<open>scope.collection\<close> or a value that
  is not a list is refused with \<open>ValueError\<close>.
\<close>

theorem access_dict_grants_input:
  assumes "d_wf input"
  shows "if list_all access_entry input
    then \<exists>acc. SyncGateway_create_collection_access_dict input = Inr acc \<and>
      (\<forall>s c. CHR ''.'' \<notin> set s \<longrightarrow> granted acc s c =
         map_option (\<lambda>channels. JObj [(''admin_channels'', channels)]) (map_of input (s @ CHR ''.'' # c)))
    else SyncGateway_create_collection_access_dict input = Inl ValueError"
proof (cases "list_all access_entry input")
  case True
  have none: "granted [] s c = None" for s c by (simp add: granted_def scope_dict_def)
  have lookup: "(case m of Some channels \<Rightarrow> Some (JObj [(''admin_channels'', channels)]) | None \<Rightarrow> None) =
      map_option (\<lambda>channels. JObj [(''admin_channels'', channels)]) m" for m :: "json option"
    by (cases m) auto
  from access_from_accepts [OF True assms, of "[]", unfolded none lookup] True show ?thesis
    by (simp add: SyncGateway_create_collection_access_dict_def)
next
  case False
  then show ?thesis
    using access_from_rejects by (simp add: SyncGateway_create_collection_access_dict_def)
qed

theorem access_dict_grants_input_witness:
  "\<exists>acc. SyncGateway_create_collection_access_dict
      [(''s.a'', JList [JStr ''x'']), (''t.a'', JList []), (''s.b'', JList [JStr ''y''])] = Inr acc
     \<and> granted acc ''s'' ''b'' = Some (JObj [(''admin_channels'', JList [JStr ''y''])])
     \<and> granted acc ''t'' ''b'' = None"
proof -
  let ?input = "[(''s.a'', JList [JStr ''x'']), (''t.a'', JList []), (''s.b'', JList [JStr ''y''])]"
  have "d_wf ?input" by (simp add: d_wf_def)
  moreover have "list_all access_entry ?input" by (simp add: access_entry_def)
  ultimately obtain acc where "SyncGateway_create_collection_access_dict ?input = Inr acc"
    and g: "\<And>s c. CHR ''.'' \<notin> set s \<Longrightarrow> granted acc s c =
         map_option (\<lambda>channels. JObj [(''admin_channels'', channels)]) (map_of ?input (s @ CHR ''.'' # c))"
    using access_dict_grants_input [of ?input] by auto
  moreover have "granted acc ''s'' ''b'' = Some (JObj [(''admin_channels'', JList [JStr ''y''])])"
    "granted acc ''t'' ''b'' = None"
    using g [of "''s''" "''b''"] g [of "''t''" "''b''"] by simp_all
  ultimately show ?thesis by blast
qed

section \<open>Waiting for a replication\<close>

text \<open>The status that the poll after \<open>k\<close> polls reads; a missing one reads as the empty string.\<close>

definition polled_status :: "'s sgw_send \<Rightarrow> (rat \<Rightarrow> 's \<Rightarrow> 's) \<Rightarrow> string \<Rightarrow> string \<Rightarrow> string \<Rightarrow> int \<Rightarrow> 's \<Rightarrow> nat \<Rightarrow> jdict result" where
  "polled_status send sleep db rid target poll w k =
     fst (SyncGateway_get_isgr_status send db rid (after (isgr_step send sleep db rid target poll) k w))"

text \<open>What an answer means: a result or an exception, or nothing yet.\<close>

definition poll_outcome :: "string \<Rightarrow> jdict result \<Rightarrow> jdict result option" where
  "poll_outcome target r =
     (case r of
        Inl e \<Rightarrow> Some (Inl e)
      | Inr d \<Rightarrow>
          (let s = (case map_of d ''status'' of None \<Rightarrow> JStr [] | Some s \<Rightarrow> s)
           in if py_eq s (JStr target) then Some (Inr d)
              else if py_eq s (JStr ''error'') then Some (Inl PlainException) else None))"

lemma isgr_step_polled:
  "fst (isgr_step send sleep db rid target poll (after (isgr_step send sleep db rid target poll) k w)) =
     poll_outcome target (polled_status send sleep db rid target poll w k)"
  by (auto simp: isgr_step_def polled_status_def poll_outcome_def Let_def split: prod.splits sum.splits)

text \<open>
  Waiting for the status of a replication ends with the outcome of the first of at most
  \<open>timeout // poll_interval\<close> polls that has one (the status with the target, an exception of
  the poll, or an error of the replication), and with a timeout when none of them has.
\<close>

theorem isgr_wait_first_outcome:
  assumes "poll \<noteq> 0"
  shows "fst (SyncGateway_wait_for_isgr_status send sleep db rid target timeout poll w) =
    hd (List.map_filter (\<lambda>k. poll_outcome target (polled_status send sleep db rid target poll w k))
          [0..<nat (timeout div poll)] @ [Inl TimeoutError])"
  using assms
  by (simp add: SyncGateway_wait_for_isgr_status_def iw.first_outcome isgr_step_polled)

theorem isgr_wait_first_outcome_witness:
  "fst (SyncGateway_wait_for_isgr_status
      (\<lambda>rq n. (Inr (JObj [(''status'', JStr (if n < 2 then ''starting'' else ''running''))]), Suc n)) (\<lambda>t n. n)
      ''db'' ''r'' ''running'' 60 2 (0 :: nat)) = Inr [(''status'', JStr ''running'')]"
proof -
  let ?send = "\<lambda>rq n. (Inr (JObj [(''status'', JStr (if n < 2 then ''starting'' else ''running''))]) :: json result, Suc n)"
  have step: "isgr_step ?send (\<lambda>t n. n) ''db'' ''r'' ''running'' 2 n =
      (if n < 2 then None else Some (Inr [(''status'', JStr ''running'')]), Suc n)" for n
    by (simp add: isgr_step_def SyncGateway_get_isgr_status_def send_dict_def assert_dict_def io_bind_def)
  have "after (isgr_step ?send (\<lambda>t n. n) ''db'' ''r'' ''running'' 2) k 0 = k" for k
    by (induction k) (simp_all add: step)
  then have polled: "polled_status ?send (\<lambda>t n. n) ''db'' ''r'' ''running'' 2 0 k =
      Inr [(''status'', JStr (if k < 2 then ''starting'' else ''running''))]" for k
    by (simp add: polled_status_def SyncGateway_get_isgr_status_def send_dict_def assert_dict_def io_bind_def)
  have "\<exists>rs. List.map_filter (\<lambda>k. poll_outcome ''running''
      (polled_status ?send (\<lambda>t n. n) ''db'' ''r'' ''running'' 2 0 k)) [0..<30] = Inr [(''status'', JStr ''running'')] # rs"
    by (rule map_filter_first [where k = 2]) (simp_all add: polled poll_outcome_def)
  moreover have "(2::int) \<noteq> 0" by simp
  ultimately show ?thesis
    by (subst isgr_wait_first_outcome) auto
qed

end
