(* ===== verification/DocsCompare.thy ===== *)
theory DocsCompare
  imports Database SyncGateway Attempts
begin

text \<open>
  The comparison of local and remote documents that the tests end with
  (\<open>api/test_functions.py\<close>), which composes the database client and the Sync Gateway client, and
  \<open>_try_n_times\<close> of \<open>utils.py\<close>.  A message of the result is the kind of difference it describes
  with the counts or the document it names.
\<close>

named_theorems compare_simps "rewrite rules for the comparison of documents"

section \<open>Comparing lists of documents\<close>

text \<open>
  \<open>_compare_revisions\<close>; the two remote revisions are the tree revision and the version vector.
\<close>

definition compare_revisions :: "string \<Rightarrow> string option \<times> string option \<Rightarrow> bool" where
  "compare_revisions cbl_rev sg_rev =
     (if \<not> suffix ''@*'' cbl_rev then Some cbl_rev = fst sg_rev \<or> Some cbl_rev = snd sg_rev
      else case snd sg_rev of
             None \<Rightarrow> False
           | Some sg_cv \<Rightarrow>
               (let before = takeWhile (\<lambda>c. c \<noteq> CHR ''@'') sg_cv
                in if CHR ''@'' \<notin> set sg_cv \<or> before = [] then False
                   else take (length cbl_rev - 2) cbl_rev = before))"

datatype docs_difference = Count_differs nat nat | Doc_missing string | Rev_mismatched string

record docs_compare_result =
  dc_success :: bool
  dc_message :: "docs_difference option"

definition docs_equal :: docs_compare_result where
  "docs_equal = \<lparr> dc_success = True, dc_message = None \<rparr>"

definition docs_differ :: "docs_difference \<Rightarrow> docs_compare_result" where
  "docs_differ m = \<lparr> dc_success = False, dc_message = Some m \<rparr>"

definition local_revs :: "all_docs_entry list \<Rightarrow> (string, string) pydict" where
  "local_revs es = foldl (\<lambda>d e. d_set d (ad_id e) (ad_rev e)) [] es"

definition remote_revs :: "all_docs_row list \<Rightarrow> (string, string option \<times> string option) pydict" where
  "remote_revs rs = foldl (\<lambda>d r. d_set d (ar_id r) (ar_revid r, ar_cv r)) [] rs"

text \<open>The loop over the ids of the source; an id that is missing in either dictionary raises \<open>KeyError\<close>.\<close>

fun compare_ids ::
    "(string \<Rightarrow> bool) \<Rightarrow> (string, string) pydict \<Rightarrow> (string, string option \<times> string option) pydict
      \<Rightarrow> string list \<Rightarrow> docs_compare_result result" where
  "compare_ids in_dest locals remotes [] = Inr docs_equal"
| "compare_ids in_dest locals remotes (i # ids) =
     (if \<not> in_dest i then Inr (docs_differ (Doc_missing i))
      else rbind (d_item locals i) (\<lambda>l. rbind (d_item remotes i) (\<lambda>r.
             if \<not> compare_revisions l r then Inr (docs_differ (Rev_mismatched i))
             else compare_ids in_dest locals remotes ids)))"

definition compare_doc_results ::
    "all_docs_entry list \<Rightarrow> all_docs_row list \<Rightarrow> replicator_type \<Rightarrow> docs_compare_result result" where
  "compare_doc_results local remote mode =
     (if mode = PUSH_AND_PULL \<and> length local \<noteq> length remote
      then Inr (docs_differ (Count_differs (length local) (length remote)))
      else let local_dict = local_revs local; remote_dict = remote_revs remote
           in if mode = PUSH then compare_ids (d_has remote_dict) local_dict remote_dict (d_keys local_dict)
              else compare_ids (d_has local_dict) local_dict remote_dict (d_keys remote_dict))"

text \<open>Two local lists: the remote revision is a local one too, and there is no version vector.\<close>

definition compare_doc_results_p2p ::
    "all_docs_entry list \<Rightarrow> all_docs_entry list \<Rightarrow> docs_compare_result result" where
  "compare_doc_results_p2p local remote =
     (let local_dict = local_revs local;
          remote_dict = map (\<lambda>(i, rev). (i, (Some rev, None))) (local_revs remote)
      in compare_ids (d_has remote_dict) local_dict remote_dict (d_keys local_dict))"

text \<open>\<open>pick\<close> is \<open>next(iter(s))\<close>: some element of a set that is not empty.\<close>

definition compare_doc_ids ::
    "(string set \<Rightarrow> string) \<Rightarrow> all_docs_entry list \<Rightarrow> all_docs_row list \<Rightarrow> docs_compare_result" where
  "compare_doc_ids pick local remote =
     (let local_ids = ad_id ` set local; remote_ids = ar_id ` set remote
      in if local_ids - remote_ids \<noteq> {} then docs_differ (Doc_missing (pick (local_ids - remote_ids)))
         else if remote_ids - local_ids \<noteq> {} then docs_differ (Doc_missing (pick (remote_ids - local_ids)))
         else docs_equal)"

section \<open>Comparing a database with Sync Gateway\<close>

definition only_ids :: "string list option \<Rightarrow> ('e \<Rightarrow> string) \<Rightarrow> 'e list \<Rightarrow> 'e list" where
  "only_ids doc_ids id_of es = (case doc_ids of None \<Rightarrow> es | Some ids \<Rightarrow> filter (\<lambda>e. id_of e \<in> set ids) es)"

fun compare_collections ::
    "'w sgw_send \<Rightarrow> replicator_type \<Rightarrow> string \<Rightarrow> string list option \<Rightarrow> (string, all_docs_entry list) pydict
      \<Rightarrow> string list \<Rightarrow> ('w, unit) io" where
  "compare_collections sgw mode bucket doc_ids lite_all_docs [] = io_return ()"
| "compare_collections sgw mode bucket doc_ids lite_all_docs (coll # colls) =
     (case split_on (CHR ''.'') coll of
        [scope, collection] \<Rightarrow>
          io_bind (SyncGateway_get_all_documents sgw bucket scope collection False) (\<lambda>sg_all_docs.
          io_bind (io_lift (d_item lite_all_docs coll)) (\<lambda>lite_docs.
          io_bind (io_lift (compare_doc_results (only_ids doc_ids ad_id lite_docs)
                     (only_ids doc_ids ar_id (al_rows sg_all_docs)) mode)) (\<lambda>r.
          io_bind (io_lift (py_assert (dc_success r))) (\<lambda>_.
            compare_collections sgw mode bucket doc_ids lite_all_docs colls))))
      | _ \<Rightarrow> io_raise AssertionError)"

definition compare_local_and_remote ::
    "factory \<Rightarrow> 'w sender \<Rightarrow> 'w sgw_send \<Rightarrow> database \<Rightarrow> replicator_type \<Rightarrow> string \<Rightarrow> string list
      \<Rightarrow> string list option \<Rightarrow> ('w, unit) io" where
  "compare_local_and_remote f send sgw local mode bucket collections doc_ids =
     io_bind (Database_get_all_documents f send local collections)
       (\<lambda>lite_all_docs. compare_collections sgw mode bucket doc_ids lite_all_docs collections)"

section \<open>Trying several times\<close>

text \<open>
  The loop of \<open>_try_n_times\<close> with its index and the number of tries that are left; \<open>func\<close> is the
  call, whose exceptions are all caught.
\<close>

fun try_from ::
    "(rat \<Rightarrow> 'w \<Rightarrow> 'w) \<Rightarrow> rat \<Rightarrow> bool \<Rightarrow> ('w, 'a) io \<Rightarrow> nat \<Rightarrow> nat \<Rightarrow> ('w, 'a) io" where
  "try_from sleep secs wait_first func i 0 w = (Inl CblTimeoutError, w)"
| "try_from sleep secs wait_first func i (Suc left) w =
     (case func (if i = 0 \<and> wait_first then sleep secs w else w) of
        (Inr ret, w') \<Rightarrow> (Inr ret, w')
      | (Inl e, w') \<Rightarrow> try_from sleep secs wait_first func (Suc i) left (if left > 0 then sleep secs w' else w'))"

definition try_n_times ::
    "(rat \<Rightarrow> 'w \<Rightarrow> 'w) \<Rightarrow> int \<Rightarrow> rat \<Rightarrow> bool \<Rightarrow> ('w, 'a) io \<Rightarrow> ('w, 'a) io" where
  "try_n_times sleep num secs wait_first func = try_from sleep secs wait_first func 0 (nat num)"

section \<open>What a successful comparison means\<close>

lemma docs_results [simp, compare_simps]:
  "dc_success docs_equal" "\<not> dc_success (docs_differ m)"
  by (simp_all add: docs_equal_def docs_differ_def)

lemma foldl_d_set_distinct:
  assumes "distinct (map key es)" "\<forall>e \<in> set es. \<not> d_has d (key e)"
  shows "foldl (\<lambda>d e. d_set d (key e) (val e)) d es = d @ map (\<lambda>e. (key e, val e)) es"
  using assms
proof (induction es arbitrary: d)
  case (Cons e es)
  have "\<forall>x \<in> set es. \<not> d_has (d @ [(key e, val e)]) (key x)"
    using Cons.prems by (simp add: d_has_iff_keys d_keys_def) (metis imageI)
  with Cons show ?case by (simp add: d_set_new)
qed simp

lemma revs_distinct:
  "distinct (map ad_id local) \<Longrightarrow> local_revs local = map (\<lambda>e. (ad_id e, ad_rev e)) local"
  "distinct (map ar_id remote) \<Longrightarrow> remote_revs remote = map (\<lambda>r. (ar_id r, (ar_revid r, ar_cv r))) remote"
  by (simp_all add: local_revs_def remote_revs_def foldl_d_set_distinct d_has_def)

lemma map_of_key:
  "distinct (map key es) \<Longrightarrow> map_of (map (\<lambda>e. (key e, val e)) es) i = Some v \<longleftrightarrow> (\<exists>e \<in> set es. key e = i \<and> val e = v)"
  by (subst map_of_eq_Some_iff) (auto simp: comp_def)

lemma has_key: "d_has (map (\<lambda>e. (key e, val e)) es) i \<longleftrightarrow> (\<exists>e \<in> set es. key e = i)"
  by (auto simp: d_has_iff_keys d_keys_def comp_def)

lemma compare_ids_result:
  assumes "\<And>i. i \<in> set ids \<Longrightarrow> in_dest i \<Longrightarrow> d_has locals i \<and> d_has remotes i"
  shows "\<exists>r. compare_ids in_dest locals remotes ids = Inr r \<and>
    (dc_success r \<longleftrightarrow> (\<forall>i \<in> set ids. in_dest i \<and>
       (\<forall>l s. map_of locals i = Some l \<longrightarrow> map_of remotes i = Some s \<longrightarrow> compare_revisions l s)))"
  using assms
proof (induction ids)
  case (Cons i ids)
  have "\<And>j. j \<in> set ids \<Longrightarrow> in_dest j \<Longrightarrow> d_has locals j \<and> d_has remotes j"
    using Cons.prems by simp
  from Cons.IH [OF this] obtain r where r: "compare_ids in_dest locals remotes ids = Inr r"
    "dc_success r \<longleftrightarrow> (\<forall>i \<in> set ids. in_dest i \<and>
       (\<forall>l s. map_of locals i = Some l \<longrightarrow> map_of remotes i = Some s \<longrightarrow> compare_revisions l s))" by blast
  show ?case
  proof (cases "in_dest i")
    case True
    with Cons.prems obtain l s where "map_of locals i = Some l" "map_of remotes i = Some s"
      by (fastforce simp: d_has_def)
    with True r show ?thesis by (cases s) (auto simp: d_item_def)
  qed simp
qed simp

text \<open>The local and the remote document of an id have the same revision.\<close>

definition same_doc :: "all_docs_entry \<Rightarrow> all_docs_row \<Rightarrow> bool" where
  "same_doc e r = (ad_id e = ar_id r \<and> compare_revisions (ad_rev e) (ar_revid r, ar_cv r))"

lemma same_docs_lookup:
  assumes l: "distinct (map ad_id local)" and r: "distinct (map ar_id remote)"
  shows "(\<forall>i \<in> ad_id ` set local. d_has (remote_revs remote) i \<and>
       (\<forall>v s. map_of (local_revs local) i = Some v \<longrightarrow> map_of (remote_revs remote) i = Some s \<longrightarrow> compare_revisions v s))
     \<longleftrightarrow> (\<forall>e \<in> set local. \<exists>r \<in> set remote. same_doc e r)"
    "(\<forall>i \<in> ar_id ` set remote. d_has (local_revs local) i \<and>
       (\<forall>v s. map_of (local_revs local) i = Some v \<longrightarrow> map_of (remote_revs remote) i = Some s \<longrightarrow> compare_revisions v s))
     \<longleftrightarrow> (\<forall>r \<in> set remote. \<exists>e \<in> set local. same_doc e r)"
  using assms
  by (auto simp: revs_distinct has_key map_of_key same_doc_def; metis inj_onD distinct_map)+

lemma count_and_cover:
  assumes "distinct (map ad_id local)" "distinct (map ar_id remote)" "length local = length remote"
    and "\<forall>r \<in> set remote. \<exists>e \<in> set local. same_doc e r"
  shows "\<forall>e \<in> set local. \<exists>r \<in> set remote. same_doc e r"
proof
  fix e assume e: "e \<in> set local"
  have "ar_id ` set remote \<subseteq> ad_id ` set local" using assms(4) by (force simp: same_doc_def)
  moreover have "card (ar_id ` set remote) = card (ad_id ` set local)"
    using assms(1-3) distinct_card by (metis length_map set_map)
  ultimately have "ar_id ` set remote = ad_id ` set local" by (simp add: card_subset_eq)
  then obtain r where r: "r \<in> set remote" "ar_id r = ad_id e" using e by (metis imageE image_eqI)
  then obtain e' where "e' \<in> set local" "same_doc e' r" using assms(4) by blast
  moreover from this have "e' = e"
    using r(2) e assms(1) by (auto simp: same_doc_def distinct_map inj_on_def)
  ultimately show "\<exists>r \<in> set remote. same_doc e r" using r(1) by blast
qed

lemma compare_doc_results_iff:
  assumes "distinct (map ad_id local)" "distinct (map ar_id remote)"
  shows "\<exists>r. compare_doc_results local remote mode = Inr r \<and>
    (dc_success r \<longleftrightarrow>
       (mode \<noteq> PULL \<longrightarrow> (\<forall>e \<in> set local. \<exists>r \<in> set remote. same_doc e r))
       \<and> (mode \<noteq> PUSH \<longrightarrow> (\<forall>r \<in> set remote. \<exists>e \<in> set local. same_doc e r)))"
proof -
  have keys: "set (d_keys (local_revs local)) = ad_id ` set local" "set (d_keys (remote_revs remote)) = ar_id ` set remote"
    using assms by (simp_all add: revs_distinct d_keys_def image_image)
  have push: "\<exists>r. compare_ids (d_has (remote_revs remote)) (local_revs local) (remote_revs remote) (d_keys (local_revs local)) = Inr r
      \<and> (dc_success r \<longleftrightarrow> (\<forall>e \<in> set local. \<exists>r \<in> set remote. same_doc e r))"
    unfolding same_docs_lookup(1) [OF assms, symmetric] keys(1) [symmetric]
    by (rule compare_ids_result) (simp add: d_has_iff_keys)
  have pull: "\<exists>r. compare_ids (d_has (local_revs local)) (local_revs local) (remote_revs remote) (d_keys (remote_revs remote)) = Inr r
      \<and> (dc_success r \<longleftrightarrow> (\<forall>r \<in> set remote. \<exists>e \<in> set local. same_doc e r))"
    unfolding same_docs_lookup(2) [OF assms, symmetric] keys(2) [symmetric]
    by (rule compare_ids_result) (simp add: d_has_iff_keys)
  have counts: "length local = length remote"
    if "\<forall>e \<in> set local. \<exists>r \<in> set remote. same_doc e r" "\<forall>r \<in> set remote. \<exists>e \<in> set local. same_doc e r"
  proof -
    have "ad_id ` set local = ar_id ` set remote" using that by (force simp: same_doc_def)
    then show ?thesis using assms distinct_card by (metis length_map set_map)
  qed
  show ?thesis
  proof (cases mode)
    case PUSH_AND_PULL
    then show ?thesis using pull counts count_and_cover [OF assms]
      by (auto simp: compare_doc_results_def Let_def)
  qed (use push pull in \<open>auto simp: compare_doc_results_def Let_def\<close>)
qed

text \<open>
  C23. Comparing lists without repeated ids never raises, and succeeds after a push exactly when
  every local document is on the remote side with a matching revision, after a pull exactly when
  every remote document is on the local side with one, and after a push and pull exactly when
  both hold.
\<close>

theorem compare_doc_results_correct:
  assumes "distinct (map ad_id local)" "distinct (map ar_id remote)"
  shows "\<exists>r. compare_doc_results local remote mode = Inr r \<and>
    (dc_success r \<longleftrightarrow>
       (mode \<noteq> PULL \<longrightarrow> (\<forall>e \<in> set local. \<exists>r \<in> set remote. same_doc e r))
       \<and> (mode \<noteq> PUSH \<longrightarrow> (\<forall>r \<in> set remote. \<exists>e \<in> set local. same_doc e r)))"
  using assms by (rule compare_doc_results_iff)

theorem compare_doc_results_correct_witness:
  "\<exists>r. compare_doc_results [\<lparr> ad_id = ''a'', ad_rev = ''1-x'' \<rparr>]
      [\<lparr> ar_key = JNull, ar_id = ''a'', ar_revid = Some ''1-x'', ar_cv = None, ar_doc = None \<rparr>] PUSH_AND_PULL = Inr r
     \<and> dc_success r"
proof -
  let ?l = "[\<lparr> ad_id = ''a'', ad_rev = ''1-x'' \<rparr>]"
  let ?r = "[\<lparr> ar_key = JNull, ar_id = ''a'', ar_revid = Some ''1-x'', ar_cv = None, ar_doc = None \<rparr>]"
  have "distinct (map ad_id ?l)" "distinct (map ar_id ?r)" by simp_all
  from compare_doc_results_correct [OF this, of PUSH_AND_PULL] show ?thesis
    by (simp add: same_doc_def compare_revisions_def suffix_def)
qed

text \<open>Two peers that hold the same document compare unequal when its version is the peer's own.\<close>

lemma own_version_never_matches_p2p:
  assumes "suffix ''@*'' version"
  shows "compare_doc_results_p2p [\<lparr> ad_id = i, ad_rev = version \<rparr>] [\<lparr> ad_id = i, ad_rev = version \<rparr>]
    = Inr (docs_differ (Rev_mismatched i))"
  using assms
  by (simp add: compare_doc_results_p2p_def local_revs_def compare_revisions_def d_has_def d_keys_def d_item_def)

text \<open>What one collection contributes to a comparison that passes.\<close>

definition collection_agrees ::
    "'w sgw_send \<Rightarrow> replicator_type \<Rightarrow> string \<Rightarrow> string list option \<Rightarrow> (string, all_docs_entry list) pydict
      \<Rightarrow> string \<Rightarrow> 'w \<Rightarrow> bool" where
  "collection_agrees sgw mode bucket doc_ids lite_all_docs coll w =
     (\<exists>scope collection sg lite r. split_on (CHR ''.'') coll = [scope, collection]
        \<and> fst (SyncGateway_get_all_documents sgw bucket scope collection False w) = Inr sg
        \<and> map_of lite_all_docs coll = Some lite
        \<and> compare_doc_results (only_ids doc_ids ad_id lite) (only_ids doc_ids ar_id (al_rows sg)) mode = Inr r
        \<and> dc_success r)"

lemma compare_collections_agree:
  assumes "compare_collections sgw mode bucket doc_ids lite colls w = (Inr u, w')"
  shows "\<forall>coll \<in> set colls. \<exists>v. collection_agrees sgw mode bucket doc_ids lite coll v"
  using assms
proof (induction colls arbitrary: w)
  case (Cons coll colls)
  from Cons.prems obtain scope collection where s: "split_on (CHR ''.'') coll = [scope, collection]"
    by (auto split: list.splits)
  obtain sg v where sg: "SyncGateway_get_all_documents sgw bucket scope collection False w = (Inr sg, v)"
    using Cons.prems s by (auto simp: io_bind_def split: prod.splits sum.splits)
  obtain ld where ld: "map_of lite coll = Some ld"
    using Cons.prems s sg by (auto simp: io_bind_def d_item_def split: option.splits)
  obtain r where r: "compare_doc_results (only_ids doc_ids ad_id ld) (only_ids doc_ids ar_id (al_rows sg)) mode = Inr r"
    using Cons.prems s sg ld by (auto simp: io_bind_def d_item_def split: sum.splits)
  have ok: "dc_success r"
    using Cons.prems s sg ld r by (auto simp: io_bind_def d_item_def py_assert_def split: if_splits)
  have "compare_collections sgw mode bucket doc_ids lite colls v = (Inr u, w')"
    using Cons.prems s sg ld r ok by (simp add: io_bind_def d_item_def)
  then have "\<forall>coll \<in> set colls. \<exists>v. collection_agrees sgw mode bucket doc_ids lite coll v"
    by (rule Cons.IH)
  moreover have "collection_agrees sgw mode bucket doc_ids lite coll w"
    unfolding collection_agrees_def using s sg ld r ok by auto
  ultimately show ?case by auto
qed simp



text \<open>The world in which the call after \<open>k\<close> failed ones is made.\<close>

primrec try_world :: "(rat \<Rightarrow> 'w \<Rightarrow> 'w) \<Rightarrow> rat \<Rightarrow> bool \<Rightarrow> ('w, 'a) io \<Rightarrow> 'w \<Rightarrow> nat \<Rightarrow> 'w" where
  "try_world sleep secs wait_first func w 0 = (if wait_first then sleep secs w else w)"
| "try_world sleep secs wait_first func w (Suc k) = sleep secs (snd (func (try_world sleep secs wait_first func w k)))"

definition returned :: "'a result \<Rightarrow> 'a result option" where
  "returned r = (case r of Inl e \<Rightarrow> None | Inr x \<Rightarrow> Some (Inr x))"

lemma try_from_first:
  assumes "left > 0 \<longrightarrow> (if i = 0 \<and> wait_first then sleep secs v else v) = try_world sleep secs wait_first func w i"
  shows "fst (try_from sleep secs wait_first func i left v) =
    hd (List.map_filter (\<lambda>k. returned (fst (func (try_world sleep secs wait_first func w k)))) [i..<i + left]
        @ [Inl CblTimeoutError])"
  using assms
proof (induction left arbitrary: i v)
  case 0
  then show ?case by (simp add: List.map_filter_def)
next
  case (Suc left)
  let ?v = "try_world sleep secs wait_first func w"
  have now: "(if i = 0 \<and> wait_first then sleep secs v else v) = ?v i" using Suc.prems by simp
  have upt: "[i..<i + Suc left] = i # [Suc i..<Suc i + left]" by (simp add: upt_conv_Cons)
  obtain r v' where f: "func (?v i) = (r, v')" by fastforce
  show ?case
  proof (cases r)
    case (Inl e)
    have "fst (try_from sleep secs wait_first func (Suc i) left (if left > 0 then sleep secs v' else v')) =
      hd (List.map_filter (\<lambda>k. returned (fst (func (?v k)))) [Suc i..<Suc i + left] @ [Inl CblTimeoutError])"
      by (rule Suc.IH) (use f in simp)
    then show ?thesis unfolding upt using f Inl now by (simp add: List.map_filter_def returned_def)
  next
    case (Inr x)
    then show ?thesis unfolding upt using f now by (simp add: List.map_filter_def returned_def)
  qed
qed

text \<open>
  Trying a call \<open>num\<close> times returns what the first of the calls that returns gives, whatever
  the calls before it raised, and raises \<open>CblTimeoutError\<close> when none of them returns, or \<open>num\<close> is
  not positive; every call but the first follows a pause.
\<close>

theorem try_n_times_first_return:
  "fst (try_n_times sleep num secs wait_first func w) =
    hd (List.map_filter (\<lambda>k. returned (fst (func (try_world sleep secs wait_first func w k)))) [0..<nat num]
        @ [Inl CblTimeoutError])"
  unfolding try_n_times_def
  by (subst try_from_first [where w = w]) simp_all

end
