(* ===== verification/EdgeServer.thy ===== *)
theory EdgeServer
  imports SyncGateway
begin

text \<open>
  The Edge Server client (\<open>api/edgeserver.py\<close>): its version strings and configuration, bulk
  operations, the request primitive with its choice of session, and the operations over REST.
  \<open>send\<close> is the client's \<open>_send_request\<close>, \<open>fetch\<close> a plain GET from Caddy, \<open>sleep\<close> waits.
  A configuration file is what the JSON5 reader makes of it.
\<close>

section \<open>Versions and configuration\<close>

definition EdgeServerVersion_parse :: "string \<Rightarrow> string \<times> int" where
  "EdgeServerVersion_parse input =
     (let first_lparen = py_find input (CHR ''(''); first_semicol = py_find input (CHR '';'')
      in if first_lparen = - 1 \<or> first_semicol = - 1 then (''unknown'', 0)
         else let l = nat first_lparen; s = nat first_semicol;
                  version = py_strip (take l input)
              in (if version = [] then ''unknown'' else version,
                  case py_int (take (s - Suc l) (drop (Suc l) input)) of Some n \<Rightarrow> n | None \<Rightarrow> 0))"

record edge_config =
  ec_port :: int
  ec_secure :: bool
  ec_mtls :: bool
  ec_users :: bool
  ec_anonymous :: json

text \<open>
  \<open>_decode_config_file\<close>; \<open>https\<close> that is set but is not an object has no \<open>get\<close>.
\<close>

definition EdgeServer_decode_config :: "jdict \<Rightarrow> edge_config result" where
  "EdgeServer_decode_config config =
     (let https = get_or_null config ''https'';
          interface = (case map_of config ''interface'' of None \<Rightarrow> JStr ''0.0.0.0:59840'' | Some v \<Rightarrow> v)
      in rbind (case interface of
                  JStr s \<Rightarrow>
                    (case split_on (CHR '':'') s of
                       h # p # rest \<Rightarrow> (case py_int p of Some n \<Rightarrow> Inr n | None \<Rightarrow> Inl ValueError)
                     | _ \<Rightarrow> Inl IndexError)
                | _ \<Rightarrow> Inl AttributeError) (\<lambda>port.
         rbind (if truthy https
                then case https of
                       JObj h \<Rightarrow> Inr (truthy (get_or_null h ''client_cert_path''))
                     | _ \<Rightarrow> Inl AttributeError
                else Inr False) (\<lambda>mtls.
           Inr \<lparr> ec_port = port, ec_secure = truthy https, ec_mtls = mtls,
                 ec_users = truthy (get_or_null config ''users''),
                 ec_anonymous = (case map_of config ''enable_anonymous_users'' of None \<Rightarrow> JBool False | Some v \<Rightarrow> v) \<rparr>)))"

text \<open>
  \<open>BulkDocOperation\<close>: its body, which is the caller's dictionary with the id and, for an update
  or a deletion, the revision in it.  \<open>fresh\<close> is the new UUID.
\<close>

definition BulkDocOperation_create ::
    "string \<Rightarrow> jdict \<Rightarrow> string option \<Rightarrow> string option \<Rightarrow> string \<Rightarrow> jdict result" where
  "BulkDocOperation_create fresh body i revid optype =
     (let i0 = (case i of Some s \<Rightarrow> JStr s | None \<Rightarrow> get_or_null body ''_id'')
      in rbind
           (if optype = ''update''
            then (let (optype, i1) = (if i0 = JNull then (''create'', JStr fresh) else (optype, i0))
                  in case revid of
                       None \<Rightarrow> Inl CblTestError
                     | Some r \<Rightarrow> Inr (optype, i1, d_set body ''_rev'' (JStr r)))
            else Inr (optype, i0, body)) (\<lambda>(optype, i1, body).
         rbind
           (if optype = ''delete''
            then (if i1 = JNull then Inl CblTestError
                  else case revid of
                         None \<Rightarrow> Inl CblTestError
                       | Some r \<Rightarrow> Inr (d_set (d_set body ''_deleted'' (JBool True)) ''_rev'' (JStr r)))
            else Inr body) (\<lambda>body. Inr (d_set body ''_id'' i1))))"

section \<open>The client and its requests\<close>

text \<open>
  The sessions of a client: anonymous, as the administrator whose credentials it was made with,
  and to the shell service of the host.
\<close>

datatype edge_session = Anonymous_session | Admin_session string string | Shell_session

record edge_server =
  es_config :: edge_config
  es_hostname :: string
  es_auth :: bool
  es_admin :: edge_session

definition EdgeServer_create :: "string \<Rightarrow> string \<Rightarrow> string \<Rightarrow> jdict option \<Rightarrow> edge_server result" where
  "EdgeServer_create url admin_user admin_password config_file =
     (case config_file of
        None \<Rightarrow> Inl CblTestError
      | Some config \<Rightarrow> rbind (EdgeServer_decode_config config) (\<lambda>c.
          Inr \<lparr> es_config = c, es_hostname = url, es_auth = ec_users c,
                es_admin = Admin_session admin_user admin_password \<rparr>))"

text \<open>Turning authentication on replaces the administrator's session only.\<close>

definition EdgeServer_set_auth :: "bool \<Rightarrow> string \<Rightarrow> string \<Rightarrow> edge_server \<Rightarrow> edge_server" where
  "EdgeServer_set_auth auth name password e =
     (if \<not> auth then e\<lparr>es_auth := False\<rparr> else e\<lparr>es_admin := Admin_session name password\<rparr>)"

record edge_request =
  er_method :: string
  er_path :: string
  er_data :: "json option"
  er_session :: edge_session

type_synonym 's edge_send = "edge_request \<Rightarrow> ('s, json) io"

definition default_session :: "edge_server \<Rightarrow> edge_session" where
  "default_session e = (if es_auth e then es_admin e else Anonymous_session)"

definition edge_call :: "edge_server \<Rightarrow> string \<Rightarrow> string \<Rightarrow> json option \<Rightarrow> edge_request" where
  "edge_call e method path data =
     \<lparr> er_method = method, er_path = path, er_data = data, er_session = default_session e \<rparr>"

definition shell_post :: "string \<Rightarrow> json option \<Rightarrow> edge_request" where
  "shell_post path data =
     \<lparr> er_method = ''post'', er_path = path, er_data = data, er_session = Shell_session \<rparr>"

definition EdgeServer_send_request ::
    "(edge_request \<Rightarrow> ('w, sgw_reply) io) \<Rightarrow> edge_request \<Rightarrow> ('w client_world, json) io" where
  "EdgeServer_send_request session rq w0 =
     (let num = cw_next_num w0; w = write_log num Log_begin (w0\<lparr>cw_next_num := Suc num\<rparr>)
      in case session rq (cw_net w) of
           (Inl e, n) \<Rightarrow> (Inl e, w\<lparr>cw_net := n\<rparr>)
         | (Inr resp, n) \<Rightarrow>
             (let w = w\<lparr>cw_net := n\<rparr>
              in case (if prefix ''application/json'' (gp_content_type resp) then gp_json resp
                       else Inr (JStr (gp_text resp))) of
                   Inl e \<Rightarrow> (Inl e, w)
                 | Inr ret_val \<Rightarrow>
                     (if \<not> gp_status resp < 400
                      then Inl (CblEdgeServerBadResponseError (Some (gp_status resp))) else Inr ret_val,
                      write_log num Log_end w)))"

definition EdgeServer_keyspace_builder :: "string \<Rightarrow> string \<Rightarrow> string \<Rightarrow> string" where
  "EdgeServer_keyspace_builder db scope collection =
     db @ (if scope \<noteq> [] then ''.'' @ scope else []) @ (if collection \<noteq> [] then ''.'' @ collection else [])"

text \<open>The two ways in which the operations check what they get: an object or a list without an error.\<close>

definition edge_dict :: "json \<Rightarrow> jdict result" where
  "edge_dict response =
     (case response of
        JObj d \<Rightarrow>
          if d_has d ''error''
          then rbind (d_item d ''reason'') (\<lambda>_. Inl (CblEdgeServerBadResponseError (Some 500)))
          else Inr d
      | _ \<Rightarrow> Inl ValueError)"

definition edge_list :: "json \<Rightarrow> json list result" where
  "edge_list response =
     (case response of JList l \<Rightarrow> Inr l | _ \<Rightarrow> Inl (CblEdgeServerBadResponseError (Some 500)))"

definition call_dict :: "'s edge_send \<Rightarrow> edge_request \<Rightarrow> ('s, jdict) io" where
  "call_dict send rq = io_bind (send rq) (\<lambda>v. io_lift (edge_dict v))"

definition call_list :: "'s edge_send \<Rightarrow> edge_request \<Rightarrow> ('s, json list) io" where
  "call_list send rq = io_bind (send rq) (\<lambda>v. io_lift (edge_list v))"

section \<open>Encoding for URLs\<close>

definition hex_digit :: "nat \<Rightarrow> char" where
  "hex_digit n = (if n < 10 then char_of (48 + n) else char_of (55 + n))"

text \<open>\<open>urllib.parse.quote\<close> of an ASCII string.\<close>

definition quote_safe :: "char \<Rightarrow> bool" where
  "quote_safe c = (is_alpha c \<or> is_digit c \<or> c \<in> set ''_.-~/'')"

definition url_quote :: "string \<Rightarrow> string" where
  "url_quote s = concat (map (\<lambda>c. if quote_safe c then [c]
     else (let n = (of_char c :: nat) in [CHR ''%'', hex_digit (n div 16), hex_digit (n mod 16)])) s)"

text \<open>\<open>json.dumps\<close> of a string and of a list of strings.\<close>

definition json_char :: "char \<Rightarrow> string" where
  "json_char c =
     (let n = (of_char c :: nat); bs = char_of (92 :: nat)
      in if n = 34 \<or> n = 92 then [bs, c]
         else if n = 10 then [bs, CHR ''n''] else if n = 13 then [bs, CHR ''r'']
         else if n = 9 then [bs, CHR ''t''] else if n = 8 then [bs, CHR ''b'']
         else if n = 12 then [bs, CHR ''f'']
         else if n < 32 \<or> n > 126
         then [bs, CHR ''u'', CHR ''0'', CHR ''0''] @ py_lower [hex_digit (n div 16), hex_digit (n mod 16)]
         else [c])"

definition json_str :: "string \<Rightarrow> string" where
  "json_str s = CHR 0x22 # concat (map json_char s) @ [CHR 0x22]"

fun json_strs :: "string list \<Rightarrow> string" where
  "json_strs [] = []"
| "json_strs [s] = json_str s"
| "json_strs (s # ss) = json_str s @ '', '' @ json_strs ss"

definition json_dumps_strs :: "string list \<Rightarrow> string" where
  "json_dumps_strs ss = ''['' @ json_strs ss @ '']''"

text \<open>\<open>?\<close> and the parameters joined by \<open>&\<close>, or nothing.\<close>

definition query_string :: "string list \<Rightarrow> string" where
  "query_string ps = (if ps = [] then [] else CHR ''?'' # join_with (CHR ''&'') ps)"

definition param :: "bool \<Rightarrow> string \<Rightarrow> string \<Rightarrow> string list" where
  "param present key value = (if present then [key @ ''='' @ value] else [])"

section \<open>Documents\<close>

definition EdgeServer_get_version :: "'s edge_send \<Rightarrow> ('s, string \<times> int) io" where
  "EdgeServer_get_version send =
     io_bind (send \<lparr> er_method = ''get'', er_path = ''/'', er_data = None, er_session = Anonymous_session \<rparr>) (\<lambda>v. io_lift (
       rbind (assert_dict v) (\<lambda>d.
       rbind (get_typed_required d ''version'' T_str) (\<lambda>raw.
         case raw of
           JStr raw_version \<Rightarrow> Inr (EdgeServerVersion_parse (last_part (CHR ''/'') raw_version))
         | _ \<Rightarrow> Inl TypeError))))"

text \<open>The parameters; strings and lists that are missing or empty (\<open>[]\<close> here) are left out.\<close>

definition all_docs_params :: "bool \<Rightarrow> string \<Rightarrow> string list \<Rightarrow> string \<Rightarrow> bool \<Rightarrow> string list" where
  "all_docs_params descending endkey keys startkey include_docs =
     param descending ''descending'' ''true''
     @ param (endkey \<noteq> []) ''endkey'' (url_quote endkey)
     @ param (keys \<noteq> []) ''keys'' (url_quote (json_dumps_strs keys))
     @ param (startkey \<noteq> []) ''startkey'' (url_quote startkey)
     @ param include_docs ''include_docs'' ''true''"

definition EdgeServer_get_all_documents ::
    "'s edge_send \<Rightarrow> edge_server \<Rightarrow> string \<Rightarrow> string \<Rightarrow> string \<Rightarrow> bool \<Rightarrow> string option \<Rightarrow> string list option
      \<Rightarrow> string option \<Rightarrow> bool \<Rightarrow> ('s, all_docs_response) io" where
  "EdgeServer_get_all_documents send e db scope collection descending endkey keys startkey include_docs =
     (let text = (\<lambda>x. case x of None \<Rightarrow> [] | Some s \<Rightarrow> s);
          ks = (case keys of None \<Rightarrow> [] | Some l \<Rightarrow> l);
          query_params = all_docs_params descending (text endkey) ks (text startkey) include_docs
      in io_bind (send (edge_call e ''get'' (''/'' @ EdgeServer_keyspace_builder db scope collection
                    @ ''/_all_docs'' @ query_string query_params) None))
           (\<lambda>v. io_lift (rbind (assert_dict v) AllDocumentsResponse_create)))"

definition EdgeServer_delete_document ::
    "'s edge_send \<Rightarrow> edge_server \<Rightarrow> string \<Rightarrow> string \<Rightarrow> string \<Rightarrow> string \<Rightarrow> string \<Rightarrow> int \<Rightarrow> int \<Rightarrow> ('s, json) io" where
  "EdgeServer_delete_document send e doc_id revid db scope collection expires ttl =
     send (edge_call e ''delete'' (''/'' @ EdgeServer_keyspace_builder db scope collection @ ''/'' @ doc_id
       @ query_string ([''rev='' @ revid] @ param (expires \<noteq> 0) ''expires'' (int_str expires)
           @ param (ttl \<noteq> 0) ''ttl'' (int_str ttl))) None)"

definition EdgeServer_get_document ::
    "'s edge_send \<Rightarrow> edge_server \<Rightarrow> string \<Rightarrow> string \<Rightarrow> string \<Rightarrow> string \<Rightarrow> string option
      \<Rightarrow> ('s, remote_document option) io" where
  "EdgeServer_get_document send e db doc_id scope collection revid =
     (let r = (case revid of None \<Rightarrow> [] | Some s \<Rightarrow> s)
      in io_bind (send (edge_call e ''get'' (''/'' @ EdgeServer_keyspace_builder db scope collection @ ''/'' @ doc_id
                    @ query_string (param (r \<noteq> []) ''rev'' r)) None)) (\<lambda>response.
           case response of
             JObj d \<Rightarrow>
               if d_has d ''error''
               then io_lift (rbind (d_item d ''reason'') (\<lambda>reason.
                      if py_eq reason (JStr ''missing'') \<or> py_eq reason (JStr ''deleted'') then Inr None
                      else Inl (CblEdgeServerBadResponseError (Some 500))))
               else io_lift (rbind (RemoteDocument_create d) (\<lambda>doc. Inr (Some doc)))
           | _ \<Rightarrow> io_raise ValueError))"

definition EdgeServer_get_all_dbs :: "'s edge_send \<Rightarrow> edge_server \<Rightarrow> ('s, json list) io" where
  "EdgeServer_get_all_dbs send e = call_list send (edge_call e ''get'' ''/_all_dbs'' None)"

definition EdgeServer_get_active_tasks :: "'s edge_send \<Rightarrow> edge_server \<Rightarrow> ('s, json list) io" where
  "EdgeServer_get_active_tasks send e = call_list send (edge_call e ''get'' ''/_active_tasks'' None)"

definition EdgeServer_get_db_info ::
    "'s edge_send \<Rightarrow> edge_server \<Rightarrow> string \<Rightarrow> string \<Rightarrow> string \<Rightarrow> ('s, jdict) io" where
  "EdgeServer_get_db_info send e db scope collection =
     call_dict send (edge_call e ''get'' (''/'' @ EdgeServer_keyspace_builder db scope collection) None)"

section \<open>Replication\<close>

text \<open>The arguments of \<open>start_replication\<close>; lists and headers may be missing.\<close>

record edge_replication =
  rp_source :: string
  rp_target :: string
  rp_user :: string
  rp_password :: string
  rp_bidirectional :: bool
  rp_continuous :: bool
  rp_collections :: "string list option"
  rp_channels :: "string list option"
  rp_doc_ids :: "string list option"
  rp_headers :: "(string, string) pydict option"
  rp_trusted_root_certs :: "string option"
  rp_pinned_cert :: "string option"
  rp_session_cookie :: "string option"
  rp_openid_token :: "string option"
  rp_tls_client_cert :: "string option"
  rp_tls_client_cert_key :: "string option"

definition or_null :: "('a \<Rightarrow> json) \<Rightarrow> 'a option \<Rightarrow> json" where
  "or_null f x = (case x of None \<Rightarrow> JNull | Some v \<Rightarrow> f v)"

definition when_text :: "string \<Rightarrow> string option \<Rightarrow> jdict" where
  "when_text key x = (case x of Some s \<Rightarrow> if s \<noteq> [] then [(key, JStr s)] else [] | None \<Rightarrow> [])"

definition replication_payload :: "edge_replication \<Rightarrow> jdict" where
  "replication_payload r =
     [(''source'', JStr (rp_source r)), (''target'', JStr (rp_target r)),
      (''bidirectional'', JBool (rp_bidirectional r)), (''continuous'', JBool (rp_continuous r)),
      (''collections'', or_null JStrs (rp_collections r)), (''channels'', or_null JStrs (rp_channels r)),
      (''doc_ids'', or_null JStrs (rp_doc_ids r)), (''headers'', or_null JStrDict (rp_headers r))]
     @ when_text ''trusted_root_certs'' (rp_trusted_root_certs r)
     @ when_text ''pinned_cert'' (rp_pinned_cert r)
     @ when_text ''user'' (Some (rp_user r))
     @ when_text ''password'' (Some (rp_password r))
     @ when_text ''session_cookie'' (rp_session_cookie r)
     @ when_text ''openid_token'' (rp_openid_token r)
     @ when_text ''tls_client_cert'' (rp_tls_client_cert r)
     @ when_text ''tls_client_cert_key'' (rp_tls_client_cert_key r)"

definition EdgeServer_start_replication ::
    "'s edge_send \<Rightarrow> edge_server \<Rightarrow> edge_replication \<Rightarrow> ('s, json) io" where
  "EdgeServer_start_replication send e r =
     io_bind (call_dict send (edge_call e ''post'' ''/_replicate'' (Some (JObj (replication_payload r)))))
       (\<lambda>d. io_return (get_or_null d ''session_id''))"

definition EdgeServer_replication_status :: "'s edge_send \<Rightarrow> edge_server \<Rightarrow> string \<Rightarrow> ('s, jdict) io" where
  "EdgeServer_replication_status send e i =
     call_dict send (edge_call e ''get'' (''/_replicate/'' @ i) None)"

definition EdgeServer_all_replication_status :: "'s edge_send \<Rightarrow> edge_server \<Rightarrow> ('s, json list) io" where
  "EdgeServer_all_replication_status send e = call_list send (edge_call e ''get'' ''/_replicate'' None)"

text \<open>An empty answer is fine too.\<close>

definition EdgeServer_stop_replication :: "'s edge_send \<Rightarrow> edge_server \<Rightarrow> int \<Rightarrow> ('s, unit) io" where
  "EdgeServer_stop_replication send e i =
     io_bind (send (edge_call e ''delete'' (''/_replicate/'' @ int_str i) None)) (\<lambda>response.
       if truthy response then io_lift (rbind (edge_dict response) (\<lambda>_. Inr ())) else io_return ())"

text \<open>\<open>if x is not None\<close>: the entries of the body that are kept.\<close>

definition EdgeServer_changes_feed ::
    "'s edge_send \<Rightarrow> edge_server \<Rightarrow> string \<Rightarrow> string \<Rightarrow> string \<Rightarrow> int option \<Rightarrow> string option \<Rightarrow> int option
      \<Rightarrow> string option \<Rightarrow> string list option \<Rightarrow> bool option \<Rightarrow> bool option \<Rightarrow> bool option \<Rightarrow> int option
      \<Rightarrow> int option \<Rightarrow> ('s, jdict) io" where
  "EdgeServer_changes_feed send e db scope collection since feed limit filter_type doc_ids include_docs
       active_only descending heartbeat timeout =
     call_dict send (edge_call e ''post'' (EdgeServer_keyspace_builder db scope collection @ ''/_changes'')
       (Some (JObj (opt_field ''since'' (map_option JInt since) @ opt_field ''feed'' (map_option JStr feed)
         @ opt_field ''limit'' (map_option JInt limit) @ opt_field ''filter'' (map_option JStr filter_type)
         @ opt_field ''doc_ids'' (map_option JStrs doc_ids) @ opt_field ''include_docs'' (map_option JBool include_docs)
         @ opt_field ''active_only'' (map_option JBool active_only) @ opt_field ''descending'' (map_option JBool descending)
         @ opt_field ''heartbeat'' (map_option JInt heartbeat) @ opt_field ''timeout'' (map_option JInt timeout)))))"

section \<open>Queries and writes\<close>

definition EdgeServer_named_query ::
    "'s edge_send \<Rightarrow> edge_server \<Rightarrow> string \<Rightarrow> string \<Rightarrow> string \<Rightarrow> string option \<Rightarrow> jdict option \<Rightarrow> ('s, json list) io" where
  "EdgeServer_named_query send e db scope collection name params =
     call_list send (edge_call e ''post'' (''/'' @ EdgeServer_keyspace_builder db scope collection @ ''/_query/''
         @ (case name of None \<Rightarrow> ''None'' | Some n \<Rightarrow> n))
       (Some (JObj (case params of None \<Rightarrow> [] | Some p \<Rightarrow> p))))"

definition EdgeServer_adhoc_query ::
    "'s edge_send \<Rightarrow> edge_server \<Rightarrow> string \<Rightarrow> string \<Rightarrow> string \<Rightarrow> string option \<Rightarrow> jdict option \<Rightarrow> ('s, json list) io" where
  "EdgeServer_adhoc_query send e db scope collection query params =
     call_list send (edge_call e ''post'' (''/'' @ EdgeServer_keyspace_builder db scope collection @ ''/_query'')
       (Some (JObj ((''query'', JOptStr query) # opt_field ''params'' (map_option JObj params)))))"

definition EdgeServer_add_document_auto_id ::
    "'s edge_send \<Rightarrow> edge_server \<Rightarrow> jdict \<Rightarrow> string \<Rightarrow> string \<Rightarrow> string \<Rightarrow> int \<Rightarrow> int \<Rightarrow> ('s, jdict) io" where
  "EdgeServer_add_document_auto_id send e document db scope collection expires ttl =
     call_dict send (edge_call e ''post'' (''/'' @ EdgeServer_keyspace_builder db scope collection @ ''/''
         @ query_string (param (expires \<noteq> 0) ''expires'' (int_str expires) @ param (ttl \<noteq> 0) ''ttl'' (int_str ttl)))
       (Some (JObj document)))"

text \<open>The revision is written into the caller's document, which is the second result.\<close>

definition EdgeServer_put_document_with_id ::
    "'s edge_send \<Rightarrow> edge_server \<Rightarrow> jdict \<Rightarrow> string \<Rightarrow> string \<Rightarrow> string \<Rightarrow> string \<Rightarrow> string option \<Rightarrow> int \<Rightarrow> int
      \<Rightarrow> 's \<Rightarrow> (jdict result \<times> jdict) \<times> 's" where
  "EdgeServer_put_document_with_id send e document i db scope collection revid expires ttl w =
     (let r = (case revid of None \<Rightarrow> [] | Some s \<Rightarrow> s);
          document = (if r \<noteq> [] then d_set document ''_rev'' (JStr r) else document);
          (res, w') = call_dict send (edge_call e ''put''
            (''/'' @ EdgeServer_keyspace_builder db scope collection @ ''/'' @ i
              @ query_string (param (r \<noteq> []) ''rev'' r @ param (expires \<noteq> 0) ''expires'' (int_str expires)
                  @ param (ttl \<noteq> 0) ''ttl'' (int_str ttl)))
            (Some (JObj document))) w
      in ((res, document), w'))"

definition EdgeServer_delete_sub_document ::
    "'s edge_send \<Rightarrow> edge_server \<Rightarrow> string \<Rightarrow> string \<Rightarrow> string \<Rightarrow> string \<Rightarrow> string \<Rightarrow> string \<Rightarrow> ('s, jdict) io" where
  "EdgeServer_delete_sub_document send e i revid key db scope collection =
     call_dict send (edge_call e ''delete''
       (EdgeServer_keyspace_builder db scope collection @ ''/'' @ i @ ''/'' @ key @ ''?rev='' @ revid) None)"

definition EdgeServer_put_sub_document ::
    "'s edge_send \<Rightarrow> edge_server \<Rightarrow> string \<Rightarrow> string \<Rightarrow> string \<Rightarrow> string \<Rightarrow> string \<Rightarrow> string \<Rightarrow> json \<Rightarrow> ('s, jdict) io" where
  "EdgeServer_put_sub_document send e i revid key db scope collection value =
     call_dict send (edge_call e ''put''
       (EdgeServer_keyspace_builder db scope collection @ ''/'' @ i @ ''/'' @ key @ ''?rev='' @ revid)
       (Some (JObj [(key, value)])))"

definition EdgeServer_get_sub_document ::
    "'s edge_send \<Rightarrow> edge_server \<Rightarrow> string \<Rightarrow> string \<Rightarrow> string \<Rightarrow> string \<Rightarrow> string \<Rightarrow> ('s, json) io" where
  "EdgeServer_get_sub_document send e i key db scope collection =
     io_bind (send (edge_call e ''get''
       (EdgeServer_keyspace_builder db scope collection @ ''/'' @ i @ ''/'' @ key) None)) (\<lambda>resp.
         case resp of JObj _ \<Rightarrow> io_lift (rbind (edge_dict resp) (\<lambda>d. Inr (JObj d))) | _ \<Rightarrow> io_return resp)"

text \<open>An object without an error falls through to no result.\<close>

definition EdgeServer_bulk_doc_op ::
    "'s edge_send \<Rightarrow> edge_server \<Rightarrow> jdict list \<Rightarrow> string \<Rightarrow> string \<Rightarrow> string \<Rightarrow> bool \<Rightarrow> ('s, json list option) io" where
  "EdgeServer_bulk_doc_op send e docs db scope collection new_edits =
     io_bind (send (edge_call e ''post'' (''/'' @ EdgeServer_keyspace_builder db scope collection @ ''/_bulk_docs'')
       (Some (JObj [(''docs'', JList (map JObj docs)), (''new_edits'', JBool new_edits)])))) (\<lambda>resp.
         case resp of
           JObj _ \<Rightarrow> io_lift (rbind (edge_dict resp) (\<lambda>_. Inr None))
         | JList l \<Rightarrow> io_return (Some l)
         | _ \<Rightarrow> io_return None)"

section \<open>The host\<close>

definition EdgeServer_kill_server :: "'s edge_send \<Rightarrow> ('s, unit) io" where
  "EdgeServer_kill_server send = io_bind (send (shell_post ''/kill-edgeserver'' None)) (\<lambda>_. io_return ())"

definition EdgeServer_start_server :: "'s edge_send \<Rightarrow> jdict option \<Rightarrow> ('s, unit) io" where
  "EdgeServer_start_server send config =
     io_bind (send (shell_post ''/start-edgeserver'' (Some (JObj (case config of None \<Rightarrow> [] | Some c \<Rightarrow> c)))))
       (\<lambda>_. io_return ())"

definition EdgeServer_caddy_http_request ::
    "(string \<Rightarrow> ('s, int \<times> string) io) \<Rightarrow> string \<Rightarrow> ('s, string) io" where
  "EdgeServer_caddy_http_request fetch url =
     io_try
       (io_bind (fetch url) (\<lambda>(status, content).
          if status = 404 then io_raise FileNotFoundError
          else if status \<noteq> 200 then io_raise PlainException
          else io_return content))
       (\<lambda>e. if e = ClientError \<or> e = ClientConnectorError then io_raise PlainException else io_raise e)"

definition log_path :: "string \<Rightarrow> string" where
  "log_path log_file = dropWhile (\<lambda>c. c = CHR ''/'') (py_removeprefix ''/home/ec2-user/'' log_file)"

text \<open>Every exception becomes an empty log.\<close>

definition EdgeServer_get_log_content ::
    "(string \<Rightarrow> ('s, int \<times> string) io) \<Rightarrow> edge_server \<Rightarrow> string \<Rightarrow> ('s, string) io" where
  "EdgeServer_get_log_content fetch e log_file =
     io_try (EdgeServer_caddy_http_request fetch
        (''http://'' @ es_hostname e @ '':20000/'' @ log_path log_file))
       (\<lambda>_. io_return [])"

definition EdgeServer_check_log ::
    "(string \<Rightarrow> ('s, int \<times> string) io) \<Rightarrow> edge_server \<Rightarrow> string \<Rightarrow> string \<Rightarrow> ('s, string list) io" where
  "EdgeServer_check_log fetch e search_string log_file =
     io_bind (EdgeServer_get_log_content fetch e log_file)
       (\<lambda>content. io_return (filter (contains_sub search_string) (splitlines content)))"

text \<open>
  \<open>configure_dataset\<close> with the configuration as read from its file, once as JSON for the server
  and once as JSON5 for the new client.
\<close>

definition EdgeServer_configure_dataset ::
    "'s edge_send \<Rightarrow> ('s, jdict) io \<Rightarrow> ('s, jdict) io \<Rightarrow> edge_server \<Rightarrow> string \<Rightarrow> ('s, edge_server) io" where
  "EdgeServer_configure_dataset send read_json read_json5 e db =
     io_bind (EdgeServer_kill_server send) (\<lambda>_.
     io_bind (send (shell_post ''/reset-db'' (Some (JObj [(''filename'', JStr (db @ ''.cblite2''))])))) (\<lambda>_.
     io_bind read_json (\<lambda>cfg.
     io_bind (EdgeServer_start_server send (Some cfg)) (\<lambda>_.
     io_bind read_json5 (\<lambda>config.
       io_lift (EdgeServer_create (es_hostname e) ''admin_user'' ''password'' (Some config)))))))"

definition EdgeServer_set_firewall_rules ::
    "'s edge_send \<Rightarrow> json list option \<Rightarrow> json list option \<Rightarrow> ('s, unit) io" where
  "EdgeServer_set_firewall_rules send allow deny =
     (let rule = (\<lambda>k x. case x of Some l \<Rightarrow> if l \<noteq> [] then [(k, JList l)] else [] | None \<Rightarrow> [])
      in io_bind (send (shell_post ''firewall'' (Some (JObj (rule ''allow'' allow @ rule ''deny'' deny)))))
           (\<lambda>_. io_return ()))"

definition EdgeServer_reset_firewall :: "'s edge_send \<Rightarrow> ('s, unit) io" where
  "EdgeServer_reset_firewall send = io_bind (send (shell_post ''firewall'' None)) (\<lambda>_. io_return ())"

definition EdgeServer_add_user :: "'s edge_send \<Rightarrow> string \<Rightarrow> string \<Rightarrow> string \<Rightarrow> ('s, unit) io" where
  "EdgeServer_add_user send name password role =
     io_bind (EdgeServer_kill_server send) (\<lambda>_.
     io_bind (send (shell_post ''add-user''
       (Some (JObj [(''name'', JStr name), (''password'', JStr password), (''role'', JStr role)])))) (\<lambda>_.
       EdgeServer_start_server send None))"

text \<open>One turn of \<open>wait_for_idle\<close>, and the loop over the turns that are left.\<close>

definition edge_idle_step ::
    "'s edge_send \<Rightarrow> (rat \<Rightarrow> 's \<Rightarrow> 's) \<Rightarrow> edge_server \<Rightarrow> int \<Rightarrow> rat \<Rightarrow> 's \<Rightarrow> unit result option \<times> 's" where
  "edge_idle_step send sleep e key timeout w =
     (case EdgeServer_all_replication_status send e w of
        (Inl x, w') \<Rightarrow> (Some (Inl x), w')
      | (Inr [], w') \<Rightarrow> (Some (Inr ()), w')
      | (Inr (s # ss), w') \<Rightarrow>
          (case rbind (py_nth (s # ss) key) (\<lambda>status.
                rbind (py_in ''error'' status) (\<lambda>err.
                rbind (py_assert (\<not> err)) (\<lambda>_. py_item status ''status''))) of
             Inl x \<Rightarrow> (Some (Inl x), w')
           | Inr current \<Rightarrow>
               if py_eq current (JStr ''Idle'') then (Some (Inr ()), w') else (None, sleep timeout w')))"

primrec edge_idle_loop ::
    "'s edge_send \<Rightarrow> (rat \<Rightarrow> 's \<Rightarrow> 's) \<Rightarrow> edge_server \<Rightarrow> int \<Rightarrow> rat \<Rightarrow> nat \<Rightarrow> ('s, unit) io" where
  "edge_idle_loop send sleep e key timeout 0 w = (Inl CblTimeoutError, w)"
| "edge_idle_loop send sleep e key timeout (Suc retry) w =
     (case edge_idle_step send sleep e key timeout w of
        (Some r, w') \<Rightarrow> (r, w')
      | (None, w') \<Rightarrow> edge_idle_loop send sleep e key timeout retry w')"

definition EdgeServer_wait_for_idle ::
    "'s edge_send \<Rightarrow> (rat \<Rightarrow> 's \<Rightarrow> 's) \<Rightarrow> edge_server \<Rightarrow> int \<Rightarrow> rat \<Rightarrow> ('s, unit) io" where
  "EdgeServer_wait_for_idle send sleep e key timeout = edge_idle_loop send sleep e key timeout 6"

interpretation ei: attempt_loop "edge_idle_loop send sleep e key timeout" "edge_idle_step send sleep e key timeout"
    "\<lambda>w. (Inl CblTimeoutError, w)"
  by unfold_locales simp_all

section \<open>What the server reads back\<close>

text \<open>What the server does with a quoted value: a percent sign and two hexadecimal digits are one character.\<close>

definition hex_value :: "char \<Rightarrow> nat" where
  "hex_value c = (let n = (of_char c :: nat) in if n < 58 then n - 48 else n - 55)"

fun url_unquote :: "string \<Rightarrow> string" where
  "url_unquote [] = []"
| "url_unquote [c] = [c]"
| "url_unquote [c, d] = [c, d]"
| "url_unquote (c # d # e # s) =
     (if c = CHR ''%'' then char_of (16 * hex_value d + hex_value e) # url_unquote s
      else c # url_unquote (d # e # s))"

lemma hex_value_digit: "n < 16 \<Longrightarrow> hex_value (hex_digit n) = n"
  by (auto simp: hex_value_def hex_digit_def of_char_of)

lemma hex_digit_plain:
  assumes "n < 16"
  shows "hex_digit n \<notin> set ''&=?#%''"
proof -
  have "list_all (\<lambda>n. hex_digit n \<notin> set ''&=?#%'') [0..<16]" by code_simp
  then show ?thesis using assms by (simp add: list_all_iff del: upt_rec)
qed

lemma quote_safe_plain: "quote_safe c \<Longrightarrow> c \<notin> set ''&=?#%''"
  by (auto simp: quote_safe_def is_alpha_def is_digit_def)

lemma url_unquote_safe: "c \<noteq> CHR ''%'' \<Longrightarrow> url_unquote (c # s) = c # url_unquote s"
  by (cases s rule: url_unquote.cases) auto

lemma url_unquote_hex:
  assumes "n < 256"
  shows "url_unquote (CHR ''%'' # hex_digit (n div 16) # hex_digit (n mod 16) # s) = char_of n # url_unquote s"
proof -
  have "n div 16 < 16" using assms by (simp add: less_mult_imp_div_less)
  then show ?thesis by (simp add: hex_value_digit)
qed

lemma of_char_bound: "(of_char c :: nat) < 256"
  by (metis of_char_mod_256 mod_less_divisor zero_less_numeral)

lemma url_quote_Cons:
  "url_quote (c # s) = (if quote_safe c then [c]
     else (let n = (of_char c :: nat) in [CHR ''%'', hex_digit (n div 16), hex_digit (n mod 16)])) @ url_quote s"
  by (simp add: url_quote_def)

lemma quoted_values_read_back:
  "url_unquote (url_quote s) = s \<and> (\<forall>c \<in> set ''&=?#''. c \<notin> set (url_quote s))"
proof (induction s)
  case Nil
  show ?case by (simp add: url_quote_def)
next
  case (Cons c s)
  show ?case
  proof (cases "quote_safe c")
    case True
    then show ?thesis
      using Cons quote_safe_plain [OF True] by (auto simp: url_quote_Cons url_unquote_safe)
  next
    case False
    let ?n = "of_char c :: nat"
    have b: "?n < 256" by (rule of_char_bound)
    then have d: "?n div 16 < 16" "?n mod 16 < 16" by (simp_all add: less_mult_imp_div_less)
    have "url_unquote (url_quote (c # s)) = c # s"
      using False Cons url_unquote_hex [OF b] by (simp add: url_quote_Cons Let_def)
    moreover have "\<forall>x \<in> set ''&=?#''. x \<notin> set (url_quote (c # s))"
      using False Cons hex_digit_plain [OF d(1)] hex_digit_plain [OF d(2)] by (auto simp: url_quote_Cons Let_def)
    ultimately show ?thesis by blast
  qed
qed

text \<open>The parameters that a query string stands for.\<close>

definition read_query :: "string \<Rightarrow> (string \<times> string) list" where
  "read_query q =
     (case q of
        [] \<Rightarrow> []
      | c # s \<Rightarrow> map (\<lambda>p. (fst (split_first (CHR ''='') p), url_unquote (snd (split_first (CHR ''='') p))))
          (split_on (CHR ''&'') s))"

definition plain_params :: "(string \<times> string) list \<Rightarrow> string list" where
  "plain_params kvs = map (\<lambda>(k, v). k @ ''='' @ url_quote v) kvs"

lemma split_first_at: "c \<notin> set k \<Longrightarrow> split_first c (k @ c # v) = (k, v)"
  by (induction k) (auto simp: split_first_def)

lemma read_query_params:
  assumes "\<forall>kv \<in> set kvs. \<forall>c \<in> set ''&=''. c \<notin> set (fst kv)"
  shows "read_query (query_string (plain_params kvs)) = kvs"
proof (cases "kvs = []")
  case False
  have free: "CHR ''&'' \<notin> set p" if "p \<in> set (plain_params kvs)" for p
    using that assms quoted_values_read_back by (fastforce simp: plain_params_def)
  have "split_on (CHR ''&'') (join_with (CHR ''&'') (plain_params kvs)) = plain_params kvs"
    using False free by (intro split_join) (auto simp: plain_params_def)
  moreover have "(fst (split_first (CHR ''='') (k @ ''='' @ url_quote v)),
      url_unquote (snd (split_first (CHR ''='') (k @ ''='' @ url_quote v)))) = (k, v)" if "(k, v) \<in> set kvs" for k v
    using that assms split_first_at [of "CHR ''=''" k "url_quote v"] quoted_values_read_back [of v] by fastforce
  ultimately show ?thesis
    using False by (auto simp: read_query_def query_string_def plain_params_def comp_def intro!: map_idI split: prod.splits)
qed (simp add: read_query_def query_string_def plain_params_def)

text \<open>
  C25. The query of \<open>get_all_documents\<close> reads back as exactly the options that were given, for any
  keys: quoting leaves no way for a key to end a parameter or to add another one.
\<close>

theorem all_docs_query_reads_back:
  "read_query (query_string (all_docs_params descending endkey keys startkey include_docs)) =
     (if descending then [(''descending'', ''true'')] else [])
     @ (if endkey \<noteq> [] then [(''endkey'', endkey)] else [])
     @ (if keys \<noteq> [] then [(''keys'', json_dumps_strs keys)] else [])
     @ (if startkey \<noteq> [] then [(''startkey'', startkey)] else [])
     @ (if include_docs then [(''include_docs'', ''true'')] else [])"
  (is "_ = ?kvs")
proof -
  have safe: "url_quote ''true'' = ''true''" by code_simp
  have "all_docs_params descending endkey keys startkey include_docs = plain_params ?kvs"
    by (simp add: all_docs_params_def plain_params_def param_def safe)
  moreover have "\<forall>kv \<in> set ?kvs. \<forall>c \<in> set ''&=''. c \<notin> set (fst kv)" by auto
  ultimately show ?thesis using read_query_params [of ?kvs] by simp
qed

section \<open>Sessions\<close>

text \<open>Authentication that was turned off stays off: turning it on again changes the credentials only.\<close>

lemma set_auth_stays_off:
  "default_session (EdgeServer_set_auth True name password (EdgeServer_set_auth False n p e)) = Anonymous_session"
  by (simp add: EdgeServer_set_auth_def default_session_def)

text \<open>An update without an id is sent as a new document that still carries the revision.\<close>

lemma update_without_id:
  assumes "get_or_null body ''_id'' = JNull"
  shows "BulkDocOperation_create fresh body None (Some r) ''update'' =
    Inr (d_set (d_set body ''_rev'' (JStr r)) ''_id'' (JStr fresh))"
  using assms by (simp add: BulkDocOperation_create_def)

end
