(* ===== verification/Topology.thy ===== *)
theory Topology
  imports Json SgwTypes
begin

text \<open>
  The topology of an environment (\<open>environment/aws/topology_setup/setup_topology.py\<close>): reading it
  from a file with defaults and an included file, giving the machines that terraform made their
  places in it, and starting and stopping the test servers.  Files are a parameter, as what
  \<open>json.load\<close> makes of them; so are resolving the path of an included file, the platforms of the
  test servers (\<open>test_server.py\<close> and its platforms), and the SSH key reader.  The dump is its lines.  Values that the
  code casts to a string or a list must be one, else reading raises \<open>TypeError\<close>.
\<close>

section \<open>Defaults\<close>

text \<open>A version with a default: the default value and the one that was set, if any.\<close>

record default_property =
  dp_default :: string
  dp_set :: "string option"

definition DefaultProperty_create :: "string \<Rightarrow> default_property" where
  "DefaultProperty_create v = \<lparr> dp_default = v, dp_set = None \<rparr>"

definition DefaultProperty_value :: "default_property \<Rightarrow> string" where
  "DefaultProperty_value p = (case dp_set p of Some v \<Rightarrow> v | None \<Rightarrow> dp_default p)"

definition DefaultProperty_is_set :: "default_property \<Rightarrow> bool" where
  "DefaultProperty_is_set p = (dp_set p \<noteq> None)"

definition DefaultProperty_set_value :: "string \<Rightarrow> default_property \<Rightarrow> default_property" where
  "DefaultProperty_set_value v p = p\<lparr>dp_set := Some v\<rparr>"

text \<open>
  \<open>CouchbaseServerDefaults\<close>, \<open>SyncGatewayDefaults\<close> and \<open>EdgeServerDefaults\<close> differ in the key and
  the version.
\<close>

definition read_default :: "string \<Rightarrow> string \<Rightarrow> jdict \<Rightarrow> default_property result" where
  "read_default key version parent =
     (case map_of parent key of
        None \<Rightarrow> Inr (DefaultProperty_create version)
      | Some section \<Rightarrow>
          rbind (obj_of section) (\<lambda>d.
            if \<not> d_has d ''version'' then Inr (DefaultProperty_create version)
            else rbind (str_item d ''version'') (\<lambda>v. Inr (DefaultProperty_set_value v (DefaultProperty_create version)))))"

record config_defaults =
  cd_cbs :: default_property
  cd_sgw :: default_property
  cd_es :: default_property

definition ConfigDefaults_create :: "jdict \<Rightarrow> config_defaults result" where
  "ConfigDefaults_create parent =
     rbind (case map_of parent ''defaults'' of None \<Rightarrow> Inr [] | Some v \<Rightarrow> obj_of v) (\<lambda>defaults.
     rbind (read_default ''cbs'' ''7.6.7'' defaults) (\<lambda>cbs.
     rbind (read_default ''sgw'' ''4.0.0'' defaults) (\<lambda>sgw.
     rbind (read_default ''es'' ''1.0.0'' defaults) (\<lambda>es.
       Inr \<lparr> cd_cbs = cbs, cd_sgw = sgw, cd_es = es \<rparr>))))"

text \<open>\<open>extend\<close> takes over what the other has set; the Edge Server version is compared only.\<close>

definition extend_property :: "default_property \<Rightarrow> default_property \<Rightarrow> default_property result" where
  "extend_property self other =
     (if DefaultProperty_is_set other
      then if DefaultProperty_is_set self then Inl PlainException
           else Inr (DefaultProperty_set_value (DefaultProperty_value other) self)
      else Inr self)"

definition ConfigDefaults_extend :: "config_defaults \<Rightarrow> config_defaults \<Rightarrow> config_defaults result" where
  "ConfigDefaults_extend self other =
     rbind (extend_property (cd_cbs self) (cd_cbs other)) (\<lambda>cbs.
     rbind (extend_property (cd_sgw self) (cd_sgw other)) (\<lambda>sgw.
       if DefaultProperty_is_set (cd_es other) \<and> DefaultProperty_is_set (cd_es self) then Inl PlainException
       else Inr (self\<lparr>cd_cbs := cbs, cd_sgw := sgw\<rparr>)))"

section \<open>Inputs and machines\<close>

record cluster_config =
  cc_version :: string
  cc_public_hostnames :: "string list"
  cc_internal_hostnames :: "string list"

record cluster_input =
  ci_server_count :: int
  ci_version :: string

record sgw_input =
  si_cluster_index :: int
  si_version :: string

record sgw_config =
  sc_version :: string
  sc_hostname :: string
  sc_internal_hostname :: string
  sc_cluster_hostname :: string
  sc_cluster_index :: int

record es_config =
  ec_version :: string
  ec_hostname :: string
  ec_internal_hostname :: string

record lb_config =
  lc_hostname :: string
  lc_upstreams :: "string list"

record test_server_input =
  ti_location :: string
  ti_cbl_version :: string
  ti_dataset_version :: "string option"
  ti_platform :: string
  ti_download :: bool
  ti_ip_hint :: "string option"

record test_server_config =
  tc_ip_address :: string
  tc_cbl_version :: string
  tc_dataset_version :: "string option"
  tc_platform :: string

text \<open>\<open>int(v)\<close> of a JSON value.\<close>

definition int_of_json :: "json \<Rightarrow> int result" where
  "int_of_json v =
     (case v of
        JInt i \<Rightarrow> Inr i
      | JBool b \<Rightarrow> Inr (if b then 1 else 0)
      | JFloat r \<Rightarrow> Inr (if r < 0 then - \<lfloor>- r\<rfloor> else \<lfloor>r\<rfloor>)
      | JStr s \<Rightarrow> (case py_int s of Some n \<Rightarrow> Inr n | None \<Rightarrow> Inl ValueError)
      | _ \<Rightarrow> Inl TypeError)"

definition ClusterInput_create :: "string \<Rightarrow> jdict \<Rightarrow> cluster_input result" where
  "ClusterInput_create version config =
     (case map_of config ''server_count'' of
        None \<Rightarrow> Inl ValueError
      | Some n \<Rightarrow> rbind (int_of_json n) (\<lambda>count. Inr \<lparr> ci_server_count = count, ci_version = version \<rparr>))"

section \<open>Reading a topology\<close>

record topology =
  tp_defaults :: config_defaults
  tp_clusters :: "cluster_config list"
  tp_cluster_inputs :: "cluster_input list"
  tp_sgws :: "sgw_config list"
  tp_sgw_inputs :: "sgw_input list"
  tp_edge_servers :: "es_config list"
  tp_es_inputs :: "string list"
  tp_test_servers :: "test_server_config list"
  tp_test_server_inputs :: "test_server_input list"
  tp_lbs :: "lb_config list"
  tp_lb_inputs :: "int list list"
  tp_wants_logslurp :: "bool option"
  tp_logslurp :: "string option"
  tp_tag :: string

text \<open>The entries of a list of objects under a key; none when the key is missing.\<close>

definition raw_entries :: "jdict \<Rightarrow> string \<Rightarrow> jdict list result" where
  "raw_entries config key =
     (case map_of config key of
        None \<Rightarrow> Inr []
      | Some v \<Rightarrow> rbind (list_of v) (mapM obj_of))"

definition entry_version :: "default_property \<Rightarrow> jdict \<Rightarrow> string result" where
  "entry_version dflt raw =
     (if d_has raw ''version'' then str_item raw ''version'' else Inr (DefaultProperty_value dflt))"

definition read_cluster :: "config_defaults \<Rightarrow> jdict \<Rightarrow> cluster_input result" where
  "read_cluster dflt raw = rbind (entry_version (cd_cbs dflt) raw) (\<lambda>v. ClusterInput_create v raw)"

definition read_sgw :: "config_defaults \<Rightarrow> nat \<Rightarrow> jdict \<Rightarrow> sgw_input result" where
  "read_sgw dflt clusters raw =
     rbind (d_item raw ''cluster'') (\<lambda>c.
     rbind (int_of_json c) (\<lambda>cluster_index.
       if cluster_index < 0 \<or> cluster_index \<ge> int clusters then Inl ValueError
       else rbind (entry_version (cd_sgw dflt) raw) (\<lambda>v.
              Inr \<lparr> si_cluster_index = cluster_index, si_version = v \<rparr>)))"

definition read_test_server :: "jdict \<Rightarrow> test_server_input result" where
  "read_test_server raw =
     rbind (str_item raw ''location'') (\<lambda>location.
     rbind (str_item raw ''cbl_version'') (\<lambda>cbl_version.
     rbind (opt_str_key raw ''dataset_version'') (\<lambda>dataset_version.
     rbind (str_item raw ''platform'') (\<lambda>platform.
     rbind (opt_str_key raw ''ip_hint'') (\<lambda>ip_hint.
       Inr \<lparr> ti_location = location, ti_cbl_version = cbl_version, ti_dataset_version = dataset_version,
             ti_platform = platform, ti_download = truthy (get_or_null raw ''download''), ti_ip_hint = ip_hint \<rparr>)))))"

definition sgw_index :: "nat \<Rightarrow> json \<Rightarrow> int result" where
  "sgw_index sgws v =
     (case v of
        JInt i \<Rightarrow> if i < 0 \<or> i \<ge> int sgws then Inl ValueError else Inr i
      | _ \<Rightarrow> Inl TypeError)"

definition read_load_balancer :: "nat \<Rightarrow> jdict \<Rightarrow> int list result" where
  "read_load_balancer sgws raw =
     rbind (d_item raw ''sync_gateways'') (\<lambda>v. rbind (list_of v) (mapM (sgw_index sgws)))"

text \<open>The part of the constructor before the included file.\<close>

definition read_config :: "config_defaults option \<Rightarrow> jdict \<Rightarrow> topology result" where
  "read_config parent_defaults config =
     rbind (ConfigDefaults_create config) (\<lambda>own.
     rbind (case parent_defaults of None \<Rightarrow> Inr own | Some p \<Rightarrow> ConfigDefaults_extend own p) (\<lambda>defaults.
     rbind (rbind (raw_entries config ''clusters'') (mapM (read_cluster defaults))) (\<lambda>clusters.
     rbind (rbind (raw_entries config ''sync_gateways'') (mapM (read_sgw defaults (length clusters)))) (\<lambda>sgws.
     rbind (rbind (raw_entries config ''edge_servers'') (mapM (entry_version (cd_es defaults)))) (\<lambda>ess.
     rbind (rbind (raw_entries config ''test_servers'') (mapM read_test_server)) (\<lambda>tss.
     rbind (rbind (raw_entries config ''load_balancers'') (mapM (read_load_balancer (length sgws)))) (\<lambda>lbs.
       Inr \<lparr> tp_defaults = defaults, tp_clusters = [], tp_cluster_inputs = clusters, tp_sgws = [],
             tp_sgw_inputs = sgws, tp_edge_servers = [], tp_es_inputs = ess, tp_test_servers = [],
             tp_test_server_inputs = tss, tp_lbs = [], tp_lb_inputs = lbs,
             tp_wants_logslurp = (case get_or_null config ''logslurp'' of JNull \<Rightarrow> None | v \<Rightarrow> Some (truthy v)),
             tp_logslurp = None, tp_tag = [] \<rparr>)))))))"

text \<open>What the included topology adds, and the tag, which comes last.\<close>

definition add_included :: "topology \<Rightarrow> topology \<Rightarrow> topology" where
  "add_included t sub =
     t\<lparr> tp_cluster_inputs := tp_cluster_inputs t @ tp_cluster_inputs sub,
        tp_sgw_inputs := tp_sgw_inputs t @ tp_sgw_inputs sub,
        tp_es_inputs := tp_es_inputs t @ tp_es_inputs sub,
        tp_lb_inputs := tp_lb_inputs t @ tp_lb_inputs sub,
        tp_test_server_inputs := tp_test_server_inputs t @ tp_test_server_inputs sub,
        tp_wants_logslurp := (case tp_wants_logslurp t of None \<Rightarrow> tp_wants_logslurp sub | w \<Rightarrow> w) \<rparr>"

definition read_tag :: "jdict \<Rightarrow> topology \<Rightarrow> topology result" where
  "read_tag config t =
     (if d_has config ''tag'' then rbind (str_item config ''tag'') (\<lambda>tag. Inr (t\<lparr>tp_tag := tag\<rparr>)) else Inr t)"

text \<open>
  The constructor on a file.  Files may include each other without end: the fuel bounds the
  depth, and \<open>None\<close> says that it was not enough.
\<close>

fun TopologyConfig_load ::
    "(string \<Rightarrow> json result) \<Rightarrow> (string \<Rightarrow> string \<Rightarrow> string) \<Rightarrow> nat \<Rightarrow> string \<Rightarrow> config_defaults option
      \<Rightarrow> topology result option" where
  "TopologyConfig_load files resolve 0 file parent_defaults = None"
| "TopologyConfig_load files resolve (Suc fuel) file parent_defaults =
     (case rbind (files file) (\<lambda>v. rbind (obj_of v) (\<lambda>config.
            rbind (read_config parent_defaults config) (\<lambda>t. Inr (config, t)))) of
        Inl e \<Rightarrow> Some (Inl e)
      | Inr (config, t) \<Rightarrow>
          if \<not> d_has config ''include'' then Some (read_tag config t)
          else case str_item config ''include'' of
                 Inl e \<Rightarrow> Some (Inl e)
               | Inr include \<Rightarrow>
                   (case TopologyConfig_load files resolve fuel (resolve file include) (Some (tp_defaults t)) of
                      None \<Rightarrow> None
                    | Some (Inl e) \<Rightarrow> Some (Inl e)
                    | Some (Inr sub) \<Rightarrow> Some (read_tag config (add_included t sub))))"

text \<open>
  The constructor as its callers use it: an empty dictionary counts as none, the default file is
  taken without a file, and what a dictionary includes is looked for as if it were in a file \<open>None\<close>.
\<close>

definition TopologyConfig_of_dict ::
    "(string \<Rightarrow> json result) \<Rightarrow> (string \<Rightarrow> string \<Rightarrow> string) \<Rightarrow> nat \<Rightarrow> jdict \<Rightarrow> topology result option" where
  "TopologyConfig_of_dict files resolve fuel config =
     (case read_config None config of
        Inl e \<Rightarrow> Some (Inl e)
      | Inr t \<Rightarrow>
          if \<not> d_has config ''include'' then Some (read_tag config t)
          else case str_item config ''include'' of
                 Inl e \<Rightarrow> Some (Inl e)
               | Inr include \<Rightarrow>
                   (case TopologyConfig_load files resolve fuel (resolve ''None'' include) (Some (tp_defaults t)) of
                      None \<Rightarrow> None
                    | Some (Inl e) \<Rightarrow> Some (Inl e)
                    | Some (Inr sub) \<Rightarrow> Some (read_tag config (add_included t sub))))"

definition TopologyConfig_create ::
    "(string \<Rightarrow> json result) \<Rightarrow> (string \<Rightarrow> string \<Rightarrow> string) \<Rightarrow> string \<Rightarrow> nat \<Rightarrow> string option \<Rightarrow> jdict option
      \<Rightarrow> topology result option" where
  "TopologyConfig_create files resolve default_file fuel config_file config_input =
     (if config_input \<noteq> None \<and> config_input \<noteq> Some []
      then if config_file \<noteq> None then Some (Inl ValueError)
           else TopologyConfig_of_dict files resolve fuel (the config_input)
      else TopologyConfig_load files resolve fuel
             (case config_file of Some f \<Rightarrow> f | None \<Rightarrow> default_file) None)"

definition TopologyConfig_total_cbs_count :: "topology \<Rightarrow> int" where
  "TopologyConfig_total_cbs_count t = sum_list (map ci_server_count (tp_cluster_inputs t))"

definition TopologyConfig_total_sgw_count :: "topology \<Rightarrow> nat" where
  "TopologyConfig_total_sgw_count t = length (tp_sgw_inputs t)"

definition TopologyConfig_total_es_count :: "topology \<Rightarrow> nat" where
  "TopologyConfig_total_es_count t = length (tp_es_inputs t)"

definition TopologyConfig_total_lb_count :: "topology \<Rightarrow> nat" where
  "TopologyConfig_total_lb_count t = length (tp_lb_inputs t)"

definition TopologyConfig_wants_logslurp :: "topology \<Rightarrow> bool" where
  "TopologyConfig_wants_logslurp t = (tp_wants_logslurp t = Some True)"

section \<open>Giving machines their places\<close>

text \<open>\<open>get_ec2_hostname\<close> of \<open>common/io.py\<close>.\<close>

definition get_ec2_hostname :: "string \<Rightarrow> string result" where
  "get_ec2_hostname hostname =
     (if prefix ''ec2-'' hostname then Inr hostname
      else if length (split_on (CHR ''.'') hostname) \<noteq> 4 then Inl ValueError
      else Inr (''ec2-'' @ replace_char (CHR ''.'') (CHR ''-'') hostname @ ''.compute-1.amazonaws.com''))"

text \<open>\<open>xs[i:j]\<close>.\<close>

definition slice_bound :: "nat \<Rightarrow> int \<Rightarrow> nat" where
  "slice_bound n i = (if i < 0 then nat (i + int n) else min n (nat i))"

definition py_slice :: "'a list \<Rightarrow> int \<Rightarrow> int \<Rightarrow> 'a list" where
  "py_slice xs i j =
     (let a = slice_bound (length xs) i; b = slice_bound (length xs) j in take (b - a) (drop a xs))"

fun server_slices :: "string list \<Rightarrow> string list \<Rightarrow> int \<Rightarrow> cluster_input list \<Rightarrow> cluster_config list" where
  "server_slices publics internals i [] = []"
| "server_slices publics internals i (c # cs) =
     \<lparr> cc_version = ci_version c,
       cc_public_hostnames = py_slice publics i (i + ci_server_count c),
       cc_internal_hostnames = py_slice internals i (i + ci_server_count c) \<rparr>
     # server_slices publics internals (i + ci_server_count c) cs"

definition TopologyConfig_apply_server_hostnames :: "string list \<Rightarrow> string list \<Rightarrow> topology \<Rightarrow> topology" where
  "TopologyConfig_apply_server_hostnames publics internals t =
     t\<lparr>tp_clusters := tp_clusters t @ server_slices publics internals 0 (tp_cluster_inputs t)\<rparr>"

text \<open>
  The loops that pop a name for every input; what was appended before an exception stays.
\<close>

fun apply_sgws :: "string list \<Rightarrow> string list \<Rightarrow> sgw_input list \<Rightarrow> (topology, unit) io" where
  "apply_sgws hostnames internals [] t = (Inr (), t)"
| "apply_sgws hostnames internals (s # ss) t =
     (case rbind (py_nth (tp_clusters t) (si_cluster_index s)) (\<lambda>cluster.
           rbind (py_nth hostnames 0) (\<lambda>h. rbind (get_ec2_hostname h) (\<lambda>hostname.
           rbind (py_nth internals 0) (\<lambda>internal.
           rbind (py_nth (cc_internal_hostnames cluster) 0) (\<lambda>cluster_hostname.
             Inr \<lparr> sc_version = si_version s, sc_hostname = hostname, sc_internal_hostname = internal,
                   sc_cluster_hostname = cluster_hostname, sc_cluster_index = si_cluster_index s \<rparr>))))) of
        Inl e \<Rightarrow> (Inl e, t)
      | Inr sgw \<Rightarrow> apply_sgws (tl hostnames) (tl internals) ss (t\<lparr>tp_sgws := tp_sgws t @ [sgw]\<rparr>))"

definition TopologyConfig_apply_sgw_hostnames :: "string list \<Rightarrow> string list \<Rightarrow> (topology, unit) io" where
  "TopologyConfig_apply_sgw_hostnames hostnames internals t = apply_sgws hostnames internals (tp_sgw_inputs t) t"

fun apply_ess :: "string list \<Rightarrow> string list \<Rightarrow> string list \<Rightarrow> (topology, unit) io" where
  "apply_ess hostnames internals [] t = (Inr (), t)"
| "apply_ess hostnames internals (v # vs) t =
     (case rbind (py_nth hostnames 0) (\<lambda>hostname. rbind (py_nth internals 0) (\<lambda>internal.
             Inr \<lparr> ec_version = v, ec_hostname = hostname, ec_internal_hostname = internal \<rparr>)) of
        Inl e \<Rightarrow> (Inl e, t)
      | Inr es \<Rightarrow> apply_ess (tl hostnames) (tl internals) vs (t\<lparr>tp_edge_servers := tp_edge_servers t @ [es]\<rparr>))"

definition TopologyConfig_apply_es_hostnames :: "string list \<Rightarrow> string list \<Rightarrow> (topology, unit) io" where
  "TopologyConfig_apply_es_hostnames hostnames internals t = apply_ess hostnames internals (tp_es_inputs t) t"

fun apply_lbs :: "string list \<Rightarrow> int list list \<Rightarrow> (topology, unit) io" where
  "apply_lbs hostnames [] t = (Inr (), t)"
| "apply_lbs hostnames (ixs # rest) t =
     (case rbind (mapM (\<lambda>i. rbind (py_nth (tp_sgws t) i) (\<lambda>s. Inr (sc_internal_hostname s))) ixs) (\<lambda>upstreams.
           rbind (py_nth hostnames 0) (\<lambda>hostname.
             Inr \<lparr> lc_hostname = hostname, lc_upstreams = upstreams \<rparr>)) of
        Inl e \<Rightarrow> (Inl e, t)
      | Inr lb \<Rightarrow> apply_lbs (tl hostnames) rest (t\<lparr>tp_lbs := tp_lbs t @ [lb]\<rparr>))"

definition TopologyConfig_apply_lb_hostnames :: "string list \<Rightarrow> (topology, unit) io" where
  "TopologyConfig_apply_lb_hostnames hostnames t =
     (if hostnames = [] then (Inr (), t)
      else if tp_sgws t = [] then (Inl PlainException, t)
      else apply_lbs hostnames (tp_lb_inputs t) t)"

text \<open>The value of a terraform output: a list of addresses, or one string.\<close>

definition output_value :: "jdict \<Rightarrow> string \<Rightarrow> json result" where
  "output_value all_info key = rbind (d_item all_info key) (\<lambda>v. py_item v ''value'')"

definition output_list :: "jdict \<Rightarrow> string \<Rightarrow> string list result" where
  "output_list all_info key =
     rbind (output_value all_info key) (\<lambda>v. rbind (list_of v)
       (mapM (\<lambda>x. case x of JStr s \<Rightarrow> Inr s | _ \<Rightarrow> Inl TypeError)))"

definition output_text :: "jdict \<Rightarrow> string \<Rightarrow> string result" where
  "output_text all_info key =
     rbind (output_value all_info key) (\<lambda>v. case v of JStr s \<Rightarrow> Inr s | _ \<Rightarrow> Inl TypeError)"

text \<open>\<open>all_info\<close> is what \<open>get_terraform_json\<close> gives; the result is the key made by \<open>read_key\<close>.\<close>

definition TopologyConfig_read_from_terraform ::
    "(string \<Rightarrow> 'k result) \<Rightarrow> jdict result \<Rightarrow> (topology, 'k) io" where
  "TopologyConfig_read_from_terraform read_key all_info_result =
     io_bind (io_lift all_info_result) (\<lambda>all_info.
     io_bind (io_lift (output_list all_info ''couchbase_instance_public_ips'')) (\<lambda>cbs_ips.
     io_bind (io_lift (output_list all_info ''couchbase_instance_private_ips'')) (\<lambda>cbs_internal_ips.
     io_bind (\<lambda>t. (Inr (), TopologyConfig_apply_server_hostnames cbs_ips cbs_internal_ips t)) (\<lambda>_.
     io_bind (io_lift (output_list all_info ''sync_gateway_instance_public_ips'')) (\<lambda>sgw_ips.
     io_bind (io_lift (output_list all_info ''sync_gateway_instance_private_ips'')) (\<lambda>sgw_internal_ips.
     io_bind (TopologyConfig_apply_sgw_hostnames sgw_ips sgw_internal_ips) (\<lambda>_.
     io_bind (io_lift (output_list all_info ''edge_server_instance_public_ips'')) (\<lambda>es_ips.
     io_bind (io_lift (output_list all_info ''edge_server_instance_private_ips'')) (\<lambda>es_internal_ips.
     io_bind (TopologyConfig_apply_es_hostnames es_ips es_internal_ips) (\<lambda>_.
     io_bind (io_lift (output_list all_info ''load_balancer_instance_public_ips'')) (\<lambda>lb_ips.
     io_bind (TopologyConfig_apply_lb_hostnames lb_ips) (\<lambda>_.
     io_bind (\<lambda>t. if TopologyConfig_wants_logslurp t
                  then case output_text all_info ''logslurp_instance_public_ip'' of
                         Inl e \<Rightarrow> (Inl e, t) | Inr ip \<Rightarrow> (Inr (), t\<lparr>tp_logslurp := Some ip\<rparr>)
                  else (Inr (), t)) (\<lambda>_.
     io_bind (io_lift (output_text all_info ''private_key_material'')) (\<lambda>material.
       io_lift (read_key material)))))))))))))))"

text \<open>
  The lines that \<open>dump\<close> prints.  A cluster with fewer internal than public names raises; the load
  balancers all have the number 1.
\<close>

definition dump_cluster :: "nat \<Rightarrow> cluster_config \<Rightarrow> string list result" where
  "dump_cluster i c =
     rbind (mapM (\<lambda>j. rbind (py_nth (cc_internal_hostnames c) (int j)) (\<lambda>internal.
                Inr (char_of (9 :: nat) # cc_public_hostnames c ! j @ '' / '' @ internal)))
             [0..<length (cc_public_hostnames c)]) (\<lambda>hosts.
       Inr ((''Cluster '' @ int_str (int i) @ '' ('' @ cc_version c @ ''):'') # hosts))"

definition blank_after :: "'a list \<Rightarrow> string list" where
  "blank_after xs = (if xs = [] then [] else [[]])"

definition dump_test_server :: "nat \<Rightarrow> test_server_config \<Rightarrow> string list" where
  "dump_test_server i ts =
     (let tab = char_of (9 :: nat)
      in [''Test Server '' @ int_str (int i) @ '':'',
          tab # ''Platform: '' @ tc_platform ts,
          tab # ''CBL Version: '' @ tc_cbl_version ts,
          tab # ''Dataset Version: '' @ (case tc_dataset_version ts of Some v \<Rightarrow> v | None \<Rightarrow> ''None''),
          tab # ''IP Address: '' @ tc_ip_address ts])"

definition TopologyConfig_dump :: "topology \<Rightarrow> string list result" where
  "TopologyConfig_dump t =
     rbind (mapM (\<lambda>(i, c). dump_cluster i c) (enumerate 1 (tp_clusters t))) (\<lambda>clusters.
       Inr (concat clusters @ blank_after (tp_clusters t)
         @ map (\<lambda>(i, s). ''Sync Gateway '' @ int_str (int i) @ '' ('' @ sc_version s @ ''): '' @ sc_hostname s
                  @ '' -> '' @ sc_cluster_hostname s) (enumerate 1 (tp_sgws t))
         @ blank_after (tp_sgws t)
         @ map (\<lambda>(i, e). ''Edge Server '' @ int_str (int i) @ '' ('' @ ec_version e @ ''): '' @ ec_hostname e
                  @ '' -> '' @ ec_internal_hostname e) (enumerate 1 (tp_edge_servers t))
         @ blank_after (tp_edge_servers t)
         @ concat (map (\<lambda>lb. (''Load Balancer 1: '' @ lc_hostname lb) # map ((#) (char_of (9 :: nat))) (lc_upstreams lb)) (tp_lbs t))
         @ (case tp_logslurp t of Some l \<Rightarrow> [''Logslurp: '' @ l, []] | None \<Rightarrow> [])
         @ concat (map (\<lambda>(i, ts). dump_test_server i ts) (enumerate 1 (tp_test_servers t)))
         @ blank_after (tp_test_servers t)))"

text \<open>Only a cluster with too few internal names makes printing fail.\<close>

lemma dump_fails_iff:
  "(\<exists>e. TopologyConfig_dump t = Inl e) \<longleftrightarrow>
     (\<exists>c \<in> set (tp_clusters t). length (cc_internal_hostnames c) < length (cc_public_hostnames c))"
proof -
  have one: "(\<exists>e. dump_cluster i c = Inl e) \<longleftrightarrow> length (cc_internal_hostnames c) < length (cc_public_hostnames c)" for i c
  proof
    assume "\<exists>e. dump_cluster i c = Inl e"
    then obtain j where "j < length (cc_public_hostnames c)" "\<exists>e. py_nth (cc_internal_hostnames c) (int j) = Inl e"
      by (auto simp: dump_cluster_def rbind_eq_Inl_iff dest!: mapM_Inl_ex)
    then show "length (cc_internal_hostnames c) < length (cc_public_hostnames c)"
      by (auto simp: py_nth_def split: if_splits)
  next
    assume less: "length (cc_internal_hostnames c) < length (cc_public_hostnames c)"
    then have j: "length (cc_internal_hostnames c) \<in> set [0..<length (cc_public_hostnames c)]" by simp
    then show "\<exists>e. dump_cluster i c = Inl e"
      using mapM_fails [OF j, of "\<lambda>j. rbind (py_nth (cc_internal_hostnames c) (int j)) (\<lambda>internal.
        Inr (char_of (9 :: nat) # cc_public_hostnames c ! j @ '' / '' @ internal))" IndexError]
      by (auto simp: dump_cluster_def py_nth_def)
  qed
  show ?thesis
  proof
    assume "\<exists>e. TopologyConfig_dump t = Inl e"
    then obtain e where "mapM (\<lambda>(i, c). dump_cluster i c) (enumerate 1 (tp_clusters t)) = Inl e"
      by (auto simp: TopologyConfig_dump_def rbind_eq_Inl_iff)
    from mapM_Inl_ex [OF this] obtain i c where "(i, c) \<in> set (enumerate 1 (tp_clusters t))" "dump_cluster i c = Inl e"
      by auto
    then have "c \<in> set (tp_clusters t)" "\<exists>e. dump_cluster i c = Inl e"
      by (metis in_set_zip enumerate_eq_zip nth_mem prod.sel(2)) (use \<open>dump_cluster i c = Inl e\<close> in blast)
    then show "\<exists>c \<in> set (tp_clusters t). length (cc_internal_hostnames c) < length (cc_public_hostnames c)"
      using one by blast
  next
    assume "\<exists>c \<in> set (tp_clusters t). length (cc_internal_hostnames c) < length (cc_public_hostnames c)"
    then obtain k where k: "k < length (tp_clusters t)"
      "length (cc_internal_hostnames (tp_clusters t ! k)) < length (cc_public_hostnames (tp_clusters t ! k))"
      by (auto simp: in_set_conv_nth)
    then have mem: "(Suc k, tp_clusters t ! k) \<in> set (enumerate 1 (tp_clusters t))"
      by (simp add: in_set_enumerate_eq)
    from k(2) one obtain e where "(case (Suc k, tp_clusters t ! k) of (i, c) \<Rightarrow> dump_cluster i c) = Inl e" by auto
    from mapM_fails [where f = "\<lambda>(i, c). dump_cluster i c", OF mem this]
    show "\<exists>e. TopologyConfig_dump t = Inl e"
      unfolding TopologyConfig_dump_def by (elim exE) (simp only: rbind_Inl sum.inject ex_simps, blast)
  qed
qed

section \<open>Test servers\<close>

text \<open>
  What a platform offers: \<open>TestServer.create\<close>, downloading or building, the bridge to the device
  and its operations.
\<close>

record ('w, 't, 'b) platform =
  pf_create :: "string \<Rightarrow> string \<Rightarrow> ('w, 't) io"
  pf_download :: "'t \<Rightarrow> ('w, unit) io"
  pf_build :: "'t \<Rightarrow> ('w, unit) io"
  pf_create_bridge :: "'t \<Rightarrow> bool option \<Rightarrow> ('w, 'b) io"
  pf_validate :: "'b \<Rightarrow> string \<Rightarrow> ('w, unit) io"
  pf_install :: "'b \<Rightarrow> string \<Rightarrow> ('w, unit) io"
  pf_run :: "'b \<Rightarrow> string \<Rightarrow> ('w, unit) io"
  pf_stop :: "'b \<Rightarrow> string \<Rightarrow> ('w, unit) io"
  pf_get_ip :: "'b \<Rightarrow> string \<Rightarrow> string option \<Rightarrow> ('w, string) io"

text \<open>The resolved servers are appended one by one: the world carries them.\<close>

fun resolve_servers ::
    "('w, 't, 'b) platform \<Rightarrow> test_server_input list \<Rightarrow> (test_server_config list \<times> 'w, unit) io" where
  "resolve_servers pf [] cw = (Inr (), cw)"
| "resolve_servers pf (s # ss) (cs, w) =
     (case io_bind (pf_create pf (ti_platform s) (ti_cbl_version s)) (\<lambda>server.
           io_bind (pf_create_bridge pf server None) (\<lambda>bridge.
           io_bind (pf_validate pf bridge (ti_location s)) (\<lambda>_.
             pf_get_ip pf bridge (ti_location s) (ti_ip_hint s)))) w of
        (Inl e, w') \<Rightarrow> (Inl e, cs, w')
      | (Inr ip, w') \<Rightarrow>
          resolve_servers pf ss
            (cs @ [\<lparr> tc_ip_address = ip, tc_cbl_version = ti_cbl_version s,
                    tc_dataset_version = ti_dataset_version s, tc_platform = ti_platform s \<rparr>], w'))"

definition TopologyConfig_resolve_test_servers ::
    "('w, 't, 'b) platform \<Rightarrow> (topology \<times> 'w, unit) io" where
  "TopologyConfig_resolve_test_servers pf tw =
     (let (r, cs, w) = resolve_servers pf (tp_test_server_inputs (fst tw)) (tp_test_servers (fst tw), snd tw)
      in (r, (fst tw)\<lparr>tp_test_servers := cs\<rparr>, w))"

text \<open>
  The connection check: \<open>probe\<close> is the GET, whose connection error is \<open>ClientError\<close>.  The loop goes
  on after a success.
\<close>

primrec probe_loop :: "('w, unit) io \<Rightarrow> (rat \<Rightarrow> 'w \<Rightarrow> 'w) \<Rightarrow> bool \<Rightarrow> nat \<Rightarrow> ('w, bool) io" where
  "probe_loop probe sleep success 0 w = (Inr success, w)"
| "probe_loop probe sleep success (Suc n) w =
     (case probe w of
        (Inr _, w') \<Rightarrow> probe_loop probe sleep True n w'
      | (Inl e, w') \<Rightarrow>
          if e = ClientError then probe_loop probe sleep success n (sleep 1 w') else (Inl e, w'))"

text \<open>For \<open>js\<close> the whole operation returns, whatever servers are left.\<close>

fun run_servers ::
    "('w, 't, 'b) platform \<Rightarrow> (string \<Rightarrow> ('w, unit) io) \<Rightarrow> (rat \<Rightarrow> 'w \<Rightarrow> 'w) \<Rightarrow> test_server_input list
      \<Rightarrow> ('w, unit) io" where
  "run_servers pf get sleep [] = io_return ()"
| "run_servers pf get sleep (s # ss) =
     io_bind (pf_create pf (ti_platform s) (ti_cbl_version s)) (\<lambda>server.
     io_bind (if ti_download s then pf_download pf server else pf_build pf server) (\<lambda>_.
     io_bind (pf_create_bridge pf server None) (\<lambda>bridge.
     io_bind (pf_validate pf bridge (ti_location s)) (\<lambda>_.
     io_bind (pf_install pf bridge (ti_location s)) (\<lambda>_.
     io_bind (pf_run pf bridge (ti_location s)) (\<lambda>_.
       if ti_platform s = ''js'' then io_return ()
       else io_bind (pf_get_ip pf bridge (ti_location s) (ti_ip_hint s)) (\<lambda>ip.
            io_bind (probe_loop (get (''http://'' @ ip @ '':'' @
                       (if prefix ''dotnet'' (ti_platform s) then ''5555'' else ''8080''))) sleep False 30) (\<lambda>success.
              if \<not> success then io_raise RuntimeError
              else run_servers pf get sleep ss))))))))"

definition TopologyConfig_run_test_servers ::
    "('w, 't, 'b) platform \<Rightarrow> (string \<Rightarrow> ('w, unit) io) \<Rightarrow> (rat \<Rightarrow> 'w \<Rightarrow> 'w) \<Rightarrow> topology \<Rightarrow> ('w, unit) io" where
  "TopologyConfig_run_test_servers pf get sleep t = run_servers pf get sleep (tp_test_server_inputs t)"

fun stop_servers :: "('w, 't, 'b) platform \<Rightarrow> test_server_input list \<Rightarrow> ('w, unit) io" where
  "stop_servers pf [] = io_return ()"
| "stop_servers pf (s # ss) =
     io_bind (pf_create pf (ti_platform s) (ti_cbl_version s)) (\<lambda>server.
     io_bind (pf_create_bridge pf server (Some (ti_download s))) (\<lambda>bridge.
     io_bind (pf_validate pf bridge (ti_location s)) (\<lambda>_.
     io_bind (pf_stop pf bridge (ti_location s)) (\<lambda>_.
       stop_servers pf ss))))"

definition TopologyConfig_stop_test_servers ::
    "('w, unit) io \<Rightarrow> ('w, 't, 'b) platform \<Rightarrow> topology \<Rightarrow> ('w, unit) io" where
  "TopologyConfig_stop_test_servers initialize pf t =
     io_bind initialize (\<lambda>_. stop_servers pf (tp_test_server_inputs t))"

section \<open>Indices\<close>

text \<open>The references of a topology: Sync Gateways to clusters, load balancers to Sync Gateways.\<close>

definition references_ok :: "topology \<Rightarrow> bool" where
  "references_ok t =
     (list_all (\<lambda>s. 0 \<le> si_cluster_index s \<and> si_cluster_index s < int (length (tp_cluster_inputs t))) (tp_sgw_inputs t)
      \<and> list_all (list_all (\<lambda>i. 0 \<le> i \<and> i < int (length (tp_sgw_inputs t)))) (tp_lb_inputs t))"

lemma mapM_all: "mapM f xs = Inr ys \<Longrightarrow> (\<And>x y. f x = Inr y \<Longrightarrow> P y) \<Longrightarrow> list_all P ys"
  by (induction xs arbitrary: ys) (auto simp: result_simps)

lemma read_sgw_index: "read_sgw d n raw = Inr s \<Longrightarrow> 0 \<le> si_cluster_index s \<and> si_cluster_index s < int n"
  by (auto simp: read_sgw_def result_simps split: if_splits)

lemma read_lb_indices: "read_load_balancer n raw = Inr l \<Longrightarrow> list_all (\<lambda>i. 0 \<le> i \<and> i < int n) l"
  unfolding read_load_balancer_def
  by (auto simp: result_simps sgw_index_def split: json.splits if_splits elim!: mapM_all)

lemma read_config_references:
  assumes "read_config p config = Inr t"
  shows "references_ok t"
proof -
  obtain dflt clusters sgws lbs raws rawl
    where "tp_cluster_inputs t = clusters" "tp_sgw_inputs t = sgws" "tp_lb_inputs t = lbs"
      "mapM (read_sgw dflt (length clusters)) raws = Inr sgws"
      "mapM (read_load_balancer (length sgws)) rawl = Inr lbs"
    using assms by (auto simp: read_config_def result_simps)
  then show ?thesis
    unfolding references_ok_def
    by (simp add: mapM_all [where P = "\<lambda>s. 0 \<le> si_cluster_index s \<and> si_cluster_index s < int (length clusters)", OF _ read_sgw_index]
        mapM_all [where P = "list_all (\<lambda>i. 0 \<le> i \<and> i < int (length sgws))", OF _ read_lb_indices])
qed

lemma add_included_references: "references_ok t \<Longrightarrow> references_ok sub \<Longrightarrow> references_ok (add_included t sub)"
  by (fastforce simp: references_ok_def add_included_def list_all_iff)

lemma read_tag_references: "read_tag config t = Inr t' \<Longrightarrow> references_ok t \<Longrightarrow> references_ok t'"
  by (auto simp: read_tag_def references_ok_def result_simps split: if_splits)

lemma load_references:
  "TopologyConfig_load files resolve fuel path p = Some (Inr t) \<Longrightarrow> references_ok t"
proof (induction fuel arbitrary: path p t)
  case (Suc fuel)
  from Suc.prems show ?case
    by (auto simp: result_simps split: sum.splits option.splits if_splits
        dest!: read_config_references Suc.IH elim!: read_tag_references intro!: add_included_references)
qed simp

text \<open>Nothing has a machine yet.\<close>

lemma load_unplaced:
  "TopologyConfig_load files resolve fuel path p = Some (Inr t) \<Longrightarrow> tp_clusters t = [] \<and> tp_sgws t = []"
proof (induction fuel arbitrary: path p t)
  case (Suc fuel)
  have fresh: "read_config p c = Inr u \<Longrightarrow> tp_clusters u = [] \<and> tp_sgws u = []" for c u
    by (auto simp: read_config_def result_simps)
  have tag: "read_tag c u = Inr u' \<Longrightarrow> tp_clusters u' = tp_clusters u \<and> tp_sgws u' = tp_sgws u" for c u u'
    by (auto simp: read_tag_def result_simps split: if_splits)
  from Suc.prems show ?case
    by (auto simp: result_simps add_included_def split: sum.splits option.splits if_splits dest!: fresh tag)
qed simp

text \<open>A file whose Sync Gateway names its own only cluster, included by a file with a cluster of its own.\<close>

definition sample_files :: "string \<Rightarrow> json result" where
  "sample_files file =
     (if file = ''main''
      then Inr (JObj [(''clusters'', JList [JObj [(''server_count'', JInt 3)]]), (''include'', JStr ''sub'')])
      else if file = ''sub''
      then Inr (JObj [(''clusters'', JList [JObj [(''server_count'', JInt 1)]]),
                      (''sync_gateways'', JList [JObj [(''cluster'', JInt 0)]])])
      else Inl FileNotFoundError)"

lemma sample_load:
  "\<exists>t. TopologyConfig_load sample_files (\<lambda>file include. include) 2 ''main'' None = Some (Inr t)
     \<and> map ci_server_count (tp_cluster_inputs t) = [3, 1] \<and> map si_cluster_index (tp_sgw_inputs t) = [0]"
  by (simp add: numeral_2_eq_2 sample_files_def read_config_def ConfigDefaults_create_def ConfigDefaults_extend_def
      read_default_def extend_property_def DefaultProperty_create_def DefaultProperty_is_set_def raw_entries_def
      list_of_def obj_of_def read_cluster_def entry_version_def ClusterInput_create_def int_of_json_def d_has_def
      get_or_null_def str_item_def d_item_def read_sgw_def read_tag_def add_included_def result_simps)

text \<open>
  Every topology that loads, with whatever it includes and however deep, has references in
  range: each Sync Gateway names a cluster of the topology and each load balancer names Sync
  Gateways of it.  (An included Sync Gateway keeps the number it had in its own file, so in a
  topology that has clusters before it the number names another cluster.)
\<close>

theorem loaded_references_in_range:
  assumes "TopologyConfig_load files resolve fuel file p = Some (Inr t)"
  shows "(\<forall>s \<in> set (tp_sgw_inputs t). 0 \<le> si_cluster_index s \<and> si_cluster_index s < int (length (tp_cluster_inputs t)))
    \<and> (\<forall>l \<in> set (tp_lb_inputs t). \<forall>i \<in> set l. 0 \<le> i \<and> i < int (length (tp_sgw_inputs t)))"
  using load_references [OF assms] by (simp add: references_ok_def list_all_iff)

theorem loaded_references_in_range_witness:
  "\<exists>t s. TopologyConfig_load sample_files (\<lambda>file include. include) 2 ''main'' None = Some (Inr t)
     \<and> tp_sgw_inputs t = [s] \<and> 0 \<le> si_cluster_index s"
proof -
  obtain t where t: "TopologyConfig_load sample_files (\<lambda>file include. include) 2 ''main'' None = Some (Inr t)"
    "map si_cluster_index (tp_sgw_inputs t) = [0]" using sample_load by (elim exE conjE)
  from t(2) obtain s where s: "tp_sgw_inputs t = [s]" by (cases "tp_sgw_inputs t") auto
  have "0 \<le> si_cluster_index s" using loaded_references_in_range [OF t(1)] s by simp
  with t(1) s show ?thesis by (intro exI conjI)
qed

text \<open>The Sync Gateway of the included file now belongs to the cluster of three of the main file.\<close>

lemma included_cluster_index_not_shifted:
  "\<exists>t s. TopologyConfig_load sample_files (\<lambda>file include. include) 2 ''main'' None = Some (Inr t)
     \<and> tp_sgw_inputs t = [s] \<and> ci_server_count (tp_cluster_inputs t ! nat (si_cluster_index s)) = 3"
proof -
  obtain t where t: "TopologyConfig_load sample_files (\<lambda>file include. include) 2 ''main'' None = Some (Inr t)"
    "map ci_server_count (tp_cluster_inputs t) = [3, 1]" "map si_cluster_index (tp_sgw_inputs t) = [0]"
    using sample_load by (elim exE conjE)
  from t(3) obtain s where s: "tp_sgw_inputs t = [s]" "si_cluster_index s = 0" by (cases "tp_sgw_inputs t") auto
  have "ci_server_count (tp_cluster_inputs t ! nat (si_cluster_index s)) = 3"
    using t(2) s(2) by (cases "tp_cluster_inputs t") auto
  with t(1) s(1) show ?thesis by (intro exI conjI)
qed

text \<open>The default version of Edge Servers does not reach an included file.\<close>

lemma es_default_not_extended:
  "ConfigDefaults_extend d p = Inr d' \<Longrightarrow> DefaultProperty_value (cd_es d') = DefaultProperty_value (cd_es d)"
  by (auto simp: ConfigDefaults_extend_def result_simps split: if_splits)

section \<open>Every machine has its place\<close>

lemma py_slice_nat:
  "py_slice xs (int a) (int a + int n) = take n (drop a xs)"
  by (auto simp: py_slice_def slice_bound_def Let_def min_def nat_add_distrib)

lemma py_nth_Cons_0 [simp]: "py_nth (x # xs) 0 = Inr x"
  by (simp add: py_nth_def)

definition counts :: "cluster_input list \<Rightarrow> nat list" where
  "counts cs = map (\<lambda>c. nat (ci_server_count c)) cs"

lemma server_slices_places:
  assumes "\<forall>c \<in> set cs. ci_server_count c \<ge> 0"
    and "length publics = i + sum_list (counts cs)" "length internals = i + sum_list (counts cs)"
  shows "concat (map cc_public_hostnames (server_slices publics internals (int i) cs)) = drop i publics
    \<and> concat (map cc_internal_hostnames (server_slices publics internals (int i) cs)) = drop i internals
    \<and> map (length \<circ> cc_public_hostnames) (server_slices publics internals (int i) cs) = counts cs
    \<and> map (length \<circ> cc_internal_hostnames) (server_slices publics internals (int i) cs) = counts cs"
  using assms
proof (induction cs arbitrary: i)
  case Nil
  then show ?case by (simp add: counts_def)
next
  case (Cons c cs)
  let ?n = "nat (ci_server_count c)"
  have n: "ci_server_count c = int ?n" using Cons.prems(1) by simp
  have step: "server_slices publics internals (int i) (c # cs) =
     \<lparr> cc_version = ci_version c, cc_public_hostnames = take ?n (drop i publics),
       cc_internal_hostnames = take ?n (drop i internals) \<rparr>
     # server_slices publics internals (int (i + ?n)) cs"
    using n py_slice_nat [of publics i ?n] py_slice_nat [of internals i ?n] by simp
  have join: "take ?n (drop i xs) @ drop (i + ?n) xs = drop i xs" for xs :: "string list"
    by (metis add.commute append_take_drop_id drop_drop)
  have "counts (c # cs) = ?n # counts cs" by (simp add: counts_def)
  then show ?case
    unfolding step using Cons.IH [of "i + ?n"] Cons.prems by (simp add: join)
qed

text \<open>The machine that a Sync Gateway input becomes.\<close>

definition placed :: "cluster_config list \<Rightarrow> sgw_input \<Rightarrow> string \<Rightarrow> string \<Rightarrow> sgw_config \<Rightarrow> bool" where
  "placed clusters s h internal c =
     (sc_version c = si_version s \<and> get_ec2_hostname h = Inr (sc_hostname c) \<and> sc_internal_hostname c = internal
      \<and> sc_cluster_index c = si_cluster_index s
      \<and> sc_cluster_hostname c = hd (cc_internal_hostnames (clusters ! nat (si_cluster_index s))))"

lemma apply_sgws_placed:
  assumes "\<forall>s \<in> set ss. 0 \<le> si_cluster_index s \<and> si_cluster_index s < int (length (tp_clusters t))"
    and "\<forall>c \<in> set (tp_clusters t). cc_internal_hostnames c \<noteq> []"
    and "\<forall>h \<in> set hostnames. \<exists>x. get_ec2_hostname h = Inr x"
    and "length hostnames = length ss" "length internals = length ss"
  shows "\<exists>new. apply_sgws hostnames internals ss t = (Inr (), t\<lparr>tp_sgws := tp_sgws t @ new\<rparr>)
    \<and> length new = length ss \<and> (\<forall>i < length ss. placed (tp_clusters t) (ss ! i) (hostnames ! i) (internals ! i) (new ! i))"
  using assms
proof (induction ss arbitrary: hostnames internals t)
  case Nil
  show ?case by (intro exI [of _ "[]"]) simp
next
  case (Cons s ss)
  obtain h hs where h: "hostnames = h # hs" using Cons.prems(4) by (cases hostnames) auto
  obtain j js where j: "internals = j # js" using Cons.prems(5) by (cases internals) auto
  obtain x where x: "get_ec2_hostname h = Inr x" using Cons.prems(3) h by auto
  obtain k where k: "si_cluster_index s = int k" "k < length (tp_clusters t)"
    using Cons.prems(1) by (auto intro: that [of "nat (si_cluster_index s)"])
  then have "cc_internal_hostnames (tp_clusters t ! k) \<noteq> []" using Cons.prems(2) by simp
  then obtain c cs where c: "cc_internal_hostnames (tp_clusters t ! k) = c # cs"
    by (cases "cc_internal_hostnames (tp_clusters t ! k)") auto
  let ?sgw = "\<lparr> sc_version = si_version s, sc_hostname = x, sc_internal_hostname = j,
                sc_cluster_hostname = c, sc_cluster_index = si_cluster_index s \<rparr>"
  let ?t = "t\<lparr>tp_sgws := tp_sgws t @ [?sgw]\<rparr>"
  have "\<exists>new. apply_sgws hs js ss ?t = (Inr (), ?t\<lparr>tp_sgws := tp_sgws ?t @ new\<rparr>)
    \<and> length new = length ss \<and> (\<forall>i < length ss. placed (tp_clusters ?t) (ss ! i) (hs ! i) (js ! i) (new ! i))"
    by (rule Cons.IH) (use Cons.prems h j in simp_all)
  then obtain new where new: "apply_sgws hs js ss ?t = (Inr (), ?t\<lparr>tp_sgws := tp_sgws ?t @ new\<rparr>)"
    "length new = length ss" "\<forall>i < length ss. placed (tp_clusters t) (ss ! i) (hs ! i) (js ! i) (new ! i)" by auto
  have "apply_sgws hostnames internals (s # ss) t = (Inr (), t\<lparr>tp_sgws := tp_sgws t @ (?sgw # new)\<rparr>)"
    using new(1) h j x k c by simp
  moreover have "placed (tp_clusters t) ((s # ss) ! i) (hostnames ! i) (internals ! i) ((?sgw # new) ! i)"
    if "i < length (s # ss)" for i
    using that new(3) h j x k c by (cases i) (simp_all add: placed_def)
  ultimately show ?case using new(2) by (intro exI [of _ "?sgw # new"]) simp
qed

text \<open>What the addresses of terraform make of a loaded topology.\<close>

lemma placed_machines:
  assumes "TopologyConfig_load files resolve fuel path p = Some (Inr t)"
    and "\<forall>c \<in> set (tp_cluster_inputs t). ci_server_count c \<ge> 1"
    and "length publics = sum_list (counts (tp_cluster_inputs t))" "length internals = length publics"
    and "length hosts = length (tp_sgw_inputs t)" "length sgw_internals = length hosts"
    and "\<forall>h \<in> set hosts. \<exists>x. get_ec2_hostname h = Inr x"
  shows "\<exists>t'. TopologyConfig_apply_sgw_hostnames hosts sgw_internals
        (TopologyConfig_apply_server_hostnames publics internals t) = (Inr (), t')
    \<and> concat (map cc_public_hostnames (tp_clusters t')) = publics
    \<and> concat (map cc_internal_hostnames (tp_clusters t')) = internals
    \<and> map (length \<circ> cc_public_hostnames) (tp_clusters t') = counts (tp_cluster_inputs t)
    \<and> length (tp_sgws t') = length hosts
    \<and> (\<forall>i < length hosts. placed (tp_clusters t') (tp_sgw_inputs t ! i) (hosts ! i) (sgw_internals ! i) (tp_sgws t' ! i))"
proof -
  let ?cs = "tp_cluster_inputs t" and ?slices = "server_slices publics internals 0 (tp_cluster_inputs t)"
  let ?t1 = "TopologyConfig_apply_server_hostnames publics internals t"
  have pos: "\<forall>c \<in> set ?cs. ci_server_count c \<ge> 0" using assms(2) by auto
  have slices: "concat (map cc_public_hostnames ?slices) = publics" "concat (map cc_internal_hostnames ?slices) = internals"
    "map (length \<circ> cc_public_hostnames) ?slices = counts ?cs" "map (length \<circ> cc_internal_hostnames) ?slices = counts ?cs"
    using server_slices_places [OF pos, of publics 0 internals] assms(3,4) by simp_all
  have t1: "tp_clusters ?t1 = ?slices" "tp_sgws ?t1 = []" "tp_sgw_inputs ?t1 = tp_sgw_inputs t"
    using load_unplaced [OF assms(1)] by (simp_all add: TopologyConfig_apply_server_hostnames_def)
  have len: "length ?slices = length ?cs"
    using slices(3) by (metis counts_def length_map)
  have refs: "\<forall>s \<in> set (tp_sgw_inputs t). 0 \<le> si_cluster_index s \<and> si_cluster_index s < int (length (tp_clusters ?t1))"
    using load_references [OF assms(1)] len t1(1) by (simp add: references_ok_def list_all_iff)
  have "cc_internal_hostnames c \<noteq> []" if "c \<in> set ?slices" for c
  proof -
    have "length (cc_internal_hostnames c) \<in> set (counts ?cs)"
      using that by (simp flip: slices(4))
    then show ?thesis using assms(2) by (auto simp: counts_def)
  qed
  then have nonempty: "\<forall>c \<in> set (tp_clusters ?t1). cc_internal_hostnames c \<noteq> []" using t1(1) by simp
  obtain new where new: "TopologyConfig_apply_sgw_hostnames hosts sgw_internals ?t1 = (Inr (), ?t1\<lparr>tp_sgws := tp_sgws ?t1 @ new\<rparr>)"
    "length new = length (tp_sgw_inputs t)"
    "\<forall>i < length (tp_sgw_inputs t). placed (tp_clusters ?t1) (tp_sgw_inputs t ! i) (hosts ! i) (sgw_internals ! i) (new ! i)"
    using apply_sgws_placed [OF refs nonempty assms(7)] assms(5,6) t1(3)
    by (auto simp: TopologyConfig_apply_sgw_hostnames_def)
  then show ?thesis
    using slices(1,2,3) assms(3-6) t1 by (intro exI [of _ "?t1\<lparr>tp_sgws := tp_sgws ?t1 @ new\<rparr>"]) simp
qed



section \<open>The connection check goes on\<close>

text \<open>Every one of the requests is made, also when the first succeeds.\<close>

lemma probe_after_success:
  assumes "\<And>w. probe w = (Inr (), next w)"
  shows "probe_loop probe sleep success n w = (Inr (success \<or> n > 0), (next ^^ n) w)"
  by (induction n arbitrary: success w) (auto simp: assms funpow_swap1)

end
