(* ===== verification/ConfigParser.thy ===== *)
theory ConfigParser
  imports Json
begin

text \<open>
  The configuration of a test run (\<open>configparser.py\<close>): the entries for the servers and the parsed
  configuration with its optional Greenboard entry.  The lists of entries are checked to be lists
  only; an entry is read when a client is made from it.  \<open>dumps\<close> and the repository root are
  parameters.
\<close>

section \<open>Entries\<close>

record test_server_info =
  tsi_url :: string
  tsi_dataset_version :: "string option"

definition TestServerInfo_create :: "jdict \<Rightarrow> test_server_info result" where
  "TestServerInfo_create data =
     rbind (assert_string_entry data ''url'') (\<lambda>url.
     rbind (get_typed data ''dataset_version'' T_str) (\<lambda>v.
       Inr \<lparr> tsi_url = url,
             tsi_dataset_version = (case v of Some (JStr s) \<Rightarrow> Some s | _ \<Rightarrow> None) \<rparr>))"

text \<open>Ports and indices are what \<open>_get_int_or_default\<close> accepts, which includes booleans.\<close>

record sync_gateway_info =
  sgi_hostname :: string
  sgi_port :: json
  sgi_admin_port :: json
  sgi_rbac_user :: string
  sgi_rbac_password :: string
  sgi_uses_tls :: bool
  sgi_cluster_index :: json

definition SyncGatewayInfo_create :: "jdict \<Rightarrow> sync_gateway_info result" where
  "SyncGatewayInfo_create data =
     rbind (assert_string_entry data ''hostname'') (\<lambda>hostname.
     rbind (get_int_or_default data ''port'' (JInt 4984)) (\<lambda>port.
     rbind (get_int_or_default data ''admin_port'' (JInt 4985)) (\<lambda>admin_port.
     rbind (get_str_or_default data ''rbac_user'' ''admin'') (\<lambda>user.
     rbind (get_str_or_default data ''rbac_password'' ''password'') (\<lambda>password.
     rbind (get_bool_or_default data ''tls'' False) (\<lambda>tls.
     rbind (get_int_or_default data ''cluster_index'' (JInt 0)) (\<lambda>ix.
       Inr \<lparr> sgi_hostname = hostname, sgi_port = port, sgi_admin_port = admin_port, sgi_rbac_user = user,
             sgi_rbac_password = password, sgi_uses_tls = tls, sgi_cluster_index = ix \<rparr>)))))))"

record couchbase_server_info =
  csi_hostname :: string
  csi_admin_user :: string
  csi_admin_password :: string
  csi_cluster_index :: json

definition CouchbaseServerInfo_create :: "jdict \<Rightarrow> couchbase_server_info result" where
  "CouchbaseServerInfo_create data =
     rbind (assert_string_entry data ''hostname'') (\<lambda>hostname.
     rbind (get_str_or_default data ''admin_user'' ''Administrator'') (\<lambda>user.
     rbind (get_str_or_default data ''admin_password'' ''password'') (\<lambda>password.
     rbind (get_int_or_default data ''cluster_index'' (JInt 0)) (\<lambda>ix.
       Inr \<lparr> csi_hostname = hostname, csi_admin_user = user, csi_admin_password = password,
             csi_cluster_index = ix \<rparr>))))"

record edge_server_info =
  esi_hostname :: string
  esi_admin_user :: string
  esi_admin_password :: string
  esi_config_path :: string

text \<open>\<open>repo_root\<close> is the result of \<open>_get_repo_root\<close>, which runs for every entry.\<close>

definition EdgeServerInfo_create :: "string result \<Rightarrow> jdict \<Rightarrow> edge_server_info result" where
  "EdgeServerInfo_create repo_root data =
     rbind (assert_string_entry data ''hostname'') (\<lambda>hostname.
     rbind (get_str_or_default data ''admin_user'' ''admin_user'') (\<lambda>user.
     rbind (get_str_or_default data ''admin_password'' ''password'') (\<lambda>password.
     rbind repo_root (\<lambda>root.
     rbind (get_str_or_default data ''config_path'' (root @ ''/environment/aws/es_setup/config/config.json'')) (\<lambda>path.
       Inr \<lparr> esi_hostname = hostname, esi_admin_user = user, esi_admin_password = password,
             esi_config_path = path \<rparr>)))))"

section \<open>The configuration\<close>

record parsed_config =
  pc_test_servers :: json
  pc_sync_gateways :: json
  pc_couchbase_servers :: json
  pc_load_balancers :: json
  pc_edge_servers :: json
  pc_greenboard :: "jdict option"
  pc_logslurp_url :: "string option"

definition ParsedConfig_create :: "jdict \<Rightarrow> parsed_config result" where
  "ParsedConfig_create json =
     rbind (get_typed_nonnull json ''test-servers'' T_list (JList [])) (\<lambda>ts.
     rbind (get_typed_nonnull json ''sync-gateways'' T_list (JList [])) (\<lambda>sgw.
     rbind (get_typed_nonnull json ''couchbase-servers'' T_list (JList [])) (\<lambda>cbs.
     rbind (get_typed_nonnull json ''load-balancers'' T_list (JList [])) (\<lambda>lb.
     rbind (get_typed_nonnull json ''edge-servers'' T_list (JList [])) (\<lambda>es.
     rbind (get_typed json ''greenboard'' T_dict) (\<lambda>gb.
       let greenboard = (case gb of Some (JObj d) \<Rightarrow> Some d | _ \<Rightarrow> None)
       in rbind (case greenboard of
                   Some d \<Rightarrow>
                     if \<not> d_has d ''hostname'' \<or> \<not> d_has d ''username'' \<or> \<not> d_has d ''password''
                     then Inl ValueError else Inr ()
                 | None \<Rightarrow> Inr ()) (\<lambda>_.
          rbind (get_typed json ''logslurp'' T_str) (\<lambda>ls.
            Inr \<lparr> pc_test_servers = ts, pc_sync_gateways = sgw, pc_couchbase_servers = cbs,
                  pc_load_balancers = lb, pc_edge_servers = es, pc_greenboard = greenboard,
                  pc_logslurp_url = (case ls of Some (JStr s) \<Rightarrow> Some s | _ \<Rightarrow> None) \<rparr>))))))))"

text \<open>The three properties that read the Greenboard entry.\<close>

definition greenboard_entry :: "string \<Rightarrow> parsed_config \<Rightarrow> json option result" where
  "greenboard_entry key c =
     (case pc_greenboard c of
        None \<Rightarrow> Inr None
      | Some d \<Rightarrow> rbind (d_item d key) (\<lambda>v. Inr (Some v)))"

definition ParsedConfig_greenboard_url :: "parsed_config \<Rightarrow> json option result" where
  "ParsedConfig_greenboard_url = greenboard_entry ''hostname''"

definition ParsedConfig_greenboard_username :: "parsed_config \<Rightarrow> json option result" where
  "ParsedConfig_greenboard_username = greenboard_entry ''username''"

definition ParsedConfig_greenboard_password :: "parsed_config \<Rightarrow> json option result" where
  "ParsedConfig_greenboard_password = greenboard_entry ''password''"

text \<open>\<open>__str__\<close>; appending what is not a string raises \<open>TypeError\<close>.\<close>

definition ParsedConfig_str :: "(json \<Rightarrow> string) \<Rightarrow> parsed_config \<Rightarrow> string result" where
  "ParsedConfig_str dumps c =
     (let nl = [char_of (10 :: nat)]
      in rbind (case pc_greenboard c of
                  None \<Rightarrow> Inr []
                | Some d \<Rightarrow> rbind (d_item d ''url'') (\<lambda>v. case v of JStr s \<Rightarrow> Inr s | _ \<Rightarrow> Inl TypeError)) (\<lambda>url.
           Inr (''Test Servers: '' @ dumps (pc_test_servers c) @ nl
             @ ''Sync Gateways: '' @ dumps (pc_sync_gateways c) @ nl
             @ ''Couchbase Servers: '' @ dumps (pc_couchbase_servers c) @ nl
             @ ''Load Balancers: '' @ dumps (pc_load_balancers c) @ nl
             @ ''Edge Servers: '' @ dumps (pc_edge_servers c) @ nl
             @ ''Logslurp URL: '' @ (case pc_logslurp_url c of None \<Rightarrow> [] | Some u \<Rightarrow> u) @ nl
             @ ''Greenboard: '' @ url)))"

text \<open>\<open>read_file\<close> gives what the file holds as JSON, or nothing when there is no such file.\<close>

definition parse_config :: "(string \<Rightarrow> json result option) \<Rightarrow> string \<Rightarrow> parsed_config result" where
  "parse_config read_file path =
     (case read_file path of
        None \<Rightarrow> Inl FileNotFoundError
      | Some (Inl e) \<Rightarrow> Inl e
      | Some (Inr (JObj d)) \<Rightarrow> ParsedConfig_create d
      | Some (Inr _) \<Rightarrow> Inl ValueError)"

section \<open>What a configuration offers\<close>

lemma typed_list:
  assumes "get_typed_nonnull json k T_list (JList []) = Inr v"
  shows "isinstance v T_list"
  using assms by (auto simp: get_typed_nonnull_def get_typed_def split: option.splits if_splits)

lemma config_lists:
  assumes "ParsedConfig_create json = Inr c"
  shows "isinstance (pc_test_servers c) T_list \<and> isinstance (pc_sync_gateways c) T_list
    \<and> isinstance (pc_couchbase_servers c) T_list \<and> isinstance (pc_load_balancers c) T_list
    \<and> isinstance (pc_edge_servers c) T_list"
  using assms unfolding ParsedConfig_create_def Let_def by (elim rbind_InrE) (auto dest: typed_list)

lemma config_greenboard:
  assumes "ParsedConfig_create json = Inr c" "pc_greenboard c = Some d"
  shows "map_of json ''greenboard'' = Some (JObj d) \<and> d_has d ''hostname'' \<and> d_has d ''username'' \<and> d_has d ''password''"
  using assms unfolding ParsedConfig_create_def Let_def
  by (elim rbind_InrE) (auto simp: json_simps split: option.splits json.splits if_splits)

text \<open>Printing a configuration with a valid Greenboard entry needs a key that the parser does not ask for.\<close>

lemma str_needs_greenboard_url:
  assumes "pc_greenboard c = Some d" "\<not> d_has d ''url''"
  shows "ParsedConfig_str dumps c = Inl KeyError"
  using assms by (simp add: ParsedConfig_str_def d_item_def d_has_def)

text \<open>
  C28. What every configuration that \<open>_parse_config\<close> accepts offers to the clients: the five entries
  for servers are lists, and the three properties of the Greenboard entry never raise: they are all
  \<open>None\<close> without an entry and all given with one.
\<close>

theorem parsed_config_typed:
  assumes "parse_config read_file path = Inr c"
  shows "isinstance (pc_test_servers c) T_list \<and> isinstance (pc_sync_gateways c) T_list
    \<and> isinstance (pc_couchbase_servers c) T_list \<and> isinstance (pc_load_balancers c) T_list
    \<and> isinstance (pc_edge_servers c) T_list
    \<and> (\<exists>url user password. ParsedConfig_greenboard_url c = Inr url \<and> ParsedConfig_greenboard_username c = Inr user
        \<and> ParsedConfig_greenboard_password c = Inr password
        \<and> (url = None) = (pc_greenboard c = None) \<and> (user = None) = (pc_greenboard c = None)
        \<and> (password = None) = (pc_greenboard c = None))"
proof -
  from assms obtain json where created: "ParsedConfig_create json = Inr c"
    by (auto simp: parse_config_def split: option.splits sum.splits json.splits)
  show ?thesis
    using config_lists [OF created] config_greenboard [OF created]
    by (cases "pc_greenboard c")
      (auto simp: ParsedConfig_greenboard_url_def ParsedConfig_greenboard_username_def
        ParsedConfig_greenboard_password_def greenboard_entry_def d_has_def d_item_def)
qed

theorem parsed_config_typed_witness:
  "\<exists>c. parse_config (\<lambda>_. Some (Inr (JObj [(''greenboard'', JObj [(''hostname'', JStr ''gb''), (''username'', JStr ''u''),
        (''password'', JStr ''p'')])]))) ''config.json'' = Inr c
     \<and> isinstance (pc_test_servers c) T_list \<and> ParsedConfig_greenboard_url c = Inr (Some (JStr ''gb''))"
proof -
  let ?read = "\<lambda>_ :: string. Some (Inr (JObj [(''greenboard'', JObj [(''hostname'', JStr ''gb''), (''username'', JStr ''u''),
    (''password'', JStr ''p'')])]))"
  obtain c where c: "parse_config ?read ''config.json'' = Inr c"
    "ParsedConfig_greenboard_url c = Inr (Some (JStr ''gb''))"
    by (simp add: parse_config_def ParsedConfig_create_def get_typed_nonnull_def get_typed_def d_has_def
        ParsedConfig_greenboard_url_def greenboard_entry_def d_item_def)
  with parsed_config_typed [OF c(1)] show ?thesis by blast
qed

end
