(* ===== verification/Greenboard.thy ===== *)
theory Greenboard
  imports SgwTypes
begin

text \<open>
  The uploader of results to Greenboard (\<open>greenboarduploader.py\<close>): the counts that the pytest hook
  keeps, what is uploaded for a run, and the record of an upgrade with its single document.  The
  environment variables, the clock, the state file and the write to the bucket are parameters; a
  JUnit file is the list of its suites.
\<close>

named_theorems greenboard_simps "rewrite rules for the uploader"

section \<open>Counts of a run\<close>

text \<open>A suite has a number of tests, failures, errors and skipped tests, any of which may be missing.\<close>

record junit_suite =
  js_tests :: "int option"
  js_failures :: "int option"
  js_errors :: "int option"
  js_skipped :: "int option"

definition or_zero :: "int option \<Rightarrow> int" where
  "or_zero x = (case x of None \<Rightarrow> 0 | Some n \<Rightarrow> n)"

definition add_suite :: "int \<times> int \<times> int \<Rightarrow> junit_suite \<Rightarrow> int \<times> int \<times> int" where
  "add_suite acc suite =
     (let (p, f, e) = acc; failures = or_zero (js_failures suite); errors = or_zero (js_errors suite)
      in (p + max 0 (or_zero (js_tests suite) - failures - errors - or_zero (js_skipped suite)),
          f + failures, e + errors))"

definition count_from_junit_xml :: "junit_suite list \<Rightarrow> int \<times> int \<times> int" where
  "count_from_junit_xml suites = foldl add_suite (0, 0, 0) suites"

definition resolve_job_url :: "(string \<Rightarrow> string option) \<Rightarrow> string" where
  "resolve_job_url env = (case env ''BUILD_URL'' of Some u \<Rightarrow> if u \<noteq> [] then u else ''local'' | None \<Rightarrow> ''local'')"

text \<open>The first of the candidates that is not empty, without \<open>origin/\<close>.\<close>

fun first_text :: "string option list \<Rightarrow> string option" where
  "first_text [] = None"
| "first_text (x # xs) = (case x of Some s \<Rightarrow> if s \<noteq> [] then Some s else first_text xs | None \<Rightarrow> first_text xs)"

definition resolve_branch :: "(string \<Rightarrow> string option) \<Rightarrow> string option \<Rightarrow> string option" where
  "resolve_branch env override =
     (case first_text [override, env ''GIT_BRANCH'', env ''BRANCH_NAME''] of
        None \<Rightarrow> None
      | Some branch \<Rightarrow> (let b = py_removeprefix ''origin/'' branch in if b \<noteq> [] then Some b else None))"

section \<open>The uploader\<close>

datatype outcome = Passed | Failed | Skipped

text \<open>A report of pytest with its phase, and whether its test has a marker for Sync Gateway.\<close>

record test_report =
  tr_when :: string
  tr_outcome :: outcome
  tr_sgw_marker :: bool

record uploader =
  gu_url :: string
  gu_fail_count :: int
  gu_pass_count :: int
  gu_overall_fail :: bool
  gu_test_ran :: bool
  gu_has_sgw_marker :: bool

definition GreenboardUploader_create :: "string \<Rightarrow> uploader" where
  "GreenboardUploader_create url =
     \<lparr> gu_url = (if contains_sub ''://'' url then url else ''couchbase://'' @ url),
       gu_fail_count = 0, gu_pass_count = 0, gu_overall_fail = False, gu_test_ran = False,
       gu_has_sgw_marker = False \<rparr>"

definition GreenboardUploader_makereport :: "test_report \<Rightarrow> uploader \<Rightarrow> uploader" where
  "GreenboardUploader_makereport report u =
     (if tr_when report \<noteq> ''call''
      then if tr_outcome report = Failed then u\<lparr>gu_overall_fail := True\<rparr> else u
      else let u = u\<lparr>gu_test_ran := True\<rparr>
           in if gu_overall_fail u then u
              else let u = (if tr_sgw_marker report then u\<lparr>gu_has_sgw_marker := True\<rparr> else u)
                   in case tr_outcome report of
                        Passed \<Rightarrow> u\<lparr>gu_pass_count := gu_pass_count u + 1\<rparr>
                      | Failed \<Rightarrow> u\<lparr>gu_fail_count := gu_fail_count u + 1\<rparr>
                      | Skipped \<Rightarrow> u)"

text \<open>The document of a run, with the names of the fields in the bucket.\<close>

record run_result =
  rr_build :: int
  rr_version :: string
  rr_sgw_version :: string
  rr_fail_count :: int
  rr_pass_count :: int
  rr_platform :: string
  rr_os :: string
  rr_job_url :: string

definition RunResult_dump :: "run_result \<Rightarrow> jdict" where
  "RunResult_dump r =
     [(''build'', JInt (rr_build r)), (''version'', JStr (rr_version r)),
      (''sgwVersion'', JStr (rr_sgw_version r)), (''failCount'', JInt (rr_fail_count r)),
      (''passCount'', JInt (rr_pass_count r)), (''platform'', JStr (rr_platform r)), (''os'', JStr (rr_os r)),
      (''jobUrl'', JStr (rr_job_url r))]"

text \<open>\<open>clock\<close> gives the time stamp and the date; \<open>put\<close> writes a document to the bucket.\<close>

definition GreenboardUploader_upsert ::
    "('w, rat \<times> string) io \<Rightarrow> (jdict \<Rightarrow> ('w, unit) io) \<Rightarrow> jdict \<Rightarrow> ('w, unit) io" where
  "GreenboardUploader_upsert clock put doc =
     io_bind clock (\<lambda>(stamp, date).
       put (d_set (d_set doc ''uploaded'' (JFloat stamp)) ''date'' (JStr date)))"

text \<open>Version and build of a version string such as \<open>3.2.0-b0136\<close>.\<close>

definition parsed_version :: "string \<Rightarrow> string \<times> int" where
  "parsed_version version =
     (case split_on (CHR ''-'') version of
        [] \<Rightarrow> (''0.0.0'', 0)
      | v # rest \<Rightarrow>
          (if v \<noteq> [] then v else ''0.0.0'',
           case rest of
             [] \<Rightarrow> 0
           | b # _ \<Rightarrow> (case py_int (dropWhile (\<lambda>c. c = CHR ''b'') b) of Some n \<Rightarrow> n | None \<Rightarrow> 0)))"

text \<open>A version of Sync Gateway is a string and a build number.\<close>

definition run_result_of ::
    "(string \<Rightarrow> string option) \<Rightarrow> uploader \<Rightarrow> string \<Rightarrow> string \<Rightarrow> string \<Rightarrow> (string \<times> int) option
      \<Rightarrow> int option \<Rightarrow> int option \<Rightarrow> run_result" where
  "run_result_of env u platform os_name version sgw_version pass_count fail_count =
     (let (v, b) = (case sgw_version of
                      Some (sv, sb) \<Rightarrow>
                        if platform = ''sync-gateway''
                        then (if sv \<noteq> [] \<and> sv \<noteq> ''unknown'' then sv else ''0.0.0'', sb)
                        else parsed_version version
                    | None \<Rightarrow> parsed_version version)
      in \<lparr> rr_build = b, rr_version = v,
           rr_sgw_version = (case sgw_version of Some (sv, sb) \<Rightarrow> sv @ ''-'' @ int_str sb | None \<Rightarrow> ''n/a''),
           rr_fail_count = (case fail_count of Some n \<Rightarrow> n | None \<Rightarrow> gu_fail_count u),
           rr_pass_count = (case pass_count of Some n \<Rightarrow> n | None \<Rightarrow> gu_pass_count u),
           rr_platform = platform, rr_os = os_name, rr_job_url = resolve_job_url env \<rparr>)"

text \<open>The result model accepts a string only as the name of the operating system.\<close>

definition GreenboardUploader_upload ::
    "(string \<Rightarrow> string option) \<Rightarrow> (jdict \<Rightarrow> ('w, unit) io) \<Rightarrow> uploader \<Rightarrow> string \<Rightarrow> json \<Rightarrow> string
      \<Rightarrow> (string \<times> int) option \<Rightarrow> int option \<Rightarrow> int option \<Rightarrow> ('w, unit) io" where
  "GreenboardUploader_upload env upsert u platform os_name version sgw_version pass_count fail_count =
     (if gu_overall_fail u then io_return ()
      else case os_name of
             JStr os \<Rightarrow> upsert (RunResult_dump (run_result_of env u platform os version sgw_version pass_count fail_count))
           | _ \<Rightarrow> io_raise ValueError)"

text \<open>\<open>junit\<close> is nothing when there is no file, else what reading it gives.\<close>

definition GreenboardUploader_upload_from_junit_file ::
    "(string \<Rightarrow> string option) \<Rightarrow> (jdict \<Rightarrow> ('w, unit) io) \<Rightarrow> uploader \<Rightarrow> junit_suite list result option
      \<Rightarrow> string \<Rightarrow> json \<Rightarrow> string \<Rightarrow> (string \<times> int) option \<Rightarrow> ('w, unit) io" where
  "GreenboardUploader_upload_from_junit_file env upsert u junit platform os_name version sgw_version =
     (case junit of
        None \<Rightarrow> GreenboardUploader_upload env upsert u platform os_name version sgw_version None None
      | Some r \<Rightarrow> io_bind (io_lift r) (\<lambda>suites.
          let (p, f, e) = count_from_junit_xml suites
          in if p + f + e = 0 then io_return ()
             else if p = 0 \<and> f = 0 \<and> e > 0 then io_return ()
             else GreenboardUploader_upload env upsert u platform os_name version sgw_version (Some p) (Some (f + e))))"

section \<open>Upgrades\<close>

definition upgrade_path_of :: "string \<Rightarrow> string list" where
  "upgrade_path_of s = filter (\<lambda>v. v \<noteq> []) (map py_strip (split_on (CHR '','') s))"

text \<open>The version before the first later place of the current one in the path.\<close>

fun upgrade_from :: "string \<Rightarrow> string list \<Rightarrow> string" where
  "upgrade_from current (v # w # rest) = (if w = current then v else upgrade_from current (w # rest))"
| "upgrade_from current vs = ''initial''"

definition upgrade_iteration ::
    "(string \<Rightarrow> string option) \<Rightarrow> uploader \<Rightarrow> (string \<times> int) option \<Rightarrow> string list \<Rightarrow> string option
      \<Rightarrow> string option \<Rightarrow> jdict result" where
  "upgrade_iteration env u sgw_version upgrade_path phase node_index =
     (let fallback = (case env ''SGW_VERSION_UNDER_TEST'' of
                        Some v \<Rightarrow> if v \<noteq> [] then v else if upgrade_path \<noteq> [] then last upgrade_path else ''0.0.0''
                      | None \<Rightarrow> if upgrade_path \<noteq> [] then last upgrade_path else ''0.0.0'');
          (current, build) = (case sgw_version of
                                Some (v, b) \<Rightarrow> if v \<noteq> [] then (v, b) else (fallback, 0)
                              | None \<Rightarrow> (fallback, 0));
          failed = (gu_fail_count u > 0 \<or> gu_overall_fail u);
          fail_count = (if failed \<and> gu_fail_count u = 0 then 1 else gu_fail_count u)
      in rbind (case node_index of
                  None \<Rightarrow> Inr JNull
                | Some s \<Rightarrow> (case py_int s of Some n \<Rightarrow> Inr (JInt n) | None \<Rightarrow> Inl ValueError)) (\<lambda>node.
           Inr [(''phase'', JOptStr phase), (''nodeIndex'', node),
                (''upgradeFrom'', JStr (upgrade_from current upgrade_path)), (''upgradeTo'', JStr current),
                (''build'', JInt build), (''passCount'', JInt (gu_pass_count u)),
                (''failCount'', JInt fail_count), (''failed'', JBool failed)]))"

text \<open>
  The state file holds nothing (no file), something that cannot be read, or a value.  A value that
  is not an object has no \<open>setdefault\<close>, and iterations that are not a list have no \<open>append\<close>.
\<close>

datatype state_file = No_file | Unreadable | Holds json

definition add_iteration :: "string list \<Rightarrow> jdict \<Rightarrow> state_file \<Rightarrow> jdict result" where
  "add_iteration upgrade_path iteration f =
     rbind (case f of Holds (JObj d) \<Rightarrow> Inr d | Holds _ \<Rightarrow> Inl AttributeError | _ \<Rightarrow> Inr []) (\<lambda>state.
       let state = (if d_has state ''upgradePath'' then state else d_set state ''upgradePath'' (JStrs upgrade_path))
       in case (case map_of state ''iterations'' of None \<Rightarrow> JList [] | Some l \<Rightarrow> l) of
            JList l \<Rightarrow> Inr (d_set state ''iterations'' (JList (l @ [JObj iteration])))
          | _ \<Rightarrow> Inl AttributeError)"

text \<open>The file is the world here.\<close>

definition GreenboardUploader_record_upgrade_step ::
    "(string \<Rightarrow> string option) \<Rightarrow> uploader \<Rightarrow> (string \<times> int) option \<Rightarrow> string \<Rightarrow> string option
      \<Rightarrow> string option \<Rightarrow> (state_file, unit) io" where
  "GreenboardUploader_record_upgrade_step env u sgw_version versions phase node_index f =
     (let upgrade_path = upgrade_path_of versions
      in if \<not> gu_test_ran u \<and> \<not> gu_overall_fail u then (Inr (), f)
         else case rbind (upgrade_iteration env u sgw_version upgrade_path phase node_index)
                     (\<lambda>it. add_iteration upgrade_path it f) of
                Inl e \<Rightarrow> (Inl e, f)
              | Inr state \<Rightarrow> (Inr (), Holds (JObj state)))"

definition attr_dict :: "json \<Rightarrow> jdict result" where
  "attr_dict v = (case v of JObj d \<Rightarrow> Inr d | _ \<Rightarrow> Inl AttributeError)"

text \<open>The summary of the first failed iteration.\<close>

fun first_failure :: "json list \<Rightarrow> json result" where
  "first_failure [] = Inr JNull"
| "first_failure (i # is) =
     rbind (attr_dict i) (\<lambda>d.
       if truthy (get_or_null d ''failed'')
       then Inr (JObj [(''phase'', get_or_null d ''phase''), (''upgradeFrom'', get_or_null d ''upgradeFrom''),
                       (''upgradeTo'', get_or_null d ''upgradeTo''), (''nodeIndex'', get_or_null d ''nodeIndex'')])
       else first_failure is)"

definition get_default :: "jdict \<Rightarrow> string \<Rightarrow> json \<Rightarrow> json" where
  "get_default d k v = (case map_of d k of None \<Rightarrow> v | Some x \<Rightarrow> x)"

definition upgrade_document :: "(string \<Rightarrow> string option) \<Rightarrow> json list \<Rightarrow> json list \<Rightarrow> jdict result" where
  "upgrade_document env upgrade_path iterations =
     rbind (if upgrade_path \<noteq> [] then Inr (last upgrade_path)
            else rbind (attr_dict (last iterations)) (\<lambda>d. Inr (get_default d ''upgradeTo'' (JStr ''0.0.0'')))) (\<lambda>target_version.
     rbind (first_failure iterations) (\<lambda>failed_at.
     rbind (if failed_at = JNull
            then rbind (attr_dict (last iterations)) (\<lambda>d. Inr (get_default d ''build'' (JInt 0)))
            else Inr (JInt 0)) (\<lambda>target_build.
       Inr [(''build'', target_build), (''version'', target_version), (''upgradePath'', JList upgrade_path),
            (''iterations'', JList iterations),
            (''passCount'', JInt (if failed_at = JNull then 1 else 0)),
            (''failCount'', JInt (if failed_at = JNull then 0 else 1)), (''failedAt'', failed_at),
            (''platform'', JStr ''sgw-upgrade''), (''jobUrl'', JStr (resolve_job_url env))])))"

text \<open>The last log line joins the path, which raises for an element that is not a string.\<close>

definition join_path :: "json list \<Rightarrow> unit result" where
  "join_path path = (if list_all (\<lambda>v. isinstance v T_str) path then Inr () else Inl TypeError)"

definition GreenboardUploader_upload_upgrade_batch ::
    "(string \<Rightarrow> string option) \<Rightarrow> (jdict \<Rightarrow> ('w, unit) io) \<Rightarrow> state_file \<Rightarrow> ('w, unit) io" where
  "GreenboardUploader_upload_upgrade_batch env upsert f =
     (case f of
        No_file \<Rightarrow> io_return ()
      | Unreadable \<Rightarrow> io_return ()
      | Holds v \<Rightarrow> io_bind (io_lift (attr_dict v)) (\<lambda>state.
          let iterations = get_default state ''iterations'' (JList [])
          in if \<not> truthy iterations then io_return ()
             else io_bind (io_lift (list_of iterations)) (\<lambda>is.
                  io_bind (io_lift (list_of (get_default state ''upgradePath'' (JList [])))) (\<lambda>path.
                  io_bind (io_lift (upgrade_document env path is)) (\<lambda>doc.
                  io_bind (upsert doc) (\<lambda>_. io_lift (join_path path)))))))"

section \<open>The counts after any sequence of reports\<close>

abbreviation crash_report :: "test_report \<Rightarrow> bool" where
  "crash_report r \<equiv> tr_when r \<noteq> ''call'' \<and> tr_outcome r = Failed"

abbreviation call_report :: "test_report \<Rightarrow> bool" where
  "call_report r \<equiv> tr_when r = ''call''"

definition reported :: "string \<Rightarrow> test_report list \<Rightarrow> uploader" where
  "reported url rs = fold GreenboardUploader_makereport rs (GreenboardUploader_create url)"

definition before_crash :: "test_report list \<Rightarrow> test_report list" where
  "before_crash rs = takeWhile (\<lambda>r. \<not> crash_report r) rs"

text \<open>Passed or failed calls are counted until the first failure outside a call; nothing is counted after it.\<close>

definition counts :: "outcome \<Rightarrow> test_report list \<Rightarrow> int" where
  "counts res rs = int (length (filter (\<lambda>r. call_report r \<and> tr_outcome r = res) rs))"

lemma counts_simps [greenboard_simps]:
  "counts res [] = 0"
  "counts res (r # rs) = (if call_report r \<and> tr_outcome r = res then 1 else 0) + counts res rs"
  by (simp_all add: counts_def)

lemma makereport_after_crash [greenboard_simps]:
  assumes "gu_overall_fail u"
  shows "GreenboardUploader_makereport r u = (if call_report r then u\<lparr>gu_test_ran := True\<rparr> else u)"
  using assms by (cases r) (auto simp: GreenboardUploader_makereport_def Let_def)

lemma reports_after_crash:
  assumes "gu_overall_fail u"
  shows "fold GreenboardUploader_makereport rs u
    = u\<lparr>gu_test_ran := gu_test_ran u \<or> (\<exists>r \<in> set rs. call_report r)\<rparr>"
  using assms by (induction rs arbitrary: u) (auto simp: greenboard_simps)

lemma reports_from:
  assumes "\<not> gu_overall_fail u" "fold GreenboardUploader_makereport rs u = v"
  shows "gu_overall_fail v \<longleftrightarrow> (\<exists>r \<in> set rs. crash_report r)"
    "gu_pass_count v = gu_pass_count u + counts Passed (before_crash rs)"
    "gu_fail_count v = gu_fail_count u + counts Failed (before_crash rs)"
    "gu_test_ran v \<longleftrightarrow> gu_test_ran u \<or> (\<exists>r \<in> set rs. call_report r)"
    "gu_has_sgw_marker v \<longleftrightarrow> gu_has_sgw_marker u \<or> (\<exists>r \<in> set (before_crash rs). call_report r \<and> tr_sgw_marker r)"
  using assms
proof (atomize (full), induction rs arbitrary: u)
  case Nil
  then show ?case by (simp add: before_crash_def greenboard_simps)
next
  case (Cons r rs)
  show ?case
  proof (cases "crash_report r")
    case True
    then have "GreenboardUploader_makereport r u = u\<lparr>gu_overall_fail := True\<rparr>"
      by (simp add: GreenboardUploader_makereport_def)
    then show ?thesis
      using Cons.prems True by (auto simp: reports_after_crash before_crash_def greenboard_simps)
  next
    case False
    let ?u = "GreenboardUploader_makereport r u"
    have "\<not> gu_overall_fail ?u"
      using False Cons.prems by (auto simp: GreenboardUploader_makereport_def Let_def split: outcome.splits)
    moreover have "gu_pass_count ?u = gu_pass_count u + counts Passed [r]"
      "gu_fail_count ?u = gu_fail_count u + counts Failed [r]"
      "gu_test_ran ?u = (gu_test_ran u \<or> call_report r)"
      "gu_has_sgw_marker ?u = (gu_has_sgw_marker u \<or> call_report r \<and> tr_sgw_marker r)"
      using False Cons.prems
      by (auto simp: GreenboardUploader_makereport_def Let_def greenboard_simps split: outcome.splits)
    ultimately show ?thesis
      using Cons.IH [of ?u] Cons.prems False by (auto simp: before_crash_def greenboard_simps)
  qed
qed

lemma created_uploader [greenboard_simps]:
  "gu_fail_count (GreenboardUploader_create url) = 0" "gu_pass_count (GreenboardUploader_create url) = 0"
  "\<not> gu_overall_fail (GreenboardUploader_create url)" "\<not> gu_test_ran (GreenboardUploader_create url)"
  "\<not> gu_has_sgw_marker (GreenboardUploader_create url)"
  by (simp_all add: GreenboardUploader_create_def)

lemma reported_state [greenboard_simps]:
  "gu_overall_fail (reported url rs) \<longleftrightarrow> (\<exists>r \<in> set rs. crash_report r)"
  "gu_pass_count (reported url rs) = counts Passed (before_crash rs)"
  "gu_fail_count (reported url rs) = counts Failed (before_crash rs)"
  "gu_test_ran (reported url rs) \<longleftrightarrow> (\<exists>r \<in> set rs. call_report r)"
  "gu_has_sgw_marker (reported url rs) \<longleftrightarrow> (\<exists>r \<in> set (before_crash rs). call_report r \<and> tr_sgw_marker r)"
  using reports_from [OF _ refl, of "GreenboardUploader_create url" rs]
  by (simp_all add: reported_def greenboard_simps)

lemma before_crash_all: "\<not> (\<exists>r \<in> set rs. crash_report r) \<Longrightarrow> before_crash rs = rs"
  by (auto simp: before_crash_def takeWhile_eq_all_conv)


section \<open>The record of an upgrade\<close>

text \<open>A step of an upgrade is a session of its own, with its uploader, phase and node.\<close>

record upgrade_step =
  us_uploader :: uploader
  us_version :: "(string \<times> int) option"
  us_phase :: "string option"
  us_node :: "string option"

fun record_steps ::
    "(string \<Rightarrow> string option) \<Rightarrow> string \<Rightarrow> upgrade_step list \<Rightarrow> (state_file, unit) io" where
  "record_steps env versions [] = io_return ()"
| "record_steps env versions (s # ss) =
     io_bind (GreenboardUploader_record_upgrade_step env (us_uploader s) (us_version s) versions (us_phase s) (us_node s))
       (\<lambda>_. record_steps env versions ss)"

definition attempted :: "upgrade_step \<Rightarrow> bool" where
  "attempted s = (gu_test_ran (us_uploader s) \<or> gu_overall_fail (us_uploader s))"

definition step_failed :: "upgrade_step \<Rightarrow> bool" where
  "step_failed s = (gu_fail_count (us_uploader s) > 0 \<or> gu_overall_fail (us_uploader s))"

definition node_ok :: "upgrade_step \<Rightarrow> bool" where
  "node_ok s = (case us_node s of None \<Rightarrow> True | Some n \<Rightarrow> py_int n \<noteq> None)"

definition iteration_of :: "(string \<Rightarrow> string option) \<Rightarrow> string \<Rightarrow> upgrade_step \<Rightarrow> jdict" where
  "iteration_of env versions s =
     (case upgrade_iteration env (us_uploader s) (us_version s) (upgrade_path_of versions) (us_phase s) (us_node s) of
        Inr d \<Rightarrow> d | Inl _ \<Rightarrow> [])"

lemma node_index_ok:
  assumes "node_ok s"
  shows "\<exists>node. (case us_node s of None \<Rightarrow> Inr JNull
    | Some n \<Rightarrow> (case py_int n of Some i \<Rightarrow> Inr (JInt i) | None \<Rightarrow> Inl ValueError)) = (Inr node :: json result)"
  using assms by (auto simp: node_ok_def split: option.splits)

lemma iteration_of_ok:
  assumes "node_ok s"
  shows "upgrade_iteration env (us_uploader s) (us_version s) (upgrade_path_of versions) (us_phase s) (us_node s)
      = Inr (iteration_of env versions s)"
    "map_of (iteration_of env versions s) ''failed'' = Some (JBool (step_failed s))"
    "map_of (iteration_of env versions s) ''phase'' = Some (JOptStr (us_phase s))"
proof -
  obtain node where node: "(case us_node s of None \<Rightarrow> Inr JNull
    | Some n \<Rightarrow> (case py_int n of Some i \<Rightarrow> Inr (JInt i) | None \<Rightarrow> Inl ValueError)) = (Inr node :: json result)"
    using node_index_ok [OF assms] by blast
  obtain vfrom vto build npass nfail where it:
    "upgrade_iteration env (us_uploader s) (us_version s) (upgrade_path_of versions) (us_phase s) (us_node s)
      = Inr [(''phase'', JOptStr (us_phase s)), (''nodeIndex'', node), (''upgradeFrom'', vfrom), (''upgradeTo'', vto),
             (''build'', build), (''passCount'', npass), (''failCount'', nfail), (''failed'', JBool (step_failed s))]"
    unfolding upgrade_iteration_def node Let_def step_failed_def case_prod_beta rbind_Inr by blast
  then show "upgrade_iteration env (us_uploader s) (us_version s) (upgrade_path_of versions) (us_phase s) (us_node s)
      = Inr (iteration_of env versions s)"
    "map_of (iteration_of env versions s) ''failed'' = Some (JBool (step_failed s))"
    "map_of (iteration_of env versions s) ''phase'' = Some (JOptStr (us_phase s))"
    by (simp_all add: iteration_of_def)
qed

text \<open>The state file after some recorded steps.\<close>

definition recorded :: "string \<Rightarrow> jdict list \<Rightarrow> state_file" where
  "recorded versions its =
     (if its = [] then No_file
      else Holds (JObj [(''upgradePath'', JStrs (upgrade_path_of versions)), (''iterations'', JList (map JObj its))]))"

lemma add_recorded:
  "add_iteration (upgrade_path_of versions) it (recorded versions its)
    = Inr [(''upgradePath'', JStrs (upgrade_path_of versions)), (''iterations'', JList (map JObj (its @ [it])))]"
  by (simp add: add_iteration_def recorded_def d_has_def)

lemma record_step_run:
  assumes "node_ok s"
  shows "GreenboardUploader_record_upgrade_step env (us_uploader s) (us_version s) versions (us_phase s) (us_node s)
      (recorded versions its)
    = (Inr (), recorded versions (its @ (if attempted s then [iteration_of env versions s] else [])))"
  using iteration_of_ok(1) [OF assms, of env versions]
  by (simp add: GreenboardUploader_record_upgrade_step_def attempted_def add_recorded Let_def)
    (simp add: recorded_def)

lemma record_steps_run:
  assumes "\<forall>s \<in> set steps. node_ok s"
  shows "record_steps env versions steps (recorded versions its)
    = (Inr (), recorded versions (its @ map (iteration_of env versions) (filter attempted steps)))"
  using assms by (induction steps arbitrary: its) (simp_all add: record_step_run io_bind_Inr)

lemma first_failure_recorded:
  assumes "\<forall>s \<in> set steps. node_ok s"
  shows "\<exists>v. first_failure (map (JObj \<circ> iteration_of env versions) steps) = Inr v
    \<and> (v = JNull \<longleftrightarrow> \<not> (\<exists>s \<in> set steps. step_failed s))
    \<and> (\<forall>s. find step_failed steps = Some s \<longrightarrow>
        (\<exists>d. v = JObj d \<and> map_of d ''phase'' = Some (JOptStr (us_phase s))))"
  using assms
proof (induction steps)
  case Nil
  then show ?case by simp
next
  case (Cons s ss)
  then show ?case
    by (auto simp: attr_dict_def get_or_null_def iteration_of_ok truthy_def)
qed

lemma upload_recorded:
  assumes "its \<noteq> []" "upgrade_path_of versions \<noteq> []" "first_failure (map JObj its) = Inr v"
  shows "\<exists>doc. GreenboardUploader_upload_upgrade_batch env put (recorded versions its) = put doc
    \<and> map_of doc ''version'' = Some (JStr (last (upgrade_path_of versions)))
    \<and> map_of doc ''iterations'' = Some (JList (map JObj its))
    \<and> map_of doc ''passCount'' = Some (JInt (if v = JNull then 1 else 0))
    \<and> map_of doc ''failCount'' = Some (JInt (if v = JNull then 0 else 1))
    \<and> map_of doc ''failedAt'' = Some v"
proof -
  have path: "join_path (map JStr (upgrade_path_of versions)) = Inr ()"
    by (simp add: join_path_def list_all_iff)
  obtain doc where doc: "upgrade_document env (map JStr (upgrade_path_of versions)) (map JObj its) = Inr doc"
    "map_of doc ''version'' = Some (JStr (last (upgrade_path_of versions)))"
    "map_of doc ''iterations'' = Some (JList (map JObj its))"
    "map_of doc ''passCount'' = Some (JInt (if v = JNull then 1 else 0))"
    "map_of doc ''failCount'' = Some (JInt (if v = JNull then 0 else 1))"
    "map_of doc ''failedAt'' = Some v"
    using assms by (cases "v = JNull") (simp_all add: upgrade_document_def last_map attr_dict_def)
  have "GreenboardUploader_upload_upgrade_batch env put (recorded versions its) = put doc"
    using assms(1) doc(1) path
    by (simp add: GreenboardUploader_upload_upgrade_batch_def recorded_def attr_dict_def get_default_def truthy_def
        list_of_def JStrs_def io_laws)
  with doc show ?thesis by blast
qed

text \<open>
  What an upgrade run uploads: after its steps have been recorded in the state file, nothing if no
  step attempted a test; otherwise one document for the last version of the path with one iteration
  for each step that attempted tests, in order, counted as one failed test if some step failed and
  as one passed test otherwise, and naming the phase of the first step that failed.
\<close>

theorem upgrade_batch_summary:
  assumes "\<forall>s \<in> set steps. node_ok s" "upgrade_path_of versions \<noteq> []"
  shows "\<exists>f. record_steps env versions steps No_file = (Inr (), f)
    \<and> (if filter attempted steps = [] then GreenboardUploader_upload_upgrade_batch env put f = io_return ()
       else \<exists>doc. GreenboardUploader_upload_upgrade_batch env put f = put doc
         \<and> map_of doc ''version'' = Some (JStr (last (upgrade_path_of versions)))
         \<and> map_of doc ''iterations'' = Some (JList (map (JObj \<circ> iteration_of env versions) (filter attempted steps)))
         \<and> (case find step_failed (filter attempted steps) of
               None \<Rightarrow> map_of doc ''passCount'' = Some (JInt 1) \<and> map_of doc ''failCount'' = Some (JInt 0)
                 \<and> map_of doc ''failedAt'' = Some JNull
             | Some s \<Rightarrow> map_of doc ''passCount'' = Some (JInt 0) \<and> map_of doc ''failCount'' = Some (JInt 1)
                 \<and> (\<exists>d. map_of doc ''failedAt'' = Some (JObj d) \<and> map_of d ''phase'' = Some (JOptStr (us_phase s)))))"
proof -
  let ?ran = "filter attempted steps" and ?its = "map (iteration_of env versions) (filter attempted steps)"
  have run: "record_steps env versions steps No_file = (Inr (), recorded versions ?its)"
    using record_steps_run [OF assms(1), of env versions "[]"] by (simp add: recorded_def)
  show ?thesis
  proof (cases "?ran = []")
    case True
    then show ?thesis
      using run by (simp add: recorded_def GreenboardUploader_upload_upgrade_batch_def)
  next
    case False
    have ok: "\<forall>s \<in> set ?ran. node_ok s" using assms(1) by simp
    obtain v where v: "first_failure (map (JObj \<circ> iteration_of env versions) ?ran) = Inr v"
      "v = JNull \<longleftrightarrow> \<not> (\<exists>s \<in> set ?ran. step_failed s)"
      "\<forall>s. find step_failed ?ran = Some s \<longrightarrow> (\<exists>d. v = JObj d \<and> map_of d ''phase'' = Some (JOptStr (us_phase s)))"
      using first_failure_recorded [OF ok, of env versions] by (elim exE conjE)
    have "find step_failed ?ran = None \<longleftrightarrow> v = JNull"
      using v(2) by (simp add: find_None_iff)
    moreover obtain doc where doc:
      "GreenboardUploader_upload_upgrade_batch env put (recorded versions ?its) = put doc"
      "map_of doc ''version'' = Some (JStr (last (upgrade_path_of versions)))"
      "map_of doc ''iterations'' = Some (JList (map JObj ?its))"
      "map_of doc ''passCount'' = Some (JInt (if v = JNull then 1 else 0))"
      "map_of doc ''failCount'' = Some (JInt (if v = JNull then 0 else 1))"
      "map_of doc ''failedAt'' = Some v"
      using upload_recorded [of ?its versions v env put] False assms(2) v(1) by auto
    ultimately have "case find step_failed ?ran of
        None \<Rightarrow> map_of doc ''passCount'' = Some (JInt 1) \<and> map_of doc ''failCount'' = Some (JInt 0)
          \<and> map_of doc ''failedAt'' = Some JNull
      | Some s \<Rightarrow> map_of doc ''passCount'' = Some (JInt 0) \<and> map_of doc ''failCount'' = Some (JInt 1)
          \<and> (\<exists>d. map_of doc ''failedAt'' = Some (JObj d) \<and> map_of d ''phase'' = Some (JOptStr (us_phase s)))"
      using v(3) by (cases "find step_failed ?ran") auto
    moreover have "map JObj ?its = map (JObj \<circ> iteration_of env versions) ?ran" by simp
    ultimately show ?thesis
      using run doc(1-3) False by (simp only: if_False) (intro exI conjI, rule refl, assumption+)
  qed
qed

definition failed_upgrade :: "upgrade_step list" where
  "failed_upgrade =
     [\<lparr> us_uploader = reported ''host'' [\<lparr> tr_when = ''call'', tr_outcome = Failed, tr_sgw_marker = False \<rparr>],
        us_version = None, us_phase = Some ''initial'', us_node = Some ''0'' \<rparr>]"

lemma failed_upgrade_steps:
  "list_all node_ok failed_upgrade" "upgrade_path_of ''3.2.0, 3.3.0'' = [''3.2.0'', ''3.3.0'']"
  "filter attempted failed_upgrade = failed_upgrade"
  "map_option us_phase (find step_failed failed_upgrade) = Some (Some ''initial'')"
  by code_simp+

theorem upgrade_batch_summary_witness:
  "\<exists>f doc. record_steps (\<lambda>_. None) ''3.2.0, 3.3.0'' failed_upgrade No_file = (Inr (), f)
     \<and> GreenboardUploader_upload_upgrade_batch (\<lambda>_. None) (\<lambda>d w. (Inr (), w @ [d])) f [] = (Inr (), [doc])
     \<and> map_of doc ''version'' = Some (JStr ''3.3.0'') \<and> map_of doc ''failCount'' = Some (JInt 1)"
proof -
  have "failed_upgrade \<noteq> []" by (simp add: failed_upgrade_def)
  moreover obtain s where "find step_failed failed_upgrade = Some s"
    using failed_upgrade_steps(4) by auto
  ultimately show ?thesis
    using upgrade_batch_summary [of failed_upgrade "''3.2.0, 3.3.0''" "\<lambda>_. None" "\<lambda>d w. (Inr (), w @ [d])"]
      failed_upgrade_steps(1-3)
    by (auto simp: list_all_iff)
qed

section \<open>The session fixture\<close>

text \<open>
  The fixture of \<open>plugins/greenboard_fixture.py\<close>: what it reads of the configuration and of the
  command line, the numbers of servers, and whether \<open>--junitxml\<close> is set.  \<open>get_info\<close> gives the
  library version, platform and device of the first test server, \<open>get_version\<close> the version of the
  first Sync Gateway; \<open>on_file\<close> runs an operation on the state file.
\<close>

record gb_session =
  gs_url :: "string option"
  gs_credentials :: bool
  gs_no_upload :: bool
  gs_test_servers :: nat
  gs_sync_gateways :: nat
  gs_upgrade_versions :: "string option"
  gs_branch :: "string option"
  gs_xmlpath :: bool

record server_info =
  si_library_version :: string
  si_cbl :: string
  si_device :: jdict

definition upgrade_job :: "gb_session \<Rightarrow> string option" where
  "upgrade_job s = (case gs_upgrade_versions s of Some v \<Rightarrow> if v \<noteq> [] then Some v else None | None \<Rightarrow> None)"

definition greenboard_enabled :: "(string \<Rightarrow> string option) \<Rightarrow> gb_session \<Rightarrow> bool" where
  "greenboard_enabled env s =
     (gs_credentials s \<and> gs_url s \<noteq> None \<and> \<not> gs_no_upload s
      \<and> \<not> (gs_test_servers s = 0 \<and> gs_sync_gateways s = 0)
      \<and> (upgrade_job s \<noteq> None \<or> resolve_branch env (gs_branch s) = Some ''main''))"

text \<open>A version that cannot be read is logged and counts as none.\<close>

definition version_or_none :: "gb_session \<Rightarrow> ('w, string \<times> int) io \<Rightarrow> ('w, (string \<times> int) option) io" where
  "version_or_none s get_version =
     (if gs_sync_gateways s > 0
      then io_try (io_bind get_version (\<lambda>v. io_return (Some v))) (\<lambda>_. io_return None)
      else io_return None)"

text \<open>Platform, operating system and library version; the system name is whatever the device says.\<close>

definition session_platform ::
    "gb_session \<Rightarrow> uploader \<Rightarrow> ('w, server_info) io \<Rightarrow> ('w, string \<times> json \<times> string) io" where
  "session_platform s u get_info =
     (if gs_test_servers s > 0
      then io_bind get_info (\<lambda>i. io_return
             (if gu_has_sgw_marker u then ''sync-gateway'' else si_cbl i,
              case map_of (si_device i) ''systemName'' of Some v \<Rightarrow> v | None \<Rightarrow> JStr ''n/a'',
              si_library_version i))
      else io_return (''sync-gateway'', JStr ''n/a'', ''n/a''))"

definition greenboard_finish ::
    "(string \<Rightarrow> string option) \<Rightarrow> ((state_file, unit) io \<Rightarrow> ('w, unit) io) \<Rightarrow> (jdict \<Rightarrow> ('w, unit) io)
      \<Rightarrow> junit_suite list result option \<Rightarrow> ('w, server_info) io \<Rightarrow> ('w, string \<times> int) io
      \<Rightarrow> gb_session \<Rightarrow> uploader \<Rightarrow> ('w, unit) io" where
  "greenboard_finish env on_file upsert junit get_info get_version s u =
     (case upgrade_job s of
        Some versions \<Rightarrow>
          io_bind (version_or_none s get_version) (\<lambda>v.
            on_file (GreenboardUploader_record_upgrade_step env u v versions
              (env ''SGW_UPGRADE_PHASE'') (env ''SGW_UPGRADED_NODE_INDEX'')))
      | None \<Rightarrow>
          io_bind (session_platform s u get_info) (\<lambda>(platform, os, library).
          io_bind (version_or_none s get_version) (\<lambda>v.
            if gs_xmlpath s
            then GreenboardUploader_upload_from_junit_file env upsert u junit platform os library v
            else GreenboardUploader_upload env upsert u platform os library v None None)))"

text \<open>The whole session: the reports of the tests come between the two halves of the fixture.\<close>

definition greenboard ::
    "(string \<Rightarrow> string option) \<Rightarrow> ((state_file, unit) io \<Rightarrow> ('w, unit) io) \<Rightarrow> (jdict \<Rightarrow> ('w, unit) io)
      \<Rightarrow> junit_suite list result option \<Rightarrow> ('w, server_info) io \<Rightarrow> ('w, string \<times> int) io
      \<Rightarrow> gb_session \<Rightarrow> test_report list \<Rightarrow> ('w, unit) io" where
  "greenboard env on_file upsert junit get_info get_version s reports =
     (if greenboard_enabled env s
      then greenboard_finish env on_file upsert junit get_info get_version s
             (reported (the (gs_url s)) reports)
      else io_return ())"

lemma upload_docs:
  "\<exists>r docs. GreenboardUploader_upload env (\<lambda>d w. (Inr (), w @ [d])) u platform os_name version sgw p f [] = (r, docs)
    \<and> (docs = [] \<or> (\<exists>d. docs = [d] \<and> \<not> gu_overall_fail u \<and> map_of d ''platform'' = Some (JStr platform)))"
  by (auto simp: GreenboardUploader_upload_def RunResult_dump_def run_result_of_def split: prod.splits json.splits)

lemma junit_upload_docs:
  "\<exists>r docs. GreenboardUploader_upload_from_junit_file env (\<lambda>d w. (Inr (), w @ [d])) u junit platform os_name version sgw []
      = (r, docs)
    \<and> (docs = [] \<or> (\<exists>d. docs = [d] \<and> \<not> gu_overall_fail u \<and> map_of d ''platform'' = Some (JStr platform)))"
proof (cases junit)
  case None
  then show ?thesis using upload_docs by (simp add: GreenboardUploader_upload_from_junit_file_def)
next
  case (Some r)
  then show ?thesis
    by (cases r) (simp_all add: GreenboardUploader_upload_from_junit_file_def io_bind_def upload_docs Let_def split: prod.splits)
qed

text \<open>
  A session that is not an upgrade writes at most one document to Greenboard, and only when the
  tests were run from the branch \<open>main\<close>, uploading was not switched off and no test crashed outside
  its call; the document is filed under Sync Gateway when there is no test server or a test with a
  Sync Gateway marker was called before any crash.
\<close>

theorem session_uploads_main_only:
  assumes "upgrade_job s = None"
    and "\<forall>w. snd (get_info w) = w" "\<forall>w. snd (get_version w) = w"
    and "greenboard env on_file (\<lambda>d w. (Inr (), w @ [d])) junit get_info get_version s rs [] = (res, docs)"
    and "docs \<noteq> []"
  shows "\<exists>d. docs = [d] \<and> resolve_branch env (gs_branch s) = Some ''main'' \<and> \<not> gs_no_upload s
    \<and> \<not> (\<exists>r \<in> set rs. crash_report r)
    \<and> (gs_test_servers s = 0 \<or> (\<exists>r \<in> set rs. call_report r \<and> tr_sgw_marker r)
        \<longrightarrow> map_of d ''platform'' = Some (JStr ''sync-gateway''))"
proof -
  let ?u = "reported (the (gs_url s)) rs" and ?put = "\<lambda>d w. (Inr (), w @ [d])"
  have enabled: "greenboard_enabled env s"
    using assms(4,5) by (auto simp: greenboard_def split: if_splits)
  have version: "\<exists>v. version_or_none s get_version [] = (Inr v, [])"
    using assms(3) [rule_format, of "[]"]
    by (cases "get_version []") (auto simp: version_or_none_def io_try_def io_bind_def split: sum.splits)
  then obtain v where v: "version_or_none s get_version [] = (Inr v, [])" by blast
  have "snd (session_platform s ?u get_info []) = []"
    using assms(2) [rule_format, of "[]"]
    by (cases "get_info []") (simp add: session_platform_def io_bind_def split: sum.splits)
  then obtain r where r: "session_platform s ?u get_info [] = (r, [])" by (metis prod.collapse)
  obtain platform os library where plat: "r = Inr (platform, os, library)"
    using assms(1,4,5) enabled r
    by (cases r) (auto simp: greenboard_def greenboard_finish_def io_bind_def)
  have run: "greenboard env on_file ?put junit get_info get_version s rs [] =
      (if gs_xmlpath s then GreenboardUploader_upload_from_junit_file env ?put ?u junit platform os library v []
       else GreenboardUploader_upload env ?put ?u platform os library v None None [])"
    using assms(1) enabled r v plat by (simp add: greenboard_def greenboard_finish_def io_bind_def)
  obtain d where d: "docs = [d]" "\<not> gu_overall_fail ?u" "map_of d ''platform'' = Some (JStr platform)"
    using assms(4,5) run upload_docs [of env ?u platform os library v None None]
      junit_upload_docs [of env ?u junit platform os library v]
    by (auto split: if_splits)
  have crash: "\<not> (\<exists>r \<in> set rs. crash_report r)" using d(2) by (simp add: greenboard_simps)
  have "platform = ''sync-gateway''" if "gs_test_servers s = 0 \<or> (\<exists>r \<in> set rs. call_report r \<and> tr_sgw_marker r)"
  proof (cases "gs_test_servers s = 0")
    case True
    then show ?thesis using r plat by (simp add: session_platform_def)
  next
    case False
    then have "gu_has_sgw_marker ?u" using that crash by (simp add: greenboard_simps before_crash_all)
    then show ?thesis
      using False r plat by (cases "get_info []") (auto simp: session_platform_def io_bind_def split: sum.splits)
  qed
  with d crash enabled assms(1) show ?thesis by (auto simp: greenboard_enabled_def)
qed

definition main_session :: gb_session where
  "main_session = \<lparr> gs_url = Some ''gb'', gs_credentials = True, gs_no_upload = False, gs_test_servers = 0,
     gs_sync_gateways = 1, gs_upgrade_versions = None, gs_branch = None, gs_xmlpath = False \<rparr>"

theorem session_uploads_main_only_witness:
  "\<exists>d. snd (greenboard (\<lambda>k. if k = ''GIT_BRANCH'' then Some ''origin/main'' else None) (\<lambda>f w. (Inr (), w))
        (\<lambda>d w. (Inr (), w @ [d])) None (\<lambda>w. (Inl ValueError, w)) (\<lambda>w. (Inr (''4.0.0'', 7), w)) main_session
        [\<lparr> tr_when = ''call'', tr_outcome = Passed, tr_sgw_marker = True \<rparr>] []) = [d]
     \<and> map_of d ''platform'' = Some (JStr ''sync-gateway'')"
proof -
  let ?run = "greenboard (\<lambda>k. if k = ''GIT_BRANCH'' then Some ''origin/main'' else None) (\<lambda>f w. (Inr (), w))
    (\<lambda>d w. (Inr (), w @ [d])) None (\<lambda>w. (Inl ValueError, w)) (\<lambda>w. (Inr (''4.0.0'', 7), w)) main_session
    [\<lparr> tr_when = ''call'', tr_outcome = Passed, tr_sgw_marker = True \<rparr>] []"
  have "length (snd ?run) = 1" by code_simp
  then have "snd ?run \<noteq> []" by auto
  moreover note session_uploads_main_only [of main_session "\<lambda>w. (Inl ValueError, w)" "\<lambda>w. (Inr (''4.0.0'', 7), w)"
      "\<lambda>k. if k = ''GIT_BRANCH'' then Some ''origin/main'' else None" "\<lambda>f w. (Inr (), w)" None
      "[\<lparr> tr_when = ''call'', tr_outcome = Passed, tr_sgw_marker = True \<rparr>]" "fst ?run" "snd ?run"]
  moreover have "upgrade_job main_session = None" "gs_test_servers main_session = 0"
    by (simp_all add: main_session_def upgrade_job_def)
  ultimately show ?thesis by auto
qed

end
