(* ===== verification/PyAst.thy ===== *)
theory PyAst
  imports Prelude "HOL-Library.Multiset"
begin

text \<open>
  The part of Python's syntax trees that \<open>scripts/check_topology_markers.py\<close> looks at, and
  \<open>ast.iter_child_nodes\<close> and \<open>ast.walk\<close> over it.  Nodes that the script does not name are \<open>Other\<close>
  with their children; nodes without fields (contexts, operators) have no influence and are left
  out.  Attributes and functions, the two kinds of node whose \<open>id\<close> the script takes, carry it.
\<close>

text \<open>
  \<open>Arguments\<close> has its fields in the order of the library: positional only, positional, the starred
  one, keyword only, their defaults, the double starred one, defaults.  \<open>FunctionDef\<close> (also an async
  one) has identity, name, arguments, body, decorators, what comes after (return annotation and type
  parameters) and line; \<open>ClassDef\<close> has name, bases and keywords, body, decorators, type parameters;
  \<open>ImportFrom\<close> has module, names with their aliases, level.
\<close>

datatype node =
    Name string
  | Attribute nat node string
  | Subscript node node
  | Call node "node list" "node list"
  | Keyword "string option" node
  | Int_const int
  | Bool_const bool
  | Other_const
  | USub node
  | Assign "node list" node
  | AnnAssign node node "node option"
  | Arg string "node option"
  | Arguments "node list" "node list" "node option" "node list" "node list" "node option" "node list"
  | FunctionDef nat string node "node list" "node list" "node list" nat
  | ClassDef string "node list" "node list" "node list" "node list"
  | ImportFrom "string option" "(string \<times> string option) list" nat
  | Other "node list"

definition opt_list :: "'a option \<Rightarrow> 'a list" where
  "opt_list x = (case x of None \<Rightarrow> [] | Some y \<Rightarrow> [y])"

text \<open>\<open>ast.iter_child_nodes\<close>: the fields in order.\<close>

fun children :: "node \<Rightarrow> node list" where
  "children (Attribute i v a) = [v]"
| "children (Subscript v s) = [v, s]"
| "children (Call f args kws) = f # args @ kws"
| "children (Keyword k v) = [v]"
| "children (USub v) = [v]"
| "children (Assign ts v) = ts @ [v]"
| "children (AnnAssign t a v) = [t, a] @ opt_list v"
| "children (Arg x a) = opt_list a"
| "children (Arguments po ps va ko kd kw ds) = po @ ps @ opt_list va @ ko @ kd @ opt_list kw @ ds"
| "children (FunctionDef i f args body decs rest line) = args # body @ decs @ rest"
| "children (ClassDef c bases body decs rest) = bases @ body @ decs @ rest"
| "children (Other ns) = ns"
| "children n = []"

lemma size_mem: "m \<in> set ns \<Longrightarrow> size m < size_list size (ns :: node list)"
  by (induction ns) auto

lemma size_mem_opt: "m \<in> set (opt_list x) \<Longrightarrow> size m < size_option (size :: node \<Rightarrow> nat) x"
  by (cases x) (simp_all add: opt_list_def)

lemma size_child: "m \<in> set (children n) \<Longrightarrow> size m < size n"
  by (cases n) (auto dest!: size_mem size_mem_opt)

text \<open>A recursion over the children with \<open>mapM\<close> is a recursion on smaller nodes.\<close>

lemma mapM_cong [fundef_cong]:
  "xs = ys \<Longrightarrow> (\<And>x. x \<in> set ys \<Longrightarrow> f x = g x) \<Longrightarrow> mapM f xs = mapM g ys"
  by (induction xs arbitrary: ys) auto

text \<open>
  \<open>ast.walk\<close>: breadth first, with a queue.  It ends because a node is replaced in the queue by
  smaller ones, however many.
\<close>

function walk_from :: "node list \<Rightarrow> node list" where
  "walk_from [] = []"
| "walk_from (n # todo) = n # walk_from (todo @ children n)"
  by pat_completeness auto

termination
  proof (relation "inv_image (mult less_than) (\<lambda>todo. mset (map size todo))")
  show "wf (inv_image (mult less_than) (\<lambda>todo :: node list. mset (map size todo)))"
    by (intro wf_inv_image wf_mult wf_less_than)
next
  fix n :: node and todo :: "node list"
  have "(mset (map size todo) + mset (map size (children n)), mset (map size todo) + {#size n#}) \<in> mult less_than"
    by (rule one_step_implies_mult) (auto simp: size_child)
  then show "(todo @ children n, n # todo) \<in> inv_image (mult less_than) (\<lambda>todo. mset (map size todo))"
    by simp
qed

definition walk :: "node \<Rightarrow> node list" where
  "walk n = walk_from [n]"

lemma walk_from_sub: "set todo \<subseteq> set (walk_from todo)"
  by (induction todo rule: walk_from.induct) auto

lemma walk_from_closed: "n \<in> set (walk_from todo) \<Longrightarrow> set (children n) \<subseteq> set (walk_from todo)"
proof (induction todo rule: walk_from.induct)
  case 1
  then show ?case by simp
next
  case (2 m todo)
  then show ?case using walk_from_sub [of "todo @ children m"] by auto
qed

lemma walk_root: "n \<in> set (walk n)"
  using walk_from_sub [of "[n]"] by (simp add: walk_def)

lemma walk_child: "m \<in> set (walk n) \<Longrightarrow> c \<in> set (children m) \<Longrightarrow> c \<in> set (walk n)"
  using walk_from_closed [of m "[n]"] by (auto simp: walk_def)

text \<open>The walk visits the nodes below its start and nothing else.\<close>

inductive below :: "node \<Rightarrow> node \<Rightarrow> bool" where
  self: "below n n"
| child: "below n m \<Longrightarrow> c \<in> set (children m) \<Longrightarrow> below n c"

lemma below_chain: "below m k \<Longrightarrow> below n m \<Longrightarrow> below n k"
  by (induction rule: below.induct) (auto intro: below.intros)

lemma walk_from_below: "m \<in> set (walk_from todo) \<Longrightarrow> \<exists>n \<in> set todo. below n m"
proof (induction todo rule: walk_from.induct)
  case 1
  then show ?case by simp
next
  case (2 n todo)
  then show ?case
    by (auto intro: below.self) (meson below.child below.self below_chain)
qed

theorem walk_below: "set (walk n) = {m. below n m}"
proof -
  have "m \<in> set (walk n)" if "below n m" for m
    using that by (induction rule: below.induct) (auto intro: walk_root walk_child)
  then show ?thesis
    using walk_from_below [of _ "[n]"] by (auto simp: walk_def)
qed

end
