(* ===== verification/Markers.thy ===== *)
theory Markers
  imports PyAst PyStrings
begin

text \<open>
  The check that the \<open>min_*\<close> markers of tests match their use of the topology
  (\<open>scripts/check_topology_markers.py\<close>): the types of receivers, the use in a function's own body,
  the tracing of helper calls through a file's functions, its class and its imports, and the
  checker with its stacks.  Parsing, the search for installed modules and the file system are
  parameters; reading and parsing a file may raise.  Types are the names of classes.  The order in
  which Python reads a set is not specified, and sets are lists without repetition here.
\<close>

named_theorems marker_simps "rewrite rules for the marker check"

section \<open>Tables\<close>

type_synonym types = "(string, string) pydict"

definition TOPOLOGY_ATTRS :: "(string, (string, string) pydict) pydict" where
  "TOPOLOGY_ATTRS =
     [(''CBLPyTest'',
       [(''test_servers'', ''min_test_servers''), (''sync_gateways'', ''min_sync_gateways''),
        (''couchbase_servers'', ''min_couchbase_servers''), (''edge_servers'', ''min_edge_servers''),
        (''load_balancers'', ''min_load_balancers''), (''clusters'', ''min_clusters'')]),
      (''CouchbaseCluster'',
       [(''sync_gateways'', ''min_sync_gateways''), (''couchbase_servers'', ''min_couchbase_servers'')])]"

definition TOPOLOGY_MARKERS :: "string list" where
  "TOPOLOGY_MARKERS = concat (map (\<lambda>(c, attrs). map snd attrs) TOPOLOGY_ATTRS)"

definition MIN_CLUSTERS_MARKER :: string where
  "MIN_CLUSTERS_MARKER = ''min_clusters''"

definition MIN_CLUSTERS_THRESHOLD :: int where
  "MIN_CLUSTERS_THRESHOLD = 2"

definition FIXTURE_TYPES :: types where
  "FIXTURE_TYPES = [(''cblpytest'', ''CBLPyTest'')]"

definition KNOWN_TYPES :: "string list" where
  "KNOWN_TYPES = map fst TOPOLOGY_ATTRS @ map snd FIXTURE_TYPES"

section \<open>Types of receivers\<close>

fun infer_type :: "node \<Rightarrow> types \<Rightarrow> string option" where
  "infer_type (Name x) env = map_of env x"
| "infer_type (Call (Name f) args kws) env = (if f \<in> set KNOWN_TYPES then Some f else None)"
| "infer_type (Subscript (Attribute i v a) s) env =
     (if a = ''clusters'' \<and> infer_type v env = Some ''CBLPyTest'' then Some ''CouchbaseCluster'' else None)"
| "infer_type n env = None"

definition member_marker :: "string option \<Rightarrow> string \<Rightarrow> string option" where
  "member_marker receiver name =
     (case receiver of
        None \<Rightarrow> None
      | Some c \<Rightarrow> (case map_of TOPOLOGY_ATTRS c of None \<Rightarrow> None | Some attrs \<Rightarrow> map_of attrs name))"

fun seed_arg :: "types \<Rightarrow> node \<Rightarrow> types" where
  "seed_arg env (Arg x ann) =
     (case map_of FIXTURE_TYPES x of
        Some t \<Rightarrow> d_set env x t
      | None \<Rightarrow> (case ann of Some (Name t) \<Rightarrow> if t \<in> set KNOWN_TYPES then d_set env x t else env | _ \<Rightarrow> env))"
| "seed_arg env n = env"

text \<open>The parameters of a function, positional ones and keyword only ones; nothing for another node.\<close>

definition func_args :: "node \<Rightarrow> node list \<times> node list" where
  "func_args f =
     (case f of
        FunctionDef i name args body decs rest line \<Rightarrow>
          (case args of Arguments po ps va ko kd kw ds \<Rightarrow> (po @ ps, ko) | _ \<Rightarrow> ([], []))
      | _ \<Rightarrow> ([], []))"

definition seed_type_env :: "node \<Rightarrow> types" where
  "seed_type_env f = foldl seed_arg [] (fst (func_args f) @ snd (func_args f))"

fun assign_parts :: "node \<Rightarrow> (node \<times> node) option" where
  "assign_parts (Assign [t] v) = Some (t, v)"
| "assign_parts (AnnAssign t a (Some v)) = Some (t, v)"
| "assign_parts n = None"

definition collect_assign :: "types \<Rightarrow> node \<Rightarrow> types" where
  "collect_assign env n =
     (case assign_parts n of
        Some (Name x, v) \<Rightarrow> (case infer_type v env of Some t \<Rightarrow> d_set env x t | None \<Rightarrow> env)
      | _ \<Rightarrow> env)"

definition collect_assign_types :: "node \<Rightarrow> types \<Rightarrow> types" where
  "collect_assign_types f env = foldl collect_assign env (walk f)"

fun constant_int_index :: "node \<Rightarrow> int option" where
  "constant_int_index (USub (Int_const i)) = Some (- i)"
| "constant_int_index (Int_const i) = Some i"
| "constant_int_index n = None"

section \<open>Decorators\<close>

definition marker_of :: "node \<Rightarrow> (string \<times> int) option" where
  "marker_of dec =
     (case dec of
        Call (Attribute i mark name) (Int_const k # args) kws \<Rightarrow>
          (case mark of
             Attribute j p m \<Rightarrow>
               if name \<in> set TOPOLOGY_MARKERS \<and> m = ''mark'' \<and> p = Name ''pytest'' then Some (name, k) else None
           | _ \<Rightarrow> None)
      | _ \<Rightarrow> None)"

definition min_markers :: "node list \<Rightarrow> (string, int) pydict" where
  "min_markers decs =
     foldl (\<lambda>ms dec. case marker_of dec of Some (name, k) \<Rightarrow> d_set ms name k | None \<Rightarrow> ms) [] decs"

definition is_autouse_fixture :: "node list \<Rightarrow> bool" where
  "is_autouse_fixture decs =
     list_ex (\<lambda>dec. case dec of
        Call (Attribute i v a) args kws \<Rightarrow> a = ''fixture'' \<and> Keyword (Some ''autouse'') (Bool_const True) \<in> set kws
      | _ \<Rightarrow> False) decs"

section \<open>Use in a function's own body\<close>

text \<open>The minimum that constant indices need, and the markers used without one.\<close>

type_synonym usage = "(string, int) pydict \<times> string list"

definition needed :: "int \<Rightarrow> int" where
  "needed index = (if index < 0 then \<bar>index\<bar> else index + 1)"

definition require :: "(string, int) pydict \<Rightarrow> string \<Rightarrow> int \<Rightarrow> (string, int) pydict" where
  "require required marker n =
     d_set required marker (max (case map_of required marker of None \<Rightarrow> 0 | Some k \<Rightarrow> k) n)"

fun local_step :: "types \<Rightarrow> usage \<times> nat list \<Rightarrow> node \<Rightarrow> usage \<times> nat list" where
  "local_step env ((required, dynamic), subscripted) (Subscript (Attribute i v a) index) =
     (case member_marker (infer_type v env) a of
        None \<Rightarrow> ((required, dynamic), subscripted)
      | Some marker \<Rightarrow>
          (case constant_int_index index of
             Some k \<Rightarrow> ((require required marker (needed k), dynamic), List.insert i subscripted)
           | None \<Rightarrow> ((required, List.insert marker dynamic), List.insert i subscripted)))"
| "local_step env ((required, dynamic), subscripted) (Attribute i v a) =
     (if i \<in> set subscripted then ((required, dynamic), subscripted)
      else case member_marker (infer_type v env) a of
             None \<Rightarrow> ((required, dynamic), subscripted)
           | Some marker \<Rightarrow> ((required, List.insert marker dynamic), subscripted))"
| "local_step env acc n = acc"

definition local_usage :: "node \<Rightarrow> types \<Rightarrow> usage" where
  "local_usage f env = fst (foldl (local_step env) (([], []), []) (walk f))"

section \<open>Files\<close>

text \<open>A path is the list of its names; \<open>[]\<close> is the root, or the current directory for a relative path.\<close>

type_synonym path = "string list"

record file_scope =
  fs_funcs :: "(string, node) pydict"
  fs_imports :: "(string, string \<times> string) pydict"
  fs_dir :: path

text \<open>
  \<open>fw_find_spec\<close> gives the origin of an installed module, \<open>Some None\<close> for one without;
  \<open>built-in\<close> is an origin like any other to it.
\<close>

record file_world =
  fw_parse :: "path \<Rightarrow> node list result"
  fw_find_spec :: "string \<Rightarrow> path option option"
  fw_is_file :: "path \<Rightarrow> bool"

definition functions_of :: "node list \<Rightarrow> (string, node) pydict" where
  "functions_of body =
     foldl (\<lambda>d n. case n of FunctionDef i f args b decs rest line \<Rightarrow> d_set d f n | _ \<Rightarrow> d) [] body"

fun add_imports :: "(string, string \<times> string) pydict \<Rightarrow> node \<Rightarrow> (string, string \<times> string) pydict" where
  "add_imports d (ImportFrom (Some m) names level) =
     (if level = 0 \<and> m \<noteq> []
      then foldl (\<lambda>d (name, asname). d_set d (case asname of Some a \<Rightarrow> if a \<noteq> [] then a else name | None \<Rightarrow> name) (m, name)) d names
      else d)"
| "add_imports d n = d"

definition build_scope :: "node list \<Rightarrow> path \<Rightarrow> file_scope" where
  "build_scope body path =
     \<lparr> fs_funcs = functions_of body, fs_imports = foldl add_imports [] body, fs_dir = butlast path \<rparr>"

definition load_scope :: "file_world \<Rightarrow> path \<Rightarrow> file_scope result" where
  "load_scope W path = rbind (fw_parse W path) (\<lambda>body. Inr (build_scope body path))"

text \<open>A directory and its parents.\<close>

definition dirs_up :: "path \<Rightarrow> path list" where
  "dirs_up d = map (\<lambda>n. take n d) (rev [0..<Suc (length d)])"

definition find_pyproject :: "file_world \<Rightarrow> path \<Rightarrow> path option" where
  "find_pyproject W start = find (fw_is_file W) (map (\<lambda>d. d @ [''pyproject.toml'']) (dirs_up start))"

fun search_dirs :: "file_world \<Rightarrow> path \<Rightarrow> path \<Rightarrow> path list \<Rightarrow> path option" where
  "search_dirs W rel repo_root [] = None"
| "search_dirs W rel repo_root (d # ds) =
     (if fw_is_file W (d @ rel) then Some (d @ rel)
      else if d = repo_root then None else search_dirs W rel repo_root ds)"

definition rel_path :: "string \<Rightarrow> path" where
  "rel_path module = (let parts = filter (\<lambda>p. p \<noteq> []) (split_on (CHR ''.'') module)
                      in butlast parts @ [last parts @ ''.py''])"

definition resolve_import_path :: "file_world \<Rightarrow> string \<Rightarrow> path \<Rightarrow> path option" where
  "resolve_import_path W module importing_dir =
     (case (case fw_find_spec W (takeWhile (\<lambda>c. c \<noteq> CHR ''.'') module) of
              None \<Rightarrow> None
            | Some _ \<Rightarrow> (case fw_find_spec W module of
                Some (Some origin) \<Rightarrow> if origin \<noteq> [''built-in''] then Some origin else None
              | _ \<Rightarrow> None)) of
        Some origin \<Rightarrow> Some origin
      | None \<Rightarrow>
          (let repo_root = (case find_pyproject W importing_dir of Some p \<Rightarrow> butlast p | None \<Rightarrow> importing_dir)
           in search_dirs W (rel_path module) repo_root (dirs_up importing_dir)))"

section \<open>Calls\<close>

type_synonym methods = "(string, node) pydict"

text \<open>What a call resolves to: the function, the methods and scope it runs in, and whether it is a method.\<close>

type_synonym target = "node \<times> methods \<times> file_scope \<times> bool"

definition resolve_imported :: "file_world \<Rightarrow> file_scope \<Rightarrow> string \<Rightarrow> target option result" where
  "resolve_imported W scope f =
     (case map_of (fs_imports scope) f of
        None \<Rightarrow> Inr None
      | Some (module, original) \<Rightarrow>
          (case resolve_import_path W module (fs_dir scope) of
             None \<Rightarrow> Inr None
           | Some path \<Rightarrow> rbind (load_scope W path) (\<lambda>target_scope.
               Inr (map_option (\<lambda>t. (t, [], target_scope, False)) (map_of (fs_funcs target_scope) original)))))"

definition resolve_name :: "file_world \<Rightarrow> methods \<Rightarrow> file_scope \<Rightarrow> string \<Rightarrow> target option result" where
  "resolve_name W class_methods scope f =
     (case map_of (fs_funcs scope) f of
        Some t \<Rightarrow> Inr (Some (t, class_methods, scope, False))
      | None \<Rightarrow> (case map_of class_methods f of
          Some t \<Rightarrow> Inr (Some (t, class_methods, scope, False))
        | None \<Rightarrow> resolve_imported W scope f))"

fun resolve_call :: "file_world \<Rightarrow> methods \<Rightarrow> file_scope \<Rightarrow> node \<Rightarrow> target option result" where
  "resolve_call W class_methods scope (Call (Attribute i (Name x) m) args kws) =
     (if x = ''self'' \<or> x = ''cls''
      then Inr (map_option (\<lambda>t. (t, class_methods, scope, True)) (map_of class_methods m))
      else Inr None)"
| "resolve_call W class_methods scope (Call (Name f) args kws) = resolve_name W class_methods scope f"
| "resolve_call W class_methods scope n = Inr None"

definition arg_name :: "node \<Rightarrow> string" where
  "arg_name n = (case n of Arg x a \<Rightarrow> x | _ \<Rightarrow> [])"

definition seed_inferred :: "types \<Rightarrow> types \<Rightarrow> string \<Rightarrow> node \<Rightarrow> types" where
  "seed_inferred env seed x expr = (case infer_type expr env of Some t \<Rightarrow> d_set seed x t | None \<Rightarrow> seed)"

definition seed_keyword :: "types \<Rightarrow> string list \<Rightarrow> types \<Rightarrow> node \<Rightarrow> types" where
  "seed_keyword env names seed kw =
     (case kw of
        Keyword (Some k) v \<Rightarrow> if k \<in> set names then seed_inferred env seed k v else seed
      | _ \<Rightarrow> seed)"

definition call_site_env :: "node \<Rightarrow> node \<Rightarrow> types \<Rightarrow> bool \<Rightarrow> types" where
  "call_site_env n target env is_method =
     (case n of
        Call f args kws \<Rightarrow>
          (let positional = fst (func_args target);
               params = map arg_name (if is_method then tl positional else positional);
               seed = foldl (\<lambda>seed (x, expr). seed_inferred env seed x expr) [] (zip params args)
           in foldl (seed_keyword env (params @ map arg_name (snd (func_args target)))) seed kws)
      | _ \<Rightarrow> [])"

definition merge_usage :: "usage \<Rightarrow> usage \<Rightarrow> usage" where
  "merge_usage u v =
     (foldl (\<lambda>required (marker, n). require required marker n) (fst u) (fst v),
      foldl (\<lambda>dynamic marker. List.insert marker dynamic) (snd u) (snd v))"

text \<open>
  The loop over the calls of a function, with the scan of a target as a parameter: \<open>merge\<close> takes up
  what the target gives.  The world is the list of the functions already visited.
\<close>

fun scan_calls ::
    "(node \<Rightarrow> methods \<Rightarrow> file_scope \<Rightarrow> types \<Rightarrow> (nat list, 'a) io) \<Rightarrow> ('a \<Rightarrow> 'a \<Rightarrow> 'a) \<Rightarrow> file_world \<Rightarrow> methods
      \<Rightarrow> file_scope \<Rightarrow> types \<Rightarrow> node list \<Rightarrow> 'a \<Rightarrow> (nat list, 'a) io" where
  "scan_calls scan merge W ms scope env [] u visited = (Inr u, visited)"
| "scan_calls scan merge W ms scope env (n # ns) u visited =
     (case resolve_call W ms scope n of
        Inl e \<Rightarrow> (Inl e, visited)
      | Inr None \<Rightarrow> scan_calls scan merge W ms scope env ns u visited
      | Inr (Some (t, tms, tscope, is_method)) \<Rightarrow>
          (case scan t tms tscope (call_site_env n t env is_method) visited of
             (Inl e, visited') \<Rightarrow> (Inl e, visited')
           | (Inr sub, visited') \<Rightarrow> scan_calls scan merge W ms scope env ns (merge u sub) visited'))"

definition node_id :: "node \<Rightarrow> nat" where
  "node_id n = (case n of FunctionDef i f args body decs rest line \<Rightarrow> i | Attribute i v a \<Rightarrow> i | _ \<Rightarrow> 0)"

definition scan_env :: "node \<Rightarrow> types \<Rightarrow> types" where
  "scan_env f call_env = collect_assign_types f (d_update (seed_type_env f) call_env)"

text \<open>
  \<open>depth\<close> is the number of nested scans that the interpreter's stack has room for.
\<close>

primrec scan_usage ::
    "nat \<Rightarrow> file_world \<Rightarrow> node \<Rightarrow> methods \<Rightarrow> file_scope \<Rightarrow> types \<Rightarrow> (nat list, usage) io" where
  "scan_usage 0 W f ms scope call_env = io_raise RecursionError"
| "scan_usage (Suc depth) W f ms scope call_env = (\<lambda>visited.
     if node_id f \<in> set visited then (Inr ([], []), visited)
     else (let env = scan_env f call_env
           in scan_calls (scan_usage depth W) merge_usage W ms scope env (walk f) (local_usage f env)
                (node_id f # visited)))"

definition scan_fresh :: "nat \<Rightarrow> file_world \<Rightarrow> node \<Rightarrow> methods \<Rightarrow> file_scope \<Rightarrow> usage result" where
  "scan_fresh depth W f ms scope = fst (scan_usage depth W f ms scope [] [])"

section \<open>The checker\<close>

definition decorators :: "node \<Rightarrow> node list" where
  "decorators n = (case n of FunctionDef i f args body decs rest line \<Rightarrow> decs | _ \<Rightarrow> [])"

fun autouse_from :: "nat \<Rightarrow> file_world \<Rightarrow> methods \<Rightarrow> file_scope \<Rightarrow> usage \<Rightarrow> (string \<times> node) list \<Rightarrow> usage result" where
  "autouse_from depth W methods scope u [] = Inr u"
| "autouse_from depth W methods scope u ((name, f) # ms) =
     (if is_autouse_fixture (decorators f)
      then rbind (scan_fresh depth W f methods scope) (\<lambda>sub. autouse_from depth W methods scope (merge_usage u sub) ms)
      else autouse_from depth W methods scope u ms)"

definition class_autouse_usage :: "nat \<Rightarrow> file_world \<Rightarrow> methods \<Rightarrow> file_scope \<Rightarrow> usage result" where
  "class_autouse_usage depth W methods scope = autouse_from depth W methods scope ([], []) methods"

datatype violation =
    No_marker nat string string int
  | Too_low nat string string int int
  | No_list_marker nat string string

definition index_violations :: "nat \<Rightarrow> string \<Rightarrow> (string, int) pydict \<Rightarrow> (string, int) pydict \<Rightarrow> violation list" where
  "index_violations line name declared required =
     concat (map (\<lambda>(marker, n).
       if marker = MIN_CLUSTERS_MARKER \<and> n < MIN_CLUSTERS_THRESHOLD then []
       else case map_of declared marker of
              None \<Rightarrow> [No_marker line name marker n]
            | Some have \<Rightarrow> if have < n then [Too_low line name marker have n] else []) required)"

definition list_violations ::
    "nat \<Rightarrow> string \<Rightarrow> (string, int) pydict \<Rightarrow> (string, int) pydict \<Rightarrow> string list \<Rightarrow> violation list" where
  "list_violations line name declared required dynamic =
     map (No_list_marker line name)
       (filter (\<lambda>m. \<not> d_has required m \<and> m \<noteq> MIN_CLUSTERS_MARKER \<and> \<not> d_has declared m) dynamic)"

text \<open>
  The stacks of the checker: markers of the classes from outer to inner; methods and autouse usage of
  the innermost class, if any.
\<close>

record class_stack =
  cs_markers :: "(string, int) pydict list"
  cs_inner :: "(methods \<times> usage) option"

fun check_function :: "nat \<Rightarrow> file_world \<Rightarrow> file_scope \<Rightarrow> class_stack \<Rightarrow> node \<Rightarrow> violation list result" where
  "check_function depth W scope S (FunctionDef i name args body decs rest line) =
     (if \<not> prefix ''test_'' name then Inr []
      else let declared = d_update (foldl d_update [] (cs_markers S)) (min_markers decs);
               ms = (case cs_inner S of Some (ms, au) \<Rightarrow> ms | None \<Rightarrow> [])
           in rbind (scan_fresh depth W (FunctionDef i name args body decs rest line) ms scope) (\<lambda>u.
                let u = (case cs_inner S of Some (ms, au) \<Rightarrow> merge_usage u au | None \<Rightarrow> u)
                in Inr (index_violations line name declared (fst u)
                        @ list_violations line name declared (fst u) (snd u))))"
| "check_function depth W scope S n = Inr []"

function visit :: "nat \<Rightarrow> file_world \<Rightarrow> file_scope \<Rightarrow> class_stack \<Rightarrow> node \<Rightarrow> violation list result" where
  "visit depth W scope S n =
     (case n of
        ClassDef c bases body decs rest \<Rightarrow>
          (let methods = functions_of body
           in rbind (class_autouse_usage depth W methods scope) (\<lambda>au.
                rbind (mapM (visit depth W scope \<lparr> cs_markers = cs_markers S @ [min_markers decs],
                                                   cs_inner = Some (methods, au) \<rparr>) (children n)) (\<lambda>vs.
                  Inr (concat vs))))
      | FunctionDef i name args body decs rest line \<Rightarrow>
          rbind (check_function depth W scope S n) (\<lambda>v.
          rbind (mapM (visit depth W scope S) (children n)) (\<lambda>vs. Inr (v @ concat vs)))
      | _ \<Rightarrow> rbind (mapM (visit depth W scope S) (children n)) (\<lambda>vs. Inr (concat vs)))"
  by pat_completeness auto

termination
  by (relation "measure (\<lambda>(depth, W, scope, S, n). size n)") (auto dest!: size_mem size_mem_opt)

declare visit.simps [simp del]

definition check_file :: "nat \<Rightarrow> file_world \<Rightarrow> path \<Rightarrow> violation list result" where
  "check_file depth W path =
     rbind (fw_parse W path) (\<lambda>body.
       visit depth W (build_scope body path) \<lparr> cs_markers = [], cs_inner = None \<rparr> (Other body))"

definition main :: "nat \<Rightarrow> file_world \<Rightarrow> path list \<Rightarrow> (violation list \<times> int) result" where
  "main depth W argv =
     rbind (mapM (check_file depth W) argv) (\<lambda>vs. Inr (concat vs, if concat vs \<noteq> [] then 1 else 0))"

end
