(* ===== verification/MarkerTracing.thy ===== *)
theory MarkerTracing
  imports Markers
begin

text \<open>
  What the tracing of helper calls in \<open>scripts/check_topology_markers.py\<close> achieves.  A scan that
  keeps the functions it goes through instead of their use is the reference: it ends within a depth
  bounded by the number of functions, goes through each function once, is closed under the calls
  that resolve, and the use that the checker compares with the markers is the use of exactly these
  functions.
\<close>

section \<open>Scanning with any kind of result\<close>

text \<open>The recursion of \<open>_scan_usage\<close> with what a function gives (\<open>leaf\<close>) and the merging as parameters.\<close>

primrec scan_with ::
    "(node \<Rightarrow> methods \<Rightarrow> file_scope \<Rightarrow> types \<Rightarrow> 'a) \<Rightarrow> 'a \<Rightarrow> ('a \<Rightarrow> 'a \<Rightarrow> 'a) \<Rightarrow> nat \<Rightarrow> file_world \<Rightarrow> node
      \<Rightarrow> methods \<Rightarrow> file_scope \<Rightarrow> types \<Rightarrow> (nat list, 'a) io" where
  "scan_with leaf none merge 0 W f ms scope call_env = io_raise RecursionError"
| "scan_with leaf none merge (Suc depth) W f ms scope call_env = (\<lambda>visited.
     if node_id f \<in> set visited then (Inr none, visited)
     else (let env = scan_env f call_env
           in scan_calls (scan_with leaf none merge depth W) merge W ms scope env (walk f) (leaf f ms scope env)
                (node_id f # visited)))"

lemma scan_usage_with:
  "scan_usage depth W = scan_with (\<lambda>f ms scope env. local_usage f env) ([], []) merge_usage depth W"
proof (induction depth)
  case 0
  then show ?case by (intro ext) simp
next
  case (Suc depth)
  show ?case by (intro ext) (simp add: Suc)
qed

text \<open>The functions in the order in which they are gone through, with what each is analysed under.\<close>

type_synonym visit_record = "node \<times> methods \<times> file_scope \<times> types"

definition scan_trace ::
    "nat \<Rightarrow> file_world \<Rightarrow> node \<Rightarrow> methods \<Rightarrow> file_scope \<Rightarrow> types \<Rightarrow> (nat list, visit_record list) io" where
  "scan_trace = scan_with (\<lambda>f ms scope env. [(f, ms, scope, env)]) [] (@)"

definition fun_of :: "visit_record \<Rightarrow> node" where
  "fun_of v = fst v"

definition env_of :: "visit_record \<Rightarrow> types" where
  "env_of v = snd (snd (snd v))"

text \<open>Two kinds of result that are related at the leaves and under merging are related after a scan.\<close>

lemma scan_calls_rel:
  assumes scans: "\<And>t tms tscope env v. rel_prod (rel_sum (=) R) (=) (scan1 t tms tscope env v) (scan2 t tms tscope env v)"
    and merges: "\<And>a b c d. R a b \<Longrightarrow> R c d \<Longrightarrow> R (merge1 a c) (merge2 b d)"
    and "R u1 u2"
  shows "rel_prod (rel_sum (=) R) (=) (scan_calls scan1 merge1 W ms scope env ns u1 v)
    (scan_calls scan2 merge2 W ms scope env ns u2 v)"
  using assms(3)
proof (induction ns arbitrary: u1 u2 v)
  case Nil
  then show ?case by simp
next
  case (Cons n ns)
  show ?case
  proof (cases "resolve_call W ms scope n")
    case (Inl e)
    then show ?thesis by (simp add: io_bind_def)
  next
    case (Inr r)
    show ?thesis
    proof (cases r)
      case None
      then show ?thesis using Inr Cons by (simp add: io_bind_def)
    next
      case (Some tgt)
      obtain t tms tscope im where tgt: "tgt = (t, tms, tscope, im)" by (cases tgt)
      obtain r1 v1 r2 v2 where runs: "scan1 t tms tscope (call_site_env n t env im) v = (r1, v1)"
        "scan2 t tms tscope (call_site_env n t env im) v = (r2, v2)" by fastforce
      with scans [of t tms tscope "call_site_env n t env im" v]
      have rel: "v1 = v2" "rel_sum (=) R r1 r2" by auto
      show ?thesis
        using rel(2)
      proof cases
        case (1 e1 e2)
        then show ?thesis using Inr Some tgt runs rel(1) by (simp add: io_bind_def)
      next
        case (2 x1 x2)
        then show ?thesis
          using Inr Some tgt runs rel(1) Cons.IH [OF merges [OF Cons.prems 2(3)]] by (simp add: io_bind_def)
      qed
    qed
  qed
qed

lemma scan_with_rel:
  assumes "\<And>f ms scope env. R (leaf1 f ms scope env) (leaf2 f ms scope env)" "R none1 none2"
    and "\<And>a b c d. R a b \<Longrightarrow> R c d \<Longrightarrow> R (merge1 a c) (merge2 b d)"
  shows "rel_prod (rel_sum (=) R) (=) (scan_with leaf1 none1 merge1 depth W f ms scope ce v)
    (scan_with leaf2 none2 merge2 depth W f ms scope ce v)"
proof (induction depth arbitrary: f ms scope ce v)
  case 0
  then show ?case by simp
next
  case (Suc depth)
  show ?case
    using scan_calls_rel [OF Suc.IH assms(3) assms(1)] assms(2) by (simp add: Let_def)
qed

section \<open>A scan ends within the number of functions\<close>

definition targets_in :: "nat set \<Rightarrow> (string, node) pydict \<Rightarrow> bool" where
  "targets_in U d = (\<forall>x t. map_of d x = Some t \<longrightarrow> node_id t \<in> U)"

definition files_in :: "nat set \<Rightarrow> file_world \<Rightarrow> bool" where
  "files_in U W = (\<forall>path body. fw_parse W path = Inr body \<longrightarrow> targets_in U (functions_of body))"

definition parser_ends :: "file_world \<Rightarrow> bool" where
  "parser_ends W = (\<forall>path. fw_parse W path \<noteq> Inl RecursionError)"

lemma targets_in_Nil [marker_simps]: "targets_in U []"
  by (simp add: targets_in_def)

lemma resolve_call_in:
  assumes "targets_in U ms" "targets_in U (fs_funcs scope)" "files_in U W"
    and "resolve_call W ms scope n = Inr (Some (t, tms, tscope, im))"
  shows "node_id t \<in> U \<and> targets_in U tms \<and> targets_in U (fs_funcs tscope)"
  using assms
  by (cases "(W, ms, scope, n)" rule: resolve_call.cases)
    (auto simp: targets_in_def files_in_def resolve_name_def resolve_imported_def load_scope_def build_scope_def
      result_simps split: option.splits if_splits prod.splits)

lemma resolve_call_ends:
  assumes "parser_ends W" "resolve_call W ms scope n = Inl e"
  shows "e \<noteq> RecursionError"
  using assms
  by (cases "(W, ms, scope, n)" rule: resolve_call.cases)
    (auto simp: parser_ends_def resolve_name_def resolve_imported_def load_scope_def
      result_simps split: option.splits if_splits prod.splits)

text \<open>A run from \<open>v\<close> that stays in \<open>U\<close>, only adds to the visited functions and does not exhaust the stack.\<close>

definition run_ok :: "nat set \<Rightarrow> nat list \<Rightarrow> 'a result \<times> nat list \<Rightarrow> bool" where
  "run_ok U v rv = (fst rv \<noteq> Inl RecursionError \<and> set v \<subseteq> set (snd rv) \<and> set (snd rv) \<subseteq> U)"

lemma scan_calls_ok:
  assumes world: "files_in U W" "parser_ends W" and scope: "targets_in U ms" "targets_in U (fs_funcs scope)"
    and scan: "\<And>t tms tscope env v'. node_id t \<in> U \<Longrightarrow> targets_in U tms \<Longrightarrow> targets_in U (fs_funcs tscope)
      \<Longrightarrow> set v \<subseteq> set v' \<Longrightarrow> set v' \<subseteq> U \<Longrightarrow> run_ok U v' (scan t tms tscope env v')"
    and v': "set v \<subseteq> set v'" "set v' \<subseteq> U"
  shows "run_ok U v' (scan_calls scan merge W ms scope env ns u v')"
  using v'
proof (induction ns arbitrary: u v')
  case Nil
  then show ?case by (simp add: run_ok_def)
next
  case (Cons n ns)
  show ?case
  proof (cases "resolve_call W ms scope n")
    case (Inl e)
    then show ?thesis
      using Cons.prems resolve_call_ends [OF world(2)] by (auto simp: io_bind_def run_ok_def)
  next
    case (Inr r)
    show ?thesis
    proof (cases r)
      case None
      then show ?thesis using Inr Cons by (simp add: io_bind_def)
    next
      case (Some tgt)
      obtain t tms tscope im where tgt: "tgt = (t, tms, tscope, im)" by (cases tgt)
      obtain r1 v1 where run: "scan t tms tscope (call_site_env n t env im) v' = (r1, v1)" by fastforce
      have ok: "run_ok U v' (r1, v1)"
        using resolve_call_in [OF scope world(1)] scan Inr Some tgt run Cons.prems by metis
      show ?thesis
      proof (cases r1)
        case Inl
        then show ?thesis using Inr Some tgt run ok by (simp add: io_bind_def run_ok_def)
      next
        case r1: (Inr sub)
        then have "run_ok U v1 (scan_calls scan merge W ms scope env ns (merge u sub) v1)"
          using Cons.prems ok by (intro Cons.IH) (auto simp: run_ok_def)
        then show ?thesis
          using Inr r1 Some tgt run ok by (auto simp: io_bind_def run_ok_def)
      qed
    qed
  qed
qed

lemma scan_with_ok:
  assumes "finite U" "files_in U W" "parser_ends W" "targets_in U ms" "targets_in U (fs_funcs scope)"
    and "node_id f \<in> U" "set v \<subseteq> U" "card (U - set v) < depth"
  shows "run_ok U v (scan_with leaf none merge depth W f ms scope ce v)"
  using assms(4-)
proof (induction depth arbitrary: f ms scope ce v)
  case 0
  then show ?case by simp
next
  case (Suc depth)
  show ?case
  proof (cases "node_id f \<in> set v")
    case True
    then show ?thesis using Suc.prems by (simp add: run_ok_def)
  next
    case False
    let ?v = "node_id f # v"
    have less: "card (U - set v') < depth" if "set ?v \<subseteq> set v'" for v'
    proof -
      have "card (U - set v') \<le> card (U - set ?v)"
        using that assms(1) by (intro card_mono) auto
      also have "\<dots> < card (U - set v)"
        using False Suc.prems assms(1) by (intro psubset_card_mono) auto
      finally show ?thesis using Suc.prems(5) by simp
    qed
    have "run_ok U ?v (scan_calls (scan_with leaf none merge depth W) merge W ms scope (scan_env f ce) (walk f)
        (leaf f ms scope (scan_env f ce)) ?v)"
      using Suc.prems Suc.IH less by (intro scan_calls_ok [OF assms(2,3), where v = ?v]) auto
    then show ?thesis using False by (auto simp: Let_def run_ok_def)
  qed
qed

lemma scan_fresh_ends:
  assumes "finite U" "files_in U W" "parser_ends W" "targets_in U ms" "targets_in U (fs_funcs scope)"
    and "node_id f \<in> U" "card U < depth"
  shows "scan_fresh depth W f ms scope \<noteq> Inl RecursionError"
  using scan_with_ok [OF assms(1-6), of "[]" depth "\<lambda>f ms scope env. local_usage f env" "([], [])" merge_usage "[]"] assms(7)
  by (simp add: scan_fresh_def scan_usage_with run_ok_def)

lemma functions_of_from:
  "foldl (\<lambda>d n. case n of FunctionDef i f args b decs rest line \<Rightarrow> d_set d f n | _ \<Rightarrow> d) d body = d' \<Longrightarrow>
   map_of d' x = Some t \<Longrightarrow> map_of d x = Some t \<or> t \<in> set body"
proof (induction body arbitrary: d)
  case Nil
  then show ?case by simp
next
  case (Cons n body)
  show ?case
    using Cons.IH [OF _ Cons.prems(2)] Cons.prems(1)
    by (cases n) (fastforce split: if_splits)+
qed

lemma functions_of_mem: "map_of (functions_of body) x = Some t \<Longrightarrow> t \<in> set body"
  using functions_of_from [OF refl, where d = "[]" and body = body] by (simp add: functions_of_def)

lemma functions_of_wf [simp]: "d_wf (functions_of body)"
proof -
  have "d_wf d \<Longrightarrow> d_wf (foldl (\<lambda>d n. case n of FunctionDef i f args b decs rest line \<Rightarrow> d_set d f n | _ \<Rightarrow> d) d body)"
    for d :: "(string, node) pydict"
    by (induction body arbitrary: d) (auto split: node.splits)
  then show ?thesis by (simp add: functions_of_def)
qed

text \<open>All identities in a tree are in \<open>U\<close>.\<close>

definition ids_in :: "nat set \<Rightarrow> node \<Rightarrow> bool" where
  "ids_in U n = (\<forall>m. below n m \<longrightarrow> node_id m \<in> U)"

lemma ids_in_child: "ids_in U n \<Longrightarrow> m \<in> set (children n) \<Longrightarrow> ids_in U m"
  unfolding ids_in_def by (meson below.child below.self below_chain)

lemma ids_in_self: "ids_in U n \<Longrightarrow> node_id n \<in> U"
  by (simp add: ids_in_def below.self)

lemma functions_of_in: "(\<And>m. m \<in> set body \<Longrightarrow> ids_in U m) \<Longrightarrow> targets_in U (functions_of body)"
  by (auto simp: targets_in_def dest!: functions_of_mem ids_in_self)

lemma autouse_from_ends:
  assumes "finite U" "files_in U W" "parser_ends W" "targets_in U ms" "targets_in U (fs_funcs scope)" "card U < depth"
    and "\<forall>nf \<in> set fs. node_id (snd nf) \<in> U"
  shows "autouse_from depth W ms scope u fs \<noteq> Inl RecursionError"
  using assms(7)
proof (induction fs arbitrary: u)
  case Nil
  then show ?case by simp
next
  case (Cons nf fs)
  obtain x f where nf: "nf = (x, f)" by (cases nf)
  have "scan_fresh depth W f ms scope \<noteq> Inl RecursionError"
    using scan_fresh_ends [OF assms(1-5) _ assms(6)] Cons.prems nf by simp
  then show ?case using Cons nf by (auto simp: result_simps rbind_def split: sum.splits)
qed

lemma class_autouse_ends:
  assumes "finite U" "files_in U W" "parser_ends W" "targets_in U ms" "targets_in U (fs_funcs scope)" "card U < depth"
    and "d_wf ms"
  shows "class_autouse_usage depth W ms scope \<noteq> Inl RecursionError"
proof -
  have "\<forall>nf \<in> set ms. node_id (snd nf) \<in> U"
    using assms(4,7) by (auto simp: targets_in_def d_wf_def)
  then show ?thesis using autouse_from_ends [OF assms(1-6)] by (simp add: class_autouse_usage_def)
qed

definition stack_in :: "nat set \<Rightarrow> class_stack \<Rightarrow> bool" where
  "stack_in U S = (\<forall>ms au. cs_inner S = Some (ms, au) \<longrightarrow> targets_in U ms)"

lemma check_function_ends:
  assumes "finite U" "files_in U W" "parser_ends W" "targets_in U (fs_funcs scope)" "card U < depth"
    and "stack_in U S" "node_id f \<in> U"
  shows "check_function depth W scope S f \<noteq> Inl RecursionError"
proof -
  have "targets_in U (case cs_inner S of Some (ms, au) \<Rightarrow> ms | None \<Rightarrow> [])"
    using assms(6) by (auto simp: stack_in_def targets_in_Nil split: option.splits)
  from scan_fresh_ends [OF assms(1-3) this assms(4,7,5)] show ?thesis
    by (cases f) (auto simp: Let_def rbind_def split: sum.splits)
qed

lemma visit_ends:
  assumes "finite U" "files_in U W" "parser_ends W" "targets_in U (fs_funcs scope)" "card U < depth"
  shows "stack_in U S \<Longrightarrow> ids_in U n \<Longrightarrow> visit depth W scope S n \<noteq> Inl RecursionError"
proof (induction "size n" arbitrary: n S rule: less_induct)
  case less
  have children: "mapM (visit depth W scope S') (children n) \<noteq> Inl RecursionError" if "stack_in U S'" for S'
    using less.hyps [OF size_child that] ids_in_child [OF less.prems(2)] by (meson mapM_Inl_ex)
  show ?case
  proof (cases n)
    case (ClassDef c bases body decs rest)
    let ?ms = "functions_of body"
    have body: "ids_in U m" if "m \<in> set body" for m
      using ids_in_child [OF less.prems(2)] that ClassDef by simp
    then have ms: "targets_in U ?ms" by (rule functions_of_in)
    have "class_autouse_usage depth W ?ms scope \<noteq> Inl RecursionError"
      using class_autouse_ends [OF assms(1-3) ms assms(4,5)] by simp
    moreover have "stack_in U \<lparr> cs_markers = m, cs_inner = Some (?ms, au) \<rparr>" for m au
      using ms by (simp add: stack_in_def)
    ultimately show ?thesis
      using children ClassDef by (subst visit.simps) (fastforce simp: Let_def rbind_def split: sum.splits)
  next
    case (FunctionDef i f args body decs rest line)
    have "check_function depth W scope S n \<noteq> Inl RecursionError"
      using check_function_ends [OF assms less.prems(1)] ids_in_self [OF less.prems(2)] by simp
    with children [OF less.prems(1)] FunctionDef show ?thesis
      by (subst visit.simps) (fastforce simp: rbind_def split: sum.splits)
  qed (use children [OF less.prems(1)] in \<open>subst visit.simps, fastforce simp: rbind_def split: sum.splits\<close>)+
qed

text \<open>
  C30. Checking files ends: tracing helpers through calls, imports and recursion never nests deeper
  than there are functions, so with room for one more scan than the files have identities the check
  of any list of files does not run out of stack.
\<close>

theorem check_ends:
  assumes "finite U" "\<forall>path body. fw_parse W path = Inr body \<longrightarrow> ids_in U (Other body)"
    and "\<forall>path. fw_parse W path \<noteq> Inl RecursionError" "card U < depth"
  shows "main depth W argv \<noteq> Inl RecursionError"
proof -
  have funcs: "targets_in U (functions_of body)" if "fw_parse W path = Inr body" for path body
    using assms(2) that by (intro functions_of_in) (auto intro: ids_in_child [of U "Other body"])
  then have files: "files_in U W" by (simp add: files_in_def)
  have parser: "parser_ends W" using assms(3) by (simp add: parser_ends_def)
  have "check_file depth W path \<noteq> Inl RecursionError" for path
  proof (cases "fw_parse W path")
    case (Inl e)
    then show ?thesis using assms(3) by (auto simp: check_file_def)
  next
    case (Inr body)
    have "visit depth W (build_scope body path) \<lparr> cs_markers = [], cs_inner = None \<rparr> (Other body) \<noteq> Inl RecursionError"
      using funcs [OF Inr] assms(2) Inr
      by (intro visit_ends [OF assms(1) files parser _ assms(4)]) (auto simp: build_scope_def stack_in_def)
    then show ?thesis using Inr by (simp add: check_file_def)
  qed
  then show ?thesis using mapM_Inl_ex by (fastforce simp: main_def rbind_def split: sum.splits)
qed

section \<open>The use in a function's own body\<close>

text \<open>
  What a body uses, without the state of the loop: the minima that its constant indices need, and the
  markers of the lists that it uses as a whole, by an index that is no constant or by name, where the
  name is not the value of a subscript.
\<close>

fun index_use :: "types \<Rightarrow> node \<Rightarrow> (string \<times> int) list" where
  "index_use env (Subscript (Attribute i v a) index) =
     (case (member_marker (infer_type v env) a, constant_int_index index) of
        (Some m, Some k) \<Rightarrow> [(m, needed k)] | _ \<Rightarrow> [])"
| "index_use env n = []"

fun open_use :: "types \<Rightarrow> node \<Rightarrow> string list" where
  "open_use env (Subscript (Attribute i v a) index) =
     (case (member_marker (infer_type v env) a, constant_int_index index) of (Some m, None) \<Rightarrow> [m] | _ \<Rightarrow> [])"
| "open_use env n = []"

fun name_use :: "types \<Rightarrow> node \<Rightarrow> string list" where
  "name_use env (Attribute i v a) = (case member_marker (infer_type v env) a of Some m \<Rightarrow> [m] | None \<Rightarrow> [])"
| "name_use env n = []"

fun value_id :: "types \<Rightarrow> node \<Rightarrow> nat list" where
  "value_id env (Subscript (Attribute i v a) index) = (if member_marker (infer_type v env) a = None then [] else [i])"
| "value_id env n = []"

definition index_uses :: "types \<Rightarrow> node list \<Rightarrow> (string \<times> int) set" where
  "index_uses env ns = (\<Union>n \<in> set ns. set (index_use env n))"

definition value_ids :: "types \<Rightarrow> node list \<Rightarrow> nat set" where
  "value_ids env ns = (\<Union>n \<in> set ns. set (value_id env n))"

definition list_uses :: "types \<Rightarrow> node \<Rightarrow> string set" where
  "list_uses env f = (\<Union>n \<in> set (walk f). set (open_use env n))
     \<union> (\<Union>n \<in> {n \<in> set (walk f). node_id n \<notin> value_ids env (walk f)}. set (name_use env n))"

text \<open>The greatest element, if any.\<close>

definition max_opt :: "int set \<Rightarrow> int option" where
  "max_opt S = (if S = {} then None else Some (Max S))"

lemma max_opt_insert: "finite S \<Longrightarrow> max_opt (insert n S) = Some (case max_opt S of None \<Rightarrow> n | Some k \<Rightarrow> max k n)"
  by (auto simp: max_opt_def max.commute)

lemma max_opt_Some_iff: "finite S \<Longrightarrow> max_opt S = Some k \<longleftrightarrow> k \<in> S \<and> (\<forall>n \<in> S. n \<le> k)"
  by (auto simp: max_opt_def Max_eq_iff)

definition needs :: "(string \<times> int) set \<Rightarrow> string \<Rightarrow> int set" where
  "needs A m = {n. (m, n) \<in> A}"

lemma needs_simps [marker_simps]:
  "needs {} m = {}" "needs (A \<union> B) m = needs A m \<union> needs B m"
  "needs (insert (m', n) A) m = (if m = m' then insert n (needs A m) else needs A m)"
  by (auto simp: needs_def)

lemma finite_needs: "finite A \<Longrightarrow> finite (needs A m)"
  by (rule finite_subset [of _ "snd ` A"]) (force simp: needs_def)+

text \<open>A dictionary of minima holds the greatest of what was needed.\<close>

definition holds_top :: "(string, int) pydict \<Rightarrow> (string \<times> int) set \<Rightarrow> bool" where
  "holds_top d A = (d_wf d \<and> finite A \<and> (\<forall>(m, n) \<in> A. 0 \<le> n) \<and> (\<forall>m. map_of d m = max_opt (needs A m)))"

lemma holds_top_Nil [marker_simps]: "holds_top [] {}"
  by (simp add: holds_top_def max_opt_def needs_simps)

lemma holds_top_require:
  assumes "holds_top d A" "0 \<le> n"
  shows "holds_top (require d m n) (insert (m, n) A)"
proof -
  have "max_opt (insert n (needs A m)) = Some (max (case map_of d m of None \<Rightarrow> 0 | Some k \<Rightarrow> k) n)"
    using assms finite_needs [of A m] by (auto simp: holds_top_def max_opt_insert split: option.splits)
  then show ?thesis
    using assms by (auto simp: holds_top_def require_def needs_simps)
qed

lemma needed_pos: "0 < needed k"
  by (simp add: needed_def)

lemma local_step_other:
  assumes "\<And>i v a s. n \<noteq> Subscript (Attribute i v a) s" "\<And>i v a. n \<noteq> Attribute i v a"
  shows "local_step env acc n = acc" "index_use env n = []" "open_use env n = []" "name_use env n = []"
    "value_id env n = []"
proof -
  obtain req dyn subs where "acc = ((req, dyn), subs)" by (metis prod.exhaust)
  then show "local_step env acc n = acc" "index_use env n = []" "open_use env n = []" "name_use env n = []"
    "value_id env n = []"
    using assms by (cases n; auto; (rename_tac v s, case_tac v; auto))+
qed

lemma value_idD: "i \<in> set (value_id env q) \<Longrightarrow> \<exists>v a s. q = Subscript (Attribute i v a) s"
  by (cases "(env, q)" rule: value_id.cases) (auto split: if_splits)

text \<open>The markers of names that are not recorded as the value of a subscript when they are reached.\<close>

definition late_names :: "types \<Rightarrow> node list \<Rightarrow> string set" where
  "late_names env ns = {m. \<exists>pre n post. ns = pre @ n # post \<and> m \<in> set (name_use env n)
     \<and> node_id n \<notin> value_ids env pre}"

lemma late_names_snoc:
  "late_names env (ns @ [n]) = late_names env ns
     \<union> (if node_id n \<in> value_ids env ns then {} else set (name_use env n))"
proof -
  have "ns @ [n] = pre @ x # post \<longleftrightarrow> (post = [] \<and> pre = ns \<and> x = n) \<or> (\<exists>post'. post = post' @ [n] \<and> ns = pre @ x # post')"
    for pre x post
    by (cases post rule: rev_cases) auto
  then show ?thesis by (auto simp: late_names_def)
qed

lemma local_fold:
  "\<exists>req dyn subs. foldl (local_step env) (([], []), []) ns = ((req, dyn), subs)
     \<and> set subs = value_ids env ns \<and> holds_top req (index_uses env ns)
     \<and> set dyn = (\<Union>n \<in> set ns. set (open_use env n)) \<union> late_names env ns"
proof (induction ns rule: rev_induct)
  case Nil
  then show ?case by (simp add: value_ids_def index_uses_def late_names_def marker_simps)
next
  case (snoc n ns)
  then obtain req dyn subs where st: "foldl (local_step env) (([], []), []) ns = ((req, dyn), subs)"
    "set subs = value_ids env ns" "holds_top req (index_uses env ns)"
    "set dyn = (\<Union>n \<in> set ns. set (open_use env n)) \<union> late_names env ns" by blast
  note acc = value_ids_def index_uses_def late_names_snoc
  consider (sub) i v a s where "n = Subscript (Attribute i v a) s" | (attr) i v a where "n = Attribute i v a"
    | (other) "\<And>i v a s. n \<noteq> Subscript (Attribute i v a) s" "\<And>i v a. n \<noteq> Attribute i v a" by blast
  then show ?case
  proof cases
    case sub
    show ?thesis
    proof (cases "member_marker (infer_type v env) a")
      case None
      then show ?thesis using st sub by (simp add: acc)
    next
      case (Some m)
      show ?thesis
      proof (cases "constant_int_index s")
        case None
        then show ?thesis using st sub Some by (simp add: acc)
      next
        case (Some k)
        have "holds_top (require req m (needed k)) (insert (m, needed k) (index_uses env ns))"
          using holds_top_require [OF st(3)] needed_pos [of k] by simp
        then show ?thesis using st sub Some \<open>member_marker _ _ = _\<close> by (simp add: acc)
      qed
    qed
  next
    case attr
    then show ?thesis
      using st by (cases "member_marker (infer_type v env) a") (auto simp: acc node_id_def)
  next
    case other
    then show ?thesis using st local_step_other [OF other] by (simp add: acc)
  qed
qed

text \<open>A node is reached after a parent, and every occurrence below the start is the child of one.\<close>

lemma walk_order:
  "walk_from todo = pre @ n # post \<Longrightarrow> n \<in> set todo \<or> (\<exists>p \<in> set pre. n \<in> set (children p))"
proof (induction todo arbitrary: pre rule: walk_from.induct)
  case 1
  then show ?case by simp
next
  case (2 m todo)
  then show ?case by (cases pre) auto
qed

lemma mset_walk:
  "mset (walk_from todo) = mset todo + (\<Sum>p \<in># mset (walk_from todo). mset (children p))"
  by (induction todo rule: walk_from.induct) (simp_all add: ac_simps)

lemma two_parents:
  assumes "p \<in> set ns" "q \<in> set ns" "p \<noteq> q" "n \<in> set (children p)" "n \<in> set (children q)"
  shows "2 \<le> count (\<Sum>p \<in># mset ns. mset (children p)) n"
proof -
  have "{#p, q#} \<subseteq># mset ns"
    using assms(1-3) by (simp add: insert_subset_eq_iff in_diff_count)
  then obtain rest where "mset ns = {#p, q#} + rest" by (auto simp: subset_mset.le_iff_add)
  then show ?thesis
    using assms(4,5) by (simp add: Suc_le_eq flip: count_greater_zero_iff set_mset_mset)
qed

definition is_attribute :: "node \<Rightarrow> bool" where
  "is_attribute n = (case n of Attribute i v a \<Rightarrow> True | _ \<Rightarrow> False)"

text \<open>No two attributes of a tree have the same identity.\<close>

definition distinct_ids :: "node \<Rightarrow> bool" where
  "distinct_ids f = distinct (map node_id (filter is_attribute (walk f)))"

lemma distinct_ids_eq:
  assumes "distinct_ids f" "m \<in> set (walk f)" "n \<in> set (walk f)" "is_attribute m" "is_attribute n"
    and "node_id m = node_id n"
  shows "m = n"
  using assms by (auto simp: distinct_ids_def distinct_map inj_on_def)

lemma distinct_ids_count:
  assumes "distinct_ids f" "is_attribute n"
  shows "count (mset (walk f)) n \<le> 1"
proof -
  have "distinct (filter is_attribute (walk f))"
    using assms(1) by (auto simp: distinct_ids_def distinct_map)
  then have "count (mset (filter is_attribute (walk f))) n \<le> 1"
    by (simp only: distinct_count_atmost_1) simp
  then show ?thesis using assms(2) by simp
qed

lemma late_names_walk:
  assumes ids: "distinct_ids f" and root: "\<not> is_attribute f"
  shows "late_names env (walk f)
    = (\<Union>n \<in> {n \<in> set (walk f). node_id n \<notin> value_ids env (walk f)}. set (name_use env n))"
proof (intro equalityI subsetI)
  fix m
  assume "m \<in> late_names env (walk f)"
  then obtain pre n post where split: "walk f = pre @ n # post" "m \<in> set (name_use env n)"
    "node_id n \<notin> value_ids env pre" by (auto simp: late_names_def)
  then have n: "n \<in> set (walk f)" "is_attribute n"
    by (cases n; simp add: is_attribute_def)+
  have "node_id n \<notin> value_ids env (walk f)"
  proof
    assume "node_id n \<in> value_ids env (walk f)"
    then obtain q where "q \<in> set (walk f)" "node_id n \<in> set (value_id env q)"
      by (auto simp: value_ids_def)
    then obtain v a s where q: "Subscript (Attribute (node_id n) v a) s \<in> set (walk f)" "q = Subscript (Attribute (node_id n) v a) s"
      using value_idD by metis
    have "Attribute (node_id n) v a \<in> set (walk f)"
      using walk_child [OF q(1)] by simp
    then have "Attribute (node_id n) v a = n"
      using n by (intro distinct_ids_eq [OF ids]) (auto simp: is_attribute_def node_id_def)
    then have child_q: "n \<in> set (children q)" using q(2) by simp
    have "n \<noteq> f" using n(2) root by auto
    then obtain p where p: "p \<in> set pre" "n \<in> set (children p)"
      using walk_order [of "[f]" pre n post] split(1) by (auto simp: walk_def)
    have "p = q"
    proof (rule ccontr)
      assume "p \<noteq> q"
      then have "2 \<le> count (\<Sum>p \<in># mset (walk f). mset (children p)) n"
        using two_parents [of p "walk f" q n] p child_q q split(1) by auto
      also have "\<dots> \<le> count (mset (walk f)) n"
        using mset_walk [of "[f]"] by (metis count_union le_add2 walk_def)
      finally show False using distinct_ids_count [OF ids n(2)] by simp
    qed
    then show False
      using p(1) split(3) \<open>node_id n \<in> set (value_id env q)\<close> by (auto simp: value_ids_def)
  qed
  then show "m \<in> (\<Union>n \<in> {n \<in> set (walk f). node_id n \<notin> value_ids env (walk f)}. set (name_use env n))"
    using n split(2) by blast
next
  fix m
  assume "m \<in> (\<Union>n \<in> {n \<in> set (walk f). node_id n \<notin> value_ids env (walk f)}. set (name_use env n))"
  then obtain n where n: "n \<in> set (walk f)" "node_id n \<notin> value_ids env (walk f)" "m \<in> set (name_use env n)" by blast
  then obtain pre post where "walk f = pre @ n # post" by (auto dest: split_list)
  moreover have "node_id n \<notin> value_ids env pre" using calculation n(2) by (auto simp: value_ids_def)
  ultimately show "m \<in> late_names env (walk f)" using n(3) by (auto simp: late_names_def)
qed

lemma local_usage_exact:
  assumes "distinct_ids f" "\<not> is_attribute f"
  shows "holds_top (fst (local_usage f env)) (index_uses env (walk f))" "set (snd (local_usage f env)) = list_uses env f"
  using local_fold [of env "walk f"] late_names_walk [OF assms, of env] by (auto simp: local_usage_def list_uses_def)

section \<open>The use that is compared with the markers\<close>

definition trace_needs :: "visit_record list \<Rightarrow> (string \<times> int) set" where
  "trace_needs tr = (\<Union>v \<in> set tr. index_uses (env_of v) (walk (fun_of v)))"

definition trace_lists :: "visit_record list \<Rightarrow> string set" where
  "trace_lists tr = (\<Union>v \<in> set tr. list_uses (env_of v) (fun_of v))"

text \<open>Trees as the parser makes them: identities are distinct, and what is scanned is a function.\<close>

definition parsed :: "node \<Rightarrow> bool" where
  "parsed f = (distinct_ids f \<and> \<not> is_attribute f)"

definition use_of :: "usage \<Rightarrow> visit_record list \<Rightarrow> bool" where
  "use_of u tr = (holds_top (fst u) (trace_needs tr)
     \<and> ((\<forall>v \<in> set tr. parsed (fun_of v)) \<longrightarrow> set (snd u) = trace_lists tr))"

lemma trace_append [marker_simps]:
  "trace_needs [] = {}" "trace_needs (tr @ tr') = trace_needs tr \<union> trace_needs tr'"
  "trace_lists [] = {}" "trace_lists (tr @ tr') = trace_lists tr \<union> trace_lists tr'"
  by (simp_all add: trace_needs_def trace_lists_def)

lemma use_of_none: "use_of ([], []) []"
  by (simp add: use_of_def marker_simps)

lemma use_of_leaf: "use_of (local_usage f env) [(f, ms, scope, env)]"
  using local_fold [of env "walk f"] local_usage_exact [of f env]
  by (auto simp: use_of_def trace_needs_def trace_lists_def fun_of_def env_of_def parsed_def local_usage_def)

lemma holds_top_fold:
  "holds_top d A \<Longrightarrow> \<forall>(m, n) \<in> set e. 0 \<le> n \<Longrightarrow>
    holds_top (foldl (\<lambda>required (marker, n). require required marker n) d e) (A \<union> set e)"
proof (induction e arbitrary: d A)
  case Nil
  then show ?case by simp
next
  case (Cons mn e)
  obtain m n where mn: "mn = (m, n)" by (cases mn)
  then have "holds_top (require d m n) (insert (m, n) A)"
    using Cons.prems by (intro holds_top_require) auto
  from Cons.IH [OF this] Cons.prems(2) mn show ?case by simp
qed

lemma max_opt_Un:
  assumes "finite S" "finite T"
  shows "max_opt (S \<union> set_option (max_opt T)) = max_opt (S \<union> T)"
proof (cases "T = {}")
  case False
  then show ?thesis
    using assms by (cases "S = {}") (auto simp: max_opt_def Max_Un Max_insert2 max.commute)
qed (simp add: max_opt_def)

lemma holds_top_merge:
  assumes "holds_top d A" "holds_top e B"
  shows "holds_top (foldl (\<lambda>required (marker, n). require required marker n) d e) (A \<union> B)"
proof -
  have entries: "needs (set e) m = set_option (map_of e m)" for m
  proof -
    have "distinct (map fst e)" using assms(2) by (simp add: holds_top_def d_wf_def)
    then show ?thesis by (auto simp: needs_def)
  qed
  have "0 \<le> n" if "(m, n) \<in> set e" for m n
  proof -
    have "max_opt (needs B m) = Some n"
      using assms(2) that by (metis d_wf_def holds_top_def map_of_is_SomeI)
    then have "(m, n) \<in> B"
      using assms(2) finite_needs [of B m] by (auto simp: max_opt_Some_iff holds_top_def needs_def)
    then show ?thesis using assms(2) by (auto simp: holds_top_def)
  qed
  then have "holds_top (foldl (\<lambda>required (marker, n). require required marker n) d e) (A \<union> set e)"
    by (intro holds_top_fold [OF assms(1)]) auto
  moreover have "max_opt (needs (A \<union> set e) m) = max_opt (needs (A \<union> B) m)" for m
    using max_opt_Un [of "needs A m" "needs B m"] entries assms finite_needs
    by (simp add: needs_simps holds_top_def)
  ultimately show ?thesis
    using assms(2) by (auto simp: holds_top_def)
qed

lemma fold_insert_set: "set (foldl (\<lambda>dynamic marker. List.insert marker dynamic) xs ys) = set xs \<union> set ys"
  by (induction ys arbitrary: xs) auto

lemma use_of_merge: "use_of a tr \<Longrightarrow> use_of b tr' \<Longrightarrow> use_of (merge_usage a b) (tr @ tr')"
  by (auto simp: use_of_def merge_usage_def marker_simps fold_insert_set intro: holds_top_merge)

definition fresh_trace ::
    "nat \<Rightarrow> file_world \<Rightarrow> node \<Rightarrow> methods \<Rightarrow> file_scope \<Rightarrow> visit_record list result" where
  "fresh_trace depth W f ms scope = fst (scan_trace depth W f ms scope [] [])"

lemma scan_fresh_trace: "rel_sum (=) use_of (scan_fresh depth W f ms scope) (fresh_trace depth W f ms scope)"
  using scan_with_rel [where R = use_of, OF use_of_leaf use_of_none use_of_merge,
    where depth = depth and W = W and f = f and ms = ms and scope = scope and ce = "[]" and v = "[]"]
  by (auto simp: scan_fresh_def fresh_trace_def scan_usage_with scan_trace_def rel_prod_sel)

text \<open>The functions that the autouse fixtures of a class go through, and those of a test with them.\<close>

fun autouse_trace :: "nat \<Rightarrow> file_world \<Rightarrow> methods \<Rightarrow> file_scope \<Rightarrow> (string \<times> node) list \<Rightarrow> visit_record list result" where
  "autouse_trace depth W ms scope [] = Inr []"
| "autouse_trace depth W ms scope ((x, f) # fs) =
     (if is_autouse_fixture (decorators f)
      then rbind (fresh_trace depth W f ms scope) (\<lambda>tr.
             rbind (autouse_trace depth W ms scope fs) (\<lambda>tr'. Inr (tr @ tr')))
      else autouse_trace depth W ms scope fs)"

lemma autouse_from_trace:
  "use_of u tr \<Longrightarrow> autouse_from depth W ms scope u fs = Inr u' \<Longrightarrow>
    \<exists>tr'. autouse_trace depth W ms scope fs = Inr tr' \<and> use_of u' (tr @ tr')"
proof (induction fs arbitrary: u tr)
  case Nil
  then show ?case by simp
next
  case (Cons xf fs)
  obtain x f where xf: "xf = (x, f)" by (cases xf)
  show ?case
  proof (cases "is_autouse_fixture (decorators f)")
    case True
    then obtain sub where sub: "scan_fresh depth W f ms scope = Inr sub"
      "autouse_from depth W ms scope (merge_usage u sub) fs = Inr u'"
      using Cons.prems(2) xf by (auto simp: result_simps)
    then obtain str where str: "fresh_trace depth W f ms scope = Inr str" "use_of sub str"
      using scan_fresh_trace [of depth W f ms scope] by (auto elim: rel_sum.cases)
    from Cons.IH [OF use_of_merge [OF Cons.prems(1) str(2)] sub(2)] show ?thesis
      using True xf str(1) by auto
  next
    case False
    then show ?thesis using Cons xf by auto
  qed
qed

lemma class_autouse_trace:
  "class_autouse_usage depth W ms scope = Inr u \<Longrightarrow> \<exists>tr. autouse_trace depth W ms scope ms = Inr tr \<and> use_of u tr"
  using autouse_from_trace [OF use_of_none] by (fastforce simp: class_autouse_usage_def)

section \<open>What a trace goes through\<close>

text \<open>
  A run from \<open>v\<close> that goes through \<open>tr\<close>: each function once, none that was visited before, and the
  targets of all calls that resolve are visited afterwards.
\<close>

definition ids_of :: "visit_record list \<Rightarrow> nat list" where
  "ids_of tr = map (\<lambda>v. node_id (fun_of v)) tr"

definition calls_visited :: "file_world \<Rightarrow> nat set \<Rightarrow> node list \<Rightarrow> methods \<Rightarrow> file_scope \<Rightarrow> bool" where
  "calls_visited W V ns ms scope = (\<forall>n \<in> set ns. \<forall>t tms tscope im.
     resolve_call W ms scope n = Inr (Some (t, tms, tscope, im)) \<longrightarrow> node_id t \<in> V)"

definition trace_closed :: "file_world \<Rightarrow> nat set \<Rightarrow> visit_record list \<Rightarrow> bool" where
  "trace_closed W V tr = (\<forall>(g, gms, gscope, env) \<in> set tr. calls_visited W V (walk g) gms gscope)"

definition goes_through :: "file_world \<Rightarrow> nat list \<Rightarrow> visit_record list \<Rightarrow> nat list \<Rightarrow> bool" where
  "goes_through W v tr v' = (set v' = set v \<union> set (ids_of tr) \<and> distinct (ids_of tr)
     \<and> set v \<inter> set (ids_of tr) = {} \<and> trace_closed W (set v') tr)"

lemma calls_visited_mono: "calls_visited W V ns ms scope \<Longrightarrow> V \<subseteq> V' \<Longrightarrow> calls_visited W V' ns ms scope"
  by (fastforce simp: calls_visited_def)

lemma trace_closed_mono: "trace_closed W V tr \<Longrightarrow> V \<subseteq> V' \<Longrightarrow> trace_closed W V' tr"
  by (auto simp: trace_closed_def intro: calls_visited_mono)

lemma goes_through_append:
  assumes "goes_through W v tr v1" "goes_through W v1 tr' v2"
  shows "goes_through W v (tr @ tr') v2"
proof -
  have "trace_closed W (set v2) tr"
    using assms by (auto simp: goes_through_def intro: trace_closed_mono)
  then show ?thesis
    using assms by (auto simp: goes_through_def ids_of_def trace_closed_def)
qed

lemma scan_calls_through:
  assumes "\<And>t tms tscope env v tr v'. scan t tms tscope env v = (Inr tr, v') \<Longrightarrow> goes_through W v tr v' \<and> node_id t \<in> set v'"
    and "scan_calls scan (@) W ms scope env ns u v = (Inr tr, v')"
  shows "\<exists>new. tr = u @ new \<and> goes_through W v new v' \<and> calls_visited W (set v') ns ms scope"
  using assms(2)
proof (induction ns arbitrary: u v)
  case Nil
  then show ?case by (simp add: goes_through_def ids_of_def trace_closed_def calls_visited_def)
next
  case (Cons n ns)
  obtain r where r: "resolve_call W ms scope n = Inr r"
    using Cons.prems by (cases "resolve_call W ms scope n") (simp_all add: io_bind_def)
  show ?case
  proof (cases r)
    case None
    then have "scan_calls scan (@) W ms scope env ns u v = (Inr tr, v')"
      using Cons.prems r by (simp add: io_bind_def)
    from Cons.IH [OF this] show ?thesis using r None by (auto simp: calls_visited_def)
  next
    case (Some tgt)
    obtain t tms tscope im where tgt: "tgt = (t, tms, tscope, im)" by (cases tgt)
    obtain sub v1 where sub: "scan t tms tscope (call_site_env n t env im) v = (Inr sub, v1)"
      "scan_calls scan (@) W ms scope env ns (u @ sub) v1 = (Inr tr, v')"
      using Cons.prems r Some tgt by (auto simp: io_bind_def split: prod.splits sum.splits)
    from Cons.IH [OF sub(2)] obtain new where new: "tr = (u @ sub) @ new" "goes_through W v1 new v'"
      "calls_visited W (set v') ns ms scope" by blast
    moreover have "goes_through W v sub v1 \<and> node_id t \<in> set v1" using assms(1) [OF sub(1)] .
    moreover have "set v1 \<subseteq> set v'" using new(2) by (auto simp: goes_through_def)
    ultimately show ?thesis
      using r Some tgt by (intro exI [of _ "sub @ new"]) (auto simp: calls_visited_def intro: goes_through_append)
  qed
qed

lemma scan_trace_through:
  "scan_trace depth W f ms scope ce v = (Inr tr, v') \<Longrightarrow> goes_through W v tr v' \<and> node_id f \<in> set v'"
proof (induction depth arbitrary: f ms scope ce v tr v')
  case 0
  then show ?case by (simp add: scan_trace_def)
next
  case (Suc depth)
  show ?case
  proof (cases "node_id f \<in> set v")
    case True
    then show ?thesis
      using Suc.prems by (auto simp: scan_trace_def goes_through_def ids_of_def trace_closed_def)
  next
    case False
    let ?env = "scan_env f ce"
    have calls: "scan_calls (scan_trace depth W) (@) W ms scope ?env (walk f) [(f, ms, scope, ?env)] (node_id f # v) = (Inr tr, v')"
      using Suc.prems False by (simp add: scan_trace_def Let_def)
    have "\<exists>new. tr = [(f, ms, scope, ?env)] @ new \<and> goes_through W (node_id f # v) new v'
        \<and> calls_visited W (set v') (walk f) ms scope"
      by (rule scan_calls_through [OF _ calls]) (rule Suc.IH)
    then obtain new where new: "tr = (f, ms, scope, ?env) # new"
      "goes_through W (node_id f # v) new v'" "calls_visited W (set v') (walk f) ms scope" by auto
    then show ?thesis
      using False by (auto simp: goes_through_def ids_of_def trace_closed_def fun_of_def)
  qed
qed

lemma scan_trace_head:
  assumes "scan_trace depth W f ms scope ce [] = (Inr tr, v')"
  shows "\<exists>new. tr = (f, ms, scope, scan_env f ce) # new"
proof (cases depth)
  case 0
  then show ?thesis using assms by (simp add: scan_trace_def)
next
  case (Suc d)
  have calls: "scan_calls (scan_trace d W) (@) W ms scope (scan_env f ce) (walk f) [(f, ms, scope, scan_env f ce)] [node_id f] = (Inr tr, v')"
    using assms Suc by (simp add: scan_trace_def Let_def)
  have "\<exists>new. tr = [(f, ms, scope, scan_env f ce)] @ new \<and> goes_through W [node_id f] new v'
      \<and> calls_visited W (set v') (walk f) ms scope"
    by (rule scan_calls_through [OF _ calls]) (rule scan_trace_through)
  then show ?thesis by auto
qed


section \<open>Accepted tests\<close>

definition stack_methods :: "class_stack \<Rightarrow> methods" where
  "stack_methods S = (case cs_inner S of Some (ms, au) \<Rightarrow> ms | None \<Rightarrow> [])"

text \<open>What the checker keeps for the innermost class is the use of its autouse fixtures.\<close>

definition stack_ok :: "nat \<Rightarrow> file_world \<Rightarrow> file_scope \<Rightarrow> class_stack \<Rightarrow> bool" where
  "stack_ok depth W scope S =
     (case cs_inner S of None \<Rightarrow> True | Some (ms, au) \<Rightarrow> class_autouse_usage depth W ms scope = Inr au)"

definition test_trace :: "nat \<Rightarrow> file_world \<Rightarrow> file_scope \<Rightarrow> class_stack \<Rightarrow> node \<Rightarrow> visit_record list result" where
  "test_trace depth W scope S f =
     rbind (fresh_trace depth W f (stack_methods S) scope) (\<lambda>tr.
     rbind (autouse_trace depth W (stack_methods S) scope (stack_methods S)) (\<lambda>tr'. Inr (tr @ tr')))"

definition covered :: "(string, int) pydict \<Rightarrow> (string \<times> int) set \<Rightarrow> string set \<Rightarrow> bool" where
  "covered declared A L =
     ((\<forall>(m, n) \<in> A. (m = MIN_CLUSTERS_MARKER \<and> n < MIN_CLUSTERS_THRESHOLD) \<or> (\<exists>k. map_of declared m = Some k \<and> n \<le> k))
      \<and> (\<forall>m \<in> L. m = MIN_CLUSTERS_MARKER \<or> d_has declared m))"

lemma no_index_violations:
  assumes "holds_top required A"
  shows "index_violations line name declared required = [] \<longleftrightarrow> covered declared A {}"
proof -
  have entry: "(m, n) \<in> set required \<longleftrightarrow> n \<in> needs A m \<and> (\<forall>k \<in> needs A m. k \<le> n)" for m n
  proof -
    have "distinct (map fst required)" using assms by (simp add: holds_top_def d_wf_def)
    then have "(m, n) \<in> set required \<longleftrightarrow> map_of required m = Some n" by simp
    also have "\<dots> \<longleftrightarrow> n \<in> needs A m \<and> (\<forall>k \<in> needs A m. k \<le> n)"
      using assms finite_needs [of A m] by (simp add: holds_top_def max_opt_Some_iff)
    finally show ?thesis .
  qed
  have greatest: "\<exists>n. (m, n) \<in> set required \<and> k \<le> n" if "(m, k) \<in> A" for m k
  proof -
    have "finite (needs A m)" "k \<in> needs A m"
      using that assms by (simp_all add: finite_needs holds_top_def) (simp add: needs_def)
    moreover from this have "Max (needs A m) \<in> needs A m" by (intro Max_in) auto
    ultimately have "(m, Max (needs A m)) \<in> set required \<and> k \<le> Max (needs A m)"
      using entry [of m "Max (needs A m)"] by simp
    then show ?thesis by blast
  qed
  have sub: "set required \<subseteq> A" using entry by (auto simp: needs_def)
  have "index_violations line name declared required = [] \<longleftrightarrow>
      (\<forall>(m, n) \<in> set required. (m = MIN_CLUSTERS_MARKER \<and> n < MIN_CLUSTERS_THRESHOLD)
        \<or> (\<exists>k. map_of declared m = Some k \<and> n \<le> k))"
    unfolding index_violations_def concat_eq_Nil_conv set_map ball_simps
    by (intro ball_cong refl) (auto split: option.splits if_splits)
  also have "\<dots> \<longleftrightarrow> covered declared A {}"
  proof
    assume *: "\<forall>(m, n) \<in> set required. (m = MIN_CLUSTERS_MARKER \<and> n < MIN_CLUSTERS_THRESHOLD)
        \<or> (\<exists>k. map_of declared m = Some k \<and> n \<le> k)"
    have "(m = MIN_CLUSTERS_MARKER \<and> k < MIN_CLUSTERS_THRESHOLD) \<or> (\<exists>j. map_of declared m = Some j \<and> k \<le> j)"
      if mk: "(m, k) \<in> A" for m k
    proof -
      obtain n where "(m, n) \<in> set required" "k \<le> n" using greatest [OF mk] by blast
      then show ?thesis using bspec [OF *, of "(m, n)"] by auto
    qed
    then show "covered declared A {}" by (auto simp: covered_def)
  next
    assume "covered declared A {}"
    then show "\<forall>(m, n) \<in> set required. (m = MIN_CLUSTERS_MARKER \<and> n < MIN_CLUSTERS_THRESHOLD)
        \<or> (\<exists>k. map_of declared m = Some k \<and> n \<le> k)"
      using sub unfolding covered_def by blast
  qed
  finally show ?thesis .
qed

lemma no_violations:
  assumes "holds_top required A"
  shows "index_violations line name declared required @ list_violations line name declared required dynamic = []
    \<longleftrightarrow> covered declared A (set dynamic)"
proof -
  have "d_has required m \<longleftrightarrow> (\<exists>n. (m, n) \<in> A)" for m
    using assms by (auto simp: d_has_def holds_top_def max_opt_def needs_def)
  then have "(\<forall>m \<in> set dynamic. d_has required m \<or> m = MIN_CLUSTERS_MARKER \<or> d_has declared m)
      \<longleftrightarrow> (\<forall>m \<in> set dynamic. m = MIN_CLUSTERS_MARKER \<or> d_has declared m)" if "covered declared A {}"
    using that by (fastforce simp: covered_def d_has_def)
  moreover have "list_violations line name declared required dynamic = []
      \<longleftrightarrow> (\<forall>m \<in> set dynamic. d_has required m \<or> m = MIN_CLUSTERS_MARKER \<or> d_has declared m)"
    by (auto simp: list_violations_def filter_empty_conv)
  moreover have "covered declared A (set dynamic) \<longleftrightarrow> covered declared A {}
      \<and> (\<forall>m \<in> set dynamic. m = MIN_CLUSTERS_MARKER \<or> d_has declared m)"
    by (simp add: covered_def)
  ultimately show ?thesis
    using no_index_violations [OF assms, of line name declared] by simp blast
qed

lemma covered_trace:
  "covered declared (trace_needs tr) (trace_lists tr) \<longleftrightarrow>
    (\<forall>v \<in> set tr. covered declared (index_uses (env_of v) (walk (fun_of v))) (list_uses (env_of v) (fun_of v)))"
  by (fastforce simp: covered_def trace_needs_def trace_lists_def)

lemma test_usage_trace:
  assumes "stack_ok depth W scope S" "scan_fresh depth W f (stack_methods S) scope = Inr u"
  shows "\<exists>tr. test_trace depth W scope S f = Inr tr
    \<and> use_of (case cs_inner S of Some (ms, au) \<Rightarrow> merge_usage u au | None \<Rightarrow> u) tr"
proof -
  obtain tr where tr: "fresh_trace depth W f (stack_methods S) scope = Inr tr" "use_of u tr"
    using scan_fresh_trace [of depth W f "stack_methods S" scope] assms(2) by (auto elim: rel_sum.cases)
  show ?thesis
  proof (cases "cs_inner S")
    case None
    then show ?thesis using tr by (simp add: test_trace_def stack_methods_def)
  next
    case (Some inner)
    obtain ms au where inner: "inner = (ms, au)" by (cases inner)
    then have "class_autouse_usage depth W ms scope = Inr au" using assms(1) Some by (simp add: stack_ok_def)
    from class_autouse_trace [OF this] obtain tr' where "autouse_trace depth W ms scope ms = Inr tr'" "use_of au tr'" by blast
    then show ?thesis
      using tr Some inner by (auto simp: test_trace_def stack_methods_def intro: use_of_merge)
  qed
qed

text \<open>
  C10. When a test is accepted.  The check reports nothing for a test exactly when every function that
  the test and the autouse fixtures of its class go through is covered by the markers of the test and
  its classes: each list of the topology indexed by a constant has a declared minimum that is large
  enough (a first cluster needs none), and each list used otherwise has a declared marker.
\<close>

theorem accepted_iff_covered:
  assumes "prefix ''test_'' name" "stack_ok depth W scope S"
    and "check_function depth W scope S (FunctionDef i name args body decs rest line) = Inr vs"
  shows "\<exists>tr. test_trace depth W scope S (FunctionDef i name args body decs rest line) = Inr tr
    \<and> ((\<forall>v \<in> set tr. parsed (fun_of v)) \<longrightarrow>
       (vs = [] \<longleftrightarrow> (\<forall>v \<in> set tr. covered (d_update (foldl d_update [] (cs_markers S)) (min_markers decs))
          (index_uses (env_of v) (walk (fun_of v))) (list_uses (env_of v) (fun_of v)))))"
proof -
  let ?f = "FunctionDef i name args body decs rest line"
  let ?declared = "d_update (foldl d_update [] (cs_markers S)) (min_markers decs)"
  obtain u where u: "scan_fresh depth W ?f (stack_methods S) scope = Inr u"
    using assms(1,3) by (auto simp: stack_methods_def Let_def result_simps)
  let ?u = "case cs_inner S of Some (ms, au) \<Rightarrow> merge_usage u au | None \<Rightarrow> u"
  have vs: "vs = index_violations line name ?declared (fst ?u) @ list_violations line name ?declared (fst ?u) (snd ?u)"
    using assms(1,3) u by (simp add: stack_methods_def Let_def)
  obtain tr where tr: "test_trace depth W scope S ?f = Inr tr" "use_of ?u tr"
    using test_usage_trace [OF assms(2) u] by blast
  have "vs = [] \<longleftrightarrow> covered ?declared (trace_needs tr) (trace_lists tr)" if "\<forall>v \<in> set tr. parsed (fun_of v)"
  proof -
    have "holds_top (fst ?u) (trace_needs tr)" "set (snd ?u) = trace_lists tr"
      using tr(2) that by (simp_all add: use_of_def)
    with no_violations [OF this(1), of line name ?declared "snd ?u"] show ?thesis unfolding vs by simp
  qed
  then show ?thesis using tr(1) unfolding covered_trace by (intro exI [of _ tr]) simp
qed

section \<open>Examples\<close>

text \<open>A test that hands its argument to a helper of the same file, which indexes a list of the topology.\<close>

definition no_args :: "string list \<Rightarrow> node" where
  "no_args xs = Arguments [] (map (\<lambda>x. Arg x None) xs) None [] [] None []"

definition gateway_helper :: node where
  "gateway_helper = FunctionDef 1 ''helper'' (no_args [''x''])
     [Other [Subscript (Attribute 2 (Name ''x'') ''sync_gateways'') (Int_const 1)]] [] [] 1"

definition call_helper :: "string \<Rightarrow> node" where
  "call_helper x = Other [Call (Name ''helper'') [Name x] []]"

definition helper_test :: "string list \<Rightarrow> node" where
  "helper_test xs = FunctionDef 3 ''test_a'' (no_args [''cblpytest'', ''other'']) (map call_helper xs) [] [] 3"

definition one_file :: "node list \<Rightarrow> file_world" where
  "one_file body = \<lparr> fw_parse = (\<lambda>p. Inr body), fw_find_spec = (\<lambda>m. None), fw_is_file = (\<lambda>p. False) \<rparr>"

definition helper_scope :: file_scope where
  "helper_scope = build_scope [gateway_helper, helper_test [''cblpytest'']] [''t.py'']"

definition no_classes :: class_stack where
  "no_classes = \<lparr> cs_markers = [], cs_inner = None \<rparr>"

text \<open>
  A helper is traced for its first call only: a call that passes something of unknown type before the
  one that passes the topology hides the use from the check.
\<close>

lemma helper_traced_once:
  "check_function 5 (one_file [gateway_helper, helper_test [''other'', ''cblpytest'']]) helper_scope no_classes
    (helper_test [''other'', ''cblpytest'']) = Inr []"
  by code_simp

text \<open>The origin of a frozen module of the standard library is not \<open>built-in\<close> and is opened as a file.\<close>

lemma frozen_import_raises:
  "main 4 \<lparr> fw_parse = (\<lambda>p. if p = [''frozen''] then Inl FileNotFoundError else Inr
        [ImportFrom (Some ''os'') [(''getenv'', None)] 0,
         FunctionDef 1 ''test_a'' (no_args []) [Other [Call (Name ''getenv'') [Other_const] []]] [] [] 2]),
      fw_find_spec = (\<lambda>m. if m = ''os'' then Some (Some [''frozen'']) else None), fw_is_file = (\<lambda>p. False) \<rparr> [[''t.py'']]
    = Inl FileNotFoundError"
  by code_simp

lemma helper_ids:
  "list_all (\<lambda>n. node_id n \<in> {0, 1, 2, 3}) (walk (Other [gateway_helper, helper_test [''cblpytest'']]))"
  by code_simp

lemma helper_fresh:
  "(case fresh_trace 5 (one_file [gateway_helper, helper_test [''cblpytest'']]) (helper_test [''cblpytest'']) [] helper_scope of
      Inr tr \<Rightarrow> length tr = 2 | Inl e \<Rightarrow> False)"
  by code_simp

lemma helper_parsed:
  "(case test_trace 5 (one_file [gateway_helper, helper_test [''cblpytest'']]) helper_scope no_classes (helper_test [''cblpytest'']) of
      Inr tr \<Rightarrow> list_all (parsed \<circ> fun_of) tr | Inl e \<Rightarrow> False)"
  by code_simp

lemma helper_reported:
  "check_function 5 (one_file [gateway_helper, helper_test [''cblpytest'']]) helper_scope no_classes (helper_test [''cblpytest''])
    = Inr [No_marker 3 ''test_a'' ''min_sync_gateways'' 2]"
  by code_simp

theorem check_ends_witness:
  "main 5 (one_file [gateway_helper, helper_test [''cblpytest'']]) [[''t.py'']] \<noteq> Inl RecursionError"
proof -
  have "ids_in {0, 1, 2, 3} (Other [gateway_helper, helper_test [''cblpytest'']])"
    using helper_ids walk_below [of "Other [gateway_helper, helper_test [''cblpytest'']]"]
    by (auto simp: ids_in_def list_all_iff)
  then show ?thesis
    by (intro check_ends [of "{0, 1, 2, 3}"]) (auto simp: one_file_def)
qed


theorem accepted_iff_covered_witness:
  "\<exists>tr. test_trace 5 (one_file [gateway_helper, helper_test [''cblpytest'']]) helper_scope no_classes (helper_test [''cblpytest'']) = Inr tr
     \<and> \<not> (\<forall>v \<in> set tr. covered [] (index_uses (env_of v) (walk (fun_of v))) (list_uses (env_of v) (fun_of v)))"
proof -
  let ?W = "one_file [gateway_helper, helper_test [''cblpytest'']]" and ?f = "helper_test [''cblpytest'']"
  have f: "?f = FunctionDef 3 ''test_a'' (no_args [''cblpytest'', ''other'']) (map call_helper [''cblpytest'']) [] [] 3"
    by (simp add: helper_test_def)
  have stack: "stack_ok 5 ?W helper_scope no_classes" by (simp add: stack_ok_def no_classes_def)
  have run: "check_function 5 ?W helper_scope no_classes
      (FunctionDef 3 ''test_a'' (no_args [''cblpytest'', ''other'']) (map call_helper [''cblpytest'']) [] [] 3)
    = Inr [No_marker 3 ''test_a'' ''min_sync_gateways'' 2]"
    by (simp only: f [symmetric] helper_reported)
  obtain tr where tr: "test_trace 5 ?W helper_scope no_classes ?f = Inr tr"
    "(\<forall>v \<in> set tr. parsed (fun_of v)) \<longrightarrow> \<not> (\<forall>v \<in> set tr. covered
       (d_update (foldl d_update [] (cs_markers no_classes)) (min_markers []))
       (index_uses (env_of v) (walk (fun_of v))) (list_uses (env_of v) (fun_of v)))"
    using accepted_iff_covered [OF _ stack run] unfolding f [symmetric] by auto
  moreover have "\<forall>v \<in> set tr. parsed (fun_of v)"
    using helper_parsed tr(1) by (simp add: list_all_iff)
  moreover have "d_update (foldl d_update [] (cs_markers no_classes)) (min_markers []) = []"
    by (simp add: no_classes_def min_markers_def)
  ultimately show ?thesis by auto
qed

end
