(* ===== verification/Multiplatform.thy ===== *)
theory Multiplatform
  imports Json
begin

text \<open>
  Setting up tests on several platforms (\<open>jenkins/pipelines/QE/multiplatform/setup_multiplatform.py\<close>):
  the specifications of platforms with their versions and builds, and the composed topology.  The
  build service, the file system and the start of the backend are parameters; paths are strings.
\<close>

named_theorems platform_simps "rewrite rules for platform specifications"

section \<open>Specifications\<close>

text \<open>Script and parameter format of a platform.\<close>

definition SUPPORTED_PLATFORMS :: "(string, string \<times> string) pydict" where
  "SUPPORTED_PLATFORMS =
     [(''android'', (''../android/android_tests.sh'', ''simple'')), (''ios'', (''../ios/test.sh'', ''ios'')),
      (''dotnet'', (''../dotnet/run_test.sh'', ''target_os'')), (''c'', (''../c/run_test.sh'', ''target_os''))]"

definition build_products :: "(string, string) pydict" where
  "build_products =
     [(''android'', ''android''), (''ios'', ''ios''), (''dotnet'', ''net''), (''java'', ''java''), (''c'', ''c'')]"

text \<open>
  \<open>get\<close> is the request with its check of the status and the reading of the body; \<open>text\<close> is \<open>str\<close>.
  Any failure after the platform is known becomes a plain \<open>Exception\<close>.
\<close>

definition fetch_latest_build :: "(string \<Rightarrow> json result) \<Rightarrow> (json \<Rightarrow> string) \<Rightarrow> string \<Rightarrow> string \<Rightarrow> string result" where
  "fetch_latest_build get text platform version =
     (case map_of build_products platform of
        None \<Rightarrow> Inl ValueError
      | Some p \<Rightarrow>
          (case get (''http://proget.build.couchbase.com:8080/api/get_version?product=couchbase-lite-'' @ p
                     @ ''&version='' @ version @ ''&ee=true'') of
             Inr (JObj data) \<Rightarrow>
               (case get_or_null data ''BuildNumber'' of JNull \<Rightarrow> Inl PlainException | n \<Rightarrow> Inr (text n))
           | _ \<Rightarrow> Inl PlainException))"

record platform_info =
  pi_platform :: string
  pi_platform_key :: string
  pi_version :: string
  pi_build :: string
  pi_target_os :: "string option"
  pi_script_path :: string
  pi_param_format :: string

text \<open>\<open>fetch\<close> is the build service for a platform and a version.\<close>

definition build_for ::
    "(string \<Rightarrow> string \<Rightarrow> string result) \<Rightarrow> bool \<Rightarrow> string \<Rightarrow> string \<Rightarrow> string option \<Rightarrow> string result" where
  "build_for fetch auto_fetch_builds platform version build =
     (case build of
        Some b \<Rightarrow> Inr b
      | None \<Rightarrow>
          if auto_fetch_builds
          then (case fetch platform version of Inr b \<Rightarrow> Inr b | Inl e \<Rightarrow> Inl BadParameter)
          else Inl BadParameter)"

definition version_and_build :: "string \<Rightarrow> string \<times> string option" where
  "version_and_build s =
     (if CHR ''-'' \<in> set s then (let (v, b) = split_first (CHR ''-'') s in (v, Some b)) else (s, None))"

definition parse_platform ::
    "(string \<Rightarrow> string \<Rightarrow> string result) \<Rightarrow> bool \<Rightarrow> string \<Rightarrow> platform_info result" where
  "parse_platform fetch auto_fetch_builds spec =
     (let parts = split_on (CHR '':'') spec
      in if length parts < 2 then Inl BadParameter
         else let platform = py_lower (parts ! 0)
              in case map_of SUPPORTED_PLATFORMS platform of
                   None \<Rightarrow> Inl BadParameter
                 | Some (script, format) \<Rightarrow>
                     let (target_os, version_build) =
                           (if platform \<in> {''dotnet'', ''c''} \<and> 3 \<le> length parts
                            then (Some (parts ! 1), parts ! 2) else (None, parts ! 1));
                         (version, build) = version_and_build version_build
                     in rbind (build_for fetch auto_fetch_builds platform version build) (\<lambda>build.
                          Inr \<lparr> pi_platform = platform,
                                pi_platform_key = (case target_os of
                                    Some os \<Rightarrow> if os \<noteq> [] then platform @ ''_'' @ os else platform
                                  | None \<Rightarrow> platform),
                                pi_version = version, pi_build = build, pi_target_os = target_os,
                                pi_script_path = script, pi_param_format = format \<rparr>))"

definition parse_platform_versions ::
    "(string \<Rightarrow> string \<Rightarrow> string result) \<Rightarrow> bool \<Rightarrow> string \<Rightarrow> platform_info list result" where
  "parse_platform_versions fetch auto_fetch_builds platform_versions =
     mapM (parse_platform fetch auto_fetch_builds) (split_ws platform_versions)"

definition parse_platform_key :: "string \<Rightarrow> string \<times> string option" where
  "parse_platform_key key =
     (if CHR ''_'' \<in> set key then (let (p, os) = split_first (CHR ''_'') key in (p, Some os)) else (key, None))"

section \<open>The composed topology\<close>

definition first_existing :: "(string \<Rightarrow> bool) \<Rightarrow> string list \<Rightarrow> string \<Rightarrow> string list" where
  "first_existing exists patterns d =
     (if exists d then (case find exists (map (path_join d) patterns) of Some f \<Rightarrow> [f] | None \<Rightarrow> []) else [])"

text \<open>
  \<open>script_dir\<close> is the directory of the script and \<open>qe_dir\<close> its parent.  The command line
  passes no name when its argument is left out, and there is no path of no name.
\<close>

definition get_platform_topology_files ::
    "(string \<Rightarrow> bool) \<Rightarrow> string \<Rightarrow> string \<Rightarrow> string \<Rightarrow> string option \<Rightarrow> string option \<Rightarrow> string list result" where
  "get_platform_topology_files exists script_dir qe_dir platform_key target_os topology_file =
     (case topology_file of None \<Rightarrow> Inl TypeError | Some name \<Rightarrow> Inr (
      let multiplatform_topology = path_join script_dir name
      in if exists multiplatform_topology then [multiplatform_topology]
         else let patterns = [''topology_'' @ platform_key @ ''.json'', ''topology_single_device.json'',
                              ''topology_single_host.json'', ''topology.json''];
                  platform_dirs =
                    (case target_os of
                       Some os \<Rightarrow> if os \<noteq> [] then [path_join qe_dir (platform_key @ ''_'' @ os),
                                                    path_join (path_join qe_dir platform_key) os] else []
                     | None \<Rightarrow> []) @ [path_join qe_dir platform_key]
              in concat (map (first_existing exists patterns) platform_dirs)))"

definition platform_to_server_map :: "(string, string list) pydict" where
  "platform_to_server_map =
     [(''android'', [''jak_android'']), (''ios'', [''swift_ios'']),
      (''dotnet'', [''dotnet_windows'', ''dotnet_macos'', ''dotnet_ios'', ''dotnet_android'']),
      (''java'', [''jak_desktop'', ''jak_webservice'']),
      (''c'', [''c_windows'', ''c_macos'', ''c_linux_x86_64'', ''c_ios'', ''c_android''])]"

definition expected_server_platforms :: "string \<Rightarrow> string list" where
  "expected_server_platforms key = (case map_of platform_to_server_map key of Some ps \<Rightarrow> ps | None \<Rightarrow> [key])"

text \<open>The topology under composition: the servers so far and the three entries that are taken over whole.\<close>

record composed =
  co_test_servers :: "jdict list"
  co_sync_gateways :: json
  co_clusters :: json
  co_logslurp :: json

definition empty_composed :: composed where
  "empty_composed = \<lparr> co_test_servers = [], co_sync_gateways = JList [], co_clusters = JList [], co_logslurp = JBool True \<rparr>"

text \<open>A server's platform is compared with the expected ones; one that is not an object has no \<open>get\<close>.\<close>

fun add_servers :: "string list \<Rightarrow> string \<Rightarrow> json list \<Rightarrow> (composed, unit) io" where
  "add_servers expected full_version [] c = (Inr (), c)"
| "add_servers expected full_version (JObj server # servers) c =
     (case map_of server ''platform'' of
        Some (JStr p) \<Rightarrow>
          add_servers expected full_version servers
            (if p \<in> set expected
             then c\<lparr>co_test_servers := co_test_servers c @ [d_set server ''cbl_version'' (JStr full_version)]\<rparr> else c)
      | _ \<Rightarrow> add_servers expected full_version servers c)"
| "add_servers expected full_version (server # servers) c = (Inl AttributeError, c)"

definition take_entries :: "jdict \<Rightarrow> composed \<Rightarrow> composed" where
  "take_entries topology c =
     c\<lparr>co_logslurp := (case map_of topology ''logslurp'' of Some v \<Rightarrow> v | None \<Rightarrow> co_logslurp c),
       co_clusters := (case map_of topology ''clusters'' of Some v \<Rightarrow> v | None \<Rightarrow> co_clusters c),
       co_sync_gateways := (case map_of topology ''sync_gateways'' of Some v \<Rightarrow> v | None \<Rightarrow> co_sync_gateways c)\<rparr>"

text \<open>
  One file.  A value that is not an object has no entries to read: it raises, or nothing is found in
  it; either way nothing is added.  Servers that are not a list raise unless they are empty.
\<close>

definition add_topology :: "json result \<Rightarrow> string list \<Rightarrow> string \<Rightarrow> (composed, unit) io" where
  "add_topology file expected full_version c =
     (case file of
        Inl e \<Rightarrow> (Inl e, c)
      | Inr (JObj topology) \<Rightarrow>
          (case (case map_of topology ''test_servers'' of
                   None \<Rightarrow> (Inr (), c)
                 | Some (JList servers) \<Rightarrow> add_servers expected full_version servers c
                 | Some (JObj d) \<Rightarrow> (if d = [] then Inr () else Inl AttributeError, c)
                 | Some (JStr s) \<Rightarrow> (if s = [] then Inr () else Inl AttributeError, c)
                 | Some _ \<Rightarrow> (Inl TypeError, c)) of
             (Inl e, c) \<Rightarrow> (Inl e, c)
           | (Inr _, c) \<Rightarrow> (Inr (), take_entries topology c))
      | Inr _ \<Rightarrow> (Inl TypeError, c))"

text \<open>A platform without files is skipped, and so is one whose file raises, with what it added kept.\<close>

definition add_platform ::
    "(string \<Rightarrow> json result) \<Rightarrow> string list \<Rightarrow> string \<Rightarrow> string \<Rightarrow> composed \<Rightarrow> composed" where
  "add_platform load files platform_key full_version c =
     (case files of
        [] \<Rightarrow> c
      | f # _ \<Rightarrow> snd (add_topology (load f) (expected_server_platforms platform_key) full_version c))"

fun add_platforms ::
    "(string \<Rightarrow> string list result) \<Rightarrow> (string \<Rightarrow> json result) \<Rightarrow> (string, string) pydict \<Rightarrow> composed \<Rightarrow> composed result" where
  "add_platforms files load [] c = Inr c"
| "add_platforms files load ((platform_key, full_version) # rest) c =
     rbind (files platform_key) (\<lambda>fs. add_platforms files load rest (add_platform load fs platform_key full_version c))"

definition compose_multiplatform_topology ::
    "(string \<Rightarrow> bool) \<Rightarrow> (string \<Rightarrow> json result) \<Rightarrow> string \<Rightarrow> string \<Rightarrow> (string, string) pydict \<Rightarrow> string option \<Rightarrow> composed result" where
  "compose_multiplatform_topology exists load script_dir qe_dir platform_versions topology_file =
     add_platforms (\<lambda>key. get_platform_topology_files exists script_dir qe_dir key None topology_file)
       load platform_versions empty_composed"

text \<open>The entries of a topology in the order in which they are written.\<close>

definition composed_json :: "composed \<Rightarrow> jdict" where
  "composed_json c =
     [(''$schema'', JStr ''topology_schema.json''), (''test_servers'', JList (map JObj (co_test_servers c))),
      (''sync_gateways'', co_sync_gateways c), (''clusters'', co_clusters c), (''logslurp'', co_logslurp c)]"

definition versions_dict :: "platform_info list \<Rightarrow> (string, string) pydict" where
  "versions_dict platforms =
     foldl (\<lambda>d p. d_set d (pi_platform_key p) (pi_version p @ ''-'' @ pi_build p)) [] platforms"

text \<open>The topology that is written before the backend is started with it.\<close>

definition setup_multiplatform_test ::
    "(string \<Rightarrow> string \<Rightarrow> string result) \<Rightarrow> (string \<Rightarrow> bool) \<Rightarrow> (string \<Rightarrow> json result) \<Rightarrow> string \<Rightarrow> string
      \<Rightarrow> (jdict \<Rightarrow> ('w, unit) io) \<Rightarrow> ('w, unit) io
      \<Rightarrow> string \<Rightarrow> string \<Rightarrow> bool \<Rightarrow> string \<Rightarrow> string \<Rightarrow> bool \<Rightarrow> string option \<Rightarrow> ('w, unit) io" where
  "setup_multiplatform_test fetch exists load script_dir qe_dir write_topology start_backend
     platform_versions_str sgw_version config_exists topology_tag couchbase_version auto_fetch_builds topology_file =
     io_bind (io_lift (py_assert config_exists)) (\<lambda>_.
     io_bind (io_lift (parse_platform_versions fetch auto_fetch_builds platform_versions_str)) (\<lambda>platforms.
     io_bind (io_lift (compose_multiplatform_topology exists load script_dir qe_dir (versions_dict platforms) topology_file)) (\<lambda>c.
       let topology = d_set (composed_json c) ''defaults''
             (JObj [(''cbs'', JObj [(''version'', JStr couchbase_version)]), (''sgw'', JObj [(''version'', JStr sgw_version)])]);
           topology = d_set topology ''tag'' (JStr topology_tag)
       in io_bind (write_topology topology) (\<lambda>_. start_backend))))"

text \<open>The command line: the private key takes the place of the Couchbase Server version.\<close>

definition main_setup ::
    "(string \<Rightarrow> string \<Rightarrow> string result) \<Rightarrow> (string \<Rightarrow> bool) \<Rightarrow> (string \<Rightarrow> bool) \<Rightarrow> (string \<Rightarrow> json result) \<Rightarrow> string \<Rightarrow> string
      \<Rightarrow> (jdict \<Rightarrow> ('w, unit) io) \<Rightarrow> ('w, unit) io
      \<Rightarrow> string \<Rightarrow> string \<Rightarrow> string option \<Rightarrow> bool \<Rightarrow> string \<Rightarrow> ('w, int) io" where
  "main_setup fetch exists is_file load script_dir qe_dir write_topology start_backend
     platform_versions sgw_version topology_file no_auto_fetch private_key_path =
     io_try
       (io_bind (setup_multiplatform_test fetch exists load script_dir qe_dir write_topology start_backend
          platform_versions sgw_version (let config = path_join script_dir ''config_multiplatform.json'' in exists config \<and> is_file config) ''multiplatform''
          private_key_path (\<not> no_auto_fetch) topology_file) (\<lambda>_. io_return 0))
       (\<lambda>_. io_return 1)"

section \<open>Reading back a list of specifications\<close>

definition spec_str :: "platform_info \<Rightarrow> string" where
  "spec_str i = pi_platform i @ CHR '':'' # (case pi_target_os i of Some os \<Rightarrow> os @ [CHR '':''] | None \<Rightarrow> [])
     @ pi_version i @ CHR ''-'' # pi_build i"

definition plain_text :: "string \<Rightarrow> bool" where
  "plain_text s = (\<forall>c \<in> set s. c \<noteq> CHR '':'' \<and> \<not> is_space c)"

text \<open>The specifications with an explicit build: only \<open>dotnet\<close> and \<open>c\<close> have a target system.\<close>

definition explicit_spec :: "platform_info \<Rightarrow> bool" where
  "explicit_spec i =
     (map_of SUPPORTED_PLATFORMS (pi_platform i) = Some (pi_script_path i, pi_param_format i)
      \<and> pi_platform_key i = (case pi_target_os i of Some os \<Rightarrow> pi_platform i @ ''_'' @ os | None \<Rightarrow> pi_platform i)
      \<and> plain_text (pi_version i) \<and> CHR ''-'' \<notin> set (pi_version i) \<and> plain_text (pi_build i)
      \<and> (case pi_target_os i of None \<Rightarrow> True
          | Some os \<Rightarrow> pi_platform i \<in> {''dotnet'', ''c''} \<and> os \<noteq> [] \<and> plain_text os))"

lemma supported_platform:
  assumes "map_of SUPPORTED_PLATFORMS p = Some x"
  shows "py_lower p = p \<and> plain_text p \<and> p \<noteq> []"
proof -
  have "p \<in> {''android'', ''ios'', ''dotnet'', ''c''}"
    using assms by (auto simp: SUPPORTED_PLATFORMS_def split: if_splits)
  moreover have "list_all (\<lambda>p. py_lower p = p \<and> plain_text p \<and> p \<noteq> []) [''android'', ''ios'', ''dotnet'', ''c'']"
    unfolding plain_text_def by code_simp
  ultimately show ?thesis by auto
qed

lemma plain_colon [platform_simps]: "plain_text s \<Longrightarrow> CHR '':'' \<notin> set s"
  by (auto simp: plain_text_def)

lemma version_and_build_dash: "CHR ''-'' \<notin> set v \<Longrightarrow> version_and_build (v @ CHR ''-'' # b) = (v, Some b)"
  by (simp add: version_and_build_def split_first_append)

lemma split_on_join: "\<forall>w \<in> set ws. c \<notin> set w \<Longrightarrow> ws \<noteq> [] \<Longrightarrow> split_on c (join_with c ws) = ws"
  by (rule split_join) auto

lemma parse_explicit:
  assumes "explicit_spec i"
  shows "parse_platform fetch auto (spec_str i) = Inr i"
proof -
  have p: "py_lower (pi_platform i) = pi_platform i" "CHR '':'' \<notin> set (pi_platform i)"
    using assms supported_platform [of "pi_platform i"] by (auto simp: explicit_spec_def platform_simps)
  have vb: "CHR '':'' \<notin> set (pi_version i @ CHR ''-'' # pi_build i)"
    using assms by (auto simp: explicit_spec_def platform_simps)
  show ?thesis
  proof (cases "pi_target_os i")
    case None
    have "spec_str i = join_with (CHR '':'') [pi_platform i, pi_version i @ CHR ''-'' # pi_build i]"
      using None by (simp add: spec_str_def)
    then have "split_on (CHR '':'') (spec_str i) = [pi_platform i, pi_version i @ CHR ''-'' # pi_build i]"
      using p vb by (simp only:) (rule split_on_join, auto)
    then show ?thesis
      using assms None p
      by (cases i) (simp add: parse_platform_def explicit_spec_def version_and_build_dash build_for_def Let_def)
  next
    case (Some os)
    have "spec_str i = join_with (CHR '':'') [pi_platform i, os, pi_version i @ CHR ''-'' # pi_build i]"
      using Some by (simp add: spec_str_def)
    moreover have "CHR '':'' \<notin> set os" using assms Some by (auto simp: explicit_spec_def platform_simps)
    ultimately have "split_on (CHR '':'') (spec_str i) = [pi_platform i, os, pi_version i @ CHR ''-'' # pi_build i]"
      using p vb by (simp only:) (rule split_on_join, auto)
    then show ?thesis
      using assms Some p
      by (cases i) (auto simp: parse_platform_def explicit_spec_def version_and_build_dash build_for_def Let_def)
  qed
qed

lemma split_ws_word: "w \<noteq> [] \<Longrightarrow> \<forall>c \<in> set w. \<not> is_space c \<Longrightarrow> split_ws w = [w]"
proof (induction w)
  case Nil
  then show ?case by simp
next
  case (Cons x xs)
  then show ?case by (cases xs) auto
qed

lemma split_ws_append:
  "w \<noteq> [] \<Longrightarrow> \<forall>c \<in> set w. \<not> is_space c \<Longrightarrow> is_space d \<Longrightarrow> split_ws (w @ d # rest) = w # split_ws rest"
proof (induction w)
  case Nil
  then show ?case by simp
next
  case (Cons x xs)
  then show ?case by (cases xs) auto
qed

lemma split_ws_join:
  "\<forall>w \<in> set ws. w \<noteq> [] \<and> (\<forall>c \<in> set w. \<not> is_space c) \<Longrightarrow> split_ws (join_with (CHR '' '') ws) = ws"
proof (induction ws)
  case Nil
  then show ?case by simp
next
  case (Cons w ws)
  then show ?case
    by (cases ws) (auto simp: split_ws_word split_ws_append is_space_def)
qed

lemma plain_unspaced: "plain_text s \<Longrightarrow> \<forall>c \<in> set s. \<not> is_space c"
  unfolding plain_text_def by blast

lemma unspaced_separators:
  assumes "\<not> P d" "\<not> P e" "\<forall>c \<in> set p. \<not> P c" "\<forall>c \<in> set v. \<not> P c" "\<forall>c \<in> set b. \<not> P c"
    "\<forall>os. t = Some os \<longrightarrow> (\<forall>c \<in> set os. \<not> P c)"
  shows "\<forall>c \<in> set (p @ d # (case t of Some os \<Rightarrow> os @ [d] | None \<Rightarrow> []) @ v @ e # b). \<not> P c"
  using assms by (auto split: option.splits)

lemma spec_str_word:
  assumes "explicit_spec i"
  shows "spec_str i \<noteq> [] \<and> (\<forall>c \<in> set (spec_str i). \<not> is_space c)"
proof
  show "spec_str i \<noteq> []" by (simp add: spec_str_def)
  have colon: "\<not> is_space (CHR '':'')" by code_simp
  have dash: "\<not> is_space (CHR ''-'')" by code_simp
  have parts: "plain_text (pi_version i)" "plain_text (pi_build i)" "\<forall>os. pi_target_os i = Some os \<longrightarrow> plain_text os"
    and supp: "map_of SUPPORTED_PLATFORMS (pi_platform i) = Some (pi_script_path i, pi_param_format i)"
    using assms unfolding explicit_spec_def by (simp_all only: option.case option.inject option.distinct simp_thms split: option.splits)
  have p: "\<forall>c \<in> set (pi_platform i). \<not> is_space c"
    using supported_platform [OF supp] plain_unspaced by blast
  have "\<forall>c \<in> set (pi_version i). \<not> is_space c" "\<forall>c \<in> set (pi_build i). \<not> is_space c"
    "\<forall>os. pi_target_os i = Some os \<longrightarrow> (\<forall>c \<in> set os. \<not> is_space c)"
    using parts plain_unspaced by blast+
  then show "\<forall>c \<in> set (spec_str i). \<not> is_space c"
    unfolding spec_str_def by (rule unspaced_separators [where P = is_space, OF colon dash p])
qed

text \<open>
  Specifications of platforms with explicit builds, separated by blanks, are read back as they
  were written: platform, target system, version and build, with the platform's script and key, in
  order and without asking the build service.
\<close>

theorem explicit_specs_read_back:
  assumes "\<forall>i \<in> set infos. explicit_spec i"
  shows "parse_platform_versions fetch auto (join_with (CHR '' '') (map spec_str infos)) = Inr infos"
proof -
  have "split_ws (join_with (CHR '' '') (map spec_str infos)) = map spec_str infos"
    using assms spec_str_word by (intro split_ws_join) auto
  moreover have "mapM (parse_platform fetch auto) (map spec_str infos) = Inr infos"
    using assms by (induction infos) (auto simp: parse_explicit)
  ultimately show ?thesis by (simp add: parse_platform_versions_def)
qed

theorem explicit_specs_read_back_witness:
  "map_sum id (map pi_platform_key) (parse_platform_versions (\<lambda>p v. Inl ValueError) False ''dotnet:windows:3.2.0-8 ios:3.2.3-6'')
     = Inr [''dotnet_windows'', ''ios'']"
proof -
  let ?is = "[\<lparr> pi_platform = ''dotnet'', pi_platform_key = ''dotnet_windows'', pi_version = ''3.2.0'', pi_build = ''8'',
      pi_target_os = Some ''windows'', pi_script_path = ''../dotnet/run_test.sh'', pi_param_format = ''target_os'' \<rparr>,
    \<lparr> pi_platform = ''ios'', pi_platform_key = ''ios'', pi_version = ''3.2.3'', pi_build = ''6'',
      pi_target_os = None, pi_script_path = ''../ios/test.sh'', pi_param_format = ''ios'' \<rparr>]"
  have "list_all explicit_spec ?is" unfolding explicit_spec_def plain_text_def by code_simp
  moreover have "join_with (CHR '' '') (map spec_str ?is) = ''dotnet:windows:3.2.0-8 ios:3.2.3-6''"
    by (simp add: spec_str_def)
  ultimately show ?thesis
    using explicit_specs_read_back [of ?is "\<lambda>p v. Inl ValueError" False] by (simp add: list_all_iff)
qed

section \<open>What is composed\<close>

text \<open>A server that was taken from a file for one of the platforms, with the version of it.\<close>

definition requested_server :: "(string, string) pydict \<Rightarrow> jdict \<Rightarrow> bool" where
  "requested_server platform_versions server =
     (\<exists>(key, v) \<in> set platform_versions.
        map_of server ''cbl_version'' = Some (JStr v)
        \<and> (\<exists>p \<in> set (expected_server_platforms key). map_of server ''platform'' = Some (JStr p)))"

definition with_version :: "string \<Rightarrow> jdict \<Rightarrow> jdict" where
  "with_version v server = d_set server ''cbl_version'' (JStr v)"

definition expected_server :: "string list \<Rightarrow> jdict \<Rightarrow> bool" where
  "expected_server expected server =
     (case map_of server ''platform'' of Some (JStr p) \<Rightarrow> p \<in> set expected | _ \<Rightarrow> False)"

lemma with_version_entries [platform_simps]:
  "map_of (with_version v s) ''cbl_version'' = Some (JStr v)"
  "map_of (with_version v s) ''platform'' = map_of s ''platform''"
  by (simp_all add: with_version_def map_of_d_set)

text \<open>Whatever the list holds, only expected servers with the version are added, in order.\<close>

lemma add_servers_object:
  "add_servers ps v (JObj s # servers) c = add_servers ps v servers
     (if expected_server ps s then c\<lparr>co_test_servers := co_test_servers c @ [with_version v s]\<rparr> else c)"
  by (simp add: expected_server_def with_version_def split: option.splits json.splits)

lemma add_servers_prefix:
  "\<exists>taken. co_test_servers (snd (add_servers ps v servers c))
       = co_test_servers c @ map (with_version v) (filter (expected_server ps) taken)"
proof (induction servers arbitrary: c)
  case Nil
  then show ?case by (auto intro: exI [of _ "[]"])
next
  case (Cons x servers)
  show ?case
  proof (cases "\<exists>s. x = JObj s")
    case True
    then obtain s where s: "x = JObj s" by blast
    let ?c = "if expected_server ps s then c\<lparr>co_test_servers := co_test_servers c @ [with_version v s]\<rparr> else c"
    obtain taken where "co_test_servers (snd (add_servers ps v servers ?c))
        = co_test_servers ?c @ map (with_version v) (filter (expected_server ps) taken)"
      using Cons by blast
    then show ?thesis
      unfolding s add_servers_object by (intro exI [of _ "s # taken"]) simp
  next
    case False
    then show ?thesis by (cases x) (auto intro: exI [of _ "[]"])
  qed
qed

lemma add_topology_prefix:
  "\<exists>taken. co_test_servers (snd (add_topology file ps v c))
       = co_test_servers c @ map (with_version v) (filter (expected_server ps) taken)"
proof -
  have none: "\<exists>taken. co_test_servers c = co_test_servers c @ map (with_version v) (filter (expected_server ps) taken)"
    by (intro exI [of _ "[]"]) simp
  have kept: "co_test_servers (take_entries t d) = co_test_servers d" for t d
    by (simp add: take_entries_def)
  show ?thesis
    using none add_servers_prefix [of ps v _ c]
    by (auto simp: add_topology_def kept split: sum.split json.split option.split prod.split) (metis snd_conv)+
qed

lemma with_version_requested:
  assumes "(key, v) \<in> set pv" "expected_server (expected_server_platforms key) s"
  shows "requested_server pv (with_version v s)"
proof -
  obtain p where "map_of s ''platform'' = Some (JStr p)" "p \<in> set (expected_server_platforms key)"
    using assms(2) by (auto simp: expected_server_def split: option.splits json.splits)
  then show ?thesis
    using assms(1) unfolding requested_server_def by (auto simp: platform_simps intro!: bexI [of _ "(key, v)"])
qed

lemma add_platforms_requested:
  assumes "add_platforms files load pv c = Inr c'" "set pv \<subseteq> set all"
    "\<forall>s \<in> set (co_test_servers c). requested_server all s"
  shows "\<forall>s \<in> set (co_test_servers c'). requested_server all s"
  using assms
proof (induction pv arbitrary: c)
  case Nil
  then show ?case by simp
next
  case (Cons e pv)
  obtain key v where e: "e = (key, v)" by (cases e)
  obtain fs where rest: "add_platforms files load pv (add_platform load fs key v c) = Inr c'"
    using Cons.prems(1) e by (auto elim: rbind_InrE)
  have "\<exists>taken. co_test_servers (add_platform load fs key v c) = co_test_servers c
      @ map (with_version v) (filter (expected_server (expected_server_platforms key)) taken)"
    using add_topology_prefix by (auto simp: add_platform_def intro: exI [of _ "[]"] split: list.split)
  moreover have "(key, v) \<in> set all" using Cons.prems(2) e by simp
  ultimately have "\<forall>s \<in> set (co_test_servers (add_platform load fs key v c)). requested_server all s"
    using Cons.prems(3) with_version_requested by fastforce
  then show ?case using Cons.IH [OF rest] Cons.prems(2) by simp
qed

text \<open>
  Whatever the files are, missing, unreadable or malformed, every test server of a composed
  topology is of a platform that was asked for and carries the version and build asked for with it.
\<close>

theorem composed_servers_requested:
  "case compose_multiplatform_topology exists load script_dir qe_dir platform_versions topology_file of
     Inr c \<Rightarrow> list_all (requested_server platform_versions) (co_test_servers c)
   | Inl e \<Rightarrow> topology_file = None \<and> platform_versions \<noteq> []"
proof (cases "compose_multiplatform_topology exists load script_dir qe_dir platform_versions topology_file")
  case (Inr c)
  have "\<forall>s \<in> set (co_test_servers c). requested_server platform_versions s"
    by (rule add_platforms_requested [OF Inr [unfolded compose_multiplatform_topology_def]])
      (simp_all add: empty_composed_def)
  then show ?thesis using Inr by (simp add: list_all_iff)
next
  case (Inl e)
  have "add_platforms files load pv c \<noteq> Inl e" if "\<forall>k. \<exists>fs. files k = Inr fs" for files pv c
    using that
  proof (induction pv arbitrary: c)
    case (Cons a pv)
    obtain k v where a: "a = (k, v)" by (cases a)
    obtain fs where "files k = Inr fs" using Cons.prems by blast
    then show ?case using Cons.IH [OF Cons.prems] by (simp add: a)
  qed simp
  then show ?thesis
    using Inl by (cases topology_file; cases platform_versions)
      (auto simp: compose_multiplatform_topology_def get_platform_topology_files_def)
qed

text \<open>
  With one readable topology file for all platforms, the composed servers are exactly the file's
  servers of the platforms asked for, platform by platform, each with the version.
\<close>

lemma add_servers_objects:
  "add_servers ps v (map JObj servers) c
     = (Inr (), c\<lparr>co_test_servers := co_test_servers c @ map (with_version v) (filter (expected_server ps) servers)\<rparr>)"
  by (induction servers arbitrary: c) (simp_all add: add_servers_object del: add_servers.simps(2))

lemma add_platforms_shared:
  assumes "\<forall>k. files k = Inr [f]" "load f = Inr (JObj t)" "map_of t ''test_servers'' = Some (JList (map JObj servers))"
  shows "\<exists>c'. add_platforms files load pv c = Inr c' \<and> co_test_servers c' = co_test_servers c
    @ concat (map (\<lambda>(key, v). map (with_version v) (filter (expected_server (expected_server_platforms key)) servers)) pv)"
proof (induction pv arbitrary: c)
  case Nil
  then show ?case by simp
next
  case (Cons e pv)
  obtain key v where e: "e = (key, v)" by (cases e)
  have "add_platform load [f] key v c = take_entries t (c\<lparr>co_test_servers := co_test_servers c
      @ map (with_version v) (filter (expected_server (expected_server_platforms key)) servers)\<rparr>)"
    by (simp add: add_platform_def add_topology_def assms add_servers_objects)
  then show ?case
    using Cons [of "add_platform load [f] key v c"] assms(1) e by (simp add: take_entries_def)
qed

text \<open>
  A file that exists beside the script serves every platform: the composed servers are, platform
  by platform in the order asked for, the file's servers of that platform with the version set.
\<close>

theorem composed_from_shared_file:
  assumes "exists (path_join script_dir name)" "load (path_join script_dir name) = Inr (JObj t)"
    "map_of t ''test_servers'' = Some (JList (map JObj servers))"
  shows "map_sum id co_test_servers (compose_multiplatform_topology exists load script_dir qe_dir platform_versions (Some name))
    = Inr (concat (map (\<lambda>(key, v). map (with_version v)
        (filter (expected_server (expected_server_platforms key)) servers)) platform_versions))"
proof -
  have "\<forall>k. get_platform_topology_files exists script_dir qe_dir k None (Some name) = Inr [path_join script_dir name]"
    using assms(1) by (simp add: get_platform_topology_files_def)
  from add_platforms_shared [where f = "path_join script_dir name" and t = t and load = load and servers = servers,
      OF this assms(2, 3), of platform_versions empty_composed]
  show ?thesis by (auto simp: compose_multiplatform_topology_def empty_composed_def)
qed

theorem composed_from_shared_file_witness:
  "map_sum id co_test_servers (compose_multiplatform_topology (\<lambda>p. p = ''/qe/m/t.json'')
       (\<lambda>p. Inr (JObj [(''test_servers'', JList (map JObj
          [[(''platform'', JStr ''swift_ios'')], [(''platform'', JStr ''c_macos'')], [(''platform'', JStr ''c_ios'')]]))]))
       ''/qe/m'' ''/qe'' [(''c'', ''3.3.0-1''), (''ios'', ''3.2.3-6'')] (Some ''t.json''))
     = Inr [[(''platform'', JStr ''c_macos''), (''cbl_version'', JStr ''3.3.0-1'')],
            [(''platform'', JStr ''c_ios''), (''cbl_version'', JStr ''3.3.0-1'')],
            [(''platform'', JStr ''swift_ios''), (''cbl_version'', JStr ''3.2.3-6'')]]"
proof -
  let ?servers = "[[(''platform'', JStr ''swift_ios'')], [(''platform'', JStr ''c_macos'')], [(''platform'', JStr ''c_ios'')]]"
  have "map_of [(''test_servers'', JList (map JObj ?servers))] ''test_servers'' = Some (JList (map JObj ?servers))"
    by (simp only: map_of.simps fst_conv snd_conv fun_upd_same)
  from composed_from_shared_file [OF _ _ this, of "\<lambda>p. p = ''/qe/m/t.json''" "''/qe/m''" "''t.json''"
      "\<lambda>p. Inr (JObj [(''test_servers'', JList (map JObj ?servers))])" "''/qe''" "[(''c'', ''3.3.0-1''), (''ios'', ''3.2.3-6'')]"]
  show ?thesis
    by (simp add: path_join_def with_version_def expected_server_def expected_server_platforms_def
      platform_to_server_map_def)
qed

text \<open>
  The name the signature gives as its default stands for the directory of the script, which exists:
  the directories of the platforms are never searched, and nothing is loaded.
\<close>

lemma composed_from_empty_name:
  assumes "exists script_dir" "load script_dir = Inl e"
  shows "compose_multiplatform_topology exists load script_dir qe_dir platform_versions (Some []) = Inr empty_composed"
proof -
  have "get_platform_topology_files exists script_dir qe_dir k None (Some []) = Inr [script_dir]" for k
    using assms(1) by (simp add: get_platform_topology_files_def path_join_def)
  moreover have "add_platforms files load pv empty_composed = Inr empty_composed"
    if "\<And>k. files k = Inr [script_dir]" for files pv
    using that by (induction pv) (auto simp: add_platform_def add_topology_def assms(2))
  ultimately show ?thesis by (simp add: compose_multiplatform_topology_def)
qed

text \<open>A run from the command line without a topology file writes nothing and fails.\<close>

lemma d_set_nonempty: "d_set d k v \<noteq> []"
  by (cases "(d, k, v)" rule: d_set.cases) auto

lemma versions_dict_nonempty: "ps \<noteq> [] \<Longrightarrow> versions_dict ps \<noteq> []"
proof -
  have "d \<noteq> [] \<Longrightarrow> foldl (\<lambda>d p. d_set d (f p) (g p)) d xs \<noteq> []" for d :: "('k, 'v) pydict" and f g xs
    by (induction xs arbitrary: d) (auto simp: d_set_nonempty)
  from this [of "[(k, v)]" for k v] show "ps \<noteq> [] \<Longrightarrow> versions_dict ps \<noteq> []"
    by (cases ps) (simp_all add: versions_dict_def)
qed

lemma main_without_topology_file:
  assumes "split_ws platform_versions \<noteq> []"
  shows "main_setup fetch exists is_file load script_dir qe_dir write_topology start_backend
           platform_versions sgw_version None no_auto_fetch private_key_path w = (Inr 1, w)"
proof -
  have fails: "\<exists>e. compose_multiplatform_topology exists load script_dir qe_dir d None = Inl e" if "d \<noteq> []" for d
    using that by (cases d) (auto simp: compose_multiplatform_topology_def get_platform_topology_files_def)
  have "\<exists>e. setup_multiplatform_test fetch exists load script_dir qe_dir write_topology start_backend
      platform_versions sgw_version config ''multiplatform'' private_key_path (\<not> no_auto_fetch) None w = (Inl e, w)" for config
  proof (cases "parse_platform_versions fetch (\<not> no_auto_fetch) platform_versions")
    case (Inl e)
    then show ?thesis by (auto simp: setup_multiplatform_test_def io_bind_def py_assert_def)
  next
    case (Inr ps)
    then have "ps \<noteq> []" using assms by (auto simp: parse_platform_versions_def dest: mapM_length)
    then have "versions_dict ps \<noteq> []" by (simp add: versions_dict_nonempty)
    then show ?thesis using fails Inr by (fastforce simp: setup_multiplatform_test_def io_bind_def py_assert_def)
  qed
  then obtain e where "setup_multiplatform_test fetch exists load script_dir qe_dir write_topology start_backend
      platform_versions sgw_version (let config = path_join script_dir ''config_multiplatform.json''
        in exists config \<and> is_file config) ''multiplatform'' private_key_path (\<not> no_auto_fetch) None w = (Inl e, w)"
    by blast
  then show ?thesis by (simp add: main_setup_def io_try_def io_bind_def)
qed

end
