(* ===== verification/CouchbaseServer.thy ===== *)
theory CouchbaseServer
  imports EdgeServer DocsCompare Attempts
begin

text \<open>
  The Couchbase Server client (\<open>api/couchbaseserver.py\<close>).  The Couchbase SDK is the record \<open>'w sdk\<close>
  of the calls the client makes, \<open>http\<close> sends a request with the credentials of a session, and the
  JSON of a reply may be unreadable.  Seconds are rationals.
\<close>

named_theorems cbs_simps "rewrite rules for the Couchbase Server client"

section \<open>The packages the client uses\<close>

record bucket_settings =
  bs_name :: string
  bs_flush_enabled :: bool
  bs_ram_quota_mb :: int
  bs_num_replicas :: int

datatype xattr_spec = Upsert_xattr string string bool | Remove_xattr string

record 'w sdk =
  sd_connect :: "string \<Rightarrow> string \<Rightarrow> string \<Rightarrow> ('w, unit) io"
  sd_wait_until_ready :: "('w, unit) io"
  sd_bucket :: "string \<Rightarrow> ('w, unit) io"
  sd_create_scope :: "string \<Rightarrow> string \<Rightarrow> ('w, unit) io"
  sd_create_collection :: "string \<Rightarrow> string \<Rightarrow> string \<Rightarrow> ('w, unit) io"
  sd_get :: "string \<Rightarrow> string \<Rightarrow> string \<Rightarrow> string \<Rightarrow> ('w, json option) io"
  sd_upsert :: "string \<Rightarrow> string \<Rightarrow> string \<Rightarrow> string \<Rightarrow> jdict \<Rightarrow> ('w, unit) io"
  sd_remove :: "string \<Rightarrow> string \<Rightarrow> string \<Rightarrow> string \<Rightarrow> ('w, unit) io"
  sd_mutate_in :: "string \<Rightarrow> string \<Rightarrow> string \<Rightarrow> string \<Rightarrow> xattr_spec list \<Rightarrow> ('w, unit) io"
  sd_create_bucket :: "bucket_settings \<Rightarrow> ('w, unit) io"
  sd_drop_bucket :: "string \<Rightarrow> ('w, unit) io"
  sd_indexes :: "string \<Rightarrow> ('w, string list) io"
  sd_create_primary_index :: "string \<Rightarrow> string \<Rightarrow> string \<Rightarrow> ('w, unit) io"
  sd_query :: "string \<Rightarrow> ('w, json list) io"

record couchbase_server =
  cb_hostname :: string
  cb_rest_port :: int
  cb_username :: string
  cb_password :: string

record cbs_request =
  cq_auth :: "string \<times> string"
  cq_method :: string
  cq_url :: string
  cq_data :: jdict

record cbs_reply =
  cr_status :: int
  cr_body :: "json result"

type_synonym 'w cbs_http = "cbs_request \<Rightarrow> ('w, cbs_reply) io"

definition raise_for_status :: "cbs_reply \<Rightarrow> unit result" where
  "raise_for_status r = (if 400 \<le> cr_status r \<and> cr_status r < 600 then Inl HTTPError else Inr ())"

text \<open>A request of the session of a server object, which need not go to that server.\<close>

definition session_request ::
    "'w cbs_http \<Rightarrow> couchbase_server \<Rightarrow> string \<Rightarrow> string \<Rightarrow> jdict \<Rightarrow> ('w, cbs_reply) io" where
  "session_request http s method url data =
     http \<lparr> cq_auth = (cb_username s, cb_password s), cq_method = method, cq_url = url, cq_data = data \<rparr>"

definition admin_url :: "couchbase_server \<Rightarrow> string \<Rightarrow> string" where
  "admin_url s path = ''http://'' @ cb_hostname s @ '':8091/'' @ path"

definition checked_request ::
    "'w cbs_http \<Rightarrow> couchbase_server \<Rightarrow> string \<Rightarrow> string \<Rightarrow> jdict \<Rightarrow> ('w, cbs_reply) io" where
  "checked_request http s method url data =
     io_bind (session_request http s method url data) (\<lambda>r.
     io_bind (io_lift (raise_for_status r)) (\<lambda>_. io_return r))"

definition get_json :: "'w cbs_http \<Rightarrow> couchbase_server \<Rightarrow> string \<Rightarrow> ('w, json) io" where
  "get_json http s path =
     io_bind (checked_request http s ''GET'' (admin_url s path) []) (\<lambda>r. io_lift (cr_body r))"

text \<open>\<open>v.get(k, default)\<close> and \<open>v.split(":")[0]\<close> for any JSON value \<open>v\<close>.\<close>

definition py_get :: "json \<Rightarrow> string \<Rightarrow> json \<Rightarrow> json result" where
  "py_get v k x0 =
     (case v of JObj d \<Rightarrow> Inr (case map_of d k of None \<Rightarrow> x0 | Some x \<Rightarrow> x) | _ \<Rightarrow> Inl AttributeError)"

definition host_part :: "json \<Rightarrow> string result" where
  "host_part v = (case v of JStr s \<Rightarrow> Inr (hd (split_on (CHR '':'') s)) | _ \<Rightarrow> Inl AttributeError)"

section \<open>Connecting\<close>

definition after_char :: "char \<Rightarrow> string \<Rightarrow> string" where
  "after_char c s = snd (split_first c s)"

text \<open>\<open>urlparse\<close>'s host and port of a network location: user information cut off, brackets opened.\<close>

definition netloc_hostinfo :: "string \<Rightarrow> string \<times> string" where
  "netloc_hostinfo netloc =
     (let info = last_part (CHR ''@'') netloc
      in if CHR ''['' \<in> set info
         then let bracketed = after_char (CHR ''['') info
              in (before (CHR '']'') bracketed, after_char (CHR '':'') (after_char (CHR '']'') bracketed))
         else (before (CHR '':'') info, after_char (CHR '':'') info))"

definition netloc_hostname :: "string \<Rightarrow> string" where
  "netloc_hostname netloc =
     (let host = fst (netloc_hostinfo netloc)
      in py_lower (before (CHR ''%'') host) @ dropWhile (\<lambda>c. c \<noteq> CHR ''%'') host)"

definition netloc_port :: "string \<Rightarrow> int option result" where
  "netloc_port netloc =
     (let port = snd (netloc_hostinfo netloc)
      in if port = [] then Inr None
         else if list_all is_digit port
         then (case py_int port of
                 Some n \<Rightarrow> if n \<le> 65535 then Inr (Some n) else Inl ValueError
               | None \<Rightarrow> Inl ValueError)
         else Inl ValueError)"

definition url_location :: "string \<Rightarrow> string result" where
  "url_location url =
     (let netloc = fst (url_netloc (snd (url_scheme (url_clean url))))
      in if (CHR ''['' \<in> set netloc) \<noteq> (CHR '']'' \<in> set netloc) then Inl ValueError else Inr netloc)"

definition parse_connection_url :: "string \<Rightarrow> (string \<times> int) result" where
  "parse_connection_url url =
     rbind (url_location url) (\<lambda>netloc.
     rbind (netloc_port netloc) (\<lambda>port.
       Inr (if netloc_hostname netloc \<noteq> [] then netloc_hostname netloc else hd (split_on (CHR '':'') netloc),
            case port of Some n \<Rightarrow> if n \<noteq> 0 then n else 8091 | None \<Rightarrow> 8091)))"

definition CouchbaseServer_create :: "'w sdk \<Rightarrow> string \<Rightarrow> string \<Rightarrow> string \<Rightarrow> ('w, couchbase_server) io" where
  "CouchbaseServer_create sdk url username password =
     (let url = (if contains_sub ''://'' url then url else ''couchbase://'' @ url)
      in io_bind (io_lift (parse_connection_url url)) (\<lambda>(hostname, port).
         io_bind (sd_connect sdk url username password) (\<lambda>_.
         io_bind (sd_wait_until_ready sdk) (\<lambda>_.
           io_return \<lparr> cb_hostname = hostname, cb_rest_port = port, cb_username = username, cb_password = password \<rparr>))))"

section \<open>Collections and buckets\<close>

text \<open>An exception of one kind that is passed over.\<close>

definition io_ignore :: "couchbase_error \<Rightarrow> ('w, unit) io \<Rightarrow> ('w, unit) io" where
  "io_ignore e m = io_try m (\<lambda>e'. if e' = CouchbaseError e then io_return () else io_raise e')"

text \<open>One probe: only a missing document shows that the collection is there; a failure is waited for.\<close>

definition collection_probe ::
    "'w sdk \<Rightarrow> (rat \<Rightarrow> 'w \<Rightarrow> 'w) \<Rightarrow> string \<Rightarrow> string \<Rightarrow> string \<Rightarrow> 'w \<Rightarrow> unit result option \<times> 'w" where
  "collection_probe sdk sleep bucket scope name w =
     (case sd_get sdk bucket scope name ''_nonexistent'' w of
        (Inr _, w') \<Rightarrow> (None, w')
      | (Inl e, w') \<Rightarrow> if e = CouchbaseError DocumentNotFoundException then (Some (Inr ()), w') else (None, sleep 1 w'))"

primrec await_collection ::
    "'w sdk \<Rightarrow> (rat \<Rightarrow> 'w \<Rightarrow> 'w) \<Rightarrow> string \<Rightarrow> string \<Rightarrow> string \<Rightarrow> nat \<Rightarrow> ('w, unit) io" where
  "await_collection sdk sleep bucket scope name 0 w = (Inl CblTestError, w)"
| "await_collection sdk sleep bucket scope name (Suc n) w =
     (case collection_probe sdk sleep bucket scope name w of
        (Some r, w') \<Rightarrow> (r, w')
      | (None, w') \<Rightarrow> await_collection sdk sleep bucket scope name n w')"

interpretation cp: attempt_loop "await_collection sdk sleep bucket scope name" "collection_probe sdk sleep bucket scope name"
    "\<lambda>w. (Inl CblTestError, w)"
  by unfold_locales simp_all

fun create_each :: "'w sdk \<Rightarrow> (rat \<Rightarrow> 'w \<Rightarrow> 'w) \<Rightarrow> string \<Rightarrow> string \<Rightarrow> string list \<Rightarrow> ('w, unit) io" where
  "create_each sdk sleep bucket scope [] = io_return ()"
| "create_each sdk sleep bucket scope (name # names) =
     io_bind (io_ignore CollectionAlreadyExistsException
        (if name \<noteq> ''_default'' then sd_create_collection sdk bucket scope name else io_return ())) (\<lambda>_.
     io_bind (await_collection sdk sleep bucket scope name 10) (\<lambda>_.
       create_each sdk sleep bucket scope names))"

definition CouchbaseServer_create_collections ::
    "'w sdk \<Rightarrow> (rat \<Rightarrow> 'w \<Rightarrow> 'w) \<Rightarrow> string \<Rightarrow> string \<Rightarrow> string list \<Rightarrow> ('w, unit) io" where
  "CouchbaseServer_create_collections sdk sleep bucket scope names =
     io_bind (try_n_times sleep 10 1 False (sd_bucket sdk bucket)) (\<lambda>_.
     io_bind (io_ignore ScopeAlreadyExistsException
        (if scope \<noteq> ''_default'' then sd_create_scope sdk bucket scope else io_return ())) (\<lambda>_.
       create_each sdk sleep bucket scope names))"

text \<open>Every node must say that it is healthy, and there must be one.\<close>

fun nodes_healthy :: "json list \<Rightarrow> bool result" where
  "nodes_healthy [] = Inr True"
| "nodes_healthy (node # nodes) =
     rbind (py_get node ''status'' JNull) (\<lambda>s. if s \<noteq> JStr ''healthy'' then Inr False else nodes_healthy nodes)"

definition bucket_nodes_healthy :: "json \<Rightarrow> bool result" where
  "bucket_nodes_healthy bucket =
     rbind (py_get bucket ''nodes'' (JList [])) (\<lambda>nodes.
       if \<not> truthy nodes then Inr False else rbind (py_iter nodes) nodes_healthy)"

definition CouchbaseServer_bucket_healthy :: "'w cbs_http \<Rightarrow> couchbase_server \<Rightarrow> string \<Rightarrow> ('w, bool) io" where
  "CouchbaseServer_bucket_healthy http s bucket_name =
     io_bind (session_request http s ''GET'' (admin_url s (''pools/default/buckets/'' @ bucket_name)) []) (\<lambda>r.
       if cr_status r \<noteq> 200 then io_return False
       else io_lift (rbind (cr_body r) bucket_nodes_healthy))"

definition CouchbaseServer_bucket_kv_responding :: "'w cbs_http \<Rightarrow> couchbase_server \<Rightarrow> string \<Rightarrow> ('w, bool) io" where
  "CouchbaseServer_bucket_kv_responding http s bucket_name =
     io_bind (session_request http s ''GET'' (admin_url s (''pools/default/buckets/'' @ bucket_name @ ''/stats'')) [])
       (\<lambda>r. io_return (cr_status r = 200))"

definition CouchbaseServer_collections_ready :: "'w cbs_http \<Rightarrow> couchbase_server \<Rightarrow> string \<Rightarrow> ('w, bool) io" where
  "CouchbaseServer_collections_ready http s bucket_name =
     io_bind (session_request http s ''GET'' (admin_url s (''pools/default/buckets/'' @ bucket_name @ ''/scopes'')) [])
       (\<lambda>r. io_return (cr_status r = 200))"

text \<open>The three checks, the later ones only when the earlier ones succeed.\<close>

definition io_and :: "('w, bool) io \<Rightarrow> ('w, bool) io \<Rightarrow> ('w, bool) io" where
  "io_and m k = io_bind m (\<lambda>b. if b then k else io_return False)"

definition bucket_ready :: "'w cbs_http \<Rightarrow> couchbase_server \<Rightarrow> string \<Rightarrow> ('w, bool) io" where
  "bucket_ready http s name =
     io_and (CouchbaseServer_bucket_healthy http s name)
       (io_and (CouchbaseServer_bucket_kv_responding http s name) (CouchbaseServer_collections_ready http s name))"

definition bucket_ready_step ::
    "'w cbs_http \<Rightarrow> (rat \<Rightarrow> 'w \<Rightarrow> 'w) \<Rightarrow> couchbase_server \<Rightarrow> string \<Rightarrow> rat \<Rightarrow> 'w \<Rightarrow> unit result option \<times> 'w" where
  "bucket_ready_step http sleep s name interval w =
     (case bucket_ready http s name w of
        (Inl e, w') \<Rightarrow> (Some (Inl e), w')
      | (Inr b, w') \<Rightarrow> if b then (Some (Inr ()), w') else (None, sleep interval w'))"

primrec bucket_ready_loop ::
    "'w cbs_http \<Rightarrow> (rat \<Rightarrow> 'w \<Rightarrow> 'w) \<Rightarrow> couchbase_server \<Rightarrow> string \<Rightarrow> rat \<Rightarrow> nat \<Rightarrow> ('w, unit) io" where
  "bucket_ready_loop http sleep s name interval 0 w = (Inl TimeoutError, w)"
| "bucket_ready_loop http sleep s name interval (Suc n) w =
     (case bucket_ready_step http sleep s name interval w of
        (Some r, w') \<Rightarrow> (r, w')
      | (None, w') \<Rightarrow> bucket_ready_loop http sleep s name interval n w')"

interpretation br: attempt_loop "bucket_ready_loop http sleep s name interval"
    "bucket_ready_step http sleep s name interval" "\<lambda>w. (Inl TimeoutError, w)"
  by unfold_locales simp_all

definition CouchbaseServer_create_bucket ::
    "'w sdk \<Rightarrow> 'w cbs_http \<Rightarrow> (rat \<Rightarrow> 'w \<Rightarrow> 'w) \<Rightarrow> couchbase_server \<Rightarrow> string \<Rightarrow> int \<Rightarrow> int \<Rightarrow> rat \<Rightarrow> ('w, unit) io" where
  "CouchbaseServer_create_bucket sdk http sleep s name num_replicas retries interval =
     io_bind (io_ignore BucketAlreadyExistsException (sd_create_bucket sdk
        \<lparr> bs_name = name, bs_flush_enabled = True, bs_ram_quota_mb = 512, bs_num_replicas = num_replicas \<rparr>)) (\<lambda>_.
       bucket_ready_loop http sleep s name interval (nat retries))"

definition CouchbaseServer_drop_bucket :: "'w sdk \<Rightarrow> string \<Rightarrow> ('w, unit) io" where
  "CouchbaseServer_drop_bucket sdk name = io_ignore BucketDoesNotExistException (sd_drop_bucket sdk name)"

definition CouchbaseServer_get_bucket_names :: "'w cbs_http \<Rightarrow> couchbase_server \<Rightarrow> ('w, json list) io" where
  "CouchbaseServer_get_bucket_names http s =
     io_bind (get_json http s ''pools/default/buckets'') (\<lambda>v.
       io_lift (rbind (py_iter v) (mapM (\<lambda>bucket. py_item bucket ''name''))))"

text \<open>The wait ends when the bucket is not healthy, which includes that the question raises.\<close>

definition bucket_gone_step ::
    "'w cbs_http \<Rightarrow> (rat \<Rightarrow> 'w \<Rightarrow> 'w) \<Rightarrow> couchbase_server \<Rightarrow> string \<Rightarrow> rat \<Rightarrow> 'w \<Rightarrow> unit result option \<times> 'w" where
  "bucket_gone_step http sleep s name delay w =
     (case CouchbaseServer_bucket_healthy http s name w of
        (Inl e, w') \<Rightarrow> (Some (Inr ()), w')
      | (Inr b, w') \<Rightarrow> if b then (None, sleep delay w') else (Some (Inr ()), w'))"

primrec bucket_gone_loop ::
    "'w cbs_http \<Rightarrow> (rat \<Rightarrow> 'w \<Rightarrow> 'w) \<Rightarrow> couchbase_server \<Rightarrow> string \<Rightarrow> rat \<Rightarrow> nat \<Rightarrow> ('w, unit) io" where
  "bucket_gone_loop http sleep s name delay 0 w = (Inl CblTestError, w)"
| "bucket_gone_loop http sleep s name delay (Suc n) w =
     (case bucket_gone_step http sleep s name delay w of
        (Some r, w') \<Rightarrow> (r, w')
      | (None, w') \<Rightarrow> bucket_gone_loop http sleep s name delay n w')"

interpretation bg: attempt_loop "bucket_gone_loop http sleep s name delay"
    "bucket_gone_step http sleep s name delay" "\<lambda>w. (Inl CblTestError, w)"
  by unfold_locales simp_all

definition CouchbaseServer_wait_for_bucket_deleted ::
    "'w cbs_http \<Rightarrow> (rat \<Rightarrow> 'w \<Rightarrow> 'w) \<Rightarrow> couchbase_server \<Rightarrow> string \<Rightarrow> int \<Rightarrow> rat \<Rightarrow> ('w, unit) io" where
  "CouchbaseServer_wait_for_bucket_deleted http sleep s bucket_name max_retries retry_delay =
     bucket_gone_loop http sleep s bucket_name retry_delay (nat max_retries)"

section \<open>Restoring and querying\<close>

text \<open>
  The arguments of the restore: \<open>tmpdir\<close> is the temporary directory into which the backup is
  extracted, \<open>cpus\<close> the text of the number of processors.
\<close>

definition restore_args ::
    "couchbase_server \<Rightarrow> string \<Rightarrow> string \<Rightarrow> string \<Rightarrow> string \<Rightarrow> string option \<Rightarrow> bool \<Rightarrow> string list" where
  "restore_args s tool tmpdir cpus dataset_name repo_name reset_expired_ttl =
     [tool, ''restore'', ''-a'', path_join tmpdir dataset_name, ''-c'', cb_hostname s, ''-r'',
      (case repo_name of Some r \<Rightarrow> if r \<noteq> [] then r else dataset_name | None \<Rightarrow> dataset_name),
      ''-u'', cb_username s, ''-p'', cb_password s, ''--auto-create-buckets'', ''--no-progress-bar'',
      ''--disable-ft-indexes'', ''--disable-gsi-indexes'', ''--threads'', cpus]
     @ (if reset_expired_ttl then [''--replace-ttl'', ''expired'', ''--replace-ttl-with'', ''0''] else [])"

definition CouchbaseServer_restore_bucket ::
    "bool \<Rightarrow> (string \<Rightarrow> bool) \<Rightarrow> (string \<Rightarrow> string \<Rightarrow> ('w, unit) io) \<Rightarrow> (string list \<Rightarrow> ('w, unit) io) \<Rightarrow> string \<Rightarrow> string
      \<Rightarrow> couchbase_server \<Rightarrow> string \<Rightarrow> string \<Rightarrow> string \<Rightarrow> string option \<Rightarrow> bool \<Rightarrow> ('w, unit) io" where
  "CouchbaseServer_restore_bucket windows exists extract run tmpdir cpus s tools_path dataset_path dataset_name
     repo_name reset_expired_ttl =
     (let tool = path_join (path_join tools_path ''cbbackupmgr'') (if windows then ''cbbackupmgr.exe'' else ''cbbackupmgr'');
          data_filepath = path_join (path_join (path_join dataset_path ''..'') ''couchbase-server'') (dataset_name @ ''.zip'')
      in if \<not> exists tool then io_raise FileNotFoundError
         else if \<not> exists data_filepath then io_raise FileNotFoundError
         else io_bind (io_try (extract data_filepath tmpdir)
                         (\<lambda>e. if e = BadZipFile then io_raise CblTestError else io_raise e)) (\<lambda>_.
                run (restore_args s tool tmpdir cpus dataset_name repo_name reset_expired_ttl)))"

definition CouchbaseServer_indexes_count :: "'w sdk \<Rightarrow> string \<Rightarrow> ('w, nat) io" where
  "CouchbaseServer_indexes_count sdk bucket = io_bind (sd_indexes sdk bucket) (\<lambda>ixs. io_return (length ixs))"

text \<open>
  \<open>format\<close> is \<open>str.format\<close> with the keyspace as its argument.  The query object runs when it is
  executed, after the index; a row becomes a dictionary.
\<close>

definition CouchbaseServer_run_query ::
    "(string \<Rightarrow> string \<Rightarrow> string result) \<Rightarrow> 'w sdk \<Rightarrow> string \<Rightarrow> string \<Rightarrow> string \<Rightarrow> string \<Rightarrow> ('w, jdict list) io" where
  "CouchbaseServer_run_query format sdk query bucket scope collection =
     io_bind (io_lift (format query (bucket @ ''.'' @ scope @ ''.'' @ collection))) (\<lambda>actual_query.
     io_bind (io_ignore QueryIndexAlreadyExistsException (sd_create_primary_index sdk bucket scope collection)) (\<lambda>_.
     io_bind (sd_query sdk actual_query) (\<lambda>rows.
       io_lift (mapM (\<lambda>row. case row of JObj d \<Rightarrow> Inr d | _ \<Rightarrow> Inl TypeError) rows))))"

section \<open>Documents\<close>

text \<open>Every exception of the body becomes a \<open>CblTestError\<close>.\<close>

definition io_wrap :: "('w, 'a) io \<Rightarrow> ('w, 'a) io" where
  "io_wrap m = io_try m (\<lambda>_. io_raise CblTestError)"

definition with_bucket :: "'w sdk \<Rightarrow> (rat \<Rightarrow> 'w \<Rightarrow> 'w) \<Rightarrow> string \<Rightarrow> ('w, 'a) io \<Rightarrow> ('w, 'a) io" where
  "with_bucket sdk sleep bucket m = io_bind (try_n_times sleep 10 1 False (sd_bucket sdk bucket)) (\<lambda>_. m)"

definition CouchbaseServer_upsert_document ::
    "'w sdk \<Rightarrow> (rat \<Rightarrow> 'w \<Rightarrow> 'w) \<Rightarrow> string \<Rightarrow> string \<Rightarrow> jdict \<Rightarrow> string \<Rightarrow> string \<Rightarrow> ('w, unit) io" where
  "CouchbaseServer_upsert_document sdk sleep bucket doc_id document scope collection =
     io_wrap (with_bucket sdk sleep bucket (sd_upsert sdk bucket scope collection doc_id document))"

definition CouchbaseServer_delete_document ::
    "'w sdk \<Rightarrow> (rat \<Rightarrow> 'w \<Rightarrow> 'w) \<Rightarrow> string \<Rightarrow> string \<Rightarrow> string \<Rightarrow> string \<Rightarrow> ('w, unit) io" where
  "CouchbaseServer_delete_document sdk sleep bucket doc_id scope collection =
     io_try (with_bucket sdk sleep bucket (sd_remove sdk bucket scope collection doc_id))
       (\<lambda>e. if e = CouchbaseError DocumentNotFoundException then io_return () else io_raise CblTestError)"

definition CouchbaseServer_get_document ::
    "'w sdk \<Rightarrow> (rat \<Rightarrow> 'w \<Rightarrow> 'w) \<Rightarrow> string \<Rightarrow> string \<Rightarrow> string \<Rightarrow> string \<Rightarrow> ('w, json option) io" where
  "CouchbaseServer_get_document sdk sleep bucket doc_id scope collection =
     io_try (with_bucket sdk sleep bucket (sd_get sdk bucket scope collection doc_id))
       (\<lambda>e. if e = CouchbaseError DocumentNotFoundException then io_return None else io_raise CblTestError)"

definition CouchbaseServer_upsert_document_xattr ::
    "'w sdk \<Rightarrow> string \<Rightarrow> string \<Rightarrow> string \<Rightarrow> string \<Rightarrow> string \<Rightarrow> string \<Rightarrow> ('w, unit) io" where
  "CouchbaseServer_upsert_document_xattr sdk bucket doc_id xattr_key xattr_value scope collection =
     io_wrap (io_bind (sd_bucket sdk bucket) (\<lambda>_.
       sd_mutate_in sdk bucket scope collection doc_id [Upsert_xattr xattr_key xattr_value True]))"

definition CouchbaseServer_delete_document_xattr ::
    "'w sdk \<Rightarrow> string \<Rightarrow> string \<Rightarrow> string \<Rightarrow> string \<Rightarrow> string \<Rightarrow> ('w, unit) io" where
  "CouchbaseServer_delete_document_xattr sdk bucket doc_id xattr_key scope collection =
     io_try (io_bind (sd_bucket sdk bucket) (\<lambda>_.
       sd_mutate_in sdk bucket scope collection doc_id [Remove_xattr xattr_key])) (\<lambda>_. io_return ())"

section \<open>Replication between clusters\<close>

text \<open>The UUID of the remote cluster of a name; \<open>JNull\<close> stands for \<open>None\<close>.\<close>

fun find_remote :: "string \<Rightarrow> json list \<Rightarrow> json result" where
  "find_remote hostname [] = Inr JNull"
| "find_remote hostname (cluster # clusters) =
     rbind (py_in ''name'' cluster) (\<lambda>named.
       if \<not> named then find_remote hostname clusters
       else rbind (py_item cluster ''name'') (\<lambda>name.
         if name = JStr hostname then py_item cluster ''uuid'' else find_remote hostname clusters))"

definition remote_cluster_uuid :: "'w cbs_http \<Rightarrow> couchbase_server \<Rightarrow> couchbase_server \<Rightarrow> ('w, json) io" where
  "remote_cluster_uuid http s target =
     io_bind (get_json http s ''pools/default/remoteClusters'') (\<lambda>body.
       io_lift (rbind (py_iter body) (find_remote (cb_hostname target))))"

definition is_xdcr_task :: "string \<Rightarrow> json \<Rightarrow> bool" where
  "is_xdcr_task task_id task =
     (case task of
        JObj d \<Rightarrow> map_of d ''type'' = Some (JStr ''xdcr'') \<and> map_of d ''id'' = Some (JStr task_id)
      | _ \<Rightarrow> False)"

definition has_xdcr_task :: "'w cbs_http \<Rightarrow> couchbase_server \<Rightarrow> string \<Rightarrow> ('w, bool) io" where
  "has_xdcr_task http s task_id =
     io_bind (get_json http s ''pools/default/tasks'') (\<lambda>body.
       io_lift (rbind (py_iter body) (\<lambda>tasks. Inr (list_ex (is_xdcr_task task_id) tasks))))"

text \<open>\<open>text\<close> is the formatting of a UUID.\<close>

definition xdcr_task_id :: "(json \<Rightarrow> string) \<Rightarrow> json \<Rightarrow> string \<Rightarrow> string" where
  "xdcr_task_id text uuid bucket_name = text uuid @ ''/'' @ bucket_name @ ''/'' @ bucket_name"

text \<open>The prerequisite is set on both sides by the session of the source; 409 says that it was set.\<close>

definition enable_versioning ::
    "'w cbs_http \<Rightarrow> couchbase_server \<Rightarrow> couchbase_server \<Rightarrow> string \<Rightarrow> ('w, unit) io" where
  "enable_versioning http s owner bucket_name =
     io_bind (session_request http s ''POST'' (admin_url owner (''pools/default/buckets/'' @ bucket_name))
        [(''enableCrossClusterVersioning'', JStr ''true'')]) (\<lambda>r.
       if cr_status r \<noteq> 409 then io_lift (raise_for_status r) else io_return ())"

definition post_checked :: "'w cbs_http \<Rightarrow> couchbase_server \<Rightarrow> string \<Rightarrow> jdict \<Rightarrow> ('w, unit) io" where
  "post_checked http s path data =
     io_bind (checked_request http s ''POST'' (admin_url s path) data) (\<lambda>_. io_return ())"

definition remote_cluster_data :: "couchbase_server \<Rightarrow> jdict" where
  "remote_cluster_data target =
     [(''username'', JStr (cb_username target)), (''password'', JStr (cb_password target)),
      (''hostname'', JStr (cb_hostname target)), (''name'', JStr (cb_hostname target)), (''demandEncryption'', JInt 0)]"

definition replication_data :: "couchbase_server \<Rightarrow> string \<Rightarrow> jdict" where
  "replication_data target bucket_name =
     [(''fromBucket'', JStr bucket_name), (''toCluster'', JStr (cb_hostname target)), (''toBucket'', JStr bucket_name),
      (''replicationType'', JStr ''continuous''), (''compressionLevel'', JStr ''Auto''), (''mobile'', JStr ''active'')]"

definition CouchbaseServer_start_xdcr ::
    "(json \<Rightarrow> string) \<Rightarrow> 'w cbs_http \<Rightarrow> couchbase_server \<Rightarrow> couchbase_server \<Rightarrow> string \<Rightarrow> ('w, unit) io" where
  "CouchbaseServer_start_xdcr text http s target bucket_name =
     io_bind (remote_cluster_uuid http s target) (\<lambda>uuid.
     io_bind (enable_versioning http s s bucket_name) (\<lambda>_.
     io_bind (enable_versioning http s target bucket_name) (\<lambda>_.
     io_bind (if uuid = JNull then post_checked http s ''pools/default/remoteClusters'' (remote_cluster_data target)
              else io_return ()) (\<lambda>_.
     io_bind (if uuid \<noteq> JNull
              then io_bind (has_xdcr_task http s (xdcr_task_id text uuid bucket_name)) (\<lambda>found. io_return (\<not> found))
              else io_return True) (\<lambda>needs_replication.
       if needs_replication then post_checked http s ''controller/createReplication'' (replication_data target bucket_name)
       else io_return ())))))"

text \<open>\<open>urllib.parse.quote_plus\<close> of an ASCII string.\<close>

definition quote_plus :: "string \<Rightarrow> string" where
  "quote_plus s = concat (map (\<lambda>c. if c = CHR '' '' then ''+''
     else if quote_safe c \<and> c \<noteq> CHR ''/'' then [c]
     else (let n = (of_char c :: nat) in [CHR ''%'', hex_digit (n div 16), hex_digit (n mod 16)])) s)"

definition CouchbaseServer_stop_xcdr ::
    "(json \<Rightarrow> string) \<Rightarrow> 'w cbs_http \<Rightarrow> couchbase_server \<Rightarrow> couchbase_server \<Rightarrow> string \<Rightarrow> ('w, unit) io" where
  "CouchbaseServer_stop_xcdr text http s target bucket_name =
     io_bind (remote_cluster_uuid http s target) (\<lambda>uuid.
       if uuid = JNull then io_return ()
       else let xdcr_id = xdcr_task_id text uuid bucket_name
            in io_bind (has_xdcr_task http s xdcr_id) (\<lambda>found.
                 if found
                 then io_bind (checked_request http s ''DELETE'' (admin_url s (''controller/cancelXDCR/'' @ quote_plus xdcr_id)) [])
                        (\<lambda>_. io_return ())
                 else io_return ()))"

section \<open>Retrying\<close>

text \<open>\<open>_retry\<close>: the last exception is raised when no attempt succeeds; there is no wait after it.\<close>

fun retry_from :: "(rat \<Rightarrow> 'w \<Rightarrow> 'w) \<Rightarrow> rat \<Rightarrow> ('w, 'a) io \<Rightarrow> py_exc option \<Rightarrow> nat \<Rightarrow> ('w, 'a) io" where
  "retry_from sleep secs func last_exception 0 w =
     (Inl (case last_exception of Some e \<Rightarrow> e | None \<Rightarrow> AssertionError), w)"
| "retry_from sleep secs func last_exception (Suc left) w =
     (case func w of
        (Inr x, w') \<Rightarrow> (Inr x, w')
      | (Inl e, w') \<Rightarrow> retry_from sleep secs func (Some e) left (if left > 0 then sleep secs w' else w'))"

definition CouchbaseServer_retry :: "(rat \<Rightarrow> 'w \<Rightarrow> 'w) \<Rightarrow> ('w, 'a) io \<Rightarrow> int \<Rightarrow> rat \<Rightarrow> ('w, 'a) io" where
  "CouchbaseServer_retry sleep func max_attempts wait_seconds =
     retry_from sleep wait_seconds func None (nat max_attempts)"

section \<open>Nodes\<close>

definition node_hostname :: "json \<Rightarrow> string result" where
  "node_hostname node = rbind (py_get node ''hostname'' (JStr [])) host_part"

definition node_alternate :: "json \<Rightarrow> json result" where
  "node_alternate node =
     rbind (py_get node ''alternateAddresses'' (JObj [])) (\<lambda>addresses.
     rbind (py_get addresses ''external'' (JObj [])) (\<lambda>external.
       py_get external ''hostname'' (JStr [])))"

definition node_has_name :: "string \<Rightarrow> json \<Rightarrow> bool result" where
  "node_has_name hostname node =
     rbind (node_hostname node) (\<lambda>h. rbind (node_alternate node) (\<lambda>alt. Inr (hostname = h \<or> alt = JStr hostname)))"

definition get_cluster_info :: "'w cbs_http \<Rightarrow> couchbase_server \<Rightarrow> ('w, json) io" where
  "get_cluster_info http s = get_json http s ''pools/default''"

definition pool_nodes :: "json \<Rightarrow> json list result" where
  "pool_nodes pool_data = rbind (py_get pool_data ''nodes'' (JList [])) py_iter"

text \<open>The alternate address of a node is looked at only when its host name is another one.\<close>

fun find_otp :: "string \<Rightarrow> json list \<Rightarrow> json result" where
  "find_otp hostname [] = Inl CblTestError"
| "find_otp hostname (node # nodes) =
     rbind (node_hostname node) (\<lambda>h.
     rbind (py_get node ''otpNode'' JNull) (\<lambda>otp_node.
       if h = hostname then Inr otp_node
       else rbind (node_alternate node) (\<lambda>alt.
              if alt = JStr hostname then Inr otp_node else find_otp hostname nodes)))"

definition find_node_otp :: "json \<Rightarrow> couchbase_server \<Rightarrow> json result" where
  "find_node_otp pool_data target_node = rbind (pool_nodes pool_data) (find_otp (cb_hostname target_node))"

definition CouchbaseServer_failover :: "'w cbs_http \<Rightarrow> couchbase_server \<Rightarrow> couchbase_server \<Rightarrow> ('w, unit) io" where
  "CouchbaseServer_failover http s node =
     io_bind (get_cluster_info http s) (\<lambda>pool_data.
     io_bind (io_lift (find_node_otp pool_data node)) (\<lambda>otp.
       post_checked http s ''controller/failOver'' [(''otpNode'', otp)]))"

definition CouchbaseServer_recover :: "'w cbs_http \<Rightarrow> couchbase_server \<Rightarrow> couchbase_server \<Rightarrow> ('w, unit) io" where
  "CouchbaseServer_recover http s node =
     io_bind (get_cluster_info http s) (\<lambda>pool_data.
     io_bind (io_lift (find_node_otp pool_data node)) (\<lambda>otp.
       post_checked http s ''controller/setRecoveryType'' [(''otpNode'', otp), (''recoveryType'', JStr ''delta'')]))"

definition internal_hostname :: "'w cbs_http \<Rightarrow> couchbase_server \<Rightarrow> ('w, string) io" where
  "internal_hostname http node =
     io_bind (session_request http node ''GET'' (admin_url node ''nodes/self'') []) (\<lambda>r.
       if cr_status r \<noteq> 200 then io_raise CblTestError
       else io_lift (rbind (cr_body r) (\<lambda>body.
              rbind (node_hostname body) (\<lambda>internal.
                if internal = [] \<or> prefix ''127.'' internal then Inl CblTestError else Inr internal))))"

definition add_node_data :: "couchbase_server \<Rightarrow> string \<Rightarrow> string list \<Rightarrow> jdict" where
  "add_node_data s hostname services =
     [(''hostname'', JStr hostname), (''user'', JStr (cb_username s)), (''password'', JStr (cb_password s)),
      (''services'', JStr (join_with (CHR '','') services))]"

definition post_node :: "'w cbs_http \<Rightarrow> couchbase_server \<Rightarrow> string \<Rightarrow> string list \<Rightarrow> ('w, unit) io" where
  "post_node http s hostname services =
     io_bind (session_request http s ''POST'' (admin_url s ''controller/addNode'') (add_node_data s hostname services))
       (\<lambda>r. if cr_status r \<noteq> 200 then io_raise CblTestError else io_return ())"

definition CouchbaseServer_add_node ::
    "'w cbs_http \<Rightarrow> (rat \<Rightarrow> 'w \<Rightarrow> 'w) \<Rightarrow> couchbase_server \<Rightarrow> couchbase_server \<Rightarrow> string list option \<Rightarrow> ('w, unit) io" where
  "CouchbaseServer_add_node http sleep s node services =
     (let services = (case services of None \<Rightarrow> [''kv'', ''index'', ''n1ql''] | Some ss \<Rightarrow> ss)
      in io_bind (io_try (CouchbaseServer_retry sleep (internal_hostname http node) 3 5) (\<lambda>_. io_return (cb_hostname node)))
           (\<lambda>hostname_to_use.
         io_bind (CouchbaseServer_retry sleep (post_node http s hostname_to_use services) 5 1) (\<lambda>_.
           if hostname_to_use \<noteq> cb_hostname node
           then io_try
                  (io_bind (checked_request http s ''PUT'' (admin_url node ''node/controller/setupAlternateAddresses/external'')
                     [(''hostname'', JStr (cb_hostname node)), (''mgmt'', JStr ''8091'')]) (\<lambda>_. io_return ()))
                  (\<lambda>_. io_return ())
           else io_return ())))"

section \<open>Rebalancing\<close>

text \<open>Whether a node is ejected: a given node by its names, otherwise failed nodes on request.\<close>

definition ejects :: "couchbase_server option \<Rightarrow> bool \<Rightarrow> json \<Rightarrow> json \<Rightarrow> bool result" where
  "ejects eject_node eject_failed_nodes node membership =
     (case eject_node of
        Some n \<Rightarrow> node_has_name (cb_hostname n) node
      | None \<Rightarrow> Inr (eject_failed_nodes \<and> membership = JStr ''inactiveFailed''))"

fun plan_nodes :: "couchbase_server option \<Rightarrow> bool \<Rightarrow> json list \<Rightarrow> (json list \<times> json list) result" where
  "plan_nodes eject_node eject_failed_nodes [] = Inr ([], [])"
| "plan_nodes eject_node eject_failed_nodes (node # nodes) =
     rbind (py_get node ''otpNode'' JNull) (\<lambda>otp_node.
     rbind (py_get node ''clusterMembership'' JNull) (\<lambda>membership.
     rbind (ejects eject_node eject_failed_nodes node membership) (\<lambda>ejected.
     rbind (plan_nodes eject_node eject_failed_nodes nodes) (\<lambda>(known, out).
       Inr (otp_node # known, if ejected then otp_node # out else out)))))"

text \<open>\<open>",".join\<close> of names that are strings.\<close>

definition join_names :: "json list \<Rightarrow> string result" where
  "join_names vs = rbind (mapM (\<lambda>v. case v of JStr s \<Rightarrow> Inr s | _ \<Rightarrow> Inl TypeError) vs) (\<lambda>ss. Inr (join_with (CHR '','') ss))"

definition rebalance_data :: "couchbase_server option \<Rightarrow> bool \<Rightarrow> json \<Rightarrow> jdict result" where
  "rebalance_data eject_node eject_failed_nodes pool_data =
     rbind (pool_nodes pool_data) (\<lambda>nodes.
     rbind (plan_nodes eject_node eject_failed_nodes nodes) (\<lambda>(known, out).
       if eject_node \<noteq> None \<and> out = [] then Inl CblTestError
       else rbind (join_names known) (\<lambda>known_nodes.
              if out = [] then Inr [(''knownNodes'', JStr known_nodes)]
              else rbind (join_names out) (\<lambda>ejected.
                     Inr [(''knownNodes'', JStr known_nodes), (''ejectedNodes'', JStr ejected)]))))"

text \<open>A loop that no counter bounds, with a step that may end it.\<close>

primrec poll_loop :: "('w \<Rightarrow> 'a result option \<times> 'w) \<Rightarrow> nat \<Rightarrow> ('w, 'a) fio" where
  "poll_loop step 0 w = (None, w)"
| "poll_loop step (Suc fuel) w =
     (case step w of (Some r, w') \<Rightarrow> (Some r, w') | (None, w') \<Rightarrow> poll_loop step fuel w')"

definition rebalance_status :: "'w cbs_http \<Rightarrow> couchbase_server \<Rightarrow> ('w, json) io" where
  "rebalance_status http s =
     io_bind (get_json http s ''pools/default/rebalanceProgress'') (\<lambda>v. io_lift (py_get v ''status'' JNull))"

definition rebalance_wait_step ::
    "'w cbs_http \<Rightarrow> ('w \<Rightarrow> rat) \<Rightarrow> (rat \<Rightarrow> 'w \<Rightarrow> 'w) \<Rightarrow> couchbase_server \<Rightarrow> rat \<Rightarrow> rat \<Rightarrow> 'w \<Rightarrow> unit result option \<times> 'w" where
  "rebalance_wait_step http now sleep s timeout start w =
     (if \<not> now w - start < timeout then (Some (Inl CblTestError), w)
      else case rebalance_status http s w of
             (Inl e, w') \<Rightarrow> (Some (Inl e), w')
           | (Inr status, w') \<Rightarrow> if status = JStr ''none'' then (Some (Inr ()), w') else (None, sleep 5 w'))"

definition wait_for_rebalance_completion ::
    "'w cbs_http \<Rightarrow> ('w \<Rightarrow> rat) \<Rightarrow> (rat \<Rightarrow> 'w \<Rightarrow> 'w) \<Rightarrow> nat \<Rightarrow> couchbase_server \<Rightarrow> rat \<Rightarrow> ('w, unit) fio" where
  "wait_for_rebalance_completion http now sleep fuel s timeout w =
     poll_loop (rebalance_wait_step http now sleep s timeout (now w)) fuel w"

definition start_rebalance ::
    "'w cbs_http \<Rightarrow> (rat \<Rightarrow> 'w \<Rightarrow> 'w) \<Rightarrow> couchbase_server \<Rightarrow> couchbase_server option \<Rightarrow> bool \<Rightarrow> ('w, unit) io" where
  "start_rebalance http sleep s eject_node eject_failed_nodes =
     io_bind (get_cluster_info http s) (\<lambda>pool_data.
     io_bind (io_lift (rebalance_data eject_node eject_failed_nodes pool_data)) (\<lambda>data.
       CouchbaseServer_retry sleep (post_checked http s ''controller/rebalance'' data) 5 1))"

definition CouchbaseServer_rebalance ::
    "'w cbs_http \<Rightarrow> ('w \<Rightarrow> rat) \<Rightarrow> (rat \<Rightarrow> 'w \<Rightarrow> 'w) \<Rightarrow> nat \<Rightarrow> couchbase_server \<Rightarrow> couchbase_server option \<Rightarrow> bool
      \<Rightarrow> ('w, unit) fio" where
  "CouchbaseServer_rebalance http now sleep fuel s eject_node eject_failed_nodes =
     fio_bind (fio_of (start_rebalance http sleep s eject_node eject_failed_nodes)) (\<lambda>_.
       wait_for_rebalance_completion http now sleep fuel s 300)"

section \<open>Health of the cluster\<close>

fun active_healthy :: "json list \<Rightarrow> bool result" where
  "active_healthy [] = Inr True"
| "active_healthy (node # nodes) =
     rbind (py_get node ''clusterMembership'' JNull) (\<lambda>m.
       if m \<noteq> JStr ''active'' then active_healthy nodes
       else rbind (py_get node ''status'' JNull) (\<lambda>st.
              if st = JStr ''healthy'' then active_healthy nodes else Inr False))"

text \<open>\<open>not vb or vb[0] == -1\<close> for the nodes of one vBucket.\<close>

definition vbucket_lost :: "json \<Rightarrow> bool result" where
  "vbucket_lost vb =
     (if \<not> truthy vb then Inr True
      else case vb of
             JList xs \<Rightarrow> Inr (py_eq (hd xs) (JInt (- 1)))
           | JStr s \<Rightarrow> Inr False
           | JObj d \<Rightarrow> Inl KeyError
           | _ \<Rightarrow> Inl TypeError)"

fun any_lost :: "json list \<Rightarrow> bool result" where
  "any_lost [] = Inr False"
| "any_lost (vb # vbs) = rbind (vbucket_lost vb) (\<lambda>lost. if lost then Inr True else any_lost vbs)"

fun buckets_healthy :: "json list \<Rightarrow> bool result" where
  "buckets_healthy [] = Inr True"
| "buckets_healthy (bucket # buckets) =
     rbind (py_get bucket ''vBucketServerMap'' (JObj [])) (\<lambda>m.
     rbind (py_get m ''serverList'' JNull) (\<lambda>servers.
       if \<not> truthy servers then Inr False
       else rbind (py_get m ''vBucketMap'' JNull) (\<lambda>vbs.
         if \<not> truthy vbs then Inr False
         else rbind (rbind (py_iter vbs) any_lost) (\<lambda>lost.
                if lost then Inr False else buckets_healthy buckets))))"

text \<open>One check of the cluster: rebalance, active nodes, then the vBuckets of every bucket.\<close>

definition cluster_check :: "'w cbs_http \<Rightarrow> couchbase_server \<Rightarrow> ('w, bool) io" where
  "cluster_check http s =
     io_bind (get_json http s ''pools/default'') (\<lambda>pool_data.
     io_bind (io_lift (py_get pool_data ''rebalanceStatus'' (JStr ''none''))) (\<lambda>status.
       if status \<noteq> JStr ''none'' then io_return False
       else io_and (io_lift (rbind (pool_nodes pool_data) active_healthy))
              (io_bind (get_json http s ''pools/default/buckets'') (\<lambda>body.
                 io_lift (rbind (py_iter body) buckets_healthy)))))"

definition healthy_step ::
    "'w cbs_http \<Rightarrow> ('w \<Rightarrow> rat) \<Rightarrow> (rat \<Rightarrow> 'w \<Rightarrow> 'w) \<Rightarrow> couchbase_server \<Rightarrow> rat \<Rightarrow> rat \<Rightarrow> rat \<Rightarrow> 'w
      \<Rightarrow> bool result option \<times> 'w" where
  "healthy_step http now sleep s timeout interval start w =
     (if \<not> now w - start < timeout then (Some (Inr False), w)
      else case cluster_check http s w of
             (Inr True, w') \<Rightarrow> (Some (Inr True), w')
           | (_, w') \<Rightarrow> (None, sleep interval w'))"

definition CouchbaseServer_wait_for_cluster_healthy ::
    "'w cbs_http \<Rightarrow> ('w \<Rightarrow> rat) \<Rightarrow> (rat \<Rightarrow> 'w \<Rightarrow> 'w) \<Rightarrow> nat \<Rightarrow> couchbase_server \<Rightarrow> rat \<Rightarrow> rat \<Rightarrow> ('w, bool) fio" where
  "CouchbaseServer_wait_for_cluster_healthy http now sleep fuel s timeout check_interval w =
     poll_loop (healthy_step http now sleep s timeout check_interval (now w)) fuel w"

text \<open>Whether a server is among the nodes, and whether the first node of its name has failed.\<close>

fun lookup_node :: "string \<Rightarrow> json list \<Rightarrow> (bool \<times> bool) result" where
  "lookup_node hostname [] = Inr (False, False)"
| "lookup_node hostname (node # nodes) =
     rbind (node_has_name hostname node) (\<lambda>found.
       if found
       then rbind (py_get node ''clusterMembership'' JNull) (\<lambda>m. Inr (True, m = JStr ''inactiveFailed''))
       else lookup_node hostname nodes)"

definition repair_node ::
    "'w cbs_http \<Rightarrow> ('w \<Rightarrow> rat) \<Rightarrow> (rat \<Rightarrow> 'w \<Rightarrow> 'w) \<Rightarrow> nat \<Rightarrow> couchbase_server \<Rightarrow> ('w, unit) io \<Rightarrow> ('w, unit) fio" where
  "repair_node http now sleep fuel s action =
     fio_bind (fio_of action) (\<lambda>_.
     fio_bind (CouchbaseServer_rebalance http now sleep fuel s None False) (\<lambda>_.
       fio_of (\<lambda>w. (Inr (), sleep 5 w))))"

fun ensure_nodes ::
    "'w cbs_http \<Rightarrow> ('w \<Rightarrow> rat) \<Rightarrow> (rat \<Rightarrow> 'w \<Rightarrow> 'w) \<Rightarrow> nat \<Rightarrow> couchbase_server \<Rightarrow> json \<Rightarrow> couchbase_server list
      \<Rightarrow> ('w, unit) fio" where
  "ensure_nodes http now sleep fuel s nodes [] = fio_of (io_return ())"
| "ensure_nodes http now sleep fuel s nodes (node # rest) =
     (if cb_hostname node = cb_hostname s then ensure_nodes http now sleep fuel s nodes rest
      else fio_bind (fio_of (io_lift (rbind (py_iter nodes) (lookup_node (cb_hostname node))))) (\<lambda>(in_cluster, failed).
           fio_bind (if failed then repair_node http now sleep fuel s (CouchbaseServer_recover http s node)
                     else if \<not> in_cluster then repair_node http now sleep fuel s (CouchbaseServer_add_node http sleep s node None)
                     else fio_of (io_return ())) (\<lambda>_.
             ensure_nodes http now sleep fuel s nodes rest)))"

definition CouchbaseServer_ensure_cluster_healthy ::
    "'w cbs_http \<Rightarrow> ('w \<Rightarrow> rat) \<Rightarrow> (rat \<Rightarrow> 'w \<Rightarrow> 'w) \<Rightarrow> nat \<Rightarrow> couchbase_server \<Rightarrow> couchbase_server list \<Rightarrow> ('w, unit) fio" where
  "CouchbaseServer_ensure_cluster_healthy http now sleep fuel s cbs_servers =
     (if length cbs_servers < 2 then fio_of (io_return ())
      else fio_bind (fio_of (io_bind (io_wrap (get_json http s ''pools/default''))
                              (\<lambda>cluster_data. io_lift (py_get cluster_data ''nodes'' (JList []))))) (\<lambda>nodes.
           fio_bind (ensure_nodes http now sleep fuel s nodes cbs_servers) (\<lambda>_.
           fio_bind (CouchbaseServer_wait_for_cluster_healthy http now sleep fuel s 120 2) (\<lambda>healthy.
             fio_of (if healthy then io_return () else io_raise CblTestError)))))"

section \<open>The host\<close>

text \<open>\<open>control method url body\<close> is a request to shell2http; \<open>fetch\<close> a plain GET with its text.\<close>

definition stop_cbs :: "(string \<Rightarrow> string \<Rightarrow> string option \<Rightarrow> ('w, int) io) \<Rightarrow> couchbase_server \<Rightarrow> ('w, unit) io" where
  "stop_cbs control s =
     io_bind (control ''GET'' (''http://'' @ cb_hostname s @ '':20001/stop-cbs'') None)
       (\<lambda>status. if status \<noteq> 200 then io_raise CblTestError else io_return ())"

definition start_cbs :: "(string \<Rightarrow> string \<Rightarrow> string option \<Rightarrow> ('w, int) io) \<Rightarrow> couchbase_server \<Rightarrow> int \<Rightarrow> ('w, unit) io" where
  "start_cbs control s port =
     io_bind (control ''POST'' (''http://'' @ cb_hostname s @ '':20001/start-cbs'')
        (Some (''{'' @ json_str ''port'' @ '': '' @ int_str port @ ''}'')))
       (\<lambda>status. if status \<noteq> 200 then io_raise CblTestError else io_return ())"

definition get_root_ca_certificate :: "(string \<Rightarrow> ('w, int \<times> string) io) \<Rightarrow> couchbase_server \<Rightarrow> ('w, string) io" where
  "get_root_ca_certificate fetch s =
     io_bind (fetch (admin_url s ''pools/default/certificate'')) (\<lambda>(status, body).
       if status \<noteq> 200 then io_raise CblTestError else io_return (py_strip body))"

section \<open>Retries and polls\<close>

text \<open>The world before each attempt, when all the attempts before it have failed.\<close>

primrec retry_world :: "(rat \<Rightarrow> 'w \<Rightarrow> 'w) \<Rightarrow> rat \<Rightarrow> ('w, 'a) io \<Rightarrow> nat \<Rightarrow> 'w \<Rightarrow> 'w" where
  "retry_world sleep secs func 0 w = w"
| "retry_world sleep secs func (Suc k) w = sleep secs (snd (func (retry_world sleep secs func k w)))"

definition retry_outcomes :: "(rat \<Rightarrow> 'w \<Rightarrow> 'w) \<Rightarrow> rat \<Rightarrow> ('w, 'a) io \<Rightarrow> nat \<Rightarrow> 'w \<Rightarrow> 'a result list" where
  "retry_outcomes sleep secs func n w = map (\<lambda>k. fst (func (retry_world sleep secs func k w))) [0..<n]"

lemma retry_world_shift:
  "retry_world sleep secs func k (sleep secs (snd (func w))) = retry_world sleep secs func (Suc k) w"
  by (induction k) simp_all

lemma retry_outcomes_Suc:
  "retry_outcomes sleep secs func (Suc n) w
     = fst (func w) # retry_outcomes sleep secs func n (sleep secs (snd (func w)))"
  unfolding retry_outcomes_def retry_world_shift
  by (simp add: upt_conv_Cons map_Suc_upt [symmetric] del: upt_Suc)

lemma retry_from_outcome:
  "fst (retry_from sleep secs func (Some e) n w)
     = hd (filter (\<lambda>r. \<not> isl r) (retry_outcomes sleep secs func n w) @ [last (Inl e # retry_outcomes sleep secs func n w)])"
proof (induction n arbitrary: e w)
  case 0
  show ?case by (simp add: retry_outcomes_def)
next
  case (Suc n)
  show ?case
  proof (cases "func w")
    case (Pair r w')
    show ?thesis
    proof (cases r)
      case (Inr x)
      then show ?thesis using Pair by (simp add: retry_outcomes_Suc)
    next
      case (Inl e')
      show ?thesis
      proof (cases n)
        case 0
        then show ?thesis using Pair Inl by (simp add: retry_outcomes_Suc) (simp add: retry_outcomes_def)
      next
        case (Suc m)
        then show ?thesis
          using Suc.IH [of e' "sleep secs w'"] Pair Inl by (simp add: retry_outcomes_Suc)
      qed
    qed
  qed
qed

text \<open>
  \<open>_retry\<close> gives what the first successful attempt gives and, when none of them succeeds, raises
  the exception of the last one; attempts follow each other with the wait between them.
\<close>

theorem retry_first_success:
  assumes "0 < max_attempts"
  shows "fst (CouchbaseServer_retry sleep func max_attempts wait_seconds w) =
    (let outcomes = retry_outcomes sleep wait_seconds func (nat max_attempts) w
     in hd (filter (\<lambda>r. \<not> isl r) outcomes @ [last outcomes]))"
proof -
  obtain m where m: "nat max_attempts = Suc m" using assms by (cases "nat max_attempts") auto
  obtain r w' where f: "func w = (r, w')" by (cases "func w")
  show ?thesis
  proof (cases r)
    case (Inr x)
    then show ?thesis using f by (simp add: CouchbaseServer_retry_def m retry_outcomes_Suc)
  next
    case (Inl e)
    show ?thesis
    proof (cases m)
      case 0
      then show ?thesis using f Inl
        by (simp add: CouchbaseServer_retry_def m retry_outcomes_Suc) (simp add: retry_outcomes_def)
    next
      case (Suc k)
      then show ?thesis using f Inl retry_from_outcome [of sleep wait_seconds func e m "sleep wait_seconds w'"]
        by (simp add: CouchbaseServer_retry_def m retry_outcomes_Suc [of _ _ _ m] del: retry_from.simps)
          (simp add: m retry_outcomes_Suc)
    qed
  qed
qed

theorem retry_first_success_witness:
  "fst (CouchbaseServer_retry (\<lambda>d w. w + 1) (\<lambda>w. (if w < (3 :: nat) then Inl ValueError else Inr w, Suc w)) 5 1 0) = Inr 4"
proof -
  have "retry_outcomes (\<lambda>d w. w + 1) 1 (\<lambda>w. (if w < (3 :: nat) then Inl ValueError else Inr w, Suc w)) (nat 5) 0
      = [Inl ValueError, Inl ValueError, Inr 4, Inr 6, Inr 8]"
    by (simp add: retry_outcomes_def upt_rec numeral_eq_Suc)
  then show ?thesis
    using retry_first_success [of 5 "\<lambda>d w. w + 1" "\<lambda>w. (if w < (3 :: nat) then Inl ValueError else Inr w, Suc w)" 1 0]
    by simp
qed

text \<open>A loop ends when every step that lets it go on takes time and the time is limited.\<close>

lemma poll_loop_ends:
  fixes now :: "'w \<Rightarrow> rat"
  assumes step: "\<And>w w'. step w = (None, w') \<Longrightarrow> now w - start < timeout \<and> now w + interval \<le> now w'"
    and "timeout \<le> now w - start + of_nat n * interval"
  shows "fst (poll_loop step (Suc n) w) \<noteq> None"
  using assms(2)
proof (induction n arbitrary: w)
  case 0
  then show ?case using step [of w "snd (step w)"] by (auto split: prod.splits option.splits)
next
  case (Suc n)
  show ?case
  proof (cases "fst (step w)")
    case None
    then have s: "step w = (None, snd (step w))" by (simp add: prod_eq_iff)
    from step [OF this] have "now w + interval \<le> now (snd (step w))" by simp
    then have "timeout \<le> now (snd (step w)) - start + of_nat n * interval"
      using Suc.prems by (simp add: algebra_simps)
    then have "fst (poll_loop step (Suc n) (snd (step w))) \<noteq> None" by (rule Suc.IH)
    moreover have "poll_loop step (Suc (Suc n)) w = poll_loop step (Suc n) (snd (step w))"
      by (subst poll_loop.simps(2), subst s) (simp only: prod.case option.case)
    ultimately show ?thesis by (simp only: not_False_eq_True)
  next
    case (Some r)
    then show ?thesis by (auto split: prod.splits)
  qed
qed

lemma poll_loop_result:
  "poll_loop step n w = (Some r, w') \<Longrightarrow> \<exists>v. step v = (Some r, w')"
  by (induction n arbitrary: w) (auto split: prod.splits option.splits)

text \<open>Sleeping takes at least its time, and a request does not turn the clock back.\<close>

definition advancing :: "('w \<Rightarrow> rat) \<Rightarrow> (rat \<Rightarrow> 'w \<Rightarrow> 'w) \<Rightarrow> 'w cbs_http \<Rightarrow> bool" where
  "advancing now sleep http \<longleftrightarrow> (\<forall>d w. now w + d \<le> now (sleep d w)) \<and> (\<forall>rq w. now w \<le> now (snd (http rq w)))"

text \<open>Computations during which the clock is not turned back.\<close>

definition keeps_time :: "('w \<Rightarrow> rat) \<Rightarrow> ('w, 'a) io \<Rightarrow> bool" where
  "keeps_time now m \<longleftrightarrow> (\<forall>w. now w \<le> now (snd (m w)))"

lemma keeps_time_bind [cbs_simps]:
  assumes "keeps_time now m" "\<And>x. keeps_time now (f x)"
  shows "keeps_time now (io_bind m f)"
  unfolding keeps_time_def
proof
  fix w
  obtain r w' where m: "m w = (r, w')" by (cases "m w")
  then have "now w \<le> now w'" using assms(1) unfolding keeps_time_def by (metis snd_conv)
  moreover have "now w' \<le> now (snd (f x w'))" for x using assms(2) unfolding keeps_time_def by blast
  ultimately show "now w \<le> now (snd (io_bind m f w))"
    using m by (cases r) (auto simp: io_bind_def intro: order_trans)
qed

lemma keeps_time_plain [cbs_simps]:
  "keeps_time now (io_return x)" "keeps_time now (io_raise e)" "keeps_time now (io_lift r)"
  by (simp_all add: keeps_time_def)

lemma keeps_time_get_json [cbs_simps]:
  assumes "advancing now sleep http"
  shows "keeps_time now (get_json http s path)"
proof -
  have "keeps_time now (session_request http s m u d)" for m u d
    using assms by (simp add: keeps_time_def advancing_def session_request_def)
  then show ?thesis
    unfolding get_json_def checked_request_def by (intro keeps_time_bind keeps_time_plain)
qed

lemma keeps_time_check:
  assumes "advancing now sleep http"
  shows "keeps_time now (cluster_check http s)" "keeps_time now (rebalance_status http s)"
  unfolding cluster_check_def io_and_def rebalance_status_def
  by (auto intro!: keeps_time_bind keeps_time_plain keeps_time_get_json [OF assms])

text \<open>
  C32. Waiting for a healthy cluster ends with a yes or no and never raises, whatever the server
  answers, after at most one check for every interval within the limit and one more.
\<close>

theorem healthy_wait_decides:
  assumes "advancing now sleep http" "timeout \<le> of_nat n * interval"
  shows "\<exists>b. fst (CouchbaseServer_wait_for_cluster_healthy http now sleep (Suc n) s timeout interval w) = Some (Inr b)"
proof -
  let ?step = "healthy_step http now sleep s timeout interval (now w)"
  have go: "now v - now w < timeout \<and> now v + interval \<le> now v'" if "?step v = (None, v')" for v v'
  proof -
    obtain r v1 where c: "cluster_check http s v = (r, v1)" by (cases "cluster_check http s v")
    have "v' = sleep interval v1" "now v - now w < timeout"
      using that c by (auto simp: healthy_step_def split: if_splits sum.splits bool.splits)
    moreover have "now v \<le> now v1"
      using keeps_time_check(1) [OF assms(1), of s] c unfolding keeps_time_def by (metis snd_conv)
    moreover have "now v1 + interval \<le> now (sleep interval v1)"
      using assms(1) unfolding advancing_def by blast
    ultimately show ?thesis by simp
  qed
  have "fst (poll_loop ?step (Suc n) w) \<noteq> None"
    by (rule poll_loop_ends [of ?step now "now w" timeout interval, OF go]) (use assms(2) in simp_all)
  then obtain r w' where r: "poll_loop ?step (Suc n) w = (Some r, w')"
    by (cases "poll_loop ?step (Suc n) w") auto
  from poll_loop_result [OF this] obtain v where "?step v = (Some r, w')" by blast
  then have "\<exists>b. r = Inr b"
    by (auto simp: healthy_step_def split: if_splits prod.splits sum.splits bool.splits)
  then show ?thesis using r by (auto simp: CouchbaseServer_wait_for_cluster_healthy_def)
qed

theorem healthy_wait_decides_witness:
  "\<exists>b. fst (CouchbaseServer_wait_for_cluster_healthy (\<lambda>rq w. (Inl HTTPError, w)) (\<lambda>w. w) (\<lambda>d w. w + d) 4
     \<lparr> cb_hostname = ''a'', cb_rest_port = 8091, cb_username = ''u'', cb_password = ''p'' \<rparr> 6 2 (0 :: rat)) = Some (Inr b)"
  using healthy_wait_decides [of "\<lambda>w. w" "\<lambda>d w. w + d" "\<lambda>rq w. (Inl HTTPError, w)" 6 3 2
      "\<lparr> cb_hostname = ''a'', cb_rest_port = 8091, cb_username = ''u'', cb_password = ''p'' \<rparr>" 0]
  by (simp add: advancing_def eval_nat_numeral)

text \<open>A yes of that wait comes from a check within the limit.\<close>

lemma healthy_wait_sound:
  assumes "CouchbaseServer_wait_for_cluster_healthy http now sleep fuel s timeout interval w = (Some (Inr True), w')"
  shows "\<exists>v. cluster_check http s v = (Inr True, w') \<and> now v - now w < timeout"
  using poll_loop_result [OF assms [unfolded CouchbaseServer_wait_for_cluster_healthy_def]]
  by (auto simp: healthy_step_def split: if_splits prod.splits sum.splits bool.splits)

text \<open>The wait for the end of a rebalance ends too; here errors of the server are raised.\<close>

lemma rebalance_wait_ends:
  assumes "advancing now sleep http" "timeout \<le> of_nat n * 5"
  shows "fst (wait_for_rebalance_completion http now sleep (Suc n) s timeout w) \<noteq> None"
proof -
  let ?step = "rebalance_wait_step http now sleep s timeout (now w)"
  have go: "now v - now w < timeout \<and> now v + 5 \<le> now v'" if "?step v = (None, v')" for v v'
  proof -
    obtain r v1 where c: "rebalance_status http s v = (r, v1)" by (cases "rebalance_status http s v")
    have "v' = sleep 5 v1" "now v - now w < timeout"
      using that c by (auto simp: rebalance_wait_step_def split: if_splits sum.splits)
    moreover have "now v \<le> now v1"
      using keeps_time_check(2) [OF assms(1), of s] c unfolding keeps_time_def by (metis snd_conv)
    moreover have "now v1 + 5 \<le> now (sleep 5 v1)"
      using assms(1) unfolding advancing_def by blast
    ultimately show ?thesis by simp
  qed
  show ?thesis
    unfolding wait_for_rebalance_completion_def
    by (rule poll_loop_ends [of ?step now "now w" timeout 5, OF go]) (use assms(2) in simp_all)
qed

section \<open>What a rebalance asks for\<close>

definition otp_name :: "json \<Rightarrow> string" where
  "otp_name node = (case py_get node ''otpNode'' JNull of Inr (JStr s) \<Rightarrow> s | _ \<Rightarrow> [])"

definition member_of :: "json \<Rightarrow> json" where
  "member_of node = (case py_get node ''clusterMembership'' JNull of Inr m \<Rightarrow> m | _ \<Rightarrow> JNull)"

definition ejected :: "couchbase_server option \<Rightarrow> bool \<Rightarrow> json \<Rightarrow> bool" where
  "ejected eject_node eject_failed_nodes node = (ejects eject_node eject_failed_nodes node (member_of node) = Inr True)"

lemma plan_nodes_filter:
  assumes "plan_nodes e f nodes = Inr (known, out)"
  shows "map Inr known = map (\<lambda>n. py_get n ''otpNode'' JNull) nodes
    \<and> map Inr out = map (\<lambda>n. py_get n ''otpNode'' JNull) (filter (ejected e f) nodes)"
  using assms
proof (induction nodes arbitrary: known out)
  case Nil
  then show ?case by simp
next
  case (Cons node nodes)
  from Cons.prems obtain otp m b known' out' where
    step: "py_get node ''otpNode'' JNull = Inr otp" "py_get node ''clusterMembership'' JNull = Inr m"
      "ejects e f node m = Inr b" "plan_nodes e f nodes = Inr (known', out')"
    and eq: "known = otp # known'" "out = (if b then otp # out' else out')"
    by (auto simp: result_simps split: prod.splits)
  have "ejected e f node = b" using step(2,3) by (simp add: ejected_def member_of_def)
  then show ?case using Cons.IH [OF step(4)] step(1) eq by simp
qed

lemma join_names_strings:
  assumes "join_names vs = Inr s" "map Inr vs = map (\<lambda>n. py_get n ''otpNode'' JNull) nodes"
  shows "s = join_with (CHR '','') (map otp_name nodes)"
proof -
  from assms(1) obtain ss where ss: "mapM (\<lambda>v. case v of JStr s \<Rightarrow> Inr s | _ \<Rightarrow> Inl TypeError) vs = Inr ss"
    "s = join_with (CHR '','') ss" by (auto simp: join_names_def result_simps)
  have str: "v = JStr t" if "(case v of JStr s \<Rightarrow> Inr s | _ \<Rightarrow> Inl TypeError) = Inr t" for v t
    using that by (cases v) auto
  have "list_all2 (\<lambda>v t. v = JStr t) vs ss"
    using ss(1) str by (auto simp: mapM_Inr_iff elim: list_all2_mono)
  then have "ss = map otp_name nodes"
    using assms(2)
  proof (induction vs ss arbitrary: nodes rule: list_all2_induct)
    case (Cons v vs t ts)
    then obtain n ns where n: "nodes = n # ns" by (cases nodes) auto
    then have "py_get n ''otpNode'' JNull = Inr (JStr t)" using Cons by simp
    then have "otp_name n = t" by (simp add: otp_name_def)
    then show ?case using Cons n by simp
  qed simp
  then show ?thesis using ss(2) by simp
qed


definition sample_pool :: json where
  "sample_pool = JObj [(''nodes'', JList
     [JObj [(''hostname'', JStr ''10.0.0.1:8091''), (''otpNode'', JStr ''n1''), (''clusterMembership'', JStr ''active'')],
      JObj [(''hostname'', JStr ''10.0.0.2:8091''), (''otpNode'', JStr ''n2''), (''clusterMembership'', JStr ''inactiveFailed'')]])]"


lemma unknown_node_not_rebalanced:
  assumes "get_cluster_info http s w = (Inr pool_data, w')" "pool_nodes pool_data = Inr nodes"
    and "plan_nodes (Some n) f nodes = Inr (known, out)" "\<forall>node \<in> set nodes. \<not> ejected (Some n) f node"
  shows "start_rebalance http sleep s (Some n) f w = (Inl CblTestError, w')"
proof -
  have "filter (ejected (Some n) f) nodes = []" using assms(4) by (simp add: filter_empty_conv)
  then have "out = []" using plan_nodes_filter [OF assms(3)] by simp
  then have "rebalance_data (Some n) f pool_data = Inl CblTestError"
    using assms(2,3) by (simp add: rebalance_data_def)
  then show ?thesis using assms(1) by (simp add: start_rebalance_def io_bind_def)
qed

section \<open>What the collections wait for\<close>

lemma await_collection_sound:
  assumes "await_collection sdk sleep bucket scope name n w = (Inr (), w')"
  shows "\<exists>v. sd_get sdk bucket scope name ''_nonexistent'' v = (Inl (CouchbaseError DocumentNotFoundException), w')"
  using assms
  by (induction n arbitrary: w) (auto simp: collection_probe_def split: prod.splits sum.splits if_splits option.splits)

lemma create_each_sound:
  assumes "create_each sdk sleep bucket scope names w = (Inr (), w')"
  shows "\<forall>name \<in> set names. \<exists>v. fst (sd_get sdk bucket scope name ''_nonexistent'' v)
    = Inl (CouchbaseError DocumentNotFoundException)"
  using assms
proof (induction names arbitrary: w)
  case Nil
  then show ?case by simp
next
  case (Cons name names)
  from Cons.prems obtain w1 w2 where w: "await_collection sdk sleep bucket scope name 10 w1 = (Inr (), w2)"
    "create_each sdk sleep bucket scope names w2 = (Inr (), w')"
    unfolding create_each.simps by (elim io_bind_InrE) simp
  have "\<exists>v. fst (sd_get sdk bucket scope name ''_nonexistent'' v) = Inl (CouchbaseError DocumentNotFoundException)"
    using await_collection_sound [OF w(1)] by (metis fst_conv)
  with Cons.IH [OF w(2)] show ?case by (auto simp del: create_each.simps await_collection.simps)
qed

text \<open>
  When \<open>create_collections\<close> returns, every collection named has answered a read with
  \<open>DocumentNotFoundException\<close>, so it was there: nothing else (a timeout, a value) counts as ready.
\<close>

theorem collections_seen_before_return:
  assumes "CouchbaseServer_create_collections sdk sleep bucket scope names w = (Inr (), w')"
  shows "\<forall>name \<in> set names. \<exists>v. fst (sd_get sdk bucket scope name ''_nonexistent'' v)
    = Inl (CouchbaseError DocumentNotFoundException)"
proof -
  from assms obtain v where "create_each sdk sleep bucket scope names v = (Inr (), w')"
    unfolding CouchbaseServer_create_collections_def by (elim io_bind_InrE)
  then show ?thesis by (rule create_each_sound)
qed

definition ready_sdk :: "nat sdk" where
  "ready_sdk =
     \<lparr> sd_connect = \<lambda>u n p w. (Inr (), w), sd_wait_until_ready = \<lambda>w. (Inr (), w), sd_bucket = \<lambda>b w. (Inr (), w),
       sd_create_scope = \<lambda>b s w. (Inl (CouchbaseError ScopeAlreadyExistsException), w),
       sd_create_collection = \<lambda>b s c w. (Inr (), w),
       sd_get = \<lambda>b s c d w. (Inl (if w < 3 then TimeoutError else CouchbaseError DocumentNotFoundException), w),
       sd_upsert = \<lambda>b s c d v w. (Inr (), w), sd_remove = \<lambda>b s c d w. (Inr (), w),
       sd_mutate_in = \<lambda>b s c d x w. (Inr (), w), sd_create_bucket = \<lambda>s w. (Inr (), w),
       sd_drop_bucket = \<lambda>b w. (Inr (), w), sd_indexes = \<lambda>b w. (Inr [], w),
       sd_create_primary_index = \<lambda>b s c w. (Inr (), w), sd_query = \<lambda>q w. (Inr [], w) \<rparr>"

text \<open>The collection is ready after three waits; the scope was there before.\<close>

theorem collections_seen_before_return_witness:
  "CouchbaseServer_create_collections ready_sdk (\<lambda>d w. Suc w) ''b'' ''s'' [''c''] 0 = (Inr (), 3)
   \<and> (\<exists>v. fst (sd_get ready_sdk ''b'' ''s'' ''c'' ''_nonexistent'' v) = Inl (CouchbaseError DocumentNotFoundException))"
proof -
  have run: "CouchbaseServer_create_collections ready_sdk (\<lambda>d w. Suc w) ''b'' ''s'' [''c''] 0 = (Inr (), 3)"
    by (simp add: CouchbaseServer_create_collections_def ready_sdk_def io_ignore_def io_bind_def io_try_def
      try_n_times_def collection_probe_def eval_nat_numeral)
  from collections_seen_before_return [OF this] run show ?thesis by simp
qed

section \<open>What a replication asks for\<close>

text \<open>
  A server whose answers do not change while one operation runs: the world is the list of the
  requests it was sent.
\<close>

definition answered :: "(cbs_request \<Rightarrow> cbs_reply) \<Rightarrow> cbs_request list cbs_http" where
  "answered answer rq sent = (Inr (answer rq), sent @ [rq])"

definition admin_request :: "couchbase_server \<Rightarrow> string \<Rightarrow> couchbase_server \<Rightarrow> string \<Rightarrow> jdict \<Rightarrow> cbs_request" where
  "admin_request s method owner path data =
     \<lparr> cq_auth = (cb_username s, cb_password s), cq_method = method, cq_url = admin_url owner path, cq_data = data \<rparr>"

text \<open>What is known to the server: its remote clusters by name with their UUID, and its tasks.\<close>

definition xdcr_server ::
    "(cbs_request \<Rightarrow> cbs_reply) \<Rightarrow> couchbase_server \<Rightarrow> (string, string) pydict \<Rightarrow> json list \<Rightarrow> bool" where
  "xdcr_server answer s remotes tasks \<longleftrightarrow>
     (\<forall>rq. cr_status (answer rq) = 200)
     \<and> cr_body (answer (admin_request s ''GET'' s ''pools/default/remoteClusters'' []))
         = Inr (JList (map (\<lambda>(n, u). JObj [(''name'', JStr n), (''uuid'', JStr u)]) remotes))
     \<and> cr_body (answer (admin_request s ''GET'' s ''pools/default/tasks'' [])) = Inr (JList tasks)"

lemma find_remote_map:
  "find_remote h (map (\<lambda>(n, u). JObj [(''name'', JStr n), (''uuid'', JStr u)]) remotes)
     = Inr (case map_of remotes h of None \<Rightarrow> JNull | Some u \<Rightarrow> JStr u)"
  by (induction remotes) (auto simp: d_item_def d_has_def)

lemma answered_request:
  "session_request (answered answer) s m (admin_url t p) d sent
     = (Inr (answer (admin_request s m t p d)), sent @ [admin_request s m t p d])"
  by (simp add: session_request_def answered_def admin_request_def)

lemma answered_checked:
  assumes "xdcr_server answer s remotes tasks"
  shows "checked_request (answered answer) s m (admin_url t p) d sent
     = (Inr (answer (admin_request s m t p d)), sent @ [admin_request s m t p d])"
  using assms by (simp add: checked_request_def io_bind_def answered_request raise_for_status_def xdcr_server_def)

lemma answered_operations [cbs_simps]:
  assumes "xdcr_server answer s remotes tasks"
  shows "remote_cluster_uuid (answered answer) s t sent
      = (Inr (case map_of remotes (cb_hostname t) of None \<Rightarrow> JNull | Some u \<Rightarrow> JStr u),
         sent @ [admin_request s ''GET'' s ''pools/default/remoteClusters'' []])"
    and "has_xdcr_task (answered answer) s i sent
      = (Inr (list_ex (is_xdcr_task i) tasks), sent @ [admin_request s ''GET'' s ''pools/default/tasks'' []])"
    and "enable_versioning (answered answer) s t b sent
      = (Inr (), sent @ [admin_request s ''POST'' t (''pools/default/buckets/'' @ b) [(''enableCrossClusterVersioning'', JStr ''true'')]])"
    and "post_checked (answered answer) s p d sent = (Inr (), sent @ [admin_request s ''POST'' s p d])"
  using assms
  by (simp_all add: remote_cluster_uuid_def has_xdcr_task_def enable_versioning_def post_checked_def get_json_def
      io_bind_def answered_checked [OF assms] answered_request raise_for_status_def py_iter_def find_remote_map
      xdcr_server_def)

text \<open>
  Starting a replication sets the prerequisite on both clusters, makes the target known only if
  it is not, and creates the replication exactly when no task of its id runs; stopping deletes
  exactly a task that starting would have found.
\<close>

theorem xdcr_requests:
  assumes "xdcr_server answer s remotes tasks" "\<forall>u. text (JStr u) = u"
  shows "CouchbaseServer_start_xdcr text (answered answer) s target bucket sent =
      (Inr (), sent @ [admin_request s ''GET'' s ''pools/default/remoteClusters'' [],
          admin_request s ''POST'' s (''pools/default/buckets/'' @ bucket) [(''enableCrossClusterVersioning'', JStr ''true'')],
          admin_request s ''POST'' target (''pools/default/buckets/'' @ bucket) [(''enableCrossClusterVersioning'', JStr ''true'')]]
        @ (case map_of remotes (cb_hostname target) of
             None \<Rightarrow> [admin_request s ''POST'' s ''pools/default/remoteClusters'' (remote_cluster_data target),
                      admin_request s ''POST'' s ''controller/createReplication'' (replication_data target bucket)]
           | Some uuid \<Rightarrow> admin_request s ''GET'' s ''pools/default/tasks'' [] #
               (if list_ex (is_xdcr_task (uuid @ ''/'' @ bucket @ ''/'' @ bucket)) tasks then []
                else [admin_request s ''POST'' s ''controller/createReplication'' (replication_data target bucket)])))
    \<and> CouchbaseServer_stop_xcdr text (answered answer) s target bucket sent =
      (Inr (), sent @ admin_request s ''GET'' s ''pools/default/remoteClusters'' [] #
        (case map_of remotes (cb_hostname target) of
           None \<Rightarrow> []
         | Some uuid \<Rightarrow> (let i = uuid @ ''/'' @ bucket @ ''/'' @ bucket
             in admin_request s ''GET'' s ''pools/default/tasks'' [] #
               (if list_ex (is_xdcr_task i) tasks
                then [admin_request s ''DELETE'' s (''controller/cancelXDCR/'' @ quote_plus i) []] else []))))"
proof (cases "map_of remotes (cb_hostname target)")
  case None
  then show ?thesis
    by (simp add: CouchbaseServer_start_xdcr_def CouchbaseServer_stop_xcdr_def io_bind_def
        answered_operations [OF assms(1)])
next
  case (Some uuid)
  then show ?thesis
    using assms(2)
    by (simp add: CouchbaseServer_start_xdcr_def CouchbaseServer_stop_xcdr_def io_bind_def xdcr_task_id_def Let_def
        answered_operations [OF assms(1)] answered_checked [OF assms(1)])
qed

definition sample_cbs :: "string \<Rightarrow> couchbase_server" where
  "sample_cbs h = \<lparr> cb_hostname = h, cb_rest_port = 8091, cb_username = ''u'', cb_password = ''p'' \<rparr>"

definition sample_answer :: "cbs_request \<Rightarrow> cbs_reply" where
  "sample_answer rq =
     \<lparr> cr_status = 200,
       cr_body = Inr (if cq_url rq = admin_url (sample_cbs ''a'') ''pools/default/tasks''
         then JList [JObj [(''type'', JStr ''xdcr''), (''id'', JStr ''7/x/x'')]]
         else JList [JObj [(''name'', JStr ''b''), (''uuid'', JStr ''7'')]]) \<rparr>"

theorem xdcr_requests_witness:
  "map cq_method (snd (CouchbaseServer_start_xdcr (\<lambda>v. case v of JStr s \<Rightarrow> s | _ \<Rightarrow> []) (answered sample_answer)
      (sample_cbs ''a'') (sample_cbs ''b'') ''x'' [])) = [''GET'', ''POST'', ''POST'', ''GET'']
   \<and> map cq_method (snd (CouchbaseServer_stop_xcdr (\<lambda>v. case v of JStr s \<Rightarrow> s | _ \<Rightarrow> []) (answered sample_answer)
      (sample_cbs ''a'') (sample_cbs ''b'') ''x'' [])) = [''GET'', ''GET'', ''DELETE'']"
proof -
  let ?tasks = "[JObj [(''type'', JStr ''xdcr''), (''id'', JStr ''7/x/x'')]]"
  have server: "xdcr_server sample_answer (sample_cbs ''a'') [(''b'', ''7'')] ?tasks"
    by (simp add: xdcr_server_def sample_answer_def admin_request_def admin_url_def)
  have "list_ex (is_xdcr_task (''7'' @ ''/'' @ ''x'' @ ''/'' @ ''x'')) ?tasks"
    by (simp add: is_xdcr_task_def)
  then show ?thesis
    using xdcr_requests [OF server, of "\<lambda>v. case v of JStr s \<Rightarrow> s | _ \<Rightarrow> []" "sample_cbs ''b''" "''x''" "[]"]
    by (simp add: sample_cbs_def admin_request_def Let_def)
qed

section \<open>Facts about the waits\<close>

text \<open>The wait for the deletion of a bucket is over as soon as one of its nodes is not healthy.\<close>

lemma unhealthy_counts_as_deleted:
  assumes "CouchbaseServer_bucket_healthy http s name w = (Inr False, w')" "0 < max_retries"
  shows "CouchbaseServer_wait_for_bucket_deleted http sleep s name max_retries delay w = (Inr (), w')"
proof -
  obtain m where "nat max_retries = Suc m" using assms(2) by (cases "nat max_retries") auto
  then show ?thesis
    using assms(1) by (simp add: CouchbaseServer_wait_for_bucket_deleted_def bucket_gone_step_def)
qed

text \<open>A created bucket is waited for until all three checks succeed at once.\<close>

lemma created_bucket_ready:
  assumes "CouchbaseServer_create_bucket sdk http sleep s name r n i w = (Inr (), w')"
  shows "\<exists>v. bucket_ready http s name v = (Inr True, w')"
proof -
  from assms obtain v where "bucket_ready_loop http sleep s name i (nat n) v = (Inr (), w')"
    unfolding CouchbaseServer_create_bucket_def by (elim io_bind_InrE)
  moreover have "bucket_ready_loop http sleep s name i k v = (Inr (), w') \<Longrightarrow> \<exists>v. bucket_ready http s name v = (Inr True, w')"
    for k v
    by (induction k arbitrary: v) (auto simp: bucket_ready_step_def split: prod.splits sum.splits if_splits option.splits)
  ultimately show ?thesis by blast
qed

text \<open>The port of the connection string is kept but no request uses it.\<close>

lemma rest_port_unused:
  "admin_url (s\<lparr>cb_rest_port := p\<rparr>) path = admin_url s path"
  by (simp add: admin_url_def)

lemma connection_urls:
  "parse_connection_url ''couchbase://host.local'' = Inr (''host.local'', 8091)"
  "parse_connection_url ''couchbases://u:p@Host:9000/x'' = Inr (''host'', 9000)"
  "parse_connection_url ''couchbase://[::1]:70000'' = Inl ValueError"
  by code_simp+

end
