(* ===== verification/Bridges.thy ===== *)
theory Bridges
  imports Json
begin

text \<open>
  The bridges to devices (\<open>environment/aws/topology_setup/test_server_platforms/*_bridge.py\<close>, and the
  bridges of \<open>java_register.py\<close> and \<open>js_register.py\<close>): what each does to validate, install, run, stop
  and find a test server.  The host (processes, files, environment) is a record of its operations;
  a path is the list of its components below the root.
\<close>

section \<open>The host\<close>

type_synonym path = "string list"

definition path_str :: "path \<Rightarrow> string" where
  "path_str p = (if p = [] then ''/'' else concat (map (\<lambda>c. CHR ''/'' # c) p))"

text \<open>\<open>p.parents[n]\<close>.\<close>

definition path_parents :: "path \<Rightarrow> nat \<Rightarrow> path result" where
  "path_parents p n = (if n < length p then Inr (take (length p - Suc n) p) else Inl IndexError)"

definition with_suffix :: "path \<Rightarrow> string \<Rightarrow> path" where
  "with_suffix p s = butlast p @ [last p @ s]"

record command =
  cm_args :: "string list"
  cm_cwd :: "path option"
  cm_env :: "(string, string) pydict"

record proc_result =
  pr_code :: int
  pr_stdout :: string
  pr_stderr :: string

datatype host_action =
    Mkdir path
  | Mkdir_existing path
  | Rmtree path
  | Unzip path path
  | Untar path path
  | Zip path path "string list"
  | Tar path path
  | Copy_file path path
  | Unlink path
  | Touch path
  | Write_file path string
  | Download string path
  | Set_environment string string
  | Check_call "string list"
  | Terminate int
  | Kill int

text \<open>A process that \<open>psutil\<close> lists, with all its descendants.\<close>

record process =
  ps_pid :: int
  ps_name :: string
  ps_children :: "(int \<times> string) list"

record 'w host =
  ho_system :: string
  ho_servers :: path
  ho_scripts :: path
  ho_xharness :: path
  ho_cpus :: string
  ho_exists :: "path \<Rightarrow> 'w \<Rightarrow> bool"
  ho_is_file :: "path \<Rightarrow> 'w \<Rightarrow> bool"
  ho_read :: "path \<Rightarrow> ('w, string) io"
  ho_getenv :: "string \<Rightarrow> 'w \<Rightarrow> string option"
  ho_which :: "string \<Rightarrow> 'w \<Rightarrow> string option"
  ho_act :: "host_action \<Rightarrow> ('w, unit) io"
  ho_run :: "command \<Rightarrow> ('w, proc_result) io"
  ho_popen :: "command \<Rightarrow> path \<Rightarrow> ('w, int) io"
  ho_pipe :: "command \<Rightarrow> command \<Rightarrow> ('w, int \<times> int) io"
  ho_processes :: "('w, process list) io"
  ho_head :: "string \<Rightarrow> ('w, int) io"
  ho_get :: "string \<Rightarrow> ('w, json) io"
  ho_dotnet_env :: "('w, string \<times> (string, string) pydict) io"

definition io_exists :: "'w host \<Rightarrow> path \<Rightarrow> ('w, bool) io" where
  "io_exists h p = (\<lambda>w. (Inr (ho_exists h p w), w))"

fun io_acts :: "'w host \<Rightarrow> host_action list \<Rightarrow> ('w, unit) io" where
  "io_acts h [] = io_return ()"
| "io_acts h (a # as) = io_bind (ho_act h a) (\<lambda>_. io_acts h as)"

definition command_of :: "string list \<Rightarrow> command" where
  "command_of args = \<lparr> cm_args = args, cm_cwd = None, cm_env = [] \<rparr>"

text \<open>\<open>subprocess.run(..., check=True)\<close>.\<close>

definition run_checked :: "'w host \<Rightarrow> command \<Rightarrow> ('w, proc_result) io" where
  "run_checked h c = io_bind (ho_run h c) (\<lambda>r. if pr_code r \<noteq> 0 then io_raise CalledProcessError else io_return r)"

definition run_unit :: "'w host \<Rightarrow> command \<Rightarrow> ('w, unit) io" where
  "run_unit h c = io_bind (run_checked h c) (\<lambda>_. io_return ())"

section \<open>The common part\<close>

text \<open>\<open>get_ip\<close> over what \<open>_get_ip\<close> finds.\<close>

definition PlatformBridge_get_ip :: "('w, string option) io \<Rightarrow> string option \<Rightarrow> ('w, string) io" where
  "PlatformBridge_get_ip get_ip fallback =
     io_bind get_ip (\<lambda>attempt.
       case attempt of
         Some ip \<Rightarrow> io_return ip
       | None \<Rightarrow> (case fallback of Some f \<Rightarrow> io_return f | None \<Rightarrow> io_raise RuntimeError))"

section \<open>Android\<close>

record android_bridge =
  ab_app_path :: string
  ab_app_id :: string
  ab_activity :: string
  ab_adb :: string
  ab_needs_permissions :: bool

definition potential_adb_locations :: "path list" where
  "potential_adb_locations =
     [[''opt'', ''homebrew'', ''share'', ''android-commandlinetools'', ''platform-tools''],
      [''C:'', ''Program Files (x86)'', ''Android'', ''android-sdk'', ''platform-tools'']]"

definition runtime_permissions :: "(string \<times> int option \<times> int option) list" where
  "runtime_permissions =
     [(''android.permission.ACCESS_FINE_LOCATION'', None, Some 30),
      (''android.permission.BLUETOOTH_SCAN'', Some 31, None),
      (''android.permission.BLUETOOTH_CONNECT'', Some 31, None),
      (''android.permission.BLUETOOTH_ADVERTISE'', Some 31, None),
      (''android.permission.NEARBY_WIFI_DEVICES'', Some 31, None)]"

fun search_adb :: "'w host \<Rightarrow> path list \<Rightarrow> 'w \<Rightarrow> path option" where
  "search_adb h [] w = None"
| "search_adb h (d # ds) w =
     (if ho_exists h (d @ [''adb'']) w then Some (d @ [''adb''])
      else if ho_exists h (d @ [''adb.exe'']) w then Some (d @ [''adb.exe''])
      else search_adb h ds w)"

definition AndroidBridge_create ::
    "'w host \<Rightarrow> string \<Rightarrow> string \<Rightarrow> string \<Rightarrow> bool \<Rightarrow> ('w, android_bridge) io" where
  "AndroidBridge_create h app_path app_id activity needs_permissions =
     io_bind (ho_run h (command_of [if ho_system h = ''Windows'' then ''where'' else ''which'', ''adb''])) (\<lambda>r.
     io_bind (if pr_code r = 0 then io_return (Some (py_strip (pr_stdout r)))
              else (\<lambda>w. (Inr (map_option path_str (search_adb h potential_adb_locations w)), w))) (\<lambda>adb.
       case adb of
         None \<Rightarrow> io_raise RuntimeError
       | Some a \<Rightarrow> io_return \<lparr> ab_app_path = app_path, ab_app_id = app_id, ab_activity = activity, ab_adb = a,
                                ab_needs_permissions = needs_permissions \<rparr>))"

definition adb :: "android_bridge \<Rightarrow> string \<Rightarrow> string list \<Rightarrow> command" where
  "adb b location args = command_of ([ab_adb b, ''-s'', location] @ args)"

definition AndroidBridge_validate :: "'w host \<Rightarrow> android_bridge \<Rightarrow> string \<Rightarrow> ('w, unit) io" where
  "AndroidBridge_validate h b location =
     io_bind (ho_run h (adb b location [''get-state''])) (\<lambda>r.
       if pr_code r \<noteq> 0 then io_raise RuntimeError else io_return ())"

definition get_api_level :: "'w host \<Rightarrow> android_bridge \<Rightarrow> string \<Rightarrow> ('w, int) io" where
  "get_api_level h b location =
     io_bind (run_checked h (adb b location [''shell'', ''getprop'', ''ro.build.version.sdk''])) (\<lambda>r.
       case py_int (py_strip (pr_stdout r)) of Some n \<Rightarrow> io_return n | None \<Rightarrow> io_raise ValueError)"

definition permissions_for :: "int \<Rightarrow> string list" where
  "permissions_for api_level =
     map fst (filter (\<lambda>(p, min_api, max_api).
       (case min_api of None \<Rightarrow> True | Some m \<Rightarrow> m \<le> api_level)
       \<and> (case max_api of None \<Rightarrow> True | Some m \<Rightarrow> api_level \<le> m)) runtime_permissions)"

text \<open>A permission that cannot be granted is reported and skipped.\<close>

fun grant_each :: "'w host \<Rightarrow> android_bridge \<Rightarrow> string \<Rightarrow> string list \<Rightarrow> ('w, unit) io" where
  "grant_each h b location [] = io_return ()"
| "grant_each h b location (p # ps) =
     io_bind (ho_run h (adb b location [''shell'', ''pm'', ''grant'', ab_app_id b, p])) (\<lambda>_. grant_each h b location ps)"

definition grant_runtime_permissions :: "'w host \<Rightarrow> android_bridge \<Rightarrow> string \<Rightarrow> ('w, unit) io" where
  "grant_runtime_permissions h b location =
     io_bind (get_api_level h b location) (\<lambda>api_level. grant_each h b location (permissions_for api_level))"

definition AndroidBridge_install :: "'w host \<Rightarrow> android_bridge \<Rightarrow> string \<Rightarrow> ('w, unit) io" where
  "AndroidBridge_install h b location =
     io_bind (run_checked h (adb b location [''install'', ab_app_path b])) (\<lambda>_.
       if ab_needs_permissions b then grant_runtime_permissions h b location else io_return ())"

definition AndroidBridge_run :: "'w host \<Rightarrow> android_bridge \<Rightarrow> string \<Rightarrow> ('w, unit) io" where
  "AndroidBridge_run h b location =
     run_unit h (adb b location [''shell'', ''am'', ''start'', ab_app_id b @ ''/.'' @ ab_activity b])"

definition AndroidBridge_stop :: "'w host \<Rightarrow> android_bridge \<Rightarrow> string \<Rightarrow> ('w, unit) io" where
  "AndroidBridge_stop h b location = run_unit h (adb b location [''shell'', ''am'', ''force-stop'', ab_app_id b])"

definition AndroidBridge_uninstall :: "'w host \<Rightarrow> android_bridge \<Rightarrow> string \<Rightarrow> ('w, unit) io" where
  "AndroidBridge_uninstall h b location = run_unit h (adb b location [''uninstall'', ab_app_id b])"

text \<open>The address in the first line that has \<open>inet\<close> in it; such a line without a second word raises.\<close>

fun first_inet :: "string list \<Rightarrow> string option result" where
  "first_inet [] = Inr None"
| "first_inet (line # lines) =
     (if contains_sub ''inet'' line
      then (case split_on (CHR '' '') (dropWhile is_space line) of
              _ # a # _ \<Rightarrow> Inr (Some (hd (split_on (CHR ''/'') a)))
            | _ \<Rightarrow> Inl IndexError)
      else first_inet lines)"

definition AndroidBridge_find_ip :: "'w host \<Rightarrow> android_bridge \<Rightarrow> string \<Rightarrow> ('w, string option) io" where
  "AndroidBridge_find_ip h b location =
     io_bind (run_checked h (adb b location [''shell'', ''ip'', ''-f'', ''inet'', ''addr'', ''show'', ''wlan0''])) (\<lambda>r.
       io_lift (first_inet (split_on (char_of (10 :: nat)) (pr_stdout r))))"

section \<open>Executables\<close>

record exe_bridge =
  eb_exe_path :: path
  eb_extra_args :: "string list"
  eb_log_filename :: string

definition ExeBridge_create :: "path \<Rightarrow> string list option \<Rightarrow> exe_bridge" where
  "ExeBridge_create exe_path extra_args =
     \<lparr> eb_exe_path = exe_path, eb_extra_args = (case extra_args of Some a \<Rightarrow> a | None \<Rightarrow> []),
       eb_log_filename = ''server.log'' \<rparr>"

definition ExeBridge_run :: "'w host \<Rightarrow> exe_bridge \<Rightarrow> string \<Rightarrow> ('w, unit) io" where
  "ExeBridge_run h b location =
     io_bind (ho_popen h (command_of (path_str (eb_exe_path b) # eb_extra_args b))
        (butlast (eb_exe_path b) @ [eb_log_filename b])) (\<lambda>_. io_return ())"

text \<open>Only the first process of the name is stopped.\<close>

definition terminate_first :: "'w host \<Rightarrow> string \<Rightarrow> process list \<Rightarrow> ('w, unit) io" where
  "terminate_first h name ps =
     (case find (\<lambda>p. ps_name p = name) ps of
        Some p \<Rightarrow> ho_act h (Terminate (ps_pid p))
      | None \<Rightarrow> io_return ())"

definition ExeBridge_stop :: "'w host \<Rightarrow> exe_bridge \<Rightarrow> string \<Rightarrow> ('w, unit) io" where
  "ExeBridge_stop h b location = io_bind (ho_processes h) (terminate_first h (last (eb_exe_path b)))"

text \<open>\<open>exec_command\<close> runs a command over SSH: its output, error output and exit status.\<close>

definition remote_exec :: "(string \<Rightarrow> ('w, proc_result) io) \<Rightarrow> string \<Rightarrow> bool \<Rightarrow> ('w, unit) io" where
  "remote_exec exec_command command fail_on_error =
     io_bind (exec_command command) (\<lambda>r.
       if fail_on_error \<and> pr_code r \<noteq> 0 then io_raise PlainException else io_return ())"

section \<open>Local applications of macOS\<close>

definition macOSBridge_validate :: "string \<Rightarrow> ('w, unit) io" where
  "macOSBridge_validate location = (if location \<noteq> ''localhost'' then io_raise RuntimeError else io_return ())"

definition macOSBridge_run :: "'w host \<Rightarrow> path \<Rightarrow> string \<Rightarrow> ('w, unit) io" where
  "macOSBridge_run h app_path location =
     io_bind (macOSBridge_validate location) (\<lambda>_. run_unit h (command_of [''open'', path_str app_path]))"

definition macOSBridge_stop :: "'w host \<Rightarrow> string \<Rightarrow> ('w, unit) io" where
  "macOSBridge_stop h location =
     io_bind (macOSBridge_validate location) (\<lambda>_.
     io_bind (ho_run h (command_of [''killall'', ''testserver''])) (\<lambda>_. io_return ()))"

section \<open>JavaScript\<close>

definition JavascriptBridge_run :: "'w host \<Rightarrow> path \<Rightarrow> string \<Rightarrow> ('w, unit) io" where
  "JavascriptBridge_run h working_dir location =
     io_bind (ho_popen h \<lparr> cm_args = [''bun'', ''run'', ''dev''], cm_cwd = Some working_dir, cm_env = [] \<rparr>
        (ho_servers h @ [''javascript'', ''server.log''])) (\<lambda>_. io_return ())"

text \<open>The first \<open>bun\<close> is stopped, after the first \<open>node\<close> among its descendants.\<close>

definition JavascriptBridge_stop :: "'w host \<Rightarrow> string \<Rightarrow> ('w, unit) io" where
  "JavascriptBridge_stop h location =
     (let windows = (ho_system h = ''Windows'');
          proc_name = (if windows then ''bun.exe'' else ''bun'');
          node_name = (if windows then ''node.exe'' else ''node'')
      in io_bind (ho_processes h) (\<lambda>ps.
           case find (\<lambda>p. ps_name p = proc_name) ps of
             None \<Rightarrow> io_return ()
           | Some p \<Rightarrow>
               io_acts h ((case find (\<lambda>c. snd c = node_name) (ps_children p) of
                             Some c \<Rightarrow> [Terminate (fst c)] | None \<Rightarrow> []) @ [Terminate (ps_pid p)])))"

section \<open>Java\<close>

definition only_localhost :: "string \<Rightarrow> ('w, unit) io" where
  "only_localhost location = (if location \<noteq> ''localhost'' then io_raise ValueError else io_return ())"

definition java_dir :: "'w host \<Rightarrow> path" where
  "java_dir h = ho_servers h @ [''jak'']"

text \<open>A version without a build number has no second part.\<close>

definition version_part :: "string \<Rightarrow> nat \<Rightarrow> string result" where
  "version_part v n = (let parts = split_on (CHR ''-'') v in if n < length parts then Inr (parts ! n) else Inl IndexError)"

definition download_support_libs :: "'w host \<Rightarrow> string \<Rightarrow> string \<Rightarrow> ('w, unit) io" where
  "download_support_libs h cbl_version variant =
     (if ho_system h \<noteq> ''Linux'' then io_return ()
      else let supportlib_dir = java_dir h @ [variant, ''supportlib'']; zip = java_dir h @ [variant, ''support.zip'']
           in io_bind (ho_act h (Mkdir_existing supportlib_dir)) (\<lambda>_.
              io_bind (io_exists h (supportlib_dir @ [''libstdc++.so.6''])) (\<lambda>there.
                if there then io_return ()
                else io_bind (io_lift (version_part cbl_version 0)) (\<lambda>v.
                     io_bind (io_lift (version_part cbl_version 1)) (\<lambda>b.
                       io_acts h
                         [Download (''https://latestbuilds.service.couchbase.com/builds/latestbuilds/couchbase-lite-java/''
                            @ v @ ''/'' @ b @ ''/couchbase-lite-java-linux-supportlibs-'' @ cbl_version @ ''.zip'') zip,
                          Unzip zip supportlib_dir, Unlink zip])))))"

definition ensure_support_libs_in_path :: "'w host \<Rightarrow> string \<Rightarrow> ('w, unit) io" where
  "ensure_support_libs_in_path h variant =
     (if ho_system h \<noteq> ''Linux'' then io_return ()
      else (\<lambda>w. let dir = path_str (java_dir h @ [variant, ''supportlib'']);
                    ld = (case ho_getenv h ''LD_LIBRARY_PATH'' w of Some s \<Rightarrow> s | None \<Rightarrow> [])
                in if ld = [] then ho_act h (Set_environment ''LD_LIBRARY_PATH'' dir) w
                   else if \<not> contains_sub dir ld then ho_act h (Set_environment ''LD_LIBRARY_PATH'' (dir @ CHR '':'' # ld)) w
                   else (Inr (), w)))"

record jar_bridge =
  jb_jar_path :: path
  jb_cbl_version :: string

definition JarBridge_create :: "'w host \<Rightarrow> path \<Rightarrow> string \<Rightarrow> ('w, jar_bridge) io" where
  "JarBridge_create h p cbl_version =
     io_bind (io_exists h (java_dir h @ [''version.txt''])) (\<lambda>there.
       if \<not> there then io_raise ValueError else io_return \<lparr> jb_jar_path = p, jb_cbl_version = cbl_version \<rparr>)"

definition JarBridge_install :: "'w host \<Rightarrow> jar_bridge \<Rightarrow> string \<Rightarrow> ('w, unit) io" where
  "JarBridge_install h b location =
     io_bind (only_localhost location) (\<lambda>_. download_support_libs h (jb_cbl_version b) ''desktop'')"

definition JarBridge_run :: "'w host \<Rightarrow> jar_bridge \<Rightarrow> string \<Rightarrow> ('w, unit) io" where
  "JarBridge_run h b location =
     io_bind (only_localhost location) (\<lambda>_.
     io_bind (ensure_support_libs_in_path h ''desktop'') (\<lambda>_.
     io_bind (ho_popen h (command_of ((if ho_system h \<noteq> ''Windows'' then [''nohup''] else [])
                 @ [''java'', ''-jar'', path_str (jb_jar_path b), ''server'']))
               (java_dir h @ [''desktop'', ''server.log''])) (\<lambda>pid.
       ho_act h (Write_file (java_dir h @ [''desktop'', ''server.pid'']) (int_str pid)))))"

definition JarBridge_stop :: "'w host \<Rightarrow> string \<Rightarrow> ('w, unit) io" where
  "JarBridge_stop h location =
     io_bind (only_localhost location) (\<lambda>_.
     io_bind (ho_read h (java_dir h @ [''desktop'', ''server.pid''])) (\<lambda>s.
       case py_int s of Some pid \<Rightarrow> ho_act h (Kill pid) | None \<Rightarrow> io_raise ValueError))"

definition jetty_gradle :: "'w host \<Rightarrow> path" where
  "jetty_gradle h =
     (let p = java_dir h @ [''webservice'', ''gradlew'']
      in if ho_system h = ''Windows'' then with_suffix p ''.bat'' else p)"

definition jetty_command :: "'w host \<Rightarrow> string \<Rightarrow> string \<Rightarrow> command" where
  "jetty_command h cbl_version target =
     \<lparr> cm_args = [path_str (jetty_gradle h), target, ''-PcblVersion='' @ cbl_version, ''-PdatasetVersion=3.2''],
       cm_cwd = Some (butlast (jetty_gradle h)), cm_env = [] \<rparr>"

definition JettyBridge_do_stop :: "'w host \<Rightarrow> string \<Rightarrow> string \<Rightarrow> bool \<Rightarrow> ('w, unit) io" where
  "JettyBridge_do_stop h cbl_version location check_result =
     io_bind (only_localhost location) (\<lambda>_.
     io_bind (ho_run h (jetty_command h cbl_version ''appStop'')) (\<lambda>r.
       if check_result \<and> pr_code r \<noteq> 0 then io_raise CalledProcessError else io_return ()))"

definition JettyBridge_install :: "'w host \<Rightarrow> string \<Rightarrow> string \<Rightarrow> ('w, unit) io" where
  "JettyBridge_install h cbl_version location =
     io_bind (only_localhost location) (\<lambda>_. download_support_libs h cbl_version ''webservice'')"

definition JettyBridge_run :: "'w host \<Rightarrow> string \<Rightarrow> string \<Rightarrow> ('w, unit) io" where
  "JettyBridge_run h cbl_version location =
     io_bind (only_localhost location) (\<lambda>_.
     io_bind (ensure_support_libs_in_path h ''webservice'') (\<lambda>_.
     io_bind (JettyBridge_do_stop h cbl_version location False) (\<lambda>_.
       let c = jetty_command h cbl_version ''jettyStart''
       in io_bind (ho_popen h (c\<lparr>cm_args := (if ho_system h \<noteq> ''Windows'' then [''nohup''] else []) @ cm_args c\<rparr>)
            (java_dir h @ [''webservice'', ''server.log''])) (\<lambda>_. io_return ()))))"

section \<open>iOS\<close>

text \<open>The devices that are reached through \<open>xharness\<close> are a global set, carried beside the world.\<close>

type_synonym 'w ios_world = "string list \<times> 'w"

definition on_host :: "('w, 'a) io \<Rightarrow> ('w ios_world, 'a) io" where
  "on_host m = (\<lambda>(ds, w). let (r, w') = m w in (r, ds, w'))"

record ios_bridge =
  ib_app_path :: string
  ib_has_xharness :: bool
  ib_app_id :: string

definition iOSBridge_create :: "'w host \<Rightarrow> string \<Rightarrow> string \<Rightarrow> ('w, ios_bridge) io" where
  "iOSBridge_create h app_path app_id =
     (\<lambda>w. (Inr \<lparr> ib_app_path = app_path, ib_has_xharness = ho_is_file h (ho_xharness h) w, ib_app_id = app_id \<rparr>, w))"

definition devicectl :: "string list \<Rightarrow> command" where
  "devicectl args = command_of ([''xcrun'', ''devicectl'', ''device''] @ args)"

definition validate_devicectl :: "'w host \<Rightarrow> string \<Rightarrow> ('w, bool) io" where
  "validate_devicectl h location =
     io_bind (ho_run h (devicectl [''info'', ''details'', ''--device'', location])) (\<lambda>r. io_return (pr_code r = 0))"

definition validate_libimobiledevice :: "'w host \<Rightarrow> string \<Rightarrow> ('w, bool) io" where
  "validate_libimobiledevice h location =
     (\<lambda>w. if ho_which h ''ideviceinfo'' w = None then (Inl RuntimeError, w)
          else io_bind (ho_run h (command_of [''ideviceinfo'', ''-u'', location])) (\<lambda>r. io_return (pr_code r = 0)) w)"

definition iOSBridge_validate :: "'w host \<Rightarrow> ios_bridge \<Rightarrow> string \<Rightarrow> ('w ios_world, unit) io" where
  "iOSBridge_validate h b location = (\<lambda>(ds, w).
     if location \<in> set ds then (Inr (), ds, w)
     else case validate_devicectl h location w of
            (Inl e, w') \<Rightarrow> (Inl e, ds, w')
          | (Inr True, w') \<Rightarrow> (Inr (), ds, w')
          | (Inr False, w') \<Rightarrow>
              if \<not> ib_has_xharness b then (Inl RuntimeError, ds, w')
              else (case validate_libimobiledevice h location w' of
                      (Inl e, w'') \<Rightarrow> (Inl e, ds, w'')
                    | (Inr found, w'') \<Rightarrow>
                        if \<not> found then (Inl RuntimeError, ds, w'') else (Inr (), location # ds, w'')))"

definition install_devicectl :: "'w host \<Rightarrow> ios_bridge \<Rightarrow> string \<Rightarrow> ('w, unit) io" where
  "install_devicectl h b location =
     run_unit h (devicectl [''install'', ''app'', ''--device'', location, ib_app_path b])"

definition xharness :: "'w host \<Rightarrow> string list \<Rightarrow> command" where
  "xharness h args = command_of ([path_str (ho_xharness h), ''apple'', ''mlaunch''] @ args)"

text \<open>The second and third component of the selected Xcode's path.\<close>

definition install_xharness :: "'w host \<Rightarrow> ios_bridge \<Rightarrow> string \<Rightarrow> ('w, unit) io" where
  "install_xharness h b location =
     io_bind (run_checked h (command_of [''xcode-select'', ''-p''])) (\<lambda>r.
       let xcode_path = join_with (CHR ''/'') (take 2 (drop 1 (split_on (CHR ''/'') (py_strip (pr_stdout r)))))
       in run_unit h (xharness h [''--xcode'', CHR ''/'' # xcode_path, ''--'', ''--devname'', location,
                                  ''--installdev'', ib_app_path b]))"

definition run_devicectl :: "'w host \<Rightarrow> ios_bridge \<Rightarrow> string \<Rightarrow> ('w, unit) io" where
  "run_devicectl h b location =
     run_unit h (devicectl [''process'', ''launch'', ''--device'', location, ib_app_id b])"

definition ios_pid_file :: "'w host \<Rightarrow> string \<Rightarrow> path" where
  "ios_pid_file h location = ho_scripts h @ [''ios_pid_'' @ location @ ''.txt'']"

text \<open>The digits after the first \<open>pid \<close> that has some.\<close>

fun find_pid :: "string \<Rightarrow> string option" where
  "find_pid [] = None"
| "find_pid (c # cs) =
     (let digits = takeWhile is_digit (drop 4 (c # cs))
      in if prefix ''pid '' (c # cs) \<and> digits \<noteq> [] then Some digits else find_pid cs)"

definition run_xharness :: "'w host \<Rightarrow> ios_bridge \<Rightarrow> string \<Rightarrow> ('w, unit) io" where
  "run_xharness h b location =
     (let pid_file = ios_pid_file h location
      in io_bind (io_exists h pid_file) (\<lambda>there.
         io_bind (if there then ho_act h (Unlink pid_file) else io_return ()) (\<lambda>_.
         io_bind (run_checked h (xharness h [''--'', ''--devname'', location, ''--launchdev'', ib_app_path b])) (\<lambda>r.
           case find_pid (pr_stdout r) of
             None \<Rightarrow> io_raise RuntimeError
           | Some pid \<Rightarrow> ho_act h (Write_file pid_file pid)))))"

text \<open>What \<open>subprocess.run(check=True)\<close> gives, with \<open>CalledProcessError\<close> caught and nothing done.\<close>

definition io_skip_failed :: "('w, proc_result) io \<Rightarrow> (proc_result \<Rightarrow> ('w, unit) io) \<Rightarrow> ('w, unit) io" where
  "io_skip_failed m k = (\<lambda>w. case m w of
     (Inl e, w') \<Rightarrow> if e = CalledProcessError then (Inr (), w') else (Inl e, w')
   | (Inr r, w') \<Rightarrow> k r w')"

definition terminate_pid :: "'w host \<Rightarrow> string \<Rightarrow> string \<Rightarrow> ('w, unit) io" where
  "terminate_pid h location pid =
     io_skip_failed (run_checked h (devicectl [''process'', ''terminate'', ''--device'', location, ''--pid'', pid]))
       (\<lambda>_. io_return ())"

text \<open>The process of the app: the first word of the first line that has the path of the app in it.\<close>

definition pid_of_app :: "string \<Rightarrow> string list \<Rightarrow> string option" where
  "pid_of_app app_path lines =
     (case find (contains_sub app_path) lines of
        Some line \<Rightarrow> if line = [] then None else Some (hd (split_on (CHR '' '') line))
      | None \<Rightarrow> None)"

definition stop_devicectl :: "'w host \<Rightarrow> ios_bridge \<Rightarrow> string \<Rightarrow> ('w, unit) io" where
  "stop_devicectl h b location =
     io_skip_failed (run_checked h (devicectl [''info'', ''apps'', ''--device'', location, ''--bundle-id'', ib_app_id b,
         ''--hide-headers'', ''--hide-default-columns'', ''--columns'', ''path''])) (\<lambda>r.
       let stdout = splitlines (pr_stdout r)
       in if stdout = [] then io_return ()
          else io_skip_failed (run_checked h (devicectl [''info'', ''processes'', ''--device'', location])) (\<lambda>r.
                 case pid_of_app (py_strip (last stdout)) (splitlines (pr_stdout r)) of
                   None \<Rightarrow> io_return ()
                 | Some pid \<Rightarrow> terminate_pid h location pid))"

definition stop_xharness :: "'w host \<Rightarrow> string \<Rightarrow> ('w, unit) io" where
  "stop_xharness h location =
     io_bind (io_exists h (ios_pid_file h location)) (\<lambda>there.
       if \<not> there then io_raise RuntimeError
       else io_bind (ho_read h (ios_pid_file h location)) (\<lambda>s.
              run_unit h (xharness h [''--'', ''--devname'', location, ''--killdev'', py_strip s])))"

definition ios_choose ::
    "string \<Rightarrow> ('w, unit) io \<Rightarrow> ('w, unit) io \<Rightarrow> ('w ios_world, unit) io" where
  "ios_choose location with_devicectl with_xharness = (\<lambda>(ds, w).
     if location \<notin> set ds then on_host with_devicectl (ds, w) else on_host with_xharness (ds, w))"

definition iOSBridge_install :: "'w host \<Rightarrow> ios_bridge \<Rightarrow> string \<Rightarrow> ('w ios_world, unit) io" where
  "iOSBridge_install h b location = ios_choose location (install_devicectl h b location) (install_xharness h b location)"

definition iOSBridge_run :: "'w host \<Rightarrow> ios_bridge \<Rightarrow> string \<Rightarrow> ('w ios_world, unit) io" where
  "iOSBridge_run h b location = ios_choose location (run_devicectl h b location) (run_xharness h b location)"

definition iOSBridge_stop :: "'w host \<Rightarrow> ios_bridge \<Rightarrow> string \<Rightarrow> ('w ios_world, unit) io" where
  "iOSBridge_stop h b location = ios_choose location (stop_devicectl h b location) (stop_xharness h location)"

section \<open>Any bridge\<close>

datatype bridge =
    iOSBridge ios_bridge
  | AndroidBridge android_bridge
  | ExeBridge exe_bridge
  | macOSBridge path
  | JarBridge jar_bridge
  | JettyBridge string
  | JavascriptBridge path

text \<open>The methods as the abstract class declares them.\<close>

fun bridge_validate :: "'w host \<Rightarrow> bridge \<Rightarrow> string \<Rightarrow> ('w ios_world, unit) io" where
  "bridge_validate h (iOSBridge b) l = iOSBridge_validate h b l"
| "bridge_validate h (AndroidBridge b) l = on_host (AndroidBridge_validate h b l)"
| "bridge_validate h (ExeBridge b) l = io_return ()"
| "bridge_validate h (macOSBridge p) l = macOSBridge_validate l"
| "bridge_validate h (JarBridge b) l = only_localhost l"
| "bridge_validate h (JettyBridge v) l = only_localhost l"
| "bridge_validate h (JavascriptBridge d) l = io_return ()"

fun bridge_install :: "'w host \<Rightarrow> bridge \<Rightarrow> string \<Rightarrow> ('w ios_world, unit) io" where
  "bridge_install h (iOSBridge b) l = iOSBridge_install h b l"
| "bridge_install h (AndroidBridge b) l = on_host (AndroidBridge_install h b l)"
| "bridge_install h (ExeBridge b) l = io_return ()"
| "bridge_install h (macOSBridge p) l = macOSBridge_validate l"
| "bridge_install h (JarBridge b) l = on_host (JarBridge_install h b l)"
| "bridge_install h (JettyBridge v) l = on_host (JettyBridge_install h v l)"
| "bridge_install h (JavascriptBridge d) l = io_return ()"

fun bridge_run :: "'w host \<Rightarrow> bridge \<Rightarrow> string \<Rightarrow> ('w ios_world, unit) io" where
  "bridge_run h (iOSBridge b) l = iOSBridge_run h b l"
| "bridge_run h (AndroidBridge b) l = on_host (AndroidBridge_run h b l)"
| "bridge_run h (ExeBridge b) l = on_host (ExeBridge_run h b l)"
| "bridge_run h (macOSBridge p) l = on_host (macOSBridge_run h p l)"
| "bridge_run h (JarBridge b) l = on_host (JarBridge_run h b l)"
| "bridge_run h (JettyBridge v) l = on_host (JettyBridge_run h v l)"
| "bridge_run h (JavascriptBridge d) l = on_host (JavascriptBridge_run h d l)"

fun bridge_stop :: "'w host \<Rightarrow> bridge \<Rightarrow> string \<Rightarrow> ('w ios_world, unit) io" where
  "bridge_stop h (iOSBridge b) l = iOSBridge_stop h b l"
| "bridge_stop h (AndroidBridge b) l = on_host (AndroidBridge_stop h b l)"
| "bridge_stop h (ExeBridge b) l = on_host (ExeBridge_stop h b l)"
| "bridge_stop h (macOSBridge p) l = on_host (macOSBridge_stop h l)"
| "bridge_stop h (JarBridge b) l = on_host (JarBridge_stop h l)"
| "bridge_stop h (JettyBridge v) l = on_host (JettyBridge_do_stop h v l True)"
| "bridge_stop h (JavascriptBridge d) l = on_host (JavascriptBridge_stop h l)"

fun bridge_uninstall :: "'w host \<Rightarrow> bridge \<Rightarrow> string \<Rightarrow> ('w ios_world, unit) io" where
  "bridge_uninstall h (AndroidBridge b) l = on_host (AndroidBridge_uninstall h b l)"
| "bridge_uninstall h (macOSBridge p) l = macOSBridge_validate l"
| "bridge_uninstall h b l = io_return ()"

fun bridge_find_ip :: "'w host \<Rightarrow> bridge \<Rightarrow> string \<Rightarrow> ('w ios_world, string option) io" where
  "bridge_find_ip h (iOSBridge b) l = io_return None"
| "bridge_find_ip h (AndroidBridge b) l = on_host (AndroidBridge_find_ip h b l)"
| "bridge_find_ip h (ExeBridge b) l = io_return (Some l)"
| "bridge_find_ip h (macOSBridge p) l = io_return (Some l)"
| "bridge_find_ip h (JarBridge b) l = io_bind (only_localhost l) (\<lambda>_. io_return (Some l))"
| "bridge_find_ip h (JettyBridge v) l = io_bind (only_localhost l) (\<lambda>_. io_return (Some l))"
| "bridge_find_ip h (JavascriptBridge d) l = io_return (Some l)"

definition bridge_get_ip :: "'w host \<Rightarrow> bridge \<Rightarrow> string \<Rightarrow> string option \<Rightarrow> ('w ios_world, string) io" where
  "bridge_get_ip h b l fallback = PlatformBridge_get_ip (bridge_find_ip h b l) fallback"

section \<open>Properties\<close>

text \<open>
  Whether a device is served by \<open>devicectl\<close> or by \<open>xharness\<close> is decided once: after a
  successful validation it is an \<open>xharness\<close> device exactly when it was one before or \<open>devicectl\<close> did
  not find it while \<open>ideviceinfo\<close> did; other devices are not touched, and validating it again asks
  neither tool for an \<open>xharness\<close> device.
\<close>

theorem ios_tool_decided_once:
  assumes "iOSBridge_validate h b location (ds, w) = (Inr (), ds', w')"
  shows "(location \<in> set ds' \<longleftrightarrow> location \<in> set ds \<or> fst (validate_devicectl h location w) = Inr False)
    \<and> (\<forall>d. d \<noteq> location \<longrightarrow> (d \<in> set ds' \<longleftrightarrow> d \<in> set ds))
    \<and> (location \<in> set ds' \<and> location \<notin> set ds \<longrightarrow>
         ib_has_xharness b \<and> fst (validate_libimobiledevice h location (snd (validate_devicectl h location w))) = Inr True)
    \<and> (location \<in> set ds' \<longrightarrow> iOSBridge_validate h b location (ds', w') = (Inr (), ds', w'))"
  using assms
  by (auto simp: iOSBridge_validate_def split: if_splits prod.splits sum.splits bool.splits)

definition sample_host :: "string host" where
  "sample_host = \<lparr> ho_system = ''Darwin'', ho_servers = [''r'', ''servers''], ho_scripts = [''r'', ''s''],
     ho_xharness = [''x'', ''xharness''], ho_cpus = ''8'', ho_exists = \<lambda>p w. True, ho_is_file = \<lambda>p w. True,
     ho_read = \<lambda>p w. (Inr ''42'', w), ho_getenv = \<lambda>n w. None, ho_which = \<lambda>n w. Some n,
     ho_act = \<lambda>a w. (Inr (), w),
     ho_run = \<lambda>c w. (Inr \<lparr> pr_code = (if hd (cm_args c) = ''xcrun'' then 1 else 0), pr_stdout = [], pr_stderr = [] \<rparr>,
                     w @ hd (cm_args c) @ '' ''),
     ho_popen = \<lambda>c p w. (Inr 1, w), ho_pipe = \<lambda>c d w. (Inr (0, 0), w), ho_processes = \<lambda>w. (Inr [], w),
     ho_head = \<lambda>u w. (Inr 200, w), ho_get = \<lambda>u w. (Inr JNull, w), ho_dotnet_env = \<lambda>w. (Inr (''dotnet'', []), w) \<rparr>"

theorem ios_tool_decided_once_witness:
  "let b = \<lparr> ib_app_path = ''a.app'', ib_has_xharness = True, ib_app_id = ''id'' \<rparr>
   in iOSBridge_validate sample_host b ''d1'' ([], []) = (Inr (), [''d1''], ''xcrun ideviceinfo '')
      \<and> iOSBridge_validate sample_host b ''d1'' ([''d1''], ''xcrun ideviceinfo '') = (Inr (), [''d1''], ''xcrun ideviceinfo '')"
proof -
  let ?b = "\<lparr> ib_app_path = ''a.app'', ib_has_xharness = True, ib_app_id = ''id'' \<rparr>"
  have run: "iOSBridge_validate sample_host ?b ''d1'' ([], []) = (Inr (), [''d1''], ''xcrun ideviceinfo '')"
    by code_simp
  from ios_tool_decided_once [OF run] run show ?thesis by simp
qed

text \<open>
  The address of an Android device is read off the line that \<open>ip addr\<close> prints for it, whatever
  lines without an address stand before it.
\<close>

theorem android_address_read:
  assumes "\<forall>l \<in> set before_lines. \<not> contains_sub ''inet'' l"
    and "CHR ''/'' \<notin> set address" "CHR '' '' \<notin> set address" "CHR '' '' \<notin> set bits"
  shows "first_inet (before_lines @ (''    inet '' @ address @ ''/'' @ bits @ '' '' @ rest) # later) = Inr (Some address)"
proof -
  have line: "contains_sub ''inet'' (''    inet '' @ address @ ''/'' @ bits @ '' '' @ rest)"
    by (simp add: prefix_def)
  have strip: "dropWhile is_space (''    inet '' @ address @ ''/'' @ bits @ '' '' @ rest)
      = ''inet'' @ CHR '' '' # (address @ ''/'' @ bits) @ CHR '' '' # rest"
    by (simp add: is_space_def)
  have words: "split_on (CHR '' '') (''inet'' @ CHR '' '' # (address @ ''/'' @ bits) @ CHR '' '' # rest)
      = ''inet'' # (address @ ''/'' @ bits) # split_on (CHR '' '') rest"
    using split_on_append [of "CHR '' ''" "address @ ''/'' @ bits" rest] assms(3,4) by simp
  have addr: "hd (split_on (CHR ''/'') (address @ ''/'' @ bits)) = address"
    using assms by (simp add: split_on_append)
  have "first_inet ((''    inet '' @ address @ ''/'' @ bits @ '' '' @ rest) # later) = Inr (Some address)"
    using line strip words addr by (simp only: first_inet.simps list.case if_True)
  then show ?thesis
    using assms(1) by (induction before_lines) simp_all
qed

text \<open>A blank last line in the list of apps makes every line match, so the first process is ended.\<close>

lemma blank_app_path_matches_first: "line \<noteq> [] \<Longrightarrow> pid_of_app [] (line # lines) = Some (hd (split_on (CHR '' '') line))"
  by (cases line) (simp_all add: pid_of_app_def)

text \<open>Without a hint the address of an iOS device is never known.\<close>

lemma ios_needs_hint: "bridge_get_ip h (iOSBridge b) l None w = (Inl RuntimeError, w)"
  "bridge_get_ip h (iOSBridge b) l (Some ip) w = (Inr ip, w)"
  by (simp_all add: bridge_get_ip_def PlatformBridge_get_ip_def io_bind_def)

text \<open>The granted permissions depend on the API level in one place only.\<close>

lemma permissions_by_level:
  "permissions_for n = (if n \<le> 30 then [''android.permission.ACCESS_FINE_LOCATION'']
     else [''android.permission.BLUETOOTH_SCAN'', ''android.permission.BLUETOOTH_CONNECT'',
           ''android.permission.BLUETOOTH_ADVERTISE'', ''android.permission.NEARBY_WIFI_DEVICES''])"
  by (simp add: permissions_for_def runtime_permissions_def)

theorem android_address_read_witness:
  "first_inet ([''7: wlan0: <UP>''] @ (''    inet '' @ ''10.0.0.5'' @ ''/'' @ ''24'' @ '' '' @ ''brd 10.0.0.255'') # [''''])
     = Inr (Some ''10.0.0.5'')"
  by (rule android_address_read) code_simp+

end
