(* ===== verification/TestServers.thy ===== *)
theory TestServers
  imports Bridges Topology
begin

text \<open>
  The test servers of every platform (\<open>environment/aws/topology_setup/test_server.py\<close>,
  \<open>cbl_library_downloader.py\<close> and \<open>test_server_platforms/*_register.py\<close>): the registry, the versions
  with their cache of build numbers, downloading, building, packing, unpacking and the bridge of each
  class; and what they provide to the set-up of a topology.
\<close>

section \<open>Objects and classes\<close>

text \<open>An object: its normalised version, whether it was downloaded, and the server version Java servers read.\<close>

record test_server =
  ts_version :: string
  ts_downloaded :: bool
  ts_server_version :: string

record 'w server_class =
  sc_product :: string
  sc_platform :: string
  sc_init :: "('w, string) io"
  sc_latestbuilds_path :: "test_server \<Rightarrow> string result"
  sc_build :: "test_server \<Rightarrow> ('w, unit) io"
  sc_compress_package :: "test_server \<Rightarrow> ('w, path) io"
  sc_uncompress_package :: "path \<Rightarrow> host_action list"
  sc_create_bridge :: "test_server \<Rightarrow> bool \<Rightarrow> ('w, bridge) io"

text \<open>The path of a package: a version without a build number has no second part.\<close>

definition latestbuilds :: "string \<Rightarrow> string \<Rightarrow> test_server \<Rightarrow> string result" where
  "latestbuilds product file ts =
     rbind (version_part (ts_version ts) 0) (\<lambda>v.
     rbind (version_part (ts_version ts) 1) (\<lambda>b.
       Inr (product @ CHR ''/'' # v @ CHR ''/'' # b @ CHR ''/'' # file)))"

definition download_dir :: "'w host \<Rightarrow> string \<Rightarrow> test_server \<Rightarrow> path" where
  "download_dir h platform ts = ho_servers h @ [''downloaded'', platform, ts_version ts]"

definition check_downloaded :: "'w host \<Rightarrow> path \<Rightarrow> test_server \<Rightarrow> ('w, bool) io" where
  "check_downloaded h location ts =
     io_bind (io_exists h (location @ [''.version''])) (\<lambda>there.
       if there then io_bind (ho_read h (location @ [''.version''])) (\<lambda>s. io_return (py_strip s = ts_version ts))
       else io_return False)"

definition mark_downloaded :: "path \<Rightarrow> test_server \<Rightarrow> host_action" where
  "mark_downloaded location ts = Write_file (location @ [''.version'']) (ts_version ts)"

text \<open>The build number of a version, 0 for a released one.\<close>

definition build_number :: "test_server \<Rightarrow> int result" where
  "build_number ts =
     (case version_part (ts_version ts) 1 of
        Inl e \<Rightarrow> Inr 0
      | Inr b \<Rightarrow> (case py_int b of Some n \<Rightarrow> Inr n | None \<Rightarrow> Inl ValueError))"

definition base_version :: "test_server \<Rightarrow> string" where
  "base_version ts = hd (split_on (CHR ''-'') (ts_version ts))"

definition CBLLibraryDownloader_url :: "string \<Rightarrow> string \<Rightarrow> string \<Rightarrow> int \<Rightarrow> string" where
  "CBLLibraryDownloader_url project file version build =
     (if build = 0
      then ''https://packages.couchbase.com/releases/'' @ project @ ''/'' @ version @ ''/'' @ file
      else ''https://latestbuilds.service.couchbase.com/builds/latestbuilds/'' @ project @ ''/'' @ version @ ''/''
             @ int_str build @ ''/'' @ file)"

text \<open>\<open>compress_package\<close> for a directory: the archive goes to the sixth directory above it.\<close>

definition pack :: "'w host \<Rightarrow> (path \<Rightarrow> path \<Rightarrow> host_action) \<Rightarrow> path \<Rightarrow> string \<Rightarrow> ('w, path) io" where
  "pack h action source name =
     io_bind (io_lift (path_parents source 5)) (\<lambda>d.
     io_bind (ho_act h (action source (d @ [name]))) (\<lambda>_. io_return (d @ [name])))"

definition zip_plain :: "path \<Rightarrow> path \<Rightarrow> host_action" where
  "zip_plain source target = Zip source target []"

definition no_init :: "('w, string) io" where
  "no_init = io_return []"

section \<open>C\<close>

definition c_dir :: "'w host \<Rightarrow> path" where
  "c_dir h = ho_servers h @ [''c'']"

definition c_build_dir :: "'w host \<Rightarrow> path" where
  "c_build_dir h = c_dir h @ [''build'']"

definition c_lib_dir :: "'w host \<Rightarrow> path" where
  "c_lib_dir h = c_dir h @ [''lib'']"

definition c_product :: string where
  "c_product = ''couchbase-lite-c''"

text \<open>The download is named after an extension that already has its dot.\<close>

definition CTestServer_Desktop_download_cbl :: "'w host \<Rightarrow> (string \<Rightarrow> string) \<Rightarrow> test_server \<Rightarrow> ('w, unit) io" where
  "CTestServer_Desktop_download_cbl h cbl_filename ts =
     io_bind (io_lift (build_number ts)) (\<lambda>build.
       let filename = cbl_filename (ts_version ts);
           tar = suffix ''.tar.gz'' filename;
           download_file = c_dir h @ [''download'', ''framework.'' @ (if tar then ''.tar.gz'' else ''.zip'')]
       in io_bind (ho_act h (Mkdir_existing (c_dir h @ [''download'']))) (\<lambda>_.
          io_bind (check_downloaded h (c_lib_dir h) ts) (\<lambda>have_it.
            if have_it then io_return ()
            else io_acts h
                   [Download (CBLLibraryDownloader_url c_product filename (base_version ts) build) download_file,
                    (if tar then Untar else Unzip) download_file (c_lib_dir h),
                    mark_downloaded (c_lib_dir h) ts])))"

definition CTestServer_Desktop_build :: "'w host \<Rightarrow> (string \<Rightarrow> string) \<Rightarrow> test_server \<Rightarrow> ('w, unit) io" where
  "CTestServer_Desktop_build h cbl_filename ts =
     io_bind (ho_act h (Rmtree (c_lib_dir h))) (\<lambda>_.
     io_bind (CTestServer_Desktop_download_cbl h cbl_filename ts) (\<lambda>_.
     io_bind (io_acts h [Rmtree (c_build_dir h), Mkdir_existing (c_build_dir h)]) (\<lambda>_.
     io_bind (run_unit h \<lparr> cm_args = [''cmake'', ''-DCMAKE_BUILD_TYPE=Release'', ''-DCBL_VERSION='' @ base_version ts, ''..''],
                           cm_cwd = Some (c_build_dir h), cm_env = [] \<rparr>) (\<lambda>_.
       run_unit h \<lparr> cm_args = [''cmake'', ''--build'', ''.'', ''--target'', ''install'', ''--parallel'', ho_cpus h]
                      @ (if ho_system h = ''Windows'' then [''--config'', ''Release''] else []),
                    cm_cwd = Some (c_build_dir h), cm_env = [] \<rparr>))))"

definition CTestServer_Desktop_uncompress :: "path \<Rightarrow> host_action list" where
  "CTestServer_Desktop_uncompress p = [Unzip p (butlast p), Unlink p]"

definition c_ios_dir :: "'w host \<Rightarrow> path" where
  "c_ios_dir h = c_dir h @ [''platforms'', ''ios'']"

definition ios_products :: "path \<Rightarrow> path" where
  "ios_products build_dir = build_dir @ [''Build'', ''Products'', ''Release-iphoneos'']"

definition CTestServer_iOS_download_cbl :: "'w host \<Rightarrow> string \<Rightarrow> test_server \<Rightarrow> ('w, unit) io" where
  "CTestServer_iOS_download_cbl h filename ts =
     io_bind (io_lift (build_number ts)) (\<lambda>build.
       let frameworks = c_ios_dir h @ [''Frameworks'']; vendor = c_ios_dir h @ [''vendor'', ''cmake''];
           download_file = c_dir h @ [''download'', ''framework.zip'']
       in io_bind (ho_act h (Mkdir_existing (c_dir h @ [''download'']))) (\<lambda>_.
          io_bind (check_downloaded h frameworks ts) (\<lambda>have_it.
            if have_it then io_return ()
            else io_bind (io_acts h
                   [Download (CBLLibraryDownloader_url c_product filename (base_version ts) build) download_file,
                    Rmtree (frameworks @ [''CouchbaseLite.xcframework'']), Unzip download_file frameworks,
                    Rmtree vendor, Mkdir vendor]) (\<lambda>_.
                 io_bind (run_unit h \<lparr> cm_args = [''cmake'', ''-DCMAKE_BUILD_TYPE=Release'', ''../../../../vendor''],
                                       cm_cwd = Some vendor, cm_env = [] \<rparr>) (\<lambda>_.
                   ho_act h (mark_downloaded frameworks ts))))))"

text \<open>\<open>xcodebuild\<close> through \<open>xcpretty\<close>: both must end well.\<close>

definition xcodebuild :: "'w host \<Rightarrow> path \<Rightarrow> path \<Rightarrow> ('w, unit) io" where
  "xcodebuild h derived cwd =
     (let env = [(''LANG'', ''en_US.UTF-8''), (''LC_ALL'', ''en_US.UTF-8'')]
      in io_bind (ho_pipe h
            \<lparr> cm_args = [''xcodebuild'', ''-scheme'', ''TestServer'', ''-sdk'', ''iphoneos'', ''-configuration'', ''Release'',
                         ''-derivedDataPath'', path_str derived, ''-allowProvisioningUpdates''],
              cm_cwd = Some cwd, cm_env = env \<rparr>
            \<lparr> cm_args = [''xcpretty''], cm_cwd = None, cm_env = env \<rparr>) (\<lambda>(xcodebuild_rc, xcpretty_rc).
           if xcodebuild_rc \<noteq> 0 \<or> xcpretty_rc \<noteq> 0 then io_raise RuntimeError else io_return ()))"

definition CTestServer_iOS :: "'w host \<Rightarrow> 'w server_class" where
  "CTestServer_iOS h =
     (let build_dir = c_dir h @ [''build_device'']
      in \<lparr> sc_product = c_product, sc_platform = ''c_ios'', sc_init = no_init,
           sc_latestbuilds_path = latestbuilds c_product ''testserver_ios.zip'',
           sc_build = (\<lambda>ts. io_bind
             (CTestServer_iOS_download_cbl h (c_product @ ''-enterprise-'' @ ts_version ts @ ''-ios.zip'') ts)
             (\<lambda>_. xcodebuild h build_dir (c_ios_dir h))),
           sc_compress_package = (\<lambda>ts. pack h zip_plain (ios_products build_dir @ [''TestServer.app'']) ''testserver_ios.zip''),
           sc_uncompress_package = (\<lambda>p. [Unzip p (butlast p @ [''testserver.app'']), Unlink p]),
           sc_create_bridge = (\<lambda>ts kw. io_bind (iOSBridge_create h (path_str
               ((if ts_downloaded ts then download_dir h ''c_ios'' ts else ios_products build_dir) @ [''TestServer.app'']))
               ''com.couchbase.CBLTestServer'') (\<lambda>b. io_return (iOSBridge b))) \<rparr>)"

definition android_outputs :: "path \<Rightarrow> path" where
  "android_outputs d = d @ [''app'', ''build'', ''outputs'', ''apk'', ''release'', ''app-release.apk'']"

text \<open>The Gradle wrapper of a directory, run in it.\<close>

definition gradle :: "'w host \<Rightarrow> path \<Rightarrow> string list \<Rightarrow> ('w, unit) io" where
  "gradle h d args =
     (let windows = (ho_system h = ''Windows'');
          gradle_path = (if windows then with_suffix (d @ [''gradlew'']) ''.bat'' else d @ [''gradlew''])
      in run_unit h \<lparr> cm_args = path_str gradle_path # args @ (if windows then [''--no-daemon''] else []),
                      cm_cwd = Some d, cm_env = [] \<rparr>)"

definition CTestServer_Android_download_cbl :: "'w host \<Rightarrow> string \<Rightarrow> test_server \<Rightarrow> ('w, unit) io" where
  "CTestServer_Android_download_cbl h filename ts =
     io_bind (io_lift (build_number ts)) (\<lambda>build.
       let lib_dir = c_dir h @ [''platforms'', ''android'', ''app'', ''src'', ''main'', ''cpp'', ''lib''];
           download_file = c_dir h @ [''download'', ''framework.zip'']
       in io_bind (ho_act h (Mkdir_existing (c_dir h @ [''download'']))) (\<lambda>_.
          io_bind (check_downloaded h lib_dir ts) (\<lambda>have_it.
            if have_it then io_return ()
            else io_acts h
                   [Download (CBLLibraryDownloader_url c_product filename (base_version ts) build) download_file,
                    Rmtree lib_dir, Mkdir lib_dir, Unzip download_file lib_dir, mark_downloaded lib_dir ts])))"

definition android_bridge_of :: "'w host \<Rightarrow> path \<Rightarrow> string \<Rightarrow> bool \<Rightarrow> ('w, bridge) io" where
  "android_bridge_of h p app_id needs_permissions =
     io_bind (AndroidBridge_create h (path_str p) app_id ''MainActivity'' needs_permissions) (\<lambda>b. io_return (AndroidBridge b))"

definition CTestServer_Android :: "'w host \<Rightarrow> 'w server_class" where
  "CTestServer_Android h =
     (let android_dir = c_dir h @ [''platforms'', ''android'']
      in \<lparr> sc_product = c_product, sc_platform = ''c_android'', sc_init = no_init,
           sc_latestbuilds_path = latestbuilds c_product ''testserver_android.apk'',
           sc_build = (\<lambda>ts. io_bind
             (CTestServer_Android_download_cbl h (c_product @ ''-enterprise-'' @ ts_version ts @ ''-android.zip'') ts)
             (\<lambda>_. gradle h android_dir
               [''assembleRelease'', ''-PabiFilters=arm64-v8a'', ''-PcblVersion='' @ base_version ts])),
           sc_compress_package = (\<lambda>ts. pack h Copy_file (android_outputs android_dir) ''testserver_android.apk''),
           sc_uncompress_package = (\<lambda>p. []),
           sc_create_bridge = (\<lambda>ts kw. android_bridge_of h
             (if ts_downloaded ts then download_dir h ''c_android'' ts @ [''testserver_android.apk''] else android_outputs android_dir)
             ''com.couchbase.lite.testserver'' False) \<rparr>)"

text \<open>The desktop classes differ in names only.\<close>

definition c_exe :: "'w host \<Rightarrow> string \<Rightarrow> string \<Rightarrow> test_server \<Rightarrow> ('w, bridge) io" where
  "c_exe h platform exe ts =
     io_return (ExeBridge (ExeBridge_create
       ((if ts_downloaded ts then download_dir h platform ts else c_build_dir h @ [''out'', ''bin'']) @ [exe]) None))"

definition CTestServer_Windows :: "'w host \<Rightarrow> 'w server_class" where
  "CTestServer_Windows h =
     \<lparr> sc_product = c_product, sc_platform = ''c_windows'', sc_init = no_init,
       sc_latestbuilds_path = latestbuilds c_product ''testserver_windows.zip'',
       sc_build = CTestServer_Desktop_build h (\<lambda>v. c_product @ ''-enterprise-'' @ v @ ''-windows-x86_64.zip''),
       sc_compress_package = (\<lambda>ts. pack h zip_plain (c_build_dir h @ [''out'', ''bin'']) ''testserver_windows.zip''),
       sc_uncompress_package = CTestServer_Desktop_uncompress,
       sc_create_bridge = (\<lambda>ts kw. c_exe h ''c_windows'' ''testserver.exe'' ts) \<rparr>"

definition CTestServer_macOS :: "'w host \<Rightarrow> 'w server_class" where
  "CTestServer_macOS h =
     \<lparr> sc_product = c_product, sc_platform = ''c_macos'', sc_init = no_init,
       sc_latestbuilds_path = latestbuilds c_product ''testserver_macos.zip'',
       sc_build = CTestServer_Desktop_build h (\<lambda>v. c_product @ ''-enterprise-'' @ v @ ''-macos.zip''),
       sc_compress_package = (\<lambda>ts. pack h zip_plain (c_build_dir h @ [''out'', ''bin'']) ''testserver_macos.zip''),
       sc_uncompress_package = CTestServer_Desktop_uncompress,
       sc_create_bridge = (\<lambda>ts kw. c_exe h ''c_macos'' ''testserver'' ts) \<rparr>"

definition CTestServer_Linux :: "'w host \<Rightarrow> string \<Rightarrow> 'w server_class" where
  "CTestServer_Linux h arch =
     (let platform = ''c_linux_'' @ arch
      in \<lparr> sc_product = c_product, sc_platform = platform, sc_init = no_init,
           sc_latestbuilds_path = latestbuilds c_product (''testserver_linux-'' @ arch @ ''.tar.gz''),
           sc_build = CTestServer_Desktop_build h (\<lambda>v. c_product @ ''-enterprise-'' @ v @ ''-linux-'' @ arch @ ''.tar.gz''),
           sc_compress_package = (\<lambda>ts. pack h Tar (c_build_dir h @ [''out'', ''bin'']) (''testserver_'' @ platform @ ''.tar.gz'')),
           sc_uncompress_package = (\<lambda>p. [Untar p (butlast p), Unlink p]),
           sc_create_bridge = (\<lambda>ts kw. c_exe h platform ''testserver'' ts) \<rparr>)"

definition CTestServer_Linux_x86_64 :: "'w host \<Rightarrow> 'w server_class" where
  "CTestServer_Linux_x86_64 h = CTestServer_Linux h ''x86_64''"

section \<open>.NET\<close>

definition dotnet_dir :: "'w host \<Rightarrow> path" where
  "dotnet_dir h = ho_servers h @ [''dotnet'']"

definition net_product :: string where
  "net_product = ''couchbase-lite-net''"

text \<open>\<open>s.zfill(n)\<close>: zeros in front, after a sign.\<close>

definition zfill :: "nat \<Rightarrow> string \<Rightarrow> string" where
  "zfill n s =
     (let zeros = replicate (n - length s) (CHR ''0'')
      in case s of
           c # cs \<Rightarrow> if c \<in> {CHR ''+'', CHR ''-''} then c # zeros @ cs else zeros @ s
         | [] \<Rightarrow> zeros)"

definition dotnet_package :: "'w host \<Rightarrow> string \<Rightarrow> (string, string) pydict \<Rightarrow> test_server \<Rightarrow> ('w, unit) io" where
  "dotnet_package h dotnet env ts =
     io_bind (io_lift (version_part (ts_version ts) 1)) (\<lambda>build.
       run_unit h \<lparr> cm_args = [dotnet, ''add'', path_str (dotnet_dir h @ [''testserver.logic'', ''testserver.logic.csproj'']),
                      ''package'', ''Couchbase.Lite.Enterprise'', ''--version'', base_version ts @ ''-b'' @ zfill 4 build],
                    cm_cwd = None, cm_env = env \<rparr>)"

definition DotnetTestServer_build :: "'w host \<Rightarrow> bool \<Rightarrow> string \<Rightarrow> string option \<Rightarrow> test_server \<Rightarrow> ('w, unit) io" where
  "DotnetTestServer_build h publish framework extra_args ts =
     io_bind (ho_dotnet_env h) (\<lambda>(dotnet, env).
     io_bind (dotnet_package h dotnet env ts) (\<lambda>_.
       run_unit h \<lparr> cm_args = [dotnet, if publish then ''publish'' else ''build'',
                        path_str (dotnet_dir h @ [''testserver'', ''testserver.csproj'']),
                        ''-f'', framework, ''-c'', ''Release'', ''-v'', ''n'']
                      @ (case extra_args of Some a \<Rightarrow> if a \<noteq> [] then [a] else [] | None \<Rightarrow> []),
                    cm_cwd = None, cm_env = env \<rparr>))"

definition DotnetTestServerCli_build :: "'w host \<Rightarrow> string \<Rightarrow> test_server \<Rightarrow> ('w, unit) io" where
  "DotnetTestServerCli_build h rid ts =
     io_bind (ho_dotnet_env h) (\<lambda>(dotnet, env).
     io_bind (dotnet_package h dotnet env ts) (\<lambda>_.
       run_unit h \<lparr> cm_args = [dotnet, ''publish'', path_str (dotnet_dir h @ [''testserver.cli'', ''testserver.cli.csproj'']),
                      ''-r'', rid, ''-c'', ''Release'', ''--self-contained'', ''true''],
                    cm_cwd = None, cm_env = env \<rparr>))"

definition dotnet_release :: "'w host \<Rightarrow> string \<Rightarrow> path \<Rightarrow> path" where
  "dotnet_release h project rest = dotnet_dir h @ [project, ''bin'', ''Release''] @ rest"

definition DotnetTestServer_iOS :: "'w host \<Rightarrow> 'w server_class" where
  "DotnetTestServer_iOS h =
     (let out = dotnet_release h ''testserver'' [''net10.0-ios'', ''ios-arm64'']
      in \<lparr> sc_product = net_product, sc_platform = ''dotnet_ios'', sc_init = no_init,
           sc_latestbuilds_path = latestbuilds net_product ''testserver_ios.zip'',
           sc_build = DotnetTestServer_build h False ''net10.0-ios'' (Some ''-p:RuntimeIdentifier=ios-arm64''),
           sc_compress_package = (\<lambda>ts. pack h zip_plain (out @ [''testserver.app'']) ''testserver_ios.zip''),
           sc_uncompress_package = (\<lambda>p. [Unzip p (butlast p @ [''testserver.app'']), Unlink p]),
           sc_create_bridge = (\<lambda>ts kw. io_bind (iOSBridge_create h
               (path_str ((if ts_downloaded ts then download_dir h ''dotnet_ios'' ts else out) @ [''testserver.app'']))
               ''com.couchbase.dotnet.testserver'') (\<lambda>b. io_return (iOSBridge b))) \<rparr>)"

definition DotnetTestServer_Android :: "'w host \<Rightarrow> 'w server_class" where
  "DotnetTestServer_Android h =
     (let apk = dotnet_release h ''testserver'' [''net10.0-android'', ''com.couchbase.dotnet.testserver-Signed.apk'']
      in \<lparr> sc_product = net_product, sc_platform = ''dotnet_android'', sc_init = no_init,
           sc_latestbuilds_path = latestbuilds net_product ''testserver_android.apk'',
           sc_build = DotnetTestServer_build h True ''net10.0-android'' None,
           sc_compress_package = (\<lambda>ts. pack h Copy_file apk ''testserver_android.apk''),
           sc_uncompress_package = (\<lambda>p. []),
           sc_create_bridge = (\<lambda>ts kw. android_bridge_of h
             (if ts_downloaded ts then download_dir h ''dotnet_android'' ts @ [''testserver_android.apk''] else apk)
             ''com.couchbase.dotnet.testserver'' False) \<rparr>)"

definition DotnetTestServer_Windows :: "'w host \<Rightarrow> 'w server_class" where
  "DotnetTestServer_Windows h =
     (let out = dotnet_release h ''testserver.cli'' [''net8.0'', ''win-x64'', ''publish'']
      in \<lparr> sc_product = net_product, sc_platform = ''dotnet_windows'', sc_init = no_init,
           sc_latestbuilds_path = latestbuilds net_product ''testserver_windows.zip'',
           sc_build = DotnetTestServerCli_build h ''win-x64'',
           sc_compress_package = (\<lambda>ts. pack h zip_plain out ''testserver_windows.zip''),
           sc_uncompress_package = (\<lambda>p. [Unzip p (butlast p), Unlink p]),
           sc_create_bridge = (\<lambda>ts kw. io_return (ExeBridge (ExeBridge_create
             ((if ts_downloaded ts then download_dir h ''dotnet_windows'' ts else out) @ [''testserver.cli.exe''])
             (Some [''--silent'', ''5555''])))) \<rparr>)"

definition DotnetTestServer_macOS :: "'w host \<Rightarrow> 'w server_class" where
  "DotnetTestServer_macOS h =
     (let out = dotnet_release h ''testserver'' [''net10.0-maccatalyst'', ''maccatalyst-x64'']
      in \<lparr> sc_product = net_product, sc_platform = ''dotnet_macos'', sc_init = no_init,
           sc_latestbuilds_path = latestbuilds net_product ''testserver_macos.zip'',
           sc_build = DotnetTestServer_build h False ''net10.0-maccatalyst'' (Some ''-p:RuntimeIdentifier=maccatalyst-x64''),
           sc_compress_package = (\<lambda>ts. pack h zip_plain (out @ [''testserver.app'']) ''testserver_macos.zip''),
           sc_uncompress_package = (\<lambda>p. let app = butlast p @ [''testserver.app'']
             in [Unzip p app, Unlink p, Check_call [''xattr'', ''-cr'', path_str app]]),
           sc_create_bridge = (\<lambda>ts kw. io_return (macOSBridge
             ((if ts_downloaded ts then download_dir h ''dotnet_macos'' ts else out) @ [''testserver.app'']))) \<rparr>)"

section \<open>Java\<close>

definition JAKTestServer_build :: "'w host \<Rightarrow> string \<Rightarrow> string \<Rightarrow> test_server \<Rightarrow> ('w, unit) io" where
  "JAKTestServer_build h test_server_path gradle_target ts =
     gradle h (java_dir h @ [test_server_path]) [gradle_target, ''-PcblVersion='' @ ts_version ts, ''-PdatasetVersion=3.2'']"

definition JAKTestServer_Android :: "'w host \<Rightarrow> 'w server_class" where
  "JAKTestServer_Android h =
     (let apk = android_outputs (java_dir h @ [''android''])
      in \<lparr> sc_product = ''couchbase-lite-android'', sc_platform = ''jak_android'', sc_init = no_init,
           sc_latestbuilds_path = latestbuilds ''couchbase-lite-android'' ''testserver_android.apk'',
           sc_build = JAKTestServer_build h ''android'' ''assembleRelease'',
           sc_compress_package = (\<lambda>ts. pack h Copy_file apk ''testserver_android.apk''),
           sc_uncompress_package = (\<lambda>p. []),
           sc_create_bridge = (\<lambda>ts kw. android_bridge_of h
             (if ts_downloaded ts then download_dir h ''jak_android'' ts @ [''testserver_android.apk''] else apk)
             ''com.couchbase.lite.android.mobiletest'' True) \<rparr>)"

text \<open>The jar that is built: its name has the versions of the server and of Couchbase Lite.\<close>

definition built_jar :: "'w host \<Rightarrow> string \<Rightarrow> test_server \<Rightarrow> path" where
  "built_jar h jar_name ts = java_dir h @ [py_lower jar_name, ''app'', ''build'', ''libs'',
     ''CBLTestServer-Java-'' @ jar_name @ ''-'' @ ts_server_version ts @ ''_'' @ ts_version ts @ ''.jar'']"

definition JAKTestServer_NonAndroid ::
    "'w host \<Rightarrow> string \<Rightarrow> (test_server \<Rightarrow> bool \<Rightarrow> ('w, bridge) io) \<Rightarrow> 'w server_class" where
  "JAKTestServer_NonAndroid h jar_name create_bridge =
     \<lparr> sc_product = ''couchbase-lite-java'', sc_platform = ''jak_'' @ py_lower jar_name,
       sc_init = io_bind (ho_read h (java_dir h @ [''version.txt''])) (\<lambda>s. io_return (py_strip s)),
       sc_latestbuilds_path = latestbuilds ''couchbase-lite-java'' (''CBLTestServer-Java-'' @ jar_name @ ''.jar''),
       sc_build = JAKTestServer_build h (py_lower jar_name) ''jar'',
       sc_compress_package = (\<lambda>ts. pack h Copy_file (built_jar h jar_name ts) (''CBLTestServer-Java-'' @ jar_name @ ''.jar'')),
       sc_uncompress_package = (\<lambda>p. []),
       sc_create_bridge = create_bridge \<rparr>"

definition jar_bridge_of :: "'w host \<Rightarrow> path \<Rightarrow> test_server \<Rightarrow> ('w, bridge) io" where
  "jar_bridge_of h jar_path ts = io_bind (JarBridge_create h jar_path (ts_version ts)) (\<lambda>b. io_return (JarBridge b))"

definition JAKTestServer_Desktop :: "'w host \<Rightarrow> 'w server_class" where
  "JAKTestServer_Desktop h = JAKTestServer_NonAndroid h ''Desktop''
     (\<lambda>ts kw. jar_bridge_of h
        (if ts_downloaded ts then download_dir h ''jak_desktop'' ts @ [''CBLTestServer-Java-Desktop.jar'']
         else built_jar h ''Desktop'' ts) ts)"

definition JAKTestServer_WebService :: "'w host \<Rightarrow> 'w server_class" where
  "JAKTestServer_WebService h = JAKTestServer_NonAndroid h ''WebService''
     (\<lambda>ts kw. if \<not> ts_downloaded ts \<and> \<not> kw then io_return (JettyBridge (ts_version ts))
              else jar_bridge_of h (download_dir h ''jak_webservice'' ts @ [''CBLTestServer-Java-WebService.jar'']) ts)"

section \<open>Swift and JavaScript\<close>

definition swift_dir :: "'w host \<Rightarrow> path" where
  "swift_dir h = ho_servers h @ [''ios'']"

definition SwiftTestServer_download_cbl :: "'w host \<Rightarrow> test_server \<Rightarrow> ('w, unit) io" where
  "SwiftTestServer_download_cbl h ts =
     (let frameworks = swift_dir h @ [''Frameworks'']; download = swift_dir h @ [''downloaded''];
          download_file = download @ [''framework.zip'']
      in io_bind (ho_act h (Mkdir_existing download)) (\<lambda>_.
         io_bind (check_downloaded h frameworks ts) (\<lambda>have_it.
           if have_it then io_return ()
           else io_bind (io_lift (build_number ts)) (\<lambda>build.
                  io_acts h
                    [Download (CBLLibraryDownloader_url ''couchbase-lite-ios''
                       (''couchbase-lite-swift_xc_enterprise_'' @ ts_version ts @ ''.zip'') (base_version ts) build) download_file,
                     Rmtree (frameworks @ [''CouchbaseLiteSwift.xcframework'']), Unzip download_file frameworks,
                     Unlink download_file, mark_downloaded frameworks ts]))))"

definition SwiftTestServer_iOS :: "'w host \<Rightarrow> 'w server_class" where
  "SwiftTestServer_iOS h =
     (let build_dir = swift_dir h @ [''build_device'']
      in \<lparr> sc_product = ''couchbase-lite-ios'', sc_platform = ''swift_ios'', sc_init = no_init,
           sc_latestbuilds_path = latestbuilds ''couchbase-lite-ios'' ''testserver_ios.zip'',
           sc_build = (\<lambda>ts. io_bind (SwiftTestServer_download_cbl h ts) (\<lambda>_. xcodebuild h build_dir (swift_dir h))),
           sc_compress_package = (\<lambda>ts. pack h zip_plain (ios_products build_dir @ [''TestServer-iOS.app'']) ''testserver_ios.zip''),
           sc_uncompress_package = (\<lambda>p. [Unzip p (butlast p @ [''TestServer-iOS.app'']), Unlink p]),
           sc_create_bridge = (\<lambda>ts kw. io_bind (iOSBridge_create h (path_str
               ((if ts_downloaded ts then download_dir h ''swift_ios'' ts else ios_products build_dir) @ [''TestServer-iOS.app'']))
               ''com.couchbase.ios.testserver'') (\<lambda>b. io_return (iOSBridge b))) \<rparr>)"

definition js_dir :: "'w host \<Rightarrow> path" where
  "js_dir h = ho_servers h @ [''javascript'']"

definition js_working_dir :: "'w host \<Rightarrow> test_server \<Rightarrow> path" where
  "js_working_dir h ts = (if ts_downloaded ts then download_dir h ''js'' ts else js_dir h)"

definition JavascriptTestServer_build :: "'w host \<Rightarrow> test_server \<Rightarrow> ('w, unit) io" where
  "JavascriptTestServer_build h ts =
     io_bind (run_unit h \<lparr> cm_args = [''bun'', ''install'', ''@couchbase/lite-js@'' @ ts_version ts, ''--registry'',
                             ''https://proget.sc.couchbase.com/npm/cbl-npm/''],
                           cm_cwd = Some (js_working_dir h ts), cm_env = [] \<rparr>) (\<lambda>_.
       run_unit h \<lparr> cm_args = [''bun'', ''install''], cm_cwd = Some (js_working_dir h ts), cm_env = [] \<rparr>)"

text \<open>A downloaded server is built before its bridge is made.\<close>

definition JavascriptTestServer :: "'w host \<Rightarrow> 'w server_class" where
  "JavascriptTestServer h =
     (let zip_dir = js_dir h @ [''compressed'']
      in \<lparr> sc_product = ''couchbase-lite-js'', sc_platform = ''js'', sc_init = no_init,
           sc_latestbuilds_path = latestbuilds ''couchbase-lite-js'' ''testserver.zip'',
           sc_build = JavascriptTestServer_build h,
           sc_compress_package = (\<lambda>ts. io_bind (io_acts h [Mkdir_existing zip_dir,
               Zip (js_dir h) (zip_dir @ [''testserver.zip'']) [''compressed/**'', ''.gitignore'', ''bun.lock*'']])
               (\<lambda>_. io_return (zip_dir @ [''testserver.zip'']))),
           sc_uncompress_package = (\<lambda>p. [Unzip p (butlast p), Unlink p]),
           sc_create_bridge = (\<lambda>ts kw. io_bind (if ts_downloaded ts then JavascriptTestServer_build h ts else io_return ())
               (\<lambda>_. io_return (JavascriptBridge (js_working_dir h ts)))) \<rparr>)"

section \<open>The registry, versions and downloads\<close>

definition server_registry :: "'w host \<Rightarrow> (string, 'w server_class) pydict" where
  "server_registry h =
     [(''c_ios'', CTestServer_iOS h), (''c_android'', CTestServer_Android h), (''c_windows'', CTestServer_Windows h),
      (''c_macos'', CTestServer_macOS h), (''c_linux_x86_64'', CTestServer_Linux_x86_64 h),
      (''dotnet_ios'', DotnetTestServer_iOS h), (''dotnet_android'', DotnetTestServer_Android h),
      (''dotnet_windows'', DotnetTestServer_Windows h), (''dotnet_macos'', DotnetTestServer_macOS h),
      (''jak_android'', JAKTestServer_Android h), (''jak_desktop'', JAKTestServer_Desktop h),
      (''jak_webservice'', JAKTestServer_WebService h), (''swift_ios'', SwiftTestServer_iOS h),
      (''js'', JavascriptTestServer h)]"

text \<open>The build numbers that were looked up, by product and version, are an attribute of the class.\<close>

type_synonym build_cache = "(string, (string, json) pydict) pydict"

definition cached_build :: "build_cache \<Rightarrow> string \<Rightarrow> string \<Rightarrow> json option" where
  "cached_build cache product version = (case map_of cache product of Some m \<Rightarrow> map_of m version | None \<Rightarrow> None)"

definition cache_build :: "build_cache \<Rightarrow> string \<Rightarrow> string \<Rightarrow> json \<Rightarrow> build_cache" where
  "cache_build cache product version build =
     d_set cache product (d_set (case map_of cache product of Some m \<Rightarrow> m | None \<Rightarrow> []) version build)"

text \<open>\<open>text\<close> formats a build number; \<open>get\<close> is the question to the build server with its check.\<close>

definition normalize_version ::
    "(json \<Rightarrow> string) \<Rightarrow> (string \<Rightarrow> ('w, json) io) \<Rightarrow> string \<Rightarrow> string \<Rightarrow> (build_cache \<times> 'w, string) io" where
  "normalize_version text get product version = (\<lambda>(cache, w).
     if CHR ''-'' \<in> set version
     then (let parts = split_on (CHR ''-'') version
           in (Inr (if parts ! 1 = ''0'' then parts ! 0 else version), cache, w))
     else case cached_build cache product version of
            Some build_no \<Rightarrow>
              (Inr (if build_no = JStr ''0'' then version else version @ CHR ''-'' # text build_no), cache, w)
          | None \<Rightarrow>
              (case get (''http://proget.build.couchbase.com:8080/api/get_version?product='' @ product
                         @ ''&version='' @ version) w of
                 (Inl e, w') \<Rightarrow> (Inl e, cache, w')
               | (Inr body, w') \<Rightarrow>
                   (case py_item body ''IsRelease'' of
                      Inl e \<Rightarrow> (Inl e, cache, w')
                    | Inr r \<Rightarrow>
                        if r = JBool True
                        then (Inr version, cache_build cache product version (JStr ''0''), w')
                        else (case py_item body ''BuildNumber'' of
                                Inl e \<Rightarrow> (Inl e, cache, w')
                              | Inr build_no \<Rightarrow>
                                  (Inr (version @ CHR ''-'' # text build_no),
                                   cache_build cache product version build_no, w')))))"

text \<open>The product gets its part of the cache before the version is looked at.\<close>

definition TestServer_init ::
    "(json \<Rightarrow> string) \<Rightarrow> 'w host \<Rightarrow> 'w server_class \<Rightarrow> string \<Rightarrow> (build_cache \<times> 'w, test_server) io" where
  "TestServer_init text h sc version = (\<lambda>(cache, w).
     let cache = (if d_has cache (sc_product sc) then cache else d_set cache (sc_product sc) [])
     in case normalize_version text (ho_get h) (sc_product sc) version (cache, w) of
          (Inl e, cw) \<Rightarrow> (Inl e, cw)
        | (Inr v, cache', w') \<Rightarrow>
            (case sc_init sc w' of
               (Inl e, w'') \<Rightarrow> (Inl e, cache', w'')
             | (Inr sv, w'') \<Rightarrow> (Inr \<lparr> ts_version = v, ts_downloaded = False, ts_server_version = sv \<rparr>, cache', w'')))"

definition TestServer_create ::
    "(json \<Rightarrow> string) \<Rightarrow> 'w host \<Rightarrow> string \<Rightarrow> string \<Rightarrow> (build_cache \<times> 'w, 'w server_class \<times> test_server) io" where
  "TestServer_create text h name version =
     (case map_of (server_registry h) name of
        None \<Rightarrow> io_raise ValueError
      | Some sc \<Rightarrow> io_bind (TestServer_init text h sc version) (\<lambda>ts. io_return (sc, ts)))"

text \<open>The name of a package is what follows the last slash of its address.\<close>

definition TestServer_download :: "'w host \<Rightarrow> 'w server_class \<Rightarrow> test_server \<Rightarrow> ('w, test_server) io" where
  "TestServer_download h sc ts =
     io_bind (io_lift (sc_latestbuilds_path sc ts)) (\<lambda>lb.
       let url = ''https://latestbuilds.service.couchbase.com/builds/latestbuilds/'' @ lb;
           dir = download_dir h (sc_platform sc) ts; file_path = dir @ [last_part (CHR ''/'') url]
       in io_bind (ho_act h (Mkdir_existing dir)) (\<lambda>_.
          io_bind (io_exists h (dir @ [''.downloaded''])) (\<lambda>there.
            if there then io_return (ts\<lparr>ts_downloaded := True\<rparr>)
            else io_bind (ho_head h url) (\<lambda>status.
                 if status = 404 then io_raise FileNotFoundError
                 else if 400 \<le> status \<and> status < 600 then io_raise HTTPError
                 else io_bind (io_acts h (Download url file_path # sc_uncompress_package sc file_path
                        @ [Touch (dir @ [''.downloaded''])])) (\<lambda>_. io_return (ts\<lparr>ts_downloaded := True\<rparr>))))))"

text \<open>The two scripts: \<open>ci\<close> builds only what is missing, \<open>upload\<close> replaces what is there.\<close>

definition upload_exists :: "'w host \<Rightarrow> 'w server_class \<Rightarrow> test_server \<Rightarrow> ('w, bool) io" where
  "upload_exists h sc ts =
     io_bind (io_lift (sc_latestbuilds_path sc ts)) (\<lambda>lb.
     io_bind (ho_head h (''https://latestbuilds.service.couchbase.com/builds/latestbuilds/'' @ lb)) (\<lambda>status.
       if status = 200 then io_return True
       else if status = 404 then io_return False
       else io_raise RuntimeError))"

text \<open>\<open>put\<close> uploads a file to a path of the server; the result is the exit status.\<close>

definition build_test_server ::
    "'w host \<Rightarrow> (path \<Rightarrow> string \<Rightarrow> ('w, unit) io) \<Rightarrow> 'w server_class \<Rightarrow> test_server \<Rightarrow> bool \<Rightarrow> bool \<Rightarrow> ('w, int) io" where
  "build_test_server h put sc ts upload ci =
     io_bind (if ci then upload_exists h sc ts else io_return False) (\<lambda>skip.
       if skip then io_return 0
       else io_bind (sc_build sc ts) (\<lambda>_.
            if \<not> ci \<and> \<not> upload then io_return 0
            else io_bind (if \<not> upload then upload_exists h sc ts else io_return False) (\<lambda>there.
                 if there then io_return 0
                 else (\<lambda>w. if ho_getenv h ''LATESTBUILDS_PASSWORD'' w = None then (Inr 1, w)
                   else io_bind (sc_compress_package sc ts) (\<lambda>package_path.
                        io_bind (io_lift (sc_latestbuilds_path sc ts)) (\<lambda>lb.
                        io_bind (put package_path (''/data/builds/latestbuilds/'' @ lb)) (\<lambda>_. io_return 0))) w))))"

section \<open>What the set-up of a topology uses\<close>

text \<open>The objects created so far, the cache of the class and the devices of the iOS bridge.\<close>

record 'w fleet =
  fl_objects :: "('w server_class \<times> test_server) list"
  fl_cache :: build_cache
  fl_devices :: "string list"
  fl_world :: 'w

definition fleet_host :: "('w, 'a) io \<Rightarrow> ('w fleet, 'a) io" where
  "fleet_host m = (\<lambda>f. let (r, w) = m (fl_world f) in (r, f\<lparr>fl_world := w\<rparr>))"

definition fleet_bridge :: "('w ios_world, 'a) io \<Rightarrow> ('w fleet, 'a) io" where
  "fleet_bridge m = (\<lambda>f. let (r, ds, w) = m (fl_devices f, fl_world f) in (r, f\<lparr>fl_devices := ds, fl_world := w\<rparr>))"

definition fleet_create :: "(json \<Rightarrow> string) \<Rightarrow> 'w host \<Rightarrow> string \<Rightarrow> string \<Rightarrow> ('w fleet, nat) io" where
  "fleet_create text h name version = (\<lambda>f.
     case TestServer_create text h name version (fl_cache f, fl_world f) of
       (Inl e, c, w) \<Rightarrow> (Inl e, f\<lparr>fl_cache := c, fl_world := w\<rparr>)
     | (Inr obj, c, w) \<Rightarrow>
         (Inr (length (fl_objects f)), f\<lparr>fl_objects := fl_objects f @ [obj], fl_cache := c, fl_world := w\<rparr>))"

definition fleet_download :: "'w host \<Rightarrow> nat \<Rightarrow> ('w fleet, unit) io" where
  "fleet_download h i = (\<lambda>f. let (sc, ts) = fl_objects f ! i
     in case TestServer_download h sc ts (fl_world f) of
          (Inl e, w) \<Rightarrow> (Inl e, f\<lparr>fl_world := w\<rparr>)
        | (Inr ts', w) \<Rightarrow> (Inr (), f\<lparr>fl_objects := (fl_objects f)[i := (sc, ts')], fl_world := w\<rparr>))"

definition host_platform :: "(json \<Rightarrow> string) \<Rightarrow> 'w host \<Rightarrow> ('w fleet, nat, bridge) platform" where
  "host_platform text h =
     \<lparr> pf_create = fleet_create text h,
       pf_download = fleet_download h,
       pf_build = (\<lambda>i f. let (sc, ts) = fl_objects f ! i in fleet_host (sc_build sc ts) f),
       pf_create_bridge = (\<lambda>i kw f. let (sc, ts) = fl_objects f ! i
         in fleet_host (sc_create_bridge sc ts (case kw of Some b \<Rightarrow> b | None \<Rightarrow> False)) f),
       pf_validate = (\<lambda>b l. fleet_bridge (bridge_validate h b l)),
       pf_install = (\<lambda>b l. fleet_bridge (bridge_install h b l)),
       pf_run = (\<lambda>b l. fleet_bridge (bridge_run h b l)),
       pf_stop = (\<lambda>b l. fleet_bridge (bridge_stop h b l)),
       pf_get_ip = (\<lambda>b l hint. fleet_bridge (bridge_get_ip h b l hint)) \<rparr>"

section \<open>Properties\<close>

lemmas class_defs = CTestServer_iOS_def CTestServer_Android_def CTestServer_Windows_def CTestServer_macOS_def
  CTestServer_Linux_x86_64_def CTestServer_Linux_def DotnetTestServer_iOS_def DotnetTestServer_Android_def
  DotnetTestServer_Windows_def DotnetTestServer_macOS_def JAKTestServer_Android_def JAKTestServer_Desktop_def
  JAKTestServer_WebService_def JAKTestServer_NonAndroid_def SwiftTestServer_iOS_def JavascriptTestServer_def

text \<open>The file name of the package of a class.\<close>

definition package_name :: "string \<Rightarrow> string" where
  "package_name name =
     (if name \<in> {''c_ios'', ''dotnet_ios'', ''swift_ios''} then ''testserver_ios.zip''
      else if name \<in> {''c_android'', ''dotnet_android'', ''jak_android''} then ''testserver_android.apk''
      else if name \<in> {''c_windows'', ''dotnet_windows''} then ''testserver_windows.zip''
      else if name \<in> {''c_macos'', ''dotnet_macos''} then ''testserver_macos.zip''
      else if name = ''c_linux_x86_64'' then ''testserver_linux-x86_64.tar.gz''
      else if name = ''jak_desktop'' then ''CBLTestServer-Java-Desktop.jar''
      else if name = ''jak_webservice'' then ''CBLTestServer-Java-WebService.jar''
      else ''testserver.zip'')"

lemma registry_all:
  assumes "list_all (\<lambda>(n, c). P n c) (server_registry h)" "(name, sc) \<in> set (server_registry h)"
  shows "P name sc"
  using assms by (auto simp: list_all_iff)

lemma registry_platform_names:
  assumes "(name, sc) \<in> set (server_registry h)"
  shows "sc_platform sc = name"
proof -
  have l: "py_lower ''Desktop'' = ''desktop''" "py_lower ''WebService'' = ''webservice''" by code_simp+
  have "list_all (\<lambda>(n, c). sc_platform c = n) (server_registry h)"
    by (simp add: server_registry_def class_defs Let_def l)
  then show ?thesis using assms by (rule registry_all)
qed

lemma registry_packages:
  assumes "(name, sc) \<in> set (server_registry h)"
  shows "sc_latestbuilds_path sc = latestbuilds (sc_product sc) (package_name name)"
proof -
  have "list_all (\<lambda>(n, c). sc_latestbuilds_path c = latestbuilds (sc_product c) (package_name n)) (server_registry h)"
    by (simp add: server_registry_def class_defs Let_def package_name_def)
  then show ?thesis using assms by (rule registry_all)
qed

text \<open>What a bridge starts, and where the unpacking of a file puts its contents.\<close>

fun bridge_target :: "bridge \<Rightarrow> string" where
  "bridge_target (iOSBridge b) = ib_app_path b"
| "bridge_target (AndroidBridge b) = ab_app_path b"
| "bridge_target (ExeBridge b) = path_str (eb_exe_path b)"
| "bridge_target (macOSBridge p) = path_str p"
| "bridge_target (JarBridge b) = path_str (jb_jar_path b)"
| "bridge_target (JettyBridge v) = []"
| "bridge_target (JavascriptBridge d) = path_str d"

fun unpacked_to :: "path \<Rightarrow> host_action list \<Rightarrow> path" where
  "unpacked_to f [] = f"
| "unpacked_to f (Unzip g d # as) = d"
| "unpacked_to f (Untar g d # as) = d"
| "unpacked_to f (a # as) = unpacked_to f as"

definition starts_unpacked :: "'w host \<Rightarrow> string \<Rightarrow> 'w server_class \<Rightarrow> test_server \<Rightarrow> bridge \<Rightarrow> bool" where
  "starts_unpacked h name sc ts b =
     (let f = download_dir h name ts @ [package_name name]
      in \<exists>rest. bridge_target b = path_str (unpacked_to f (sc_uncompress_package sc f) @ rest))"

lemma android_target:
  "android_bridge_of h p a n w = (Inr b, w') \<Longrightarrow> bridge_target b = path_str p"
  by (auto simp: android_bridge_of_def AndroidBridge_create_def io_bind_def split: prod.splits sum.splits option.splits if_splits)

lemma jar_target:
  "jar_bridge_of h p ts w = (Inr b, w') \<Longrightarrow> bridge_target b = path_str p"
  by (auto simp: jar_bridge_of_def JarBridge_create_def io_exists_def io_bind_def split: if_splits)

lemma js_target:
  assumes "io_bind m (\<lambda>_. io_return (JavascriptBridge d)) w = (Inr b, w')"
  shows "bridge_target b = path_str d"
  using assms by (auto simp: io_bind_def split: prod.splits sum.splits)

lemma no_rest: "p = q \<Longrightarrow> \<exists>rest. path_str p = path_str (q @ rest)"
  by (auto intro: exI [of _ "[]"])

lemma one_more: "\<exists>rest. path_str (q @ [x]) = path_str (q @ rest)"
  by (rule exI [of _ "[x]"]) simp

lemma registry_starts_unpacked:
  assumes "ts_downloaded ts"
  shows "list_all (\<lambda>(n, c). n \<noteq> ''c_ios'' \<longrightarrow> (\<forall>kw w b w'. sc_create_bridge c ts kw w = (Inr b, w') \<longrightarrow> starts_unpacked h n c ts b))
    (server_registry h)"
  using assms
  by (auto simp: server_registry_def class_defs Let_def starts_unpacked_def package_name_def c_exe_def ExeBridge_create_def
      CTestServer_Desktop_uncompress_def iOSBridge_create_def io_bind_def js_working_dir_def
      intro!: no_rest one_more dest!: android_target jar_target split: prod.splits sum.splits)


text \<open>The application of C on iOS is unpacked under a name in lower case and started under another.\<close>

lemma c_ios_started_elsewhere:
  assumes "ts_downloaded ts" "sc_create_bridge (CTestServer_iOS h) ts kw w = (Inr b, w')"
  shows "bridge_target b = path_str (download_dir h ''c_ios'' ts @ [''TestServer.app''])
    \<and> unpacked_to f (sc_uncompress_package (CTestServer_iOS h) f) = butlast f @ [''testserver.app'']"
  using assms by (auto simp: CTestServer_iOS_def Let_def iOSBridge_create_def io_bind_def)

section \<open>Versions\<close>

text \<open>
  A build number is looked up once: after a version was normalised, normalising it again gives
  the same version from the cache, whatever the build server would answer now.
\<close>

theorem build_looked_up_once:
  assumes "normalize_version text get product version (cache, w) = (Inr v, cache', w')"
    and "\<forall>s. text (JStr s) = s" "v \<noteq> version @ ''-0''"
  shows "normalize_version text get' product version (cache', w'') = (Inr v, cache', w'')"
proof (cases "CHR ''-'' \<in> set version")
  case True
  then show ?thesis using assms(1) by (simp add: normalize_version_def Let_def)
next
  case False
  show ?thesis
  proof (cases "cached_build cache product version")
    case (Some b)
    then show ?thesis using assms(1) False by (auto simp: normalize_version_def Let_def)
  next
    case None
    have new: "cached_build (cache_build cache product version b) product version = Some b" for b
      by (simp add: cached_build_def cache_build_def)
    from assms(1) False None obtain b where
      b: "cache' = cache_build cache product version b" "b = JStr ''0'' \<and> v = version \<or> v = version @ CHR ''-'' # text b"
      by (auto simp: normalize_version_def Let_def split: prod.splits sum.splits if_splits)
    then have "v = (if b = JStr ''0'' then version else version @ CHR ''-'' # text b)"
      using assms(2,3) by auto
    then show ?thesis using False b(1) new by (simp add: normalize_version_def Let_def)
  qed
qed

definition sample_builds :: "string \<Rightarrow> (nat, json) io" where
  "sample_builds url n = (Inr (JObj [(''IsRelease'', JBool False), (''BuildNumber'', JStr ''17'')]), Suc n)"

theorem build_looked_up_once_witness:
  "normalize_version (\<lambda>v. case v of JStr s \<Rightarrow> s | _ \<Rightarrow> []) (\<lambda>u n. (Inl HTTPError, Suc n)) ''couchbase-lite-c'' ''3.3.0''
     ([(''couchbase-lite-c'', [(''3.3.0'', JStr ''17'')])], 1)
     = (Inr ''3.3.0-17'', [(''couchbase-lite-c'', [(''3.3.0'', JStr ''17'')])], 1 :: nat)"
proof -
  let ?text = "\<lambda>v. case v of JStr s \<Rightarrow> s | _ \<Rightarrow> []"
  have first: "normalize_version ?text sample_builds ''couchbase-lite-c'' ''3.3.0'' ([(''couchbase-lite-c'', [])], 0)
     = (Inr ''3.3.0-17'', [(''couchbase-lite-c'', [(''3.3.0'', JStr ''17'')])], 1)"
    by (simp add: normalize_version_def sample_builds_def cached_build_def cache_build_def d_item_def)
  show ?thesis by (rule build_looked_up_once [OF first]) simp_all
qed

lemma version_part_missing: "CHR ''-'' \<notin> set v \<Longrightarrow> version_part v 1 = Inl IndexError"
  by (simp add: version_part_def split_on_no_sep)

lemma version_part_first: "version_part v 0 = Inr (hd (split_on (CHR ''-'') v))"
  by (simp add: version_part_def hd_conv_nth)

lemma released_not_downloadable:
  assumes "(name, sc) \<in> set (server_registry h)" "CHR ''-'' \<notin> set (ts_version ts)"
  shows "TestServer_download h sc ts w = (Inl IndexError, w)"
  using registry_packages [OF assms(1)] version_part_missing [OF assms(2)]
  by (simp add: TestServer_download_def latestbuilds_def io_bind_def version_part_first)

text \<open>
  A released version can be asked for but its test server cannot be downloaded: when the build
  server says that the version is a release, the object is made with the plain version, and
  downloading it raises \<open>IndexError\<close> before anything is done.
\<close>

theorem released_server_not_downloaded:
  assumes "map_of (server_registry h) name = Some sc" "CHR ''-'' \<notin> set version"
    and "cached_build (fl_cache f) (sc_product sc) version = None"
    and "\<forall>u w. \<exists>body w'. ho_get h u w = (Inr body, w') \<and> py_item body ''IsRelease'' = Inr (JBool True)"
    and "fleet_create text h name version f = (Inr i, f')"
  shows "ts_version (snd (fl_objects f' ! i)) = version \<and> fleet_download h i f' = (Inl IndexError, f')"
proof -
  have mem: "(name, sc) \<in> set (server_registry h)" using assms(1) by (rule map_of_SomeD)
  have none: "cached_build (if d_has (fl_cache f) (sc_product sc) then fl_cache f
      else d_set (fl_cache f) (sc_product sc) []) (sc_product sc) version = None"
    using assms(3) by (simp add: cached_build_def)
  have norm: "fst (normalize_version text (ho_get h) (sc_product sc) version (c, w)) = Inr version"
    if "cached_build c (sc_product sc) version = None" for c w
  proof -
    let ?u = "''http://proget.build.couchbase.com:8080/api/get_version?product='' @ sc_product sc @ ''&version='' @ version"
    obtain body w' where "ho_get h ?u w = (Inr body, w')" "py_item body ''IsRelease'' = Inr (JBool True)"
      using assms(4) by blast
    then show ?thesis using that assms(2) by (simp add: normalize_version_def)
  qed
  from assms(1,5) obtain ts where ts: "f' = f\<lparr>fl_objects := fl_objects f @ [(sc, ts)], fl_cache := fl_cache f',
      fl_world := fl_world f'\<rparr>" "i = length (fl_objects f)"
    "fst (TestServer_init text h sc version (fl_cache f, fl_world f)) = Inr ts"
    by (auto simp: fleet_create_def TestServer_create_def io_bind_def split: prod.splits sum.splits)
  then have v: "ts_version ts = version"
    using norm [OF none, of "fl_world f"]
    by (auto simp: TestServer_init_def Let_def split: prod.splits sum.splits)
  have obj: "fl_objects f' ! i = (sc, ts)" using ts(2) by (subst ts(1)) simp
  then show ?thesis
    using released_not_downloadable [OF mem, of ts "fl_world f'"] v assms(2) by (simp add: fleet_download_def)
qed

definition release_host :: "nat host" where
  "release_host = \<lparr> ho_system = ''Linux'', ho_servers = [''repo'', ''servers''], ho_scripts = [], ho_xharness = [], ho_cpus = ''8'',
     ho_exists = \<lambda>p w. True, ho_is_file = \<lambda>p w. True, ho_read = \<lambda>p w. (Inr ''1'', w), ho_getenv = \<lambda>n w. None,
     ho_which = \<lambda>n w. None, ho_act = \<lambda>a w. (Inr (), Suc w),
     ho_run = \<lambda>c w. (Inr \<lparr> pr_code = 0, pr_stdout = [], pr_stderr = [] \<rparr>, Suc w),
     ho_popen = \<lambda>c p w. (Inr 1, Suc w), ho_pipe = \<lambda>c d w. (Inr (0, 0), Suc w), ho_processes = \<lambda>w. (Inr [], w),
     ho_head = \<lambda>u w. (Inr 200, Suc w), ho_get = \<lambda>u w. (Inr (JObj [(''IsRelease'', JBool True)]), Suc w),
     ho_dotnet_env = \<lambda>w. (Inr (''dotnet'', []), w) \<rparr>"

theorem released_server_not_downloaded_witness:
  "let f' = snd (fleet_create (\<lambda>v. []) release_host ''js'' ''1.0.0'' \<lparr> fl_objects = [], fl_cache = [], fl_devices = [], fl_world = 0 \<rparr>)
   in fl_world f' = 1 \<and> fleet_download release_host 0 f' = (Inl IndexError, f')"
proof -
  let ?f = "\<lparr> fl_objects = [], fl_cache = [], fl_devices = [], fl_world = 0 \<rparr> :: nat fleet"
  have js: "map_of (server_registry release_host) ''js'' = Some (JavascriptTestServer release_host)"
    by (simp add: server_registry_def)
  have answer: "ho_get release_host u w = (Inr (JObj [(''IsRelease'', JBool True)]), Suc w)" for u w
    by (simp add: release_host_def)
  then have get: "\<forall>u w. \<exists>body w'. ho_get release_host u w = (Inr body, w') \<and> py_item body ''IsRelease'' = Inr (JBool True)"
    by (simp add: d_item_def)
  have parts: "sc_product (JavascriptTestServer release_host) = ''couchbase-lite-js''"
    "sc_init (JavascriptTestServer release_host) = io_return []"
    by (simp_all add: JavascriptTestServer_def Let_def no_init_def)
  have run: "fleet_create (\<lambda>v. []) release_host ''js'' ''1.0.0'' ?f = (Inr 0, snd (fleet_create (\<lambda>v. []) release_host ''js'' ''1.0.0'' ?f))"
    "fl_world (snd (fleet_create (\<lambda>v. []) release_host ''js'' ''1.0.0'' ?f)) = 1"
    by (simp_all add: fleet_create_def TestServer_create_def js TestServer_init_def normalize_version_def cached_build_def
      io_bind_def parts answer d_item_def d_has_def)
  show ?thesis
    using released_server_not_downloaded [OF js _ _ get run(1)] run(2) by (simp add: cached_build_def Let_def)
qed

text \<open>The packages of the C servers for desktops end up beside the directory of the repository.\<close>

lemma c_package_outside_repository:
  assumes "ho_servers h = repo @ [''servers'']" "repo \<noteq> []"
    and "sc_compress_package (CTestServer_Windows h) ts w = (Inr p, w')"
  shows "p = butlast repo @ [''testserver_windows.zip'']"
proof -
  have "path_parents (repo @ [''servers'', ''c'', ''build'', ''out'', ''bin'']) 5 = Inr (butlast repo)"
    using assms(2) by (simp add: path_parents_def butlast_conv_take)
  then show ?thesis
    using assms(1,3)
    by (auto simp: CTestServer_Windows_def pack_def c_build_dir_def c_dir_def io_bind_def split: prod.splits sum.splits)
qed


end
