(* ===== verification/Clusters.thy ===== *)
theory Clusters
  imports GatewayAdmin CouchbaseServer DocsCompare
begin

text \<open>
  Sync Gateway nodes and Couchbase Server nodes as the configuration groups them: connecting to a
  Sync Gateway (\<open>api/syncgateway.py\<close>), the cluster of Sync Gateways with its concurrent waits
  (\<open>api/syncgatewaycluster.py\<close>), the cluster of both with the set-up of a dataset
  (\<open>api/cluster.py\<close>), and the builder that collects clusters by index (\<open>__init__.py\<close>).
\<close>

section \<open>Sync Gateway objects\<close>

text \<open>The admin port is what the configuration holds, a number or a boolean.\<close>

record sync_gateway =
  sgo_hostname :: string
  sgo_port :: json
  sgo_secure :: bool
  sgo_public_port :: int
  sgo_using_rosmar :: bool
  sgo_has_caddy_sidecar :: bool
  sgo_has_shell2http_sidecar :: bool

definition port_str :: "json \<Rightarrow> string" where
  "port_str v = (case v of JInt n \<Rightarrow> int_str n | JBool b \<Rightarrow> (if b then ''True'' else ''False'') | _ \<Rightarrow> [])"

text \<open>\<open>get\<close> is \<open>requests.get\<close>, whose own exceptions are all subclasses of \<open>RequestException\<close>.\<close>

definition is_sidecar_reachable :: "(string \<Rightarrow> ('w, unit) io) \<Rightarrow> string \<Rightarrow> int \<Rightarrow> ('w, bool) io" where
  "is_sidecar_reachable get hostname port =
     io_try (io_bind (get (''http://'' @ hostname @ CHR '':'' # int_str port @ ''/'')) (\<lambda>_. io_return True))
       (\<lambda>e. if e = RequestException then io_return False else io_raise e)"

definition uses_rosmar :: "json \<Rightarrow> bool result" where
  "uses_rosmar config =
     (case rbind (py_item config ''bootstrap'') (\<lambda>b. rbind (py_item b ''server'') (\<lambda>s.
        case s of JStr x \<Rightarrow> Inr (prefix ''rosmar'' x) | _ \<Rightarrow> Inl AttributeError)) of
        Inl e \<Rightarrow> Inl (if e = KeyError then CblTestError else e)
      | Inr b \<Rightarrow> Inr b)"

text \<open>\<open>make_session\<close> creates the session: base URL, TLS and credentials.\<close>

definition SyncGateway_create ::
    "(string \<Rightarrow> bool \<Rightarrow> string \<Rightarrow> string \<Rightarrow> ('w, unit) io) \<Rightarrow> (string \<Rightarrow> string \<Rightarrow> string \<Rightarrow> ('w, cbs_reply) io)
      \<Rightarrow> (string \<Rightarrow> ('w, unit) io) \<Rightarrow> string \<Rightarrow> string \<Rightarrow> string \<Rightarrow> json \<Rightarrow> bool \<Rightarrow> int \<Rightarrow> ('w, sync_gateway) io" where
  "SyncGateway_create make_session get_config get url username password port secure public_port =
     (let base = (if secure then ''https://'' else ''http://'') @ url @ CHR '':'' # port_str port
      in io_bind (make_session base secure username password) (\<lambda>_.
         io_bind (get_config (base @ ''/_config'') username password) (\<lambda>r.
         io_bind (io_lift (raise_for_status r)) (\<lambda>_.
         io_bind (io_lift (rbind (cr_body r) uses_rosmar)) (\<lambda>rosmar.
         io_bind (is_sidecar_reachable get url 20000) (\<lambda>caddy.
         io_bind (is_sidecar_reachable get url 20001) (\<lambda>shell.
           io_return \<lparr> sgo_hostname = url, sgo_port = port, sgo_secure = secure, sgo_public_port = public_port,
                       sgo_using_rosmar = rosmar, sgo_has_caddy_sidecar = caddy,
                       sgo_has_shell2http_sidecar = shell \<rparr>)))))))"

text \<open>\<open>shared_access\<close> reads \<open>enable_shared_bucket_access\<close> from the validated configuration.\<close>

definition SyncGateway_is_using_views ::
    "'s sgw_send \<Rightarrow> (json \<Rightarrow> 'c result) \<Rightarrow> ('c \<Rightarrow> bool option) \<Rightarrow> sync_gateway \<Rightarrow> string \<Rightarrow> ('s, bool) io" where
  "SyncGateway_is_using_views send validate shared_access sg db =
     (if sgo_using_rosmar sg then io_return True
      else io_bind (SyncGateway_get_database_config send validate db) (\<lambda>config.
             io_return (shared_access config = Some False)))"

text \<open>
  \<open>validate\<close> gives the version and the version of the vendor of the status; \<open>valid\<close> says which
  versions \<open>packaging\<close> accepts, \<open>at_least\<close> compares two of them.
\<close>

definition SyncGateway_get_version ::
    "'s sgw_send \<Rightarrow> (jdict \<Rightarrow> (string \<times> string) result) \<Rightarrow> (string \<Rightarrow> bool) \<Rightarrow> ('s, string \<times> int) io" where
  "SyncGateway_get_version send validate valid =
     io_bind (send_dict send (request ''get'' ''/_status'' None [])) (\<lambda>resp.
     io_bind (io_lift (validate resp)) (\<lambda>(version, vendor_version).
       let sg_version = SyncGatewayVersion_parse (if contains_sub vendor_version version then version else vendor_version)
       in if valid (fst sg_version) then io_return sg_version else io_raise CblTestError))"

definition SyncGateway_supports_version_vectors ::
    "(string \<Rightarrow> string \<Rightarrow> bool) \<Rightarrow> ('s, string \<times> int) io \<Rightarrow> ('s, bool) io" where
  "SyncGateway_supports_version_vectors at_least get_version =
     io_bind get_version (\<lambda>(version, build). io_return (at_least version ''4.0''))"

text \<open>One poll of \<open>wait_for_all_documents\<close>, repeated while it raises \<open>AssertionError\<close>.\<close>

definition wait_for_all_documents_poll ::
    "'s sgw_send \<Rightarrow> string \<Rightarrow> int \<Rightarrow> string \<Rightarrow> string \<Rightarrow> ('s, all_docs_response) io" where
  "wait_for_all_documents_poll send db min_count scope collection =
     io_bind (SyncGateway_get_all_documents send db scope collection False) (\<lambda>all_docs.
     io_bind (io_lift (py_assert (min_count \<le> int (length (al_rows all_docs))))) (\<lambda>_. io_return all_docs))"

text \<open>\<open>try: ... finally: ...\<close>.\<close>

definition io_finally :: "('w, 'a) io \<Rightarrow> ('w, unit) io \<Rightarrow> ('w, 'a) io" where
  "io_finally m cleanup = (\<lambda>w. case m w of (r, w') \<Rightarrow>
     (case cleanup w' of (Inl e, w'') \<Rightarrow> (Inl e, w'') | (Inr _, w'') \<Rightarrow> (r, w'')))"

text \<open>The client of a user: its session is made by \<open>make_session\<close>; \<open>body\<close> is the \<open>async with\<close> block.\<close>

definition SyncGateway_create_user_client ::
    "'w sgw_send \<Rightarrow> (string \<Rightarrow> bool \<Rightarrow> string \<Rightarrow> string \<Rightarrow> ('w, 'c) io) \<Rightarrow> ('c \<Rightarrow> ('w, unit) io) \<Rightarrow> sync_gateway
      \<Rightarrow> string \<Rightarrow> string \<Rightarrow> string \<Rightarrow> string list \<Rightarrow> ('c \<Rightarrow> ('w, 'a) io) \<Rightarrow> ('w, 'a) io" where
  "SyncGateway_create_user_client send make_session close sg db username password channels body =
     io_bind (SyncGateway_reset_user send db username password channels) (\<lambda>_.
     io_bind (make_session ((if sgo_secure sg then ''https://'' else ''http://'') @ sgo_hostname sg
                @ CHR '':'' # int_str (sgo_public_port sg)) (sgo_secure sg) username password) (\<lambda>client.
       io_finally (body client) (close client)))"

section \<open>The cluster of Sync Gateways\<close>

record gateway_cluster =
  gc_nodes :: "sync_gateway list"
  gc_index :: nat

definition SyncGatewayCluster_create :: "sync_gateway list \<Rightarrow> gateway_cluster result" where
  "SyncGatewayCluster_create sync_gateways =
     (if sync_gateways = [] then Inl ValueError else Inr \<lparr> gc_nodes = sync_gateways, gc_index = 0 \<rparr>)"

definition SyncGatewayCluster_round_robin_node :: "gateway_cluster \<Rightarrow> sync_gateway \<times> gateway_cluster" where
  "SyncGatewayCluster_round_robin_node c =
     (gc_nodes c ! gc_index c, c\<lparr>gc_index := Suc (gc_index c) mod length (gc_nodes c)\<rparr>)"

text \<open>The nodes of several accesses, one after the other.\<close>

fun round_robin_nodes :: "nat \<Rightarrow> gateway_cluster \<Rightarrow> sync_gateway list" where
  "round_robin_nodes 0 c = []"
| "round_robin_nodes (Suc n) c =
     (let (node, c') = SyncGatewayCluster_round_robin_node c in node # round_robin_nodes n c')"

subsection \<open>Waiting for all nodes\<close>

text \<open>
  \<open>asyncio.gather\<close> runs its coroutines until one of them raises or all have returned.  A coroutine
  is a function from its local state to the next one or to its outcome; what it does between two
  points where it waits is one step.  The order in which the event loop resumes the coroutines is an
  argument, the schedule; \<open>None\<close> is a run that the schedule does not complete.
\<close>

type_synonym ('t, 'w) coroutine = "'t \<Rightarrow> 'w \<Rightarrow> ('t + unit result) \<times> 'w"

datatype 't task = Waiting 't | Finished "unit result"

fun raised :: "'t task list \<Rightarrow> py_exc option" where
  "raised [] = None"
| "raised (Finished (Inl e) # ts) = Some e"
| "raised (t # ts) = raised ts"

fun is_waiting :: "'t task \<Rightarrow> bool" where
  "is_waiting (Waiting t) = True"
| "is_waiting (Finished r) = False"

definition gather_result :: "'t task list \<Rightarrow> unit result option" where
  "gather_result ts =
     (case raised ts of
        Some e \<Rightarrow> Some (Inl e)
      | None \<Rightarrow> if list_ex is_waiting ts then None else Some (Inr ()))"

definition run_task :: "(nat \<Rightarrow> ('t, 'w) coroutine) \<Rightarrow> nat \<Rightarrow> 't task list \<Rightarrow> 'w \<Rightarrow> 't task list \<times> 'w" where
  "run_task step i ts w =
     (if i < length ts
      then (case ts ! i of
              Finished r \<Rightarrow> (ts, w)
            | Waiting t \<Rightarrow>
                (case step i t w of
                   (Inl t', w') \<Rightarrow> (ts[i := Waiting t'], w')
                 | (Inr r, w') \<Rightarrow> (ts[i := Finished r], w')))
      else (ts, w))"

fun gather ::
    "(nat \<Rightarrow> ('t, 'w) coroutine) \<Rightarrow> nat list \<Rightarrow> 't task list \<Rightarrow> 'w \<Rightarrow> unit result option \<times> 'w" where
  "gather step [] ts w = (gather_result ts, w)"
| "gather step (i # sched) ts w =
     (case gather_result ts of
        Some r \<Rightarrow> (Some r, w)
      | None \<Rightarrow> (let (ts', w') = run_task step i ts w in gather step sched ts' w'))"

text \<open>
  The waits.  \<open>retry\<close> is \<open>retry_assert\<close> for a number of attempts and a delay, as a coroutine: the
  state it starts in and its step for a poll; \<open>all_dbs\<close> are the databases a node lists.
\<close>

record ('t, 'w) retrying =
  rt_start :: 't
  rt_step :: "('w, unit) io \<Rightarrow> ('t, 'w) coroutine"

definition wait_on_all ::
    "('t, 'w) retrying \<Rightarrow> (sync_gateway \<Rightarrow> ('w, unit) io) \<Rightarrow> nat list \<Rightarrow> gateway_cluster \<Rightarrow> 'w
      \<Rightarrow> unit result option \<times> 'w" where
  "wait_on_all rt poll sched c =
     gather (\<lambda>i. rt_step rt (poll (gc_nodes c ! i))) sched (map (\<lambda>sg. Waiting (rt_start rt)) (gc_nodes c))"

definition SyncGatewayCluster_wait_for_db_online ::
    "(int \<Rightarrow> rat \<Rightarrow> ('t, 'w) retrying) \<Rightarrow> (sync_gateway \<Rightarrow> ('w, (string, 'e) pydict) io) \<Rightarrow> ('e \<Rightarrow> bool)
      \<Rightarrow> nat list \<Rightarrow> gateway_cluster \<Rightarrow> string \<Rightarrow> int \<Rightarrow> rat \<Rightarrow> 'w \<Rightarrow> unit result option \<times> 'w" where
  "SyncGatewayCluster_wait_for_db_online retry all_dbs is_online sched c db max_retries retry_delay =
     wait_on_all (retry max_retries retry_delay) (\<lambda>sg. wait_for_db_online_poll (all_dbs sg) is_online db) sched c"

definition SyncGatewayCluster_wait_for_db_gone ::
    "(int \<Rightarrow> rat \<Rightarrow> ('t, 'w) retrying) \<Rightarrow> (sync_gateway \<Rightarrow> 'w sgw_send) \<Rightarrow> nat list \<Rightarrow> gateway_cluster \<Rightarrow> string
      \<Rightarrow> int \<Rightarrow> rat \<Rightarrow> 'w \<Rightarrow> unit result option \<times> 'w" where
  "SyncGatewayCluster_wait_for_db_gone retry send sched c db max_retries retry_delay =
     wait_on_all (retry max_retries retry_delay) (\<lambda>sg. wait_for_db_gone_poll (send sg) db) sched c"

definition SyncGatewayCluster_wait_for_no_databases ::
    "('t, 'w) retrying \<Rightarrow> (sync_gateway \<Rightarrow> ('w, (string, 'e) pydict) io) \<Rightarrow> ('e \<Rightarrow> string)
      \<Rightarrow> nat list \<Rightarrow> gateway_cluster \<Rightarrow> string \<Rightarrow> 'w \<Rightarrow> unit result option \<times> 'w" where
  "SyncGatewayCluster_wait_for_no_databases retry all_dbs bucket_of sched c bucket_name =
     wait_on_all retry (\<lambda>sg. wait_for_no_databases_poll (all_dbs sg) bucket_of bucket_name) sched c"

section \<open>The cluster of both\<close>

record cluster =
  cl_gateways :: gateway_cluster
  cl_servers :: "couchbase_server list"

definition CouchbaseCluster_create :: "sync_gateway list \<Rightarrow> couchbase_server list \<Rightarrow> cluster result" where
  "CouchbaseCluster_create sync_gateways servers =
     rbind (SyncGatewayCluster_create sync_gateways) (\<lambda>gc.
       if servers \<noteq> [] then Inr \<lparr> cl_gateways = gc, cl_servers = servers \<rparr>
       else if length sync_gateways > 1 then Inl CblTestError
       else if \<not> sgo_using_rosmar (hd sync_gateways) then Inl CblTestError
       else Inr \<lparr> cl_gateways = gc, cl_servers = [] \<rparr>)"

text \<open>
  What the cluster reads from a validated database configuration: bucket, scopes with their
  collections, and the payload it is sent as.
\<close>

datatype scope_collections = No_collections | Collection_dict "(string, json) pydict" | Collection_list "string list"

record database_config =
  dc_bucket :: "string option"
  dc_scopes :: "(string, scope_collections) pydict option"
  dc_payload :: json

fun collection_names :: "scope_collections \<Rightarrow> string list" where
  "collection_names No_collections = []"
| "collection_names (Collection_dict d) = d_keys d"
| "collection_names (Collection_list names) = names"

text \<open>
  The clients behind the objects: the SDK of a Couchbase Server, its HTTP session, the request
  primitive of a Sync Gateway, sleeping, and the waits over all gateways of the cluster.
\<close>

record 'w backend =
  bk_sdk :: "couchbase_server \<Rightarrow> 'w sdk"
  bk_http :: "'w cbs_http"
  bk_send :: "sync_gateway \<Rightarrow> 'w sgw_send"
  bk_sleep :: "rat \<Rightarrow> 'w \<Rightarrow> 'w"
  bk_no_databases :: "string \<Rightarrow> ('w, unit) io"
  bk_db_online :: "string \<Rightarrow> ('w, unit) io"

definition first_gateway :: "cluster \<Rightarrow> sync_gateway" where
  "first_gateway c = hd (gc_nodes (cl_gateways c))"

definition on_first_server :: "cluster \<Rightarrow> (couchbase_server \<Rightarrow> ('w, 'a) io) \<Rightarrow> ('w, 'a) io" where
  "on_first_server c m = io_bind (io_lift (py_nth (cl_servers c) 0)) m"

definition CouchbaseCluster_close :: "(sync_gateway \<Rightarrow> ('w, unit) io) \<Rightarrow> cluster \<Rightarrow> ('w, unit) io" where
  "CouchbaseCluster_close close c =
     foldr (\<lambda>sg m. io_bind (close sg) (\<lambda>_. m)) (gc_nodes (cl_gateways c)) (io_return ())"

fun create_scopes ::
    "'w backend \<Rightarrow> cluster \<Rightarrow> string \<Rightarrow> (string, scope_collections) pydict \<Rightarrow> ('w, unit) io" where
  "create_scopes bk c bucket [] = io_return ()"
| "create_scopes bk c bucket ((scope, sc) # scopes) =
     io_bind (on_first_server c (\<lambda>s.
        CouchbaseServer_create_collections (bk_sdk bk s) (bk_sleep bk) bucket scope (collection_names sc))) (\<lambda>_.
       create_scopes bk c bucket scopes)"

definition CouchbaseCluster_create_collections :: "'w backend \<Rightarrow> cluster \<Rightarrow> database_config \<Rightarrow> ('w, unit) io" where
  "CouchbaseCluster_create_collections bk c db_payload =
     (if sgo_using_rosmar (first_gateway c) then io_return ()
      else case dc_bucket db_payload of
             None \<Rightarrow> io_raise AssertionError
           | Some bucket \<Rightarrow> (case dc_scopes db_payload of
               None \<Rightarrow> io_return () | Some scopes \<Rightarrow> create_scopes bk c bucket scopes))"

definition CouchbaseCluster_check_all_indexes_removed :: "'w backend \<Rightarrow> cluster \<Rightarrow> string \<Rightarrow> ('w, unit) io" where
  "CouchbaseCluster_check_all_indexes_removed bk c bucket =
     io_bind (on_first_server c (\<lambda>s. CouchbaseServer_indexes_count (bk_sdk bk s) bucket))
       (\<lambda>count. if count > 0 then io_raise ValueError else io_return ())"

definition CouchbaseCluster_wait_for_all_indexed_removed :: "'w backend \<Rightarrow> cluster \<Rightarrow> string \<Rightarrow> ('w, unit) io" where
  "CouchbaseCluster_wait_for_all_indexed_removed bk c bucket =
     try_n_times (bk_sleep bk) 10 2 True (CouchbaseCluster_check_all_indexes_removed bk c bucket)"

definition CouchbaseCluster_drop_bucket :: "'w backend \<Rightarrow> cluster \<Rightarrow> string \<Rightarrow> ('w, unit) io" where
  "CouchbaseCluster_drop_bucket bk c bucket =
     (let sg = first_gateway c
      in if sgo_using_rosmar sg
         then io_try (io_bind (bk_send bk sg (request ''delete'' (''/_rosmar/'' @ bucket) None [])) (\<lambda>_. io_return ()))
                (\<lambda>e. if e = CblSyncGatewayBadResponseError (Some 404) then io_return () else io_raise e)
         else on_first_server c (\<lambda>s. CouchbaseServer_drop_bucket (bk_sdk bk s) bucket))"

subsection \<open>Setting up a dataset\<close>

text \<open>The options that are asked for are laid over the configuration, in their order.\<close>

fun apply_options :: "jdict \<Rightarrow> string list \<Rightarrow> jdict \<Rightarrow> jdict result" where
  "apply_options valid_options [] nested = Inr nested"
| "apply_options valid_options (option # options) nested =
     (if \<not> d_has valid_options option then Inl CblTestError
      else rbind (get_typed_required valid_options option T_dict) (\<lambda>addition.
        case addition of
          JObj a \<Rightarrow> apply_options valid_options options (d_update nested a)
        | _ \<Rightarrow> Inl ValueError))"

definition required_dict :: "jdict \<Rightarrow> string \<Rightarrow> jdict result" where
  "required_dict d k = rbind (get_typed_required d k T_dict) (\<lambda>v. case v of JObj x \<Rightarrow> Inr x | _ \<Rightarrow> Inl ValueError)"

text \<open>The users of the dataset and the configuration of its database, with the options applied.\<close>

definition dataset_parts :: "json \<Rightarrow> string list option \<Rightarrow> (jdict \<times> json) result" where
  "dataset_parts v sg_config_options =
     (case v of
        JObj dataset_config \<Rightarrow>
          rbind (required_dict dataset_config ''users'') (\<lambda>users.
            case sg_config_options of
              None \<Rightarrow> rbind (d_item dataset_config ''config'') (\<lambda>config. Inr (users, config))
            | Some options \<Rightarrow>
                rbind (required_dict dataset_config ''config'') (\<lambda>nested_config.
                rbind (required_dict dataset_config ''config_options'') (\<lambda>valid_options.
                rbind (apply_options valid_options options nested_config) (\<lambda>config.
                  Inr (users, JObj config)))))
      | _ \<Rightarrow> Inl ValueError)"

text \<open>Bucket and collections come with the database unless Rosmar creates them.\<close>

definition create_backing :: "'w backend \<Rightarrow> cluster \<Rightarrow> string \<Rightarrow> database_config \<Rightarrow> ('w, unit) io" where
  "create_backing bk c bucket db_payload =
     (if sgo_using_rosmar (first_gateway c) then io_return ()
      else io_bind (on_first_server c (\<lambda>s.
             CouchbaseServer_create_bucket (bk_sdk bk s) (bk_http bk) (bk_sleep bk) s bucket 0 60 2)) (\<lambda>_.
           CouchbaseCluster_create_collections bk c db_payload))"

text \<open>What is done when the database exists: everything is removed and made again.\<close>

definition recreate_database :: "'w backend \<Rightarrow> cluster \<Rightarrow> string \<Rightarrow> string \<Rightarrow> database_config \<Rightarrow> ('w, unit) io" where
  "recreate_database bk c db bucket db_payload =
     (let sg = first_gateway c
      in io_bind (SyncGateway_delete_database (bk_send bk sg) (bk_sleep bk) db) (\<lambda>_.
         io_bind (CouchbaseCluster_drop_bucket bk c bucket) (\<lambda>_.
         io_bind (bk_no_databases bk bucket) (\<lambda>_.
         io_bind (create_backing bk c bucket db_payload) (\<lambda>_.
         io_bind (if sgo_using_rosmar sg then io_return ()
                  else CouchbaseCluster_wait_for_all_indexed_removed bk c bucket) (\<lambda>_.
           SyncGateway_put_database (bk_send bk sg) db (dc_payload db_payload)))))))"

definition non_null :: "json \<Rightarrow> json option" where
  "non_null v = (if v = JNull then None else Some v)"

fun add_users :: "'w sgw_send \<Rightarrow> string \<Rightarrow> jdict \<Rightarrow> string list \<Rightarrow> ('w, unit) io" where
  "add_users send db users [] = io_return ()"
| "add_users send db users (user # rest) =
     io_bind (io_lift (rbind (required_dict users user) (\<lambda>u.
        rbind (d_item u ''password'') (\<lambda>p. rbind (d_item u ''collection_access'') (\<lambda>a. Inr (p, a)))))) (\<lambda>(p, a).
     io_bind (SyncGateway_add_user send db user (non_null p) (non_null a) None) (\<lambda>_.
       add_users send db users rest))"

text \<open>
  \<open>exists\<close> asks for a file, \<open>read\<close> gives its contents as JSON, \<open>read_lines\<close> the lines of the data
  file; \<open>validate\<close> is the validation of the database configuration.
\<close>

definition CouchbaseCluster_configure_dataset ::
    "(string \<Rightarrow> bool) \<Rightarrow> (string \<Rightarrow> json result) \<Rightarrow> (string \<Rightarrow> json result list) \<Rightarrow> (json \<Rightarrow> database_config result)
      \<Rightarrow> 'w backend \<Rightarrow> cluster \<Rightarrow> string \<Rightarrow> string \<Rightarrow> string list option \<Rightarrow> ('w, unit) io" where
  "CouchbaseCluster_configure_dataset exists read read_lines validate bk c dataset_path dataset_name sg_config_options =
     (let config_filepath = path_join dataset_path (dataset_name @ ''-sg-config.json'');
          data_filepath = path_join dataset_path (dataset_name @ ''-sg.json'');
          sg = first_gateway c; send = bk_send bk sg
      in if \<not> exists config_filepath then io_raise FileNotFoundError
         else if \<not> exists data_filepath then io_raise FileNotFoundError
         else io_bind (io_lift (rbind (read config_filepath) (\<lambda>v. dataset_parts v sg_config_options))) (\<lambda>(users, config).
           io_bind (io_lift (validate config)) (\<lambda>db_payload.
           case dc_bucket db_payload of
             None \<Rightarrow> io_raise AssertionError
           | Some bucket \<Rightarrow>
               io_bind (io_try (io_bind (create_backing bk c bucket db_payload)
                                 (\<lambda>_. SyncGateway_put_database send dataset_name (dc_payload db_payload)))
                          (\<lambda>e. if e = CblSyncGatewayBadResponseError (Some 412)
                               then recreate_database bk c dataset_name bucket db_payload else io_raise e)) (\<lambda>_.
               io_bind (add_users send dataset_name users (d_keys users)) (\<lambda>_.
               io_bind (SyncGateway_load_dataset send dataset_name (read_lines data_filepath)) (\<lambda>_.
                 if length (gc_nodes (cl_gateways c)) > 1 then bk_db_online bk dataset_name else io_return ()))))))"

section \<open>Collecting clusters\<close>

text \<open>Entries by the index of their cluster, in the order of the configuration.\<close>

record cluster_builder =
  clb_sgw :: "(int, sync_gateway list) pydict"
  clb_cbs :: "(int, couchbase_server list) pydict"

definition add_to :: "(int, 'a list) pydict \<Rightarrow> int \<Rightarrow> 'a \<Rightarrow> (int, 'a list) pydict" where
  "add_to d idx x = d_set d idx ((case map_of d idx of Some xs \<Rightarrow> xs | None \<Rightarrow> []) @ [x])"

definition ClusterBuilder_add_sgw :: "sync_gateway \<Rightarrow> int \<Rightarrow> cluster_builder \<Rightarrow> cluster_builder" where
  "ClusterBuilder_add_sgw entry idx b = b\<lparr>clb_sgw := add_to (clb_sgw b) idx entry\<rparr>"

definition ClusterBuilder_add_cbs :: "couchbase_server \<Rightarrow> int \<Rightarrow> cluster_builder \<Rightarrow> cluster_builder" where
  "ClusterBuilder_add_cbs entry idx b = b\<lparr>clb_cbs := add_to (clb_cbs b) idx entry\<rparr>"

definition contiguous :: "(int, 'a) pydict \<Rightarrow> bool" where
  "contiguous d = list_all (d_has d) (map int [0..<length d])"

definition ClusterBuilder_validate :: "cluster_builder \<Rightarrow> unit result" where
  "ClusterBuilder_validate b =
     (if length (clb_sgw b) < length (clb_cbs b) then Inl CblTestError
      else if \<not> contiguous (clb_sgw b) \<or> \<not> contiguous (clb_cbs b) then Inl CblTestError
      else Inr ())"

definition ClusterBuilder_build :: "cluster_builder \<Rightarrow> cluster list result" where
  "ClusterBuilder_build b =
     rbind (ClusterBuilder_validate b) (\<lambda>_.
       mapM (\<lambda>idx.
         rbind (if idx \<ge> length (clb_cbs b) then Inr [] else d_item (clb_cbs b) (int idx)) (\<lambda>servers.
         rbind (d_item (clb_sgw b) (int idx)) (\<lambda>sync_gateways. CouchbaseCluster_create sync_gateways servers)))
         [0..<length (clb_sgw b)])"

section \<open>Waiting for all nodes: every node answered, and the wait ends\<close>

lemma raised_Some_iff: "(\<exists>e. raised ts = Some e) \<longleftrightarrow> (\<exists>e. Finished (Inl e) \<in> set ts)"
  by (induction ts rule: raised.induct) auto

lemma gather_result_Inr: "gather_result ts = Some (Inr ()) \<Longrightarrow> \<not> list_ex is_waiting ts \<and> raised ts = None"
  by (auto simp: gather_result_def split: option.splits if_splits)

lemma gather_raised:
  assumes "Finished (Inl e) \<in> set ts"
  shows "\<exists>e'. fst (gather step sched ts w) = Some (Inl e')"
proof -
  obtain e' where "raised ts = Some e'" using assms raised_Some_iff by blast
  then have "gather_result ts = Some (Inl e')" by (simp add: gather_result_def)
  then show ?thesis by (cases sched) auto
qed

lemma gather_result_None: "gather_result ts = None \<Longrightarrow> Finished (Inl e) \<notin> set ts"
  using raised_Some_iff [of ts] by (auto simp: gather_result_def split: option.splits)

text \<open>The steps that a run takes: the coroutine that is resumed and the world it finds.\<close>

fun gather_trace :: "(nat \<Rightarrow> ('t, 'w) coroutine) \<Rightarrow> nat list \<Rightarrow> 't task list \<Rightarrow> 'w \<Rightarrow> (nat \<times> 'w) list" where
  "gather_trace step [] ts w = []"
| "gather_trace step (i # sched) ts w =
     (case gather_result ts of
        Some r \<Rightarrow> []
      | None \<Rightarrow> (i, w) # (let (ts', w') = run_task step i ts w in gather_trace step sched ts' w'))"

lemma run_task_other: "j \<noteq> i \<Longrightarrow> fst (run_task step j ts w) ! i = ts ! i"
  by (simp add: run_task_def split: task.splits prod.splits sum.splits)

lemma run_task_length [simp]: "length (fst (run_task step j ts w)) = length ts"
  by (simp add: run_task_def split: task.splits prod.splits sum.splits)

lemma waiting_some: "i < length ts \<Longrightarrow> ts ! i = Waiting t \<Longrightarrow> list_ex is_waiting ts"
  by (metis is_waiting.simps(1) list_ex_iff nth_mem)

lemma run_task_waits:
  assumes "run_task step i ts w = (ts', v)" "i < length ts" "ts' ! i = Waiting t"
  obtains t0 where "ts ! i = Waiting t0" "step i t0 w = (Inl t, v)"
proof (cases "ts ! i")
  case (Waiting t0)
  obtain o1 v1 where st: "step i t0 w = (o1, v1)" by fastforce
  show ?thesis using assms st Waiting that by (cases o1) (auto simp: run_task_def)
next
  case (Finished r)
  then show ?thesis using assms by (simp add: run_task_def)
qed

lemma gather_Inr_finished:
  assumes "gather step sched ts w = (Some (Inr ()), w')" "i < length ts" "ts ! i = Waiting t"
  shows "\<exists>v t' v'. (i, v) \<in> set (gather_trace step sched ts w) \<and> step i t' v = (Inr (Inr ()), v')"
  using assms
proof (induction sched arbitrary: ts w t)
  case Nil
  then show ?case by (auto dest!: gather_result_Inr dest: waiting_some)
next
  case (Cons j sched)
  show ?case
  proof (cases "gather_result ts")
    case (Some r)
    then show ?thesis using Cons.prems by (auto dest!: gather_result_Inr dest: waiting_some)
  next
    case None
    obtain ts' v where run: "run_task step j ts w = (ts', v)" by fastforce
    have rest: "gather step sched ts' v = (Some (Inr ()), w')" using Cons.prems(1) None run by simp
    have len: "length ts' = length ts" using run_task_length [of step j ts w] run by simp
    have more: "set (gather_trace step sched ts' v) \<subseteq> set (gather_trace step (j # sched) ts w)"
      using None run by auto
    show ?thesis
    proof (cases "j = i")
      case False
      then have "ts' ! i = Waiting t" using run_task_other [OF False, of step ts w] run Cons.prems(3) by simp
      then show ?thesis using Cons.IH [OF rest, of t] Cons.prems(2) len more by (metis subsetD)
    next
      case True
      obtain o1 v1 where st: "step i t w = (o1, v1)" by fastforce
      show ?thesis
      proof (cases o1)
        case (Inl t')
        then have "ts' ! i = Waiting t'" "v1 = v" using run True st Cons.prems by (auto simp: run_task_def)
        then show ?thesis using Cons.IH [OF rest, of t'] Cons.prems(2) len more by (metis subsetD)
      next
        case (Inr r)
        then have ts': "ts' = ts[i := Finished r]" using run True st Cons.prems by (auto simp: run_task_def)
        have "r = Inr ()"
        proof (cases r)
          case (Inl e)
          then have "Finished (Inl e) \<in> set ts'" using ts' Cons.prems(2) by (simp add: set_update_memI)
          then show ?thesis using gather_raised [of e ts' step sched v] rest by auto
        qed simp
        then have "step i t w = (Inr (Inr ()), v1)" using st Inr by simp
        then show ?thesis using None True by auto
      qed
    qed
  qed
qed

lemma gather_ends:
  assumes "\<forall>i t w t' w'. step i t w = (Inl t', w') \<longrightarrow> left t' < left t"
    and "\<forall>i t. i < length ts \<longrightarrow> ts ! i = Waiting t \<longrightarrow> left t < count_list sched i"
  shows "\<exists>r. fst (gather step sched ts w) = Some r"
  using assms(2)
proof (induction sched arbitrary: ts w)
  case Nil
  have "\<not> is_waiting (ts ! i)" if "i < length ts" for i
    using Nil that by (cases "ts ! i") auto
  then have "\<not> list_ex is_waiting ts" by (auto simp: list_ex_iff in_set_conv_nth)
  then show ?case by (auto simp: gather_result_def split: option.splits)
next
  case (Cons j sched)
  show ?case
  proof (cases "gather_result ts")
    case None
    obtain ts' v where run: "run_task step j ts w = (ts', v)" by fastforce
    have len: "length ts' = length ts" using run_task_length [of step j ts w] run by simp
    have "left t < count_list sched i" if i: "i < length ts'" "ts' ! i = Waiting t" for i t
    proof (cases "j = i")
      case False
      then have "ts ! i = Waiting t" using run_task_other [OF False, of step ts w] run i by simp
      then show ?thesis using Cons.prems False i len by auto
    next
      case True
      obtain t0 where t0: "ts ! i = Waiting t0" "step i t0 w = (Inl t, v)"
        using run_task_waits [of step i ts w ts' v t] run True i len by auto
      then have "left t < left t0" using assms(1) by blast
      moreover have "left t0 < count_list (j # sched) i" using Cons.prems t0(1) i(1) len by metis
      ultimately show ?thesis using True by simp
    qed
    then show ?thesis using Cons.IH [of ts' v] None run by simp
  qed simp
qed

text \<open>
  C37. When waiting for a database to be online returns, every node of the cluster listed the database
  as online in one of the polls of this run, in whatever order the nodes were polled, if a retried
  poll returns only when the poll did.
\<close>

theorem online_everywhere:
  assumes "SyncGatewayCluster_wait_for_db_online retry all_dbs is_online sched c db max_retries retry_delay w = (Some (Inr ()), w')"
    and "i < length (gc_nodes c)"
    and "\<forall>poll t v v'. rt_step (retry max_retries retry_delay) poll t v = (Inr (Inr ()), v') \<longrightarrow> poll v = (Inr (), v')"
  shows "\<exists>v dbs e. (i, v) \<in> set (gather_trace
             (\<lambda>i. rt_step (retry max_retries retry_delay) (wait_for_db_online_poll (all_dbs (gc_nodes c ! i)) is_online db))
             sched (map (\<lambda>sg. Waiting (rt_start (retry max_retries retry_delay))) (gc_nodes c)) w)
           \<and> fst (all_dbs (gc_nodes c ! i) v) = Inr dbs \<and> map_of dbs db = Some e \<and> is_online e"
proof -
  let ?rt = "retry max_retries retry_delay"
  let ?step = "\<lambda>i. rt_step ?rt (wait_for_db_online_poll (all_dbs (gc_nodes c ! i)) is_online db)"
  let ?ts = "map (\<lambda>sg. Waiting (rt_start ?rt)) (gc_nodes c)"
  have run: "gather ?step sched ?ts w = (Some (Inr ()), w')"
    using assms(1) by (simp add: SyncGatewayCluster_wait_for_db_online_def wait_on_all_def)
  obtain v t v' where "(i, v) \<in> set (gather_trace ?step sched ?ts w)" "?step i t v = (Inr (Inr ()), v')"
    using gather_Inr_finished [OF run] assms(2) by fastforce
  moreover from this have "wait_for_db_online_poll (all_dbs (gc_nodes c ! i)) is_online db v = (Inr (), v')"
    using assms(3) by blast
  ultimately show ?thesis
    by (fastforce simp: wait_for_db_online_poll_def io_bind_def py_assert_def split: prod.splits sum.splits option.splits if_splits)
qed

definition sample_retry :: "(nat, nat) retrying" where
  "sample_retry = \<lparr> rt_start = 0, rt_step = (\<lambda>poll t v. case poll v of
       (Inr _, v') \<Rightarrow> (Inr (Inr ()), v')
     | (Inl e, v') \<Rightarrow> if e = AssertionError \<and> t < 70 then (Inl (Suc t), Suc v') else (Inr (Inl e), v')) \<rparr>"

definition sample_gateway :: "string \<Rightarrow> bool \<Rightarrow> sync_gateway" where
  "sample_gateway host rosmar = \<lparr> sgo_hostname = host, sgo_port = JInt 4985, sgo_secure = False, sgo_public_port = 4984,
     sgo_using_rosmar = rosmar, sgo_has_caddy_sidecar = False, sgo_has_shell2http_sidecar = False \<rparr>"

definition sample_cluster :: gateway_cluster where
  "sample_cluster = \<lparr> gc_nodes = [sample_gateway ''a'' False, sample_gateway ''b'' False], gc_index = 0 \<rparr>"

definition sample_dbs :: "sync_gateway \<Rightarrow> (nat, (string, bool) pydict) io" where
  "sample_dbs sg v = (Inr [(''db'', if sgo_hostname sg = ''a'' then 3 \<le> v else 4 \<le> v)], Suc v)"

theorem online_everywhere_witness:
  "\<exists>w' v dbs. SyncGatewayCluster_wait_for_db_online (\<lambda>n d. sample_retry) sample_dbs (\<lambda>b. b) [1, 0, 1, 0, 1] sample_cluster ''db'' 70 1 0
       = (Some (Inr ()), w')
     \<and> fst (sample_dbs (gc_nodes sample_cluster ! 1) v) = Inr dbs \<and> map_of dbs ''db'' = Some True"
proof -
  have run: "SyncGatewayCluster_wait_for_db_online (\<lambda>n d. sample_retry) sample_dbs (\<lambda>b. b) [1, 0, 1, 0, 1] sample_cluster ''db'' 70 1 0
       = (Some (Inr ()), 6)"
    by code_simp
  have two: "1 < length (gc_nodes sample_cluster)" by (simp add: sample_cluster_def)
  have ret: "\<forall>poll t v v'. rt_step ((\<lambda>n d. sample_retry) 70 1) poll t v = (Inr (Inr ()), v') \<longrightarrow> poll v = (Inr (), v')"
    by (auto simp: sample_retry_def split: prod.splits sum.splits if_splits)
  obtain v dbs e where "fst (sample_dbs (gc_nodes sample_cluster ! 1) v) = Inr dbs" "map_of dbs ''db'' = Some e" "e"
    using online_everywhere [OF run two ret] by blast
  then show ?thesis using run by simp blast
qed

text \<open>
  A wait over the nodes of a cluster ends: when the event loop resumes every node often enough
  for the attempts it has, the wait has returned or raised, whatever the order.
\<close>

theorem wait_on_all_ends:
  assumes "\<forall>poll t v t' v'. rt_step rt poll t v = (Inl t', v') \<longrightarrow> left t' < (left t :: nat)"
    and "\<forall>i < length (gc_nodes c). left (rt_start rt) < count_list sched i"
  shows "\<exists>r. fst (wait_on_all rt poll sched c w) = Some r"
  unfolding wait_on_all_def by (rule gather_ends [where left = left]) (use assms in auto)

theorem wait_on_all_ends_witness:
  "\<exists>r. fst (wait_on_all (\<lparr> rt_start = 0, rt_step = (\<lambda>poll t v. if t < 2 then (Inl (Suc t), v) else (Inr (Inl TimeoutError), v)) \<rparr>)
       (\<lambda>sg v. (Inl AssertionError, v)) [0, 1, 1, 0, 0, 1] sample_cluster ()) = Some r"
proof (rule wait_on_all_ends [where left = "\<lambda>t. 2 - t"])
  show "\<forall>i < length (gc_nodes sample_cluster).
      2 - rt_start (\<lparr> rt_start = 0, rt_step = (\<lambda>poll t v. if t < 2 then (Inl (Suc t), v) else (Inr (Inl TimeoutError), v)) \<rparr>
        :: (nat, unit) retrying) < count_list [0, 1, 1, 0, 0, 1] i"
    by (simp add: sample_cluster_def less_Suc_eq)
qed (auto split: if_splits)

section \<open>Every node gets its turn\<close>

lemma round_robin_wf:
  "gc_index c < length (gc_nodes c) \<Longrightarrow>
     gc_index (snd (SyncGatewayCluster_round_robin_node c)) < length (gc_nodes c)"
  by (auto simp: SyncGatewayCluster_round_robin_node_def intro: mod_less_divisor)

text \<open>The accesses go round the nodes in their order, starting anew after the last one.\<close>

lemma round_robin_cycles:
  assumes "gc_index c < length (gc_nodes c)" "k < n"
  shows "round_robin_nodes n c ! k = gc_nodes c ! ((gc_index c + k) mod length (gc_nodes c))"
  using assms
proof (induction n arbitrary: c k)
  case (Suc n)
  let ?c = "c\<lparr>gc_index := Suc (gc_index c) mod length (gc_nodes c)\<rparr>"
  have wf: "gc_index ?c < length (gc_nodes ?c)" using Suc.prems(1) by (auto intro: mod_less_divisor)
  show ?case
  proof (cases k)
    case 0
    then show ?thesis using Suc.prems(1) by (simp add: SyncGatewayCluster_round_robin_node_def)
  next
    case (Suc j)
    then show ?thesis using Suc.IH [OF wf, of j] Suc.prems(2)
      by (simp add: SyncGatewayCluster_round_robin_node_def mod_simps)
  qed
qed simp

section \<open>The clusters that are built\<close>

definition entries_at :: "'i \<Rightarrow> ('i \<times> 'a) list \<Rightarrow> 'a list" where
  "entries_at k es = map snd (filter (\<lambda>e. fst e = k) es)"

lemma entries_at_Nil [simp]: "entries_at k [] = []"
  by (simp add: entries_at_def)

lemma entries_at_Cons [simp]: "entries_at k (e # es) = (if fst e = k then snd e # entries_at k es else entries_at k es)"
  by (simp add: entries_at_def)

lemma entries_at_empty: "entries_at k es = [] \<longleftrightarrow> k \<notin> fst ` set es"
  by (induction es) auto

lemma map_of_add_to:
  "map_of (add_to d i x) = (map_of d)(i \<mapsto> (case map_of d i of Some xs \<Rightarrow> xs | None \<Rightarrow> []) @ [x])"
  by (simp add: add_to_def)

lemma map_of_collected:
  "map_of (foldl (\<lambda>d e. add_to d (fst e) (snd e)) d es) k =
     (case map_of d k of
        Some xs \<Rightarrow> Some (xs @ entries_at k es)
      | None \<Rightarrow> if entries_at k es = [] then None else Some (entries_at k es))"
  by (induction es arbitrary: d) (auto simp: map_of_add_to split: option.splits)

lemma d_wf_collected: "d_wf d \<Longrightarrow> d_wf (foldl (\<lambda>d e. add_to d (fst e) (snd e)) d es)"
  by (induction es arbitrary: d) (auto simp: add_to_def)

lemma contiguous_keys:
  assumes "d_wf d" "contiguous d"
  shows "fst ` set d = int ` {0..<length d}"
proof -
  have "int ` {0..<length d} \<subseteq> fst ` set d"
    using assms(2) by (auto simp: contiguous_def list_all_iff d_has_def dom_map_of_conv_image_fst [symmetric])
  moreover have "card (fst ` set d) = length d"
    using assms(1) distinct_card [of "map fst d"] by (simp add: d_wf_def)
  moreover have "card (int ` {0..<length d}) = length d" by (simp add: card_image)
  ultimately show ?thesis by (metis card_subset_eq finite_imageI finite_set)
qed

lemma collected_keys: "fst ` set (foldl (\<lambda>d e. add_to d (fst e) (snd e)) [] es) = fst ` set es"
proof -
  have "dom (map_of (foldl (\<lambda>d e. add_to d (fst e) (snd e)) [] es)) = fst ` set es"
    by (force simp: map_of_collected entries_at_empty split: if_splits)
  then show ?thesis by (simp add: dom_map_of_conv_image_fst)
qed

definition collect_entries :: "(int \<times> sync_gateway) list \<Rightarrow> (int \<times> couchbase_server) list \<Rightarrow> cluster_builder" where
  "collect_entries sgws servers =
     foldl (\<lambda>b e. ClusterBuilder_add_cbs (snd e) (fst e) b)
       (foldl (\<lambda>b e. ClusterBuilder_add_sgw (snd e) (fst e) b) \<lparr> clb_sgw = [], clb_cbs = [] \<rparr> sgws) servers"

lemma collect_entries_fields:
  "clb_sgw (collect_entries sgws servers) = foldl (\<lambda>d e. add_to d (fst e) (snd e)) [] sgws"
  "clb_cbs (collect_entries sgws servers) = foldl (\<lambda>d e. add_to d (fst e) (snd e)) [] servers"
proof -
  have cbs: "foldl (\<lambda>b e. ClusterBuilder_add_cbs (snd e) (fst e) b) b es
      = b\<lparr>clb_cbs := foldl (\<lambda>d e. add_to d (fst e) (snd e)) (clb_cbs b) es\<rparr>" for b es
    by (induction es arbitrary: b) (simp_all add: ClusterBuilder_add_cbs_def)
  have sgw: "foldl (\<lambda>b e. ClusterBuilder_add_sgw (snd e) (fst e) b) b es
      = b\<lparr>clb_sgw := foldl (\<lambda>d e. add_to d (fst e) (snd e)) (clb_sgw b) es\<rparr>" for b es
    by (induction es arbitrary: b) (simp_all add: ClusterBuilder_add_sgw_def)
  show "clb_sgw (collect_entries sgws servers) = foldl (\<lambda>d e. add_to d (fst e) (snd e)) [] sgws"
    "clb_cbs (collect_entries sgws servers) = foldl (\<lambda>d e. add_to d (fst e) (snd e)) [] servers"
    by (simp_all add: collect_entries_def cbs sgw)
qed

lemma CouchbaseCluster_create_Inr:
  "CouchbaseCluster_create sgs servers = Inr c \<Longrightarrow> gc_nodes (cl_gateways c) = sgs \<and> cl_servers c = servers"
  by (auto simp: CouchbaseCluster_create_def SyncGatewayCluster_create_def split: if_splits)

lemma all_entries_collected:
  assumes "d = foldl (\<lambda>d e. add_to d (fst e) (snd e)) [] es" "contiguous d"
  shows "fst ` set es = int ` {0..<length d}"
  using contiguous_keys [of d] assms d_wf_collected [of "[]" es] collected_keys [of es] by simp

lemma cluster_of_index:
  assumes "ClusterBuilder_build (collect_entries sgws servers) = Inr clusters"
  shows "fst ` set sgws = int ` {0..<length clusters} \<and> fst ` set servers \<subseteq> fst ` set sgws
    \<and> (\<forall>k < length clusters.
          gc_nodes (cl_gateways (clusters ! k)) = entries_at (int k) sgws
        \<and> cl_servers (clusters ! k) = entries_at (int k) servers)"
proof -
  let ?b = "collect_entries sgws servers"
  let ?n = "length (clb_sgw ?b)" and ?m = "length (clb_cbs ?b)"
  have val: "?m \<le> ?n" "contiguous (clb_sgw ?b)" "contiguous (clb_cbs ?b)"
    and rows: "list_all2 (\<lambda>idx c. rbind (if idx \<ge> ?m then Inr [] else d_item (clb_cbs ?b) (int idx)) (\<lambda>servers.
         rbind (d_item (clb_sgw ?b) (int idx)) (\<lambda>sync_gateways. CouchbaseCluster_create sync_gateways servers)) = Inr c)
         [0..<?n] clusters"
    using assms by (auto simp: ClusterBuilder_build_def ClusterBuilder_validate_def rbind_def mapM_Inr_iff split: if_splits)
  have len: "length clusters = ?n" using list_all2_lengthD [OF rows] by simp
  have sgw_keys: "fst ` set sgws = int ` {0..<?n}"
    by (rule all_entries_collected) (use val collect_entries_fields in auto)
  have cbs_keys: "fst ` set servers = int ` {0..<?m}"
    by (rule all_entries_collected) (use val collect_entries_fields in auto)
  have "gc_nodes (cl_gateways (clusters ! k)) = entries_at (int k) sgws \<and> cl_servers (clusters ! k) = entries_at (int k) servers"
    if k: "k < length clusters" for k
  proof -
    have row: "rbind (if k \<ge> ?m then Inr [] else d_item (clb_cbs ?b) (int k)) (\<lambda>servers.
         rbind (d_item (clb_sgw ?b) (int k)) (\<lambda>sync_gateways. CouchbaseCluster_create sync_gateways servers)) = Inr (clusters ! k)"
    proof -
      have "[0..<?n] ! k = k" using k len by simp
      then show ?thesis using list_all2_nthD2 [OF rows k] by (simp split: if_splits)
    qed
    have "entries_at (int k) sgws \<noteq> []" using sgw_keys k len by (simp add: entries_at_empty)
    then have s: "d_item (clb_sgw ?b) (int k) = Inr (entries_at (int k) sgws)"
      by (simp add: collect_entries_fields d_item_def map_of_collected)
    have c: "(if k \<ge> ?m then Inr [] else d_item (clb_cbs ?b) (int k)) = Inr (entries_at (int k) servers)"
    proof (cases "k \<ge> ?m")
      case True
      then have "int k \<notin> fst ` set servers" using cbs_keys by auto
      then have "entries_at (int k) servers = []" by (simp add: entries_at_empty)
      then show ?thesis using True by simp
    next
      case False
      then have "entries_at (int k) servers \<noteq> []" using cbs_keys by (simp add: entries_at_empty)
      then show ?thesis using False by (simp add: collect_entries_fields d_item_def map_of_collected)
    qed
    have "CouchbaseCluster_create (entries_at (int k) sgws) (entries_at (int k) servers) = Inr (clusters ! k)"
      using row unfolding c s by (simp add: rbind_def)
    then show ?thesis by (rule CouchbaseCluster_create_Inr)
  qed
  moreover have "fst ` set servers \<subseteq> fst ` set sgws" using sgw_keys cbs_keys val(1) by auto
  ultimately show ?thesis using sgw_keys len by simp
qed

text \<open>
  C36. The builder makes one cluster per index: the indices of the Sync Gateways are 0 up to the number of
  clusters, those of the Couchbase Servers are among them, and the cluster of an index has exactly
  the gateways and the servers of that index, in the order of the configuration.
\<close>

theorem built_clusters:
  assumes "ClusterBuilder_build (collect_entries sgws servers) = Inr clusters"
  shows "fst ` set sgws = int ` {0..<length clusters} \<and> fst ` set servers \<subseteq> fst ` set sgws
    \<and> (\<forall>k < length clusters.
          gc_nodes (cl_gateways (clusters ! k)) = entries_at (int k) sgws
        \<and> cl_servers (clusters ! k) = entries_at (int k) servers)"
  using assms by (rule cluster_of_index)

theorem built_clusters_witness:
  "\<exists>clusters. ClusterBuilder_build (collect_entries
       [(1, sample_gateway ''c'' False), (0, sample_gateway ''a'' True), (1, sample_gateway ''b'' False)]
       [(1, \<lparr> cb_hostname = ''s1'', cb_rest_port = 8091, cb_username = ''u'', cb_password = ''p'' \<rparr>),
        (0, \<lparr> cb_hostname = ''s0'', cb_rest_port = 8091, cb_username = ''u'', cb_password = ''p'' \<rparr>)]) = Inr clusters
     \<and> map sgo_hostname (gc_nodes (cl_gateways (clusters ! 1))) = [''c'', ''b'']"
proof -
  let ?s = "[(1, sample_gateway ''c'' False), (0, sample_gateway ''a'' True), (1, sample_gateway ''b'' False)]"
  let ?c = "[(1, \<lparr> cb_hostname = ''s1'', cb_rest_port = 8091, cb_username = ''u'', cb_password = ''p'' \<rparr>),
        (0, \<lparr> cb_hostname = ''s0'', cb_rest_port = 8091, cb_username = ''u'', cb_password = ''p'' \<rparr>)]"
  have ok: "(case ClusterBuilder_build (collect_entries ?s ?c) of Inr cs \<Rightarrow> length cs = 2 | Inl e \<Rightarrow> False)" by code_simp
  then obtain cs where cs: "ClusterBuilder_build (collect_entries ?s ?c) = Inr cs" "length cs = 2"
    by (cases "ClusterBuilder_build (collect_entries ?s ?c)") auto
  then show ?thesis using built_clusters [OF cs(1)] by (simp add: sample_gateway_def)
qed

section \<open>The options of a dataset\<close>

text \<open>The addition of an option, for an option that the configuration offers.\<close>

definition addition :: "jdict \<Rightarrow> string \<Rightarrow> jdict" where
  "addition valid_options option = (case map_of valid_options option of Some (JObj a) \<Rightarrow> a | _ \<Rightarrow> [])"

text \<open>
  An option lays its entries over the configuration of the database: the value of a key is the one of
  the last option that mentions it, and the configuration's own value when none does; an option that
  is not offered is an error.
\<close>

lemma options_overlay:
  assumes "apply_options valid_options options config = Inr r" "\<forall>x \<in> set options. d_wf (addition valid_options x)"
  shows "map_of r k = (case filter (\<lambda>x. d_has (addition valid_options x) k) options of
      [] \<Rightarrow> map_of config k | os \<Rightarrow> map_of (addition valid_options (last os)) k)"
  using assms
proof (induction options arbitrary: config)
  case (Cons opt rest)
  obtain a where a: "map_of valid_options opt = Some (JObj a)" "apply_options valid_options rest (d_update config a) = Inr r"
    using Cons.prems(1)
    by (auto simp: get_typed_required_def get_typed_def rbind_def split: option.splits if_splits json.splits sum.splits)
  then have add: "addition valid_options opt = a" by (simp add: addition_def)
  then have upd: "map_of (d_update config a) k = (case map_of a k of Some v \<Rightarrow> Some v | None \<Rightarrow> map_of config k)"
    using Cons.prems(2) by (simp add: map_of_d_update map_add_def)
  show ?case
    using Cons.IH [OF a(2)] Cons.prems(2) add upd
    by (cases "filter (\<lambda>x. d_has (addition valid_options x) k) rest") (auto simp: d_has_def split: option.splits)
qed simp

lemma unknown_option:
  "option \<in> set options \<Longrightarrow> \<not> d_has valid_options option \<Longrightarrow> \<exists>e. apply_options valid_options options config = Inl e"
  by (induction options arbitrary: config) (auto simp: rbind_def split: sum.splits json.splits)

end
