(* ===== verification/TestClient.thy ===== *)
theory TestClient
  imports Clusters EdgeServer ConfigParser Database
begin

unbundle bit_operations_syntax

text \<open>
  What a test gets and how it is guarded: the client of a test server (\<open>api/testserver.py\<close>), the
  object that holds everything the configuration describes (\<open>__init__.py\<close>, with
  \<open>extrapropsparser.py\<close>, \<open>logging.py\<close>, \<open>globals.py\<close> and the constructor of \<open>requests.py\<close>), the base class of
  tests (\<open>api/cbltestclass.py\<close>) and the markers that skip a test whose topology is missing
  (\<open>plugins/required_topology.py\<close>).
\<close>

section \<open>The state of the process\<close>

text \<open>
  Attributes of classes and of modules: the name of the running test, whether the page of a browser
  is opened, whether a factory was made before, the loaded request classes, the level of the console
  and the handlers of the log; and the world outside.
\<close>

datatype log_handler = File_handler | Console_handler | Slurp_handler string string

record 'w session =
  ss_running_test_name :: string
  ss_auto_start_tdk_page :: bool
  ss_first_run :: bool
  ss_registries :: registries
  ss_console_level :: int
  ss_handlers :: "log_handler list"
  ss_world :: 'w

definition outside :: "('w, 'a) io \<Rightarrow> ('w session, 'a) io" where
  "outside m = (\<lambda>s. let (r, w) = m (ss_world s) in (r, s\<lparr>ss_world := w\<rparr>))"

definition modify :: "('w session \<Rightarrow> 'w session) \<Rightarrow> ('w session, unit) io" where
  "modify f = (\<lambda>s. (Inr (), f s))"

section \<open>Extra properties and logging\<close>

definition parse_extra_props :: "(string \<Rightarrow> json result option) \<Rightarrow> string \<Rightarrow> jdict result" where
  "parse_extra_props read_file file_path =
     (case read_file file_path of
        None \<Rightarrow> Inl FileNotFoundError
      | Some (Inl e) \<Rightarrow> Inl e
      | Some (Inr (JObj d)) \<Rightarrow> Inr d
      | Some (Inr _) \<Rightarrow> Inl ValueError)"

text \<open>The levels with their values, and the level of the console that each sets.\<close>

datatype log_level = LEVEL_ERROR | LEVEL_WARNING | LEVEL_INFO | LEVEL_VERBOSE | LEVEL_DEBUG

definition LogLevel_create :: "string \<Rightarrow> log_level result" where
  "LogLevel_create v =
     (if v = ''error'' then Inr LEVEL_ERROR
      else if v = ''warning'' then Inr LEVEL_WARNING
      else if v = ''info'' then Inr LEVEL_INFO
      else if v = ''verbose'' then Inr LEVEL_VERBOSE
      else if v = ''debug'' then Inr LEVEL_DEBUG
      else Inl ValueError)"

fun cbl_setLogLevel :: "log_level \<Rightarrow> 'w session \<Rightarrow> 'w session" where
  "cbl_setLogLevel LEVEL_ERROR s = s\<lparr>ss_console_level := 40\<rparr>"
| "cbl_setLogLevel LEVEL_WARNING s = s\<lparr>ss_console_level := 30\<rparr>"
| "cbl_setLogLevel LEVEL_INFO s = s\<lparr>ss_console_level := 20\<rparr>"
| "cbl_setLogLevel LEVEL_VERBOSE s = s\<lparr>ss_console_level := 10\<rparr>"
| "cbl_setLogLevel LEVEL_DEBUG s = s\<lparr>ss_console_level := 10\<rparr>"

definition add_handler :: "log_handler \<Rightarrow> 'w session \<Rightarrow> 'w session" where
  "add_handler h s = (if h \<in> set (ss_handlers s) then s else s\<lparr>ss_handlers := ss_handlers s @ [h]\<rparr>)"

text \<open>\<open>start_log\<close> is the POST that starts a log (its status), \<open>connect\<close> opens the stream with its headers.\<close>

definition cbl_log_init ::
    "(string \<Rightarrow> string \<Rightarrow> ('w, int) io) \<Rightarrow> (string \<Rightarrow> string list \<Rightarrow> ('w, unit) io) \<Rightarrow> string \<Rightarrow> string option
      \<Rightarrow> ('w session, unit) io" where
  "cbl_log_init start_log connect log_id logslurp_url =
     io_bind (modify (\<lambda>s. add_handler Console_handler (add_handler File_handler s))) (\<lambda>_.
       case logslurp_url of
         None \<Rightarrow> io_return ()
       | Some url \<Rightarrow>
           io_bind (outside (start_log (''http://'' @ url @ ''/startNewLog'') log_id)) (\<lambda>status.
             if status \<noteq> 200 then io_return ()
             else io_bind (outside (connect (''ws://'' @ url @ ''/openLogStream'')
                              [''CBL-Log-ID: '' @ log_id, ''CBL-Log-Tag: test-client''])) (\<lambda>_.
                    modify (add_handler (Slurp_handler url log_id)))))"

text \<open>Closing the stream: the log is fetched and written only when finishing it succeeds.\<close>

definition LogSlurpHandler_close ::
    "('w, unit) io \<Rightarrow> (string \<Rightarrow> string \<Rightarrow> ('w, int) io) \<Rightarrow> (string \<Rightarrow> string \<Rightarrow> ('w, string) io)
      \<Rightarrow> (string \<Rightarrow> string \<Rightarrow> ('w, unit) io) \<Rightarrow> string \<Rightarrow> string \<Rightarrow> ('w, unit) io" where
  "LogSlurpHandler_close close_ws post retrieve write_file url log_id =
     io_bind close_ws (\<lambda>_.
     io_bind (post (''http://'' @ url @ ''/finishLog'') log_id) (\<lambda>status.
       if status \<noteq> 200 then io_return ()
       else io_bind (retrieve (''http://'' @ url @ ''/retrieveLog'') log_id) (\<lambda>text. write_file ''session.log'' text)))"

section \<open>Creating the request factory\<close>

text \<open>The folder of the HTTP log: whether it is there, its removal and its creation.\<close>

record 'w log_folder =
  lf_exists :: "'w \<Rightarrow> bool"
  lf_rmtree :: "('w, unit) io"
  lf_mkdir :: "('w, unit) io"

text \<open>A missing URL reads as \<open>None\<close>; transports other than \<open>http\<close> are websockets.\<close>

fun server_infos :: "json list \<Rightarrow> (json \<times> transport_type) list result" where
  "server_infos [] = Inr []"
| "server_infos (ts # rest) =
     (case ts of
        JObj d \<Rightarrow>
          rbind (case map_of d ''transport'' of
                   None \<Rightarrow> Inr ''http'' | Some (JStr s) \<Rightarrow> Inr (py_lower s) | Some _ \<Rightarrow> Inl AttributeError) (\<lambda>transport.
          rbind (server_infos rest) (\<lambda>infos.
            Inr ((get_or_null d ''url'', if transport = ''http'' then HTTP else WS) # infos)))
      | _ \<Rightarrow> Inl AttributeError)"

definition RequestFactory_create ::
    "'w log_folder \<Rightarrow> ('w, string) io \<Rightarrow> json \<Rightarrow> ('w session, factory \<times> (json \<times> transport_type) list) io" where
  "RequestFactory_create folder uuid4 test_servers =
     io_bind (\<lambda>s. if ss_first_run s \<and> lf_exists folder (ss_world s) then outside (lf_rmtree folder) s else (Inr (), s)) (\<lambda>_.
     io_bind (modify (\<lambda>s. s\<lparr>ss_first_run := False\<rparr>)) (\<lambda>_.
     io_bind (\<lambda>s. if lf_exists folder (ss_world s) then (Inr (), s) else outside (lf_mkdir folder) s) (\<lambda>_.
     io_bind (outside uuid4) (\<lambda>uuid.
     io_bind (io_lift (rbind (py_iter test_servers) server_infos)) (\<lambda>infos s.
       (Inr (\<lparr> rf_version = 0, rf_uuid = uuid, rf_registries = ss_registries s \<rparr>, infos), s))))))"

section \<open>Test servers\<close>

text \<open>The answer to the root request is kept.\<close>

record test_server_client =
  tsc_index :: int
  tsc_url :: string
  tsc_dataset_version :: string
  tsc_info :: "server_response option"

definition TestServer_new :: "int \<Rightarrow> string \<Rightarrow> string \<Rightarrow> test_server_client" where
  "TestServer_new index url dataset_version =
     \<lparr> tsc_index = index, tsc_url = url, tsc_dataset_version = dataset_version, tsc_info = None \<rparr>"

definition send_to :: "'w sender \<Rightarrow> test_server_client \<Rightarrow> server_request \<Rightarrow> ('w, server_response) io" where
  "send_to send ts req = (\<lambda>w. let (r, q, w') = send (tsc_index ts) req w in (r, w'))"

definition TestServer_call ::
    "factory \<Rightarrow> 'w sender \<Rightarrow> test_server_client \<Rightarrow> request_type \<Rightarrow> body_kwargs \<Rightarrow> ('w, server_response) io" where
  "TestServer_call f send ts t kw = io_bind (io_lift (RequestFactory_create_request t kw f)) (send_to send ts)"

definition TestServer_get_info ::
    "factory \<Rightarrow> 'w sender \<Rightarrow> test_server_client \<Rightarrow> ('w, server_response \<times> test_server_client) io" where
  "TestServer_get_info f send ts =
     (case tsc_info ts of
        Some info \<Rightarrow> io_return (info, ts)
      | None \<Rightarrow> io_bind (TestServer_call f send ts ROOT KW_none) (\<lambda>resp. io_return (resp, ts\<lparr>tsc_info := Some resp\<rparr>)))"

definition dataset_base_url :: string where
  "dataset_base_url = ''https://media.githubusercontent.com/media/couchbaselabs/couchbase-lite-tests/refs/heads/main/dataset/server/dbs/''"

text \<open>The payload of a reset request is filled in place, by the class of its version.\<close>

definition fill_reset ::
    "string option \<Rightarrow> string list \<Rightarrow> string list option \<Rightarrow> server_request \<Rightarrow> server_request result" where
  "fill_reset dataset_url db_names collections req =
     (case sq_payload req of
        Some (V1_PostResetRequestBody b) \<Rightarrow>
          (case dataset_url of
             Some url \<Rightarrow> (case v1_PostReset_add_dataset b url db_names of
                 (Inl e, b') \<Rightarrow> Inl e
               | (Inr _, b') \<Rightarrow> Inr (req\<lparr>sq_payload := Some (V1_PostResetRequestBody b')\<rparr>))
           | None \<Rightarrow> Inr (req\<lparr>sq_payload := Some (V1_PostResetRequestBody (PostReset_add_empty b db_names collections))\<rparr>))
      | Some (V2_PostResetRequestBody b) \<Rightarrow>
          Inr (req\<lparr>sq_payload := Some (V2_PostResetRequestBody (case dataset_url of
             Some url \<Rightarrow> v2_PostReset_add_dataset b url db_names
           | None \<Rightarrow> PostReset_add_empty b db_names collections))\<rparr>)
      | _ \<Rightarrow> Inl AttributeError)"

definition TestServer_create_and_reset_db ::
    "factory \<Rightarrow> 'w sender \<Rightarrow> string \<Rightarrow> test_server_client \<Rightarrow> string list \<Rightarrow> string option \<Rightarrow> string list option
      \<Rightarrow> ('w, database list) io" where
  "TestServer_create_and_reset_db f send running_test_name ts db_names dataset collections =
     io_bind (io_lift (py_assert (collections = None \<or> dataset = None))) (\<lambda>_.
     io_bind (io_lift (RequestFactory_create_request RESET (KW_name (Some running_test_name)) f)) (\<lambda>req.
     io_bind (io_lift (fill_reset (map_option (\<lambda>d. dataset_base_url @ tsc_dataset_version ts @ ''/'' @ d @ ''.cblite2.zip'') dataset)
                db_names collections req)) (\<lambda>req.
     io_bind (send_to send ts req) (\<lambda>_.
       io_return (map (\<lambda>n. \<lparr> db_name = n, db_index = tsc_index ts \<rparr>) db_names)))))"

definition TestServer_new_session ::
    "factory \<Rightarrow> 'w sender \<Rightarrow> test_server_client \<Rightarrow> string \<Rightarrow> string option \<Rightarrow> string option \<Rightarrow> ('w, unit) io" where
  "TestServer_new_session f send ts session_id url tag =
     io_bind (TestServer_call f send ts NEW_SESSION (KW_session session_id (tsc_dataset_version ts) url tag)) (\<lambda>_. io_return ())"

definition TestServer_cleanup :: "factory \<Rightarrow> 'w sender \<Rightarrow> test_server_client \<Rightarrow> ('w, unit) io" where
  "TestServer_cleanup f send ts = io_bind (TestServer_call f send ts RESET KW_none) (\<lambda>_. io_return ())"

definition TestServer_log :: "factory \<Rightarrow> 'w sender \<Rightarrow> test_server_client \<Rightarrow> string \<Rightarrow> ('w, unit) io" where
  "TestServer_log f send ts msg = io_bind (TestServer_call f send ts LOG (KW_msg msg)) (\<lambda>_. io_return ())"

text \<open>\<open>s.split("://")[-1]\<close>.\<close>

fun after_last_scheme :: "string \<Rightarrow> string" where
  "after_last_scheme [] = []"
| "after_last_scheme (c # cs) =
     (if contains_sub ''://'' cs then after_last_scheme cs
      else if prefix ''://'' (c # cs) then drop 3 (c # cs)
      else c # cs)"

definition TestServer_replication_url ::
    "(string \<Rightarrow> string \<Rightarrow> string) \<Rightarrow> test_server_client \<Rightarrow> string option \<Rightarrow> int \<Rightarrow> bool \<Rightarrow> string result" where
  "TestServer_replication_url urljoin ts db port tls =
     rbind (assert_not_null db) (\<lambda>name.
     rbind (url_location (tsc_url ts)) (\<lambda>netloc.
       let hostname = (if netloc_hostname netloc \<noteq> [] then netloc_hostname netloc
                       else if netloc \<noteq> [] then hd (split_on (CHR '':'') netloc)
                       else hd (split_on (CHR '':'') (after_last_scheme (tsc_url ts))))
       in Inr (urljoin ((if tls then ''wss://'' else ''ws://'') @ hostname @ CHR '':'' # int_str port) name)))"

section \<open>The object of a test session\<close>

record cblpytest =
  cpt_config :: parsed_config
  cpt_log_level :: log_level
  cpt_extra_props :: jdict
  cpt_factory :: factory
  cpt_infos :: "(json \<times> transport_type) list"
  cpt_test_servers :: "test_server_client list"
  cpt_clusters :: "cluster list"
  cpt_edge_servers :: "edge_server list"

text \<open>
  What its construction uses: files, the folder of the log, the generator of identifiers, and what
  the constructors of the clients use.
\<close>

record 'w client_env =
  ce_read_props :: "string \<Rightarrow> json result option"
  ce_folder :: "'w log_folder"
  ce_uuid4 :: "('w, string) io"
  ce_make_session :: "string \<Rightarrow> bool \<Rightarrow> string \<Rightarrow> string \<Rightarrow> ('w, unit) io"
  ce_get_config :: "string \<Rightarrow> string \<Rightarrow> string \<Rightarrow> ('w, cbs_reply) io"
  ce_probe :: "string \<Rightarrow> ('w, unit) io"
  ce_sdk :: "'w sdk"
  ce_repo_root :: "string result"
  ce_edge_config :: "string \<Rightarrow> jdict option"

text \<open>An entry that is not an object fails at the test for its first key or at the access to it.\<close>

definition as_entry :: "string \<Rightarrow> json \<Rightarrow> jdict result" where
  "as_entry key v =
     (case v of JObj d \<Rightarrow> Inr d | _ \<Rightarrow> rbind (py_in key v) (\<lambda>b. if b then Inl TypeError else Inl ValueError))"

text \<open>A boolean as an index is the number it equals.\<close>

definition index_of :: "json \<Rightarrow> int" where
  "index_of v = (case v of JInt n \<Rightarrow> n | JBool b \<Rightarrow> (if b then 1 else 0) | _ \<Rightarrow> 0)"

text \<open>The dataset version of an entry stays in the variable for the entries after it.\<close>

fun test_server_clients :: "int \<Rightarrow> string \<Rightarrow> json list \<Rightarrow> test_server_client list result" where
  "test_server_clients index dataset_version [] = Inr []"
| "test_server_clients index dataset_version (ts # rest) =
     rbind (rbind (as_entry ''url'' ts) TestServerInfo_create) (\<lambda>info.
       let v = (case tsi_dataset_version info of Some s \<Rightarrow> if s \<noteq> [] then s else dataset_version | None \<Rightarrow> dataset_version)
       in rbind (test_server_clients (index + 1) v rest) (\<lambda>clients.
            Inr (TestServer_new index (tsi_url info) v # clients)))"

fun sync_gateway_entries :: "'w client_env \<Rightarrow> json list \<Rightarrow> ('w, (int \<times> sync_gateway) list) io" where
  "sync_gateway_entries env [] = io_return []"
| "sync_gateway_entries env (sg # rest) =
     io_bind (io_lift (rbind (as_entry ''hostname'' sg) SyncGatewayInfo_create)) (\<lambda>info.
     io_bind (SyncGateway_create (ce_make_session env) (ce_get_config env) (ce_probe env) (sgi_hostname info)
                (sgi_rbac_user info) (sgi_rbac_password info) (sgi_admin_port info) (sgi_uses_tls info) 4984) (\<lambda>x.
     io_bind (sync_gateway_entries env rest) (\<lambda>es. io_return ((index_of (sgi_cluster_index info), x) # es))))"

fun couchbase_server_entries :: "'w client_env \<Rightarrow> json list \<Rightarrow> ('w, (int \<times> couchbase_server) list) io" where
  "couchbase_server_entries env [] = io_return []"
| "couchbase_server_entries env (cbs # rest) =
     io_bind (io_lift (rbind (as_entry ''hostname'' cbs) CouchbaseServerInfo_create)) (\<lambda>info.
     io_bind (CouchbaseServer_create (ce_sdk env) (csi_hostname info) (csi_admin_user info) (csi_admin_password info)) (\<lambda>x.
     io_bind (couchbase_server_entries env rest) (\<lambda>es. io_return ((index_of (csi_cluster_index info), x) # es))))"

fun edge_server_entries :: "'w client_env \<Rightarrow> json list \<Rightarrow> edge_server list result" where
  "edge_server_entries env [] = Inr []"
| "edge_server_entries env (es # rest) =
     rbind (rbind (as_entry ''hostname'' es) (EdgeServerInfo_create (ce_repo_root env))) (\<lambda>info.
     rbind (EdgeServer_create (esi_hostname info) (esi_admin_user info) (esi_admin_password info)
              (ce_edge_config env (esi_config_path info))) (\<lambda>x.
     rbind (edge_server_entries env rest) (\<lambda>xs. Inr (x # xs))))"

definition backend_entries ::
    "'w client_env \<Rightarrow> parsed_config \<Rightarrow> ('w, (int \<times> sync_gateway) list \<times> (int \<times> couchbase_server) list) io" where
  "backend_entries env config =
     io_bind (io_lift (py_iter (pc_sync_gateways config))) (\<lambda>sgs.
     io_bind (sync_gateway_entries env sgs) (\<lambda>gateways.
     io_bind (io_lift (py_iter (pc_couchbase_servers config))) (\<lambda>cbs.
     io_bind (couchbase_server_entries env cbs) (\<lambda>servers. io_return (gateways, servers)))))"

definition CBLPyTest_init ::
    "'w client_env \<Rightarrow> parsed_config \<Rightarrow> string \<Rightarrow> string option \<Rightarrow> bool \<Rightarrow> string \<Rightarrow> ('w session, cblpytest) io" where
  "CBLPyTest_init env config log_level extra_props_path test_server_only dataset_version =
     io_bind (io_lift (LogLevel_create log_level)) (\<lambda>level.
     io_bind (modify (cbl_setLogLevel level)) (\<lambda>_.
     io_bind (io_lift (case extra_props_path of None \<Rightarrow> Inr [] | Some p \<Rightarrow> parse_extra_props (ce_read_props env) p)) (\<lambda>props.
     io_bind (RequestFactory_create (ce_folder env) (ce_uuid4 env) (pc_test_servers config)) (\<lambda>(f, infos).
     io_bind (io_lift (rbind (py_iter (pc_test_servers config)) (test_server_clients 0 dataset_version))) (\<lambda>servers.
     io_bind (if test_server_only then io_return ([], []) else outside (backend_entries env config)) (\<lambda>(gateways, couchbase).
     io_bind (io_lift (ClusterBuilder_build (collect_entries gateways couchbase))) (\<lambda>clusters.
     io_bind (io_lift (if test_server_only then Inr []
                       else rbind (py_iter (pc_edge_servers config)) (edge_server_entries env))) (\<lambda>edge.
       io_return \<lparr> cpt_config = config, cpt_log_level = level, cpt_extra_props = props, cpt_factory = f,
                   cpt_infos = infos, cpt_test_servers = servers, cpt_clusters = clusters,
                   cpt_edge_servers = edge \<rparr>))))))))"

text \<open>The nodes of the first cluster.\<close>

definition CBLPyTest_sync_gateways :: "cblpytest \<Rightarrow> sync_gateway list" where
  "CBLPyTest_sync_gateways p = (case cpt_clusters p of [] \<Rightarrow> [] | c # _ \<Rightarrow> gc_nodes (cl_gateways c))"

definition CBLPyTest_couchbase_servers :: "cblpytest \<Rightarrow> couchbase_server list" where
  "CBLPyTest_couchbase_servers p = (case cpt_clusters p of [] \<Rightarrow> [] | c # _ \<Rightarrow> cl_servers c)"

definition api_version_of :: "server_response \<Rightarrow> int result" where
  "api_version_of r = (case sv_fields r of RootFields rf \<Rightarrow> Inr (index_of (rt_api_version rf)) | _ \<Rightarrow> Inl AttributeError)"

text \<open>0 is the version before the first server; the servers that were asked keep their answer.\<close>

fun resolve_versions ::
    "factory \<Rightarrow> 'w sender \<Rightarrow> int \<Rightarrow> test_server_client list \<Rightarrow> ('w, int \<times> test_server_client list) io" where
  "resolve_versions f send api [] = io_return (api, [])"
| "resolve_versions f send api (ts # rest) =
     io_bind (TestServer_get_info f send ts) (\<lambda>(info, ts).
     io_bind (io_lift (rbind (api_version_of info) (\<lambda>v.
        if api \<noteq> 0 \<and> v \<noteq> api then Inl ValueError else available_api_version v))) (\<lambda>v.
     io_bind (resolve_versions f send v rest) (\<lambda>(v, clients). io_return (v, ts # clients))))"

text \<open>Setting the version imports the modules of the request classes, which stay loaded.\<close>

definition CBLPyTest_resolve_api_version :: "'w sender \<Rightarrow> cblpytest \<Rightarrow> ('w session, cblpytest) io" where
  "CBLPyTest_resolve_api_version send p =
     io_bind (outside (resolve_versions (cpt_factory p) send 0 (cpt_test_servers p))) (\<lambda>(v, clients) s.
       let (r, f) = RequestFactory_set_version v ((cpt_factory p)\<lparr>rf_registries := ss_registries s\<rparr>)
       in (rbind r (\<lambda>_. Inr (p\<lparr>cpt_factory := f, cpt_test_servers := clients\<rparr>)),
           s\<lparr>ss_registries := rf_registries f\<rparr>))"

fun start_sessions ::
    "factory \<Rightarrow> 'w sender \<Rightarrow> string option \<Rightarrow> nat \<Rightarrow> test_server_client list \<Rightarrow> ('w, unit) io" where
  "start_sessions f send url i [] = io_return ()"
| "start_sessions f send url i (ts # rest) =
     io_bind (TestServer_new_session f send ts (rf_uuid f) url (Some (''test-server['' @ nat_str i @ '']'')))
       (\<lambda>_. start_sessions f send url (Suc i) rest)"

text \<open>\<open>sender\<close> is what sends the requests of a factory; \<open>start_router\<close> starts its websocket router.\<close>

definition CBLPyTest_create ::
    "'w client_env \<Rightarrow> ((json \<times> transport_type) list \<Rightarrow> 'w sender) \<Rightarrow> ('w, unit) io
      \<Rightarrow> (string \<Rightarrow> string \<Rightarrow> ('w, int) io) \<Rightarrow> (string \<Rightarrow> string list \<Rightarrow> ('w, unit) io)
      \<Rightarrow> parsed_config \<Rightarrow> string \<Rightarrow> string option \<Rightarrow> bool \<Rightarrow> string \<Rightarrow> ('w session, cblpytest) io" where
  "CBLPyTest_create env sender start_router start_log connect config log_level extra_props_path test_server_only
     dataset_version =
     io_bind (CBLPyTest_init env config log_level extra_props_path test_server_only dataset_version) (\<lambda>p.
     io_bind (modify (\<lambda>s. if truthy (case map_of (cpt_extra_props p) ''auto_start_tdk_page'' of None \<Rightarrow> JBool True | Some v \<Rightarrow> v)
                          then s else s\<lparr>ss_auto_start_tdk_page := False\<rparr>)) (\<lambda>_.
     io_bind (outside start_router) (\<lambda>_.
     io_bind (cbl_log_init start_log connect (rf_uuid (cpt_factory p)) (pc_logslurp_url config)) (\<lambda>_.
     io_bind (CBLPyTest_resolve_api_version (sender (cpt_infos p)) p) (\<lambda>p.
     io_bind (outside (start_sessions (cpt_factory p) (sender (cpt_infos p)) (pc_logslurp_url config) 0 (cpt_test_servers p)))
       (\<lambda>_. io_return p))))))"

fun close_clusters :: "(sync_gateway \<Rightarrow> ('w, unit) io) \<Rightarrow> cluster list \<Rightarrow> ('w, unit) io" where
  "close_clusters close [] = io_return ()"
| "close_clusters close (c # cs) = io_bind (CouchbaseCluster_close close c) (\<lambda>_. close_clusters close cs)"

definition CBLPyTest_close :: "('w, unit) io \<Rightarrow> (sync_gateway \<Rightarrow> ('w, unit) io) \<Rightarrow> cblpytest \<Rightarrow> ('w, unit) io" where
  "CBLPyTest_close close_factory close p =
     io_bind close_factory (\<lambda>_. close_clusters close (cpt_clusters p))"

section \<open>The base class of tests\<close>

record test_object =
  to_step :: nat
  to_skipped :: bool

definition CBLTestClass_setup_method :: "string \<Rightarrow> 'w session \<Rightarrow> test_object \<times> 'w session" where
  "CBLTestClass_setup_method name s = (\<lparr> to_step = 1, to_skipped = False \<rparr>, s\<lparr>ss_running_test_name := name\<rparr>)"

text \<open>Whether the end of a test warns that no step was marked.\<close>

definition CBLTestClass_teardown_warns :: "test_object \<Rightarrow> bool" where
  "CBLTestClass_teardown_warns t = (to_step t = 1 \<and> \<not> to_skipped t)"

text \<open>The next step, and the lines that are logged for it.\<close>

definition CBLTestClass_mark_test_step :: "string \<Rightarrow> test_object \<Rightarrow> string list \<times> test_object" where
  "CBLTestClass_mark_test_step description t =
     (filter (\<lambda>l. l \<noteq> []) (map py_strip (splitlines description)), t\<lparr>to_step := Suc (to_step t)\<rparr>)"

definition CBLTestClass_skip :: "(test_object \<times> 'w, unit) io" where
  "CBLTestClass_skip = (\<lambda>(t, w). (Inl Skipped, t\<lparr>to_skipped := True\<rparr>, w))"

definition CBLTestClass_skip_if_not :: "bool \<Rightarrow> (test_object \<times> 'w, unit) io" where
  "CBLTestClass_skip_if_not condition = (if \<not> condition then CBLTestClass_skip else io_return ())"

definition beside_test :: "('w, 'a) io \<Rightarrow> (test_object \<times> 'w, 'a) io" where
  "beside_test m = (\<lambda>(t, w). let (r, w') = m w in (r, t, w'))"

definition root_fields_of :: "server_response \<Rightarrow> root_fields result" where
  "root_fields_of r = (case sv_fields r of RootFields rf \<Rightarrow> Inr rf | _ \<Rightarrow> Inl AttributeError)"

text \<open>Also returns the server with its cached answer.\<close>

definition CBLTestClass_skip_if_not_platform ::
    "factory \<Rightarrow> 'w sender \<Rightarrow> test_server_client \<Rightarrow> int \<Rightarrow> (test_object \<times> 'w, test_server_client) io" where
  "CBLTestClass_skip_if_not_platform f send server allow_platforms =
     io_bind (beside_test (TestServer_get_info f send server)) (\<lambda>(info, server).
     io_bind (io_lift (rbind (root_fields_of info) (\<lambda>rf. GetRootResponse_variant (rt_cbl rf)))) (\<lambda>variant.
     io_bind (CBLTestClass_skip_if_not (allow_platforms AND variant_bit variant = variant_bit variant))
       (\<lambda>_. io_return server)))"

text \<open>\<open>satisfies constraint version\<close> is \<open>Version(version) in SpecifierSet(constraint)\<close>.\<close>

definition CBLTestClass_skip_if_cbl_not ::
    "(string \<Rightarrow> string \<Rightarrow> bool result) \<Rightarrow> factory \<Rightarrow> 'w sender \<Rightarrow> test_server_client \<Rightarrow> string
      \<Rightarrow> (test_object \<times> 'w, test_server_client) io" where
  "CBLTestClass_skip_if_cbl_not satisfies f send server constraint =
     io_bind (beside_test (TestServer_get_info f send server)) (\<lambda>(info, server).
     io_bind (io_lift (rbind (root_fields_of info)
        (\<lambda>rf. satisfies constraint (hd (split_on (CHR ''-'') (rt_lib_version rf)))))) (\<lambda>ok.
     io_bind (CBLTestClass_skip_if_not ok) (\<lambda>_. io_return server)))"

definition CBLTestClass_skip_if_sgw_not ::
    "(string \<Rightarrow> string \<Rightarrow> bool result) \<Rightarrow> ('w, string \<times> int) io \<Rightarrow> string \<Rightarrow> (test_object \<times> 'w, unit) io" where
  "CBLTestClass_skip_if_sgw_not satisfies get_version constraint =
     io_bind (beside_test get_version) (\<lambda>(version, build).
     io_bind (io_lift (satisfies constraint version)) CBLTestClass_skip_if_not)"

section \<open>The markers for the required topology\<close>

text \<open>The closest marker of each kind, as its arguments.\<close>

record topology_markers =
  mk_min_test_servers :: "int list option"
  mk_min_sync_gateways :: "int list option"
  mk_min_couchbase_servers :: "int list option"
  mk_min_load_balancers :: "int list option"
  mk_min_edge_servers :: "int list option"
  mk_min_clusters :: "int list option"

definition check_minimum :: "int list option \<Rightarrow> json \<Rightarrow> unit result" where
  "check_minimum mark value =
     (case mark of
        None \<Rightarrow> Inr ()
      | Some args \<Rightarrow> rbind (py_nth args 0) (\<lambda>minimum.
          rbind (py_iter value) (\<lambda>xs. if int (length xs) < minimum then Inl Skipped else Inr ())))"

text \<open>Whether a gateway has an index from \<open>minimum\<close> on; later entries are not looked at.\<close>

fun cluster_found :: "int \<Rightarrow> json list \<Rightarrow> bool result" where
  "cluster_found minimum [] = Inr False"
| "cluster_found minimum (sgw # rest) =
     rbind (rbind (as_entry ''hostname'' sgw) SyncGatewayInfo_create) (\<lambda>info.
       if index_of (sgi_cluster_index info) \<ge> minimum then Inr True else cluster_found minimum rest)"

definition check_clusters :: "int list option \<Rightarrow> json \<Rightarrow> unit result" where
  "check_clusters mark sgw_list =
     (case mark of
        None \<Rightarrow> Inr ()
      | Some args \<Rightarrow> rbind (py_nth args 0) (\<lambda>requested.
          rbind (rbind (py_iter sgw_list) (cluster_found (requested - 1))) (\<lambda>found.
            if found then Inr () else Inl Skipped)))"

definition pytest_runtest_setup :: "topology_markers \<Rightarrow> parsed_config option \<Rightarrow> unit result" where
  "pytest_runtest_setup m stash =
     (if mk_min_test_servers m = None \<and> mk_min_sync_gateways m = None \<and> mk_min_couchbase_servers m = None
         \<and> mk_min_load_balancers m = None \<and> mk_min_edge_servers m = None \<and> mk_min_clusters m = None
      then Inr ()
      else case stash of
        None \<Rightarrow> Inl KeyError
      | Some config \<Rightarrow>
          rbind (check_minimum (mk_min_test_servers m) (pc_test_servers config)) (\<lambda>_.
          rbind (check_minimum (mk_min_sync_gateways m) (pc_sync_gateways config)) (\<lambda>_.
          rbind (check_minimum (mk_min_couchbase_servers m) (pc_couchbase_servers config)) (\<lambda>_.
          rbind (check_minimum (mk_min_load_balancers m) (pc_load_balancers config)) (\<lambda>_.
          rbind (check_minimum (mk_min_edge_servers m) (pc_edge_servers config)) (\<lambda>_.
            check_clusters (mk_min_clusters m) (pc_sync_gateways config)))))))"

section \<open>The plugin that makes the object\<close>

text \<open>The configuration is parsed once; a missing option is a usage error.\<close>

definition pytest_configure :: "(string \<Rightarrow> json result option) \<Rightarrow> string option \<Rightarrow> parsed_config result" where
  "pytest_configure read_file config_path =
     (case config_path of None \<Rightarrow> Inl UsageError | Some p \<Rightarrow> parse_config read_file p)"

text \<open>The fixture of the session: \<open>tests\<close> is what runs between its creation and its end.\<close>

definition cblpytest_fixture ::
    "('w session, cblpytest) io \<Rightarrow> (cblpytest \<Rightarrow> ('w session, unit) io) \<Rightarrow> (cblpytest \<Rightarrow> ('w session, unit) io)
      \<Rightarrow> ('w session, unit) io" where
  "cblpytest_fixture create tests close =
     io_bind create (\<lambda>p. io_bind (tests p) (\<lambda>_. close p))"

section \<open>Markers and clusters agree\<close>

lemma test_server_clients_length:
  "test_server_clients i v tss = Inr cs \<Longrightarrow> length cs = length tss"
  by (induction i v tss arbitrary: cs rule: test_server_clients.induct) (auto simp: Let_def elim!: rbind_InrE)

lemma edge_server_entries_length: "edge_server_entries env ess = Inr xs \<Longrightarrow> length xs = length ess"
  by (induction ess arbitrary: xs) (auto elim!: rbind_InrE)

definition gateway_index :: "json \<Rightarrow> int result" where
  "gateway_index sg = rbind (rbind (as_entry ''hostname'' sg) SyncGatewayInfo_create) (\<lambda>info. Inr (index_of (sgi_cluster_index info)))"

lemma sync_gateway_entries_indices:
  "sync_gateway_entries env sgs w = (Inr es, w') \<Longrightarrow> list_all2 (\<lambda>sg e. gateway_index sg = Inr (fst e)) sgs es"
proof (induction sgs arbitrary: w es)
  case (Cons sg sgs)
  from Cons.prems obtain info x v es' where
    "rbind (as_entry ''hostname'' sg) SyncGatewayInfo_create = Inr info"
    "sync_gateway_entries env sgs v = (Inr es', w')" "es = (index_of (sgi_cluster_index info), x) # es'"
    by (auto elim!: io_bind_InrE)
  then show ?case using Cons.IH [of v es'] by (simp add: gateway_index_def rbind_def)
qed simp

lemma couchbase_server_entries_length:
  "couchbase_server_entries env cbs w = (Inr es, w') \<Longrightarrow> length es = length cbs"
proof (induction cbs arbitrary: w es)
  case (Cons c cbs)
  from Cons.prems obtain x v es' where "couchbase_server_entries env cbs v = (Inr es', w')" "es = x # es'"
    by (auto elim!: io_bind_InrE)
  then show ?case using Cons.IH [of v es'] by simp
qed simp

lemma entries_at_total:
  assumes "fst ` set es \<subseteq> int ` {0..<n}"
  shows "(\<Sum>k < n. length (entries_at (int k) es)) = length es"
  using assms
proof (induction es)
  case (Cons e es)
  then obtain j where j: "j < n" "fst e = int j" by auto
  have "(\<Sum>k < n. length (entries_at (int k) (e # es)))
      = (\<Sum>k < n. (if k = j then 1 else 0) + length (entries_at (int k) es))"
    by (rule sum.cong) (auto simp: j)
  also have "\<dots> = Suc (length es)" using Cons j by (simp add: sum.distrib)
  finally show ?case by simp
qed simp

lemma cluster_found_iff:
  assumes "list_all2 (\<lambda>sg e. gateway_index sg = Inr (fst e)) sgs es"
  shows "cluster_found k sgs = Inr (\<exists>i \<in> fst ` set es. k \<le> i)"
  using assms
proof (induction sgs es rule: list_all2_induct)
  case (Cons sg sgs e es)
  then obtain info where "rbind (as_entry ''hostname'' sg) SyncGatewayInfo_create = Inr info"
    "index_of (sgi_cluster_index info) = fst e"
    by (auto simp: gateway_index_def elim!: rbind_InrE)
  then show ?case using Cons by (simp add: rbind_def)
qed simp

text \<open>What the construction of the object gives, for a configuration with its backend.\<close>

lemma CBLPyTest_init_parts:
  assumes "CBLPyTest_init env config level props False dv s = (Inr p, s')"
  obtains tss sgs cbs ess gateways servers where
    "py_iter (pc_test_servers config) = Inr tss" "length (cpt_test_servers p) = length tss"
    "py_iter (pc_sync_gateways config) = Inr sgs" "list_all2 (\<lambda>sg e. gateway_index sg = Inr (fst e)) sgs gateways"
    "py_iter (pc_couchbase_servers config) = Inr cbs" "length servers = length cbs"
    "py_iter (pc_edge_servers config) = Inr ess" "length (cpt_edge_servers p) = length ess"
    "ClusterBuilder_build (collect_entries gateways servers) = Inr (cpt_clusters p)"
  using assms unfolding CBLPyTest_init_def
  by (auto simp: outside_def backend_entries_def split: prod.splits elim!: io_bind_InrE rbind_InrE
      dest!: test_server_clients_length edge_server_entries_length sync_gateway_entries_indices couchbase_server_entries_length)

lemma check_minimum_Inr:
  assumes "check_minimum (Some (n # rest)) v = Inr ()" "py_iter v = Inr xs"
  shows "n \<le> int (length xs)"
  using assms by (auto simp: check_minimum_def py_nth_def rbind_def split: if_splits)

lemma setup_checks:
  assumes "pytest_runtest_setup m (Some config) = Inr ()"
  shows "check_minimum (mk_min_test_servers m) (pc_test_servers config) = Inr ()"
    and "check_minimum (mk_min_sync_gateways m) (pc_sync_gateways config) = Inr ()"
    and "check_minimum (mk_min_couchbase_servers m) (pc_couchbase_servers config) = Inr ()"
    and "check_minimum (mk_min_edge_servers m) (pc_edge_servers config) = Inr ()"
    and "check_clusters (mk_min_clusters m) (pc_sync_gateways config) = Inr ()"
  using assms
  by (auto simp: pytest_runtest_setup_def check_minimum_def check_clusters_def split: if_splits elim!: rbind_InrE)

lemma clusters_hold_entries:
  assumes "ClusterBuilder_build (collect_entries gateways servers) = Inr clusters"
  shows "(\<Sum>c \<leftarrow> clusters. length (gc_nodes (cl_gateways c))) = length gateways"
    and "(\<Sum>c \<leftarrow> clusters. length (cl_servers c)) = length servers"
    and "fst ` set gateways = int ` {0..<length clusters}"
proof -
  let ?n = "length clusters"
  have keys: "fst ` set gateways = int ` {0..<?n}" "fst ` set servers \<subseteq> fst ` set gateways"
    and parts: "\<And>k. k < ?n \<Longrightarrow> gc_nodes (cl_gateways (clusters ! k)) = entries_at (int k) gateways"
      "\<And>k. k < ?n \<Longrightarrow> cl_servers (clusters ! k) = entries_at (int k) servers"
    using cluster_of_index [OF assms] by blast+
  have sum: "(\<Sum>c \<leftarrow> clusters. f c) = (\<Sum>k < ?n. f (clusters ! k))" for f :: "cluster \<Rightarrow> nat"
    by (simp add: sum_list_sum_nth atLeast0LessThan)
  show "(\<Sum>c \<leftarrow> clusters. length (gc_nodes (cl_gateways c))) = length gateways"
    using entries_at_total [of gateways ?n] keys parts by (simp add: sum)
  show "(\<Sum>c \<leftarrow> clusters. length (cl_servers c)) = length servers"
    using entries_at_total [of servers ?n] keys(2)[unfolded keys(1)] parts by (simp add: sum)
  show "fst ` set gateways = int ` {0..<?n}" by (rule keys)
qed

text \<open>
  C34. A test that its topology markers do not skip finds what it asked for: when the object of the
  session was built from the same configuration, it has at least the required number of test
  servers, Edge Servers and clusters, and its clusters have together at least the required
  number of Sync Gateways and of Couchbase Servers.
\<close>

theorem markers_guarantee_topology:
  assumes "pytest_runtest_setup m (Some config) = Inr ()"
    and "CBLPyTest_init env config level props False dv s = (Inr p, s')"
  shows "(\<forall>n rest. mk_min_test_servers m = Some (n # rest) \<longrightarrow> n \<le> int (length (cpt_test_servers p)))
    \<and> (\<forall>n rest. mk_min_sync_gateways m = Some (n # rest) \<longrightarrow>
          n \<le> int (\<Sum>c \<leftarrow> cpt_clusters p. length (gc_nodes (cl_gateways c))))
    \<and> (\<forall>n rest. mk_min_couchbase_servers m = Some (n # rest) \<longrightarrow>
          n \<le> int (\<Sum>c \<leftarrow> cpt_clusters p. length (cl_servers c)))
    \<and> (\<forall>n rest. mk_min_edge_servers m = Some (n # rest) \<longrightarrow> n \<le> int (length (cpt_edge_servers p)))
    \<and> (\<forall>n rest. mk_min_clusters m = Some (n # rest) \<longrightarrow> n \<le> int (length (cpt_clusters p)))"
proof -
  obtain tss sgs cbs ess gateways servers where parts:
    "py_iter (pc_test_servers config) = Inr tss" "length (cpt_test_servers p) = length tss"
    "py_iter (pc_sync_gateways config) = Inr sgs" "list_all2 (\<lambda>sg e. gateway_index sg = Inr (fst e)) sgs gateways"
    "py_iter (pc_couchbase_servers config) = Inr cbs" "length servers = length cbs"
    "py_iter (pc_edge_servers config) = Inr ess" "length (cpt_edge_servers p) = length ess"
    "ClusterBuilder_build (collect_entries gateways servers) = Inr (cpt_clusters p)"
    by (rule CBLPyTest_init_parts [OF assms(2)])
  have sgs: "length sgs = length gateways" using parts(4) by (rule list_all2_lengthD)
  have clusters: "n \<le> int (length (cpt_clusters p))" if "mk_min_clusters m = Some (n # rest)" for n rest
  proof -
    have "cluster_found (n - 1) sgs = Inr True"
      using setup_checks(5) [OF assms(1)] parts(3) that
      by (auto simp: check_clusters_def py_nth_def rbind_def split: if_splits sum.splits)
    then obtain i where "i \<in> fst ` set gateways" "n - 1 \<le> i" using cluster_found_iff [OF parts(4)] by auto
    then show ?thesis using clusters_hold_entries(3) [OF parts(9)] by auto
  qed
  show ?thesis
    using setup_checks [OF assms(1)] parts sgs clusters clusters_hold_entries(1,2) [OF parts(9)]
    by (auto dest!: check_minimum_Inr)
qed

text \<open>A test is not skipped needlessly: the minimum of clusters is missed only when there are fewer.\<close>

lemma clusters_skipped_only_if_missing:
  assumes "check_clusters (Some (n # rest)) (pc_sync_gateways config) = Inl Skipped" "1 \<le> n"
    and "CBLPyTest_init env config level props False dv s = (Inr p, s')"
  shows "int (length (cpt_clusters p)) < n"
proof -
  obtain sgs gateways servers where parts:
    "py_iter (pc_sync_gateways config) = Inr sgs" "list_all2 (\<lambda>sg e. gateway_index sg = Inr (fst e)) sgs gateways"
    "ClusterBuilder_build (collect_entries gateways servers) = Inr (cpt_clusters p)"
    by (rule CBLPyTest_init_parts [OF assms(3)])
  have "\<not> (\<exists>i \<in> fst ` set gateways. n - 1 \<le> i)"
    using assms(1) parts(1) cluster_found_iff [OF parts(2), of "n - 1"]
    by (auto simp: check_clusters_def py_nth_def rbind_def split: if_splits)
  moreover have "n - 1 \<in> int ` {0..<length (cpt_clusters p)}" if "n \<le> int (length (cpt_clusters p))"
    using that assms(2) by (intro image_eqI [of _ _ "nat (n - 1)"]) auto
  ultimately show ?thesis using clusters_hold_entries(3) [OF parts(3)] by fastforce
qed

section \<open>One API version for all servers\<close>

definition reports_version :: "test_server_client \<Rightarrow> int \<Rightarrow> bool" where
  "reports_version ts v = (\<exists>r. tsc_info ts = Some r \<and> api_version_of r = Inr v)"

lemma get_info_answers:
  assumes "TestServer_get_info f send ts w = (Inr (r, ts'), w')"
  shows "tsc_info ts' = Some r"
  using assms by (auto simp: TestServer_get_info_def split: option.splits elim!: io_bind_InrE)

text \<open>The versions that the servers report: only zeros may stand before the one they agree on.\<close>

lemma resolve_versions_chain:
  assumes "resolve_versions f send api tss w = (Inr (v, clients), w')"
  shows "\<exists>vs. list_all2 reports_version clients vs \<and> length vs = length tss \<and> (\<forall>x \<in> set vs. x < 3)
    \<and> (api \<noteq> 0 \<longrightarrow> v = api) \<and> (\<forall>x \<in> set vs. x = v \<or> x = 0 \<and> api = 0) \<and> (vs = [] \<longrightarrow> v = api)"
  using assms
proof (induction f send api tss arbitrary: clients w rule: resolve_versions.induct)
  case (2 f send api ts rest)
  obtain info ts' x clients' w1 w2 where
    head: "TestServer_get_info f send ts w = (Inr (info, ts'), w1)" "api_version_of info = Inr x" "api = 0 \<or> x = api" "x < 3"
    and tail: "resolve_versions f send x rest w2 = (Inr (v, clients'), w')" "clients = ts' # clients'"
    using "2.prems"
    by (auto simp: available_api_version_def elim!: io_bind_InrE rbind_InrE split: if_splits)
  obtain vs where vs: "list_all2 reports_version clients' vs" "length vs = length rest" "\<forall>y \<in> set vs. y < 3"
    "x \<noteq> 0 \<longrightarrow> v = x" "\<forall>y \<in> set vs. y = v \<or> y = 0 \<and> x = 0" "vs = [] \<longrightarrow> v = x"
    using "2.IH" [OF tail(1)] by blast
  have "reports_version ts' x" using get_info_answers [OF head(1)] head(2) by (simp add: reports_version_def)
  moreover have "(api \<noteq> 0 \<longrightarrow> v = api) \<and> (\<forall>y \<in> set (x # vs). y = v \<or> y = 0 \<and> api = 0)"
    using vs(4,5) head(3) by (cases "x = 0") auto
  ultimately show ?case using vs head tail by (intro exI [of _ "x # vs"]) auto
qed auto


text \<open>The dataset version of one server is also the one of the servers after it that have none.\<close>

lemma dataset_version_inherited:
  "test_server_clients 0 ''4.0''
     [JObj [(''url'', JStr ''a''), (''dataset_version'', JStr ''3.2'')], JObj [(''url'', JStr ''b'')]]
   = Inr [TestServer_new 0 ''a'' ''3.2'', TestServer_new 1 ''b'' ''3.2'']"
  by code_simp

text \<open>Servers of different versions are refused, except that 0 may come first.\<close>

lemma different_versions_refused:
  assumes "reports_version a x" "reports_version b y" "x \<noteq> y" "x < 3" "y < 3"
  shows "resolve_versions f send 0 [a, b] w = (if x = 0 then Inr (y, [a, b]) else Inl ValueError, w)"
  using assms by (auto simp: reports_version_def TestServer_get_info_def io_bind_def available_api_version_def)

definition sample_session :: "nat session" where
  "sample_session = \<lparr> ss_running_test_name = ''no-test'', ss_auto_start_tdk_page = True, ss_first_run = True,
     ss_registries = no_registries, ss_console_level = 10, ss_handlers = [], ss_world = 0 \<rparr>"

definition sample_env :: "nat client_env" where
  "sample_env = \<lparr> ce_read_props = \<lambda>p. None,
     ce_folder = \<lparr> lf_exists = \<lambda>w. True, lf_rmtree = \<lambda>w. (Inr (), w), lf_mkdir = \<lambda>w. (Inr (), w) \<rparr>,
     ce_uuid4 = \<lambda>w. (Inr ''u'', w), ce_make_session = \<lambda>u s n p w. (Inr (), w),
     ce_get_config = \<lambda>u n p w. (Inr \<lparr> cr_status = 200,
        cr_body = Inr (JObj [(''bootstrap'', JObj [(''server'', JStr ''rosmar:'')])]) \<rparr>, Suc w),
     ce_probe = \<lambda>u w. (Inl RequestException, w),
     ce_sdk = \<lparr> sd_connect = \<lambda>u n p w. (Inr (), w), sd_wait_until_ready = \<lambda>w. (Inr (), w), sd_bucket = \<lambda>b w. (Inr (), w),
       sd_create_scope = \<lambda>b s w. (Inr (), w), sd_create_collection = \<lambda>b s c w. (Inr (), w), sd_get = \<lambda>b s c k w. (Inr None, w),
       sd_upsert = \<lambda>b s c k d w. (Inr (), w), sd_remove = \<lambda>b s c k w. (Inr (), w), sd_mutate_in = \<lambda>b s c k x w. (Inr (), w),
       sd_create_bucket = \<lambda>b w. (Inr (), w), sd_drop_bucket = \<lambda>b w. (Inr (), w), sd_indexes = \<lambda>b w. (Inr [], w),
       sd_create_primary_index = \<lambda>b s c w. (Inr (), w), sd_query = \<lambda>q w. (Inr [], w) \<rparr>,
     ce_repo_root = Inr ''/repo'', ce_edge_config = \<lambda>p. None \<rparr>"

definition sample_config :: parsed_config where
  "sample_config = \<lparr> pc_test_servers = JList [JObj [(''url'', JStr ''http://a:8080'')]],
     pc_sync_gateways = JList [JObj [(''hostname'', JStr ''g'')]], pc_couchbase_servers = JList [],
     pc_load_balancers = JList [], pc_edge_servers = JList [], pc_greenboard = None, pc_logslurp_url = None \<rparr>"

definition sample_markers :: topology_markers where
  "sample_markers = \<lparr> mk_min_test_servers = Some [1], mk_min_sync_gateways = Some [1], mk_min_couchbase_servers = None,
     mk_min_load_balancers = None, mk_min_edge_servers = None, mk_min_clusters = Some [1] \<rparr>"

theorem markers_guarantee_topology_witness:
  "\<exists>p s'. pytest_runtest_setup sample_markers (Some sample_config) = Inr ()
     \<and> CBLPyTest_init sample_env sample_config ''warning'' None False ''4.0'' sample_session = (Inr p, s')
     \<and> 1 \<le> int (length (cpt_clusters p))"
proof -
  have setup_ok: "pytest_runtest_setup sample_markers (Some sample_config) = Inr ()" by code_simp
  have "(case CBLPyTest_init sample_env sample_config ''warning'' None False ''4.0'' sample_session of
      (Inr p, s') \<Rightarrow> ss_world s' = 1 | (Inl e, s') \<Rightarrow> False)"
    by code_simp
  then obtain p s' where init: "CBLPyTest_init sample_env sample_config ''warning'' None False ''4.0'' sample_session = (Inr p, s')"
    by (auto split: prod.splits sum.splits)
  have "\<forall>n rest. mk_min_clusters sample_markers = Some (n # rest) \<longrightarrow> n \<le> int (length (cpt_clusters p))"
    using markers_guarantee_topology [OF setup_ok init] by blast
  then show ?thesis using setup_ok init by (simp add: sample_markers_def)
qed

definition sample_root :: server_response where
  "sample_root = \<lparr> sv_status_code = JInt 200, sv_uuid = JNull, sv_error = None, sv_payload = [], sv_http_name = [],
     sv_http_method = ''get'', sv_fields = RootFields \<lparr> rt_lib_version = ''3.3.0'', rt_api_version = JInt 1,
       rt_cbl = ''couchbase-lite-c'', rt_device = JObj [], rt_additional_info = None \<rparr> \<rparr>"


end
