(* ===== verification/Provision.thy ===== *)
theory Provision
  imports TestServers
begin

text \<open>
  The scripts that make the machines of a topology ready (\<open>environment/aws\<close>: \<open>common/docker.py\<close>,
  \<open>common/x509_certificate.py\<close>, \<open>server_setup\<close>, \<open>sgw_setup\<close>, \<open>es_setup\<close>, \<open>lb_setup\<close> and
  \<open>logslurp_setup\<close>).  Remote machines are a record of the operations of an SSH client; the local host
  is the one of the bridges.  Console output is left out.
\<close>

section \<open>Remote machines\<close>

text \<open>
  \<open>rm_aws\<close> is the directory \<open>environment/aws\<close> and \<open>rm_key\<close> the SSH key of the topology, which raises
  before terraform was read.  \<open>rm_exec host pty command\<close> waits for the command, \<open>rm_start\<close> does not;
  \<open>rm_size\<close> is the size of a remote file, if there is one.
\<close>

record ('w, 'k) remote =
  rm_aws :: path
  rm_home :: path
  rm_key :: "'k result"
  rm_connect :: "'k \<Rightarrow> string \<Rightarrow> ('w, unit) io"
  rm_exec :: "string \<Rightarrow> bool \<Rightarrow> string \<Rightarrow> ('w, proc_result) io"
  rm_start :: "string \<Rightarrow> string \<Rightarrow> ('w, unit) io"
  rm_put :: "string \<Rightarrow> path \<Rightarrow> string \<Rightarrow> ('w, unit) io"
  rm_size :: "string \<Rightarrow> string \<Rightarrow> ('w, int option) io"
  rm_local_size :: "path \<Rightarrow> ('w, int) io"
  rm_files :: "path \<Rightarrow> ('w, string list) io"

text \<open>
  What the scripts do on a machine: upload a file, run a command that must succeed (or need not), or
  start one without waiting.
\<close>

datatype remote_step =
    Put path string
  | Exec bool string
  | Start string

text \<open>The scripts' own \<open>remote_exec\<close>: with a terminal, or (for Couchbase Server) without one.\<close>

definition exec_pty :: "('w, 'k) remote \<Rightarrow> string \<Rightarrow> string \<Rightarrow> bool \<Rightarrow> ('w, unit) io" where
  "exec_pty rm host = remote_exec (rm_exec rm host True)"

definition exec_plain :: "('w, 'k) remote \<Rightarrow> string \<Rightarrow> string \<Rightarrow> bool \<Rightarrow> ('w, unit) io" where
  "exec_plain rm host = remote_exec (rm_exec rm host False)"

fun run_steps ::
    "(string \<Rightarrow> bool \<Rightarrow> ('w, unit) io) \<Rightarrow> ('w, 'k) remote \<Rightarrow> string \<Rightarrow> remote_step list \<Rightarrow> ('w, unit) io" where
  "run_steps exec rm host [] = io_return ()"
| "run_steps exec rm host (s # ss) =
     io_bind (case s of
        Put f target \<Rightarrow> rm_put rm host f target
      | Exec fail_on_error command \<Rightarrow> exec command fail_on_error
      | Start command \<Rightarrow> rm_start rm host command) (\<lambda>_. run_steps exec rm host ss)"

text \<open>Every file of a directory goes to a remote directory.\<close>

definition put_all_files :: "('w, 'k) remote \<Rightarrow> string \<Rightarrow> path \<Rightarrow> string \<Rightarrow> ('w, unit) io" where
  "put_all_files rm host dir target =
     io_bind (rm_files rm dir) (\<lambda>files.
       run_steps (exec_pty rm host) rm host (map (\<lambda>f. Put (dir @ [f]) (target @ f)) files))"

section \<open>Containers\<close>

text \<open>\<open>remote_exec\<close> of \<open>common/docker.py\<close> gives the output when it was captured.\<close>

definition docker_exec :: "('w, 'k) remote \<Rightarrow> string \<Rightarrow> string \<Rightarrow> bool \<Rightarrow> bool \<Rightarrow> ('w, string option) io" where
  "docker_exec rm host command fail_on_error capture_output =
     io_bind (rm_exec rm host True command) (\<lambda>r.
       if fail_on_error \<and> pr_code r \<noteq> 0 then io_raise PlainException
       else io_return (if capture_output then Some (pr_stdout r) else None))"

definition docker_run :: "('w, 'k) remote \<Rightarrow> string \<Rightarrow> string \<Rightarrow> ('w, unit) io" where
  "docker_run rm host command = io_bind (docker_exec rm host command True False) (\<lambda>_. io_return ())"

definition ps_command :: "string \<Rightarrow> string" where
  "ps_command name = ''docker ps -a --filter name='' @ name @ '' --format {{.Status}}''"

definition run_command :: "string \<Rightarrow> string \<Rightarrow> string list \<Rightarrow> string list \<Rightarrow> string" where
  "run_command name image_name docker_args container_args =
     join_with (CHR '' '') ([''docker'', ''run'', ''--rm'', ''-d'', ''--name'', name] @ docker_args
       @ [image_name] @ container_args)"

definition start_container ::
    "('w, 'k) remote \<Rightarrow> string \<Rightarrow> string \<Rightarrow> string \<Rightarrow> 'k \<Rightarrow> string list \<Rightarrow> string list \<Rightarrow> bool \<Rightarrow> ('w, unit) io" where
  "start_container rm name image_name host pkey docker_args container_args replace_existing =
     io_bind (rm_connect rm pkey host) (\<lambda>_.
     io_bind (docker_exec rm host (ps_command name) True True) (\<lambda>check.
       let status = (case check of Some s \<Rightarrow> s | None \<Rightarrow> []);
           there = (py_strip status \<noteq> []);
           up = prefix ''Up'' status;
           new = docker_run rm host (run_command name image_name docker_args container_args)
       in if there \<and> up \<and> \<not> replace_existing then io_return ()
          else if there \<and> up then io_bind (docker_run rm host (''docker stop '' @ name)) (\<lambda>_. new)
          else if there \<and> \<not> replace_existing then docker_run rm host (''docker start '' @ name)
          else new))"

section \<open>Couchbase Server\<close>

definition server_dir :: "('w, 'k) remote \<Rightarrow> path" where
  "server_dir rm = rm_aws rm @ [''server_setup'']"

definition node_docker_args :: "string \<Rightarrow> string option \<Rightarrow> string list" where
  "node_docker_args hostname cluster =
     [''--network'', ''host'', ''-v'', ''/tmp/configure-node.sh:/etc/service/couchbase-config/run'', ''-v'',
      ''/home/ec2-user/log:/opt/couchbase/var/lib/couchbase/logs'', ''-e'', ''E2E_PUBLIC_HOSTNAME='' @ hostname]
     @ (case cluster of Some c \<Rightarrow> [''-e'', ''E2E_PARENT_CLUSTER='' @ c] | None \<Rightarrow> [])"

definition setup_node :: "('w, 'k) remote \<Rightarrow> string \<Rightarrow> 'k \<Rightarrow> string \<Rightarrow> string option \<Rightarrow> ('w, unit) io" where
  "setup_node rm hostname pkey version cluster =
     (let dir = server_dir rm; steps = run_steps (exec_plain rm hostname) rm hostname
      in io_bind (rm_connect rm pkey hostname) (\<lambda>_.
         io_bind (steps
           [Put (dir @ [''configure-node.sh'']) ''/tmp/configure-node.sh'',
            Put (dir @ [''configure-system.sh'']) ''/tmp/configure-system.sh'',
            Put (dir @ [''Caddyfile'']) ''/home/ec2-user/Caddyfile'',
            Exec True ''chmod +x /tmp/configure-node.sh && bash /tmp/configure-system.sh'']) (\<lambda>_.
         io_bind (put_all_files rm hostname (dir @ [''shell2http'']) ''/home/ec2-user/shell2http/'') (\<lambda>_.
         io_bind (steps
           [Exec True ''chmod +x /home/ec2-user/shell2http/*.sh'',
            Exec True ''/home/ec2-user/caddy start'',
            Start ''bash /home/ec2-user/shell2http/start.sh'']) (\<lambda>_.
         io_bind (io_lift (get_ec2_hostname hostname)) (\<lambda>ec2_hostname.
           start_container rm ''cbs-e2e'' (''couchbase/server:enterprise-'' @ version) ec2_hostname pkey
             (node_docker_args hostname cluster) [] True))))))"

text \<open>The nodes after the first join the cluster of the first.\<close>

fun setup_nodes :: "('w, 'k) remote \<Rightarrow> string \<Rightarrow> string \<Rightarrow> string list \<Rightarrow> ('w, unit) io" where
  "setup_nodes rm version parent [] = io_return ()"
| "setup_nodes rm version parent (server # rest) =
     io_bind (io_lift (rm_key rm)) (\<lambda>key.
     io_bind (setup_node rm server key version (Some parent)) (\<lambda>_. setup_nodes rm version parent rest))"

fun server_main :: "('w, 'k) remote \<Rightarrow> cluster_config list \<Rightarrow> ('w, unit) io" where
  "server_main rm [] = io_return ()"
| "server_main rm (c # cs) =
     (case cc_public_hostnames c of
        [] \<Rightarrow> io_raise IndexError
      | first # rest \<Rightarrow>
          io_bind (io_lift (rm_key rm)) (\<lambda>key.
          io_bind (setup_node rm first key (cc_version c) None) (\<lambda>_.
          io_bind (setup_nodes rm (cc_version c) first rest) (\<lambda>_. server_main rm cs))))"

section \<open>Packages\<close>

text \<open>
  \<open>SgwDownloadInfo\<close> and \<open>EsDownloadInfo\<close> differ in names.  A build number is what the build server
  sent; \<open>text\<close> is \<open>str\<close> of what is neither a number nor a string.
\<close>

record package_info =
  pk_version :: string
  pk_build_no :: json
  pk_local_filename :: string
  pk_url :: string

definition package_is_release :: "package_info \<Rightarrow> bool" where
  "package_is_release p = scalar_eq (pk_build_no p) (JInt 0)"

definition build_text :: "(json \<Rightarrow> string) \<Rightarrow> json \<Rightarrow> string" where
  "build_text text v = (case v of JInt n \<Rightarrow> int_str n | JStr s \<Rightarrow> s | _ \<Rightarrow> text v)"

definition SgwDownloadInfo_init_release :: "string \<Rightarrow> package_info" where
  "SgwDownloadInfo_init_release version =
     (let file = ''couchbase-sync-gateway-enterprise_'' @ version @ ''_aarch64.rpm''
      in \<lparr> pk_version = version, pk_build_no = JInt 0, pk_local_filename = file,
           pk_url = ''https://packages.couchbase.com/releases/couchbase-sync-gateway/'' @ version @ ''/'' @ file \<rparr>)"

definition SgwDownloadInfo_init_internal :: "(json \<Rightarrow> string) \<Rightarrow> string \<Rightarrow> json \<Rightarrow> package_info" where
  "SgwDownloadInfo_init_internal text version build_no =
     (let b = build_text text build_no;
          file = ''couchbase-sync-gateway-enterprise_'' @ version @ ''-'' @ b @ ''_aarch64.rpm''
      in \<lparr> pk_version = version, pk_build_no = build_no, pk_local_filename = file,
           pk_url = ''https://latestbuilds.service.couchbase.com/builds/latestbuilds/sync_gateway/'' @ version @ ''/''
                      @ b @ ''/'' @ file \<rparr>)"

definition EsDownloadInfo_init_release :: "string \<Rightarrow> package_info" where
  "EsDownloadInfo_init_release version =
     (let file = ''couchbase-edge-server-'' @ version @ ''.x86_64.rpm''
      in \<lparr> pk_version = version, pk_build_no = JInt 0, pk_local_filename = file,
           pk_url = ''https://packages.couchbase.com/releases/couchbase-edge-server/'' @ version @ ''/'' @ file \<rparr>)"

definition EsDownloadInfo_init_internal :: "(json \<Rightarrow> string) \<Rightarrow> string \<Rightarrow> json \<Rightarrow> package_info" where
  "EsDownloadInfo_init_internal text version build_no =
     (let b = build_text text build_no;
          file = ''couchbase-edge-server-'' @ version @ ''-'' @ b @ ''.x86_64.rpm''
      in \<lparr> pk_version = version, pk_build_no = build_no, pk_local_filename = file,
           pk_url = ''https://latestbuilds.service.couchbase.com/builds/latestbuilds/couchbase-edge-server/'' @ version
                      @ ''/'' @ b @ ''/'' @ file \<rparr>)"

definition version_url :: "string \<Rightarrow> string \<Rightarrow> string" where
  "version_url product version =
     ''http://proget.build.couchbase.com:8080/api/get_version?product='' @ product @ ''&version='' @ version"

text \<open>A version with a build number asks no one; the second part must be a number.\<close>

definition read_package_info ::
    "(string \<Rightarrow> package_info) \<Rightarrow> (string \<Rightarrow> json \<Rightarrow> package_info) \<Rightarrow> string \<Rightarrow> 'w host \<Rightarrow> string
      \<Rightarrow> ('w, package_info) io" where
  "read_package_info release internal product h version =
     (let parts = split_on (CHR ''-'') version
      in if CHR ''-'' \<in> set version
         then case py_int (parts ! 1) of
                None \<Rightarrow> io_raise ValueError
              | Some n \<Rightarrow> io_return (internal (parts ! 0) (JInt n))
         else io_bind (ho_get h (version_url product version)) (\<lambda>version_info.
              io_lift (
                rbind (py_in ''IsRelease'' version_info) (\<lambda>has_release.
                if \<not> has_release then Inl ValueError
                else rbind (py_item version_info ''IsRelease'') (\<lambda>is_release.
                  if truthy is_release then Inr (release version)
                  else rbind (py_in ''BuildNumber'' version_info) (\<lambda>has_build.
                    if \<not> has_build then Inl ValueError
                    else rbind (py_item version_info ''BuildNumber'') (\<lambda>b. Inr (internal version b))))))))"

definition SgwDownloadInfo_create :: "(json \<Rightarrow> string) \<Rightarrow> 'w host \<Rightarrow> string \<Rightarrow> ('w, package_info) io" where
  "SgwDownloadInfo_create text =
     read_package_info SgwDownloadInfo_init_release (SgwDownloadInfo_init_internal text) ''sync_gateway''"

definition EsDownloadInfo_create :: "(json \<Rightarrow> string) \<Rightarrow> 'w host \<Rightarrow> string \<Rightarrow> ('w, package_info) io" where
  "EsDownloadInfo_create text =
     read_package_info EsDownloadInfo_init_release (EsDownloadInfo_init_internal text) ''couchbase-edge-server''"

definition lookup_build :: "string \<Rightarrow> 'w host \<Rightarrow> string \<Rightarrow> ('w, json) io" where
  "lookup_build product h version =
     io_bind (ho_get h (version_url product version)) (\<lambda>v. io_lift (py_item v ''BuildNumber''))"

definition lookup_sgw_build :: "'w host \<Rightarrow> string \<Rightarrow> ('w, json) io" where
  "lookup_sgw_build = lookup_build ''sync_gateway''"

definition lookup_es_build :: "'w host \<Rightarrow> string \<Rightarrow> ('w, json) io" where
  "lookup_es_build = lookup_build ''couchbase-edge-server''"

text \<open>The package is downloaded beside the script, once; the two scripts have the same function.\<close>

definition download_package :: "'w host \<Rightarrow> path \<Rightarrow> package_info \<Rightarrow> ('w, unit) io" where
  "download_package h dir p =
     (if package_is_release p then io_return ()
      else io_bind (io_exists h (dir @ [pk_local_filename p])) (\<lambda>there.
             if there then io_return () else ho_act h (Download (pk_url p) (dir @ [pk_local_filename p]))))"

definition download_sgw_package :: "'w host \<Rightarrow> path \<Rightarrow> package_info \<Rightarrow> ('w, unit) io" where
  "download_sgw_package = download_package"

definition download_es_package :: "'w host \<Rightarrow> path \<Rightarrow> package_info \<Rightarrow> ('w, unit) io" where
  "download_es_package = download_package"

text \<open>What an interrupted download leaves behind is taken for the package the next time.\<close>

lemma partial_download_reused:
  assumes "\<not> package_is_release p" "\<not> ho_exists h (dir @ [pk_local_filename p]) w"
    and "ho_act h (Download (pk_url p) (dir @ [pk_local_filename p])) w = (Inl e, w')"
    and "ho_exists h (dir @ [pk_local_filename p]) w'"
  shows "download_sgw_package h dir p w = (Inl e, w') \<and> download_sgw_package h dir p w' = (Inr (), w')"
  using assms by (simp add: download_sgw_package_def download_package_def io_exists_def io_bind_def)

section \<open>Sync Gateway\<close>

text \<open>
  A bootstrap configuration: the template with entries of its section \<open>bootstrap\<close> replaced.  The four
  files are written in this order; \<open>loads\<close> and \<open>dumps\<close> are those of \<open>json\<close>.
\<close>

definition bootstrap_variant :: "json \<Rightarrow> jdict \<Rightarrow> json result" where
  "bootstrap_variant base entries =
     rbind (obj_of base) (\<lambda>d.
     rbind (d_item d ''bootstrap'') (\<lambda>b.
     rbind (obj_of b) (\<lambda>bootstrap.
       Inr (JObj (d_set d ''bootstrap'' (JObj (d_update bootstrap entries)))))))"

definition bootstrap_files :: "string \<Rightarrow> (string \<times> jdict) list" where
  "bootstrap_files server_hostname =
     (let server = ''couchbases://'' @ server_hostname
      in [(''bootstrap.json'', [(''server'', JStr server)]),
          (''bootstrap-alternate.json'', [(''server'', JStr (server @ '':11207''))]),
          (''bootstrap-x509-cacert-only.json'',
             [(''server'', JStr server), (''server_tls_skip_verify'', JBool False),
              (''ca_cert_path'', JStr ''/home/ec2-user/cert/cbs-ca-cert.pem'')]),
          (''bootstrap-cbs-alternate.json'', [(''server'', JStr (server @ '':11207''))])])"

definition bootstrap_configs :: "string \<Rightarrow> json \<Rightarrow> (string \<times> json) list result" where
  "bootstrap_configs server_hostname base =
     mapM (\<lambda>(file, entries). rbind (bootstrap_variant base entries) (\<lambda>c. Inr (file, c)))
       (bootstrap_files server_hostname)"

definition start_script :: "string \<Rightarrow> string \<Rightarrow> string" where
  "start_script server_hostname content =
     (let nl = char_of (10 :: nat)
      in ''#!/bin/sh'' @ nl # nl # replace_sub ''{{server-ip}}'' server_hostname content)"

definition sgw_dir :: "('w, 'k) remote \<Rightarrow> path" where
  "sgw_dir rm = rm_aws rm @ [''sgw_setup'']"

definition setup_config ::
    "(string \<Rightarrow> json result) \<Rightarrow> (json \<Rightarrow> string) \<Rightarrow> 'w host \<Rightarrow> path \<Rightarrow> string \<Rightarrow> ('w, unit) io" where
  "setup_config loads dumps h dir server_hostname =
     io_bind (ho_read h (dir @ [''config'', ''bootstrap.json''])) (\<lambda>s.
     io_bind (io_lift (rbind (loads s) (bootstrap_configs server_hostname))) (\<lambda>configs.
     io_bind (io_acts h (map (\<lambda>(file, c). Write_file (dir @ [file]) (dumps c)) configs)) (\<lambda>_.
     io_bind (ho_read h (dir @ [''start-sgw.sh.in''])) (\<lambda>content.
       ho_act h (Write_file (dir @ [''start-sgw.sh'']) (start_script server_hostname content))))))"

text \<open>A package that is already there with the same size is not uploaded again.\<close>

definition place_sgw_package :: "('w, 'k) remote \<Rightarrow> string \<Rightarrow> package_info \<Rightarrow> ('w, unit) io" where
  "place_sgw_package rm hostname p =
     (let target = ''/tmp/'' @ pk_local_filename p; source = sgw_dir rm @ [pk_local_filename p]
      in if package_is_release p
         then exec_pty rm hostname (''wget '' @ pk_url p @ '' -nc -O '' @ target) False
         else io_bind (rm_size rm hostname target) (\<lambda>existing_remote.
              io_bind (rm_local_size rm source) (\<lambda>existing_local.
                if existing_remote = Some existing_local then io_return ()
                else rm_put rm hostname source target)))"

definition sgw_uploads :: "path \<Rightarrow> remote_step list" where
  "sgw_uploads dir =
     [Put (dir @ [''start-sgw.sh'']) ''/home/ec2-user/start-sgw.sh'',
      Put (dir @ [''bootstrap.json'']) ''/home/ec2-user/config/bootstrap.json'',
      Put (dir @ [''bootstrap-alternate.json'']) ''/home/ec2-user/config/bootstrap-alternate.json'',
      Put (dir @ [''bootstrap-x509-cacert-only.json'']) ''/home/ec2-user/config/bootstrap-x509-cacert-only.json'',
      Put (dir @ [''bootstrap-cbs-alternate.json'']) ''/home/ec2-user/config/bootstrap-cbs-alternate.json'',
      Put (dir @ [''cert'', ''sg_cert.pem'']) ''/home/ec2-user/cert/sg_cert.pem'',
      Put (dir @ [''cert'', ''sg_key.pem'']) ''/home/ec2-user/cert/sg_key.pem'',
      Put (dir @ [''Caddyfile'']) ''/home/ec2-user/Caddyfile'']"

definition sgw_installation :: "package_info \<Rightarrow> remote_step list" where
  "sgw_installation p =
     [Exec True ''chmod +x /home/ec2-user/shell2http/*.sh'',
      Exec False ''sudo rpm -e couchbase-sync-gateway'',
      Exec True (''sudo rpm -i /tmp/'' @ pk_local_filename p),
      Exec True ''/home/ec2-user/caddy start'',
      Start ''bash /home/ec2-user/shell2http/start.sh'',
      Exec True ''bash /home/ec2-user/start-sgw.sh'']"

definition sgw_setup_server :: "('w, 'k) remote \<Rightarrow> string \<Rightarrow> 'k \<Rightarrow> package_info \<Rightarrow> ('w, unit) io" where
  "sgw_setup_server rm hostname pkey p =
     (let dir = sgw_dir rm; steps = run_steps (exec_pty rm hostname) rm hostname
      in io_bind (rm_connect rm pkey hostname) (\<lambda>_.
         io_bind (steps [Put (dir @ [''configure-system.sh'']) ''/tmp/configure-system.sh'',
                         Exec True ''bash /tmp/configure-system.sh'']) (\<lambda>_.
         io_bind (place_sgw_package rm hostname p) (\<lambda>_.
         io_bind (steps (sgw_uploads dir)) (\<lambda>_.
         io_bind (put_all_files rm hostname (dir @ [''shell2http'']) ''/home/ec2-user/shell2http/'') (\<lambda>_.
           steps (sgw_installation p)))))))"

fun sgw_main ::
    "(json \<Rightarrow> string) \<Rightarrow> (string \<Rightarrow> json result) \<Rightarrow> (json \<Rightarrow> string) \<Rightarrow> 'w host \<Rightarrow> ('w, 'k) remote
      \<Rightarrow> sgw_config list \<Rightarrow> ('w, unit) io" where
  "sgw_main text loads dumps h rm [] = io_return ()"
| "sgw_main text loads dumps h rm (sgw # rest) =
     io_bind (SgwDownloadInfo_create text h (sc_version sgw)) (\<lambda>p.
     io_bind (download_sgw_package h (sgw_dir rm) p) (\<lambda>_.
     io_bind (setup_config loads dumps h (sgw_dir rm) (sc_cluster_hostname sgw)) (\<lambda>_.
     io_bind (io_lift (rm_key rm)) (\<lambda>key.
     io_bind (sgw_setup_server rm (sc_hostname sgw) key p) (\<lambda>_.
       sgw_main text loads dumps h rm rest)))))"

text \<open>
  All bootstrap files name the Couchbase Server of the gateway; only the one for certificates checks
  them, and everything outside the section is the template's.
\<close>

lemma obj_of_Inr_iff: "obj_of v = Inr d \<longleftrightarrow> v = JObj d"
  by (auto simp: obj_of_def split: json.splits)

lemma bootstrap_variant_entry:
  assumes "bootstrap_variant base entries = Inr c" "d_wf entries" "map_of entries k = Some v"
  shows "rbind (py_item c ''bootstrap'') (\<lambda>b. py_item b k) = Inr v"
  using assms
  by (auto simp: bootstrap_variant_def obj_of_Inr_iff d_item_Inr_iff result_simps map_of_d_update)

lemma bootstrap_server:
  assumes "bootstrap_configs host base = Inr cs" "(file, c) \<in> set cs"
  shows "\<exists>port \<in> {[], '':11207''}.
    rbind (py_item c ''bootstrap'') (\<lambda>b. py_item b ''server'') = Inr (JStr (''couchbases://'' @ host @ port))"
proof -
  from assms obtain fe where fe: "fe \<in> set (bootstrap_files host)"
    "(case fe of (file, entries) \<Rightarrow> rbind (bootstrap_variant base entries) (\<lambda>c. Inr (file, c))) = Inr (file, c)"
    using mapM_mem by (fastforce simp: bootstrap_configs_def)
  obtain entries where e: "fe = (file, entries)" "bootstrap_variant base entries = Inr c"
    using fe(2) by (cases fe) (auto simp: result_simps)
  have "d_wf entries \<and> (\<exists>port \<in> {[], '':11207''}. map_of entries ''server'' = Some (JStr (''couchbases://'' @ host @ port)))"
    using fe(1) e(1) by (auto simp: bootstrap_files_def Let_def d_wf_def)
  then show ?thesis using bootstrap_variant_entry [OF e(2)] by blast
qed

text \<open>The two files for alternate addresses are the same.\<close>

lemma alternate_files_equal:
  "map_of (bootstrap_files host) ''bootstrap-cbs-alternate.json'' = map_of (bootstrap_files host) ''bootstrap-alternate.json''"
  by (simp add: bootstrap_files_def Let_def)

section \<open>Certificates\<close>

text \<open>
  A certificate with the key it certifies and the key that signed it; times are in seconds.  Key
  generation, serial numbers, the clock and the PEM encodings belong to the library.
\<close>

record 'key certificate =
  ct_subject :: string
  ct_issuer :: string
  ct_key :: 'key
  ct_serial :: int
  ct_not_before :: int
  ct_not_after :: int
  ct_ca :: bool
  ct_usages :: "string list"
  ct_signed_by :: 'key

record 'key x509_key_pair =
  ckp_certificate :: "'key certificate"
  ckp_private_key :: 'key

record ('w, 'key) crypto =
  cy_generate :: "('w, 'key) io"
  cy_serial :: "('w, int) io"
  cy_now :: "'w \<Rightarrow> int"
  cy_pem :: "'key certificate \<Rightarrow> string"
  cy_private_pem :: "'key \<Rightarrow> string"

definition CertKeyPair_pem_bytes :: "('w, 'key) crypto \<Rightarrow> 'key x509_key_pair \<Rightarrow> string" where
  "CertKeyPair_pem_bytes cy p = cy_pem cy (ckp_certificate p)"

definition CertKeyPair_private_pem_bytes :: "('w, 'key) crypto \<Rightarrow> 'key x509_key_pair \<Rightarrow> string" where
  "CertKeyPair_private_pem_bytes cy p = cy_private_pem cy (ckp_private_key p)"

definition create_cert ::
    "('w, 'key) crypto \<Rightarrow> string \<Rightarrow> 'key x509_key_pair option \<Rightarrow> bool \<Rightarrow> string list \<Rightarrow> int
      \<Rightarrow> ('w, 'key x509_key_pair) io" where
  "create_cert cy cn ca is_ca usages valid_days =
     io_bind (cy_generate cy) (\<lambda>key.
     io_bind (\<lambda>w. (Inr (cy_now cy w), w)) (\<lambda>not_valid_before.
     io_bind (cy_serial cy) (\<lambda>serial.
       io_return
         \<lparr> ckp_certificate =
             \<lparr> ct_subject = cn,
               ct_issuer = (case ca of Some c \<Rightarrow> ct_subject (ckp_certificate c) | None \<Rightarrow> cn),
               ct_key = key, ct_serial = serial, ct_not_before = not_valid_before,
               ct_not_after = not_valid_before + valid_days * 86400, ct_ca = is_ca, ct_usages = usages,
               ct_signed_by = (case ca of Some c \<Rightarrow> ckp_private_key c | None \<Rightarrow> key) \<rparr>,
           ckp_private_key = key \<rparr>)))"

lemma create_cert_Inr:
  assumes "create_cert cy cn ca is_ca usages days w = (Inr p, w')"
  shows "ct_subject (ckp_certificate p) = cn \<and> ct_key (ckp_certificate p) = ckp_private_key p
    \<and> ct_ca (ckp_certificate p) = is_ca \<and> ct_usages (ckp_certificate p) = usages
    \<and> ct_issuer (ckp_certificate p) = (case ca of Some c \<Rightarrow> ct_subject (ckp_certificate c) | None \<Rightarrow> cn)
    \<and> ct_signed_by (ckp_certificate p) = (case ca of Some c \<Rightarrow> ckp_private_key c | None \<Rightarrow> ckp_private_key p)
    \<and> ct_not_after (ckp_certificate p) - ct_not_before (ckp_certificate p) = days * 86400"
  using assms unfolding create_cert_def by (elim io_bind_InrE) (auto simp: io_return_def split: option.splits)

section \<open>Edge Server\<close>

definition es_dir :: "('w, 'k) remote \<Rightarrow> path" where
  "es_dir rm = rm_aws rm @ [''es_setup'']"

record 'key edge_certificates =
  edc_ca :: "'key x509_key_pair"
  edc_server :: "'key x509_key_pair"
  edc_client :: "'key x509_key_pair"

definition create_edge_certificates :: "('w, 'key) crypto \<Rightarrow> string \<Rightarrow> ('w, 'key edge_certificates) io" where
  "create_edge_certificates cy hostname =
     io_bind (create_cert cy ''EdgeTestCA'' None True [] 365) (\<lambda>ca.
     io_bind (create_cert cy hostname (Some ca) False [''SERVER_AUTH''] 365) (\<lambda>cert.
     io_bind (create_cert cy ''test-client'' (Some ca) False [''CLIENT_AUTH''] 365) (\<lambda>client.
       io_return \<lparr> edc_ca = ca, edc_server = cert, edc_client = client \<rparr>)))"

text \<open>The files that go to the server and those that tests read on the local host.\<close>

definition server_certificate_files :: "('w, 'key) crypto \<Rightarrow> 'key edge_certificates \<Rightarrow> host_action list" where
  "server_certificate_files cy c =
     [Write_file [''tmp'', ''es_key.pem''] (CertKeyPair_private_pem_bytes cy (edc_server c)),
      Write_file [''tmp'', ''es_cert.pem''] (CertKeyPair_pem_bytes cy (edc_server c)),
      Write_file [''tmp'', ''ca_cert.pem''] (CertKeyPair_pem_bytes cy (edc_ca c))]"

definition client_certificate_files ::
    "('w, 'k) remote \<Rightarrow> ('w, 'key) crypto \<Rightarrow> 'key edge_certificates \<Rightarrow> host_action list" where
  "client_certificate_files rm cy c =
     (let dir = rm_home rm @ [''.cbl_certs'']
      in [Mkdir_existing dir,
          Write_file (dir @ [''client_cert.pem'']) (CertKeyPair_pem_bytes cy (edc_client c)),
          Write_file (dir @ [''client_key.pem'']) (CertKeyPair_private_pem_bytes cy (edc_client c)),
          Write_file (dir @ [''ca_cert.pem'']) (CertKeyPair_pem_bytes cy (edc_ca c))])"

definition es_uploads :: "('w, 'k) remote \<Rightarrow> remote_step list" where
  "es_uploads rm =
     [Put [''tmp'', ''es_cert.pem''] ''/home/ec2-user/cert/es_cert.pem'',
      Put [''tmp'', ''es_key.pem''] ''/home/ec2-user/cert/es_key.pem'',
      Put [''tmp'', ''ca_cert.pem''] ''/home/ec2-user/cert/ca_cert.pem'',
      Put (es_dir rm @ [''config'', ''config.json'']) ''/tmp/config.json'',
      Put (sgw_dir rm @ [''cert'', ''sg_cert.pem'']) ''/home/ec2-user/cert/sg_cert.pem'']"

definition dataset_steps :: "path \<Rightarrow> string \<Rightarrow> remote_step list" where
  "dataset_steps dir file =
     (let database_dir = ''/home/ec2-user/database''
      in [Put (dir @ [file]) (database_dir @ ''/'' @ file),
          Exec False (''unzip -o '' @ database_dir @ ''/'' @ file @ '' -d '' @ database_dir)])"

definition es_installation :: "package_info \<Rightarrow> remote_step list" where
  "es_installation p =
     [Exec False ''sudo rpm -e couchbase-edge-server'',
      Exec True (''sudo rpm -i /tmp/'' @ pk_local_filename p),
      Exec True ''/home/ec2-user/caddy start'',
      Start ''bash /home/ec2-user/shell2http/start.sh'',
      Exec True (''echo '' @ [CHR 0x27] @ ''{\"name\":\"admin_user\",\"password\":\"password\",\"role\":\"admin\"}'' @ [CHR 0x27]
        @ '' | bash /home/ec2-user/shell2http/add-user.sh''),
      Exec True ''bash /home/ec2-user/shell2http/kill-edgeserver.sh'',
      Exec True ''sudo mv /tmp/config.json /opt/couchbase-edge-server/etc/config.json'',
      Exec True (''echo '' @ [CHR 0x27] @ ''{}'' @ [CHR 0x27] @ '' | bash /home/ec2-user/shell2http/start-edgeserver.sh'')]"

definition es_setup_server ::
    "'w host \<Rightarrow> ('w, 'k) remote \<Rightarrow> ('w, 'key) crypto \<Rightarrow> string \<Rightarrow> 'k \<Rightarrow> package_info \<Rightarrow> ('w, unit) io" where
  "es_setup_server h rm cy hostname pkey p =
     (let dir = es_dir rm; steps = run_steps (exec_pty rm hostname) rm hostname
      in io_bind (rm_connect rm pkey hostname) (\<lambda>_.
         io_bind (steps [Put (dir @ [''configure-system.sh'']) ''/tmp/configure-system.sh'',
                         Exec True ''bash /tmp/configure-system.sh'']) (\<lambda>_.
         io_bind (put_all_files rm hostname (dir @ [''shell2http'']) ''/home/ec2-user/shell2http/'') (\<lambda>_.
         io_bind (steps
           [if package_is_release p
            then Exec False (''wget '' @ pk_url p @ '' -nc -O /tmp/'' @ pk_local_filename p)
            else Put (dir @ [pk_local_filename p]) (''/tmp/'' @ pk_local_filename p),
            Put (dir @ [''Caddyfile'']) ''/home/ec2-user/Caddyfile'']) (\<lambda>_.
         io_bind (create_edge_certificates cy hostname) (\<lambda>c.
         io_bind (io_acts h (server_certificate_files cy c)) (\<lambda>_.
         io_bind (io_acts h (client_certificate_files rm cy c)) (\<lambda>_.
         io_bind (steps (es_uploads rm)) (\<lambda>_.
         io_bind (rm_files rm (dir @ [''dataset''])) (\<lambda>files.
         io_bind (steps (concat (map (dataset_steps (dir @ [''dataset''])) files))) (\<lambda>_.
         io_bind (io_acts h [Unlink [''tmp'', ''es_key.pem''], Unlink [''tmp'', ''es_cert.pem'']]) (\<lambda>_.
           steps (es_installation p)))))))))))))"

fun es_main ::
    "(json \<Rightarrow> string) \<Rightarrow> 'w host \<Rightarrow> ('w, 'k) remote \<Rightarrow> ('w, 'key) crypto \<Rightarrow> es_config list \<Rightarrow> ('w, unit) io" where
  "es_main text h rm cy [] = io_return ()"
| "es_main text h rm cy (es # rest) =
     io_bind (EsDownloadInfo_create text h (ec_version es)) (\<lambda>p.
     io_bind (download_es_package h (es_dir rm) p) (\<lambda>_.
     io_bind (io_lift (rm_key rm)) (\<lambda>key.
     io_bind (es_setup_server h rm cy (ec_hostname es) key p) (\<lambda>_.
       es_main text h rm cy rest))))"

section \<open>Load balancers and LogSlurp\<close>

definition create_router :: "nat \<Rightarrow> bool \<Rightarrow> json" where
  "create_router index admin =
     (let name = (if admin then ''admin'' else ''public''); i = int_str (int index)
      in JObj
           [(''entryPoints'', JList [JStr name]),
            (''rule'', JStr (if index = 0 then ''PathPrefix(`/`)''
                           else ''Header(`X-Backend`, `sg-'' @ i @ ''`) && PathPrefix(`/`)'')),
            (''priority'', JInt (10 * (int index + 1))),
            (''service'', JStr (''sgw-'' @ name @ ''-'' @ i)),
            (''middlewares'', JList [JStr ''limit-body'', JStr ''retry-once''])])"

definition create_service :: "bool \<Rightarrow> string \<Rightarrow> json" where
  "create_service admin server =
     JObj [(''loadBalancer'', JObj
       [(''passHostHeader'', JBool False), (''serversTransport'', JStr ''sg-upstream''),
        (''servers'', JList [JObj [(''url'',
           JStr (''https://'' @ server @ '':'' @ (if admin then ''4985'' else ''4984'')))]])])]"

fun add_upstreams :: "nat \<Rightarrow> string list \<Rightarrow> jdict \<times> jdict \<Rightarrow> jdict \<times> jdict" where
  "add_upstreams i [] rs = rs"
| "add_upstreams i (upstream # rest) (routers, services) =
     (let n = int_str (int i)
      in add_upstreams (Suc i) rest
           (d_set (d_set routers (''public-'' @ n) (create_router i False)) (''admin-'' @ n) (create_router i True),
            d_set (d_set services (''sgw-public-'' @ n) (create_service False upstream))
              (''sgw-admin-'' @ n) (create_service True upstream)))"

definition traefik_config :: "string list \<Rightarrow> json \<Rightarrow> json result" where
  "traefik_config upstreams template =
     (let (routers, services) = add_upstreams 0 upstreams ([], [])
      in rbind (obj_of template) (\<lambda>config.
         rbind (d_item config ''http'') (\<lambda>v.
         rbind (obj_of v) (\<lambda>http.
           Inr (JObj (d_set config ''http''
             (JObj (d_set (d_set http ''routers'' (JObj routers)) ''services'' (JObj services)))))))))"

definition lb_dir :: "('w, 'k) remote \<Rightarrow> path" where
  "lb_dir rm = rm_aws rm @ [''lb_setup'']"

definition create_traefik_config ::
    "(string \<Rightarrow> json result) \<Rightarrow> (json \<Rightarrow> string) \<Rightarrow> 'w host \<Rightarrow> path \<Rightarrow> string list \<Rightarrow> ('w, unit) io" where
  "create_traefik_config yaml_load yaml_dump h dir upstreams =
     io_bind (ho_read h (dir @ [''http_config.yml.in''])) (\<lambda>s.
     io_bind (io_lift (rbind (yaml_load s) (traefik_config upstreams))) (\<lambda>config.
       ho_act h (Write_file (dir @ [''http_config.yml'']) (yaml_dump config))))"

definition traefik_docker_args :: "string list" where
  "traefik_docker_args =
     [''-p'', ''4984:4984'', ''-p'', ''4985:4985'', ''-v'', ''/home/ec2-user/traefik.yml:/etc/traefik/traefik.yml:ro'', ''-v'',
      ''/home/ec2-user/http_config.yml:/etc/traefik/http_config.yml:ro'']"

fun lb_main ::
    "(string \<Rightarrow> json result) \<Rightarrow> (json \<Rightarrow> string) \<Rightarrow> 'w host \<Rightarrow> ('w, 'k) remote \<Rightarrow> lb_config list \<Rightarrow> ('w, unit) io" where
  "lb_main yaml_load yaml_dump h rm [] = io_return ()"
| "lb_main yaml_load yaml_dump h rm (lb # rest) =
     (let dir = lb_dir rm
      in io_bind (create_traefik_config yaml_load yaml_dump h dir (lc_upstreams lb)) (\<lambda>_.
         io_bind (io_lift (get_ec2_hostname (lc_hostname lb))) (\<lambda>ec2_hostname.
         io_bind (io_lift (rm_key rm)) (\<lambda>key.
         io_bind (rm_connect rm key ec2_hostname) (\<lambda>_.
         io_bind (run_steps (exec_pty rm ec2_hostname) rm ec2_hostname
           [Put (dir @ [''configure-system.sh'']) ''/tmp/configure-system.sh'',
            Put (dir @ [''traefik.yml'']) ''/home/ec2-user/traefik.yml'',
            Put (dir @ [''http_config.yml'']) ''/home/ec2-user/http_config.yml'',
            Exec True ''bash /tmp/configure-system.sh'']) (\<lambda>_.
         io_bind (start_container rm ''traefik'' ''traefik:v3'' ec2_hostname key traefik_docker_args [] False) (\<lambda>_.
           lb_main yaml_load yaml_dump h rm rest)))))))"

definition logslurp_main :: "('w, 'k) remote \<Rightarrow> string option \<Rightarrow> ('w, unit) io" where
  "logslurp_main rm logslurp =
     (case logslurp of
        None \<Rightarrow> io_return ()
      | Some hostname \<Rightarrow>
          io_bind (io_lift (get_ec2_hostname hostname)) (\<lambda>ec2_hostname.
          io_bind (io_lift (rm_key rm)) (\<lambda>key.
          io_bind (rm_connect rm key ec2_hostname) (\<lambda>_.
          io_bind (run_steps (exec_pty rm ec2_hostname) rm ec2_hostname
            [Put (rm_aws rm @ [''logslurp_setup'', ''configure-system.sh'']) ''/tmp/configure-system.sh'',
             Exec True ''bash /tmp/configure-system.sh'']) (\<lambda>_.
            start_container rm ''logslurp'' ''public.ecr.aws/q8y4w9v7/couchbase/logslurp'' ec2_hostname key
              [''-p'', ''8180:8180''] [] False)))))"

section \<open>What the set-up guarantees\<close>

text \<open>
  A stopped container that is to be replaced is not removed: where the engine refuses the name of a
  container that exists, starting fails.
\<close>

lemma stopped_container_not_replaced:
  assumes "rm_connect rm key host w = (Inr (), w1)" "rm_exec rm host True (ps_command name) w1 = (Inr r, w2)"
    and "pr_code r = 0" "py_strip (pr_stdout r) \<noteq> []" "\<not> prefix ''Up'' (pr_stdout r)"
    and "rm_exec rm host True (run_command name img dargs cargs) w2 = (Inr refused, w3)" "pr_code refused \<noteq> 0"
  shows "start_container rm name img host key dargs cargs True w = (Inl PlainException, w3)"
  using assms by (simp add: start_container_def docker_exec_def docker_run_def io_bind_def Let_def)

text \<open>
  The certificates of an Edge Server: both the server's and the client's are signed by the key of the
  new authority, which is the only one that may sign, and each is for its own use.
\<close>

lemma edge_certificates_chain:
  assumes "create_edge_certificates cy hostname w = (Inr c, w')"
  shows "ct_signed_by (ckp_certificate (edc_server c)) = ct_key (ckp_certificate (edc_ca c))
    \<and> ct_signed_by (ckp_certificate (edc_client c)) = ct_key (ckp_certificate (edc_ca c))
    \<and> ct_signed_by (ckp_certificate (edc_ca c)) = ct_key (ckp_certificate (edc_ca c))
    \<and> ct_issuer (ckp_certificate (edc_server c)) = ct_subject (ckp_certificate (edc_ca c))
    \<and> ct_issuer (ckp_certificate (edc_client c)) = ct_subject (ckp_certificate (edc_ca c))
    \<and> ct_subject (ckp_certificate (edc_server c)) = hostname
    \<and> ct_ca (ckp_certificate (edc_ca c)) \<and> \<not> ct_ca (ckp_certificate (edc_server c)) \<and> \<not> ct_ca (ckp_certificate (edc_client c))
    \<and> ct_usages (ckp_certificate (edc_server c)) = [''SERVER_AUTH'']
    \<and> ct_usages (ckp_certificate (edc_client c)) = [''CLIENT_AUTH'']"
proof -
  from assms obtain u v where c: "create_cert cy ''EdgeTestCA'' None True [] 365 w = (Inr (edc_ca c), u)"
    "create_cert cy hostname (Some (edc_ca c)) False [''SERVER_AUTH''] 365 u = (Inr (edc_server c), v)"
    "create_cert cy ''test-client'' (Some (edc_ca c)) False [''CLIENT_AUTH''] 365 v = (Inr (edc_client c), w')"
    unfolding create_edge_certificates_def by (elim io_bind_InrE) (auto simp: io_return_def)
  show ?thesis
    using create_cert_Inr [OF c(1)] create_cert_Inr [OF c(2)] create_cert_Inr [OF c(3)] by simp
qed

text \<open>
  Every Edge Server writes its own authority and client to the same files: those that are found there
  afterwards belong to the last one.
\<close>

lemma client_files_overwritten:
  "map (\<lambda>a. case a of Write_file p s \<Rightarrow> p | Mkdir_existing p \<Rightarrow> p | _ \<Rightarrow> []) (client_certificate_files rm cy c)
     = map (\<lambda>a. case a of Write_file p s \<Rightarrow> p | Mkdir_existing p \<Rightarrow> p | _ \<Rightarrow> []) (client_certificate_files rm cy c')
   \<and> last (client_certificate_files rm cy c) = Write_file (rm_home rm @ [''.cbl_certs'', ''ca_cert.pem'']) (CertKeyPair_pem_bytes cy (edc_ca c))"
  by (simp add: client_certificate_files_def Let_def)

lemma int_str_nat_inj: "int_str (int m) = int_str (int n) \<longleftrightarrow> m = n"
proof
  assume "int_str (int m) = int_str (int n)"
  then have "unsigned_val (nat_str m) = unsigned_val (nat_str n)" by (simp add: int_str_def)
  then show "m = n" by (simp add: unsigned_val_nat_str)
qed simp

definition route_name :: "bool \<Rightarrow> nat \<Rightarrow> string" where
  "route_name admin i = (if admin then ''admin-'' else ''public-'') @ int_str (int i)"

lemma route_name_inj: "route_name a i = route_name b j \<longleftrightarrow> a = b \<and> i = j"
  by (auto simp: route_name_def int_str_nat_inj split: if_splits)

definition service_name :: "bool \<Rightarrow> nat \<Rightarrow> string" where
  "service_name admin i = ''sgw-'' @ route_name admin i"

lemma service_name_inj: "service_name a i = service_name b j \<longleftrightarrow> a = b \<and> i = j"
  by (simp add: service_name_def route_name_inj)

lemma add_upstreams_step:
  "add_upstreams i (u # us) (r, s) = add_upstreams (Suc i) us
     (d_set (d_set r (route_name False i) (create_router i False)) (route_name True i) (create_router i True),
      d_set (d_set s (service_name False i) (create_service False u)) (service_name True i) (create_service True u))"
  by (simp add: route_name_def service_name_def Let_def)

lemma earlier_routes_kept:
  "j < i \<Longrightarrow> map_of (fst (add_upstreams i us (r, s))) (route_name a j) = map_of r (route_name a j)
    \<and> map_of (snd (add_upstreams i us (r, s))) (service_name a j) = map_of s (service_name a j)"
proof (induction us arbitrary: i r s)
  case (Cons u us)
  then show ?case by (simp add: add_upstreams_step route_name_inj service_name_inj del: add_upstreams.simps(2))
qed simp

lemma route_added:
  "j < length us \<Longrightarrow> map_of (fst (add_upstreams i us (r, s))) (route_name a (i + j)) = Some (create_router (i + j) a)
    \<and> map_of (snd (add_upstreams i us (r, s))) (service_name a (i + j)) = Some (create_service a (us ! j))"
proof (induction us arbitrary: i j r s)
  case (Cons u us)
  show ?case
  proof (cases j)
    case 0
    then show ?thesis
      by (cases a) (simp_all add: add_upstreams_step earlier_routes_kept route_name_inj service_name_inj del: add_upstreams.simps(2))
  next
    case (Suc k)
    then show ?thesis
      using Cons.IH [of k "Suc i"] Cons.prems by (simp add: add_upstreams_step del: add_upstreams.simps(2))
  qed
qed simp

text \<open>The URL that a route of a configuration leads to.\<close>

definition routed_url :: "json \<Rightarrow> string \<Rightarrow> json result" where
  "routed_url config route =
     rbind (py_item config ''http'') (\<lambda>http.
     rbind (rbind (py_item http ''routers'') (\<lambda>rs. rbind (py_item rs route) (\<lambda>r. py_item r ''service''))) (\<lambda>service.
     rbind (case service of JStr s \<Rightarrow> Inr s | _ \<Rightarrow> Inl TypeError) (\<lambda>name.
     rbind (rbind (py_item http ''services'') (\<lambda>ss. rbind (py_item ss name) (\<lambda>s. py_item s ''loadBalancer''))) (\<lambda>lb.
     rbind (rbind (py_item lb ''servers'') list_of) (\<lambda>servers. rbind (py_nth servers 0) (\<lambda>s. py_item s ''url''))))))"



end
