(* ===== verification/Backend.thy ===== *)
theory Backend
  imports Provision TestClient
begin

text \<open>
  Starting and stopping an environment (\<open>environment/aws/start_backend.py\<close>, \<open>stop_backend.py\<close> and
  \<open>common/terraform.py\<close>): terraform, the steps that the flags select, the configuration that is written
  for the client, and what a stop destroys.  The state is the topology object with its SSH key and
  the world; processes and files belong to the host.
\<close>

section \<open>State and environment\<close>

record ('w, 'k) deployment =
  dy_topology :: topology
  dy_key :: "'k result"
  dy_world :: 'w

record ('w, 'k, 'key, 't, 'b) backend_env =
  be_host :: "'w host"
  be_remote :: "('w, 'k) remote"
  be_crypto :: "('w, 'key) crypto"
  be_platform :: "('w, 't, 'b) platform"
  be_initialize :: "('w, unit) io"
  be_get :: "string \<Rightarrow> ('w, unit) io"
  be_sleep :: "rat \<Rightarrow> 'w \<Rightarrow> 'w"
  be_read_key :: "string \<Rightarrow> 'k result"
  be_text :: "json \<Rightarrow> string"
  be_loads :: "string \<Rightarrow> json result"
  be_dumps :: "nat \<Rightarrow> json \<Rightarrow> string"
  be_yaml_load :: "string \<Rightarrow> json result"
  be_yaml_dump :: "json \<Rightarrow> string"
  be_isatty :: "'w \<Rightarrow> bool"
  be_confirm :: "('w, bool) io"

definition in_world :: "('w, 'a) io \<Rightarrow> (('w, 'k) deployment, 'a) io" where
  "in_world m b = (case m (dy_world b) of (r, w) \<Rightarrow> (r, b\<lparr>dy_world := w\<rparr>))"

text \<open>The directory of the scripts, and a process run in it.\<close>

definition script_dir :: "('w, 'k, 'key, 't, 'b) backend_env \<Rightarrow> path" where
  "script_dir env = rm_aws (be_remote env)"

definition run_in :: "'w host \<Rightarrow> path \<Rightarrow> string list \<Rightarrow> ('w, int) io" where
  "run_in h dir args =
     io_bind (ho_run h \<lparr> cm_args = args, cm_cwd = Some dir, cm_env = [] \<rparr>) (\<lambda>r. io_return (pr_code r))"

section \<open>Terraform\<close>

datatype output_type = RAW | JSON

definition terraform_output_command :: "string option \<Rightarrow> output_type option \<Rightarrow> string list" where
  "terraform_output_command name type =
     [''terraform'', ''output'']
     @ (case type of Some JSON \<Rightarrow> [''-json''] | Some RAW \<Rightarrow> [''-raw''] | None \<Rightarrow> [])
     @ (case name of Some n \<Rightarrow> if n = [] then [] else [n] | None \<Rightarrow> [])"

definition get_terraform_output ::
    "'w host \<Rightarrow> path \<Rightarrow> string option \<Rightarrow> output_type option \<Rightarrow> ('w, string) io" where
  "get_terraform_output h dir name type =
     io_bind (ho_run h \<lparr> cm_args = terraform_output_command name type, cm_cwd = Some dir, cm_env = [] \<rparr>) (\<lambda>r.
       if pr_code r \<noteq> 0 then io_raise RuntimeError else io_return (py_strip (pr_stdout r)))"

definition get_terraform_json ::
    "(string \<Rightarrow> json result) \<Rightarrow> 'w host \<Rightarrow> path \<Rightarrow> string option \<Rightarrow> ('w, json) io" where
  "get_terraform_json loads h dir name =
     io_bind (get_terraform_output h dir name (Some JSON)) (\<lambda>s. io_lift (loads s))"

text \<open>Reading the outputs sets the key of the topology last.\<close>

definition read_from_terraform_in ::
    "('w, 'k, 'key, 't, 'b) backend_env \<Rightarrow> path \<Rightarrow> (('w, 'k) deployment, unit) io" where
  "read_from_terraform_in env dir =
     io_bind (in_world (get_terraform_json (be_loads env) (be_host env) dir None)) (\<lambda>info b.
       case TopologyConfig_read_from_terraform (be_read_key env) (obj_of info) (dy_topology b) of
         (Inl e, t) \<Rightarrow> (Inl e, b\<lparr>dy_topology := t\<rparr>)
       | (Inr key, t) \<Rightarrow> (Inr (), b\<lparr>dy_topology := t, dy_key := Inr key\<rparr>))"

definition read_from_terraform :: "('w, 'k, 'key, 't, 'b) backend_env \<Rightarrow> (('w, 'k) deployment, unit) io" where
  "read_from_terraform env = read_from_terraform_in env (script_dir env)"

definition topology_has_aws_resources :: "topology \<Rightarrow> bool" where
  "topology_has_aws_resources t =
     (TopologyConfig_total_sgw_count t > 0 \<or> TopologyConfig_total_es_count t > 0
      \<or> TopologyConfig_total_cbs_count t > 0 \<or> TopologyConfig_total_lb_count t > 0
      \<or> TopologyConfig_wants_logslurp t)"

definition terraform_apply_command :: "topology \<Rightarrow> string list" where
  "terraform_apply_command t =
     [''terraform'', ''apply'',
      ''-var=server_count='' @ int_str (TopologyConfig_total_cbs_count t),
      ''-var=sgw_count='' @ int_str (int (TopologyConfig_total_sgw_count t)),
      ''-var=es_count='' @ int_str (int (TopologyConfig_total_es_count t)),
      ''-var=lb_count='' @ int_str (int (TopologyConfig_total_lb_count t)),
      ''-var=logslurp='' @ (if TopologyConfig_wants_logslurp t then ''true'' else ''false''),
      ''-auto-approve'']"

definition terraform_step ::
    "('w, 'k, 'key, 't, 'b) backend_env \<Rightarrow> string list \<Rightarrow> (('w, 'k) deployment, unit) io" where
  "terraform_step env args =
     io_bind (in_world (run_in (be_host env) (script_dir env) args)) (\<lambda>code.
       if code \<noteq> 0 then io_raise PlainException else io_return ())"

definition terraform_apply :: "('w, 'k, 'key, 't, 'b) backend_env \<Rightarrow> (('w, 'k) deployment, unit) io" where
  "terraform_apply env = (\<lambda>b.
     if \<not> topology_has_aws_resources (dy_topology b) then (Inr (), b)
     else io_bind (terraform_step env [''terraform'', ''init'']) (\<lambda>_.
          io_bind (terraform_step env (terraform_apply_command (dy_topology b))) (\<lambda>_.
          io_bind (read_from_terraform env) (\<lambda>_ b'.
            (Inr (), b'\<lparr>dy_world := be_sleep env 5 (dy_world b')\<rparr>)))) b)"

text \<open>Without credentials the user is asked for a login, when there is a terminal.\<close>

definition check_sts_status :: "('w, 'k, 'key, 't, 'b) backend_env \<Rightarrow> ('w, bool) io" where
  "check_sts_status env =
     io_bind (ho_run (be_host env) (command_of [''aws'', ''sts'', ''get-caller-identity''])) (\<lambda>r.
       if pr_code r = 0 then io_return True
       else io_bind (\<lambda>w. (Inr (be_isatty env w), w)) (\<lambda>tty.
         if \<not> tty then io_return False
         else io_bind (be_confirm env) (\<lambda>attempt_login.
           if \<not> attempt_login then io_return False
           else io_bind (ho_run (be_host env) (command_of [''aws'', ''sso'', ''login''])) (\<lambda>login.
                  io_return (pr_code login = 0)))))"

section \<open>The configuration for the client\<close>

definition cluster_entries :: "nat \<Rightarrow> cluster_config \<Rightarrow> json list" where
  "cluster_entries idx c =
     map (\<lambda>h. JObj [(''hostname'', JStr h), (''cluster_index'', JInt (int idx))]) (cc_public_hostnames c)"

definition sgw_entry :: "sgw_config \<Rightarrow> json" where
  "sgw_entry s =
     JObj [(''hostname'', JStr (sc_hostname s)), (''tls'', JBool True), (''cluster_index'', JInt (sc_cluster_index s))]"

definition es_entry :: "es_config \<Rightarrow> json" where
  "es_entry e = JObj [(''hostname'', JStr (ec_hostname e)), (''tls'', JBool True)]"

definition server_port :: "string \<Rightarrow> int" where
  "server_port platform = (if prefix ''dotnet'' platform then 5555 else if platform = ''js'' then 5173 else 8080)"

definition test_server_entry :: "test_server_config \<Rightarrow> json" where
  "test_server_entry ts =
     JObj ([(''url'', JStr (''http://'' @ tc_ip_address ts @ '':'' @ int_str (server_port (tc_platform ts))))]
       @ (case tc_dataset_version ts of Some v \<Rightarrow> if v = [] then [] else [(''dataset_version'', JStr v)] | None \<Rightarrow> [])
       @ (if tc_platform ts = ''js'' then [(''transport'', JStr ''ws'')] else []))"

definition written_keys :: "string list" where
  "written_keys = [''couchbase-servers'', ''sync-gateways'', ''edge-servers'', ''test-servers'', ''load-balancers'', ''logslurp'']"

text \<open>A section is written when there is something to write.\<close>

definition put_list :: "string \<Rightarrow> json list \<Rightarrow> bool \<Rightarrow> jdict \<Rightarrow> jdict" where
  "put_list key entries there d = (if there then d_set d key (JList entries) else d)"

definition put_logslurp :: "string option \<Rightarrow> jdict \<Rightarrow> jdict" where
  "put_logslurp logslurp d = (case logslurp of Some l \<Rightarrow> d_set d ''logslurp'' (JStr (l @ '':8180'')) | None \<Rightarrow> d)"

definition topology_sections :: "topology \<Rightarrow> jdict \<Rightarrow> jdict" where
  "topology_sections t config =
     (let d = foldl d_del config written_keys;
          d = put_list ''couchbase-servers''
                (concat (map (\<lambda>(idx, c). cluster_entries idx c) (enumerate 0 (tp_clusters t)))) (tp_clusters t \<noteq> []) d;
          d = put_list ''sync-gateways'' (map sgw_entry (tp_sgws t)) (tp_sgws t \<noteq> []) d;
          d = put_list ''edge-servers'' (map es_entry (tp_edge_servers t)) (tp_edge_servers t \<noteq> []) d;
          d = put_logslurp (tp_logslurp t) d;
          d = put_list ''test-servers'' (map test_server_entry (tp_test_servers t)) (tp_test_servers t \<noteq> []) d
      in put_list ''load-balancers'' (map (\<lambda>lb. JStr (lc_hostname lb)) (tp_lbs t)) (tp_lbs t \<noteq> []) d)"

text \<open>The text that is written to the output.\<close>

definition write_config ::
    "('w, 'k, 'key, 't, 'b) backend_env \<Rightarrow> path \<Rightarrow> topology \<Rightarrow> ('w, string) io" where
  "write_config env in_config_file t =
     io_bind (ho_read (be_host env) in_config_file) (\<lambda>s.
       io_lift (rbind (be_loads env s) (\<lambda>v. rbind (obj_of v) (\<lambda>config.
         Inr (be_dumps env 2 (JObj (topology_sections t config)))))))"

text \<open>The output file is opened, and so emptied, before the input is read.\<close>

definition write_to ::
    "('w, 'k, 'key, 't, 'b) backend_env \<Rightarrow> path \<Rightarrow> path option \<Rightarrow> topology \<Rightarrow> ('w, unit) io" where
  "write_to env tdk_config_in tdk_config_out t =
     (case tdk_config_out of
        None \<Rightarrow> io_bind (write_config env tdk_config_in t) (\<lambda>_. io_return ())
      | Some out \<Rightarrow>
          io_bind (ho_act (be_host env) (Write_file out [])) (\<lambda>_.
          io_bind (write_config env tdk_config_in t) (\<lambda>s. ho_act (be_host env) (Write_file out s))))"

section \<open>Starting\<close>

datatype backend_step =
    TERRAFORM_APPLY
  | CBS_PROVISION
  | SGW_PROVISION
  | ES_PROVISION
  | LB_PROVISION
  | LS_PROVISION
  | TS_RUN

text \<open>A flag value is the set of its members.\<close>

type_synonym backend_steps = "backend_step set"

definition BackendSteps_ALL :: backend_steps where
  "BackendSteps_ALL =
     {TERRAFORM_APPLY, CBS_PROVISION, SGW_PROVISION, ES_PROVISION, LB_PROVISION, LS_PROVISION, TS_RUN}"

text \<open>A stage works on the machines of the topology, with its key.\<close>

definition stage ::
    "backend_steps \<Rightarrow> backend_step \<Rightarrow> ('w, 'k, 'key, 't, 'b) backend_env
      \<Rightarrow> (('w, 'k) remote \<Rightarrow> topology \<Rightarrow> ('w, unit) io) \<Rightarrow> (('w, 'k) deployment, unit) io" where
  "stage steps step env m = (\<lambda>b.
     if step \<in> steps then in_world (m ((be_remote env)\<lparr>rm_key := dy_key b\<rparr>) (dy_topology b)) b else (Inr (), b))"

definition resolve_test_servers ::
    "('w, 'k, 'key, 't, 'b) backend_env \<Rightarrow> (('w, 'k) deployment, unit) io" where
  "resolve_test_servers env = (\<lambda>b.
     case TopologyConfig_resolve_test_servers (be_platform env) (dy_topology b, dy_world b) of
       (r, t, w) \<Rightarrow> (r, b\<lparr>dy_topology := t, dy_world := w\<rparr>))"

text \<open>The part before the topology is complete; the result says whether to go on.\<close>

definition prepare_topology ::
    "('w, 'k, 'key, 't, 'b) backend_env \<Rightarrow> backend_steps \<Rightarrow> (('w, 'k) deployment, bool) io" where
  "prepare_topology env steps =
     (if TERRAFORM_APPLY \<in> steps
      then io_bind (in_world (check_sts_status env)) (\<lambda>ok.
             if \<not> ok then io_return False else io_bind (terraform_apply env) (\<lambda>_. io_return True))
      else io_bind (terraform_step env [''terraform'', ''init'']) (\<lambda>_ b.
             if \<not> topology_has_aws_resources (dy_topology b) then (Inr True, b)
             else io_bind (in_world (check_sts_status env)) (\<lambda>ok.
                    if \<not> ok then io_return False else io_bind (read_from_terraform env) (\<lambda>_. io_return True)) b))"

definition start_main ::
    "('w, 'k, 'key, 't, 'b) backend_env \<Rightarrow> path \<Rightarrow> path option \<Rightarrow> backend_steps \<Rightarrow> (('w, 'k) deployment, unit) io" where
  "start_main env tdk_config_in tdk_config_out steps =
     io_bind (prepare_topology env steps) (\<lambda>go_on.
       if \<not> go_on then io_return ()
       else
         io_bind (resolve_test_servers env) (\<lambda>_.
         io_bind (\<lambda>b. (map_sum id (\<lambda>_. ()) (TopologyConfig_dump (dy_topology b)), b)) (\<lambda>_.
         io_bind (stage steps CBS_PROVISION env (\<lambda>rm t. server_main rm (tp_clusters t))) (\<lambda>_.
         io_bind (stage steps SGW_PROVISION env (\<lambda>rm t.
           sgw_main (be_text env) (be_loads env) (be_dumps env 4) (be_host env) rm (tp_sgws t))) (\<lambda>_.
         io_bind (stage steps ES_PROVISION env (\<lambda>rm t.
           es_main (be_text env) (be_host env) rm (be_crypto env) (tp_edge_servers t))) (\<lambda>_.
         io_bind (stage steps LB_PROVISION env (\<lambda>rm t.
           lb_main (be_yaml_load env) (be_yaml_dump env) (be_host env) rm (tp_lbs t))) (\<lambda>_.
         io_bind (stage steps LS_PROVISION env (\<lambda>rm t. logslurp_main rm (tp_logslurp t))) (\<lambda>_.
         io_bind (stage steps TS_RUN env (\<lambda>rm t.
           TopologyConfig_run_test_servers (be_platform env) (be_get env) (be_sleep env) t)) (\<lambda>_ b.
           in_world (write_to env tdk_config_in tdk_config_out (dy_topology b)) b)))))))))"

record start_flags =
  no_terraform_apply :: bool
  no_cbs_provision :: bool
  no_sgw_provision :: bool
  no_es_provision :: bool
  no_lb_provision :: bool
  no_ls_provision :: bool
  no_ts_run :: bool

definition steps_of_flags :: "start_flags \<Rightarrow> backend_steps" where
  "steps_of_flags f =
     BackendSteps_ALL
     - (if no_terraform_apply f then {TERRAFORM_APPLY} else {})
     - (if no_cbs_provision f then {CBS_PROVISION} else {})
     - (if no_sgw_provision f then {SGW_PROVISION} else {})
     - (if no_es_provision f then {ES_PROVISION} else {})
     - (if no_lb_provision f then {LB_PROVISION} else {})
     - (if no_ls_provision f then {LS_PROVISION} else {})
     - (if no_ts_run f then {TS_RUN} else {})"

text \<open>
  The command ends the process with status 0 when its function returns, also when another script calls
  it; the entry for scripts with steps returns.
\<close>

datatype ending = Returned | Exited int

definition start_cli_entry ::
    "('w, 'k, 'key, 't, 'b) backend_env \<Rightarrow> path \<Rightarrow> path option \<Rightarrow> start_flags \<Rightarrow> (('w, 'k) deployment, ending) io" where
  "start_cli_entry env tdk_config_in tdk_config_out f =
     io_bind (start_main env tdk_config_in tdk_config_out (steps_of_flags f)) (\<lambda>_. io_return (Exited 0))"

definition script_entry ::
    "('w, 'k, 'key, 't, 'b) backend_env \<Rightarrow> path \<Rightarrow> path option \<Rightarrow> start_flags \<Rightarrow> backend_steps option
      \<Rightarrow> (('w, 'k) deployment, ending) io" where
  "script_entry env tdk_config_in tdk_config_out environment_flags steps =
     (case steps of
        Some s \<Rightarrow> io_bind (start_main env tdk_config_in tdk_config_out s) (\<lambda>_. io_return Returned)
      | None \<Rightarrow> start_cli_entry env tdk_config_in tdk_config_out environment_flags)"

section \<open>Stopping\<close>

datatype stop_step =
    DESTROY_SGW
  | DESTROY_CBS
  | DESTROY_ES
  | DESTROY_LB
  | DESTROY_LS
  | STOP_TS
  | FULL_DESTROY

record stop_flags =
  destroy_sgw :: bool
  sgw_index :: "int option"
  destroy_cbs :: bool
  destroy_es :: bool
  destroy_lb :: bool
  destroy_ls :: bool
  no_ts_stop :: bool
  no_full_destroy :: bool

definition has_specific_destroy :: "stop_flags \<Rightarrow> bool" where
  "has_specific_destroy f = (destroy_sgw f \<or> destroy_cbs f \<or> destroy_es f \<or> destroy_lb f \<or> destroy_ls f)"

definition stop_steps_of_flags :: "stop_flags \<Rightarrow> stop_step set" where
  "stop_steps_of_flags f =
     (if destroy_sgw f then {DESTROY_SGW} else {})
     \<union> (if destroy_cbs f then {DESTROY_CBS} else {})
     \<union> (if destroy_es f then {DESTROY_ES} else {})
     \<union> (if destroy_lb f then {DESTROY_LB} else {})
     \<union> (if destroy_ls f then {DESTROY_LS} else {})
     \<union> (if \<not> has_specific_destroy f \<and> \<not> no_full_destroy f then {FULL_DESTROY} else {})
     \<union> (if \<not> no_ts_stop f then {STOP_TS} else {})"

definition instance_target :: "string \<Rightarrow> int \<Rightarrow> string" where
  "instance_target resource i = ''-target=aws_instance.'' @ resource @ ''['' @ int_str i @ '']''"

definition all_targets :: "string \<Rightarrow> int \<Rightarrow> string list" where
  "all_targets resource n = map (instance_target resource) [0..n - 1]"

definition destroy_targets :: "stop_step set \<Rightarrow> int option \<Rightarrow> topology \<Rightarrow> string list" where
  "destroy_targets steps index t =
     (if DESTROY_SGW \<in> steps
      then case index of
             Some i \<Rightarrow> [instance_target ''sync_gateway'' i]
           | None \<Rightarrow> all_targets ''sync_gateway'' (int (TopologyConfig_total_sgw_count t))
      else [])
     @ (if DESTROY_CBS \<in> steps then all_targets ''couchbaseserver'' (TopologyConfig_total_cbs_count t) else [])
     @ (if DESTROY_ES \<in> steps then all_targets ''edge_server'' (int (TopologyConfig_total_es_count t)) else [])
     @ (if DESTROY_LB \<in> steps then all_targets ''load_balancer'' (int (TopologyConfig_total_lb_count t)) else [])
     @ (if DESTROY_LS \<in> steps \<and> TopologyConfig_wants_logslurp t
        then [''-target=aws_instance.log_slurp[\"log_slurp\"]''] else [])"

definition destroy_command :: "stop_step set \<Rightarrow> int option \<Rightarrow> topology \<Rightarrow> string list option" where
  "destroy_command steps index t =
     (let targets = destroy_targets steps index t
      in if targets \<noteq> [] then Some ([''terraform'', ''destroy'', ''-auto-approve''] @ targets)
         else if FULL_DESTROY \<notin> steps then None
         else Some [''terraform'', ''destroy'', ''-auto-approve''])"

text \<open>The result is the exit status; a failed destruction is reported and the test servers are stopped all the same.\<close>

definition stop_main ::
    "('w, 'k, 'key, 't, 'b) backend_env \<Rightarrow> stop_step set \<Rightarrow> int option \<Rightarrow> (('w, 'k) deployment, int) io" where
  "stop_main env steps index =
     io_bind (in_world (check_sts_status env)) (\<lambda>_.
     io_bind (if FULL_DESTROY \<in> steps then io_return () else read_from_terraform env) (\<lambda>_.
     io_bind (\<lambda>b. case destroy_command steps index (dy_topology b) of
                    None \<Rightarrow> (Inr 0, b)
                  | Some command \<Rightarrow> in_world (run_in (be_host env) (script_dir env) command) b) (\<lambda>code.
     io_bind (\<lambda>b. if STOP_TS \<in> steps
                  then in_world (TopologyConfig_stop_test_servers (be_initialize env) (be_platform env) (dy_topology b)) b
                  else (Inr (), b)) (\<lambda>_.
       io_return code))))"

definition stop_cli_entry ::
    "('w, 'k, 'key, 't, 'b) backend_env \<Rightarrow> stop_flags \<Rightarrow> (('w, 'k) deployment, int) io" where
  "stop_cli_entry env f =
     (if sgw_index f \<noteq> None \<and> \<not> destroy_sgw f then io_return 1
      else stop_main env (stop_steps_of_flags f) (sgw_index f))"

section \<open>The written configuration reads back\<close>

lemma mapM_append: "mapM f (xs @ ys) = rbind (mapM f xs) (\<lambda>a. rbind (mapM f ys) (\<lambda>b. Inr (a @ b)))"
  by (induction xs) (auto simp: rbind_assoc rbind_def split: sum.split)

lemma mapM_map_total: "(\<And>x. x \<in> set xs \<Longrightarrow> f (g x) = Inr (k x)) \<Longrightarrow> mapM f (map g xs) = Inr (map k xs)"
  by (induction xs) auto

lemma map_of_foldl_del: "map_of (foldl d_del d ks) k = (if k \<in> set ks then None else map_of d k)"
  by (induction ks arbitrary: d) auto

lemma map_of_put_list: "map_of (put_list key es b d) k = (if b \<and> k = key then Some (JList es) else map_of d k)"
  by (simp add: put_list_def)

lemma map_of_put_logslurp:
  "map_of (put_logslurp logslurp d) k =
     (if k = ''logslurp'' \<and> logslurp \<noteq> None then Some (JStr (the logslurp @ '':8180'')) else map_of d k)"
  by (cases logslurp) (simp_all add: put_logslurp_def)

lemma sections_lookup:
  "map_of (topology_sections t config) ''couchbase-servers'' =
     (if tp_clusters t = [] then None
      else Some (JList (concat (map (\<lambda>(idx, c). cluster_entries idx c) (enumerate 0 (tp_clusters t))))))"
  "map_of (topology_sections t config) ''sync-gateways'' =
     (if tp_sgws t = [] then None else Some (JList (map sgw_entry (tp_sgws t))))"
  "map_of (topology_sections t config) ''edge-servers'' =
     (if tp_edge_servers t = [] then None else Some (JList (map es_entry (tp_edge_servers t))))"
  "map_of (topology_sections t config) ''test-servers'' =
     (if tp_test_servers t = [] then None else Some (JList (map test_server_entry (tp_test_servers t))))"
  "map_of (topology_sections t config) ''load-balancers'' =
     (if tp_lbs t = [] then None else Some (JList (map (\<lambda>lb. JStr (lc_hostname lb)) (tp_lbs t))))"
  "map_of (topology_sections t config) ''logslurp'' = map_option (\<lambda>l. JStr (l @ '':8180'')) (tp_logslurp t)"
  by (simp_all add: topology_sections_def Let_def map_of_put_list map_of_put_logslurp map_of_foldl_del written_keys_def
      map_option_case split: option.split)

lemma sections_other:
  "k \<notin> set written_keys \<Longrightarrow> map_of (topology_sections t config) k = map_of config k"
  by (simp add: topology_sections_def Let_def map_of_put_list map_of_put_logslurp map_of_foldl_del written_keys_def)

text \<open>The client's reading of a section: each entry must be an object.\<close>

definition read_entries :: "(jdict \<Rightarrow> 'a result) \<Rightarrow> json \<Rightarrow> 'a list result" where
  "read_entries read v = rbind (list_of v) (mapM (\<lambda>e. rbind (obj_of e) read))"

lemma read_entries_map:
  assumes "\<And>x. rbind (obj_of (entry x)) read = Inr (f x)"
  shows "read_entries read (JList (map entry xs)) = Inr (map f xs)"
  by (simp add: read_entries_def list_of_def assms mapM_map_total)

definition section_list :: "jdict \<Rightarrow> string \<Rightarrow> json" where
  "section_list d key = (case map_of d key of Some v \<Rightarrow> v | None \<Rightarrow> JList [])"

lemma section_lists:
  "section_list (topology_sections t config) ''couchbase-servers'' =
     JList (concat (map (\<lambda>(idx, c). cluster_entries idx c) (enumerate 0 (tp_clusters t))))"
  "section_list (topology_sections t config) ''sync-gateways'' = JList (map sgw_entry (tp_sgws t))"
  "section_list (topology_sections t config) ''edge-servers'' = JList (map es_entry (tp_edge_servers t))"
  "section_list (topology_sections t config) ''test-servers'' = JList (map test_server_entry (tp_test_servers t))"
  "section_list (topology_sections t config) ''load-balancers'' = JList (map (\<lambda>lb. JStr (lc_hostname lb)) (tp_lbs t))"
  by (simp_all add: section_list_def sections_lookup)

lemma typed_section:
  assumes "section_list d key = JList xs"
  shows "get_typed_nonnull d key T_list (JList []) = Inr (JList xs)"
  using assms by (auto simp: section_list_def get_typed_nonnull_def get_typed_def split: option.splits)

text \<open>An input that the client's parser accepts is accepted with the sections of the topology.\<close>

lemma written_config_accepted:
  assumes "ParsedConfig_create config = Inr c0"
  shows "ParsedConfig_create (topology_sections t config) = Inr
    \<lparr> pc_test_servers = JList (map test_server_entry (tp_test_servers t)),
      pc_sync_gateways = JList (map sgw_entry (tp_sgws t)),
      pc_couchbase_servers = JList (concat (map (\<lambda>(idx, c). cluster_entries idx c) (enumerate 0 (tp_clusters t)))),
      pc_load_balancers = JList (map (\<lambda>lb. JStr (lc_hostname lb)) (tp_lbs t)),
      pc_edge_servers = JList (map es_entry (tp_edge_servers t)),
      pc_greenboard = pc_greenboard c0,
      pc_logslurp_url = map_option (\<lambda>l. l @ '':8180'') (tp_logslurp t) \<rparr>"
proof -
  let ?d = "topology_sections t config"
  have gb: "get_typed ?d ''greenboard'' T_dict = get_typed config ''greenboard'' T_dict"
    by (simp add: get_typed_def sections_other written_keys_def)
  have ls: "get_typed ?d ''logslurp'' T_str = Inr (map_option (\<lambda>l. JStr (l @ '':8180'')) (tp_logslurp t))"
    by (cases "tp_logslurp t") (simp_all add: get_typed_def sections_lookup)
  obtain gb where g: "get_typed config ''greenboard'' T_dict = Inr gb"
    "pc_greenboard c0 = (case gb of Some (JObj d) \<Rightarrow> Some d | _ \<Rightarrow> None)"
    "\<And>d. pc_greenboard c0 = Some d \<Longrightarrow> d_has d ''hostname'' \<and> d_has d ''username'' \<and> d_has d ''password''"
    using assms config_greenboard [OF assms] unfolding ParsedConfig_create_def Let_def
    by (elim rbind_InrE) auto
  show ?thesis
    using g gb ls
    by (simp add: ParsedConfig_create_def Let_def typed_section [OF section_lists(1)] typed_section [OF section_lists(2)]
        typed_section [OF section_lists(3)] typed_section [OF section_lists(4)] typed_section [OF section_lists(5)]
        split: option.split json.split)
qed

lemma sgw_entry_read:
  "rbind (obj_of (sgw_entry s)) SyncGatewayInfo_create = Inr
     \<lparr> sgi_hostname = sc_hostname s, sgi_port = JInt 4984, sgi_admin_port = JInt 4985, sgi_rbac_user = ''admin'',
       sgi_rbac_password = ''password'', sgi_uses_tls = True, sgi_cluster_index = JInt (sc_cluster_index s) \<rparr>"
  by (simp add: sgw_entry_def obj_of_def SyncGatewayInfo_create_def assert_string_entry_def get_int_or_default_def
      get_str_or_default_def get_bool_or_default_def d_has_def)

lemma es_entry_read:
  "rbind (obj_of (es_entry e)) (EdgeServerInfo_create (Inr repo)) = Inr
     \<lparr> esi_hostname = ec_hostname e, esi_admin_user = ''admin_user'', esi_admin_password = ''password'',
       esi_config_path = repo @ ''/environment/aws/es_setup/config/config.json'' \<rparr>"
  by (simp add: es_entry_def obj_of_def EdgeServerInfo_create_def assert_string_entry_def get_str_or_default_def d_has_def)

definition server_url :: "test_server_config \<Rightarrow> string" where
  "server_url ts = ''http://'' @ tc_ip_address ts @ '':'' @ int_str (server_port (tc_platform ts))"

definition dataset_of :: "test_server_config \<Rightarrow> string option" where
  "dataset_of ts = (case tc_dataset_version ts of Some v \<Rightarrow> if v = [] then None else Some v | None \<Rightarrow> None)"

lemma test_server_entry_read:
  "rbind (obj_of (test_server_entry ts)) TestServerInfo_create = Inr
     \<lparr> tsi_url = server_url ts, tsi_dataset_version = dataset_of ts \<rparr>"
  by (auto simp: test_server_entry_def obj_of_def TestServerInfo_create_def assert_string_entry_def get_typed_def d_has_def
      server_url_def dataset_of_def split: option.split)

definition node_info :: "nat \<Rightarrow> string \<Rightarrow> couchbase_server_info" where
  "node_info idx h = \<lparr> csi_hostname = h, csi_admin_user = ''Administrator'', csi_admin_password = ''password'',
     csi_cluster_index = JInt (int idx) \<rparr>"

lemma cluster_entries_read:
  "read_entries CouchbaseServerInfo_create (JList (concat (map (\<lambda>(idx, c). cluster_entries idx c) cs)))
     = Inr (concat (map (\<lambda>(idx, c). map (node_info idx) (cc_public_hostnames c)) cs))"
proof -
  have one: "rbind (obj_of e) CouchbaseServerInfo_create = Inr (node_info idx h)"
    if "e = JObj [(''hostname'', JStr h), (''cluster_index'', JInt (int idx))]" for e h idx
    using that by (simp add: obj_of_def CouchbaseServerInfo_create_def assert_string_entry_def get_int_or_default_def
        get_str_or_default_def d_has_def node_info_def)
  have "mapM (\<lambda>e. rbind (obj_of e) CouchbaseServerInfo_create) (concat (map (\<lambda>(idx, c). cluster_entries idx c) cs))
      = Inr (concat (map (\<lambda>(idx, c). map (node_info idx) (cc_public_hostnames c)) cs))"
    by (induction cs) (auto simp: mapM_append cluster_entries_def one mapM_map_total [where k = "node_info _"])
  then show ?thesis by (simp add: read_entries_def list_of_def)
qed

text \<open>
  C5. The configuration that is written for a topology says the same to the client as the topology: when
  the client's parser accepts the input configuration it accepts the written one, every entry of it can
  be read, and what is read are the nodes of each cluster under its position, the Sync Gateways with TLS
  and their cluster, the Edge Servers, the test servers with the port of their platform, the load
  balancers and LogSlurp; the Greenboard entry and every other key are those of the input.
\<close>

theorem written_config_read_back:
  assumes "ParsedConfig_create config = Inr c0"
  shows "\<exists>c. ParsedConfig_create (topology_sections t config) = Inr c
    \<and> read_entries CouchbaseServerInfo_create (pc_couchbase_servers c)
        = Inr (concat (map (\<lambda>(idx, c). map (node_info idx) (cc_public_hostnames c)) (enumerate 0 (tp_clusters t))))
    \<and> read_entries SyncGatewayInfo_create (pc_sync_gateways c) = Inr (map (\<lambda>s.
        \<lparr> sgi_hostname = sc_hostname s, sgi_port = JInt 4984, sgi_admin_port = JInt 4985, sgi_rbac_user = ''admin'',
          sgi_rbac_password = ''password'', sgi_uses_tls = True, sgi_cluster_index = JInt (sc_cluster_index s) \<rparr>) (tp_sgws t))
    \<and> map_sum id (map esi_hostname) (read_entries (EdgeServerInfo_create (Inr repo)) (pc_edge_servers c))
        = Inr (map ec_hostname (tp_edge_servers t))
    \<and> read_entries TestServerInfo_create (pc_test_servers c)
        = Inr (map (\<lambda>ts. \<lparr> tsi_url = server_url ts, tsi_dataset_version = dataset_of ts \<rparr>) (tp_test_servers t))
    \<and> pc_load_balancers c = JStrs (map lc_hostname (tp_lbs t))
    \<and> pc_logslurp_url c = map_option (\<lambda>l. l @ '':8180'') (tp_logslurp t)
    \<and> pc_greenboard c = pc_greenboard c0
    \<and> (\<forall>k. k \<notin> set written_keys \<longrightarrow> map_of (topology_sections t config) k = map_of config k)"
  unfolding written_config_accepted [OF assms]
  by (simp add: cluster_entries_read read_entries_map [where f = "\<lambda>s. \<lparr> sgi_hostname = sc_hostname s, sgi_port = JInt 4984,
        sgi_admin_port = JInt 4985, sgi_rbac_user = ''admin'', sgi_rbac_password = ''password'', sgi_uses_tls = True,
        sgi_cluster_index = JInt (sc_cluster_index s) \<rparr>", OF sgw_entry_read]
      read_entries_map [OF es_entry_read] read_entries_map [OF test_server_entry_read] JStrs_def sections_other comp_def)

section \<open>The client accepts what was deployed\<close>

lemma sum_enumerate: "concat (map (\<lambda>(idx, c). map (f idx) (g c)) (enumerate n cs)) = concat (map (\<lambda>k. map (f (n + k)) (g (cs ! k))) [0..<length cs])"
proof (induction cs arbitrary: n)
  case (Cons c cs)
  have "map (\<lambda>k. map (f (n + k)) (g ((c # cs) ! k))) [0..<length (c # cs)]
      = map (f n) (g c) # map (\<lambda>k. map (f (Suc n + k)) (g (cs ! k))) [0..<length cs]"
    by (simp add: upt_conv_Cons map_Suc_upt [symmetric] comp_def del: upt_Suc)
  then show ?case using Cons.IH [of "Suc n"] by simp
qed simp

lemma builds_when:
  assumes "fst ` set sgws = int ` {0..<n}" "fst ` set servers = int ` {0..<n}"
  shows "\<exists>clusters. ClusterBuilder_build (collect_entries sgws servers) = Inr clusters"
proof -
  let ?col = "\<lambda>es. foldl (\<lambda>d e. add_to d (fst e) (snd e)) [] es"
  have len: "length (?col es) = n \<and> contiguous (?col es)" if "fst ` set es = int ` {0..<n}" for es :: "(int \<times> 'x) list"
  proof -
    have wf: "distinct (map fst (?col es))" using d_wf_collected [of "[]" es] by (simp add: d_wf_def)
    have keys: "fst ` set (?col es) = int ` {0..<n}" using that collected_keys [of es] by simp
    have "length (?col es) = card (fst ` set (?col es))" using distinct_card [OF wf] by simp
    also have "\<dots> = n" unfolding keys by (simp add: card_image)
    finally have n: "length (?col es) = n" .
    have "d_has (?col es) (int i)" if "i < n" for i
      using that keys by (force simp: d_has_iff_keys d_keys_def)
    then show ?thesis using n by (auto simp: contiguous_def list_all_iff)
  qed
  let ?b = "collect_entries sgws servers"
  have b: "length (clb_sgw ?b) = n" "contiguous (clb_sgw ?b)" "length (clb_cbs ?b) = n" "contiguous (clb_cbs ?b)"
    using len [OF assms(1)] len [OF assms(2)] by (simp_all add: collect_entries_fields)
  have item: "d_item (?col es) (int i) = Inr (entries_at (int i) es) \<and> entries_at (int i) es \<noteq> []"
    if "fst ` set es = int ` {0..<n}" "i < n" for es :: "(int \<times> 'x) list" and i
  proof -
    have "entries_at (int i) es \<noteq> []" using that by (simp add: entries_at_empty)
    then show ?thesis by (simp add: d_item_def map_of_collected)
  qed
  have row: "rbind (if idx \<ge> length (clb_cbs ?b) then Inr [] else d_item (clb_cbs ?b) (int idx)) (\<lambda>servers.
         rbind (d_item (clb_sgw ?b) (int idx)) (\<lambda>sync_gateways. CouchbaseCluster_create sync_gateways servers))
       = Inr \<lparr> cl_gateways = \<lparr> gc_nodes = entries_at (int idx) sgws, gc_index = 0 \<rparr>, cl_servers = entries_at (int idx) servers \<rparr>"
    if "idx < n" for idx
    using that b(3) item [OF assms(1)] item [OF assms(2)]
    by (simp add: collect_entries_fields CouchbaseCluster_create_def SyncGatewayCluster_create_def)
  have "mapM (\<lambda>idx. rbind (if idx \<ge> length (clb_cbs ?b) then Inr [] else d_item (clb_cbs ?b) (int idx)) (\<lambda>servers.
         rbind (d_item (clb_sgw ?b) (int idx)) (\<lambda>sync_gateways. CouchbaseCluster_create sync_gateways servers)))
         [0..<length (clb_sgw ?b)] = Inr (map (\<lambda>idx. \<lparr> cl_gateways = \<lparr> gc_nodes = entries_at (int idx) sgws, gc_index = 0 \<rparr>,
           cl_servers = entries_at (int idx) servers \<rparr>) [0..<length (clb_sgw ?b)])"
    by (rule mapM_total) (use row b(1) in simp)
  then show ?thesis
    using b by (intro exI) (simp add: ClusterBuilder_build_def ClusterBuilder_validate_def)
qed

text \<open>The indices that the client reads for the nodes are those of the clusters that have nodes.\<close>

lemma node_indices:
  assumes "read_entries CouchbaseServerInfo_create (JList (concat (map (\<lambda>(idx, c). cluster_entries idx c) (enumerate 0 cs)))) = Inr infos"
    and "\<forall>c \<in> set cs. cc_public_hostnames c \<noteq> []"
  shows "(\<lambda>i. index_of (csi_cluster_index i)) ` set infos = int ` {0..<length cs}"
proof -
  have infos: "infos = concat (map (\<lambda>k. map (node_info k) (cc_public_hostnames (cs ! k))) [0..<length cs])"
    using assms(1) unfolding cluster_entries_read sum_enumerate by simp
  have "(\<lambda>i. index_of (csi_cluster_index i)) ` set (map (node_info k) (cc_public_hostnames (cs ! k))) = {int k}"
    if "k < length cs" for k
  proof -
    have "(\<lambda>i. index_of (csi_cluster_index i)) ` set (map (node_info k) hs) = (\<lambda>_. int k) ` set hs" for hs
      by (simp add: node_info_def index_of_def image_image)
    then show ?thesis using that assms(2) by (simp add: image_constant_conv)
  qed
  then have "(\<Union>k \<in> {0..<length cs}. (\<lambda>i. index_of (csi_cluster_index i)) ` set (map (node_info k) (cc_public_hostnames (cs ! k))))
      = (\<Union>k \<in> {0..<length cs}. {int k})" by (intro SUP_cong) simp_all
  also have "\<dots> = int ` {0..<length cs}" by (rule UNION_singleton_eq_range)
  finally show ?thesis unfolding infos by (simp add: image_UN)
qed

text \<open>
  C6. From the topology file to the clusters of a test: when every cluster has a node and terraform gave
  as many addresses as were asked for, the clusters that the client builds from the written
  configuration are accepted exactly when every cluster of the topology has a Sync Gateway.
\<close>

theorem deployed_clusters_accepted_iff:
  assumes "TopologyConfig_load files resolve fuel path p = Some (Inr t)"
    and "\<forall>c \<in> set (tp_cluster_inputs t). ci_server_count c \<ge> 1"
    and "length publics = sum_list (counts (tp_cluster_inputs t))" "length internals = length publics"
    and "length hosts = length (tp_sgw_inputs t)" "length sgw_internals = length hosts"
    and "\<forall>h \<in> set hosts. \<exists>x. get_ec2_hostname h = Inr x"
    and "TopologyConfig_apply_sgw_hostnames hosts sgw_internals
        (TopologyConfig_apply_server_hostnames publics internals t) = (Inr (), t')"
    and "ParsedConfig_create config = Inr c0" "ParsedConfig_create (topology_sections t' config) = Inr c"
    and "read_entries SyncGatewayInfo_create (pc_sync_gateways c) = Inr sgw_infos"
    and "read_entries CouchbaseServerInfo_create (pc_couchbase_servers c) = Inr cbs_infos"
    and "map fst gateways = map (\<lambda>i. index_of (sgi_cluster_index i)) sgw_infos"
    and "map fst servers = map (\<lambda>i. index_of (csi_cluster_index i)) cbs_infos"
  shows "(\<exists>clusters. ClusterBuilder_build (collect_entries gateways servers) = Inr clusters) \<longleftrightarrow>
    (\<forall>k < length (tp_cluster_inputs t). \<exists>s \<in> set (tp_sgw_inputs t). si_cluster_index s = int k)"
proof -
  let ?n = "length (tp_cluster_inputs t)"
  from placed_machines [OF assms(1-7)] assms(8) have t':
    "map (length \<circ> cc_public_hostnames) (tp_clusters t') = counts (tp_cluster_inputs t)"
    "length (tp_sgws t') = length hosts"
    "\<forall>i < length hosts. placed (tp_clusters t') (tp_sgw_inputs t ! i) (hosts ! i) (sgw_internals ! i) (tp_sgws t' ! i)"
    by auto
  have n: "length (tp_clusters t') = ?n" using arg_cong [OF t'(1), of length] by (simp add: counts_def)
  have nodes: "cc_public_hostnames x \<noteq> []" if "x \<in> set (tp_clusters t')" for x
  proof -
    have "length (cc_public_hostnames x) \<in> set (counts (tp_cluster_inputs t))" using that by (simp flip: t'(1))
    then show ?thesis using assms(2) by (auto simp: counts_def)
  qed
  have c: "pc_sync_gateways c = JList (map sgw_entry (tp_sgws t'))"
    "pc_couchbase_servers c = JList (concat (map (\<lambda>(idx, c). cluster_entries idx c) (enumerate 0 (tp_clusters t'))))"
    using assms(10) unfolding written_config_accepted [OF assms(9)] by auto
  have sgw_infos: "map (\<lambda>i. index_of (sgi_cluster_index i)) sgw_infos = map sc_cluster_index (tp_sgws t')"
    using assms(11) unfolding c read_entries_map [where read = SyncGatewayInfo_create, OF sgw_entry_read]
    by (auto simp: index_of_def)
  have "map sc_cluster_index (tp_sgws t') = map si_cluster_index (tp_sgw_inputs t)"
    using t'(2,3) assms(5) by (auto simp: list_eq_iff_nth_eq placed_def)
  then have g: "fst ` set gateways = si_cluster_index ` set (tp_sgw_inputs t)"
    using assms(13) sgw_infos by (metis list.set_map)
  have s: "fst ` set servers = int ` {0..<?n}"
    using node_indices [OF assms(12) [unfolded c]] nodes n assms(14) by (metis list.set_map)
  have refs: "si_cluster_index ` set (tp_sgw_inputs t) \<subseteq> int ` {0..<?n}"
  proof
    fix i assume "i \<in> si_cluster_index ` set (tp_sgw_inputs t)"
    then have "0 \<le> i" "i < int ?n" using load_references [OF assms(1)] by (auto simp: references_ok_def list_all_iff)
    then show "i \<in> int ` {0..<?n}" by (auto intro: image_eqI [of _ _ "nat i"])
  qed
  show ?thesis
  proof
    assume "\<exists>clusters. ClusterBuilder_build (collect_entries gateways servers) = Inr clusters"
    then have "int ` {0..<?n} \<subseteq> si_cluster_index ` set (tp_sgw_inputs t)"
      using cluster_of_index g s by metis
    then show "\<forall>k < ?n. \<exists>s \<in> set (tp_sgw_inputs t). si_cluster_index s = int k" by fastforce
  next
    assume all: "\<forall>k < ?n. \<exists>s \<in> set (tp_sgw_inputs t). si_cluster_index s = int k"
    have "int k \<in> si_cluster_index ` set (tp_sgw_inputs t)" if "k < ?n" for k
      using all that by (metis image_eqI)
    then have "int ` {0..<?n} \<subseteq> si_cluster_index ` set (tp_sgw_inputs t)" by auto
    then have "fst ` set gateways = int ` {0..<?n}" using refs g by simp
    then show "\<exists>clusters. ClusterBuilder_build (collect_entries gateways servers) = Inr clusters"
      using s by (rule builds_when)
  qed
qed

section \<open>What a stop destroys\<close>

lemma int_str_inj: "int_str i = int_str j \<longleftrightarrow> i = j"
proof
  assume eq: "int_str i = int_str j"
  have digits: "CHR ''-'' \<notin> set (nat_str n)" for n using nat_str_digits [of "CHR ''-''" n] by (auto simp: is_digit_def)
  have nat_inj: "nat_str m = nat_str n \<Longrightarrow> m = n" for m n
    using unsigned_val_nat_str by (metis of_nat_eq_iff option.inject)
  have neq: "CHR ''-'' # xs \<noteq> nat_str n" for xs n using digits [of n] by (metis list.set_intros(1))
  show "i = j"
  proof (cases "i < 0"; cases "j < 0")
    assume "i < 0" "j < 0"
    then show ?thesis using eq nat_inj [of "nat (- i)" "nat (- j)"] by (simp add: int_str_def)
  next
    assume "\<not> i < 0" "\<not> j < 0"
    then show ?thesis using eq nat_inj [of "nat i" "nat j"] by (simp add: int_str_def)
  qed (use eq neq neq [symmetric] in \<open>simp_all add: int_str_def\<close>)
qed simp

lemma target_same: "instance_target r i = instance_target r j \<longleftrightarrow> i = j"
  by (simp add: instance_target_def int_str_inj)

lemma target_all: "instance_target r i \<in> set (all_targets r n) \<longleftrightarrow> 0 \<le> i \<and> i < n"
  by (auto simp: all_targets_def image_iff target_same)

lemma target_other:
  assumes "r \<noteq> r'" "CHR ''['' \<notin> set r" "CHR ''['' \<notin> set r'"
  shows "instance_target r i \<noteq> instance_target r' j" "instance_target r i \<notin> set (all_targets r' n)"
proof -
  have "takeWhile ((\<noteq>) (CHR ''['')) (x @ CHR ''['' # y) = x" if "CHR ''['' \<notin> set x" for x y
    using that by (induction x) auto
  then have "r = r'" if "r @ CHR ''['' # y = r' @ CHR ''['' # z" for y z using that assms(2,3) by metis
  then show ne: "instance_target r i \<noteq> instance_target r' j" for j using assms(1) by (auto simp: instance_target_def)
  then show "instance_target r i \<notin> set (all_targets r' n)" by (auto simp: all_targets_def)
qed


text \<open>Without credentials the start ends like a successful one, and no configuration is written.\<close>

lemma no_credentials_ends_normally:
  assumes "TERRAFORM_APPLY \<in> steps" "check_sts_status env (dy_world b) = (Inr False, w)"
  shows "start_main env cin cout steps b = (Inr (), b\<lparr>dy_world := w\<rparr>)"
  using assms by (simp add: start_main_def prepare_topology_def in_world_def io_bind_def)

text \<open>Writing the configuration over its own input loses it.\<close>

lemma config_over_itself_lost:
  assumes "ho_act (be_host env) (Write_file f []) w = (Inr (), w1)" "ho_read (be_host env) f w1 = (Inr [], w2)"
    and "be_loads env [] = Inl ValueError"
  shows "write_to env f (Some f) t w = (Inl ValueError, w2)"
  using assms by (simp add: write_to_def write_config_def io_bind_def)

text \<open>A script that calls the entry without steps does not get control back.\<close>

lemma entry_without_steps_ends_process:
  "script_entry env cin cout f None b = (Inr e, b') \<Longrightarrow> e = Exited 0"
  by (auto simp: script_entry_def start_cli_entry_def elim!: io_bind_InrE)

section \<open>Examples\<close>

theorem written_config_read_back_witness:
  "\<exists>t c. TopologyConfig_load sample_files (\<lambda>file include. include) 2 ''main'' None = Some (Inr t)
     \<and> ParsedConfig_create (topology_sections (t\<lparr>tp_edge_servers := [\<lparr> ec_version = ''1.0.0'', ec_hostname = ''e'',
          ec_internal_hostname = ''i'' \<rparr>]\<rparr>) [(''greenboard'', JNull)]) = Inr c
     \<and> map_sum id (map esi_hostname) (read_entries (EdgeServerInfo_create (Inr ''/repo'')) (pc_edge_servers c)) = Inr [''e'']"
proof -
  have input: "\<exists>c0. ParsedConfig_create [(''greenboard'', JNull)] = Inr c0"
    by (simp add: ParsedConfig_create_def get_typed_nonnull_def get_typed_def d_has_def)
  obtain t where t: "TopologyConfig_load sample_files (\<lambda>file include. include) 2 ''main'' None = Some (Inr t)"
    using sample_load by (elim exE conjE)
  let ?t = "t\<lparr>tp_edge_servers := [\<lparr> ec_version = ''1.0.0'', ec_hostname = ''e'', ec_internal_hostname = ''i'' \<rparr>]\<rparr>"
  from input obtain c0 where c0: "ParsedConfig_create [(''greenboard'', JNull)] = Inr c0" ..
  from written_config_read_back [OF c0, of ?t "''/repo''"] t show ?thesis
    by (elim exE conjE) (intro exI conjI, assumption+, simp)
qed

definition one_cluster_files :: "string \<Rightarrow> json result" where
  "one_cluster_files file =
     Inr (JObj [(''clusters'', JList [JObj [(''server_count'', JInt 1)]]),
                (''sync_gateways'', JList [JObj [(''cluster'', JInt 0)]])])"

lemma one_cluster_load:
  "\<exists>t. TopologyConfig_load one_cluster_files (\<lambda>file include. include) 1 ''t'' None = Some (Inr t)
     \<and> map ci_server_count (tp_cluster_inputs t) = [1] \<and> map si_cluster_index (tp_sgw_inputs t) = [0]"
  by (simp add: one_cluster_files_def read_config_def ConfigDefaults_create_def read_default_def
      DefaultProperty_create_def DefaultProperty_is_set_def raw_entries_def list_of_def obj_of_def read_cluster_def
      entry_version_def ClusterInput_create_def int_of_json_def d_has_def get_or_null_def d_item_def read_sgw_def
      read_tag_def result_simps)

definition sample_node :: couchbase_server where
  "sample_node = \<lparr> cb_hostname = ''s0'', cb_rest_port = 8091, cb_username = ''u'', cb_password = ''p'' \<rparr>"

theorem deployed_clusters_accepted_iff_witness:
  "\<exists>t t' clusters. TopologyConfig_load one_cluster_files (\<lambda>file include. include) 1 ''t'' None = Some (Inr t)
     \<and> TopologyConfig_apply_sgw_hostnames [''10.0.0.9''] [''9'']
        (TopologyConfig_apply_server_hostnames [''a''] [''1''] t) = (Inr (), t')
     \<and> ClusterBuilder_build (collect_entries (map (\<lambda>s. (sc_cluster_index s, sample_gateway (sc_hostname s) False)) (tp_sgws t'))
          (map (\<lambda>h. (0, sample_node)) (concat (map cc_public_hostnames (tp_clusters t'))))) = Inr clusters"
proof -
  obtain t where t: "TopologyConfig_load one_cluster_files (\<lambda>file include. include) 1 ''t'' None = Some (Inr t)"
    "map ci_server_count (tp_cluster_inputs t) = [1]" "map si_cluster_index (tp_sgw_inputs t) = [0]"
    using one_cluster_load by (elim exE conjE)
  obtain x where x: "tp_cluster_inputs t = [x]" "ci_server_count x = 1" using t(2) by (auto simp: map_eq_Cons_conv)
  obtain y where y: "tp_sgw_inputs t = [y]" "si_cluster_index y = 0" using t(3) by (auto simp: map_eq_Cons_conv)
  have cs: "\<forall>c \<in> set (tp_cluster_inputs t). ci_server_count c \<ge> 1"
    "length [''a''] = sum_list (counts (tp_cluster_inputs t))" "length [''1''] = length [''a'']"
    "length [''10.0.0.9''] = length (tp_sgw_inputs t)" "length [''9''] = length [''10.0.0.9'']"
    using x y by (simp_all add: counts_def)
  have h: "\<forall>h \<in> set [''10.0.0.9'']. \<exists>x. get_ec2_hostname h = Inr x" by (simp add: get_ec2_hostname_def)
  obtain t' where t': "TopologyConfig_apply_sgw_hostnames [''10.0.0.9''] [''9'']
        (TopologyConfig_apply_server_hostnames [''a''] [''1''] t) = (Inr (), t')"
    "map (length \<circ> cc_public_hostnames) (tp_clusters t') = counts (tp_cluster_inputs t)"
    using placed_machines [OF t(1) cs(1-5) h] by auto
  obtain k where k: "tp_clusters t' = [k]" "length (cc_public_hostnames k) = 1"
    using t'(2) x by (auto simp: counts_def map_eq_Cons_conv)
  have input: "\<exists>c0. ParsedConfig_create [] = Inr c0"
    by (simp add: ParsedConfig_create_def get_typed_nonnull_def get_typed_def d_has_def)
  then obtain c0 where c0: "ParsedConfig_create [] = Inr c0" ..
  let ?gateways = "map (\<lambda>s. (sc_cluster_index s, sample_gateway (sc_hostname s) False)) (tp_sgws t')"
  let ?servers = "map (\<lambda>h. (0 :: int, sample_node)) (concat (map cc_public_hostnames (tp_clusters t')))"
  obtain c where c: "ParsedConfig_create (topology_sections t' []) = Inr c"
    "pc_sync_gateways c = JList (map sgw_entry (tp_sgws t'))"
    "pc_couchbase_servers c = JList (concat (map (\<lambda>(idx, c). cluster_entries idx c) (enumerate 0 (tp_clusters t'))))"
    using written_config_accepted [OF c0] by auto
  have sgw: "read_entries SyncGatewayInfo_create (pc_sync_gateways c) = Inr (map (\<lambda>s.
      \<lparr> sgi_hostname = sc_hostname s, sgi_port = JInt 4984, sgi_admin_port = JInt 4985, sgi_rbac_user = ''admin'',
        sgi_rbac_password = ''password'', sgi_uses_tls = True, sgi_cluster_index = JInt (sc_cluster_index s) \<rparr>) (tp_sgws t'))"
    unfolding c(2) by (rule read_entries_map [OF sgw_entry_read])
  have cbs: "read_entries CouchbaseServerInfo_create (pc_couchbase_servers c) = Inr (map (node_info 0) (cc_public_hostnames k))"
    unfolding c(3) cluster_entries_read by (simp add: k)
  have keys: "map fst ?gateways = map (\<lambda>i. index_of (sgi_cluster_index i)) (map (\<lambda>s.
      \<lparr> sgi_hostname = sc_hostname s, sgi_port = JInt 4984, sgi_admin_port = JInt 4985, sgi_rbac_user = ''admin'',
        sgi_rbac_password = ''password'', sgi_uses_tls = True, sgi_cluster_index = JInt (sc_cluster_index s) \<rparr>) (tp_sgws t'))"
    "map fst ?servers = map (\<lambda>i. index_of (csi_cluster_index i)) (map (node_info 0) (cc_public_hostnames k))"
    by (simp_all add: index_of_def node_info_def comp_def k)
  have "\<exists>clusters. ClusterBuilder_build (collect_entries ?gateways ?servers) = Inr clusters"
    using deployed_clusters_accepted_iff [OF t(1) cs(1-5) h t'(1) c0 c(1) sgw cbs keys] x y by simp
  with t(1) t'(1) show ?thesis by blast
qed


end
