(* ===== verification/Tools.thy ===== *)
theory Tools
  imports Bridges
begin

text \<open>
  Downloading a tool for the tests (\<open>environment/aws/download_tool.py\<close>): the name of the package for the
  operating system and the processor, the version that is remembered beside the tool, and the
  steps of a download.  The processor, the search in a directory and changing a mode are parameters.
\<close>

section \<open>Names\<close>

definition tool_os :: "string \<Rightarrow> string result" where
  "tool_os system =
     (let s = py_lower system
      in if prefix ''win'' s then Inr ''windows''
         else if s = ''darwin'' then Inr ''macos''
         else if s = ''linux'' then Inr ''linux''
         else Inl RuntimeError)"

definition tool_arch :: "string \<Rightarrow> string \<Rightarrow> string result" where
  "tool_arch machine os =
     (let m = py_lower machine
      in if m \<in> {''x86_64'', ''amd64''} then Inr (if os = ''windows'' then ''amd64'' else ''x86_64'')
         else if m \<in> {''aarch64'', ''arm64''} then Inr (if os = ''linux'' then ''aarch64'' else ''arm64'')
         else Inl RuntimeError)"

definition tool_ext :: "string \<Rightarrow> string" where
  "tool_ext os = (if os = ''linux'' then ''tar.gz'' else ''zip'')"

definition tool_url :: "string \<Rightarrow> string \<Rightarrow> string \<Rightarrow> string \<Rightarrow> string" where
  "tool_url version os arch ext =
     ''https://packages.couchbase.com/releases/'' @ version @ ''/couchbase-server-dev-tools-'' @ version @ ''-'' @ os
       @ ''_'' @ arch @ ''.'' @ ext"

section \<open>The download\<close>

text \<open>
  \<open>tl_aws\<close> is the directory of the script and \<open>tl_tests\<close> the directory \<open>tests\<close> of the repository.  A
  request that fails raises before the file is opened.
\<close>

record 'w tool_env =
  tl_machine :: string
  tl_aws :: path
  tl_tests :: path
  tl_rglob :: "path \<Rightarrow> string \<Rightarrow> ('w, path list) io"
  tl_make_executable :: "path \<Rightarrow> ('w, unit) io"

definition tool_dir :: "'w tool_env \<Rightarrow> path" where
  "tool_dir env = tl_tests env @ [''.tools'', ''cbbackupmgr'']"

definition tmp_location :: "'w tool_env \<Rightarrow> path" where
  "tmp_location env = tl_aws env @ [''.tmp'']"

definition tool_name :: "string \<Rightarrow> string" where
  "tool_name os = (if os = ''windows'' then ''cbbackupmgr.exe'' else ''cbbackupmgr'')"

definition extract_archive :: "path \<Rightarrow> host_action" where
  "extract_archive location = (if suffix ''.zip'' (last location) then Unzip else Untar) location (butlast location)"

text \<open>\<open>p.unlink(missing_ok=True)\<close>.\<close>

definition unlink_if_there :: "'w host \<Rightarrow> path \<Rightarrow> ('w, unit) io" where
  "unlink_if_there h p = io_bind (io_exists h p) (\<lambda>there. if there then ho_act h (Unlink p) else io_return ())"

text \<open>The tool counts as there when the remembered version is the one asked for and the file exists.\<close>

definition tool_there :: "'w host \<Rightarrow> path \<Rightarrow> string \<Rightarrow> string \<Rightarrow> ('w, bool) io" where
  "tool_there h dest_dir dest_name version =
     io_bind (io_exists h (dest_dir @ [''.version''])) (\<lambda>marked.
       if \<not> marked then io_return False
       else io_bind (ho_read h (dest_dir @ [''.version''])) (\<lambda>s.
            io_bind (io_exists h (dest_dir @ [dest_name])) (\<lambda>there.
              io_return (py_strip s = version \<and> there))))"

definition first_file :: "'w host \<Rightarrow> path list \<Rightarrow> ('w, path) io" where
  "first_file h matches = (\<lambda>w.
     case find (\<lambda>p. ho_is_file h p w) matches of Some p \<Rightarrow> (Inr p, w) | None \<Rightarrow> (Inl StopIteration, w))"

definition place_tool :: "'w host \<Rightarrow> 'w tool_env \<Rightarrow> string \<Rightarrow> path \<Rightarrow> ('w, unit) io" where
  "place_tool h env os location =
     io_bind (tl_rglob env (tmp_location env) (tool_name os)) (\<lambda>matches.
       if matches = [] then io_raise RuntimeError
       else io_bind (first_file h matches) (\<lambda>src_path.
            io_bind (io_acts h [Copy_file src_path location, Rmtree (tmp_location env)]) (\<lambda>_.
              if os = ''windows'' then io_return ()
              else io_try (tl_make_executable env location) (\<lambda>_. io_return ()))))"

definition download_cbbackupmgr :: "'w host \<Rightarrow> 'w tool_env \<Rightarrow> string \<Rightarrow> ('w, unit) io" where
  "download_cbbackupmgr h env version =
     io_bind (io_lift (tool_os (ho_system h))) (\<lambda>os.
     io_bind (io_lift (tool_arch (tl_machine env) os)) (\<lambda>arch.
       let ext = tool_ext os; dest_dir = tool_dir env; location = dest_dir @ [tool_name os];
           version_location = dest_dir @ [''.version'']; tmp_file = tmp_location env @ [''download.'' @ ext]
       in io_bind (tool_there h dest_dir (tool_name os) version) (\<lambda>there.
            if there then io_return ()
            else io_bind (unlink_if_there h version_location) (\<lambda>_.
                 io_bind (unlink_if_there h location) (\<lambda>_.
                 io_bind (io_acts h
                   [Mkdir_existing dest_dir, Download (tool_url version os arch ext) tmp_file, extract_archive tmp_file,
                    Unlink tmp_file, Write_file version_location version]) (\<lambda>_.
                 place_tool h env os location))))))"

datatype tool = BackupManager

definition download_tool :: "'w host \<Rightarrow> 'w tool_env \<Rightarrow> tool \<Rightarrow> string \<Rightarrow> ('w, unit) io" where
  "download_tool h env name version =
     io_bind (ho_act h (Mkdir_existing (tmp_location env))) (\<lambda>_.
       case name of BackupManager \<Rightarrow> download_cbbackupmgr h env version)"

section \<open>Packages for every platform\<close>

text \<open>
  The archive's format follows its name: the package for Linux is unpacked by \<open>tar\<close>, every other by
  \<open>zip\<close>.
\<close>

lemma extract_by_name:
  assumes "tool_os system = Inr os"
  shows "extract_archive (dir @ [''download.'' @ tool_ext os])
    = (if os = ''linux'' then Untar else Unzip) (dir @ [''download.'' @ tool_ext os]) dir"
proof -
  have "os \<in> {''windows'', ''macos'', ''linux''}"
    using assms by (auto simp: tool_os_def Let_def split: if_splits)
  then show ?thesis by (auto simp: extract_archive_def tool_ext_def suffix_def)
qed

text \<open>
  The directory for unpacking is not emptied first: what an earlier run left there is taken for the new
  tool when the search finds it first.
\<close>

lemma stale_tool_taken:
  assumes "tl_rglob env (tmp_location env) (tool_name os) w = (Inr (stale # new), w)" "ho_is_file h stale w"
  shows "place_tool h env os location w
    = io_bind (io_acts h [Copy_file stale location, Rmtree (tmp_location env)])
        (\<lambda>_. if os = ''windows'' then io_return () else io_try (tl_make_executable env location) (\<lambda>_. io_return ())) w"
  using assms by (simp add: place_tool_def first_file_def io_bind_def)

text \<open>Once the tool is there in the version asked for, nothing is downloaded.\<close>

lemma tool_not_downloaded_again:
  assumes "tool_os (ho_system h) = Inr os" "tool_arch (tl_machine env) os = Inr arch"
    and "ho_exists h (tool_dir env @ [''.version'']) w" "ho_exists h (tool_dir env @ [tool_name os]) w"
    and "ho_read h (tool_dir env @ [''.version'']) w = (Inr s, w)" "py_strip s = version"
  shows "download_cbbackupmgr h env version w = (Inr (), w)"
  using assms by (simp add: download_cbbackupmgr_def tool_there_def io_exists_def io_bind_def Let_def)

end
