(* ===== verification/LocalEnv.thy ===== *)
theory LocalEnv
  imports Tools TestServers ConfigParser
begin

text \<open>
  The local environment (\<open>environment/local/start_local.py\<close>): the command line with what it refuses, the
  checkout and the build of Sync Gateway, a local Couchbase Server, the patched configurations and the
  test server.  Processes, requests and files belong to the host; splitting a URL and a shell word,
  and naming a temporary file, are parameters.
\<close>

section \<open>The command line\<close>

text \<open>\<open>--server\<close> is one of two names, or absent; a connection string has the source it came from.\<close>

datatype backing_store = Rosmar | Cbs

datatype parameter_source = COMMANDLINE | ENVIRONMENT

record local_options =
  lo_server :: "backing_store option"
  lo_connstr :: "string option"
  lo_connstr_source :: parameter_source
  lo_start_cbs :: bool
  lo_build_testserver :: "string option"
  lo_repo_path :: "string option"
  lo_git_tag :: "string option"
  lo_admin_user :: string
  lo_admin_password :: string
  lo_skip_testserver :: bool
  lo_skip_sync_gateway_build :: bool
  lo_skip_sync_gateway_start :: bool
  lo_stop_sync_gateway :: bool

text \<open>An empty string counts as absent.\<close>

definition given :: "string option \<Rightarrow> bool" where
  "given s = (s \<noteq> None \<and> s \<noteq> Some [])"

text \<open>\<open>netloc\<close> is \<open>urlsplit(s).netloc\<close>.\<close>

definition connstr_hosts :: "(string \<Rightarrow> string) \<Rightarrow> string \<Rightarrow> string list" where
  "connstr_hosts netloc connstr = split_on (CHR '','') (netloc connstr)"

definition parse_hostname :: "(string \<Rightarrow> string) \<Rightarrow> string \<Rightarrow> string" where
  "parse_hostname netloc connstr = hd (split_on (CHR '':'') (hd (connstr_hosts netloc connstr)))"

definition validate_single_node_connstr :: "(string \<Rightarrow> string) \<Rightarrow> string \<Rightarrow> unit result" where
  "validate_single_node_connstr netloc connstr =
     (if length (connstr_hosts netloc connstr) > 1 then Inl UsageError else Inr ())"

record credentials =
  cr_connstr :: "string option"
  cr_admin_user :: string
  cr_admin_password :: string

text \<open>
  What the options mean when they are accepted.  A connection string from the environment is dropped
  where one from the command line is refused.
\<close>

definition check_options :: "(string \<Rightarrow> string) \<Rightarrow> local_options \<Rightarrow> (backing_store \<times> credentials) result" where
  "check_options netloc o' =
     (case lo_server o' of
        None \<Rightarrow> Inl UsageError
      | Some server \<Rightarrow>
          let explicit = (lo_connstr_source o' = COMMANDLINE)
          in if given (lo_connstr o') \<and> server \<noteq> Cbs \<and> explicit then Inl UsageError
             else let connstr = (if given (lo_connstr o') \<and> server \<noteq> Cbs then None else lo_connstr o')
             in if lo_start_cbs o' \<and> server \<noteq> Cbs then Inl UsageError
             else if lo_start_cbs o' \<and> given connstr \<and> explicit then Inl UsageError
             else let creds = (if lo_start_cbs o'
                       then \<lparr> cr_connstr = None, cr_admin_user = ''Administrator'', cr_admin_password = ''password'' \<rparr>
                       else \<lparr> cr_connstr = connstr, cr_admin_user = lo_admin_user o', cr_admin_password = lo_admin_password o' \<rparr>)
             in rbind (case cr_connstr creds of
                         Some c \<Rightarrow> if c = [] then Inr () else validate_single_node_connstr netloc c
                       | None \<Rightarrow> Inr ()) (\<lambda>_.
                  if (\<not> lo_skip_sync_gateway_build o' \<or> lo_start_cbs o') \<and> given (lo_repo_path o') = given (lo_git_tag o')
                  then Inl UsageError
                  else Inr (server, creds)))"

section \<open>Files and processes\<close>

text \<open>
  \<open>le_dir\<close> is the directory of the script.  \<open>le_glob dir prefix\<close> are the files of a directory with a
  prefix and the suffix \<open>.json\<close>; \<open>le_temp\<close> names a new file; \<open>le_abspath\<close> and \<open>le_isdir\<close> belong to
  \<open>os.path\<close>; \<open>le_python\<close> is \<open>sys.executable\<close> and \<open>le_sys_platform\<close> is \<open>sys.platform\<close>; \<open>le_get\<close> is an
  authorised GET of JSON and \<open>le_shlex\<close> is \<open>shlex.split\<close>.
\<close>

record 'w local_env =
  le_dir :: path
  le_python :: string
  le_sys_platform :: string
  le_netloc :: "string \<Rightarrow> string"
  le_abspath :: "string \<Rightarrow> 'w \<Rightarrow> path"
  le_isdir :: "path \<Rightarrow> 'w \<Rightarrow> bool"
  le_glob :: "path \<Rightarrow> string \<Rightarrow> ('w, path list) io"
  le_temp :: "path \<Rightarrow> string \<Rightarrow> string \<Rightarrow> ('w, path) io"
  le_get :: "string \<Rightarrow> string \<Rightarrow> string \<Rightarrow> ('w, json) io"
  le_shlex :: "string \<Rightarrow> string list result"
  le_loads :: "string \<Rightarrow> json result"
  le_dumps :: "json \<Rightarrow> string"

definition sync_gateway_bin :: "'w local_env \<Rightarrow> path" where
  "sync_gateway_bin env = le_dir env @ [''sync_gateway'']"

definition sync_gateway_config_dir :: "'w local_env \<Rightarrow> path" where
  "sync_gateway_config_dir env = le_dir env @ [''sync_gateway_config'']"

fun sync_gateway_config :: "'w local_env \<Rightarrow> backing_store \<Rightarrow> path" where
  "sync_gateway_config env Rosmar = sync_gateway_config_dir env @ [''basic_sync_gateway_rosmar.json'']"
| "sync_gateway_config env Cbs = sync_gateway_config_dir env @ [''basic_sync_gateway_cbs.json'']"

definition topology_config_dir :: "'w local_env \<Rightarrow> path" where
  "topology_config_dir env = le_dir env @ [''topology_configs'']"

fun test_config :: "'w local_env \<Rightarrow> backing_store \<Rightarrow> path" where
  "test_config env Rosmar = topology_config_dir env @ [''rosmar_config.json'']"
| "test_config env Cbs = topology_config_dir env @ [''cbs_config.json'']"

text \<open>\<open>_run\<close>: a command that must succeed; its failure is an error of the command line.\<close>

definition run_cmd :: "'w host \<Rightarrow> string list \<Rightarrow> path option \<Rightarrow> ('w, unit) io" where
  "run_cmd h cmd cwd =
     io_bind (ho_run h \<lparr> cm_args = cmd, cm_cwd = cwd, cm_env = [] \<rparr>) (\<lambda>r.
       if pr_code r \<noteq> 0 then io_raise ClickException else io_return ())"

fun run_cmds :: "'w host \<Rightarrow> (string list \<times> path option) list \<Rightarrow> ('w, unit) io" where
  "run_cmds h [] = io_return ()"
| "run_cmds h ((cmd, cwd) # rest) = io_bind (run_cmd h cmd cwd) (\<lambda>_. run_cmds h rest)"

section \<open>Sync Gateway\<close>

definition repo_url :: string where
  "repo_url = ''https://github.com/couchbase/sync_gateway.git''"

definition resolve_sync_gateway_repo_dir ::
    "'w host \<Rightarrow> 'w local_env \<Rightarrow> string option \<Rightarrow> string option \<Rightarrow> ('w, path) io" where
  "resolve_sync_gateway_repo_dir h env repo_path git_tag =
     (if given repo_path = given git_tag then io_raise ValueError
      else if given repo_path
      then (\<lambda>w. let repo_dir = le_abspath env (the repo_path) w
                in if le_isdir env repo_dir w then (Inr repo_dir, w) else (Inl FileNotFoundError, w))
      else let repo_dir = le_dir env @ [''sync_gateway_clone'']
           in io_bind (io_exists h repo_dir) (\<lambda>there.
              io_bind (if there then io_return () else run_cmd h [''git'', ''clone'', repo_url, path_str repo_dir] None) (\<lambda>_.
              io_bind (run_cmds h
                [([''git'', ''fetch'', ''--all'', ''--tags''], Some repo_dir),
                 ([''git'', ''reset'', ''--hard''], Some repo_dir),
                 ([''git'', ''checkout'', the git_tag], Some repo_dir)]) (\<lambda>_. io_return repo_dir))))"

definition build_sync_gateway :: "'w host \<Rightarrow> 'w local_env \<Rightarrow> path \<Rightarrow> ('w, string) io" where
  "build_sync_gateway h env repo_dir =
     io_bind (run_cmd h [''go'', ''build'', ''-tags'', ''cb_sg_enterprise'', ''-o'', path_str (sync_gateway_bin env), ''.'']
       (Some repo_dir)) (\<lambda>_. io_return (path_str (sync_gateway_bin env)))"

text \<open>The connection string in the file that the script writes: the first line that exports it.\<close>

definition connstr_export :: string where
  "connstr_export = ''export SG_TEST_COUCHBASE_SERVER_URL=''"

fun exported_connstr :: "'w local_env \<Rightarrow> string list \<Rightarrow> string option result" where
  "exported_connstr env [] = Inr None"
| "exported_connstr env (line # lines) =
     (if prefix connstr_export line
      then rbind (le_shlex env (drop (length connstr_export) line)) (\<lambda>words.
           rbind (py_nth words 0) (\<lambda>s. Inr (Some s)))
      else exported_connstr env lines)"

text \<open>\<open>try: m finally: f\<close>: what the last part raises replaces the outcome.\<close>

definition io_finally :: "('w, 'a) io \<Rightarrow> ('w, unit) io \<Rightarrow> ('w, 'a) io" where
  "io_finally m f = (\<lambda>w. case m w of (r, w') \<Rightarrow>
     (case f w' of (Inl e, w'') \<Rightarrow> (Inl e, w'') | (Inr _, w'') \<Rightarrow> (r, w'')))"

definition start_cbs_cluster :: "'w host \<Rightarrow> 'w local_env \<Rightarrow> path \<Rightarrow> ('w, string) io" where
  "start_cbs_cluster h env repo_dir =
     (let script = repo_dir @ [''integration-test'', ''start_cbs.py'']
      in io_bind (io_exists h script) (\<lambda>there.
         if \<not> there then io_raise ClickException
         else io_bind (le_temp env [] [] ''.env'') (\<lambda>env_file.
              io_bind (io_finally
                (io_bind (run_cmd h [le_python env, path_str script, ''--env-file'', path_str env_file] (Some (le_dir env))) (\<lambda>_.
                 io_bind (ho_read h env_file) (\<lambda>s. io_lift (exported_connstr env (splitlines s)))))
                (unlink_if_there h env_file)) (\<lambda>connstr.
                case connstr of Some c \<Rightarrow> io_return c | None \<Rightarrow> io_raise ClickException))))"

definition get_cbs_version :: "'w local_env \<Rightarrow> string \<Rightarrow> string \<Rightarrow> string \<Rightarrow> ('w, string) io" where
  "get_cbs_version env hostname admin_user admin_password =
     io_bind (le_get env (''http://'' @ hostname @ '':8091/pools'') admin_user admin_password) (\<lambda>v.
       io_lift (rbind (obj_of v) (\<lambda>d. rbind (str_item d ''implementationVersion'') (\<lambda>s. Inr (hd (split_on (CHR ''-'') s))))))"

text \<open>The template is patched, older patched files are removed and a new one is written.\<close>

definition unlink_all :: "path list \<Rightarrow> host_action list" where
  "unlink_all ps = map Unlink ps"

definition write_patched_json ::
    "'w host \<Rightarrow> 'w local_env \<Rightarrow> path \<Rightarrow> path \<Rightarrow> string \<Rightarrow> (json \<Rightarrow> json result) \<Rightarrow> ('w, path) io" where
  "write_patched_json h env template_path dir pre patch_fn =
     io_bind (ho_read h template_path) (\<lambda>s.
     io_bind (io_lift (rbind (le_loads env s) patch_fn)) (\<lambda>config.
     io_bind (le_glob env dir pre) (\<lambda>stale.
     io_bind (io_acts h (unlink_all stale)) (\<lambda>_.
     io_bind (le_temp env dir pre ''.json'') (\<lambda>f.
     io_bind (ho_act h (Write_file f (le_dumps env config))) (\<lambda>_. io_return f))))))"

text \<open>\<open>c[\"bootstrap\"].update(...)\<close> and the patch of the first Couchbase Server.\<close>

definition patch_bootstrap :: "string \<Rightarrow> string \<Rightarrow> string \<Rightarrow> json \<Rightarrow> json result" where
  "patch_bootstrap connstr admin_user admin_password c =
     rbind (obj_of c) (\<lambda>d.
     rbind (d_item d ''bootstrap'') (\<lambda>v.
     rbind (obj_of v) (\<lambda>b.
       Inr (JObj (d_set d ''bootstrap'' (JObj (d_update b
         [(''server'', JStr connstr), (''username'', JStr admin_user), (''password'', JStr admin_password)])))))))"

definition patch_topology :: "string \<Rightarrow> string \<Rightarrow> string \<Rightarrow> json \<Rightarrow> json result" where
  "patch_topology connstr admin_user admin_password c =
     rbind (obj_of c) (\<lambda>d.
     rbind (d_item d ''couchbase-servers'') (\<lambda>v.
     rbind (list_of v) (\<lambda>servers.
     rbind (py_nth servers 0) (\<lambda>first.
     rbind (obj_of first) (\<lambda>cbs.
       Inr (JObj (d_set d ''couchbase-servers'' (JList (JObj (d_update cbs
         [(''hostname'', JStr connstr), (''admin_user'', JStr admin_user), (''admin_password'', JStr admin_password)])
           # tl servers)))))))))"

text \<open>The server whose version decides which backup manager is downloaded.\<close>

definition cbs_of_test_config :: "json \<Rightarrow> couchbase_server_info result" where
  "cbs_of_test_config c =
     rbind (obj_of c) (\<lambda>d.
     rbind (d_item d ''couchbase-servers'') (\<lambda>v.
     rbind (list_of v) (\<lambda>servers.
     rbind (py_nth servers 0) (\<lambda>first.
     rbind (obj_of first) CouchbaseServerInfo_create))))"

definition chosen_server :: "'w host \<Rightarrow> 'w local_env \<Rightarrow> credentials \<Rightarrow> ('w, string \<times> string \<times> string) io" where
  "chosen_server h env creds =
     (if given (cr_connstr creds)
      then io_return (parse_hostname (le_netloc env) (the (cr_connstr creds)), cr_admin_user creds, cr_admin_password creds)
      else io_bind (ho_read h (test_config env Cbs)) (\<lambda>s.
             io_lift (rbind (rbind (le_loads env s) cbs_of_test_config) (\<lambda>info.
               Inr (csi_hostname info, csi_admin_user info, csi_admin_password info)))))"

definition resolve_sync_gateway_config ::
    "'w host \<Rightarrow> 'w local_env \<Rightarrow> 'w tool_env \<Rightarrow> backing_store \<Rightarrow> credentials \<Rightarrow> ('w, path) io" where
  "resolve_sync_gateway_config h env tools server creds =
     (if server \<noteq> Cbs then io_return (sync_gateway_config env server)
      else io_bind (chosen_server h env creds) (\<lambda>(hostname, cbs_user, cbs_password).
           io_bind (get_cbs_version env hostname cbs_user cbs_password) (\<lambda>cbs_version.
           io_bind (download_tool h tools BackupManager cbs_version) (\<lambda>_.
             if given (cr_connstr creds)
             then write_patched_json h env (sync_gateway_config env Cbs) (sync_gateway_config_dir env) ''basic_sync_gateway_cbs_''
                    (patch_bootstrap (the (cr_connstr creds)) (cr_admin_user creds) (cr_admin_password creds))
             else io_return (sync_gateway_config env Cbs)))))"

definition sync_gateway_bridge :: "'w local_env \<Rightarrow> string list \<Rightarrow> exe_bridge" where
  "sync_gateway_bridge env args =
     \<lparr> eb_exe_path = sync_gateway_bin env, eb_extra_args = args, eb_log_filename = ''sync_gateway.log'' \<rparr>"

definition start_sync_gateway ::
    "'w host \<Rightarrow> 'w local_env \<Rightarrow> 'w tool_env \<Rightarrow> backing_store \<Rightarrow> credentials \<Rightarrow> ('w, unit) io" where
  "start_sync_gateway h env tools server creds =
     io_bind (resolve_sync_gateway_config h env tools server creds) (\<lambda>config_path.
       let bridge = sync_gateway_bridge env [path_str config_path]
       in io_bind (ExeBridge_stop h bridge ''localhost'') (\<lambda>_. ExeBridge_run h bridge ''localhost''))"

definition resolve_topology_config ::
    "'w host \<Rightarrow> 'w local_env \<Rightarrow> backing_store \<Rightarrow> credentials \<Rightarrow> ('w, path) io" where
  "resolve_topology_config h env server creds =
     (if server \<noteq> Cbs \<or> \<not> given (cr_connstr creds) then io_return (test_config env server)
      else write_patched_json h env (test_config env server) (topology_config_dir env) ''cbs_config_''
             (patch_topology (the (cr_connstr creds)) (cr_admin_user creds) (cr_admin_password creds)))"

section \<open>The test server\<close>

definition get_cbl_platform :: "string \<Rightarrow> string result" where
  "get_cbl_platform platform =
     (if platform = ''win32'' then Inr ''c_windows''
      else if platform = ''darwin'' then Inr ''c_macos''
      else if prefix ''linux'' platform then Inr ''c_linux_x86_64''
      else Inl PlainException)"

definition get_latest_released_cbl_c_version :: "'w host \<Rightarrow> ('w, string) io" where
  "get_latest_released_cbl_c_version h =
     io_bind (ho_get h ''http://proget.build.couchbase.com:8080/api/latest_release?product=couchbase-lite-c'') (\<lambda>v.
       io_lift (rbind (obj_of v) (\<lambda>d. str_item d ''version'')))"

definition test_server_input_dict :: "bool \<Rightarrow> string \<Rightarrow> string \<Rightarrow> jdict" where
  "test_server_input_dict download platform cbl_version =
     [(''test_servers'', JList [JObj
        [(''location'', JStr ''localhost''), (''download'', JBool download), (''platform'', JStr platform),
         (''cbl_version'', JStr cbl_version)]])]"

text \<open>Reading the topology cannot run out of depth: it includes nothing.\<close>

definition run_test_server ::
    "'w host \<Rightarrow> 'w local_env \<Rightarrow> (topology \<Rightarrow> ('w, unit) io) \<Rightarrow> string option \<Rightarrow> ('w, unit) io" where
  "run_test_server h env run_test_servers build_testserver =
     io_bind (if given build_testserver then io_return (the build_testserver @ ''-0'', False)
              else io_bind (get_latest_released_cbl_c_version h) (\<lambda>v. io_return (v, True))) (\<lambda>(cbl_version, download).
     io_bind (io_lift (get_cbl_platform (le_sys_platform env))) (\<lambda>platform.
       case TopologyConfig_of_dict (\<lambda>_. Inl FileNotFoundError) (\<lambda>_ i. i) 0
              (test_server_input_dict download platform cbl_version) of
         Some (Inr t) \<Rightarrow> run_test_servers t
       | Some (Inl e) \<Rightarrow> io_raise e
       | None \<Rightarrow> io_raise RecursionError))"

section \<open>The stages\<close>

text \<open>
  The jobs of the thread pool: each is run to its end, in any order, and its outcome is kept; the
  first failure in the order of submission is raised after all have ended.
\<close>

fun run_order :: "('w, string) io list \<Rightarrow> nat list \<Rightarrow> string result option list \<Rightarrow> 'w \<Rightarrow> string result option list \<times> 'w" where
  "run_order jobs [] outcomes w = (outcomes, w)"
| "run_order jobs (i # is) outcomes w =
     (case (jobs ! i) w of (r, w') \<Rightarrow> run_order jobs is (outcomes[i := Some r]) w')"

fun first_failure_of :: "string result option list \<Rightarrow> string list result" where
  "first_failure_of [] = Inr []"
| "first_failure_of (r # rs) =
     (case r of
        Some (Inr x) \<Rightarrow> rbind (first_failure_of rs) (\<lambda>xs. Inr (x # xs))
      | Some (Inl e) \<Rightarrow> Inl e
      | None \<Rightarrow> Inl RuntimeError)"

definition run_jobs :: "(nat \<Rightarrow> nat list) \<Rightarrow> ('w, string) io list \<Rightarrow> ('w, string list) io" where
  "run_jobs order jobs = (\<lambda>w.
     case run_order jobs (order (length jobs)) (replicate (length jobs) None) w of (outcomes, w') \<Rightarrow>
       (first_failure_of outcomes, w'))"

definition local_jobs ::
    "'w host \<Rightarrow> 'w local_env \<Rightarrow> (topology \<Rightarrow> ('w, unit) io) \<Rightarrow> local_options \<Rightarrow> path \<Rightarrow> ('w, string) io list" where
  "local_jobs h env run_test_servers o' repo_dir =
     (if lo_skip_testserver o' then []
      else [io_bind (run_test_server h env run_test_servers (lo_build_testserver o')) (\<lambda>_. io_return [])])
     @ (if lo_skip_sync_gateway_build o' then [] else [build_sync_gateway h env repo_dir])
     @ (if lo_start_cbs o' then [start_cbs_cluster h env repo_dir] else [])"

definition needs_repo :: "local_options \<Rightarrow> bool" where
  "needs_repo o' = (\<not> lo_skip_sync_gateway_build o' \<or> lo_start_cbs o')"

definition start_stages ::
    "'w host \<Rightarrow> 'w local_env \<Rightarrow> 'w tool_env \<Rightarrow> (topology \<Rightarrow> ('w, unit) io) \<Rightarrow> (nat \<Rightarrow> nat list) \<Rightarrow> local_options
      \<Rightarrow> backing_store \<Rightarrow> credentials \<Rightarrow> ('w, unit) io" where
  "start_stages h env tools run_test_servers order o' server creds =
     io_bind (if needs_repo o' then resolve_sync_gateway_repo_dir h env (lo_repo_path o') (lo_git_tag o')
              else io_return []) (\<lambda>repo_dir.
     io_bind (run_jobs order (local_jobs h env run_test_servers o' repo_dir)) (\<lambda>results.
       let creds = (if lo_start_cbs o' then creds\<lparr>cr_connstr := Some (last results)\<rparr> else creds)
       in io_bind (if lo_skip_sync_gateway_start o' then io_return ()
                   else start_sync_gateway h env tools server creds) (\<lambda>_.
          io_bind (resolve_topology_config h env server creds) (\<lambda>topology_config_path.
            ho_act h (Write_file (le_dir env @ [''topology_config'']) (path_str topology_config_path))))))"

definition local_main ::
    "'w host \<Rightarrow> 'w local_env \<Rightarrow> 'w tool_env \<Rightarrow> (topology \<Rightarrow> ('w, unit) io) \<Rightarrow> (nat \<Rightarrow> nat list) \<Rightarrow> local_options
      \<Rightarrow> ('w, unit) io" where
  "local_main h env tools run_test_servers order o' =
     (if lo_stop_sync_gateway o' then ExeBridge_stop h (sync_gateway_bridge env []) ''localhost''
      else io_bind (io_lift (check_options (le_netloc env) o')) (\<lambda>(server, creds).
             start_stages h env tools run_test_servers order o' server creds))"

section \<open>What the options mean\<close>

text \<open>Only a command line asks for the impossible: what the environment says is left aside instead.\<close>

lemma environment_connstr_ignored:
  assumes "lo_connstr_source o' = ENVIRONMENT" "lo_server o' = Some server" "server = Rosmar \<or> lo_start_cbs o'"
    and "given (lo_connstr o')"
  shows "check_options netloc o' = check_options netloc (o'\<lparr>lo_connstr := None\<rparr>)"
  using assms by (auto simp: check_options_def given_def Let_def)


section \<open>Both sides use the same server\<close>

lemma patch_bootstrap_entries:
  assumes "patch_bootstrap connstr user password c = Inr c'"
  shows "\<exists>d b. c' = JObj d \<and> map_of d ''bootstrap'' = Some (JObj b)
    \<and> map_of b ''server'' = Some (JStr connstr) \<and> map_of b ''username'' = Some (JStr user)
    \<and> map_of b ''password'' = Some (JStr password)"
  using assms by (auto simp: patch_bootstrap_def result_simps)

lemma typed_other:
  assumes "k \<noteq> k'"
  shows "get_typed (d_set d k' x) k ty = get_typed d k ty"
    "get_typed_nonnull (d_set d k' x) k ty v = get_typed_nonnull d k ty v"
  using assms by (simp_all add: get_typed_nonnull_def get_typed_def)




text \<open>
  The topology of the test server can be read, and asks for one server on this host: an existing
  version is downloaded, a version to be built is not.
\<close>

lemma local_test_server_read:
  "\<exists>t s. TopologyConfig_of_dict files resolve n (test_server_input_dict download platform v) = Some (Inr t)
     \<and> tp_test_server_inputs t = [s] \<and> ti_location s = ''localhost'' \<and> ti_cbl_version s = v \<and> ti_platform s = platform
     \<and> ti_download s = download"
  by (simp add: TopologyConfig_of_dict_def test_server_input_dict_def read_config_def ConfigDefaults_create_def
      read_default_def DefaultProperty_create_def raw_entries_def list_of_def obj_of_def read_test_server_def str_item_def
      d_item_def opt_str_key_def get_or_null_def read_tag_def d_has_def result_simps truthy_def)

end
