(* ===== verification/Pipelines.thy ===== *)
theory Pipelines
  imports Backend Tools
begin

text \<open>
  The scripts of the pipelines (\<open>jenkins/pipelines\<close>: \<open>shared/setup_test.py\<close>, \<open>QE/es/setup_test.py\<close>,
  \<open>QE/multiplatform/setup_test.py\<close>, \<open>QE/upg-sgw/update_sgw_version.py\<close> and
  \<open>dev_e2e/multipeer_functional/setup_test.py\<close>): they write a topology with the versions that were asked
  for and start it.  The rights on files, requests, the resolution of paths and the JSON files of the
  topology are parameters.
\<close>

section \<open>Versions\<close>

definition ts_to_topology :: "string \<Rightarrow> string result" where
  "ts_to_topology ts_platform =
     (if prefix ''swift'' ts_platform then Inr ''ios''
      else if ts_platform = ''jak_android'' then Inr ''android''
      else if prefix ''jak_'' ts_platform then Inr ''java''
      else if prefix ''dotnet_'' ts_platform then Inr ''dotnet''
      else if prefix ''c_'' ts_platform then Inr ''c''
      else if ts_platform = ''js'' then Inr ''js''
      else Inl ValueError)"

text \<open>\<open>fetch\<close> gives the status and the body of a GET.\<close>

definition resolved_version :: "(string \<Rightarrow> ('w, int \<times> json) io) \<Rightarrow> string \<Rightarrow> string \<Rightarrow> ('w, string) io" where
  "resolved_version fetch product version =
     (if length (split_on (CHR ''.'') version) \<ge> 3 then io_return version
      else io_bind (fetch (''http://proget.build.couchbase.com:8080/api/latest_release?product='' @ product @ ''&version=''
              @ version)) (\<lambda>(status, body).
             if status \<noteq> 200 then io_raise RuntimeError
             else io_lift (rbind (obj_of body) (\<lambda>d. str_item d ''version''))))"

fun resolved_versions :: "(string \<Rightarrow> ('w, int \<times> json) io) \<Rightarrow> string \<Rightarrow> string list \<Rightarrow> ('w, string list) io" where
  "resolved_versions fetch product [] = io_return []"
| "resolved_versions fetch product (v # vs) =
     io_bind (resolved_version fetch product v) (\<lambda>r.
     io_bind (resolved_versions fetch product vs) (\<lambda>rs. io_return (r # rs)))"

definition get_platform_version :: "(string, string) pydict \<Rightarrow> string \<Rightarrow> string result" where
  "get_platform_version version_map platform =
     (case map_of version_map platform of Some v \<Rightarrow> Inr v | None \<Rightarrow> Inl ValueError)"

definition parse_versions :: "string \<Rightarrow> string list" where
  "parse_versions value = filter (\<lambda>v. v \<noteq> []) (map py_strip (split_on (CHR '','') value))"

text \<open>What \<open>VersionType\<close> makes of an argument: a list stays as it is.\<close>

definition VersionType_convert :: "string + string list \<Rightarrow> string list" where
  "VersionType_convert value = (case value of Inl s \<Rightarrow> parse_versions s | Inr l \<Rightarrow> l)"

definition distribute_versions :: "string list \<Rightarrow> nat \<Rightarrow> string list result" where
  "distribute_versions versions count =
     (if versions = [] then Inl ValueError
      else Inr (map (\<lambda>i. versions ! min i (length versions - 1)) [0..<count]))"

section \<open>The topology that is written\<close>

text \<open>The entries of a list with a key set; those without a version stay.\<close>

fun assign_versions :: "string \<Rightarrow> json list \<Rightarrow> string list \<Rightarrow> json list result" where
  "assign_versions key (e # es) (v # vs) =
     rbind (obj_of e) (\<lambda>d.
     rbind (assign_versions key es vs) (\<lambda>rest. Inr (JObj (d_set d key (JStr v)) # rest)))"
| "assign_versions key es vs = Inr es"

definition distribute_over :: "string \<Rightarrow> string \<Rightarrow> string list \<Rightarrow> jdict \<Rightarrow> jdict result" where
  "distribute_over section_key key versions d =
     rbind (d_item d section_key) (\<lambda>v.
     rbind (list_of v) (\<lambda>entries.
     rbind (distribute_versions versions (length entries)) (\<lambda>assigned.
     rbind (assign_versions key entries assigned) (\<lambda>es. Inr (d_set d section_key (JList es))))))"

text \<open>
  An included default topology is named from the directory of the output, or absolutely.
  \<open>resolve dir p\<close> is \<open>(dir / p).resolve()\<close>; \<open>text\<close> is \<open>str\<close> of what is not a string.
\<close>

definition adjust_include ::
    "(json \<Rightarrow> string) \<Rightarrow> (path \<Rightarrow> string \<Rightarrow> path) \<Rightarrow> path \<Rightarrow> path \<Rightarrow> jdict \<Rightarrow> jdict" where
  "adjust_include text resolve topology_file_in topology_file_out d =
     (case map_of d ''include'' of
        None \<Rightarrow> d
      | Some v \<Rightarrow>
          let s = build_text text v
          in if \<not> suffix ''default_topology.json'' s \<or> prefix ''/'' s then d
             else let p = resolve (butlast topology_file_in) s; out_dir = butlast topology_file_out
                  in if prefix out_dir p
                     then d_set d ''include'' (JStr (join_with (CHR ''/'') (drop (length out_dir) p)))
                     else d_set d ''include'' (JStr (path_str p)))"

definition set_defaults :: "string \<Rightarrow> string \<Rightarrow> string \<Rightarrow> jdict \<Rightarrow> jdict" where
  "set_defaults cbs sgw tag d =
     d_set (d_set d ''defaults'' (JObj [(''cbs'', JObj [(''version'', JStr cbs)]), (''sgw'', JObj [(''version'', JStr sgw)])]))
       ''tag'' (JStr tag)"

definition set_schema :: "jdict \<Rightarrow> jdict" where
  "set_schema d = d_set d ''$schema'' (JStr ''topology_schema.json'')"

definition prepared_topology ::
    "(jdict \<Rightarrow> jdict) \<Rightarrow> string list \<Rightarrow> string list \<Rightarrow> string \<Rightarrow> string \<Rightarrow> jdict \<Rightarrow> jdict result" where
  "prepared_topology adjust cbl_versions sgw_versions cbs_version tag raw =
     (let d = set_defaults cbs_version (hd sgw_versions) tag (adjust (set_schema raw))
      in rbind (distribute_over ''test_servers'' ''cbl_version'' cbl_versions d) (\<lambda>d.
           if d_has d ''sync_gateways'' then distribute_over ''sync_gateways'' ''version'' sgw_versions d else Inr d))"

section \<open>Setting up a test\<close>

record file_access =
  fa_exists :: bool
  fa_is_file :: bool
  fa_readable :: bool
  fa_writable :: bool

text \<open>
  \<open>pl_root\<close> is the root of the repository.  \<open>pl_files\<close> is what the JSON files hold and \<open>pl_fuel\<close> bounds
  how deep they include each other.
\<close>

record ('w, 'k, 'key, 't, 'b) pipeline_env =
  pl_backend :: "('w, 'k, 'key, 't, 'b) backend_env"
  pl_tools :: "'w tool_env"
  pl_root :: path
  pl_access :: "path \<Rightarrow> 'w \<Rightarrow> file_access"
  pl_fetch :: "string \<Rightarrow> ('w, int \<times> json) io"
  pl_resolve :: "path \<Rightarrow> string \<Rightarrow> path"
  pl_files :: "'w \<Rightarrow> string \<Rightarrow> json result"
  pl_resolve_include :: "string \<Rightarrow> string \<Rightarrow> string"
  pl_fuel :: nat
  pl_flags :: start_flags

definition check_access ::
    "('w, 'k, 'key, 't, 'b) pipeline_env \<Rightarrow> path \<Rightarrow> path \<Rightarrow> path \<Rightarrow> path \<Rightarrow> 'w \<Rightarrow> bool" where
  "check_access env topology_file_in config_file_in topology_file_out config_file_out w =
     (let a = (\<lambda>p. pl_access env p w);
          input_ok = (\<lambda>p. fa_exists (a p) \<and> fa_is_file (a p) \<and> fa_readable (a p));
          dir_ok = (\<lambda>p. fa_exists (a (butlast p)) \<and> fa_writable (a (butlast p)));
          output_ok = (\<lambda>p. \<not> fa_exists (a p) \<or> fa_writable (a p))
      in input_ok topology_file_in \<and> input_ok config_file_in \<and> dir_ok topology_file_out \<and> dir_ok config_file_out
         \<and> output_ok topology_file_out \<and> output_ok config_file_out)"

definition read_json :: "('w, 'k, 'key, 't, 'b) pipeline_env \<Rightarrow> path \<Rightarrow> ('w, json) io" where
  "read_json env p = io_bind (ho_read (be_host (pl_backend env)) p) (\<lambda>s. io_lift (be_loads (pl_backend env) s))"

definition write_json :: "('w, 'k, 'key, 't, 'b) pipeline_env \<Rightarrow> path \<Rightarrow> nat \<Rightarrow> jdict \<Rightarrow> ('w, unit) io" where
  "write_json env p indent d =
     ho_act (be_host (pl_backend env)) (Write_file p (be_dumps (pl_backend env) indent (JObj d)))"

text \<open>A topology object from a file, and the start of the environment from it.\<close>

definition start_from_file ::
    "('w, 'k, 'key, 't, 'b) pipeline_env \<Rightarrow> path \<Rightarrow> path \<Rightarrow> path \<Rightarrow> ('w, ('w, 'k) deployment \<times> ending) io" where
  "start_from_file env topology_file config_in config_out = (\<lambda>w.
     case TopologyConfig_load (pl_files env w) (pl_resolve_include env) (pl_fuel env) (path_str topology_file) None of
       None \<Rightarrow> (Inl RecursionError, w)
     | Some (Inl e) \<Rightarrow> (Inl e, w)
     | Some (Inr t) \<Rightarrow>
         (case script_entry (pl_backend env) config_in (Some config_out) (pl_flags env) None
                 \<lparr> dy_topology = t, dy_key = Inl AttributeError, dy_world = w \<rparr> of
            (Inl e, b) \<Rightarrow> (Inl e, dy_world b)
          | (Inr r, b) \<Rightarrow> (Inr (b, r), dy_world b)))"

definition topology_out :: "('w, 'k, 'key, 't, 'b) pipeline_env \<Rightarrow> path" where
  "topology_out env = pl_root env @ [''environment'', ''aws'', ''topology_setup'', ''topology.json'']"

definition config_out :: "('w, 'k, 'key, 't, 'b) pipeline_env \<Rightarrow> string \<Rightarrow> path" where
  "config_out env setup_dir = pl_root env @ [''tests'', setup_dir, ''config.json'']"

definition setup_test ::
    "('w, 'k, 'key, 't, 'b) pipeline_env \<Rightarrow> string list \<Rightarrow> string list option \<Rightarrow> path \<Rightarrow> path \<Rightarrow> string \<Rightarrow> string
      \<Rightarrow> string \<Rightarrow> ('w, ('w, 'k) deployment \<times> ending) io" where
  "setup_test env cbl_versions sgw_versions topology_file_in config_file_in topology_tag couchbase_version setup_dir =
     (let out = topology_out env; config = config_out env setup_dir
      in io_bind (\<lambda>w. (py_assert (check_access env topology_file_in config_file_in out config w), w)) (\<lambda>_.
         io_bind (case sgw_versions of
                    None \<Rightarrow> io_return [''0.0.0'']
                  | Some vs \<Rightarrow> if vs = [] then io_raise ValueError else io_return vs) (\<lambda>sgws.
         io_bind (resolved_version (pl_fetch env) ''couchbase-server'' couchbase_version) (\<lambda>cbs.
         io_bind (resolved_versions (pl_fetch env) ''sync-gateway'' sgws) (\<lambda>resolved_sgws.
         io_bind (read_json env topology_file_in) (\<lambda>raw.
         io_bind (io_lift (rbind (obj_of raw)
           (prepared_topology (adjust_include (be_text (pl_backend env)) (pl_resolve env) topology_file_in out)
              cbl_versions resolved_sgws cbs topology_tag))) (\<lambda>d.
         io_bind (write_json env out 4 d) (\<lambda>_.
         io_bind (download_tool (be_host (pl_backend env)) (pl_tools env) BackupManager cbs) (\<lambda>_.
           start_from_file env out config_file_in config)))))))))"

section \<open>Edge Server\<close>

definition set_all :: "string \<Rightarrow> string \<Rightarrow> json list \<Rightarrow> json list result" where
  "set_all key version = mapM (\<lambda>e. rbind (obj_of e) (\<lambda>d. Inr (JObj (d_set d key (JStr version)))))"

definition set_section :: "string \<Rightarrow> string \<Rightarrow> jdict \<Rightarrow> jdict result" where
  "set_section section_key version d =
     rbind (d_item d section_key) (\<lambda>v. rbind (list_of v) (\<lambda>es. rbind (set_all ''version'' version es) (\<lambda>es'.
       Inr (d_set d section_key (JList es')))))"

definition set_section_if_given :: "string \<Rightarrow> string \<Rightarrow> jdict \<Rightarrow> jdict result" where
  "set_section_if_given section_key version d =
     (if truthy (get_or_null d section_key) then set_section section_key version d else Inr d)"

definition es_topology :: "string \<Rightarrow> string \<Rightarrow> string \<Rightarrow> jdict \<Rightarrow> jdict result" where
  "es_topology es_version sgw_version cbs_version raw =
     rbind (set_section ''edge_servers'' es_version (set_schema raw)) (\<lambda>d.
     rbind (set_section_if_given ''sync_gateways'' sgw_version d) (\<lambda>d.
       set_section_if_given ''clusters'' cbs_version d))"

definition generate_topology ::
    "('w, 'k, 'key, 't, 'b) pipeline_env \<Rightarrow> string \<Rightarrow> path \<Rightarrow> path \<Rightarrow> string \<Rightarrow> string \<Rightarrow> ('w, unit) io" where
  "generate_topology env es_version topology_in out_file sgw_version cbs_version =
     io_bind (read_json env topology_in) (\<lambda>raw.
     io_bind (io_lift (rbind (obj_of raw) (es_topology es_version sgw_version cbs_version))) (\<lambda>d.
     io_bind (ho_act (be_host (pl_backend env)) (Mkdir_existing (butlast out_file))) (\<lambda>_.
       write_json env out_file 2 d)))"

definition or_default :: "string option \<Rightarrow> string \<Rightarrow> string" where
  "or_default v dflt = (case v of Some s \<Rightarrow> if s = [] then dflt else s | None \<Rightarrow> dflt)"

definition es_setup_main ::
    "('w, 'k, 'key, 't, 'b) pipeline_env \<Rightarrow> string \<Rightarrow> path \<Rightarrow> string option \<Rightarrow> string option \<Rightarrow> string
      \<Rightarrow> ('w, ('w, 'k) deployment \<times> ending) io" where
  "es_setup_main env es_version topology_file sgw_version cbs_version config_file =
     io_bind (generate_topology env es_version topology_file (topology_out env) (or_default sgw_version ''4.0.0'')
        (or_default cbs_version ''7.6.8'')) (\<lambda>_.
       start_from_file env (topology_out env) (pl_root env @ [''jenkins'', ''pipelines'', ''QE'', ''es'', config_file])
         (config_out env ''QE''))"

section \<open>Several platforms\<close>

definition parse_platform_configs :: "string \<Rightarrow> (string, string) pydict" where
  "parse_platform_configs platform_configs =
     (if py_lower (py_strip platform_configs) = ''multiplatform'' then []
      else foldl (\<lambda>versions config.
             if CHR '':'' \<in> set config
             then let parts = split_on (CHR '':'') config in d_set versions (py_lower (parts ! 0)) (parts ! 1)
             else versions) [] (split_ws platform_configs))"

text \<open>A template of a version is replaced by the version of its platform.\<close>

definition platform_templates :: "(string \<times> string \<times> string \<times> string) list" where
  "platform_templates =
     [(''swift_ios'', ''{{ios_version}}'', ''ios'', ''3.1.5''), (''jak_android'', ''{{android_version}}'', ''android'', ''3.2.3''),
      (''dotnet'', ''{{dotnet_version}}'', ''dotnet'', ''3.2.3''), (''c'', ''{{c_version}}'', ''c'', ''3.2.3'')]"

definition replace_template :: "(string, string) pydict \<Rightarrow> json \<Rightarrow> json result" where
  "replace_template platform_versions ts =
     rbind (obj_of ts) (\<lambda>d.
       case find (\<lambda>(platform, template, _). map_of d ''platform'' = Some (JStr platform)
                    \<and> map_of d ''cbl_version'' = Some (JStr template)) platform_templates of
         None \<Rightarrow> Inr ts
       | Some (_, _, key, dflt) \<Rightarrow>
           Inr (JObj (d_set d ''cbl_version'' (JStr (case map_of platform_versions key of Some v \<Rightarrow> v | None \<Rightarrow> dflt)))))"

definition multiplatform_topology ::
    "(jdict \<Rightarrow> jdict) \<Rightarrow> (string, string) pydict \<Rightarrow> string \<Rightarrow> string \<Rightarrow> jdict \<Rightarrow> jdict result" where
  "multiplatform_topology adjust platform_versions cbs sgw raw =
     (let d = set_defaults cbs sgw ''multiplatform'' (adjust (set_schema raw))
      in rbind (d_item d ''test_servers'') (\<lambda>v.
         rbind (list_of v) (\<lambda>servers.
         rbind (mapM (replace_template platform_versions) servers) (\<lambda>servers'.
           Inr (d_set d ''test_servers'' (JList servers'))))))"

text \<open>The configuration goes to the second directory above the script, the topology to the third.\<close>

definition multiplatform_dir :: "('w, 'k, 'key, 't, 'b) pipeline_env \<Rightarrow> path" where
  "multiplatform_dir env = pl_root env @ [''jenkins'', ''pipelines'', ''QE'', ''multiplatform'']"

definition multiplatform_setup_test ::
    "('w, 'k, 'key, 't, 'b) pipeline_env \<Rightarrow> (string, string) pydict \<Rightarrow> string \<Rightarrow> string \<Rightarrow> string
      \<Rightarrow> ('w, ('w, 'k) deployment \<times> ending) io" where
  "multiplatform_setup_test env platform_versions sgw_version couchbase_version setup_dir =
     (let dir = multiplatform_dir env; topology_in = dir @ [''topology.json'']
      in io_bind (io_lift (path_parents dir 2)) (\<lambda>second.
         io_bind (io_lift (path_parents dir 3)) (\<lambda>third.
         let out = third @ [''environment'', ''aws'', ''topology_setup'', ''topology.json'']
         in io_bind (if platform_versions = [] then io_return ()
                     else io_bind (read_json env topology_in) (\<lambda>raw.
                          io_bind (resolved_version (pl_fetch env) ''couchbase-server'' couchbase_version) (\<lambda>cbs.
                          io_bind (resolved_version (pl_fetch env) ''sync-gateway'' sgw_version) (\<lambda>sgw.
                          io_bind (io_lift (rbind (obj_of raw) (multiplatform_topology
                            (adjust_include (be_text (pl_backend env)) (pl_resolve env) topology_in out)
                            platform_versions cbs sgw))) (\<lambda>d. write_json env out 4 d))))) (\<lambda>_.
              start_from_file env out (dir @ [''config_multiplatform.json'']) (second @ [''tests'', setup_dir, ''config.json''])))))"

definition multiplatform_cli_entry ::
    "('w, 'k, 'key, 't, 'b) pipeline_env \<Rightarrow> string \<Rightarrow> string \<Rightarrow> ('w, ('w, 'k) deployment \<times> ending) io" where
  "multiplatform_cli_entry env platform_configs sgw_version =
     multiplatform_setup_test env (parse_platform_configs platform_configs) sgw_version ''7.6'' ''QE''"

section \<open>Multipeer replication\<close>

definition edit_platform_map :: "string \<Rightarrow> string option \<Rightarrow> (string, string) pydict \<Rightarrow> (string, string) pydict" where
  "edit_platform_map key value d = (case value of Some v \<Rightarrow> d_set d key v | None \<Rightarrow> d)"

definition platform_map ::
    "string option \<Rightarrow> string option \<Rightarrow> string option \<Rightarrow> string option \<Rightarrow> string option \<Rightarrow> string option
      \<Rightarrow> (string, string) pydict" where
  "platform_map ios android dotnet java c global_version =
     edit_platform_map ''c'' c (edit_platform_map ''java'' java (edit_platform_map ''dotnet'' dotnet
       (edit_platform_map ''android'' android (edit_platform_map ''ios'' ios
         (case global_version of
            Some g \<Rightarrow> if g = [] then []
                      else map (\<lambda>k. (k, g)) [''ios'', ''android'', ''dotnet'', ''java'', ''c'']
          | None \<Rightarrow> [])))))"

definition server_versions :: "(string, string) pydict \<Rightarrow> json \<Rightarrow> string list result" where
  "server_versions versions topology =
     rbind (obj_of topology) (\<lambda>d.
     rbind (d_item d ''test_servers'') (\<lambda>v.
     rbind (list_of v) (mapM (\<lambda>ts.
       rbind (obj_of ts) (\<lambda>d. rbind (str_item d ''platform'') (\<lambda>p.
       rbind (ts_to_topology p) (get_platform_version versions)))))))"

text \<open>What fails ends the process with status 1.\<close>

definition multipeer_main ::
    "('w, 'k, 'key, 't, 'b) pipeline_env \<Rightarrow> (string, string) pydict \<Rightarrow> ('w, ending) io" where
  "multipeer_main env versions =
     (let dir = pl_root env @ [''jenkins'', ''pipelines'', ''dev_e2e'', ''multipeer_functional'']
      in io_try
           (io_bind (read_json env (dir @ [''topology.json''])) (\<lambda>topology.
            io_bind (io_lift (server_versions versions topology)) (\<lambda>cbl_versions.
            io_bind (setup_test env cbl_versions None (dir @ [''topology.json'']) (dir @ [''config_multiplatform.json''])
               ''multipeer_functional'' ''7.6'' ''dev_e2e'') (\<lambda>(_, e). io_return e))))
           (\<lambda>_. io_return (Exited 1)))"

section \<open>Upgrading Sync Gateway\<close>

definition update_sgw_entries :: "string \<Rightarrow> int option \<Rightarrow> jdict \<Rightarrow> jdict result" where
  "update_sgw_entries version index d =
     rbind (case map_of d ''sync_gateways'' of None \<Rightarrow> Inr [] | Some v \<Rightarrow> list_of v) (\<lambda>sgws.
       case index of
         Some i \<Rightarrow>
           if i < 0 \<or> i \<ge> int (length sgws) then Inl ValueError
           else rbind (obj_of (sgws ! nat i)) (\<lambda>e.
                  Inr (d_set d ''sync_gateways'' (JList (sgws[nat i := JObj (d_set e ''version'' (JStr version))]))))
       | None \<Rightarrow>
           if \<not> d_has d ''sync_gateways'' then Inr d
           else rbind (set_all ''version'' version sgws) (\<lambda>es. Inr (d_set d ''sync_gateways'' (JList es))))"

definition update_sgw_version ::
    "('w, 'k, 'key, 't, 'b) pipeline_env \<Rightarrow> path \<Rightarrow> string \<Rightarrow> int option \<Rightarrow> ('w, unit) io" where
  "update_sgw_version env topology_file sgw_version index =
     io_bind (io_exists (be_host (pl_backend env)) topology_file) (\<lambda>there.
       if \<not> there then io_raise FileNotFoundError
       else io_bind (read_json env topology_file) (\<lambda>topology.
            io_bind (resolved_version (pl_fetch env) ''sync-gateway'' sgw_version) (\<lambda>version.
            io_bind (io_lift (rbind (obj_of topology) (update_sgw_entries version index))) (\<lambda>d.
              write_json env topology_file 4 d))))"

section \<open>The versions that were asked for arrive\<close>

lemma assign_versions_reads:
  assumes "assign_versions key es vs = Inr es'" "length vs = length es"
  shows "mapM (\<lambda>e. rbind (obj_of e) (\<lambda>d. str_item d key)) es' = Inr vs"
  using assms
proof (induction key es vs arbitrary: es' rule: assign_versions.induct)
  case (1 key e es v vs)
  then show ?case by (auto simp: result_simps obj_of_Inr_iff obj_of_def str_item_def d_item_def)
qed auto

lemma distribute_over_entries:
  assumes "distribute_over sk key versions d = Inr d'"
  obtains entries es where "map_of d sk = Some (JList entries)" "d' = d_set d sk (JList es)" "versions \<noteq> []"
    "mapM (\<lambda>e. rbind (obj_of e) (\<lambda>d. str_item d key)) es = Inr (map (\<lambda>i. versions ! min i (length versions - 1)) [0..<length entries])"
proof -
  from assms obtain entries es assigned where e: "map_of d sk = Some (JList entries)"
    "distribute_versions versions (length entries) = Inr assigned" "assign_versions key entries assigned = Inr es"
    "d' = d_set d sk (JList es)"
    unfolding distribute_over_def
    by (elim rbind_InrE) (auto simp: d_item_Inr_iff list_of_def split: json.splits)
  have "versions \<noteq> []" "assigned = map (\<lambda>i. versions ! min i (length versions - 1)) [0..<length entries]"
    using e(2) by (auto simp: distribute_versions_def split: if_splits)
  with e assign_versions_reads [OF e(3)] show thesis by (intro that) auto
qed

lemma distribute_over_known:
  assumes "distribute_over sk key versions d = Inr d'" "map_of d sk = Some (JList entries)"
  obtains es where "d' = d_set d sk (JList es)"
    "mapM (\<lambda>e. rbind (obj_of e) (\<lambda>d. str_item d key)) es = Inr (map (\<lambda>i. versions ! min i (length versions - 1)) [0..<length entries])"
  using assms(2) by (rule_tac distribute_over_entries [OF assms(1)]) simp

lemma take_of_prefix: "map f xs = map g [0..<n] \<Longrightarrow> take n (map f (xs @ ys)) = map g [0..<n]"
  by simp

lemma adjust_include_other: "k \<noteq> ''include'' \<Longrightarrow> map_of (adjust_include text resolve i out d) k = map_of d k"
  by (simp add: adjust_include_def Let_def split: option.split)

text \<open>What reading entries gives for a key that every one of them has.\<close>

lemma mapM_key:
  assumes "mapM (\<lambda>e. rbind (obj_of e) (\<lambda>d. str_item d key)) es = Inr vs" "mapM obj_of es = Inr ds" "mapM f ds = Inr xs"
    and "\<And>d x v. str_item d key = Inr v \<Longrightarrow> f d = Inr x \<Longrightarrow> g x = v"
  shows "map g xs = vs"
  using assms(1-3)
proof (induction es arbitrary: vs ds xs)
  case (Cons e es)
  from Cons.prems(1) obtain d v vs' where a: "obj_of e = Inr d" "str_item d key = Inr v" "vs = v # vs'"
    "mapM (\<lambda>e. rbind (obj_of e) (\<lambda>d. str_item d key)) es = Inr vs'"
    by (auto simp: result_simps)
  with Cons.prems(2) obtain ds' where b: "ds = d # ds'" "mapM obj_of es = Inr ds'" by (auto simp: result_simps)
  with Cons.prems(3) obtain x xs' where "f d = Inr x" "mapM f ds' = Inr xs'" "xs = x # xs'" by (auto simp: result_simps)
  then show ?case using Cons.IH [OF a(4) b(2)] assms(4) a(2,3) by simp
qed simp

lemma read_test_server_version: "str_item d ''cbl_version'' = Inr v \<Longrightarrow> read_test_server d = Inr x \<Longrightarrow> ti_cbl_version x = v"
  by (auto simp: read_test_server_def result_simps)

lemma read_sgw_version:
  assumes "str_item d ''version'' = Inr v" "read_sgw dflt n d = Inr x"
  shows "si_version x = v"
proof -
  have "d_has d ''version''" using assms(1) by (auto simp: str_item_def d_item_def d_has_def split: option.splits)
  then show ?thesis using assms by (auto simp: read_sgw_def entry_version_def result_simps split: if_splits)
qed

text \<open>The inputs of a file itself come first in the loaded topology, then those of what it includes.\<close>

lemma load_own_inputs_first:
  assumes "TopologyConfig_load files resolve fuel file p = Some (Inr t)" "files file = Inr (JObj config)"
  obtains own tss sgws where "read_config p config = Inr own"
    "tp_test_server_inputs t = tp_test_server_inputs own @ tss" "tp_sgw_inputs t = tp_sgw_inputs own @ sgws"
proof (cases fuel)
  case (Suc n)
  have tag: "read_tag config u = Inr t \<Longrightarrow>
      tp_test_server_inputs t = tp_test_server_inputs u \<and> tp_sgw_inputs t = tp_sgw_inputs u" for u
    by (auto simp: read_tag_def result_simps split: if_splits)
  from assms Suc obtain own where r: "read_config p config = Inr own"
    by (cases "read_config p config") (auto simp: obj_of_def)
  have own: "read_tag config own = Inr t \<or> (\<exists>sub. read_tag config (add_included own sub) = Inr t)"
    using assms Suc r by (auto simp: obj_of_def split: sum.splits if_splits option.splits)
  then show ?thesis
  proof (elim disjE exE)
    assume "read_tag config own = Inr t"
    then show ?thesis using that [OF r, of "[]" "[]"] tag by simp
  next
    fix sub assume "read_tag config (add_included own sub) = Inr t"
    then show ?thesis using that [OF r] tag by (simp add: add_included_def)
  qed
qed (use assms in simp)

lemma read_config_entries:
  assumes "read_config p d = Inr own"
  obtains dflt n where "rbind (raw_entries d ''test_servers'') (mapM read_test_server) = Inr (tp_test_server_inputs own)"
    "rbind (raw_entries d ''sync_gateways'') (mapM (read_sgw dflt n)) = Inr (tp_sgw_inputs own)"
  using assms unfolding read_config_def by (elim rbind_InrE) auto

text \<open>
  C12. The versions that a pipeline was asked for reach the machines: in the topology that is loaded from
  the file that was written, the test servers of the file have the CBL versions in their order, the last
  one repeated, and so have its Sync Gateways theirs, whatever the template said before and whatever
  it includes.
\<close>

theorem requested_versions_arrive:
  assumes "prepared_topology (adjust_include text resolve_path topology_in out) cbl_versions sgw_versions cbs tag raw = Inr d"
    and "files file = Inr (JObj d)"
    and "TopologyConfig_load files resolve fuel file None = Some (Inr t)"
  shows "\<exists>servers. map_of raw ''test_servers'' = Some (JList servers)
    \<and> take (length servers) (map ti_cbl_version (tp_test_server_inputs t))
        = map (\<lambda>i. cbl_versions ! min i (length cbl_versions - 1)) [0..<length servers]
    \<and> (\<forall>sgws. map_of raw ''sync_gateways'' = Some (JList sgws) \<longrightarrow>
         take (length sgws) (map si_version (tp_sgw_inputs t))
           = map (\<lambda>i. sgw_versions ! min i (length sgw_versions - 1)) [0..<length sgws])"
proof -
  let ?d0 = "set_defaults cbs (hd sgw_versions) tag (adjust_include text resolve_path topology_in out (set_schema raw))"
  have d0: "map_of ?d0 k = map_of raw k" if "k \<in> {''test_servers'', ''sync_gateways''}" for k
    using that by (auto simp: set_defaults_def adjust_include_other set_schema_def)
  from assms(1) obtain d1 where d1: "distribute_over ''test_servers'' ''cbl_version'' cbl_versions ?d0 = Inr d1"
    "d = (if d_has d1 ''sync_gateways'' then d else d1)"
    "d_has d1 ''sync_gateways'' \<Longrightarrow> distribute_over ''sync_gateways'' ''version'' sgw_versions d1 = Inr d"
    by (auto simp: prepared_topology_def Let_def result_simps split: if_splits)
  from distribute_over_entries [OF d1(1)] obtain servers es where s: "map_of ?d0 ''test_servers'' = Some (JList servers)"
    "d1 = d_set ?d0 ''test_servers'' (JList es)"
    "mapM (\<lambda>e. rbind (obj_of e) (\<lambda>d. str_item d ''cbl_version'')) es
       = Inr (map (\<lambda>i. cbl_versions ! min i (length cbl_versions - 1)) [0..<length servers])"
    by metis
  obtain own tss sgs where own: "read_config None d = Inr own"
    "tp_test_server_inputs t = tp_test_server_inputs own @ tss" "tp_sgw_inputs t = tp_sgw_inputs own @ sgs"
    using load_own_inputs_first [OF assms(3,2)] by metis
  obtain dflt n where entries: "rbind (raw_entries d ''test_servers'') (mapM read_test_server) = Inr (tp_test_server_inputs own)"
    "rbind (raw_entries d ''sync_gateways'') (mapM (read_sgw dflt n)) = Inr (tp_sgw_inputs own)"
    using read_config_entries [OF own(1)] by metis
  have servers_d: "map_of d ''test_servers'' = Some (JList es)"
  proof (cases "d_has d1 ''sync_gateways''")
    case True
    obtain gs where "d = d_set d1 ''sync_gateways'' (JList gs)"
      using distribute_over_entries [OF d1(3) [OF True]] by metis
    then show ?thesis using s(2) by simp
  next
    case False
    then show ?thesis using d1(2) s(2) by simp
  qed
  obtain ds where "mapM obj_of es = Inr ds" "mapM read_test_server ds = Inr (tp_test_server_inputs own)"
    using entries(1) servers_d by (auto simp: raw_entries_def list_of_def result_simps)
  then have cbl: "map ti_cbl_version (tp_test_server_inputs own)
      = map (\<lambda>i. cbl_versions ! min i (length cbl_versions - 1)) [0..<length servers]"
    by (rule mapM_key [OF s(3)]) (rule read_test_server_version)
  have sgw: "take (length sgws) (map si_version (tp_sgw_inputs t))
      = map (\<lambda>i. sgw_versions ! min i (length sgw_versions - 1)) [0..<length sgws]"
    if r: "map_of raw ''sync_gateways'' = Some (JList sgws)" for sgws
  proof -
    have has: "map_of d1 ''sync_gateways'' = Some (JList sgws)" using r d0 s(2) by simp
    then have "d_has d1 ''sync_gateways''" by (simp add: d_has_def)
    from d1(3) [OF this] obtain gs where g: "d = d_set d1 ''sync_gateways'' (JList gs)"
      "mapM (\<lambda>e. rbind (obj_of e) (\<lambda>d. str_item d ''version'')) gs
         = Inr (map (\<lambda>i. sgw_versions ! min i (length sgw_versions - 1)) [0..<length sgws])"
      using has by (rule distribute_over_known)
    obtain ds where "mapM obj_of gs = Inr ds" "mapM (read_sgw dflt n) ds = Inr (tp_sgw_inputs own)"
      using entries(2) g(1) by (auto simp: raw_entries_def list_of_def result_simps)
    then have "map si_version (tp_sgw_inputs own)
        = map (\<lambda>i. sgw_versions ! min i (length sgw_versions - 1)) [0..<length sgws]"
      by (rule mapM_key [OF g(2)]) (rule read_sgw_version)
    then show ?thesis unfolding own(3) by (rule take_of_prefix)
  qed
  have "take (length servers) (map ti_cbl_version (tp_test_server_inputs t))
      = map (\<lambda>i. cbl_versions ! min i (length cbl_versions - 1)) [0..<length servers]"
    unfolding own(2) using cbl by (rule take_of_prefix)
  moreover have "map_of raw ''test_servers'' = Some (JList servers)" using s(1) d0 by simp
  ultimately show ?thesis using sgw by blast
qed

definition two_servers :: jdict where
  "two_servers =
     [(''clusters'', JList [JObj [(''server_count'', JInt 1)]]),
      (''sync_gateways'', JList [JObj [(''cluster'', JInt 0), (''version'', JStr ''x'')]]),
      (''test_servers'', JList [
         JObj [(''location'', JStr ''a''), (''platform'', JStr ''c_macos''), (''cbl_version'', JStr ''x'')],
         JObj [(''location'', JStr ''b''), (''platform'', JStr ''c_macos''), (''cbl_version'', JStr ''x'')]])]"

definition prepared_two_servers :: jdict where
  "prepared_two_servers =
     (case prepared_topology (adjust_include (\<lambda>_. ''null'') (\<lambda>dir _. dir) [''in''] [''out''])
             [''3.2.3''] [''4.0.0''] ''7.6'' ''test'' two_servers of Inr d \<Rightarrow> d | Inl _ \<Rightarrow> [])"

lemma prepared_two_servers:
  "prepared_topology (adjust_include (\<lambda>_. ''null'') (\<lambda>dir _. dir) [''in''] [''out''])
     [''3.2.3''] [''4.0.0''] ''7.6'' ''test'' two_servers = Inr prepared_two_servers"
  by code_simp

lemma load_two_servers:
  "case TopologyConfig_load (\<lambda>_. Inr (JObj prepared_two_servers)) (\<lambda>_ i. i) 1 ''topology'' None of
     Some (Inr t) \<Rightarrow> True | _ \<Rightarrow> False"
  by code_simp

theorem requested_versions_arrive_witness:
  "\<exists>t. TopologyConfig_load (\<lambda>_. Inr (JObj prepared_two_servers)) (\<lambda>_ i. i) 1 ''topology'' None = Some (Inr t)
     \<and> take 2 (map ti_cbl_version (tp_test_server_inputs t)) = [''3.2.3'', ''3.2.3'']"
proof -
  obtain t where t: "TopologyConfig_load (\<lambda>_. Inr (JObj prepared_two_servers)) (\<lambda>_ i. i) 1 ''topology'' None
      = Some (Inr t)" using load_two_servers by (auto split: option.splits sum.splits simp del: TopologyConfig_load.simps)
  obtain servers where "map_of two_servers ''test_servers'' = Some (JList servers)"
    "take (length servers) (map ti_cbl_version (tp_test_server_inputs t))
       = map (\<lambda>i. [''3.2.3''] ! min i (length [''3.2.3''] - 1)) [0..<length servers]"
    using requested_versions_arrive [OF prepared_two_servers refl t] by (elim exE conjE)
  then have "take 2 (map ti_cbl_version (tp_test_server_inputs t)) = [''3.2.3'', ''3.2.3'']"
    by (auto simp: two_servers_def numeral_2_eq_2)
  with t show ?thesis by (intro exI conjI)
qed

section \<open>Where a pipeline ends\<close>

text \<open>Starting from a file ends the process, so nothing that a script does afterwards happens.\<close>

lemma start_from_file_ends_process:
  assumes "start_from_file env topology_file cin cout w = (Inr (b, e), w')"
  shows "e = Exited 0"
  using assms entry_without_steps_ends_process
  by (fastforce simp: start_from_file_def split: option.splits sum.splits prod.splits)

lemma io_try_InrE:
  assumes "io_try m h w = (Inr x, w')"
  obtains "m w = (Inr x, w')" | e v where "m w = (Inl e, v)" "h e v = (Inr x, w')"
  using assms by (auto simp: io_try_def split: prod.splits sum.splits)

lemma multipeer_ends_process:
  assumes "multipeer_main env versions w = (Inr e, w')"
  shows "e = Exited 0 \<or> e = Exited 1"
proof -
  have ends: "r = Exited 0" if "setup_test env a b c d f g h' v = (Inr (x, r), v')" for a b c d f g h' v x r v'
    using that unfolding setup_test_def Let_def by (elim io_bind_InrE) (rule start_from_file_ends_process)
  show ?thesis
    using assms unfolding multipeer_main_def Let_def
    by (elim io_try_InrE io_bind_InrE) (auto split: prod.splits simp: io_return_def dest: ends)
qed

text \<open>The configuration of the pipeline for several platforms goes to a directory inside \<open>jenkins\<close>.\<close>

lemma multiplatform_config_beside_pipelines:
  "path_parents (multiplatform_dir env) 2 = Inr (pl_root env @ [''jenkins''])"
  "path_parents (multiplatform_dir env) 3 = Inr (pl_root env)"
  by (simp_all add: path_parents_def multiplatform_dir_def)

end
