(* ===== verification/PipelineScripts.thy ===== *)
theory PipelineScripts
  imports Pipelines Greenboard
begin

text \<open>
  The command lines of the pipelines around the shared set-up (\<open>jenkins/pipelines/*/*/setup_test.py\<close>), the
  provisioning of one Sync Gateway and the upload of an upgrade (\<open>QE/upg-sgw/provision_single_sgw.py\<close>,
  \<open>upload_greenboard_batch.py\<close>), and the log of a device cut into one file per test
  (\<open>QE/android/logcat.py\<close>).
\<close>

section \<open>Command lines\<close>

text \<open>
  What a script adds to the shared set-up: its directory below \<open>jenkins/pipelines\<close>, its topology and
  configuration there, the tag, and the directory below \<open>tests\<close> that gets the written configuration.
\<close>

record pipeline_script =
  sx_dir :: path
  sx_topology :: path
  sx_config :: string
  sx_tag :: string
  sx_setup_dir :: string

definition script_path :: "('w, 'k, 'key, 't, 'b) pipeline_env \<Rightarrow> pipeline_script \<Rightarrow> path \<Rightarrow> path" where
  "script_path env s p = pl_root env @ [''jenkins'', ''pipelines''] @ sx_dir s @ p"

definition run_script ::
    "('w, 'k, 'key, 't, 'b) pipeline_env \<Rightarrow> pipeline_script \<Rightarrow> path option \<Rightarrow> string \<Rightarrow> string \<Rightarrow> string
      \<Rightarrow> ('w, ('w, 'k) deployment \<times> ending) io" where
  "run_script env s topology_file cbs_version cbl_versions sgw_versions =
     setup_test env (VersionType_convert (Inl cbl_versions)) (Some (VersionType_convert (Inl sgw_versions)))
       (case topology_file of Some f \<Rightarrow> f | None \<Rightarrow> script_path env s (sx_topology s))
       (script_path env s [sx_config s]) (sx_tag s) cbs_version (sx_setup_dir s)"

definition cli_entry ::
    "('w, 'k, 'key, 't, 'b) pipeline_env \<Rightarrow> pipeline_script \<Rightarrow> string \<Rightarrow> string
      \<Rightarrow> ('w, ('w, 'k) deployment \<times> ending) io" where
  "cli_entry env s = run_script env s None ''7.6''"

definition single_platform :: "string \<Rightarrow> path" where
  "single_platform platform = [''topologies'', ''topology_single_'' @ platform @ ''.json'']"

definition qe_android :: pipeline_script where
  "qe_android = \<lparr> sx_dir = [''QE'', ''android''], sx_topology = [''topology_single_device.json''],
     sx_config = ''config_android.json'', sx_tag = ''jak_android'', sx_setup_dir = ''QE'' \<rparr>"

definition qe_ios :: pipeline_script where
  "qe_ios = \<lparr> sx_dir = [''QE'', ''ios''], sx_topology = [''topology_single_device.json''],
     sx_config = ''config.json'', sx_tag = ''swift_ios'', sx_setup_dir = ''QE'' \<rparr>"

definition qe_c :: "string \<Rightarrow> pipeline_script" where
  "qe_c platform = \<lparr> sx_dir = [''QE'', ''c''], sx_topology = single_platform platform,
     sx_config = ''config.c.json'', sx_tag = ''c_'' @ platform, sx_setup_dir = ''QE'' \<rparr>"

definition qe_dotnet :: "string \<Rightarrow> pipeline_script" where
  "qe_dotnet platform = \<lparr> sx_dir = [''QE'', ''dotnet''], sx_topology = single_platform platform,
     sx_config = ''config_aws.json'', sx_tag = ''dotnet_'' @ platform, sx_setup_dir = ''QE'' \<rparr>"

definition qe_java_desktop :: pipeline_script where
  "qe_java_desktop = \<lparr> sx_dir = [''QE'', ''java'', ''desktop''], sx_topology = [''topology_single_host.json''],
     sx_config = ''config_java_desktop.json'', sx_tag = ''jak_desktop'', sx_setup_dir = ''QE'' \<rparr>"

text \<open>No directory is given here, so it is the default one.\<close>

definition qe_java_webservice :: pipeline_script where
  "qe_java_webservice = \<lparr> sx_dir = [''QE'', ''java'', ''webservice''], sx_topology = [''topology_single_host.json''],
     sx_config = ''config_java_webservice.json'', sx_tag = ''jak_webservice'', sx_setup_dir = ''dev_e2e'' \<rparr>"

definition qe_sgw :: pipeline_script where
  "qe_sgw = \<lparr> sx_dir = [''QE'', ''sgw''], sx_topology = [''topology.json''],
     sx_config = ''config.json'', sx_tag = ''sgw'', sx_setup_dir = ''QE'' \<rparr>"

definition qe_upg_sgw :: pipeline_script where
  "qe_upg_sgw = \<lparr> sx_dir = [''QE'', ''upg-sgw''], sx_topology = [''topology.json''],
     sx_config = ''config.json'', sx_tag = ''upg-sgw'', sx_setup_dir = ''QE'' \<rparr>"

definition dev_android :: pipeline_script where
  "dev_android = \<lparr> sx_dir = [''dev_e2e'', ''android''], sx_topology = [''topology_single_device.json''],
     sx_config = ''config_android.json'', sx_tag = ''jak_android'', sx_setup_dir = ''dev_e2e'' \<rparr>"

definition dev_ios :: pipeline_script where
  "dev_ios = \<lparr> sx_dir = [''dev_e2e'', ''ios''], sx_topology = [''topology_single_device.json''],
     sx_config = ''config.json'', sx_tag = ''swift_ios'', sx_setup_dir = ''dev_e2e'' \<rparr>"

definition dev_c :: "string \<Rightarrow> pipeline_script" where
  "dev_c platform = \<lparr> sx_dir = [''dev_e2e'', ''c''], sx_topology = single_platform platform,
     sx_config = ''config.json'', sx_tag = ''c_'' @ platform, sx_setup_dir = ''dev_e2e'' \<rparr>"

definition dev_dotnet :: "string \<Rightarrow> pipeline_script" where
  "dev_dotnet platform = \<lparr> sx_dir = [''dev_e2e'', ''dotnet''], sx_topology = single_platform platform,
     sx_config = ''config_aws.json'', sx_tag = ''dotnet_'' @ platform, sx_setup_dir = ''dev_e2e'' \<rparr>"

definition dev_java_desktop :: pipeline_script where
  "dev_java_desktop = \<lparr> sx_dir = [''dev_e2e'', ''java'', ''desktop''], sx_topology = [''topology_single_host.json''],
     sx_config = ''config_java_desktop.json'', sx_tag = ''jak_desktop'', sx_setup_dir = ''dev_e2e'' \<rparr>"

definition dev_java_webservice :: pipeline_script where
  "dev_java_webservice = \<lparr> sx_dir = [''dev_e2e'', ''java'', ''webservice''], sx_topology = [''topology_single_host.json''],
     sx_config = ''config_java_webservice.json'', sx_tag = ''jak_webservice'', sx_setup_dir = ''dev_e2e'' \<rparr>"

definition dev_javascript :: pipeline_script where
  "dev_javascript = \<lparr> sx_dir = [''dev_e2e'', ''javascript''], sx_topology = [''topology_single_host.json''],
     sx_config = ''config.json'', sx_tag = ''js'', sx_setup_dir = ''dev_e2e'' \<rparr>"

definition cli_entry_dotnet ::
    "('w, 'k, 'key, 't, 'b) pipeline_env \<Rightarrow> (string \<Rightarrow> pipeline_script) \<Rightarrow> string \<Rightarrow> string \<Rightarrow> string \<Rightarrow> string
      \<Rightarrow> ('w, ('w, 'k) deployment \<times> ending) io" where
  "cli_entry_dotnet env s platform cbl_versions sgw_versions cbs_version =
     run_script env (s platform) None cbs_version cbl_versions sgw_versions"

definition cli_entry_upgrade ::
    "('w, 'k, 'key, 't, 'b) pipeline_env \<Rightarrow> string \<Rightarrow> string \<Rightarrow> path option
      \<Rightarrow> ('w, ('w, 'k) deployment \<times> ending) io" where
  "cli_entry_upgrade env cbl_versions sgw_versions topology_file =
     run_script env qe_upg_sgw topology_file ''7.6'' cbl_versions sgw_versions"

definition all_scripts :: "string \<Rightarrow> pipeline_script list" where
  "all_scripts platform =
     [qe_android, qe_ios, qe_c platform, qe_dotnet platform, qe_java_desktop, qe_java_webservice, qe_sgw, qe_upg_sgw,
      dev_android, dev_ios, dev_c platform, dev_dotnet platform, dev_java_desktop, dev_java_webservice, dev_javascript]"

text \<open>
  Every pipeline writes its configuration beside the tests of its own kind, but for one: the web service
  of QE writes where the other kind of tests looks for it.
\<close>

lemma configuration_beside_own_tests:
  "filter (\<lambda>s. sx_setup_dir s \<noteq> hd (sx_dir s)) (all_scripts platform) = [qe_java_webservice]"
  by (simp add: all_scripts_def qe_android_def qe_ios_def qe_c_def qe_dotnet_def qe_java_desktop_def
      qe_java_webservice_def qe_sgw_def qe_upg_sgw_def dev_android_def dev_ios_def dev_c_def dev_dotnet_def
      dev_java_desktop_def dev_java_webservice_def dev_javascript_def)

section \<open>Provisioning one Sync Gateway\<close>

text \<open>The result of the check of the credentials is not looked at; an index out of range ends with status 1.\<close>

definition provision_node ::
    "('w, 'k, 'key, 't, 'b) backend_env \<Rightarrow> int \<Rightarrow> (('w, 'k) deployment, ending) io" where
  "provision_node env index = (\<lambda>b.
     let sgws = tp_sgws (dy_topology b)
     in if index < 0 \<or> index \<ge> int (length sgws) then (Inr (Exited 1), b)
        else let sgw = sgws ! nat index; rm = (be_remote env)\<lparr>rm_key := dy_key b\<rparr>; h = be_host env
        in in_world
             (io_bind (SgwDownloadInfo_create (be_text env) h (sc_version sgw)) (\<lambda>p.
              io_bind (download_sgw_package h (sgw_dir rm) p) (\<lambda>_.
              io_bind (setup_config (be_loads env) (be_dumps env 4) h (sgw_dir rm) (sc_cluster_hostname sgw)) (\<lambda>_.
              io_bind (io_lift (rm_key rm)) (\<lambda>key.
              io_bind (sgw_setup_server rm (sc_hostname sgw) key p) (\<lambda>_. io_return (Exited 0))))))) b)"

definition provision_single_sgw ::
    "('w, 'k, 'key, 't, 'b) pipeline_env \<Rightarrow> int \<Rightarrow> path \<Rightarrow> ('w, ('w, 'k) deployment \<times> ending) io" where
  "provision_single_sgw env index topology_file =
     io_bind (check_sts_status (pl_backend env)) (\<lambda>_ w.
       case TopologyConfig_load (pl_files env w) (pl_resolve_include env) (pl_fuel env) (path_str topology_file) None of
         None \<Rightarrow> (Inl RecursionError, w)
       | Some (Inl e) \<Rightarrow> (Inl e, w)
       | Some (Inr t) \<Rightarrow>
           (case io_bind (read_from_terraform_in (pl_backend env) (butlast (butlast topology_file)))
                   (\<lambda>_. provision_node (pl_backend env) index)
                   \<lparr> dy_topology = t, dy_key = Inl AttributeError, dy_world = w \<rparr> of
              (Inl e, b) \<Rightarrow> (Inl e, dy_world b)
            | (Inr r, b) \<Rightarrow> (Inr (b, r), dy_world b)))"

section \<open>Uploading an upgrade\<close>

text \<open>\<open>results\<close> is what the file with the results holds.\<close>

definition text_item :: "json \<Rightarrow> string \<Rightarrow> string result" where
  "text_item v key = rbind (py_item v key) (\<lambda>x. case x of JStr s \<Rightarrow> Inr s | _ \<Rightarrow> Inl TypeError)"

definition upload_greenboard_batch ::
    "(string \<Rightarrow> json result) \<Rightarrow> (string \<Rightarrow> string option) \<Rightarrow> (string \<Rightarrow> string \<Rightarrow> string \<Rightarrow> jdict \<Rightarrow> ('w, unit) io)
      \<Rightarrow> string \<Rightarrow> state_file \<Rightarrow> ('w, unit) io" where
  "upload_greenboard_batch loads env upsert config results =
     io_bind (io_lift (rbind (loads config) attr_dict)) (\<lambda>cfg.
       let gb = get_or_null cfg ''greenboard''
       in if \<not> truthy gb \<or> results = No_file then io_return ()
          else io_bind (io_lift (text_item gb ''hostname'')) (\<lambda>hostname.
               io_bind (io_lift (text_item gb ''username'')) (\<lambda>username.
               io_bind (io_lift (text_item gb ''password'')) (\<lambda>password.
                 GreenboardUploader_upload_upgrade_batch env
                   (upsert (gu_url (GreenboardUploader_create hostname)) username password) results))))"

section \<open>The log of a device\<close>

definition is_word_char :: "char \<Rightarrow> bool" where
  "is_word_char c = (is_alpha c \<or> is_digit c \<or> c = CHR ''_'')"

text \<open>The first place where the mark of a start is followed by a name.\<close>

fun test_start :: "string \<Rightarrow> string option" where
  "test_start [] = None"
| "test_start (c # cs) =
     (let name = takeWhile is_word_char (drop 11 (c # cs))
      in if prefix ''>>>>>>>>>> '' (c # cs) \<and> name \<noteq> [] then Some name else test_start cs)"

definition end_mark :: "string \<Rightarrow> string" where
  "end_mark name = ''<<<<<<<<<< '' @ name"

text \<open>The test whose file is open, and the files of the directory.\<close>

record logcat =
  lg_test :: "string option"
  lg_files :: "(string, string) pydict"

definition write_line :: "string \<Rightarrow> string \<Rightarrow> logcat \<Rightarrow> logcat" where
  "write_line name line s =
     (let f = name @ ''.log''
      in s\<lparr>lg_files := d_set (lg_files s) f ((case map_of (lg_files s) f of Some t \<Rightarrow> t | None \<Rightarrow> []) @ line)\<rparr>)"

definition logcat_line :: "string \<Rightarrow> logcat \<Rightarrow> logcat" where
  "logcat_line line s =
     (case lg_test s of
        Some name \<Rightarrow>
          let s' = write_line name line s
          in if contains_sub (end_mark name) line then s'\<lparr>lg_test := None\<rparr> else s'
      | None \<Rightarrow>
          (case test_start line of
             None \<Rightarrow> s
           | Some name \<Rightarrow>
               write_line name line (s\<lparr>lg_test := Some name, lg_files := d_set (lg_files s) (name @ ''.log'') []\<rparr>)))"

text \<open>
  \<open>adb_logcat\<close> has no end: after the last line of the process it reads empty ones.  This is its state
  after a number of rounds.
\<close>

fun adb_logcat :: "nat \<Rightarrow> string list \<Rightarrow> logcat \<Rightarrow> logcat" where
  "adb_logcat 0 lines s = s"
| "adb_logcat (Suc rounds) [] s = adb_logcat rounds [] (logcat_line [] s)"
| "adb_logcat (Suc rounds) (line # lines) s = adb_logcat rounds lines (logcat_line line s)"

section \<open>One node after the other\<close>

lemma in_world_bind: "in_world (io_bind m f) = io_bind (in_world m) (\<lambda>x. in_world (f x))"
  by (auto simp: in_world_def io_bind_def fun_eq_iff split: prod.splits sum.splits)

lemma in_world_return: "in_world (io_return x) = io_return x"
  by (simp add: in_world_def io_return_def fun_eq_iff)

definition full_sgw_main ::
    "('w, 'k, 'key, 't, 'b) backend_env \<Rightarrow> 'k result \<Rightarrow> sgw_config list \<Rightarrow> ('w, unit) io" where
  "full_sgw_main env key =
     sgw_main (be_text env) (be_loads env) (be_dumps env 4) (be_host env) ((be_remote env)\<lparr>rm_key := key\<rparr>)"

fun provision_nodes ::
    "('w, 'k, 'key, 't, 'b) backend_env \<Rightarrow> nat list \<Rightarrow> (('w, 'k) deployment, unit) io" where
  "provision_nodes env [] = io_return ()"
| "provision_nodes env (i # is) = io_bind (provision_node env (int i)) (\<lambda>_. provision_nodes env is)"

lemma in_world_state:
  "in_world m b = (r, b') \<Longrightarrow> dy_topology b' = dy_topology b \<and> dy_key b' = dy_key b"
  by (auto simp: in_world_def split: prod.splits)

lemma full_sgw_main_Cons:
  "full_sgw_main env key (s # ss) = io_bind (full_sgw_main env key [s]) (\<lambda>_. full_sgw_main env key ss)"
  by (simp add: full_sgw_main_def io_bind_assoc io_laws)

lemma provision_node_in_range:
  assumes "i < length (tp_sgws (dy_topology b))"
  shows "provision_node env (int i) b
    = io_bind (in_world (full_sgw_main env (dy_key b) [tp_sgws (dy_topology b) ! i])) (\<lambda>_. io_return (Exited 0)) b"
  using assms
  by (simp add: provision_node_def Let_def full_sgw_main_def in_world_bind in_world_return io_bind_assoc io_laws)

lemma provision_rest:
  assumes "tp_sgws (dy_topology b) = sgws" "k \<le> length sgws"
  shows "provision_nodes env [k..<length sgws] b = in_world (full_sgw_main env (dy_key b) (drop k sgws)) b"
  using assms
proof (induction "length sgws - k" arbitrary: k b)
  case 0
  then show ?case by (simp add: full_sgw_main_def in_world_def io_return_def)
next
  case (Suc n)
  then have k: "k < length sgws" by simp
  then have d: "drop k sgws = sgws ! k # drop (Suc k) sgws" by (simp add: Cons_nth_drop_Suc)
  obtain r b' where one: "in_world (full_sgw_main env (dy_key b) [sgws ! k]) b = (r, b')" by fastforce
  note same = in_world_state [OF one]
  show ?case
  proof (cases r)
    case (Inl e)
    with one k Suc.prems(1) show ?thesis
      by (simp add: upt_conv_Cons provision_node_in_range io_step d full_sgw_main_Cons [of _ _ _ "drop (Suc k) sgws"]
          in_world_bind)
  next
    case (Inr x)
    have "provision_nodes env [Suc k..<length sgws] b' = in_world (full_sgw_main env (dy_key b') (drop (Suc k) sgws)) b'"
      using Suc.hyps(2) Suc.prems k same by (intro Suc.hyps(1)) auto
    with Inr one k Suc.prems(1) same show ?thesis
      by (simp add: upt_conv_Cons provision_node_in_range io_step d full_sgw_main_Cons [of _ _ _ "drop (Suc k) sgws"]
          in_world_bind io_return_def)
  qed
qed

text \<open>
  Provisioning the Sync Gateways one after the other, each by its index, is provisioning all of them:
  the machines are changed in the same way, and the first failure is the same one.
\<close>

theorem nodes_provisioned_one_by_one:
  "provision_nodes env [0..<length (tp_sgws (dy_topology b))] b
     = in_world (full_sgw_main env (dy_key b) (tp_sgws (dy_topology b))) b"
  using provision_rest [OF refl, of 0 b env] by simp

section \<open>Logs of tests\<close>

text \<open>After the lines of the process nothing changes any more; the loop goes on all the same.\<close>

lemma contains_sub_Nil: "n \<noteq> [] \<Longrightarrow> \<not> contains_sub n []"
  by simp

lemma empty_line_idle:
  assumes "\<forall>name. lg_test s = Some name \<longrightarrow> d_has (lg_files s) (name @ ''.log'')"
  shows "logcat_line [] s = s"
proof (cases "lg_test s")
  case (Some name)
  with assms obtain t where t: "map_of (lg_files s) (name @ ''.log'') = Some t" by (auto simp: d_has_def)
  have same: "map_of d k = Some v \<Longrightarrow> d_set d k v = d" for d :: "(string, string) pydict" and k v
    by (induction d) (auto split: if_splits)
  show ?thesis using Some t
    by (simp add: logcat_line_def write_line_def Let_def same end_mark_def)
qed (simp add: logcat_line_def)

lemma logcat_line_open:
  assumes "\<forall>name. lg_test s = Some name \<longrightarrow> d_has (lg_files s) (name @ ''.log'')"
  shows "\<forall>name. lg_test (logcat_line l s) = Some name \<longrightarrow> d_has (lg_files (logcat_line l s)) (name @ ''.log'')"
  using assms by (auto simp: logcat_line_def write_line_def Let_def d_has_set split: option.splits if_splits)

lemma log_never_ends:
  assumes "\<forall>name. lg_test s = Some name \<longrightarrow> d_has (lg_files s) (name @ ''.log'')"
  shows "adb_logcat (length lines + k) lines s = foldl (\<lambda>s l. logcat_line l s) s lines"
  using assms
proof (induction lines arbitrary: s)
  case Nil
  then show ?case by (induction k) (simp_all add: empty_line_idle)
next
  case (Cons l ls)
  then show ?case using logcat_line_open [OF Cons.prems] by simp
qed

text \<open>
  The lines of a test, from the one that starts it to the first that ends it, are what its file holds
  afterwards, and nothing else changes: also when an earlier run of a test with the same name wrote the
  file, which is lost.
\<close>

lemma test_body:
  assumes "lg_test s = Some name" "map_of (lg_files s) (name @ ''.log'') = Some t"
    and "\<forall>l \<in> set body. \<not> contains_sub (end_mark name) l" "contains_sub (end_mark name) last_line"
  shows "let s' = foldl (\<lambda>s l. logcat_line l s) s (body @ [last_line]) in lg_test s' = None
    \<and> map_of (lg_files s') = (map_of (lg_files s))(name @ ''.log'' \<mapsto> t @ concat body @ last_line)"
  using assms(1-3)
proof (induction body arbitrary: s t)
  case Nil
  then show ?case using assms(4) by (simp add: logcat_line_def write_line_def Let_def fun_eq_iff)
next
  case (Cons l body)
  let ?s = "write_line name l s"
  have step: "logcat_line l s = ?s" using Cons.prems by (simp add: logcat_line_def Let_def)
  have files: "map_of (lg_files ?s) = (map_of (lg_files s))(name @ ''.log'' \<mapsto> t @ l)" "lg_test ?s = Some name"
    using Cons.prems by (simp_all add: write_line_def Let_def)
  then have "map_of (lg_files ?s) (name @ ''.log'') = Some (t @ l)" by simp
  from Cons.IH [OF files(2) this] Cons.prems(3) show ?case by (simp add: step files(1) Let_def fun_eq_iff)
qed

lemma log_of_test:
  assumes "lg_test s = None" "test_start first = Some name" "first_open = logcat_line first s"
    and "\<forall>l \<in> set body. \<not> contains_sub (end_mark name) l" "contains_sub (end_mark name) last_line"
  shows "let s' = foldl (\<lambda>s l. logcat_line l s) s (first # body @ [last_line]) in lg_test s' = None
    \<and> map_of (lg_files s') = (map_of (lg_files s))(name @ ''.log'' \<mapsto> first @ concat body @ last_line)"
proof -
  have o': "lg_test first_open = Some name" "map_of (lg_files first_open) (name @ ''.log'') = Some first"
    "map_of (lg_files first_open) = (map_of (lg_files s))(name @ ''.log'' \<mapsto> first)"
    using assms(1-3) by (simp_all add: logcat_line_def write_line_def Let_def)
  show ?thesis using test_body [OF o'(1,2) assms(4,5)] by (simp add: o'(3) Let_def fun_eq_iff flip: assms(3))
qed

end
