(* ===== verification/Archives.thy ===== *)
theory Archives
  imports Bridges "HOL-Library.Word"
begin

text \<open>
  Packing and unpacking of directories (\<open>environment/aws/common/io.py\<close>): which files of a directory go
  into an archive, under which patterns they are left out, and what unpacking does with the members.
  A directory is a tree of named entries, in the order in which the system lists them; a member of an
  archive is a value.  Compression and progress output are left out.
\<close>

unbundle bit_operations_syntax

section \<open>Patterns\<close>

text \<open>\<open>fnmatch\<close> of the standard library on a POSIX system.\<close>

datatype glob_token =
    Any_run
  | Any_char
  | Char_class bool string
  | Literal char

text \<open>After an opening bracket: negation, the characters of the class, and the rest of the pattern.\<close>

definition class_body :: "string \<Rightarrow> (bool \<times> string \<times> string) option" where
  "class_body s =
     (let neg = prefix ''!'' s; s1 = (if neg then tl s else s);
          lead = prefix '']'' s1; s2 = (if lead then tl s1 else s1)
      in case dropWhile (\<lambda>c. c \<noteq> CHR '']'') s2 of
           [] \<Rightarrow> None
         | _ # rest \<Rightarrow> Some (neg, (if lead then '']'' else []) @ takeWhile (\<lambda>c. c \<noteq> CHR '']'') s2, rest))"

lemma class_body_shorter: "class_body s = Some (neg, body, rest) \<Longrightarrow> length rest < length s"
proof -
  assume a: "class_body s = Some (neg, body, rest)"
  have l: "dropWhile P t = x # ys \<Longrightarrow> length ys < length t" for P x ys and t :: string
    using length_dropWhile_le [of P t] by simp
  show ?thesis using a by (auto simp: class_body_def Let_def split: list.splits if_splits dest!: l)
qed

function glob_tokens :: "string \<Rightarrow> glob_token list" where
  "glob_tokens [] = []"
| "glob_tokens (c # cs) =
     (if c = CHR ''*'' then Any_run # glob_tokens cs
      else if c = CHR ''?'' then Any_char # glob_tokens cs
      else if c = CHR ''['' then
        (case class_body cs of
           None \<Rightarrow> Literal c # glob_tokens cs
         | Some (neg, body, rest) \<Rightarrow> Char_class neg body # glob_tokens rest)
      else Literal c # glob_tokens cs)"
  by pat_completeness auto
termination by (relation "measure length") (auto dest: class_body_shorter)

definition char_le :: "char \<Rightarrow> char \<Rightarrow> bool" where
  "char_le a b = ((of_char a :: nat) \<le> of_char b)"

fun in_class :: "string \<Rightarrow> char \<Rightarrow> bool" where
  "in_class (x # y # z # rest) c =
     (if y = CHR ''-'' then (char_le x c \<and> char_le c z) \<or> in_class rest c else c = x \<or> in_class (y # z # rest) c)"
| "in_class (x # rest) c = (c = x \<or> in_class rest c)"
| "in_class [] c = False"

fun glob_match :: "glob_token list \<Rightarrow> string \<Rightarrow> bool" where
  "glob_match [] s = (s = [])"
| "glob_match (Any_run # ts) [] = glob_match ts []"
| "glob_match (Any_run # ts) (c # s) = (glob_match ts (c # s) \<or> glob_match (Any_run # ts) s)"
| "glob_match (Any_char # ts) (c # s) = glob_match ts s"
| "glob_match (Char_class neg body # ts) (c # s) = (in_class body c \<noteq> neg \<and> glob_match ts s)"
| "glob_match (Literal x # ts) (c # s) = (x = c \<and> glob_match ts s)"
| "glob_match ts [] = False"

definition fnmatch :: "string \<Rightarrow> string \<Rightarrow> bool" where
  "fnmatch name pat = glob_match (glob_tokens pat) name"

definition is_excluded :: "string list \<Rightarrow> path \<Rightarrow> bool \<Rightarrow> bool" where
  "is_excluded excludes rel_path is_dir =
     (let rel_posix = join_with (CHR ''/'') rel_path
      in list_ex (\<lambda>pat.
           (is_dir \<and> \<not> list_ex (\<lambda>ch. ch \<in> set pat) ''*?[]'' \<and> CHR ''/'' \<notin> set pat \<and> rel_posix = pat)
           \<or> fnmatch rel_posix pat
           \<or> (is_dir \<and> (fnmatch (rel_posix @ ''/'') pat \<or> fnmatch (rel_posix @ ''/.'') pat))) excludes)"

section \<open>Directories\<close>

text \<open>A file with its mode, a directory, or a link with its text and what it leads to, if anything.\<close>

datatype entry =
    Regular string "16 word"
  | Folder "(string \<times> entry) list"
  | Symlink string "entry option"

fun leads_to :: "entry \<Rightarrow> entry option" where
  "leads_to (Symlink text None) = None"
| "leads_to (Symlink text (Some e)) = leads_to e"
| "leads_to e = Some e"

definition is_dir_entry :: "entry \<Rightarrow> bool" where
  "is_dir_entry e = (case leads_to e of Some (Folder es) \<Rightarrow> True | _ \<Rightarrow> False)"

text \<open>
  The files in the order of \<open>os.walk\<close>: those of a directory, then those of the directories in it.  It does
  not go through links to directories, which are not files either.
\<close>

function walk_files :: "(path \<Rightarrow> bool \<Rightarrow> bool) \<Rightarrow> path \<Rightarrow> (string \<times> entry) list \<Rightarrow> (path \<times> entry) list"
  and walk_folders :: "(path \<Rightarrow> bool \<Rightarrow> bool) \<Rightarrow> path \<Rightarrow> (string \<times> entry) list \<Rightarrow> (path \<times> entry) list" where
  "walk_files excl p es =
     map (\<lambda>(n, e). (p @ [n], e)) (filter (\<lambda>(n, e). \<not> is_dir_entry e \<and> \<not> excl (p @ [n]) False) es)
     @ walk_folders excl p es"
| "walk_folders excl p [] = []"
| "walk_folders excl p ((n, e) # rest) =
     (case e of
        Folder es \<Rightarrow> if excl (p @ [n]) True then [] else walk_files excl (p @ [n]) es
      | _ \<Rightarrow> []) @ walk_folders excl p rest"
  by pat_completeness auto
termination
  by (relation "measure (case_sum (\<lambda>(_, _, es). 2 * size (Folder es) + 1) (\<lambda>(_, _, es). 2 * size (Folder es)))") auto

section \<open>Zip archives\<close>

text \<open>The name is kept as its components; the upper half of the attributes is the mode.\<close>

record zip_member =
  zm_name :: path
  zm_is_dir :: bool
  zm_content :: string
  zm_attr :: "32 word"

definition zip_write :: "path \<times> entry \<Rightarrow> zip_member result" where
  "zip_write = (\<lambda>(p, e).
     case leads_to e of
       Some (Regular content mode) \<Rightarrow>
         Inr \<lparr> zm_name = p, zm_is_dir = False, zm_content = content, zm_attr = push_bit 16 (ucast mode) \<rparr>
     | _ \<Rightarrow> Inl FileNotFoundError)"

text \<open>\<open>input\<close> is what is at the path, if anything.\<close>

definition zip_directory :: "string list option \<Rightarrow> entry option \<Rightarrow> zip_member list result" where
  "zip_directory excludes input =
     (case input of
        None \<Rightarrow> Inl RuntimeError
      | Some e \<Rightarrow>
          let excl = is_excluded (case excludes of Some l \<Rightarrow> l | None \<Rightarrow> [])
          in (case leads_to e of
                Some (Folder es) \<Rightarrow> mapM zip_write (walk_files excl [] es)
              | Some _ \<Rightarrow> Inr []
              | None \<Rightarrow> Inl RuntimeError))"

text \<open>
  What unpacking does, in order.  \<open>zipfile\<close> drops components of a name that are empty or lead elsewhere
  when it extracts; the paths for links and modes are taken as they are.
\<close>

datatype unpack_action =
    Extract_file path string
  | Extract_folder path
  | Make_link path string
  | Set_mode path "32 word"

definition sanitized :: "path \<Rightarrow> path" where
  "sanitized p = filter (\<lambda>c. c \<notin> {[], ''.'', ''..''}) p"

definition unzip_member :: "zip_member \<Rightarrow> unpack_action list" where
  "unzip_member m =
     (let perm = drop_bit 16 (zm_attr m)
      in if perm AND 40960 = 40960 then [Make_link (zm_name m) (zm_content m)]
         else (if zm_is_dir m then Extract_folder (sanitized (zm_name m))
               else Extract_file (sanitized (zm_name m)) (zm_content m))
              # (if perm \<noteq> 0 then [Set_mode (zm_name m) perm] else []))"

definition unzip_directory :: "zip_member list option \<Rightarrow> unpack_action list result" where
  "unzip_directory input =
     (case input of None \<Rightarrow> Inl RuntimeError | Some ms \<Rightarrow> Inr (concat (map unzip_member ms)))"

section \<open>Tar archives\<close>

datatype tar_member =
    Tar_file path string "16 word"
  | Tar_link path string

fun tar_add :: "path \<times> entry \<Rightarrow> tar_member list" where
  "tar_add (p, Regular content mode) = [Tar_file p content mode]"
| "tar_add (p, Symlink text target) = [Tar_link p text]"
| "tar_add (p, Folder es) = []"

definition tar_directory :: "entry option \<Rightarrow> tar_member list result" where
  "tar_directory input =
     (case input of
        None \<Rightarrow> Inl RuntimeError
      | Some e \<Rightarrow> (case leads_to e of
            Some (Folder es) \<Rightarrow> Inr (concat (map tar_add (walk_files (\<lambda>_ _. False) [] es)))
          | Some _ \<Rightarrow> Inr []
          | None \<Rightarrow> Inl RuntimeError))"

fun untar_member :: "tar_member \<Rightarrow> unpack_action list" where
  "untar_member (Tar_file p content mode) =
     Extract_file p content # (if mode AND 4095 \<noteq> 0 then [Set_mode p (ucast (mode AND 4095))] else [])"
| "untar_member (Tar_link p text) = [Make_link p text]"

definition untar_directory :: "tar_member list option \<Rightarrow> unpack_action list result" where
  "untar_directory input =
     (case input of None \<Rightarrow> Inl RuntimeError | Some ms \<Rightarrow> Inr (concat (map untar_member ms)))"

section \<open>What unpacking leaves in a new directory\<close>

datatype stored = Kept string "16 word" | Linked string

text \<open>Files only; a new file has a default mode until it is set.\<close>

definition file_mode :: "32 word \<Rightarrow> 16 word" where
  "file_mode perm = 32768 OR (ucast perm AND 4095)"

fun unpack :: "16 word \<Rightarrow> (path \<Rightarrow> stored option) \<Rightarrow> unpack_action list \<Rightarrow> (path \<Rightarrow> stored option) result" where
  "unpack dflt st [] = Inr st"
| "unpack dflt st (Extract_file p content # acts) = unpack dflt (st(p \<mapsto> Kept content dflt)) acts"
| "unpack dflt st (Extract_folder p # acts) = unpack dflt st acts"
| "unpack dflt st (Make_link p text # acts) =
     (if st p = None then unpack dflt (st(p \<mapsto> Linked text)) acts else Inl OSError)"
| "unpack dflt st (Set_mode p perm # acts) =
     unpack dflt (case st p of Some (Kept content mode) \<Rightarrow> st(p \<mapsto> Kept content (file_mode perm)) | _ \<Rightarrow> st) acts"

text \<open>A file by its path, as the patterns let it be found, without going through links to directories.\<close>

fun find_file :: "(path \<Rightarrow> bool \<Rightarrow> bool) \<Rightarrow> path \<Rightarrow> (string \<times> entry) list \<Rightarrow> path \<Rightarrow> entry option" where
  "find_file excl p es [] = None"
| "find_file excl p es [n] =
     (case map_of es n of
        Some e \<Rightarrow> if is_dir_entry e \<or> excl (p @ [n]) False then None else Some e
      | None \<Rightarrow> None)"
| "find_file excl p es (n # m # q) =
     (case map_of es n of
        Some (Folder es') \<Rightarrow> if excl (p @ [n]) True then None else find_file excl (p @ [n]) es' (m # q)
      | _ \<Rightarrow> None)"

definition good_name :: "string \<Rightarrow> bool" where
  "good_name n = (n \<notin> {[], ''.'', ''..''})"

function wf_entry :: "entry \<Rightarrow> bool" where
  "wf_entry (Regular content mode) = (mode AND 61440 = 32768)"
| "wf_entry (Folder es) = (distinct (map fst es) \<and> (\<forall>x \<in> set es. good_name (fst x) \<and> wf_entry (snd x)))"
| "wf_entry (Symlink text None) = True"
| "wf_entry (Symlink text (Some e)) = wf_entry e"
  by pat_completeness auto
termination
proof (relation "measure size", simp_all)
  fix es :: "(string \<times> entry) list" and x
  assume "x \<in> set es"
  then show "size (snd x) < Suc (size_list (size_prod (\<lambda>_. 0) size) es)"
    by (induction es) auto
qed

lemma find_file_Cons:
  "find_file excl p ((n, e) # rest) (n' # m # q) =
     (if n' = n then (case e of Folder es' \<Rightarrow> if excl (p @ [n]) True then None else find_file excl (p @ [n]) es' (m # q)
                              | _ \<Rightarrow> None)
      else find_file excl p rest (n' # m # q))"
  by (auto split: entry.split)

lemma find_file_missing: "n \<notin> fst ` set es \<Longrightarrow> find_file excl p es (n # q) = None"
  by (cases q) (auto simp: map_of_eq_None_iff [symmetric] split: option.split)

lemma find_one:
  "find_file excl p es [n] = Some e \<longleftrightarrow> map_of es n = Some e \<and> \<not> is_dir_entry e \<and> \<not> excl (p @ [n]) False"
  by (auto split: option.splits)

lemma walk_find:
  "wf_entry (Folder es) \<Longrightarrow> (q, e) \<in> set (walk_files excl p es) \<longleftrightarrow> (\<exists>r. q = p @ r \<and> find_file excl p es r = Some e)"
  "wf_entry (Folder es) \<Longrightarrow> (q, e) \<in> set (walk_folders excl p es)
     \<longleftrightarrow> (\<exists>n m r. q = p @ n # m # r \<and> find_file excl p es (n # m # r) = Some e)"
proof (induction excl p es and excl p es arbitrary: q e and q e rule: walk_files_walk_folders.induct)
  case (1 excl p es)
  have "(q, e) \<in> set (map (\<lambda>(n, e). (p @ [n], e)) (filter (\<lambda>(n, e). \<not> is_dir_entry e \<and> \<not> excl (p @ [n]) False) es))
      \<longleftrightarrow> (\<exists>n. q = p @ [n] \<and> find_file excl p es [n] = Some e)"
    unfolding find_one using 1(2) by (auto simp: map_of_eq_Some_iff image_iff)
  moreover have "(\<exists>r. q = p @ r \<and> find_file excl p es r = Some e) \<longleftrightarrow>
      (\<exists>n. q = p @ [n] \<and> find_file excl p es [n] = Some e)
      \<or> (\<exists>n m r. q = p @ n # m # r \<and> find_file excl p es (n # m # r) = Some e)"
    by (metis find_file.simps(1) neq_Nil_conv option.distinct(1))
  ultimately show ?case using 1(1)[OF 1(2)] by simp
next
  case (2 excl p)
  then show ?case by simp
next
  case (3 excl p n f rest)
  then have rest: "(q, e) \<in> set (walk_folders excl p rest)
      \<longleftrightarrow> (\<exists>n m r. q = p @ n # m # r \<and> find_file excl p rest (n # m # r) = Some e)" for q e by simp
  have n: "n \<notin> fst ` set rest" using 3(3) by auto
  have here: "(q, e) \<in> set (case f of Folder es \<Rightarrow> if excl (p @ [n]) True then [] else walk_files excl (p @ [n]) es | _ \<Rightarrow> [])
      \<longleftrightarrow> (\<exists>m r. q = p @ n # m # r \<and> find_file excl p ((n, f) # rest) (n # m # r) = Some e)" for q e
  proof (cases f)
    case (Folder es)
    show ?thesis
    proof (cases "excl (p @ [n]) True")
      case False
      have "(q, e) \<in> set (walk_files excl (p @ [n]) es) \<longleftrightarrow> (\<exists>r. q = (p @ [n]) @ r \<and> find_file excl (p @ [n]) es r = Some e)"
        using 3(1) [OF Folder False] 3(3) Folder by simp
      also have "\<dots> \<longleftrightarrow> (\<exists>m r. q = p @ n # m # r \<and> find_file excl (p @ [n]) es (m # r) = Some e)"
        by (metis append_Cons append_Nil append_assoc find_file.simps(1) neq_Nil_conv option.distinct(1))
      finally show ?thesis using Folder False by simp
    qed (simp add: Folder)
  qed simp_all
  have other: "find_file excl p rest (n' # m # r) = Some e
      \<longleftrightarrow> n' \<noteq> n \<and> find_file excl p ((n, f) # rest) (n' # m # r) = Some e" for n' m r
    by (cases "n' = n") (simp_all add: find_file_missing [OF n] find_file_Cons del: find_file.simps)
  show ?case unfolding walk_folders.simps set_append Un_iff here rest other by blast
qed

section \<open>Packing and unpacking\<close>

declare walk_files.simps [simp del]

lemma good_find:
  assumes "wf_entry (Folder es)" "find_file excl p es q = Some e"
  shows "wf_entry e \<and> (\<forall>c \<in> set q. good_name c)"
  using assms
proof (induction excl p es q rule: find_file.induct)
  case (2 excl p es n)
  then have "(n, e) \<in> set es" by (auto dest: map_of_SomeD split: option.splits if_splits)
  with 2 show ?case by auto
next
  case (3 excl p es n m q)
  then obtain es' where es': "map_of es n = Some (Folder es')" "\<not> excl (p @ [n]) True"
    "find_file excl (p @ [n]) es' (m # q) = Some e" by (auto split: option.splits entry.splits if_splits)
  have "\<forall>x \<in> set es. good_name (fst x) \<and> wf_entry (snd x)" using 3(2) by simp
  from bspec [OF this map_of_SomeD [OF es'(1)]] have "good_name n" "wf_entry (Folder es')"
    unfolding fst_conv snd_conv by (rule conjunct1, rule conjunct2)
  with 3(1) [OF es'(1) refl es'(2)] es'(3) show ?case by simp
qed simp

lemma good_path: "\<forall>c \<in> set q. good_name c \<Longrightarrow> sanitized q = q"
  unfolding sanitized_def good_name_def by (rule filter_True)

lemma wf_leads_to: "wf_entry e \<Longrightarrow> leads_to e = Some e' \<Longrightarrow> wf_entry e'"
  by (induction e rule: leads_to.induct) auto

lemma mode_back: "drop_bit 16 (push_bit 16 (ucast m :: 32 word)) = (ucast m :: 32 word)" for m :: "16 word"
  by (rule bit_eqI) (auto simp: bit_simps dest: bit_imp_le_length)

lemma regular_not_link: "m AND 61440 = 32768 \<Longrightarrow> (ucast m :: 32 word) AND 40960 \<noteq> 40960" for m :: "16 word"
proof
  assume a: "m AND 61440 = 32768" and b: "(ucast m :: 32 word) AND 40960 = 40960"
  have "bit (m AND 61440) 13 = bit (32768 :: 16 word) 13" by (simp only: a)
  then have "\<not> bit m 13" by (simp add: bit_simps)
  moreover have "bit ((ucast m :: 32 word) AND 40960) 13 = bit (40960 :: 32 word) 13" by (simp only: b)
  then have "bit m 13" by (simp add: bit_simps)
  ultimately show False by simp
qed

lemma regular_not_zero: "m AND 61440 = 32768 \<Longrightarrow> (ucast m :: 32 word) \<noteq> 0" for m :: "16 word"
proof
  assume a: "m AND 61440 = 32768" and b: "(ucast m :: 32 word) = 0"
  have "bit (m AND 61440) 15 = bit (32768 :: 16 word) 15" by (simp only: a)
  moreover have "bit (ucast m :: 32 word) 15 = bit (0 :: 32 word) 15" by (simp only: b)
  ultimately show False by (simp add: bit_simps)
qed

lemma file_mode_back: "m AND 61440 = 32768 \<Longrightarrow> file_mode (ucast m) = m" for m :: "16 word"
proof -
  assume a: "m AND 61440 = 32768"
  have all_bits: "61440 OR 4095 = (- 1 :: 16 word)" by simp
  have "m = m AND (61440 OR 4095)" unfolding all_bits by (rule and.right_neutral [symmetric])
  also have "\<dots> = (m AND 61440) OR (m AND 4095)" by (rule bit.conj_disj_distrib)
  finally have "m = 32768 OR (m AND 4095)" unfolding a .
  moreover have "(ucast (ucast m :: 32 word) :: 16 word) = m"
    by (rule bit_eqI) (auto simp: bit_simps dest: bit_imp_le_length)
  ultimately show ?thesis by (simp add: file_mode_def)
qed

lemma zip_write_Inr:
  assumes "zip_write (p, e) = Inr m"
  obtains content mode where "leads_to e = Some (Regular content mode)"
    "m = \<lparr> zm_name = p, zm_is_dir = False, zm_content = content, zm_attr = push_bit 16 (ucast mode) \<rparr>"
  using assms by (auto simp: zip_write_def split: option.splits entry.splits)

definition file_of :: "entry \<Rightarrow> stored option" where
  "file_of e = (case leads_to e of Some (Regular content mode) \<Rightarrow> Some (Kept content mode) | _ \<Rightarrow> None)"

lemma unzip_one:
  assumes "zip_write (p, e) = Inr m" "wf_entry e" "\<forall>c \<in> set p. good_name c"
  shows "unpack dflt st (unzip_member m @ acts) = unpack dflt (st(p := file_of e)) acts"
proof -
  obtain content mode where e: "leads_to e = Some (Regular content mode)"
    and m: "m = \<lparr> zm_name = p, zm_is_dir = False, zm_content = content, zm_attr = push_bit 16 (ucast mode) \<rparr>"
    by (rule zip_write_Inr [OF assms(1)])
  have mode: "mode AND 61440 = 32768" using wf_leads_to [OF assms(2) e] by simp
  have "(ucast mode :: 32 word) \<noteq> 0" using regular_not_zero [OF mode] .
  then show ?thesis
    by (simp add: m unzip_member_def mode_back regular_not_link [OF mode] file_mode_back [OF mode] good_path [OF assms(3)]
        file_of_def e)
qed

text \<open>Writing files that agree where they have the same path.\<close>

lemma unzip_all:
  assumes "mapM zip_write ws = Inr ms" "\<forall>(p, e) \<in> set ws. wf_entry e \<and> (\<forall>c \<in> set p. good_name c)"
    and "\<And>p e e'. (p, e) \<in> set ws \<Longrightarrow> (p, e') \<in> set ws \<Longrightarrow> e = e'"
  shows "\<exists>store. unpack dflt st (concat (map unzip_member ms)) = Inr store
    \<and> (\<forall>q e. (q, e) \<in> set ws \<longrightarrow> store q = file_of e) \<and> (\<forall>q. q \<notin> fst ` set ws \<longrightarrow> store q = st q)"
  using assms
proof (induction ws arbitrary: ms st)
  case (Cons w ws)
  obtain p e where w: "w = (p, e)" by (cases w)
  from Cons.prems(1) obtain m ms' where m: "zip_write (p, e) = Inr m" "mapM zip_write ws = Inr ms'" "ms = m # ms'"
    by (auto simp: w result_simps)
  have "\<exists>store. unpack dflt (st(p := file_of e)) (concat (map unzip_member ms')) = Inr store
      \<and> (\<forall>q e. (q, e) \<in> set ws \<longrightarrow> store q = file_of e) \<and> (\<forall>q. q \<notin> fst ` set ws \<longrightarrow> store q = (st(p := file_of e)) q)"
    using Cons.prems(2,3) by (intro Cons.IH [OF m(2)]) auto
  then obtain store where store: "unpack dflt (st(p := file_of e)) (concat (map unzip_member ms')) = Inr store"
    "\<forall>q e. (q, e) \<in> set ws \<longrightarrow> store q = file_of e" "\<forall>q. q \<notin> fst ` set ws \<longrightarrow> store q = (st(p := file_of e)) q"
    by (elim exE conjE)
  have one: "unpack dflt st (concat (map unzip_member ms)) = Inr store"
    using unzip_one [OF m(1)] Cons.prems(2) store(1) by (simp add: m(3) w)
  have "store p = file_of e"
  proof (cases "p \<in> fst ` set ws")
    case True
    then obtain e' where "(p, e') \<in> set ws" by auto
    with store(2) Cons.prems(3) [of p e e'] show ?thesis by (auto simp: w)
  qed (use store(3) in simp)
  with one store(2,3) show ?case by (auto simp: w)
qed simp

text \<open>
  C16. Unpacking what was packed gives back the directory: every file that the patterns do not leave out,
  itself or with a directory above it, is at its path with its content and its mode, a link to a file as
  that file, and nothing else is there.
\<close>

theorem zip_round_trip:
  assumes "zip_directory excludes (Some (Folder es)) = Inr ms" "wf_entry (Folder es)"
  shows "\<exists>actions store. unzip_directory (Some ms) = Inr actions \<and> unpack dflt (\<lambda>_. None) actions = Inr store
    \<and> (\<forall>q. store q = (case find_file (is_excluded (case excludes of Some l \<Rightarrow> l | None \<Rightarrow> [])) [] es q of
                        Some e \<Rightarrow> file_of e
                      | None \<Rightarrow> None))"
proof -
  let ?excl = "is_excluded (case excludes of Some l \<Rightarrow> l | None \<Rightarrow> [])"
  let ?ws = "walk_files ?excl [] es"
  have mem: "(q, e) \<in> set ?ws \<longleftrightarrow> find_file ?excl [] es q = Some e" for q e
    using walk_find(1) [OF assms(2), of q e ?excl "[]"] by simp
  have "mapM zip_write ?ws = Inr ms" using assms(1) by (simp add: zip_directory_def Let_def)
  moreover have "\<forall>(p, e) \<in> set ?ws. wf_entry e \<and> (\<forall>c \<in> set p. good_name c)"
    using good_find [OF assms(2)] by (auto simp: mem)
  ultimately have "\<exists>store. unpack dflt (\<lambda>_. None) (concat (map unzip_member ms)) = Inr store
      \<and> (\<forall>q e. (q, e) \<in> set ?ws \<longrightarrow> store q = file_of e) \<and> (\<forall>q. q \<notin> fst ` set ?ws \<longrightarrow> store q = None)"
    by (rule unzip_all) (simp add: mem)
  then obtain store where store: "unpack dflt (\<lambda>_. None) (concat (map unzip_member ms)) = Inr store"
    "\<forall>q e. (q, e) \<in> set ?ws \<longrightarrow> store q = file_of e" "\<forall>q. q \<notin> fst ` set ?ws \<longrightarrow> store q = None"
    by (elim exE conjE)
  have each: "store q = (case find_file ?excl [] es q of Some e \<Rightarrow> file_of e | None \<Rightarrow> None)" for q
  proof (cases "find_file ?excl [] es q")
    case None
    then have "q \<notin> fst ` set ?ws" using mem [of q] by auto
    with store(3) None show ?thesis by simp
  next
    case (Some e)
    with store(2) mem [of q e] show ?thesis by simp
  qed
  have "unzip_directory (Some ms) = Inr (concat (map unzip_member ms))" by (simp add: unzip_directory_def)
  with store(1) show ?thesis using allI [OF each] by (intro exI conjI)
qed

definition sample_folder :: "(string \<times> entry) list" where
  "sample_folder =
     [(''app'', Regular ''x'' 33261), (''lib'', Folder [(''a.so'', Regular ''y'' 33188), (''empty'', Folder [])]),
      (''out'', Folder [(''log'', Regular ''z'' 33188)]), (''current'', Symlink ''app'' (Some (Regular ''x'' 33261)))]"

definition sample_archive :: "zip_member list" where
  "sample_archive =
     (case zip_directory (Some [''out/**'', ''*.gitignore'']) (Some (Folder sample_folder)) of Inr ms \<Rightarrow> ms | Inl _ \<Rightarrow> [])"

lemma sample_archive:
  "zip_directory (Some [''out/**'', ''*.gitignore'']) (Some (Folder sample_folder)) = Inr sample_archive"
  by code_simp

theorem zip_round_trip_witness:
  "\<exists>actions store. unzip_directory (Some sample_archive) = Inr actions \<and> unpack 33188 (\<lambda>_. None) actions = Inr store
     \<and> store [''app''] = Some (Kept ''x'' 33261) \<and> store [''lib'', ''a.so''] = Some (Kept ''y'' 33188)
     \<and> store [''current''] = Some (Kept ''x'' 33261) \<and> store [''out'', ''log''] = None"
proof -
  let ?excl = "is_excluded (case Some [''out/**'', ''*.gitignore''] of Some l \<Rightarrow> l | None \<Rightarrow> [])"
  have wf: "wf_entry (Folder sample_folder)" by code_simp
  have "case find_file ?excl [] sample_folder [''app''] of Some e \<Rightarrow> file_of e = Some (Kept ''x'' 33261) | None \<Rightarrow> False"
    "case find_file ?excl [] sample_folder [''lib'', ''a.so''] of Some e \<Rightarrow> file_of e = Some (Kept ''y'' 33188) | None \<Rightarrow> False"
    "case find_file ?excl [] sample_folder [''current''] of Some e \<Rightarrow> file_of e = Some (Kept ''x'' 33261) | None \<Rightarrow> False"
    "find_file ?excl [] sample_folder [''out'', ''log''] = None"
    by code_simp+
  with zip_round_trip [OF sample_archive wf, of 33188] show ?thesis
    by (elim exE conjE) (intro exI conjI, assumption+, auto split: option.splits)
qed

section \<open>What does not come back\<close>

text \<open>A link to a directory, and everything that is reached through it, is left out.\<close>

lemma linked_directory_left_out:
  "map_of es n = Some (Symlink text (Some (Folder es'))) \<Longrightarrow> find_file excl p es (n # q) = None"
  by (cases q) (simp_all add: is_dir_entry_def)

text \<open>The name of a directory without a pattern is left out at the top only.\<close>

lemma simple_name_at_top_only:
  "is_excluded [''__pycache__''] [''__pycache__''] True" "\<not> is_excluded [''__pycache__''] [''src'', ''__pycache__''] True"
  by code_simp+

text \<open>A link is made where its name says, also outside the directory; a file is not.\<close>

lemma link_outside:
  "unzip_member \<lparr> zm_name = [''..'', ''f''], zm_is_dir = False, zm_content = t, zm_attr = push_bit 16 41471 \<rparr>
     = [Make_link [''..'', ''f''] t]"
  "unzip_member \<lparr> zm_name = [''..'', ''f''], zm_is_dir = False, zm_content = t, zm_attr = 0 \<rparr> = [Extract_file [''f''] t]"
  by (simp_all add: unzip_member_def sanitized_def)

section \<open>Output and downloads\<close>

text \<open>
  A channel is polled: before each poll some output arrives, and the exit status is there or is not.  A
  poll writes up to 1024 characters; once the status is there the rest is written.  \<open>None\<close> says that the
  status was never there in the polls that are given.
\<close>

fun realtime_output :: "(string \<times> bool) list \<Rightarrow> string \<Rightarrow> string option" where
  "realtime_output [] unread = None"
| "realtime_output ((new, exited) # polls) unread =
     (let ready = unread @ new; chunk = take 1024 ready; rest = drop 1024 ready
      in if exited then Some (chunk @ rest) else map_option (\<lambda>out. chunk @ out) (realtime_output polls rest))"

text \<open>
  A download: the length in the header must be a number, and is otherwise not looked at; the chunks that
  arrive are written, also those before a failure.
\<close>

definition download_progress_bar :: "string option \<Rightarrow> string list \<Rightarrow> py_exc option \<Rightarrow> unit result \<times> string option" where
  "download_progress_bar content_length chunks failure =
     (case (case content_length of None \<Rightarrow> Some 0 | Some s \<Rightarrow> py_int s) of
        None \<Rightarrow> (Inl ValueError, None)
      | Some total_size \<Rightarrow> ((case failure of Some e \<Rightarrow> Inl e | None \<Rightarrow> Inr ()), Some (concat chunks)))"

text \<open>What runs in another directory; the one before is gone back to in every case.\<close>

definition pushd :: "('w, path) io \<Rightarrow> (path \<Rightarrow> ('w, unit) io) \<Rightarrow> path \<Rightarrow> ('w, 'a) io \<Rightarrow> ('w, 'a) io" where
  "pushd cwd chdir new_dir body =
     io_bind cwd (\<lambda>prev_dir w.
       case io_bind (chdir new_dir) (\<lambda>_. body) w of
         (r, w1) \<Rightarrow> (case chdir prev_dir w1 of (Inl e, w2) \<Rightarrow> (Inl e, w2) | (Inr _, w2) \<Rightarrow> (r, w2)))"

text \<open>Nothing that arrived before the exit status was seen is lost, and the order is kept.\<close>

lemma realtime_output_complete:
  "realtime_output (map (\<lambda>s. (s, False)) early @ (final, True) # polls) unread = Some (unread @ concat early @ final)"
proof (induction early arbitrary: unread)
  case (Cons s early)
  then show ?case by (simp add: Let_def flip: append_assoc)
qed (simp add: Let_def flip: append_assoc)

text \<open>A response without a length is written like any other.\<close>

lemma missing_length_accepted: "download_progress_bar None chunks None = (Inr (), Some (concat chunks))"
  by (simp add: download_progress_bar_def)

end
