(* ===== verification/JsonGenerator.thy ===== *)
theory JsonGenerator
  imports Json
begin

text \<open>
  The generator of test documents (\<open>client/src/cbltest/api/json_generator.py\<close>).  Its batches run in a
  pool of threads that share one random generator: a thread is a machine whose steps are its calls of
  \<open>random\<close>, and a schedule says which thread makes the next one.  The generator of random numbers, the
  clock and reading a number to base 16 are parameters.
\<close>

section \<open>Drawing the values of a document\<close>

record 'r random =
  rn_seed :: "int \<Rightarrow> 'r"
  rn_uniform :: "int \<Rightarrow> int \<Rightarrow> 'r \<Rightarrow> rat \<times> 'r"
  rn_randint :: "int \<Rightarrow> int \<Rightarrow> 'r \<Rightarrow> int \<times> 'r"
  rn_choice :: "nat \<Rightarrow> 'r \<Rightarrow> nat \<times> 'r"

datatype format = Json_format | Key_value

record json_generator =
  jg_seed :: int
  jg_size :: nat
  jg_format :: format

definition statuses :: "string list" where
  "statuses = [''active'', ''inactive'', ''maintenance'']"

record drawn =
  dr_temperature :: rat
  dr_humidity :: int
  dr_status :: string

text \<open>The bounds for the temperature and for the humidity.\<close>

type_synonym ranges = "(int \<times> int) \<times> (int \<times> int)"

definition document_ranges :: ranges where
  "document_ranges = ((- 20, 40), (0, 100))"

definition update_ranges :: "format \<Rightarrow> ranges" where
  "update_ranges f = (case f of Json_format \<Rightarrow> ((- 5, 5), (- 10, 10)) | Key_value \<Rightarrow> document_ranges)"

text \<open>The seed of a document: \<open>int16\<close> reads the part of its id before the first hyphen.\<close>

definition document_seed :: "(string \<Rightarrow> int option) \<Rightarrow> json_generator \<Rightarrow> string \<Rightarrow> int result" where
  "document_seed int16 self doc_id =
     (case int16 (hd (split_on (CHR ''-'') doc_id)) of None \<Rightarrow> Inl ValueError | Some n \<Rightarrow> Inr (jg_seed self + n))"

section \<open>Documents\<close>

definition data_of :: "drawn \<Rightarrow> json" where
  "data_of v =
     JObj [(''temperature'', JFloat (dr_temperature v)), (''humidity'', JInt (dr_humidity v)),
           (''status'', JStr (dr_status v))]"

definition metadata_of :: "int \<Rightarrow> int \<Rightarrow> json" where
  "metadata_of created modified =
     JObj [(''version'', JInt 1), (''created_at'', JInt created), (''modified_at'', JInt modified)]"

definition generated_document :: "format \<Rightarrow> drawn \<Rightarrow> int \<Rightarrow> int \<Rightarrow> json" where
  "generated_document f v created modified =
     (case f of
        Json_format \<Rightarrow> JObj [(''data'', data_of v), (''metadata'', metadata_of created modified)]
      | Key_value \<Rightarrow> JList [JObj [(''data'', data_of v)], JObj [(''metadata'', metadata_of created modified)]])"

definition py_number :: "json \<Rightarrow> rat result" where
  "py_number v =
     (case v of
        JInt n \<Rightarrow> Inr (of_int n)
      | JBool b \<Rightarrow> Inr (if b then 1 else 0)
      | JFloat x \<Rightarrow> Inr x
      | _ \<Rightarrow> Inl TypeError)"

text \<open>\<open>v + n\<close> and \<open>(v + n) % 100\<close> for an integer \<open>n\<close>: an integer or a float, as \<open>v\<close> is.\<close>

definition add_int :: "json \<Rightarrow> int \<Rightarrow> json result" where
  "add_int v n =
     (case v of JFloat x \<Rightarrow> Inr (JFloat (x + of_int n))
      | JInt m \<Rightarrow> Inr (JInt (m + n))
      | JBool b \<Rightarrow> Inr (JInt ((if b then 1 else 0) + n))
      | _ \<Rightarrow> Inl TypeError)"

definition mod_100 :: "json \<Rightarrow> json" where
  "mod_100 v =
     (case v of JInt m \<Rightarrow> JInt (m mod 100)
      | JFloat x \<Rightarrow> JFloat (x - 100 * of_int \<lfloor>x / 100\<rfloor>)
      | _ \<Rightarrow> v)"

text \<open>The part under a key, changed in place.\<close>

definition change_key :: "json \<Rightarrow> string \<Rightarrow> (json \<Rightarrow> json result) \<Rightarrow> json result" where
  "change_key v k f =
     (case v of
        JObj d \<Rightarrow> rbind (d_item d k) (\<lambda>x. rbind (f x) (\<lambda>y. Inr (JObj (d_set d k y))))
      | _ \<Rightarrow> Inl TypeError)"

definition set_key :: "json \<Rightarrow> string \<Rightarrow> json \<Rightarrow> json result" where
  "set_key v k x = (case v of JObj d \<Rightarrow> Inr (JObj (d_set d k x)) | _ \<Rightarrow> Inl TypeError)"

definition new_version :: "int \<Rightarrow> json \<Rightarrow> json result" where
  "new_version now v =
     change_key v ''metadata'' (\<lambda>m.
       rbind (change_key m ''version'' (\<lambda>n. add_int n 1)) (\<lambda>m'. set_key m' ''modified_at'' (JInt now)))"

definition new_data :: "drawn \<Rightarrow> json \<Rightarrow> json result" where
  "new_data r v =
     change_key v ''data'' (\<lambda>d.
       rbind (change_key d ''temperature'' (\<lambda>t.
         rbind (py_number t) (\<lambda>x. Inr (JFloat (x + dr_temperature r))))) (\<lambda>d.
       rbind (change_key d ''humidity'' (\<lambda>h. rbind (add_int h (dr_humidity r)) (\<lambda>x. Inr (mod_100 x)))) (\<lambda>d.
         set_key d ''status'' (JStr (dr_status r)))))"

definition updated_document :: "format \<Rightarrow> drawn \<Rightarrow> int \<Rightarrow> json \<Rightarrow> json result" where
  "updated_document f r now doc =
     (case f of
        Json_format \<Rightarrow> rbind (new_data r doc) (new_version now)
      | Key_value \<Rightarrow>
          (case doc of
             JList parts \<Rightarrow>
               rbind (py_nth parts 0) (\<lambda>first.
               rbind (set_key first ''data'' (data_of r)) (\<lambda>first'.
               rbind (py_nth parts 1) (\<lambda>second.
               rbind (new_version now second) (\<lambda>second'.
                 Inr (JList (parts[0 := first', 1 := second']))))))
           | _ \<Rightarrow> Inl TypeError))"

section \<open>Threads\<close>

datatype phase =
    Start
  | Seeded
  | Temperature rat
  | Humidity rat int

record thread =
  th_todo :: "string list"
  th_phase :: phase
  th_done :: "(string \<times> drawn) list"
  th_error :: "py_exc option"

definition new_thread :: "string list \<Rightarrow> thread" where
  "new_thread batch = \<lparr> th_todo = batch, th_phase = Start, th_done = [], th_error = None \<rparr>"

text \<open>One call of \<open>random\<close>: the document that is next is seeded, then its three values are drawn.\<close>

definition thread_step ::
    "'r random \<Rightarrow> (string \<Rightarrow> int result) \<Rightarrow> ranges \<Rightarrow> thread \<times> 'r \<Rightarrow> thread \<times> 'r" where
  "thread_step g sd rs = (\<lambda>(t, r).
     case th_todo t of
       [] \<Rightarrow> (t, r)
     | doc_id # rest \<Rightarrow>
         if th_error t \<noteq> None then (t, r)
         else case th_phase t of
           Start \<Rightarrow>
             (case sd doc_id of
                Inl e \<Rightarrow> (t\<lparr>th_error := Some e\<rparr>, r)
              | Inr s \<Rightarrow> (t\<lparr>th_phase := Seeded\<rparr>, rn_seed g s))
         | Seeded \<Rightarrow>
             (let (x, r') = rn_uniform g (fst (fst rs)) (snd (fst rs)) r in (t\<lparr>th_phase := Temperature x\<rparr>, r'))
         | Temperature x \<Rightarrow>
             (let (h, r') = rn_randint g (fst (snd rs)) (snd (snd rs)) r in (t\<lparr>th_phase := Humidity x h\<rparr>, r'))
         | Humidity x h \<Rightarrow>
             (let (i, r') = rn_choice g (length statuses) r
              in (t\<lparr>th_todo := rest, th_phase := Start,
                    th_done := th_done t @ [(doc_id, \<lparr> dr_temperature = x, dr_humidity = h, dr_status = statuses ! i \<rparr>)]\<rparr>, r')))"

fun run_threads ::
    "'r random \<Rightarrow> (string \<Rightarrow> int result) \<Rightarrow> ranges \<Rightarrow> nat list \<Rightarrow> thread list \<times> 'r \<Rightarrow> thread list \<times> 'r" where
  "run_threads g sd rs [] c = c"
| "run_threads g sd rs (i # sched) (ts, r) =
     (if i < length ts
      then let (t, r') = thread_step g sd rs (ts ! i, r) in run_threads g sd rs sched (ts[i := t], r')
      else run_threads g sd rs sched (ts, r))"

text \<open>The batches, each with a thread of its own.\<close>

function id_batches :: "nat \<Rightarrow> 'a list \<Rightarrow> 'a list list" where
  "id_batches n xs = (if xs = [] \<or> n = 0 then [] else take n xs # id_batches n (drop n xs))"
  by pat_completeness auto
termination by (relation "measure (\<lambda>(n, xs). length xs)") auto

declare id_batches.simps [simp del]

text \<open>
  The results in the order of the batches; the error of the first batch that raised is raised.
  \<open>build\<close> is what is built from the values of a document.
\<close>

definition thread_result :: "(string \<Rightarrow> drawn \<Rightarrow> json result) \<Rightarrow> thread \<Rightarrow> jdict result" where
  "thread_result build t =
     rbind (mapM (\<lambda>(doc_id, v). rbind (build doc_id v) (\<lambda>d. Inr (doc_id, d))) (th_done t)) (\<lambda>ds.
       case th_error t of Some e \<Rightarrow> Inl e | None \<Rightarrow> Inr (d_update [] ds))"

definition batch_process ::
    "'r random \<Rightarrow> (string \<Rightarrow> int result) \<Rightarrow> ranges \<Rightarrow> (string \<Rightarrow> drawn \<Rightarrow> json result) \<Rightarrow> string list \<Rightarrow> nat
      \<Rightarrow> nat list \<Rightarrow> 'r \<Rightarrow> jdict result" where
  "batch_process g sd rs build items_ids batch_size sched r =
     rbind (mapM (thread_result build) (fst (run_threads g sd rs sched (map new_thread (id_batches batch_size items_ids), r))))
       (\<lambda>results. Inr (foldl d_update [] results))"

definition generate_all_documents ::
    "'r random \<Rightarrow> (string \<Rightarrow> int option) \<Rightarrow> json_generator \<Rightarrow> (string \<Rightarrow> int) \<Rightarrow> string list \<Rightarrow> nat list \<Rightarrow> 'r
      \<Rightarrow> jdict result" where
  "generate_all_documents g int16 self clock doc_ids =
     batch_process g (document_seed int16 self) document_ranges
       (\<lambda>doc_id v. Inr (generated_document (jg_format self) v (clock doc_id) (clock doc_id))) doc_ids 1000"

definition update_all_documents ::
    "'r random \<Rightarrow> (string \<Rightarrow> int option) \<Rightarrow> json_generator \<Rightarrow> (string \<Rightarrow> int) \<Rightarrow> jdict \<Rightarrow> nat list \<Rightarrow> 'r
      \<Rightarrow> jdict result" where
  "update_all_documents g int16 self clock documents =
     batch_process g (document_seed int16 self) (update_ranges (jg_format self))
       (\<lambda>doc_id v. rbind (d_item documents doc_id) (updated_document (jg_format self) v (clock doc_id)))
       (map fst documents) 1000"

section \<open>Ranges\<close>

definition in_ranges :: "ranges \<Rightarrow> drawn \<Rightarrow> bool" where
  "in_ranges rs v =
     (of_int (fst (fst rs)) \<le> dr_temperature v \<and> dr_temperature v \<le> of_int (snd (fst rs))
      \<and> fst (snd rs) \<le> dr_humidity v \<and> dr_humidity v \<le> snd (snd rs) \<and> dr_status v \<in> set statuses)"

text \<open>What the library promises of its random numbers.\<close>

definition random_in_bounds :: "'r random \<Rightarrow> bool" where
  "random_in_bounds g =
     ((\<forall>a b r. a \<le> b \<longrightarrow> of_int a \<le> fst (rn_uniform g a b r) \<and> fst (rn_uniform g a b r) \<le> of_int b)
      \<and> (\<forall>a b r. a \<le> b \<longrightarrow> a \<le> fst (rn_randint g a b r) \<and> fst (rn_randint g a b r) \<le> b)
      \<and> (\<forall>n r. 0 < n \<longrightarrow> fst (rn_choice g n r) < n))"

definition thread_in_ranges :: "ranges \<Rightarrow> thread \<Rightarrow> bool" where
  "thread_in_ranges rs t =
     (list_all (\<lambda>(doc_id, v). in_ranges rs v) (th_done t)
      \<and> (case th_phase t of
           Temperature x \<Rightarrow> of_int (fst (fst rs)) \<le> x \<and> x \<le> of_int (snd (fst rs))
         | Humidity x h \<Rightarrow> of_int (fst (fst rs)) \<le> x \<and> x \<le> of_int (snd (fst rs)) \<and> fst (snd rs) \<le> h \<and> h \<le> snd (snd rs)
         | _ \<Rightarrow> True))"

lemma thread_step_in_ranges:
  assumes "random_in_bounds g" "fst (fst rs) \<le> snd (fst rs)" "fst (snd rs) \<le> snd (snd rs)" "thread_in_ranges rs t"
  shows "thread_in_ranges rs (fst (thread_step g sd rs (t, r)))"
proof -
  have u: "of_int (fst (fst rs)) \<le> fst (rn_uniform g (fst (fst rs)) (snd (fst rs)) r)"
    "fst (rn_uniform g (fst (fst rs)) (snd (fst rs)) r) \<le> of_int (snd (fst rs))"
    and i: "fst (snd rs) \<le> fst (rn_randint g (fst (snd rs)) (snd (snd rs)) r)"
    "fst (rn_randint g (fst (snd rs)) (snd (snd rs)) r) \<le> snd (snd rs)"
    using assms(1-3) by (simp_all add: random_in_bounds_def)
  have "fst (rn_choice g (length statuses) r) < length statuses"
    using assms(1) by (simp add: random_in_bounds_def statuses_def)
  then have "statuses ! fst (rn_choice g (length statuses) r) \<in> set statuses" by (rule nth_mem)
  with u i assms(4) show ?thesis
    by (auto simp: thread_step_def thread_in_ranges_def in_ranges_def Let_def case_prod_beta
        split: list.split phase.splits sum.split)
qed

lemma run_threads_in_ranges:
  assumes "random_in_bounds g" "fst (fst rs) \<le> snd (fst rs)" "fst (snd rs) \<le> snd (snd rs)"
    and "list_all (thread_in_ranges rs) ts"
  shows "list_all (thread_in_ranges rs) (fst (run_threads g sd rs sched (ts, r)))"
  using assms(4)
proof (induction sched arbitrary: ts r)
  case (Cons i sched)
  have "list_all (thread_in_ranges rs) (ts[i := fst (thread_step g sd rs (ts ! i, r))])" if "i < length ts"
    using Cons.prems thread_step_in_ranges [OF assms(1-3)] that
    by (auto simp: list_all_length nth_list_update)
  then show ?case using Cons by (simp add: case_prod_beta)
qed simp

lemma d_set_mem: "(k, v) \<in> set (d_set d k' v') \<Longrightarrow> (k, v) \<in> set d \<or> (k = k' \<and> v = v')"
  by (induction d) (auto split: if_splits)

lemma d_update_mem: "(k, v) \<in> set (d_update d e) \<Longrightarrow> (k, v) \<in> set d \<or> (k, v) \<in> set e"
proof (induction e arbitrary: d)
  case (Cons kv e)
  from Cons.IH [of "d_set d (fst kv) (snd kv)"] Cons.prems show ?case
    using d_set_mem [of k v d "fst kv" "snd kv"] by (cases kv) auto
qed simp

lemma foldl_d_update_mem:
  "(k, v) \<in> set (foldl d_update acc ds) \<Longrightarrow> (k, v) \<in> set acc \<or> (\<exists>d \<in> set ds. (k, v) \<in> set d)"
  by (induction ds arbitrary: acc) (auto dest: d_update_mem)

lemma thread_result_mem:
  assumes "thread_result build t = Inr d" "(k, v) \<in> set d"
  shows "\<exists>x. (k, x) \<in> set (th_done t) \<and> build k x = Inr v"
proof -
  obtain ds where ds: "mapM (\<lambda>(doc_id, v). rbind (build doc_id v) (\<lambda>d. Inr (doc_id, d))) (th_done t) = Inr ds"
    "d = d_update [] ds"
    using assms(1) by (auto simp: thread_result_def result_simps split: option.splits)
  have "(k, v) \<in> set ds" using d_update_mem [of k v "[]" ds] assms(2) ds(2) by simp
  from mapM_mem [OF ds(1) this] show ?thesis by (auto simp: result_simps)
qed

text \<open>
  Whatever the threads do to the generator they share, a generated document has the values it may
  have: a temperature from -20 to 40, a humidity from 0 to 100, and one of the three states.
\<close>

theorem generated_values_in_range:
  assumes "random_in_bounds g" "generate_all_documents g int16 self clock doc_ids sched r = Inr docs"
    and "(doc_id, doc) \<in> set docs"
  shows "\<exists>v. doc = generated_document (jg_format self) v (clock doc_id) (clock doc_id)
    \<and> - 20 \<le> dr_temperature v \<and> dr_temperature v \<le> 40 \<and> 0 \<le> dr_humidity v \<and> dr_humidity v \<le> 100
    \<and> dr_status v \<in> set statuses"
proof -
  let ?build = "\<lambda>doc_id v. Inr (generated_document (jg_format self) v (clock doc_id) (clock doc_id)) :: json result"
  let ?ts = "fst (run_threads g (document_seed int16 self) document_ranges sched
    (map new_thread (id_batches 1000 doc_ids), r))"
  have "list_all (thread_in_ranges document_ranges) (map new_thread (id_batches 1000 doc_ids))"
    by (simp add: list_all_iff thread_in_ranges_def new_thread_def)
  then have ok: "list_all (thread_in_ranges document_ranges) ?ts"
    using run_threads_in_ranges [OF assms(1)] by (simp add: document_ranges_def)
  obtain results where results: "mapM (thread_result ?build) ?ts = Inr results" "docs = foldl d_update [] results"
    using assms(2) by (auto simp: generate_all_documents_def batch_process_def result_simps)
  obtain d where d: "d \<in> set results" "(doc_id, doc) \<in> set d"
    using foldl_d_update_mem [of doc_id doc "[]" results] assms(3) results(2) by auto
  obtain t where t: "t \<in> set ?ts" "thread_result ?build t = Inr d" using mapM_mem [OF results(1) d(1)] by blast
  obtain v where v: "(doc_id, v) \<in> set (th_done t)" "?build doc_id v = Inr doc"
    using thread_result_mem [OF t(2) d(2)] by blast
  have "in_ranges document_ranges v" using ok t(1) v(1) by (auto simp: list_all_iff thread_in_ranges_def)
  then show ?thesis using v(2) by (intro exI [of _ v]) (simp add: in_ranges_def document_ranges_def)
qed

section \<open>Reproducing documents\<close>

text \<open>The values that a seed gives when nobody else draws in between.\<close>

definition drawn_from :: "'r random \<Rightarrow> ranges \<Rightarrow> int \<Rightarrow> drawn" where
  "drawn_from g rs s =
     (let (x, r1) = rn_uniform g (fst (fst rs)) (snd (fst rs)) (rn_seed g s);
          (h, r2) = rn_randint g (fst (snd rs)) (snd (snd rs)) r1
      in \<lparr> dr_temperature = x, dr_humidity = h, dr_status = statuses ! fst (rn_choice g (length statuses) r2) \<rparr>)"

definition reproducible :: "'r random \<Rightarrow> (string \<Rightarrow> int result) \<Rightarrow> ranges \<Rightarrow> string \<Rightarrow> drawn" where
  "reproducible g sd rs doc_id = drawn_from g rs (case sd doc_id of Inr s \<Rightarrow> s | Inl e \<Rightarrow> 0)"

text \<open>A thread that has finished a number of its documents, with the reproducible values.\<close>

definition progress :: "'r random \<Rightarrow> (string \<Rightarrow> int result) \<Rightarrow> ranges \<Rightarrow> string list \<Rightarrow> nat \<Rightarrow> thread" where
  "progress g sd rs batch n =
     \<lparr> th_todo = drop n batch, th_phase = Start,
       th_done = map (\<lambda>doc_id. (doc_id, reproducible g sd rs doc_id)) (take n batch), th_error = None \<rparr>"

lemma replicate_4: "replicate 4 i = [i, i, i, i]"
  by (simp add: numeral_eq_Suc)

lemma four_steps:
  assumes "\<forall>doc_id \<in> set batch. \<exists>s. sd doc_id = Inr s" "i < length ts" "ts ! i = progress g sd rs batch n"
  shows "\<exists>r'. run_threads g sd rs (replicate 4 i @ sched) (ts, r)
    = run_threads g sd rs sched (ts[i := progress g sd rs batch (Suc n)], r')"
proof (cases "n < length batch")
  case True
  then have d: "drop n batch = batch ! n # drop (Suc n) batch" "take (Suc n) batch = take n batch @ [batch ! n]"
    by (simp_all add: Cons_nth_drop_Suc take_Suc_conv_app_nth)
  obtain s where s: "sd (batch ! n) = Inr s" using assms(1) True nth_mem by blast
  show ?thesis using assms(2,3) True
    by (auto simp: replicate_4 thread_step_def progress_def d s case_prod_beta Let_def reproducible_def drawn_from_def)
next
  case False
  then have "progress g sd rs batch (Suc n) = ts ! i" "th_todo (ts ! i) = []"
    using assms(3) by (simp_all add: progress_def)
  then show ?thesis using assms(2) False by (auto simp: replicate_4 thread_step_def)
qed

lemma whole_documents:
  assumes "\<forall>batch \<in> set bs. \<forall>doc_id \<in> set batch. \<exists>s. sd doc_id = Inr s"
  shows "\<exists>r'. run_threads g sd rs (concat (map (replicate 4) order))
      (map (\<lambda>i. progress g sd rs (bs ! i) (f i)) [0..<length bs], r)
    = (map (\<lambda>i. progress g sd rs (bs ! i) (f i + count_list order i)) [0..<length bs], r')"
proof (induction order arbitrary: f r)
  case (Cons k order)
  let ?ts = "\<lambda>f. map (\<lambda>i. progress g sd rs (bs ! i) (f i)) [0..<length bs]"
  let ?f = "f(k := Suc (f k))"
  have "\<exists>r'. run_threads g sd rs (concat (map (replicate 4) (k # order))) (?ts f, r)
      = run_threads g sd rs (concat (map (replicate 4) order)) (?ts ?f, r')"
  proof (cases "k < length bs")
    case True
    have "(?ts f)[k := progress g sd rs (bs ! k) (Suc (f k))] = ?ts ?f"
      using True by (intro nth_equalityI) (auto simp: nth_list_update)
    moreover have "\<forall>doc_id \<in> set (bs ! k). \<exists>s. sd doc_id = Inr s" using assms nth_mem [OF True] by blast
    then have "\<exists>r'. run_threads g sd rs (replicate 4 k @ concat (map (replicate 4) order)) (?ts f, r)
        = run_threads g sd rs (concat (map (replicate 4) order))
            ((?ts f)[k := progress g sd rs (bs ! k) (Suc (f k))], r')"
      using True by (intro four_steps) simp_all
    ultimately show ?thesis by (simp only: concat.simps list.map(2))
  next
    case False
    then have same: "?ts ?f = ?ts f" by (auto intro: map_cong)
    have "run_threads g sd rs (concat (map (replicate 4) (k # order))) (?ts f, r)
        = run_threads g sd rs (concat (map (replicate 4) order)) (?ts f, r)"
      using False by (simp add: replicate_4)
    then show ?thesis unfolding same by (rule exI)
  qed
  then obtain r' where r': "run_threads g sd rs (concat (map (replicate 4) (k # order))) (?ts f, r)
      = run_threads g sd rs (concat (map (replicate 4) order)) (?ts ?f, r')" by blast
  have each: "?f i + count_list order i = f i + count_list (k # order) i" for i by simp
  show ?case using Cons.IH [of ?f r'] unfolding r' each .
qed simp

lemma concat_batches: "0 < n \<Longrightarrow> concat (id_batches n xs) = xs"
proof (induction n xs rule: id_batches.induct)
  case (1 n xs)
  then show ?case by (subst id_batches.simps) auto
qed

lemma map_of_same_build:
  "map_of (d_update d (map (\<lambda>k. (k, F k)) ks)) k = (if k \<in> set ks then Some (F k) else map_of d k)"
  by (induction ks arbitrary: d) auto

lemma map_of_all_batches:
  "map_of (foldl d_update acc (map (\<lambda>b. d_update [] (map (\<lambda>k. (k, F k)) b)) bs)) k
     = (if k \<in> set (concat bs) then Some (F k) else map_of acc k)"
proof (induction bs arbitrary: acc)
  case (Cons b bs)
  have "d_wf (d_update [] (map (\<lambda>k. (k, F k)) b))" by (simp add: d_wf_update)
  then show ?case using Cons by (auto simp: map_of_d_update map_of_same_build map_add_def)
qed simp

text \<open>
  C39. Documents are reproducible as long as no thread draws within the document of another: with a
  schedule of whole documents that is long enough, what is generated is decided by the seed, the ids
  and the clock alone, in any order of the threads and from any state of the generator.
\<close>

theorem generation_reproducible:
  assumes "\<forall>doc_id \<in> set doc_ids. int16 (hd (split_on (CHR ''-'') doc_id)) \<noteq> None"
    and "\<forall>i < length (id_batches 1000 doc_ids). length (id_batches 1000 doc_ids ! i) \<le> count_list order i"
  shows "\<exists>docs. generate_all_documents g int16 self clock doc_ids (concat (map (replicate 4) order)) r = Inr docs
    \<and> (\<forall>doc_id. map_of docs doc_id
        = (if doc_id \<in> set doc_ids
           then Some (generated_document (jg_format self)
                  (drawn_from g document_ranges (jg_seed self + the (int16 (hd (split_on (CHR ''-'') doc_id)))))
                  (clock doc_id) (clock doc_id))
           else None))"
proof -
  let ?sd = "document_seed int16 self" and ?bs = "id_batches 1000 doc_ids"
  let ?F = "\<lambda>doc_id. generated_document (jg_format self) (reproducible g ?sd document_ranges doc_id) (clock doc_id) (clock doc_id)"
  have ids: "set (concat ?bs) = set doc_ids" by (simp add: concat_batches del: set_concat)
  have sd: "\<forall>doc_id \<in> set doc_ids. ?sd doc_id = Inr (jg_seed self + the (int16 (hd (split_on (CHR ''-'') doc_id))))"
    using assms(1) by (auto simp: document_seed_def)
  have "\<forall>batch \<in> set ?bs. \<forall>doc_id \<in> set batch. \<exists>s. ?sd doc_id = Inr s"
    using sd ids by (auto simp only: set_concat UN_iff)
  from whole_documents [OF this, of g document_ranges order "\<lambda>_. 0" r]
  obtain r' where run: "run_threads g ?sd document_ranges (concat (map (replicate 4) order))
      (map (\<lambda>i. progress g ?sd document_ranges (?bs ! i) 0) [0..<length ?bs], r)
    = (map (\<lambda>i. progress g ?sd document_ranges (?bs ! i) (count_list order i)) [0..<length ?bs], r')" by auto
  have new: "map new_thread ?bs = map (\<lambda>i. progress g ?sd document_ranges (?bs ! i) 0) [0..<length ?bs]"
    by (intro nth_equalityI) (simp_all add: new_thread_def progress_def)
  have results: "mapM (thread_result (\<lambda>doc_id v. Inr (generated_document (jg_format self) v (clock doc_id) (clock doc_id))))
      (map (\<lambda>i. progress g ?sd document_ranges (?bs ! i) (count_list order i)) [0..<length ?bs])
    = Inr (map (\<lambda>i. d_update [] (map (\<lambda>k. (k, ?F k)) (?bs ! i))) [0..<length ?bs])" (is "mapM ?r ?ts = _")
  proof -
    have "?r (progress g ?sd document_ranges (?bs ! i) (count_list order i))
        = Inr (d_update [] (map (\<lambda>k. (k, ?F k)) (?bs ! i)))" if "i < length ?bs" for i
      using assms(2) that
      by (simp add: thread_result_def progress_def mapM_total [where g = "\<lambda>(k, v). (k, generated_document (jg_format self) v (clock k) (clock k))"]
          case_prod_beta comp_def)
    then show ?thesis by (simp add: mapM_Inr_iff list_all2_conv_all_nth)
  qed
  have each: "map (\<lambda>i. d_update [] (map (\<lambda>k. (k, ?F k)) (?bs ! i))) [0..<length ?bs]
      = map (\<lambda>b. d_update [] (map (\<lambda>k. (k, ?F k)) b)) ?bs"
    by (intro nth_equalityI) simp_all
  have "generate_all_documents g int16 self clock doc_ids (concat (map (replicate 4) order)) r
      = Inr (foldl d_update [] (map (\<lambda>b. d_update [] (map (\<lambda>k. (k, ?F k)) b)) ?bs))"
    by (simp only: generate_all_documents_def batch_process_def new run fst_conv results each rbind_def sum.case)
  then show ?thesis using sd
    by (intro exI conjI allI) (auto simp: map_of_all_batches ids reproducible_def simp del: set_concat)
qed

section \<open>Examples\<close>

text \<open>A generator that counts.\<close>

definition counting :: "int random" where
  "counting =
     \<lparr> rn_seed = (\<lambda>s. s), rn_uniform = (\<lambda>a b r. (of_int (a + r mod (b - a + 1)), r + 1)),
       rn_randint = (\<lambda>a b r. (a + r mod (b - a + 1), r + 1)), rn_choice = (\<lambda>n r. (nat (r mod int n), r + 1)) \<rparr>"

definition one_digit :: "string \<Rightarrow> int option" where
  "one_digit s = (if s = ''1'' then Some 1 else if s = ''2'' then Some 2 else None)"

definition example_generator :: json_generator where
  "example_generator = \<lparr> jg_seed = 7, jg_size = 2, jg_format = Json_format \<rparr>"

lemma counting_in_bounds: "random_in_bounds counting"
proof -
  have "a \<le> a + r mod (b - a + 1) \<and> a + r mod (b - a + 1) \<le> b" if "a \<le> b" for a b r :: int
    using that pos_mod_bound [of "b - a + 1" r] pos_mod_sign [of "b - a + 1" r] by linarith
  then have "a \<le> b \<Longrightarrow> (of_int a :: rat) \<le> of_int (a + r mod (b - a + 1)) \<and> of_int (a + r mod (b - a + 1)) \<le> (of_int b :: rat)"
    "a \<le> b \<Longrightarrow> a \<le> a + r mod (b - a + 1) \<and> a + r mod (b - a + 1) \<le> b" for a b r :: int
    unfolding of_int_le_iff by blast+
  moreover have "nat (r mod int n) < n" if "0 < n" for r :: int and n
    using that by (simp add: nat_less_iff)
  ultimately show ?thesis unfolding random_in_bounds_def counting_def by (simp del: of_int_add)
qed

lemma one_batch: "id_batches 1000 [''1-a'', ''2-b''] = [[''1-a'', ''2-b'']]"
  by (subst id_batches.simps, simp, subst id_batches.simps, simp)

theorem generation_reproducible_witness:
  "\<exists>docs. generate_all_documents counting one_digit example_generator (\<lambda>_. 5) [''1-a'', ''2-b''] (replicate 8 0) 99
       = Inr docs
     \<and> map_of docs ''1-a'' = Some (generated_document Json_format (drawn_from counting document_ranges 8) 5 5)"
proof -
  have ids: "\<forall>doc_id \<in> set [''1-a'', ''2-b'']. one_digit (hd (split_on (CHR ''-'') doc_id)) \<noteq> None" by code_simp
  have long: "\<forall>i < length (id_batches 1000 [''1-a'', ''2-b'']). length (id_batches 1000 [''1-a'', ''2-b''] ! i) \<le> count_list [0, 0] i"
    by (simp add: one_batch)
  have "(7 :: int) + the (one_digit (hd (split_on (CHR ''-'') ''1-a''))) = 8" by code_simp
  moreover have "concat (map (replicate 4) [0, 0]) = replicate 8 (0 :: nat)" by (simp add: numeral_eq_Suc)
  ultimately show ?thesis
    using generation_reproducible [OF ids long, of counting example_generator "\<lambda>_. 5" 99]
    by (auto simp: example_generator_def)
qed

theorem generated_values_in_range_witness:
  "\<exists>docs doc v. generate_all_documents counting one_digit example_generator (\<lambda>_. 5) [''1-a'', ''2-b''] (replicate 8 0) 99
       = Inr docs \<and> (''1-a'', doc) \<in> set docs \<and> doc = generated_document Json_format v 5 5 \<and> dr_humidity v \<le> 100"
proof -
  have "case generate_all_documents counting one_digit example_generator (\<lambda>_. 5) [''1-a'', ''2-b''] (replicate 8 0) 99 of
      Inr docs \<Rightarrow> docs \<noteq> [] \<and> fst (hd docs) = ''1-a'' | Inl _ \<Rightarrow> False"
    by code_simp
  then obtain docs where docs: "generate_all_documents counting one_digit example_generator (\<lambda>_. 5) [''1-a'', ''2-b'']
      (replicate 8 0) 99 = Inr docs" "docs \<noteq> []" "fst (hd docs) = ''1-a''" by (auto split: sum.splits)
  have mem: "(''1-a'', snd (hd docs)) \<in> set docs" using docs(2,3) list.set_sel(1) [of docs] by (cases "hd docs") simp
  show ?thesis
    using generated_values_in_range [OF counting_in_bounds docs(1) mem] docs(1) mem by (auto simp: example_generator_def)
qed

text \<open>Two threads whose draws interleave give other documents than one after the other.\<close>

definition two_documents :: "nat list \<Rightarrow> thread list" where
  "two_documents sched =
     fst (run_threads counting (document_seed one_digit example_generator) document_ranges sched
       ([new_thread [''1-a''], new_thread [''2-b'']], 99))"

lemma interleaved_documents_differ:
  "map th_todo (two_documents [0, 0, 0, 0, 1, 1, 1, 1]) = [[], []]"
  "map th_todo (two_documents [0, 1, 0, 0, 0, 1, 1, 1]) = [[], []]"
  "two_documents [0, 1, 0, 0, 0, 1, 1, 1] \<noteq> two_documents [0, 0, 0, 0, 1, 1, 1, 1]"
  by code_simp+

text \<open>An update of a generated document counts its version and keeps its humidity below 100.\<close>

lemma update_of_generated:
  "\<exists>d. updated_document Json_format r now (generated_document Json_format v created modified) = Inr d
    \<and> rbind (py_item d ''metadata'') (\<lambda>m. py_item m ''version'') = Inr (JInt 2)
    \<and> rbind (py_item d ''data'') (\<lambda>m. py_item m ''humidity'') = Inr (JInt ((dr_humidity v + dr_humidity r) mod 100))"
  by (simp add: updated_document_def generated_document_def new_data_def new_version_def change_key_def set_key_def
      data_of_def metadata_of_def d_item_def py_number_def add_int_def mod_100_def result_simps)

end
