(* ===== verification/Connections.thy ===== *)
theory Connections
  imports Provision Clusters EdgeServer RequestBodies
begin

text \<open>
  How the client reaches the servers: the sessions and URLs of a Sync Gateway and an Edge Server client
  (the constructors in \<open>api/syncgateway.py\<close> and \<open>api/edgeserver.py\<close>), the certificates of multipeer
  replicators (\<open>api/x509_certificate.py\<close>), and the check that large files are there (\<open>utils.py\<close>).
  \<open>urljoin\<close>, the header for basic authentication and \<open>ssl\<close> are parameters; a session is the values it
  is made with.
\<close>

section \<open>Sessions\<close>

text \<open>Whom a connection trusts, and the certificate and key it shows; host names are never checked.\<close>

datatype trust = Trust_text string | Trust_file path

record tls_context =
  tc_trust :: trust
  tc_client :: "(path \<times> path) option"

record client_session =
  cs_base :: string
  cs_authorization :: "string option"
  cs_tls :: "tls_context option"

section \<open>Sync Gateway\<close>

record gateway_base =
  gb_http_url :: string
  gb_replication_url :: string
  gb_secure :: bool
  gb_hostname :: string
  gb_port :: json
  gb_session :: client_session

definition SyncGateway_create_session ::
    "string \<Rightarrow> bool \<Rightarrow> string \<Rightarrow> string \<Rightarrow> json \<Rightarrow> string option \<Rightarrow> client_session" where
  "SyncGateway_create_session ca_cert secure scheme url port auth_header =
     \<lparr> cs_base = scheme @ url @ '':'' @ port_str port, cs_authorization = auth_header,
       cs_tls = (if secure then Some \<lparr> tc_trust = Trust_text ca_cert, tc_client = None \<rparr> else None) \<rparr>"

definition SyncGatewayBase_init ::
    "string \<Rightarrow> (string \<Rightarrow> string \<Rightarrow> string) \<Rightarrow> string \<Rightarrow> string \<Rightarrow> string \<Rightarrow> json \<Rightarrow> bool \<Rightarrow> gateway_base" where
  "SyncGatewayBase_init ca_cert basic_auth url username password port secure =
     (let scheme = (if secure then ''https://'' else ''http://''); ws_scheme = (if secure then ''wss://'' else ''ws://'')
      in \<lparr> gb_http_url = scheme @ url @ '':'' @ port_str port, gb_replication_url = ws_scheme @ url @ '':4984'',
           gb_secure = secure, gb_hostname = url, gb_port = port,
           gb_session = SyncGateway_create_session ca_cert secure scheme url port (Some (basic_auth username password)) \<rparr>)"

definition SyncGateway_scheme :: "gateway_base \<Rightarrow> string" where
  "SyncGateway_scheme g = (if gb_secure g then ''https://'' else ''http://'')"

text \<open>\<open>server_certificate\<close> asks the server.\<close>

definition SyncGateway_tls_cert ::
    "(string \<Rightarrow> json \<Rightarrow> ('w, string) io) \<Rightarrow> gateway_base \<Rightarrow> ('w, string option) io" where
  "SyncGateway_tls_cert server_certificate g =
     (if \<not> gb_secure g then io_return None
      else io_bind (server_certificate (gb_hostname g) (gb_port g)) (\<lambda>c. io_return (Some c)))"

text \<open>With a load balancer every occurrence of the host name is replaced, and the URL is never a secure one.\<close>

definition SyncGateway_replication_url ::
    "(string \<Rightarrow> string \<Rightarrow> string) \<Rightarrow> gateway_base \<Rightarrow> string option \<Rightarrow> string option \<Rightarrow> string result" where
  "SyncGateway_replication_url urljoin g name load_balancer =
     rbind (assert_not_null name) (\<lambda>db_name.
       let sgw_address = urljoin (gb_replication_url g) db_name
       in Inr (case load_balancer of
                 None \<Rightarrow> sgw_address
               | Some lb \<Rightarrow> if lb = [] then sgw_address
                   else replace_sub (gb_hostname g) lb (replace_sub ''wss'' ''ws'' sgw_address)))"

section \<open>Edge Server\<close>

record edge_connections =
  ek_scheme :: string
  ek_replication_url :: string
  ek_anonymous :: client_session
  ek_admin :: client_session
  ek_shell :: client_session

text \<open>The session of the shell service has no TLS scheme, but the same TLS context when the server has one.\<close>

definition EdgeServer_create_session ::
    "path \<Rightarrow> edge_config \<Rightarrow> string \<Rightarrow> string \<Rightarrow> int \<Rightarrow> string option \<Rightarrow> client_session" where
  "EdgeServer_create_session home c scheme url port auth_header =
     (let dir = home @ [''.cbl_certs'']
      in \<lparr> cs_base = scheme @ url @ '':'' @ int_str port, cs_authorization = auth_header,
           cs_tls = (if ec_secure c
                     then Some \<lparr> tc_trust = Trust_file (dir @ [''ca_cert.pem'']),
                                 tc_client = (if ec_mtls c then Some (dir @ [''client_cert.pem''], dir @ [''client_key.pem''])
                                              else None) \<rparr>
                     else None) \<rparr>)"

definition EdgeServer_connect ::
    "path \<Rightarrow> (string \<Rightarrow> string \<Rightarrow> string) \<Rightarrow> string \<Rightarrow> string \<Rightarrow> string \<Rightarrow> edge_config \<Rightarrow> edge_connections" where
  "EdgeServer_connect home basic_auth url admin_user admin_password c =
     (let scheme = (if ec_secure c then ''https://'' else ''http://''); session = EdgeServer_create_session home c
      in \<lparr> ek_scheme = scheme,
           ek_replication_url = (if ec_secure c then ''wss://'' else ''ws://'') @ url @ '':'' @ int_str (ec_port c),
           ek_anonymous = session scheme url (ec_port c) None,
           ek_admin = session scheme url (ec_port c) (Some (basic_auth admin_user admin_password)),
           ek_shell = session ''http://'' url 20001 None \<rparr>)"

definition EdgeServer_replication_url ::
    "(string \<Rightarrow> string \<Rightarrow> string) \<Rightarrow> edge_connections \<Rightarrow> string option \<Rightarrow> string result" where
  "EdgeServer_replication_url urljoin k name =
     rbind (assert_not_null name) (\<lambda>db_name. Inr (urljoin (ek_replication_url k) db_name))"

section \<open>Certificates of peers\<close>

text \<open>Both are valid for a day; only the first may sign others.\<close>

definition create_ca_certificate :: "('w, 'key) crypto \<Rightarrow> string \<Rightarrow> ('w, 'key x509_key_pair) io" where
  "create_ca_certificate cy CN = create_cert cy CN None True [] 1"

definition create_leaf_certificate ::
    "('w, 'key) crypto \<Rightarrow> string \<Rightarrow> 'key x509_key_pair option \<Rightarrow> ('w, 'key x509_key_pair) io" where
  "create_leaf_certificate cy CN issuer_data = create_cert cy CN issuer_data False [''CLIENT_AUTH'', ''SERVER_AUTH''] 1"

section \<open>Large files\<close>

text \<open>
  \<open>os_name\<close> and \<open>sys_platform\<close> are those of \<open>os\<close> and \<open>sys\<close>; what is not JSON, or has no list of files, is an
  error of its own.
\<close>

fun checked_out :: "json list \<Rightarrow> unit result" where
  "checked_out [] = Inr ()"
| "checked_out (f # fs) =
     rbind (py_item f ''checkout'') (\<lambda>c. if c = JBool False then Inl RuntimeError else checked_out fs)"

definition verify_lfs_checkout :: "'w host \<Rightarrow> (string \<Rightarrow> json result) \<Rightarrow> string \<Rightarrow> string \<Rightarrow> ('w, unit) io" where
  "verify_lfs_checkout h loads os_name sys_platform =
     (if os_name = ''nt'' \<or> prefix ''linux'' sys_platform then io_return ()
      else io_bind (ho_run h (command_of [''git'', ''lfs'', ''ls-files'', ''--json''])) (\<lambda>r.
           if pr_code r \<noteq> 0 then io_raise RuntimeError
           else io_lift (
             case loads (pr_stdout r) of
               Inl e \<Rightarrow> Inl RuntimeError
             | Inr lfs \<Rightarrow> rbind (py_item lfs ''files'') (\<lambda>files.
                 if \<not> truthy files then Inr () else rbind (list_of files) checked_out))))"

section \<open>Where connections go\<close>

text \<open>What is set up on a machine is what the client asks for: the files of the last Edge Server.\<close>

lemma edge_session_files:
  assumes "ec_secure c" "ec_mtls c"
  shows "\<exists>t ca cert key. cs_tls (ek_anonymous (EdgeServer_connect (rm_home rm) auth url user password c)) = Some t
    \<and> tc_trust t = Trust_file ca \<and> tc_client t = Some (cert, key)
    \<and> {Write_file ca (CertKeyPair_pem_bytes cy (edc_ca e)), Write_file cert (CertKeyPair_pem_bytes cy (edc_client e)),
        Write_file key (CertKeyPair_private_pem_bytes cy (edc_client e))} \<subseteq> set (client_certificate_files rm cy e)"
  using assms by (simp add: EdgeServer_connect_def EdgeServer_create_session_def client_certificate_files_def Let_def)

text \<open>A Sync Gateway is asked with TLS exactly when its URLs say so, always with the credentials.\<close>

lemma gateway_session_consistent:
  fixes ca auth url user password port secure
  defines "g \<equiv> SyncGatewayBase_init ca auth url user password port secure"
  shows "cs_base (gb_session g) = gb_http_url g" "(cs_tls (gb_session g) \<noteq> None) = secure"
    "cs_authorization (gb_session g) = Some (auth user password)"
    "gb_http_url g = SyncGateway_scheme g @ gb_hostname g @ '':'' @ port_str (gb_port g)"
  by (simp_all add: g_def SyncGatewayBase_init_def SyncGateway_create_session_def SyncGateway_scheme_def Let_def)

text \<open>
  Behind a load balancer the name of the host is replaced in the name of the database too, and a part of
  either that reads \<open>wss\<close>.
\<close>

definition joined :: "string \<Rightarrow> string \<Rightarrow> string" where
  "joined base name = base @ ''/'' @ name"

lemma load_balancer_renames_database:
  "SyncGateway_replication_url joined
     (SyncGatewayBase_init ca auth ''sg'' user password (JInt 4984) True) (Some ''sgdb'') (Some ''lb'')
   = Inr ''ws://lb:4984/lbdb''"
  "SyncGateway_replication_url joined
     (SyncGatewayBase_init ca auth ''sg'' user password (JInt 4984) True) (Some ''newssite'') (Some ''lb'')
   = Inr ''ws://lb:4984/newsite''"
  by (simp_all add: SyncGateway_replication_url_def SyncGatewayBase_init_def joined_def assert_not_null_def
      result_simps Let_def prefix_def)

text \<open>A leaf made with a certificate authority is signed by its key, names it as issuer, and may not sign.\<close>

lemma leaf_of_authority:
  assumes "create_ca_certificate cy cn w0 = (Inr ca, w1)" "create_leaf_certificate cy leaf_cn (Some ca) w = (Inr p, w')"
  shows "ct_ca (ckp_certificate ca)" "\<not> ct_ca (ckp_certificate p)" "ct_issuer (ckp_certificate p) = cn"
    "ct_signed_by (ckp_certificate p) = ct_key (ckp_certificate ca)"
  using assms
  by (auto simp: create_ca_certificate_def create_leaf_certificate_def dest!: create_cert_Inr)

end
