(* ===== verification/Spec2Isabelle.thy ===== *)
theory Spec2Isabelle
  imports PyStrings Attempts Json ReplTypes RequestBodies Responses Registry HttpLog Router Transport
    Replicator Database SgwTypes SyncGateway GatewayAdmin DocsCompare EdgeServer Topology ConfigParser Greenboard
    PyAst Markers MarkerTracing Multiplatform CouchbaseServer Bridges TestServers Clusters TestClient
    Provision Backend Tools LocalEnv Pipelines PipelineScripts
    Archives JsonGenerator Connections
begin

text \<open>
  The client library, environment set-up and repository scripts of the end-to-end tests for
  Couchbase Lite, Sync Gateway and Edge Server (\<open>client/src/cbltest\<close>, \<open>environment\<close>,
  \<open>jenkins/pipelines\<close>, \<open>scripts\<close>).

  \<^bold>\<open>The program.\<close>  A test drives \<^emph>\<open>test servers\<close> (applications on devices, one per platform) through the
  request factory: a request class is found by its kind and the API version of the server, its body
  is serialised, sent over HTTP or over a websocket that the router shares, and the reply becomes a
  response object or an exception.  On top stand the classes a test uses: \<open>Database\<close>, \<open>Replicator\<close>,
  \<open>MultipeerReplicator\<close>, \<open>Listener\<close>.  Beside it stand clients for Sync Gateway and Edge Server that
  speak REST, helpers that compare documents of both sides, the parser of the configuration, the
  uploader of results, and a static check that tests declare the topology they use.  Before a test
  stands its environment: a topology file says which machines and test servers are wanted, terraform
  makes the machines, the provisioning scripts install the servers on them by ssh, the test servers are
  built or downloaded and started through the bridges to their devices, and the configuration that is
  written tells the client where everything is.  Pipelines write the topology; a local environment does
  without machines.

  \<^bold>\<open>Conventions.\<close>  Strings are lists of ASCII characters; a dictionary is an association list in
  insertion order; JSON values are the datatype \<open>json\<close>.  Code that may raise has type
  \<open>'a result = py_exc + 'a\<close>; code with effects is a function from the world before to a result and
  the world after (\<open>('w, 'a) io\<close>), where the world is a parameter when the effect is outside the
  program (network, clock, files) and a record of the object's fields otherwise.  Exceptions carry
  their class, and the status code where the program reads it; messages are left out.

  \<^bold>\<open>Theories\<close> (source files under \<open>client/src/cbltest\<close> unless said otherwise):
  \<^item> \<open>Prelude\<close>: exceptions, results, worlds, dictionaries and the interface \<open>dict_ops\<close>; \<open>PyStrings\<close>:
    the string methods and URL paths the program uses; \<open>Attempts\<close>: bounded retry loops (locale).
  \<^item> \<open>Json\<close> (\<open>jsonhelper.py\<close>, \<open>assertions.py\<close>): typed readers and \<open>json_equivalent\<close>, characterised by
    the positions of the left value.
  \<^item> \<open>ReplTypes\<close> (\<open>api/replicator_types.py\<close>, error and multipeer types): value types of replication,
    their string forms and the equality of expected document events.
  \<^item> \<open>RequestBodies\<close> (\<open>request_types.py\<close>, \<open>v1/requests.py\<close>, \<open>v2/requests.py\<close>): the bodies and the
    refinement of version 1 updates by version 2 ones; \<open>Responses\<close> (\<open>response_types.py\<close>,
    \<open>responses.py\<close>, \<open>v1/responses.py\<close>); \<open>Registry\<close> (\<open>requests.py\<close>): registration, versions, creation.
  \<^item> \<open>Router\<close> (\<open>websocket_router.py\<close>): the table of pending requests as a state machine with
    reachable states; \<open>Transport\<close> (\<open>requests_transport.py\<close>, \<open>requests.py\<close>) and \<open>HttpLog\<close>
    (\<open>httplog.py\<close>): sending, reading replies and what is logged.
  \<^item> \<open>Replicator\<close> (\<open>api/replicator.py\<close>, \<open>multipeer_replicator.py\<close>, \<open>listener.py\<close>): the wait loops;
    \<open>Database\<close> (\<open>api/database.py\<close>): the updaters and the operations.
  \<^item> \<open>SgwTypes\<close>, \<open>SyncGateway\<close>, \<open>GatewayAdmin\<close> (\<open>api/syncgateway.py\<close>): data, documents and databases,
    administration; \<open>EdgeServer\<close> (\<open>api/edgeserver.py\<close>); \<open>DocsCompare\<close> (\<open>api/test_functions.py\<close>,
    \<open>utils.py\<close>): the comparison of documents as set equality over identifiers and revisions.
  \<^item> \<open>ConfigParser\<close> (\<open>configparser.py\<close>); \<open>Greenboard\<close> (\<open>greenboarduploader.py\<close> and its fixture):
    counts of a session as an invariant over its reports, and the record of an upgrade.
  \<^item> \<open>CouchbaseServer\<close> (\<open>api/couchbaseserver.py\<close>): buckets, documents, nodes and rebalances, waits;
    \<open>Clusters\<close> (\<open>api/cluster.py\<close>, \<open>syncgatewaycluster.py\<close>): gateways and servers together, and waits over
    all nodes under any schedule; \<open>TestClient\<close> (\<open>__init__.py\<close>, \<open>api/testserver.py\<close>, the base class and the
    markers of tests): the session object, and that markers guarantee what a test then finds.
  \<^item> \<open>Connections\<close> (constructors and URLs in \<open>api/syncgateway.py\<close> and \<open>api/edgeserver.py\<close>,
    \<open>api/x509_certificate.py\<close>, \<open>utils.py\<close>): sessions with their TLS contexts, certificates of peers, large files.
  \<^item> \<open>JsonGenerator\<close> (\<open>api/json_generator.py\<close>): documents from a random generator that threads share.
  \<^item> \<open>Topology\<close> (\<open>environment/aws/topology_setup/setup_topology.py\<close>): reading with included files,
    machines, starting of servers; \<open>Bridges\<close> and \<open>TestServers\<close> (\<open>test_server.py\<close> and
    \<open>test_server_platforms\<close>): devices, and building, downloading and running of the test servers.
  \<^item> \<open>Provision\<close> (\<open>environment/aws/*_setup\<close>, \<open>common/docker.py\<close>, \<open>x509_certificate.py\<close>): what is done on
    each machine; \<open>Backend\<close> (\<open>start_backend.py\<close>, \<open>stop_backend.py\<close>, \<open>common/terraform.py\<close>): starting and
    stopping, and that the client reads from the written configuration what the topology says; \<open>Tools\<close>
    (\<open>download_tool.py\<close>); \<open>Archives\<close> (\<open>common/io.py\<close>): packing and unpacking as inverse operations.
  \<^item> \<open>LocalEnv\<close> (\<open>environment/local/start_local.py\<close>); \<open>Pipelines\<close> and \<open>PipelineScripts\<close>
    (\<open>jenkins/pipelines\<close>): the versions that were asked for reach the machines; \<open>Multiplatform\<close>
    (\<open>jenkins/pipelines/QE/multiplatform/setup_multiplatform.py\<close>): composing a topology of platforms.
  \<^item> \<open>PyAst\<close>, \<open>Markers\<close>, \<open>MarkerTracing\<close> (\<open>scripts/check_topology_markers.py\<close>): syntax trees, the check,
    and its meaning: acceptance is coverage of everything the traced functions use.

  \<^bold>\<open>Interfaces.\<close>  \<open>dict_ops\<close> is what registries and bodies need of a dictionary (interpreted by the
  association list); the locales of \<open>Attempts\<close> and of the clients are interpreted on the loops and
  request primitives of the model in the theories that define them.

  \<^bold>\<open>Bounds and fuel.\<close>  Loops with a counter in the code recurse on the counter (four attempts to delete
  a database, batches of 501 documents, the polls of replications).  Loops bounded by a clock only
  have fuel and the result \<open>None\<close> without it; that enough fuel exists is proved from a clock that
  advances by the sleep.  Including configuration files has fuel because files may include each
  other; tracing calls has a depth, and one more than the number of functions is enough.

  \<^bold>\<open>Not modelled.\<close>  Packages outside the repository are parameters: tenacity's retries, pydantic's
  validation, \<open>urljoin\<close>, \<open>json5\<close>, the HTTP and websocket libraries, the Couchbase SDK, paramiko (ssh and
  sftp), cryptography (keys and signatures), \<open>packaging\<close>, YAML, click's reading of command lines, and the
  programs that are run: terraform, docker, git, the tools of the devices.  The threads of the local
  environment run their jobs in a given order; those of the document generator and the coroutines of a
  cluster interleave under any schedule.  Log output, progress bars, tracing spans and the texts of
  exceptions are left out, and so are the remaining pytest plugins, which only call the modelled
  classes.  The servers under \<open>servers/\<close> are written in other languages.
\<close>

end
